(* ===== verification/Kernel_Prelude.thy ===== *)
theory Kernel_Prelude
  imports Main "HOL-Library.Word" "HOL-Library.Monad_Syntax"
begin

text \<open>
  Shared vocabulary of the development: names for the machine integers of the i386 target,
  power-of-two alignment, little-endian access to byte memory, and the two shapes of data the
  kernel's components build by hand: doubly linked lists threaded through memory and lists that
  are written at an index. Nothing here is specific to one component.
\<close>

unbundle bit_operations_syntax

type_synonym u8 = "8 word"
type_synonym u16 = "16 word"
type_synonym u32 = "32 word"
type_synonym u64 = "64 word"

named_theorems kdefs \<open>definitions that a component's proofs unfold together\<close>
named_theorems frame_simps \<open>fields an operation leaves alone\<close>

section \<open>Alignment\<close>

text \<open>
  Every file of the kernel that needs it has its own copy of the same expression for rounding up
  or down to a power of two. The copies are definitions of the components; these two are what the
  lemmas are about.
\<close>

definition align_up_word :: "'a::len word \<Rightarrow> 'a word \<Rightarrow> 'a word" where
  "align_up_word v a = (v + (a - 1)) AND NOT (a - 1)"

definition align_down_word :: "'a::len word \<Rightarrow> 'a word \<Rightarrow> 'a word" where
  "align_down_word v a = v AND NOT (a - 1)"

section \<open>Doubly linked lists\<close>

text \<open>
  \<open>dseg nx pv p xs q\<close>: the nodes \<open>xs\<close> are linked in this order by the field reads
  \<open>nx\<close> and \<open>pv\<close>; \<open>p\<close> is what the first node has as its predecessor and \<open>q\<close> what
  the last one has as its successor.
\<close>

fun dseg :: "('a \<Rightarrow> 'a) \<Rightarrow> ('a \<Rightarrow> 'a) \<Rightarrow> 'a \<Rightarrow> 'a list \<Rightarrow> 'a \<Rightarrow> bool" where
  "dseg nx pv p [] q \<longleftrightarrow> True"
| "dseg nx pv p (x # xs) q \<longleftrightarrow> pv x = p \<and> nx x = hd (xs @ [q]) \<and> dseg nx pv x xs q"

section \<open>The end of a list\<close>

definition last_n :: "nat \<Rightarrow> 'a list \<Rightarrow> 'a list" where
  "last_n n xs = drop (length xs - n) xs"

lemma last_n_append_last_n: "last_n n (last_n n xs @ ys) = last_n n (xs @ ys)"
  by (cases "length xs \<le> n") (simp_all add: last_n_def add.commute)

section \<open>Little-endian bytes\<close>

definition le16 :: "u8 \<Rightarrow> u8 \<Rightarrow> u16" where
  "le16 b0 b1 = (ucast b0 :: u16) OR push_bit 8 (ucast b1 :: u16)"

definition le32 :: "u8 \<Rightarrow> u8 \<Rightarrow> u8 \<Rightarrow> u8 \<Rightarrow> u32" where
  "le32 b0 b1 b2 b3 =
     (ucast b0 :: u32) OR push_bit 8 (ucast b1 :: u32) OR
     push_bit 16 (ucast b2 :: u32) OR push_bit 24 (ucast b3 :: u32)"

definition load32 :: "(u32 \<Rightarrow> u8) \<Rightarrow> u32 \<Rightarrow> u32" where
  "load32 m a = le32 (m a) (m (a + 1)) (m (a + 2)) (m (a + 3))"

definition store32 :: "u32 \<Rightarrow> u32 \<Rightarrow> (u32 \<Rightarrow> u8) \<Rightarrow> u32 \<Rightarrow> u8" where
  "store32 a v m = m(a := ucast v, a + 1 := ucast (drop_bit 8 v),
                     a + 2 := ucast (drop_bit 16 v), a + 3 := ucast (drop_bit 24 v))"

section \<open>Lemmas on alignment\<close>

lemma unat_and_not_mask:
  fixes x :: "'a::len word"
  shows "unat (x AND NOT (mask k)) = unat x - unat x mod 2 ^ k"
proof -
  have "x = (x AND NOT (mask k)) OR (x AND mask k)"
    by (rule bit_word_eqI) (auto simp: bit_simps)
  also have "\<dots> = (x AND NOT (mask k)) + (x AND mask k)"
    by (rule disjunctive_add [symmetric]) (auto simp: bit_simps)
  finally have e: "x - take_bit k x = x AND NOT (mask k)"
    by (metis add_diff_cancel_right' take_bit_eq_mask)
  have u: "unat (take_bit k x) = unat x mod 2 ^ k"
    by (metis take_bit_eq_mod unsigned_take_bit_eq)
  then have "take_bit k x \<le> x"
    by (simp only: word_le_nat_alt u) simp
  then have "unat (x - take_bit k x) = unat x - unat (take_bit k x)"
    by (rule unat_sub)
  then show ?thesis by (simp only: e u)
qed

lemma unat_align_down:
  fixes v :: "'a::len word"
  shows "unat (align_down_word v (2 ^ k)) = unat v div 2 ^ k * 2 ^ k"
  unfolding align_down_word_def mask_eq_exp_minus_1 [symmetric] unat_and_not_mask
  by (simp add: minus_mod_eq_div_mult)

lemma unat_align_up:
  fixes v :: "'a::len word"
  shows "unat (align_up_word v (2 ^ k)) = unat (v + mask k) div 2 ^ k * 2 ^ k"
  unfolding align_up_word_def mask_eq_exp_minus_1 [symmetric] unat_and_not_mask
  by (simp add: minus_mod_eq_div_mult)

lemma unat_and_mask:
  fixes x :: "'a::len word"
  shows "unat (x AND mask k) = unat x mod 2 ^ k"
  by (metis take_bit_eq_mask take_bit_eq_mod unsigned_take_bit_eq)

lemma and_mask_eq_0_iff:
  fixes x :: "'a::len word"
  shows "x AND mask k = 0 \<longleftrightarrow> unat x mod 2 ^ k = 0"
  by (metis unat_and_mask unat_eq_zero)

section \<open>Lemmas on 32-bit values\<close>

lemma u32_less: "unat (x :: u32) < 4294967296"
  using unsigned_less [of x, where ?'a = nat] by simp

lemma unat_add_small:
  "unat (x :: u32) + unat y < 4294967296 \<Longrightarrow> unat (x + y) = unat x + unat y"
  by (simp add: unat_word_ariths)

lemma unat_word_of_nat_add:
  "a + unat (n :: u32) < 4294967296 \<Longrightarrow> unat (word_of_nat a + n) = a + unat n"
  by (subst unat_add_small) (simp_all add: unat_of_nat)

lemma unat_saturating_add:
  fixes u n :: u32
  shows "unat (if u > 0xFFFFFFFF - n then 0xFFFFFFFF else u + n) = min (unat u + unat n) (2 ^ 32 - 1)"
proof -
  have "unat (0xFFFFFFFF - n) = 4294967295 - unat n"
    using u32_less [of n] by (simp add: unat_sub word_le_nat_alt)
  then have "u > 0xFFFFFFFF - n \<longleftrightarrow> 4294967295 - unat n < unat u" by (simp add: word_less_nat_alt)
  moreover have "unat u + unat n < 4294967296 \<Longrightarrow> unat (u + n) = unat u + unat n"
    by (rule unat_add_small)
  ultimately show ?thesis using u32_less [of n] by (cases "u > 0xFFFFFFFF - n") auto
qed

section \<open>Lemmas on doubly linked lists\<close>

lemma dseg_append:
  "dseg nx pv p (xs @ ys) q \<longleftrightarrow>
     dseg nx pv p xs (hd (ys @ [q])) \<and> dseg nx pv (last (p # xs)) ys q"
proof (induction xs arbitrary: p)
  case (Cons x xs)
  then show ?case by (cases xs) auto
qed simp

lemma dseg_cong:
  "(\<And>x. x \<in> set xs \<Longrightarrow> nx' x = nx x \<and> pv' x = pv x) \<Longrightarrow>
     dseg nx' pv' p xs q = dseg nx pv p xs q"
  by (induction xs arbitrary: p) auto

lemma dseg_next_nth:
  "dseg nx pv p xs q \<Longrightarrow> i < length xs \<Longrightarrow> nx (xs ! i) = (xs @ [q]) ! Suc i"
proof (induction xs arbitrary: p i)
  case (Cons x xs)
  then show ?case
    by (cases i) (auto simp: hd_conv_nth)
qed simp

lemma dseg_change_last:
  "xs \<noteq> [] \<Longrightarrow> distinct xs \<Longrightarrow> dseg nx pv p xs q \<Longrightarrow>
     dseg (nx(last xs := q')) pv p xs q'"
proof (induction xs arbitrary: p)
  case (Cons x xs)
  show ?case
  proof (cases xs)
    case Nil
    with Cons.prems show ?thesis by simp
  next
    case (Cons y ys)
    with Cons.prems Cons.IH [of x] show ?thesis by auto
  qed
qed simp

lemma dseg_change_first:
  "xs \<noteq> [] \<Longrightarrow> distinct xs \<Longrightarrow> dseg nx pv p xs q \<Longrightarrow>
     dseg nx (pv(hd xs := p')) p' xs q"
proof (cases xs)
  case (Cons x ys)
  assume "distinct xs" "dseg nx pv p xs q"
  then have "dseg nx pv x ys q" and "x \<notin> set ys" and "nx x = hd (ys @ [q])"
    using Cons by auto
  moreover have "dseg nx (pv(x := p')) x ys q = dseg nx pv x ys q"
    using \<open>x \<notin> set ys\<close> by (intro dseg_cong) auto
  ultimately have "dseg nx (pv(x := p')) x ys q" by simp
  with Cons \<open>nx x = hd (ys @ [q])\<close> show ?thesis by simp
qed simp

lemma dseg_unlink:
  assumes "dseg nx pv p (xs @ b # ys) q" "distinct (xs @ b # ys)"
  shows "dseg (if xs = [] then nx else nx(last xs := hd (ys @ [q])))
              (if ys = [] then pv else pv(hd ys := last (p # xs))) p (xs @ ys) q"
    (is "dseg ?nx ?pv p _ q")
proof -
  have x: "dseg nx pv p xs b" and y: "dseg nx pv b ys q" and d: "distinct xs" "distinct ys"
    and xy: "set xs \<inter> set ys = {}"
    using assms by (auto simp: dseg_append)
  then have e: "xs \<noteq> [] \<Longrightarrow> last xs \<notin> set ys" "ys \<noteq> [] \<Longrightarrow> hd ys \<notin> set xs"
    by (meson disjoint_iff last_in_set list.set_sel(1))+
  have "dseg ?nx ?pv p xs (hd (ys @ [q]))"
  proof (cases "xs = []")
    case False
    have "dseg (nx(last xs := hd (ys @ [q]))) pv p xs (hd (ys @ [q]))"
      using False d(1) x by (rule dseg_change_last)
    then show ?thesis using False e by (subst dseg_cong) auto
  qed simp
  moreover have "dseg ?nx ?pv (last (p # xs)) ys q"
  proof (cases "ys = []")
    case False
    have "dseg nx (pv(hd ys := last (p # xs))) (last (p # xs)) ys q"
      using False d(2) y by (rule dseg_change_first)
    then show ?thesis using False e by (subst dseg_cong) auto
  qed simp
  ultimately show ?thesis by (simp add: dseg_append)
qed

lemma dseg_link:
  assumes "dseg nx pv p (xs @ ys) q" "distinct (xs @ b # ys)"
  shows "dseg ((if xs = [] then nx else nx(last xs := b))(b := hd (ys @ [q])))
              ((if ys = [] then pv else pv(hd ys := b))(b := last (p # xs))) p (xs @ b # ys) q"
    (is "dseg ?nx ?pv p _ q")
proof -
  have x: "dseg nx pv p xs (hd (ys @ [q]))" and y: "dseg nx pv (last (p # xs)) ys q"
    and d: "distinct xs" "distinct ys" "b \<notin> set xs" "b \<notin> set ys" and xy: "set xs \<inter> set ys = {}"
    using assms by (auto simp: dseg_append)
  then have e: "xs \<noteq> [] \<Longrightarrow> last xs \<notin> set ys" "ys \<noteq> [] \<Longrightarrow> hd ys \<notin> set xs"
    by (meson disjoint_iff last_in_set list.set_sel(1))+
  have "dseg ?nx ?pv p xs b"
  proof (cases "xs = []")
    case False
    have "dseg (nx(last xs := b)) pv p xs b"
      using False d(1) x by (rule dseg_change_last)
    then show ?thesis using False e d by (subst dseg_cong) auto
  qed simp
  moreover have "dseg ?nx ?pv b ys q"
  proof (cases "ys = []")
    case False
    have "dseg nx (pv(hd ys := b)) b ys q"
      using False d(2) y by (rule dseg_change_first)
    then show ?thesis using False e d by (subst dseg_cong) auto
  qed simp
  ultimately show ?thesis by (simp add: dseg_append)
qed

section \<open>Lemmas on bytes\<close>

lemma load32_store32 [simp]: "load32 (store32 a v m) a = v"
proof -
  have "a + 1 \<noteq> a" "a + 2 \<noteq> a" "a + 3 \<noteq> a" "a + 2 \<noteq> a + 1" "a + 3 \<noteq> a + 1" "a + 3 \<noteq> a + 2"
    by simp_all
  then have "load32 (store32 a v m) a =
      le32 (ucast v) (ucast (drop_bit 8 v)) (ucast (drop_bit 16 v)) (ucast (drop_bit 24 v))"
    by (simp add: load32_def store32_def)
  also have "\<dots> = v"
  proof (rule bit_word_eqI)
    fix n assume n: "n < LENGTH(32)"
    then consider "n < 8" | "8 \<le> n" "n < 16" | "16 \<le> n" "n < 24" | "24 \<le> n" "n < 32"
      by fastforce
    then show "bit (le32 (ucast v) (ucast (drop_bit 8 v)) (ucast (drop_bit 16 v))
        (ucast (drop_bit 24 v))) n = bit v n"
      by cases (auto simp: le32_def bit_simps)
  qed
  finally show ?thesis .
qed

lemma le16_bound: "unat (le16 a b) = unat a + 256 * unat b"
proof -
  have d: "(ucast a :: u16) OR push_bit 8 (ucast b) = ucast a + push_bit 8 (ucast b)"
    by (rule disjunctive_add [symmetric]) (auto simp: bit_simps dest: bit_imp_le_length)
  have a: "unat a < 256" and b: "unat b < 256"
    using unsigned_less [of a, where ?'a = nat] unsigned_less [of b, where ?'a = nat] by simp_all
  then show ?thesis
    unfolding le16_def d
    by (simp add: unat_word_ariths push_bit_eq_mult unsigned_ucast_eq take_bit_eq_mod)
qed

end
