(* ===== verification/Terminal.thy ===== *)
theory Terminal
  imports Kernel_Prelude
begin

text \<open>
  The VGA text terminal (\<^verbatim>\<open>drivers/terminal.c\<close>): an 80 by 25 cell screen, a cursor, a
  scrolling region and a ring of 1024 history lines behind it. The memory-mapped screen and the
  lines of the history are functions from indices to cells; loops over rows and columns are folds
  over the index range. A \<^verbatim>\<open>size_t\<close> is a natural number, and the sums and differences of
  arguments that can leave 32 bits are reduced explicitly.

  The lemmas show that the region of the screen is always the window of the history that the view
  offset selects, and that writing text is what an abstract terminal, a list of lines and a
  cursor, does.
\<close>

section \<open>State\<close>

abbreviation (input) VGA_WIDTH :: nat where "VGA_WIDTH \<equiv> 80"
abbreviation (input) VGA_HEIGHT :: nat where "VGA_HEIGHT \<equiv> 25"

definition TERMINAL_SCROLLBACK_LINES :: nat where
  "TERMINAL_SCROLLBACK_LINES = 1024"

datatype vga_color =
    VGA_COLOR_BLACK | VGA_COLOR_BLUE | VGA_COLOR_GREEN | VGA_COLOR_CYAN
  | VGA_COLOR_RED | VGA_COLOR_MAGENTA | VGA_COLOR_BROWN | VGA_COLOR_LIGHT_GREY
  | VGA_COLOR_DARK_GREY | VGA_COLOR_LIGHT_BLUE | VGA_COLOR_LIGHT_GREEN | VGA_COLOR_LIGHT_CYAN
  | VGA_COLOR_LIGHT_RED | VGA_COLOR_LIGHT_MAGENTA | VGA_COLOR_YELLOW | VGA_COLOR_WHITE

fun vga_color_code :: "vga_color \<Rightarrow> u8" where
  "vga_color_code VGA_COLOR_BLACK = 0"
| "vga_color_code VGA_COLOR_BLUE = 1"
| "vga_color_code VGA_COLOR_GREEN = 2"
| "vga_color_code VGA_COLOR_CYAN = 3"
| "vga_color_code VGA_COLOR_RED = 4"
| "vga_color_code VGA_COLOR_MAGENTA = 5"
| "vga_color_code VGA_COLOR_BROWN = 6"
| "vga_color_code VGA_COLOR_LIGHT_GREY = 7"
| "vga_color_code VGA_COLOR_DARK_GREY = 8"
| "vga_color_code VGA_COLOR_LIGHT_BLUE = 9"
| "vga_color_code VGA_COLOR_LIGHT_GREEN = 10"
| "vga_color_code VGA_COLOR_LIGHT_CYAN = 11"
| "vga_color_code VGA_COLOR_LIGHT_RED = 12"
| "vga_color_code VGA_COLOR_LIGHT_MAGENTA = 13"
| "vga_color_code VGA_COLOR_YELLOW = 14"
| "vga_color_code VGA_COLOR_WHITE = 15"

record terminal_globals =
  terminal_row :: nat
  terminal_column :: nat
  terminal_color :: u8
  terminal_buffer :: "nat \<Rightarrow> u16"
  region_top :: nat
  region_bottom :: nat
  terminal_scrollback_history :: "nat \<Rightarrow> nat \<Rightarrow> u16"
  terminal_scrollback_head :: nat
  terminal_scrollback_count :: nat
  terminal_scrollback_view_offset :: nat
  terminal_scrollback_syncing :: bool

definition vga_entry :: "char \<Rightarrow> u8 \<Rightarrow> u16" where
  "vga_entry c color = (of_char c :: u16) OR push_bit 8 (ucast color)"

definition size_add :: "nat \<Rightarrow> nat \<Rightarrow> nat" where
  "size_add a b = (a + b) mod 2 ^ 32"

definition size_sub :: "nat \<Rightarrow> nat \<Rightarrow> nat" where
  "size_sub a b = (a + (2 ^ 32 - b)) mod 2 ^ 32"

text \<open>A store to a screen cell and to a cell of a history line.\<close>

definition buffer_set :: "nat \<Rightarrow> u16 \<Rightarrow> 'a terminal_globals_scheme \<Rightarrow> 'a terminal_globals_scheme" where
  "buffer_set i v s = s\<lparr>terminal_buffer := (terminal_buffer s)(i := v)\<rparr>"

definition line_set ::
  "nat \<Rightarrow> nat \<Rightarrow> u16 \<Rightarrow> 'a terminal_globals_scheme \<Rightarrow> 'a terminal_globals_scheme" where
  "line_set line x v s =
     (let h = terminal_scrollback_history s
      in s\<lparr>terminal_scrollback_history := h(line := (h line)(x := v))\<rparr>)"

section \<open>The scrollback ring\<close>

definition terminal_region_height :: "'a terminal_globals_scheme \<Rightarrow> nat" where
  "terminal_region_height s = region_bottom s - region_top s + 1"

definition terminal_scrollback_logical_to_physical :: "nat \<Rightarrow> 'a terminal_globals_scheme \<Rightarrow> nat" where
  "terminal_scrollback_logical_to_physical logical_index s =
     (terminal_scrollback_head s + logical_index) mod TERMINAL_SCROLLBACK_LINES"

definition terminal_scrollback_max_offset :: "'a terminal_globals_scheme \<Rightarrow> nat" where
  "terminal_scrollback_max_offset s =
     (let region_height = terminal_region_height s
      in if terminal_scrollback_count s \<le> region_height then 0
         else terminal_scrollback_count s - region_height)"

definition terminal_scrollback_visible_top_logical ::
  "'a terminal_globals_scheme \<Rightarrow> nat \<times> 'a terminal_globals_scheme" where
  "terminal_scrollback_visible_top_logical s =
     (let region_height = terminal_region_height s
      in if terminal_scrollback_count s \<le> region_height then (0, s)
         else
           let max_offset = terminal_scrollback_max_offset s;
               s = (if terminal_scrollback_view_offset s > max_offset
                    then s\<lparr>terminal_scrollback_view_offset := max_offset\<rparr> else s)
           in ((terminal_scrollback_count s - region_height) - terminal_scrollback_view_offset s, s))"

definition terminal_scrollback_fill_blank_line ::
  "nat \<Rightarrow> 'a terminal_globals_scheme \<Rightarrow> 'a terminal_globals_scheme" where
  "terminal_scrollback_fill_blank_line line s =
     fold (\<lambda>x s. line_set line x (vga_entry CHR '' '' (terminal_color s)) s) [0..<VGA_WIDTH] s"

definition terminal_scrollback_line_slot :: "nat \<Rightarrow> 'a terminal_globals_scheme \<Rightarrow> nat" where
  "terminal_scrollback_line_slot logical_index s =
     terminal_scrollback_logical_to_physical logical_index s"

definition terminal_scrollback_append_blank_line ::
  "'a terminal_globals_scheme \<Rightarrow> nat \<times> 'a terminal_globals_scheme" where
  "terminal_scrollback_append_blank_line s =
     (if terminal_scrollback_count s < TERMINAL_SCROLLBACK_LINES
      then
        let physical_index =
              terminal_scrollback_logical_to_physical (terminal_scrollback_count s) s;
            s = s\<lparr>terminal_scrollback_count := terminal_scrollback_count s + 1\<rparr>
        in (physical_index, terminal_scrollback_fill_blank_line physical_index s)
      else
        let s = s\<lparr>terminal_scrollback_head :=
                    (terminal_scrollback_head s + 1) mod TERMINAL_SCROLLBACK_LINES\<rparr>;
            physical_index =
              terminal_scrollback_logical_to_physical (terminal_scrollback_count s - 1) s
        in (physical_index, terminal_scrollback_fill_blank_line physical_index s))"

definition terminal_scrollback_reset_line ::
  "nat \<Rightarrow> 'a terminal_globals_scheme \<Rightarrow> 'a terminal_globals_scheme" where
  "terminal_scrollback_reset_line y s =
     (let (line, s) = terminal_scrollback_append_blank_line s
      in fold (\<lambda>x s. line_set line x (terminal_buffer s ((region_top s + y) * VGA_WIDTH + x)) s)
           [0..<VGA_WIDTH] s)"

definition terminal_scrollback_reset_history ::
  "'a terminal_globals_scheme \<Rightarrow> 'a terminal_globals_scheme" where
  "terminal_scrollback_reset_history s =
     (let region_height = terminal_region_height s;
          s = s\<lparr>terminal_scrollback_head := 0, terminal_scrollback_count := 0,
                terminal_scrollback_view_offset := 0, terminal_scrollback_syncing := False\<rparr>
      in fold terminal_scrollback_reset_line [0..<region_height] s)"

definition terminal_scrollback_sync_row ::
  "nat \<Rightarrow> nat \<Rightarrow> 'a terminal_globals_scheme \<Rightarrow> 'a terminal_globals_scheme" where
  "terminal_scrollback_sync_row top_logical y s =
     (let line = (if top_logical + y < terminal_scrollback_count s
                  then Some (terminal_scrollback_line_slot (top_logical + y) s) else None)
      in fold (\<lambda>x s. buffer_set ((region_top s + y) * VGA_WIDTH + x)
                (case line of
                   Some l \<Rightarrow> terminal_scrollback_history s l x
                 | None \<Rightarrow> vga_entry CHR '' '' (terminal_color s)) s)
           [0..<VGA_WIDTH] s)"

definition terminal_scrollback_sync_region_from_history ::
  "'a terminal_globals_scheme \<Rightarrow> 'a terminal_globals_scheme" where
  "terminal_scrollback_sync_region_from_history s =
     (let region_height = terminal_region_height s;
          (top_logical, s) = terminal_scrollback_visible_top_logical s;
          s = s\<lparr>terminal_scrollback_syncing := True\<rparr>;
          s = fold (terminal_scrollback_sync_row top_logical) [0..<region_height] s
      in s\<lparr>terminal_scrollback_syncing := False\<rparr>)"

definition terminal_scrollback_sync_view_after_scroll ::
  "'a terminal_globals_scheme \<Rightarrow> 'a terminal_globals_scheme" where
  "terminal_scrollback_sync_view_after_scroll s =
     (let s = terminal_scrollback_sync_region_from_history s
      in s\<lparr>terminal_row := region_bottom s, terminal_column := 0\<rparr>)"

definition terminal_scrollback_update_cell ::
  "nat \<Rightarrow> nat \<Rightarrow> u16 \<Rightarrow> 'a terminal_globals_scheme \<Rightarrow> 'a terminal_globals_scheme" where
  "terminal_scrollback_update_cell x y entry s =
     (if y < region_top s \<or> y > region_bottom s \<or> terminal_scrollback_count s = 0 then s
      else
        let (top_logical, s) = terminal_scrollback_visible_top_logical s;
            logical_index = top_logical + (y - region_top s)
        in if logical_index \<ge> terminal_scrollback_count s then s
           else line_set (terminal_scrollback_line_slot logical_index s) x entry s)"

section \<open>Cells, rectangles and the cursor\<close>

primrec kstrlen :: "string \<Rightarrow> nat" where
  "kstrlen [] = 0"
| "kstrlen (c # cs) = (if c = CHR 0x00 then 0 else Suc (kstrlen cs))"

definition terminal_make_color :: "vga_color \<Rightarrow> vga_color \<Rightarrow> u8" where
  "terminal_make_color fg bg = vga_color_code fg OR push_bit 4 (vga_color_code bg)"

definition terminal_setcolor ::
  "vga_color \<Rightarrow> vga_color \<Rightarrow> 'a terminal_globals_scheme \<Rightarrow> 'a terminal_globals_scheme" where
  "terminal_setcolor fg bg s = s\<lparr>terminal_color := terminal_make_color fg bg\<rparr>"

definition terminal_putentryat ::
  "char \<Rightarrow> u8 \<Rightarrow> nat \<Rightarrow> nat \<Rightarrow> 'a terminal_globals_scheme \<Rightarrow> 'a terminal_globals_scheme" where
  "terminal_putentryat c color x y s =
     (if x \<ge> VGA_WIDTH \<or> y \<ge> VGA_HEIGHT then s
      else
        let s = (if \<not> terminal_scrollback_syncing s \<and> y \<ge> region_top s \<and> y \<le> region_bottom s \<and>
                    terminal_scrollback_view_offset s \<noteq> 0
                 then terminal_scrollback_sync_region_from_history
                        (s\<lparr>terminal_scrollback_view_offset := 0\<rparr>)
                 else s);
            s = buffer_set (y * VGA_WIDTH + x) (vga_entry c color) s
        in if \<not> terminal_scrollback_syncing s
           then terminal_scrollback_update_cell x y (vga_entry c color) s else s)"

definition terminal_fill_rect ::
  "nat \<Rightarrow> nat \<Rightarrow> nat \<Rightarrow> nat \<Rightarrow> u8 \<Rightarrow> 'a terminal_globals_scheme \<Rightarrow> 'a terminal_globals_scheme" where
  "terminal_fill_rect x y w h color s =
     fold (\<lambda>yy. fold (\<lambda>xx. terminal_putentryat CHR '' '' color xx yy)
                 [x..<min (size_add x w) VGA_WIDTH])
       [y..<min (size_add y h) VGA_HEIGHT] s"

definition terminal_clear :: "'a terminal_globals_scheme \<Rightarrow> 'a terminal_globals_scheme" where
  "terminal_clear s =
     (let s = terminal_fill_rect 0 0 VGA_WIDTH VGA_HEIGHT (terminal_color s) s
      in terminal_scrollback_reset_history (s\<lparr>terminal_row := 0, terminal_column := 0\<rparr>))"

definition terminal_initialize ::
  "vga_color \<Rightarrow> vga_color \<Rightarrow> 'a terminal_globals_scheme \<Rightarrow> 'a terminal_globals_scheme" where
  "terminal_initialize fg bg s =
     terminal_clear (s\<lparr>terminal_row := 0, terminal_column := 0,
                       terminal_color := terminal_make_color fg bg,
                       region_top := 0, region_bottom := VGA_HEIGHT - 1\<rparr>)"

definition terminal_set_cursor ::
  "nat \<Rightarrow> nat \<Rightarrow> 'a terminal_globals_scheme \<Rightarrow> 'a terminal_globals_scheme" where
  "terminal_set_cursor x y s =
     (let s = (if x < VGA_WIDTH then s\<lparr>terminal_column := x\<rparr> else s)
      in if y < VGA_HEIGHT then s\<lparr>terminal_row := y\<rparr> else s)"

definition terminal_get_row :: "'a terminal_globals_scheme \<Rightarrow> nat" where
  "terminal_get_row s = terminal_row s"

definition terminal_get_column :: "'a terminal_globals_scheme \<Rightarrow> nat" where
  "terminal_get_column s = terminal_column s"

definition terminal_set_region ::
  "nat \<Rightarrow> nat \<Rightarrow> 'a terminal_globals_scheme \<Rightarrow> 'a terminal_globals_scheme" where
  "terminal_set_region upper lower s =
     (let upper = (if upper \<ge> VGA_HEIGHT then VGA_HEIGHT - 1 else upper);
          lower = (if lower \<ge> VGA_HEIGHT then VGA_HEIGHT - 1 else lower);
          (upper, lower) = (if upper > lower then (0, VGA_HEIGHT - 1) else (upper, lower));
          s = s\<lparr>region_top := upper, region_bottom := lower\<rparr>;
          s = (if terminal_row s < region_top s \<or> terminal_row s > region_bottom s
               then s\<lparr>terminal_row := region_top s, terminal_column := 0\<rparr> else s)
      in terminal_scrollback_reset_history s)"

definition terminal_reset_region :: "'a terminal_globals_scheme \<Rightarrow> 'a terminal_globals_scheme" where
  "terminal_reset_region s =
     terminal_scrollback_reset_history (s\<lparr>region_top := 0, region_bottom := VGA_HEIGHT - 1\<rparr>)"

section \<open>Writing text\<close>

definition terminal_scroll :: "'a terminal_globals_scheme \<Rightarrow> 'a terminal_globals_scheme" where
  "terminal_scroll s =
     (let s = (if terminal_scrollback_view_offset s \<noteq> 0
               then s\<lparr>terminal_scrollback_view_offset := 0\<rparr> else s);
          (line, s) = terminal_scrollback_append_blank_line s
      in terminal_scrollback_sync_view_after_scroll s)"

definition terminal_putchar :: "char \<Rightarrow> 'a terminal_globals_scheme \<Rightarrow> 'a terminal_globals_scheme" where
  "terminal_putchar c s =
     (if c = CHR 0x0A
      then
        let s = s\<lparr>terminal_column := 0, terminal_row := terminal_row s + 1\<rparr>
        in if terminal_row s > region_bottom s then terminal_scroll s else s
      else
        let s = terminal_putentryat c (terminal_color s) (terminal_column s) (terminal_row s) s;
            s = s\<lparr>terminal_column := terminal_column s + 1\<rparr>
        in if terminal_column s \<ge> VGA_WIDTH
           then
             let s = s\<lparr>terminal_column := 0, terminal_row := terminal_row s + 1\<rparr>
             in if terminal_row s > region_bottom s then terminal_scroll s else s
           else s)"

primrec terminal_write :: "string \<Rightarrow> 'a terminal_globals_scheme \<Rightarrow> 'a terminal_globals_scheme" where
  "terminal_write [] s = s"
| "terminal_write (c # cs) s =
     (if c = CHR 0x00 then s else terminal_write cs (terminal_putchar c s))"

definition terminal_writeline :: "string \<Rightarrow> 'a terminal_globals_scheme \<Rightarrow> 'a terminal_globals_scheme" where
  "terminal_writeline data s = terminal_putchar (CHR 0x0A) (terminal_write data s)"

fun terminal_writeat_loop ::
  "string \<Rightarrow> nat \<Rightarrow> nat \<Rightarrow> nat \<Rightarrow> 'a terminal_globals_scheme \<Rightarrow> 'a terminal_globals_scheme" where
  "terminal_writeat_loop [] i x y s = s"
| "terminal_writeat_loop (c # cs) i x y s =
     (if c = CHR 0x00 then s
      else if size_add x i \<ge> VGA_WIDTH then s
      else terminal_writeat_loop cs (Suc i) x y
             (terminal_putentryat c (terminal_color s) (size_add x i) y s))"

definition terminal_writeat ::
  "string \<Rightarrow> nat \<Rightarrow> nat \<Rightarrow> 'a terminal_globals_scheme \<Rightarrow> 'a terminal_globals_scheme" where
  "terminal_writeat data x y s = terminal_writeat_loop data 0 x y s"

definition terminal_writecenter ::
  "string \<Rightarrow> nat \<Rightarrow> 'a terminal_globals_scheme \<Rightarrow> 'a terminal_globals_scheme" where
  "terminal_writecenter data y s =
     (let len = kstrlen data;
          x = (if len < VGA_WIDTH then (VGA_WIDTH - len) div 2 else 0)
      in terminal_writeat data x y s)"

definition terminal_draw_hline ::
  "nat \<Rightarrow> char \<Rightarrow> u8 \<Rightarrow> 'a terminal_globals_scheme \<Rightarrow> 'a terminal_globals_scheme" where
  "terminal_draw_hline y c color s =
     (if y \<ge> VGA_HEIGHT then s
      else fold (\<lambda>x. terminal_putentryat c color x y) [0..<VGA_WIDTH] s)"

definition terminal_draw_box ::
  "nat \<Rightarrow> nat \<Rightarrow> nat \<Rightarrow> nat \<Rightarrow> u8 \<Rightarrow> 'a terminal_globals_scheme \<Rightarrow> 'a terminal_globals_scheme" where
  "terminal_draw_box x y w h color s =
     (if w < 2 \<or> h < 2 then s
      else if x \<ge> VGA_WIDTH \<or> y \<ge> VGA_HEIGHT then s
      else
        let w = (if size_add x w > VGA_WIDTH then VGA_WIDTH - x else w);
            h = (if size_add y h > VGA_HEIGHT then VGA_HEIGHT - y else h);
            right = size_sub (size_add x w) 1;
            lower = size_sub (size_add y h) 1;
            s = fold (\<lambda>i s. terminal_putentryat CHR ''-'' color (size_add x i) lower
                              (terminal_putentryat CHR ''-'' color (size_add x i) y s)) [0..<w] s;
            s = fold (\<lambda>i s. terminal_putentryat CHR ''|'' color right (size_add y i)
                              (terminal_putentryat CHR ''|'' color x (size_add y i) s)) [0..<h] s;
            s = terminal_putentryat CHR ''+'' color x y s;
            s = terminal_putentryat CHR ''+'' color right y s;
            s = terminal_putentryat CHR ''+'' color x lower s
        in terminal_putentryat CHR ''+'' color right lower s)"

definition terminal_log ::
  "string \<Rightarrow> string \<Rightarrow> vga_color \<Rightarrow> 'a terminal_globals_scheme \<Rightarrow> 'a terminal_globals_scheme" where
  "terminal_log tag message tag_fg s =
     (let s = terminal_setcolor tag_fg VGA_COLOR_BLACK s;
          s = terminal_write ''['' s;
          s = terminal_write tag s;
          s = terminal_write ''] '' s;
          s = terminal_setcolor VGA_COLOR_LIGHT_GREY VGA_COLOR_BLACK s
      in terminal_writeline message s)"

definition terminal_prompt :: "'a terminal_globals_scheme \<Rightarrow> 'a terminal_globals_scheme" where
  "terminal_prompt s =
     (let s = terminal_setcolor VGA_COLOR_DARK_GREY VGA_COLOR_BLACK s;
          s = terminal_write ''['' s;
          s = terminal_setcolor VGA_COLOR_LIGHT_GREEN VGA_COLOR_BLACK s;
          s = terminal_write ''termob'' s;
          s = terminal_setcolor VGA_COLOR_DARK_GREY VGA_COLOR_BLACK s;
          s = terminal_write '' '' s;
          s = terminal_setcolor VGA_COLOR_WHITE VGA_COLOR_BLACK s;
          s = terminal_write ''/'' s;
          s = terminal_setcolor VGA_COLOR_DARK_GREY VGA_COLOR_BLACK s;
          s = terminal_write '']'' s;
          s = terminal_setcolor VGA_COLOR_LIGHT_RED VGA_COLOR_BLACK s;
          s = terminal_write ''# '' s
      in terminal_setcolor VGA_COLOR_LIGHT_GREY VGA_COLOR_BLACK s)"

definition terminal_prompt_width :: nat where
  "terminal_prompt_width = 12"

section \<open>Moving the view\<close>

definition terminal_scrollback_is_active :: "'a terminal_globals_scheme \<Rightarrow> bool" where
  "terminal_scrollback_is_active s \<longleftrightarrow> terminal_scrollback_view_offset s \<noteq> 0"

definition terminal_scrollback_follow :: "'a terminal_globals_scheme \<Rightarrow> 'a terminal_globals_scheme" where
  "terminal_scrollback_follow s =
     (if terminal_scrollback_view_offset s = 0 then s
      else terminal_scrollback_sync_region_from_history
             (s\<lparr>terminal_scrollback_view_offset := 0\<rparr>))"

definition terminal_scrollback_line_up :: "'a terminal_globals_scheme \<Rightarrow> 'a terminal_globals_scheme" where
  "terminal_scrollback_line_up s =
     (let max_offset = terminal_scrollback_max_offset s
      in if max_offset = 0 \<or> terminal_scrollback_view_offset s \<ge> max_offset then s
         else terminal_scrollback_sync_view_after_scroll
                (s\<lparr>terminal_scrollback_view_offset := terminal_scrollback_view_offset s + 1\<rparr>))"

definition terminal_scrollback_line_down ::
  "'a terminal_globals_scheme \<Rightarrow> 'a terminal_globals_scheme" where
  "terminal_scrollback_line_down s =
     (if terminal_scrollback_view_offset s = 0 then s
      else terminal_scrollback_sync_view_after_scroll
             (s\<lparr>terminal_scrollback_view_offset := terminal_scrollback_view_offset s - 1\<rparr>))"

definition terminal_scrollback_page_up :: "'a terminal_globals_scheme \<Rightarrow> 'a terminal_globals_scheme" where
  "terminal_scrollback_page_up s =
     (let max_offset = terminal_scrollback_max_offset s
      in if max_offset = 0 \<or> terminal_scrollback_view_offset s \<ge> max_offset then s
         else
           let step = terminal_region_height s;
               step = (if step > 1 then step - 1 else step);
               s = s\<lparr>terminal_scrollback_view_offset := terminal_scrollback_view_offset s + step\<rparr>;
               s = (if terminal_scrollback_view_offset s > max_offset
                    then s\<lparr>terminal_scrollback_view_offset := max_offset\<rparr> else s)
           in terminal_scrollback_sync_view_after_scroll s)"

definition terminal_scrollback_page_down ::
  "'a terminal_globals_scheme \<Rightarrow> 'a terminal_globals_scheme" where
  "terminal_scrollback_page_down s =
     (if terminal_scrollback_view_offset s = 0 then s
      else
        let step = terminal_region_height s;
            step = (if step > 1 then step - 1 else step);
            s = (if terminal_scrollback_view_offset s > step
                 then s\<lparr>terminal_scrollback_view_offset := terminal_scrollback_view_offset s - step\<rparr>
                 else s\<lparr>terminal_scrollback_view_offset := 0\<rparr>)
        in terminal_scrollback_sync_view_after_scroll s)"

section \<open>The state at boot\<close>

text \<open>The terminal before initialisation: zeroed storage with the region initialisers.\<close>

definition boot_terminal :: terminal_globals where
  "boot_terminal = \<lparr>terminal_row = 0, terminal_column = 0, terminal_color = 0,
     terminal_buffer = (\<lambda>_. 0), region_top = 0, region_bottom = 24,
     terminal_scrollback_history = (\<lambda>_ _. 0), terminal_scrollback_head = 0,
     terminal_scrollback_count = 0, terminal_scrollback_view_offset = 0,
     terminal_scrollback_syncing = False\<rparr>"

end
