(* ===== verification/Terminal_Spec.thy ===== *)
theory Terminal_Spec
  imports Terminal
begin

text \<open>
  What the terminal promises. \<open>terminal_inv\<close> says that cursor, region and ring indices are in
  range and that the scrolling region of the screen shows the window of the history which the view
  offset selects. The abstract terminal is the list of history lines with a cursor that counts
  rows from the top of the region; \<open>spec_putchar\<close> writes one character to it.
\<close>

section \<open>The loops over cells\<close>

definition put_cells :: "nat \<Rightarrow> nat \<Rightarrow> (nat \<Rightarrow> u16) \<Rightarrow> (nat \<Rightarrow> nat \<Rightarrow> u16) \<Rightarrow> nat \<Rightarrow> nat \<Rightarrow> u16" where
  "put_cells n l f h = h(l := \<lambda>x. if x < n then f x else h l x)"

lemma fold_line_set:
  assumes "\<And>x s h. g x (s\<lparr>terminal_scrollback_history := h\<rparr>) = g x s"
  shows "fold (\<lambda>x s. line_set l x (g x s) s) [0..<n] s =
    s\<lparr>terminal_scrollback_history := put_cells n l (\<lambda>x. g x s) (terminal_scrollback_history s)\<rparr>"
  by (induction n) (auto simp: put_cells_def line_set_def Let_def assms fun_eq_iff less_Suc_eq)

definition row_shift :: "nat \<Rightarrow> nat \<Rightarrow> (nat \<Rightarrow> u16) \<Rightarrow> (nat \<Rightarrow> u16) \<Rightarrow> nat \<Rightarrow> u16" where
  "row_shift r n f b = (\<lambda>i. if i div 80 = r \<and> i mod 80 < n then f (i mod 80) else b i)"

lemma row_shift_Suc: "n < 80 \<Longrightarrow> (row_shift r n f b)(r * 80 + n := f n) = row_shift r (Suc n) f b"
  by (rule ext) (auto simp: row_shift_def less_Suc_eq div_mult_mod_eq)

lemma fold_buffer_set:
  assumes g: "\<And>x s b. g x (s\<lparr>terminal_buffer := b\<rparr>) = g x s"
    and r: "\<And>s b. r (s\<lparr>terminal_buffer := b\<rparr>) = r s" and n: "n \<le> 80"
  shows "fold (\<lambda>x s. buffer_set (r s * 80 + x) (g x s) s) [0..<n] s =
    s\<lparr>terminal_buffer := row_shift (r s) n (\<lambda>x. g x s) (terminal_buffer s)\<rparr>"
  using n
proof (induction n)
  case 0
  show ?case by (simp add: row_shift_def)
next
  case (Suc n)
  then show ?case
    using row_shift_Suc [of n "r s" "\<lambda>x. g x s" "terminal_buffer s"] by (simp add: buffer_set_def g r)
qed

lemma fill_blank_line_eq:
  "terminal_scrollback_fill_blank_line l s =
    s\<lparr>terminal_scrollback_history := put_cells 80 l (\<lambda>x. vga_entry CHR '' '' (terminal_color s))
        (terminal_scrollback_history s)\<rparr>"
  unfolding terminal_scrollback_fill_blank_line_def by (rule fold_line_set) simp

section \<open>The lines of the history\<close>

abbreviation height :: "'a terminal_globals_scheme \<Rightarrow> nat" where
  "height s \<equiv> terminal_region_height s"

abbreviation "lines_max \<equiv> TERMINAL_SCROLLBACK_LINES"

definition hist :: "'a terminal_globals_scheme \<Rightarrow> nat \<Rightarrow> nat \<Rightarrow> u16" where
  "hist s i = terminal_scrollback_history s (terminal_scrollback_logical_to_physical i s)"

definition term_lines :: "'a terminal_globals_scheme \<Rightarrow> u16 list list" where
  "term_lines s = map (\<lambda>i. map (hist s i) [0..<80]) [0..<terminal_scrollback_count s]"

definition view_top :: "'a terminal_globals_scheme \<Rightarrow> nat" where
  "view_top s = terminal_scrollback_count s - height s - terminal_scrollback_view_offset s"

definition region_ok :: "'a terminal_globals_scheme \<Rightarrow> bool" where
  "region_ok s \<longleftrightarrow> region_top s \<le> region_bottom s \<and> region_bottom s < 25"

definition ring_ok :: "'a terminal_globals_scheme \<Rightarrow> bool" where
  "ring_ok s \<longleftrightarrow> region_ok s \<and> terminal_scrollback_head s < lines_max \<and>
     terminal_scrollback_count s \<le> lines_max \<and> height s \<le> terminal_scrollback_count s \<and>
     terminal_scrollback_view_offset s \<le> terminal_scrollback_count s - height s \<and>
     \<not> terminal_scrollback_syncing s"

definition cursor_ok :: "'a terminal_globals_scheme \<Rightarrow> bool" where
  "cursor_ok s \<longleftrightarrow> terminal_row s < 25 \<and> terminal_column s < 80"

definition shows_view :: "'a terminal_globals_scheme \<Rightarrow> bool" where
  "shows_view s \<longleftrightarrow>
     (\<forall>y < height s. \<forall>x < 80.
        terminal_buffer s ((region_top s + y) * 80 + x) = hist s (view_top s + y) x)"

definition terminal_inv :: "'a terminal_globals_scheme \<Rightarrow> bool" where
  "terminal_inv s \<longleftrightarrow> ring_ok s \<and> cursor_ok s \<and> shows_view s"

lemma lines_max_pos [simp]: "0 < lines_max" "25 \<le> lines_max"
  by (simp_all add: TERMINAL_SCROLLBACK_LINES_def)

lemma height_bound: "region_ok s \<Longrightarrow> height s \<le> 25 \<and> 0 < height s"
  by (auto simp: region_ok_def terminal_region_height_def)

lemma length_term_lines [simp]: "length (term_lines s) = terminal_scrollback_count s"
  by (simp add: term_lines_def)

lemma term_lines_nth:
  "i < terminal_scrollback_count s \<Longrightarrow> term_lines s ! i = map (hist s i) [0..<80]"
  by (simp add: term_lines_def)

lemma ring_index_inj:
  assumes "i < lines_max" "j < lines_max" "(h + i) mod lines_max = (h + j) mod lines_max"
  shows "i = j"
proof -
  have *: "i = j" if "i \<le> j" "j < lines_max" "(h + i) mod lines_max = (h + j) mod lines_max" for i j
  proof -
    have "lines_max dvd (h + j) - (h + i)"
      using that(1,3) by (metis mod_eq_dvd_iff_nat add_le_mono le_refl)
    then have "lines_max dvd j - i" by simp
    then show ?thesis
      using that(1,2) by (metis dvd_imp_le le_antisym less_imp_diff_less not_less zero_less_diff)
  qed
  show ?thesis
    using *[of i j] *[of j i] assms by (metis le_cases)
qed

section \<open>Synchronising the region\<close>

lemma hist_frame [simp]:
  "hist (s\<lparr>terminal_buffer := b\<rparr>) = hist s"
  "hist (s\<lparr>terminal_scrollback_syncing := f\<rparr>) = hist s"
  "hist (s\<lparr>terminal_row := r\<rparr>) = hist s"
  "hist (s\<lparr>terminal_column := c\<rparr>) = hist s"
  "hist (s\<lparr>terminal_color := k\<rparr>) = hist s"
  "hist (s\<lparr>terminal_scrollback_view_offset := n\<rparr>) = hist s"
  "hist (s\<lparr>terminal_scrollback_count := n\<rparr>) = hist s"
  by (simp_all add: hist_def terminal_scrollback_logical_to_physical_def fun_eq_iff)

definition rows_shift ::
  "nat \<Rightarrow> nat \<Rightarrow> nat \<Rightarrow> (nat \<Rightarrow> nat \<Rightarrow> u16) \<Rightarrow> (nat \<Rightarrow> u16) \<Rightarrow> nat \<Rightarrow> u16" where
  "rows_shift r n t f b =
     (\<lambda>i. if r \<le> i div 80 \<and> i div 80 < r + n then f (t + (i div 80 - r)) (i mod 80) else b i)"

lemma rows_shift_0 [simp]: "rows_shift r 0 t f b = b"
  by (auto simp: rows_shift_def fun_eq_iff)

lemma rows_shift_Suc:
  "row_shift (r + n) 80 (f (t + n)) (rows_shift r n t f b) = rows_shift r (Suc n) t f b"
  by (auto simp: row_shift_def rows_shift_def fun_eq_iff)

lemma cell_index:
  "x < 80 \<Longrightarrow> (k * 80 + x) div 80 = k" "x < 80 \<Longrightarrow> (k * 80 + x) mod 80 = (x :: nat)"
  by simp_all

lemma rows_shift_cell:
  "y < n \<Longrightarrow> x < 80 \<Longrightarrow> rows_shift r n t f b ((r + y) * 80 + x) = f (t + y) x"
  by (simp only: rows_shift_def cell_index) simp

lemma sync_row_eq:
  assumes "t + y < terminal_scrollback_count s"
  shows "terminal_scrollback_sync_row t y s =
    s\<lparr>terminal_buffer := row_shift (region_top s + y) 80 (hist s (t + y)) (terminal_buffer s)\<rparr>"
proof -
  let ?l = "terminal_scrollback_line_slot (t + y) s"
  have "fold (\<lambda>x s. buffer_set ((region_top s + y) * 80 + x)
      (terminal_scrollback_history s ?l x) s) [0..<80] s =
    s\<lparr>terminal_buffer := row_shift (region_top s + y) 80
        (terminal_scrollback_history s ?l) (terminal_buffer s)\<rparr>"
    by (rule fold_buffer_set) simp_all
  then show ?thesis
    using assms
    by (simp add: terminal_scrollback_sync_row_def terminal_scrollback_line_slot_def hist_def
        del: upt_Suc add_mult_distrib)
qed

lemma sync_rows_eq:
  "t + n \<le> terminal_scrollback_count s \<Longrightarrow>
   fold (terminal_scrollback_sync_row t) [0..<n] s =
     s\<lparr>terminal_buffer := rows_shift (region_top s) n t (hist s) (terminal_buffer s)\<rparr>"
  by (induction n) (simp_all add: sync_row_eq rows_shift_Suc)

lemma visible_top_eq:
  assumes "ring_ok s"
  shows "terminal_scrollback_visible_top_logical s = (view_top s, s)"
  using assms
  by (auto simp: ring_ok_def terminal_scrollback_visible_top_logical_def Let_def view_top_def
      terminal_scrollback_max_offset_def)

definition synced_buffer :: "'a terminal_globals_scheme \<Rightarrow> nat \<Rightarrow> u16" where
  "synced_buffer s =
     rows_shift (region_top s) (height s) (view_top s) (hist s) (terminal_buffer s)"

lemma sync_region_eq:
  assumes "ring_ok s"
  shows "terminal_scrollback_sync_region_from_history s = s\<lparr>terminal_buffer := synced_buffer s\<rparr>"
proof -
  have le: "view_top s + height s \<le> terminal_scrollback_count (s\<lparr>terminal_scrollback_syncing := True\<rparr>)"
    using assms by (auto simp: ring_ok_def view_top_def)
  have "\<not> terminal_scrollback_syncing s" using assms by (simp add: ring_ok_def)
  then show ?thesis
    by (simp add: terminal_scrollback_sync_region_from_history_def visible_top_eq assms
        sync_rows_eq [OF le] synced_buffer_def)
qed

lemma view_frame [simp]:
  "height (s\<lparr>terminal_buffer := b\<rparr>) = height s"
  "height (s\<lparr>terminal_row := r\<rparr>) = height s"
  "height (s\<lparr>terminal_column := c\<rparr>) = height s"
  "height (s\<lparr>terminal_color := k\<rparr>) = height s"
  "height (s\<lparr>terminal_scrollback_history := h\<rparr>) = height s"
  "height (s\<lparr>terminal_scrollback_view_offset := n\<rparr>) = height s"
  "height (s\<lparr>terminal_scrollback_count := n\<rparr>) = height s"
  "height (s\<lparr>terminal_scrollback_head := n\<rparr>) = height s"
  "view_top (s\<lparr>terminal_buffer := b\<rparr>) = view_top s"
  "view_top (s\<lparr>terminal_row := r\<rparr>) = view_top s"
  "view_top (s\<lparr>terminal_column := c\<rparr>) = view_top s"
  "view_top (s\<lparr>terminal_color := k\<rparr>) = view_top s"
  "view_top (s\<lparr>terminal_scrollback_history := h\<rparr>) = view_top s"
  by (simp_all add: terminal_region_height_def view_top_def)

lemma shows_view_synced:
  "ring_ok s \<Longrightarrow> shows_view (s\<lparr>terminal_buffer := synced_buffer s\<rparr>)"
  unfolding shows_view_def
  by (simp add: synced_buffer_def rows_shift_cell del: add_mult_distrib distrib_right_numeral)

lemma ring_ok_frame [simp]:
  "ring_ok (s\<lparr>terminal_buffer := b\<rparr>) = ring_ok s"
  "ring_ok (s\<lparr>terminal_row := r\<rparr>) = ring_ok s"
  "ring_ok (s\<lparr>terminal_column := c\<rparr>) = ring_ok s"
  "ring_ok (s\<lparr>terminal_color := k\<rparr>) = ring_ok s"
  "ring_ok (s\<lparr>terminal_scrollback_history := h\<rparr>) = ring_ok s"
  by (simp_all add: ring_ok_def region_ok_def)

lemma shows_view_frame [simp]:
  "shows_view (s\<lparr>terminal_row := r\<rparr>) = shows_view s"
  "shows_view (s\<lparr>terminal_column := c\<rparr>) = shows_view s"
  "shows_view (s\<lparr>terminal_color := k\<rparr>) = shows_view s"
  by (simp_all add: shows_view_def)

lemma ring_ok_offset:
  "ring_ok s \<Longrightarrow> n \<le> terminal_scrollback_count s - height s \<Longrightarrow>
   ring_ok (s\<lparr>terminal_scrollback_view_offset := n\<rparr>)"
  by (simp add: ring_ok_def region_ok_def terminal_region_height_def)

lemma sync_view_eq:
  "ring_ok s \<Longrightarrow> terminal_scrollback_sync_view_after_scroll s =
     s\<lparr>terminal_buffer := synced_buffer s, terminal_row := region_bottom s, terminal_column := 0\<rparr>"
  by (simp add: terminal_scrollback_sync_view_after_scroll_def sync_region_eq)

lemma sync_view_inv:
  assumes "ring_ok s"
  shows "terminal_inv (terminal_scrollback_sync_view_after_scroll s)"
  using assms shows_view_synced [OF assms]
  by (simp add: sync_view_eq terminal_inv_def cursor_ok_def ring_ok_def region_ok_def)

lemma max_offset_eq:
  "ring_ok s \<Longrightarrow> terminal_scrollback_max_offset s = terminal_scrollback_count s - height s"
  by (simp add: terminal_scrollback_max_offset_def ring_ok_def Let_def)

section \<open>Appending a line\<close>

abbreviation blank_line :: "'a terminal_globals_scheme \<Rightarrow> u16 list" where
  "blank_line s \<equiv> replicate 80 (vga_entry CHR '' '' (terminal_color s))"

definition append_head :: "'a terminal_globals_scheme \<Rightarrow> nat" where
  "append_head s = (if terminal_scrollback_count s < lines_max then terminal_scrollback_head s
     else (terminal_scrollback_head s + 1) mod lines_max)"

lemma append_blank_line_eq:
  fixes s :: "'a terminal_globals_scheme"
  assumes "terminal_scrollback_count s \<le> lines_max"
  defines "n \<equiv> min (Suc (terminal_scrollback_count s)) lines_max"
  defines "p \<equiv> (append_head s + (n - 1)) mod lines_max"
  shows "terminal_scrollback_append_blank_line s =
    (p, s\<lparr>terminal_scrollback_head := append_head s, terminal_scrollback_count := n,
          terminal_scrollback_history := put_cells 80 p (\<lambda>x. vga_entry CHR '' '' (terminal_color s))
            (terminal_scrollback_history s)\<rparr>)"
  using assms
  by (auto simp: terminal_scrollback_append_blank_line_def Let_def fill_blank_line_eq append_head_def
      terminal_scrollback_logical_to_physical_def)

lemma append_ring_ok:
  assumes "ring_ok s" "terminal_scrollback_view_offset s = 0"
  shows "ring_ok (snd (terminal_scrollback_append_blank_line s))"
  using assms
  by (auto simp: append_blank_line_eq ring_ok_def region_ok_def append_head_def)

lemma append_fields [simp]:
  assumes "ring_ok s"
  shows "terminal_color (snd (terminal_scrollback_append_blank_line s)) = terminal_color s"
    and "region_top (snd (terminal_scrollback_append_blank_line s)) = region_top s"
    and "region_bottom (snd (terminal_scrollback_append_blank_line s)) = region_bottom s"
    and "terminal_scrollback_count (snd (terminal_scrollback_append_blank_line s)) =
      min (Suc (terminal_scrollback_count s)) lines_max"
    and "terminal_scrollback_view_offset (snd (terminal_scrollback_append_blank_line s)) =
      terminal_scrollback_view_offset s"
  using assms by (auto simp: append_blank_line_eq ring_ok_def)

lemma put_cells_other: "q \<noteq> p \<Longrightarrow> put_cells n p f h q = h q"
  by (simp add: put_cells_def)

lemma put_cells_same: "x < n \<Longrightarrow> put_cells n p f h p x = f x"
  by (simp add: put_cells_def)

lemma append_hist:
  assumes "ring_ok s" and i: "i < min (Suc (terminal_scrollback_count s)) lines_max" and x: "x < 80"
  shows "hist (snd (terminal_scrollback_append_blank_line s)) i x =
    (if Suc i = min (Suc (terminal_scrollback_count s)) lines_max
     then vga_entry CHR '' '' (terminal_color s)
     else if terminal_scrollback_count s < lines_max then hist s i x else hist s (Suc i) x)"
proof -
  let ?n = "min (Suc (terminal_scrollback_count s)) lines_max" and ?h = "append_head s"
  have c: "terminal_scrollback_count s \<le> lines_max" using assms(1) by (simp add: ring_ok_def)
  have g: "((terminal_scrollback_head s + 1) mod lines_max + i) mod lines_max =
      (terminal_scrollback_head s + Suc i) mod lines_max"
    by (simp add: mod_add_left_eq)
  show ?thesis
  proof (cases "Suc i = ?n")
    case True
    then have e: "i = ?n - 1" by simp
    show ?thesis
      using x by (simp add: append_blank_line_eq [OF c] hist_def
          terminal_scrollback_logical_to_physical_def e put_cells_same)
  next
    case False
    have ne: "(?h + i) mod lines_max \<noteq> (?h + (?n - 1)) mod lines_max"
    proof
      assume "(?h + i) mod lines_max = (?h + (?n - 1)) mod lines_max"
      moreover have "0 < ?n" "i < lines_max" "?n - 1 < lines_max"
        using i lines_max_pos(1) by linarith+
      ultimately have "i = ?n - 1" using ring_index_inj [of i "?n - 1" ?h] by blast
      with \<open>0 < ?n\<close> False show False by linarith
    qed
    have "hist (snd (terminal_scrollback_append_blank_line s)) i =
        terminal_scrollback_history s ((?h + i) mod lines_max)"
      using put_cells_other [OF ne, of 80 "\<lambda>x. vga_entry CHR '' '' (terminal_color s)"
          "terminal_scrollback_history s"]
      by (simp add: append_blank_line_eq [OF c] hist_def terminal_scrollback_logical_to_physical_def)
    then show ?thesis
      using False g by (simp add: hist_def terminal_scrollback_logical_to_physical_def append_head_def)
  qed
qed

lemma append_lines:
  assumes "ring_ok s"
  shows "term_lines (snd (terminal_scrollback_append_blank_line s)) =
    last_n lines_max (term_lines s @ [blank_line s])"
proof (rule nth_equalityI)
  have c: "terminal_scrollback_count s \<le> lines_max" using assms by (simp add: ring_ok_def)
  show "length (term_lines (snd (terminal_scrollback_append_blank_line s))) =
      length (last_n lines_max (term_lines s @ [blank_line s]))"
    using assms c by (auto simp: last_n_def)
  fix i
  assume "i < length (term_lines (snd (terminal_scrollback_append_blank_line s)))"
  then have i: "i < min (Suc (terminal_scrollback_count s)) lines_max" using assms by simp
  have l: "term_lines (snd (terminal_scrollback_append_blank_line s)) ! i =
      map (hist (snd (terminal_scrollback_append_blank_line s)) i) [0..<80]"
    using i assms by (simp add: term_lines_nth)
  show "term_lines (snd (terminal_scrollback_append_blank_line s)) ! i =
      last_n lines_max (term_lines s @ [blank_line s]) ! i"
  proof (cases "terminal_scrollback_count s < lines_max")
    case True
    then show ?thesis
      unfolding l using i
      by (cases "i = terminal_scrollback_count s")
        (auto simp: append_hist [OF assms] last_n_def nth_append term_lines_nth intro!: nth_equalityI)
  next
    case False
    then have "terminal_scrollback_count s = lines_max" using c by simp
    then show ?thesis
      unfolding l using i
      by (cases "Suc i = lines_max")
        (auto simp: append_hist [OF assms] last_n_def nth_append term_lines_nth intro!: nth_equalityI)
  qed
qed

section \<open>Rebuilding the history\<close>

lemma reset_line_eq:
  assumes "terminal_scrollback_head s = 0" "terminal_scrollback_count s = y" "y < lines_max"
  shows "terminal_scrollback_reset_line y s =
    s\<lparr>terminal_scrollback_count := Suc y,
      terminal_scrollback_history :=
        put_cells 80 y (\<lambda>x. terminal_buffer s ((region_top s + y) * 80 + x))
          (terminal_scrollback_history s)\<rparr>"
proof -
  have e: "terminal_scrollback_append_blank_line s =
      (y, s\<lparr>terminal_scrollback_count := Suc y, terminal_scrollback_history :=
             put_cells 80 y (\<lambda>x. vga_entry CHR '' '' (terminal_color s)) (terminal_scrollback_history s)\<rparr>)"
    using assms by (simp add: append_blank_line_eq append_head_def)
  have p: "put_cells 80 y f (put_cells 80 y g h) = put_cells 80 y f h" for f g h
    by (auto simp: put_cells_def fun_eq_iff)
  show ?thesis
    by (simp add: terminal_scrollback_reset_line_def e
        fold_line_set [where g = "\<lambda>x s. terminal_buffer s ((region_top s + y) * 80 + x)"] p
        del: add_mult_distrib distrib_right_numeral)
qed

definition copied ::
  "nat \<Rightarrow> nat \<Rightarrow> (nat \<Rightarrow> u16) \<Rightarrow> (nat \<Rightarrow> nat \<Rightarrow> u16) \<Rightarrow> nat \<Rightarrow> nat \<Rightarrow> u16" where
  "copied r n b h = (\<lambda>l x. if l < n \<and> x < 80 then b ((r + l) * 80 + x) else h l x)"

lemma copied_0 [simp]: "copied r 0 b h = h"
  by (simp add: copied_def)

lemma copied_Suc:
  "put_cells 80 n (\<lambda>x. b ((r + n) * 80 + x)) (copied r n b h) = copied r (Suc n) b h"
  by (auto simp: put_cells_def copied_def fun_eq_iff less_Suc_eq)

lemma reset_lines_eq:
  assumes "terminal_scrollback_head s = 0" "terminal_scrollback_count s = 0" "n \<le> lines_max"
  shows "fold terminal_scrollback_reset_line [0..<n] s =
    s\<lparr>terminal_scrollback_count := n,
      terminal_scrollback_history :=
        copied (region_top s) n (terminal_buffer s) (terminal_scrollback_history s)\<rparr>"
  using assms(3)
proof (induction n)
  case 0
  show ?case using assms(2) by simp
next
  case (Suc n)
  then show ?case using assms(1)
    by (simp add: reset_line_eq copied_Suc del: add_mult_distrib distrib_right_numeral)
qed

lemma reset_history_eq:
  assumes "region_ok s"
  shows "terminal_scrollback_reset_history s =
    s\<lparr>terminal_scrollback_head := 0, terminal_scrollback_view_offset := 0,
      terminal_scrollback_syncing := False, terminal_scrollback_count := height s,
      terminal_scrollback_history :=
        copied (region_top s) (height s) (terminal_buffer s) (terminal_scrollback_history s)\<rparr>"
proof -
  have "height s \<le> lines_max"
    using height_bound [OF assms] lines_max_pos(2) by linarith
  then show ?thesis
    by (simp add: terminal_scrollback_reset_history_def Let_def reset_lines_eq)
qed

lemma reset_history_inv:
  assumes "region_ok s" "cursor_ok s"
  shows "terminal_inv (terminal_scrollback_reset_history s)"
proof -
  let ?s = "terminal_scrollback_reset_history s"
  have h: "height s \<le> lines_max"
    using height_bound [OF assms(1)] lines_max_pos(2) by linarith
  have hh: "height ?s = height s" and vt: "view_top ?s = 0"
    by (simp_all add: reset_history_eq assms terminal_region_height_def view_top_def)
  have "hist ?s y x = terminal_buffer s ((region_top s + y) * 80 + x)" if "y < height s" "x < 80" for y x
    using that h by (simp add: reset_history_eq assms hist_def copied_def
        terminal_scrollback_logical_to_physical_def)
  then have "shows_view ?s"
    unfolding shows_view_def hh vt by (simp add: reset_history_eq assms)
  moreover have "ring_ok ?s"
    unfolding ring_ok_def hh using assms h by (simp add: reset_history_eq region_ok_def)
  moreover have "cursor_ok ?s"
    using assms by (simp add: reset_history_eq cursor_ok_def)
  ultimately show ?thesis by (simp add: terminal_inv_def)
qed

section \<open>Writing a cell\<close>

definition in_region :: "nat \<Rightarrow> 'a terminal_globals_scheme \<Rightarrow> bool" where
  "in_region y s \<longleftrightarrow> region_top s \<le> y \<and> y \<le> region_bottom s"

lemma in_region_height: "in_region y s \<Longrightarrow> y - region_top s < height s"
  by (auto simp: in_region_def terminal_region_height_def)

lemma region_cell_outside:
  assumes "\<not> in_region y s" "x < 80" "y' < height s" "x' < 80" "region_ok s"
  shows "(region_top s + y') * 80 + x' \<noteq> y * 80 + x"
proof
  assume "(region_top s + y') * 80 + x' = y * 80 + x"
  then have "region_top s + y' = y" using assms(2,4) cell_index(1) by metis
  then show False
    using assms by (auto simp: in_region_def terminal_region_height_def region_ok_def)
qed

lemma region_cell_eq:
  assumes "in_region y s" "x < 80" "x' < 80"
  shows "(region_top s + y') * 80 + x' = y * 80 + x \<longleftrightarrow> y' = y - region_top s \<and> x' = x"
proof
  assume e: "(region_top s + y') * 80 + x' = y * 80 + x"
  then have "region_top s + y' = y" "x' = x" using assms(2,3) cell_index by metis+
  then show "y' = y - region_top s \<and> x' = x" by simp
next
  assume "y' = y - region_top s \<and> x' = x"
  then show "(region_top s + y') * 80 + x' = y * 80 + x"
    using assms(1) by (simp add: in_region_def)
qed

text \<open>The state in which the cell is written: a region that was scrolled back follows again.\<close>

definition follow_at :: "nat \<Rightarrow> 'a terminal_globals_scheme \<Rightarrow> 'a terminal_globals_scheme" where
  "follow_at y s = (if in_region y s \<and> terminal_scrollback_view_offset s \<noteq> 0
     then terminal_scrollback_sync_region_from_history (s\<lparr>terminal_scrollback_view_offset := 0\<rparr>)
     else s)"

lemma follow_at_eq:
  assumes "terminal_inv s"
  shows "follow_at y s = (if in_region y s \<and> terminal_scrollback_view_offset s \<noteq> 0
     then s\<lparr>terminal_scrollback_view_offset := 0,
            terminal_buffer := synced_buffer (s\<lparr>terminal_scrollback_view_offset := 0\<rparr>)\<rparr>
     else s)"
  using assms by (simp add: follow_at_def sync_region_eq ring_ok_offset terminal_inv_def)

lemma follow_at_inv:
  assumes "terminal_inv s"
  shows "terminal_inv (follow_at y s)"
proof -
  let ?s = "s\<lparr>terminal_scrollback_view_offset := 0\<rparr>"
  have r: "ring_ok ?s" and c: "cursor_ok s"
    using assms by (simp_all add: terminal_inv_def ring_ok_offset)
  show ?thesis
    using assms c shows_view_synced [OF r] r
    by (simp add: follow_at_eq terminal_inv_def cursor_ok_def)
qed

lemma follow_at_fields [simp]:
  assumes "terminal_inv s"
  shows "terminal_row (follow_at y s) = terminal_row s"
    and "terminal_column (follow_at y s) = terminal_column s"
    and "terminal_color (follow_at y s) = terminal_color s"
    and "region_top (follow_at y s) = region_top s"
    and "region_bottom (follow_at y s) = region_bottom s"
    and "terminal_scrollback_count (follow_at y s) = terminal_scrollback_count s"
    and "hist (follow_at y s) = hist s"
    and "in_region y s \<Longrightarrow> terminal_scrollback_view_offset (follow_at y s) = 0"
  using assms by (simp_all add: follow_at_eq)

lemma putentryat_eq:
  assumes "terminal_inv s" "x < 80" "y < 25"
  shows "terminal_putentryat c k x y s =
    (let s = follow_at y s;
         s' = s\<lparr>terminal_buffer := (terminal_buffer s)(y * 80 + x := vga_entry c k)\<rparr>
     in if in_region y s
        then line_set (terminal_scrollback_logical_to_physical (view_top s + (y - region_top s)) s)
               x (vga_entry c k) s'
        else s')"
proof -
  let ?t = "follow_at y s"
  have f: "(if \<not> terminal_scrollback_syncing s \<and> y \<ge> region_top s \<and> y \<le> region_bottom s \<and>
                    terminal_scrollback_view_offset s \<noteq> 0
                 then terminal_scrollback_sync_region_from_history
                        (s\<lparr>terminal_scrollback_view_offset := 0\<rparr>)
                 else s) = ?t"
    using assms(1) by (auto simp: follow_at_def in_region_def terminal_inv_def ring_ok_def)
  have r: "ring_ok ?t" using follow_at_inv [OF assms(1)] by (simp add: terminal_inv_def)
  then have n: "\<not> terminal_scrollback_syncing ?t" by (simp add: ring_ok_def)
  have h: "view_top ?t + (y - region_top ?t) < terminal_scrollback_count ?t" if "in_region y ?t"
    using in_region_height [OF that] r by (auto simp: ring_ok_def view_top_def)
  have "region_bottom ?t < 25" "0 < terminal_scrollback_count ?t"
    using r height_bound [of ?t] by (auto simp: ring_ok_def region_ok_def)
  then show ?thesis
    unfolding terminal_putentryat_def f using assms n h r
    by (auto simp: Let_def terminal_scrollback_update_cell_def buffer_set_def visible_top_eq
        terminal_scrollback_line_slot_def terminal_scrollback_logical_to_physical_def in_region_def)
qed

lemma line_set_hist:
  assumes "i < lines_max" "j < lines_max"
  shows "hist (line_set (terminal_scrollback_logical_to_physical j s) x v s) i =
    (if i = j then (hist s i)(x := v) else hist s i)"
proof -
  have "terminal_scrollback_logical_to_physical i s = terminal_scrollback_logical_to_physical j s \<longleftrightarrow> i = j"
    using ring_index_inj [OF assms] by (auto simp: terminal_scrollback_logical_to_physical_def)
  then show ?thesis
    by (simp add: hist_def line_set_def Let_def terminal_scrollback_logical_to_physical_def)
qed

lemma line_set_lines:
  assumes "terminal_scrollback_count s \<le> lines_max" "j < terminal_scrollback_count s"
  shows "term_lines (line_set (terminal_scrollback_logical_to_physical j s) x v s) =
    (term_lines s)[j := (term_lines s ! j)[x := v]]"
proof (rule nth_equalityI)
  let ?t = "line_set (terminal_scrollback_logical_to_physical j s) x v s"
  have c: "terminal_scrollback_count ?t = terminal_scrollback_count s"
    by (simp add: line_set_def Let_def)
  then show "length (term_lines ?t) = length ((term_lines s)[j := (term_lines s ! j)[x := v]])"
    by simp
  fix i
  assume "i < length (term_lines ?t)"
  then have i: "i < terminal_scrollback_count s" using c by simp
  then have l: "term_lines ?t ! i = map (hist ?t i) [0..<80]" using c by (simp add: term_lines_nth)
  have "i < lines_max" "j < lines_max" using i assms by simp_all
  then show "term_lines ?t ! i = (term_lines s)[j := (term_lines s ! j)[x := v]] ! i"
    unfolding l using i assms
    by (auto simp: line_set_hist term_lines_nth nth_list_update intro!: nth_equalityI)
qed

lemma putentryat_fields [simp]:
  assumes "terminal_inv s"
  shows "terminal_row (terminal_putentryat c k x y s) = terminal_row s"
    and "terminal_column (terminal_putentryat c k x y s) = terminal_column s"
    and "terminal_color (terminal_putentryat c k x y s) = terminal_color s"
    and "region_top (terminal_putentryat c k x y s) = region_top s"
    and "region_bottom (terminal_putentryat c k x y s) = region_bottom s"
    and "terminal_scrollback_count (terminal_putentryat c k x y s) = terminal_scrollback_count s"
proof -
  have "x < 80 \<and> y < 25 \<or> terminal_putentryat c k x y s = s"
    by (auto simp: terminal_putentryat_def)
  then consider "x < 80 \<and> y < 25" | "terminal_putentryat c k x y s = s" by blast
  then show "terminal_row (terminal_putentryat c k x y s) = terminal_row s"
    "terminal_column (terminal_putentryat c k x y s) = terminal_column s"
    "terminal_color (terminal_putentryat c k x y s) = terminal_color s"
    "region_top (terminal_putentryat c k x y s) = region_top s"
    "region_bottom (terminal_putentryat c k x y s) = region_bottom s"
    "terminal_scrollback_count (terminal_putentryat c k x y s) = terminal_scrollback_count s"
    by (cases; simp add: putentryat_eq [OF assms] Let_def line_set_def assms)+
qed

lemma putentryat_outside:
  assumes "terminal_inv s" "x < 80" "y < 25" "\<not> in_region y s"
  shows "terminal_putentryat c k x y s =
    s\<lparr>terminal_buffer := (terminal_buffer s)(y * 80 + x := vga_entry c k)\<rparr>"
  using assms by (simp add: putentryat_eq follow_at_eq Let_def)

lemma putentryat_inside:
  assumes "terminal_inv s" "x < 80" "in_region y s"
  defines "t \<equiv> follow_at y s"
  shows "terminal_putentryat c k x y s =
    line_set (terminal_scrollback_logical_to_physical
        (terminal_scrollback_count s - height s + (y - region_top s)) t) x (vga_entry c k)
      (t\<lparr>terminal_buffer := (terminal_buffer t)(y * 80 + x := vga_entry c k)\<rparr>)"
proof -
  have "y < 25" using assms by (auto simp: terminal_inv_def ring_ok_def region_ok_def in_region_def)
  moreover have "in_region y t" "height t = height s" "region_top t = region_top s"
      "view_top t = terminal_scrollback_count s - height s"
    using assms by (simp_all add: in_region_def terminal_region_height_def view_top_def)
  ultimately show ?thesis
    using assms by (simp add: putentryat_eq Let_def)
qed

lemma putentryat_inside_view:
  assumes "terminal_inv s" "x < 80" "in_region y s"
  shows "terminal_scrollback_view_offset (terminal_putentryat c k x y s) = 0"
    and "term_lines (terminal_putentryat c k x y s) =
      (term_lines s)[terminal_scrollback_count s - height s + (y - region_top s) :=
        (term_lines s ! (terminal_scrollback_count s - height s + (y - region_top s)))[x := vga_entry c k]]"
proof -
  let ?t = "follow_at y s" and ?j = "terminal_scrollback_count s - height s + (y - region_top s)"
  let ?u = "?t\<lparr>terminal_buffer := (terminal_buffer ?t)(y * 80 + x := vga_entry c k)\<rparr>"
  show "terminal_scrollback_view_offset (terminal_putentryat c k x y s) = 0"
    using assms by (simp add: putentryat_inside line_set_def Let_def)
  have j: "?j < terminal_scrollback_count ?u" "terminal_scrollback_count ?u \<le> lines_max"
    using assms in_region_height [OF assms(3)] by (auto simp: terminal_inv_def ring_ok_def)
  have "term_lines ?u = term_lines s"
    using assms(1) by (simp add: term_lines_def)
  moreover have "terminal_scrollback_logical_to_physical ?j ?t = terminal_scrollback_logical_to_physical ?j ?u"
    by (simp add: terminal_scrollback_logical_to_physical_def)
  ultimately show "term_lines (terminal_putentryat c k x y s) = (term_lines s)[?j := (term_lines s ! ?j)[x := vga_entry c k]]"
    using line_set_lines [OF j(2) j(1), of x "vga_entry c k"] assms by (simp add: putentryat_inside)
qed

lemma putentryat_inv:
  assumes "terminal_inv s"
  shows "terminal_inv (terminal_putentryat c k x y s)"
proof (cases "x < 80 \<and> y < 25")
  case False
  then show ?thesis using assms by (auto simp: terminal_putentryat_def)
next
  case True
  let ?s = "terminal_putentryat c k x y s"
  have r: "ring_ok s" "cursor_ok s" "shows_view s" using assms by (simp_all add: terminal_inv_def)
  show ?thesis
  proof (cases "in_region y s")
    case False
    have "shows_view ?s"
      using True False assms r region_cell_outside [OF False]
      by (simp add: putentryat_outside shows_view_def ring_ok_def)
    then show ?thesis using True False assms r
      by (simp add: putentryat_outside terminal_inv_def cursor_ok_def)
  next
    case in_r: True
    let ?t = "follow_at y s" and ?j = "terminal_scrollback_count s - height s + (y - region_top s)"
    let ?u = "?t\<lparr>terminal_buffer := (terminal_buffer ?t)(y * 80 + x := vga_entry c k)\<rparr>"
    let ?l = "terminal_scrollback_logical_to_physical ?j ?t"
    have e: "?s = line_set ?l x (vga_entry c k) ?u"
      using assms True in_r by (simp add: putentryat_inside)
    have t: "ring_ok ?t" "cursor_ok ?t" "shows_view ?t"
      using follow_at_inv [OF assms] by (simp_all add: terminal_inv_def)
    have ht: "height ?t = height s" "view_top ?t = terminal_scrollback_count s - height s"
      using assms in_r by (simp_all add: terminal_region_height_def view_top_def)
    have u: "hist ?u = hist ?t" "?l = terminal_scrollback_logical_to_physical ?j ?u"
      by (simp_all add: terminal_scrollback_logical_to_physical_def)
    have hs: "height ?s = height s" "view_top ?s = view_top ?t" "region_top ?s = region_top ?t"
      using assms in_r True by (simp_all add: terminal_region_height_def view_top_def putentryat_inside_view)
    have cell: "terminal_buffer ?s ((region_top ?t + y') * 80 + x') = hist ?s (view_top ?t + y') x'"
      if "y' < height s" "x' < 80" for y' x'
    proof -
      have b: "view_top ?t + y' < lines_max" "?j < lines_max"
        using that(1) in_region_height [OF in_r] r(1) ht by (auto simp: ring_ok_def)
      have "terminal_buffer ?t ((region_top ?t + y') * 80 + x') = hist ?t (view_top ?t + y') x'"
        using t(3) that ht by (simp add: shows_view_def)
      moreover have "terminal_buffer ?s = terminal_buffer ?u"
        unfolding e by (simp add: line_set_def Let_def)
      ultimately show ?thesis
        using region_cell_eq [OF in_r, of x x' y'] that True assms
        unfolding e u(2) line_set_hist [OF b] u(1) by (auto simp: ht(2))
    qed
    have "ring_ok ?s" "cursor_ok ?s"
      unfolding e using t by (simp_all add: line_set_def Let_def cursor_ok_def)
    then show ?thesis
      using cell unfolding terminal_inv_def shows_view_def hs by simp
  qed
qed

section \<open>The abstract terminal\<close>

text \<open>
  The lines, the row of the cursor counted from the top of the region, and its column; \<open>h\<close> is
  the height of the region and \<open>k\<close> the current colour.
\<close>

type_synonym abs_terminal = "u16 list list \<times> nat \<times> nat"

definition term_abs :: "'a terminal_globals_scheme \<Rightarrow> abs_terminal" where
  "term_abs s = (term_lines s, terminal_row s - region_top s, terminal_column s)"

fun spec_newline :: "nat \<Rightarrow> u8 \<Rightarrow> abs_terminal \<Rightarrow> abs_terminal" where
  "spec_newline h k (ls, r, c) =
     (if r + 1 < h then (ls, r + 1, 0)
      else (last_n lines_max (ls @ [replicate 80 (vga_entry CHR '' '' k)]), h - 1, 0))"

fun spec_putchar :: "nat \<Rightarrow> u8 \<Rightarrow> char \<Rightarrow> abs_terminal \<Rightarrow> abs_terminal" where
  "spec_putchar h k ch (ls, r, c) =
     (if ch = CHR 0x0A then spec_newline h k (ls, r, c)
      else
        let i = length ls - h + r; ls = ls[i := (ls ! i)[c := vga_entry ch k]]
        in if c + 1 < 80 then (ls, r, c + 1) else spec_newline h k (ls, r, c + 1))"

lemma scroll_inv:
  assumes "ring_ok s"
  shows "terminal_inv (terminal_scroll s)"
    and "term_lines (terminal_scroll s) = last_n lines_max (term_lines s @ [blank_line s])"
    and "terminal_row (terminal_scroll s) = region_bottom s"
    and "terminal_column (terminal_scroll s) = 0"
    and "terminal_color (terminal_scroll s) = terminal_color s"
    and "region_top (terminal_scroll s) = region_top s"
    and "region_bottom (terminal_scroll s) = region_bottom s"
    and "terminal_scrollback_view_offset (terminal_scroll s) = 0"
proof -
  let ?s = "s\<lparr>terminal_scrollback_view_offset := 0\<rparr>"
  let ?t = "snd (terminal_scrollback_append_blank_line ?s)"
  have e: "terminal_scroll s = terminal_scrollback_sync_view_after_scroll ?t"
    by (cases s) (simp add: terminal_scroll_def Let_def split_beta)
  have s: "ring_ok ?s" using assms by (simp add: ring_ok_offset)
  have r: "ring_ok ?t" by (rule append_ring_ok [OF s]) simp
  have "term_lines (terminal_scroll s) = term_lines ?t"
    by (simp add: e sync_view_eq [OF r] term_lines_def)
  moreover have "term_lines ?s = term_lines s" by (simp add: term_lines_def)
  ultimately show "term_lines (terminal_scroll s) = last_n lines_max (term_lines s @ [blank_line s])"
    using append_lines [OF s] by simp
  show "terminal_inv (terminal_scroll s)"
    unfolding e by (rule sync_view_inv [OF r])
  show "terminal_row (terminal_scroll s) = region_bottom s" "terminal_column (terminal_scroll s) = 0"
    "terminal_color (terminal_scroll s) = terminal_color s"
    "region_top (terminal_scroll s) = region_top s"
    "region_bottom (terminal_scroll s) = region_bottom s"
    "terminal_scrollback_view_offset (terminal_scroll s) = 0"
    using append_fields [OF s] by (simp_all add: e sync_view_eq [OF r])
qed

definition newline :: "'a terminal_globals_scheme \<Rightarrow> 'a terminal_globals_scheme" where
  "newline s =
     (let s = s\<lparr>terminal_column := 0, terminal_row := terminal_row s + 1\<rparr>
      in if terminal_row s > region_bottom s then terminal_scroll s else s)"

lemma putchar_newline:
  "terminal_putchar c s =
     (if c = CHR 0x0A then newline s
      else
        let s = terminal_putentryat c (terminal_color s) (terminal_column s) (terminal_row s) s;
            s = s\<lparr>terminal_column := terminal_column s + 1\<rparr>
        in if terminal_column s \<ge> 80 then newline s else s)"
  by (simp add: terminal_putchar_def newline_def Let_def)

lemma newline_fields:
  assumes "ring_ok s"
  shows "terminal_color (newline s) = terminal_color s" "region_top (newline s) = region_top s"
    "region_bottom (newline s) = region_bottom s"
  using assms by (simp_all add: newline_def Let_def scroll_inv)

lemma newline_inv:
  assumes "ring_ok s" "shows_view s"
  shows "terminal_inv (newline s)"
proof (cases "terminal_row s + 1 > region_bottom s")
  case True
  then show ?thesis using assms by (simp add: newline_def scroll_inv(1))
next
  case False
  then show ?thesis
    using assms by (auto simp: newline_def terminal_inv_def cursor_ok_def ring_ok_def region_ok_def)
qed

lemma newline_refines:
  assumes "ring_ok s" "in_region (terminal_row s) s"
  shows "term_abs (newline s) = spec_newline (height s) (terminal_color s) (term_abs s)"
    and "in_region (terminal_row (newline s)) (newline s)"
proof -
  let ?t = "s\<lparr>terminal_column := 0, terminal_row := Suc (terminal_row s)\<rparr>"
  have t: "ring_ok ?t" using assms by simp
  have l: "term_lines ?t = term_lines s" by (simp add: term_lines_def)
  have "terminal_row s + 1 > region_bottom s \<longleftrightarrow> \<not> terminal_row s - region_top s + 1 < height s"
    using assms by (auto simp: in_region_def terminal_region_height_def)
  then show "term_abs (newline s) = spec_newline (height s) (terminal_color s) (term_abs s)"
    using assms
    by (auto simp: newline_def term_abs_def l scroll_inv [OF t] in_region_def terminal_region_height_def)
  show "in_region (terminal_row (newline s)) (newline s)"
    using assms
    by (auto simp: newline_def Let_def scroll_inv [OF t] in_region_def)
qed

lemma putchar_fields:
  assumes "terminal_inv s"
  shows "terminal_color (terminal_putchar c s) = terminal_color s"
    "region_top (terminal_putchar c s) = region_top s"
    "region_bottom (terminal_putchar c s) = region_bottom s"
proof -
  have r: "ring_ok s" and
    "ring_ok (terminal_putentryat c (terminal_color s) (terminal_column s) (terminal_row s) s)"
    using assms putentryat_inv [OF assms] by (simp_all add: terminal_inv_def)
  then show "terminal_color (terminal_putchar c s) = terminal_color s"
    "region_top (terminal_putchar c s) = region_top s"
    "region_bottom (terminal_putchar c s) = region_bottom s"
    using assms by (simp_all add: putchar_newline Let_def newline_fields)
qed

lemma putchar_inv:
  assumes "terminal_inv s"
  shows "terminal_inv (terminal_putchar c s)"
proof -
  let ?t = "terminal_putentryat c (terminal_color s) (terminal_column s) (terminal_row s) s"
  let ?u = "?t\<lparr>terminal_column := terminal_column s + 1\<rparr>"
  have t: "ring_ok ?t" "cursor_ok ?t" "shows_view ?t"
    using putentryat_inv [OF assms] by (simp_all add: terminal_inv_def)
  have "ring_ok s" "shows_view s" using assms by (simp_all add: terminal_inv_def)
  then have "terminal_inv (newline s)" by (rule newline_inv)
  moreover have "terminal_inv (newline ?u)"
    using t by (simp add: newline_inv)
  moreover have "terminal_inv ?u" if "terminal_column s + 1 < 80"
    using t that by (simp add: terminal_inv_def cursor_ok_def)
  ultimately show ?thesis
    using assms by (simp add: putchar_newline Let_def)
qed

lemma putchar_refines:
  assumes "terminal_inv s" "in_region (terminal_row s) s"
  shows "term_abs (terminal_putchar c s) =
      spec_putchar (height s) (terminal_color s) c (term_abs s)"
    and "in_region (terminal_row (terminal_putchar c s)) (terminal_putchar c s)"
proof -
  let ?t = "terminal_putentryat c (terminal_color s) (terminal_column s) (terminal_row s) s"
  let ?u = "?t\<lparr>terminal_column := terminal_column s + 1\<rparr>"
  have x: "terminal_column s < 80" using assms by (simp add: terminal_inv_def cursor_ok_def)
  have r: "ring_ok s" "ring_ok ?u"
    using assms putentryat_inv [OF assms(1)] by (simp_all add: terminal_inv_def)
  have i: "in_region (terminal_row ?u) ?u" and h: "height ?u = height s"
    using assms by (simp_all add: in_region_def terminal_region_height_def)
  let ?j = "terminal_scrollback_count s - height s + (terminal_row s - region_top s)"
  have u: "term_abs ?u = ((term_lines s)[?j := (term_lines s ! ?j)
      [terminal_column s := vga_entry c (terminal_color s)]],
      terminal_row s - region_top s, terminal_column s + 1)"
    using putentryat_inside_view(2) [OF assms(1) x assms(2), of c "terminal_color s"] assms(1)
    by (simp add: term_abs_def term_lines_def)
  show "term_abs (terminal_putchar c s) = spec_putchar (height s) (terminal_color s) c (term_abs s)"
    using newline_refines(1) [OF r(1) assms(2)] newline_refines(1) [OF r(2) i] u h assms(1)
    by (auto simp: putchar_newline Let_def term_abs_def)
  show "in_region (terminal_row (terminal_putchar c s)) (terminal_putchar c s)"
    using newline_refines(2) [OF r(1) assms(2)] newline_refines(2) [OF r(2) i] i assms(1)
    by (simp add: putchar_newline Let_def)
qed

lemma write_inv: "terminal_inv s \<Longrightarrow> terminal_inv (terminal_write cs s)"
  by (induction cs arbitrary: s) (simp_all add: putchar_inv)

end
