(* ===== verification/Terminal_Props.thy ===== *)
theory Terminal_Props
  imports Terminal_Spec
begin

text \<open>
  The terminal as a transition system: one step is a call of one of the functions that
  \<^verbatim>\<open>include/terminal.h\<close> declares. The properties are about every state such calls reach.
\<close>

section \<open>The remaining operations keep the invariant\<close>

lemma fold_inv: "(\<And>x s. P s \<Longrightarrow> P (f x s)) \<Longrightarrow> P s \<Longrightarrow> P (fold f xs s)"
  by (induction xs arbitrary: s) simp_all

lemma fill_rect_inv: "terminal_inv s \<Longrightarrow> terminal_inv (terminal_fill_rect x y w h k s)"
  unfolding terminal_fill_rect_def by (intro fold_inv [where P = terminal_inv] putentryat_inv)

lemma writeat_inv: "terminal_inv s \<Longrightarrow> terminal_inv (terminal_writeat cs x y s)"
proof -
  have "terminal_inv s \<Longrightarrow> terminal_inv (terminal_writeat_loop cs i x y s)" for i
    by (induction cs i x y s rule: terminal_writeat_loop.induct) (simp_all add: putentryat_inv)
  then show "terminal_inv s \<Longrightarrow> terminal_inv (terminal_writeat cs x y s)"
    by (simp add: terminal_writeat_def)
qed

lemma draw_inv:
  "terminal_inv s \<Longrightarrow> terminal_inv (terminal_draw_hline y c k s)"
  "terminal_inv s \<Longrightarrow> terminal_inv (terminal_draw_box x y w h k s)"
  "terminal_inv s \<Longrightarrow> terminal_inv (terminal_writecenter cs y s)"
  unfolding terminal_draw_hline_def terminal_draw_box_def terminal_writecenter_def Let_def
  by (auto intro!: fold_inv [where P = terminal_inv] putentryat_inv writeat_inv simp del: upt_rec_numeral)

lemma setcolor_inv: "terminal_inv s \<Longrightarrow> terminal_inv (terminal_setcolor fg bg s)"
  by (simp add: terminal_setcolor_def terminal_inv_def cursor_ok_def)

lemma writeline_inv: "terminal_inv s \<Longrightarrow> terminal_inv (terminal_writeline cs s)"
  by (simp add: terminal_writeline_def putchar_inv write_inv)

lemma log_inv:
  "terminal_inv s \<Longrightarrow> terminal_inv (terminal_log tag msg fg s)"
  "terminal_inv s \<Longrightarrow> terminal_inv (terminal_prompt s)"
  by (simp_all only: terminal_log_def terminal_prompt_def Let_def writeline_inv write_inv setcolor_inv)

lemma set_cursor_inv: "terminal_inv s \<Longrightarrow> terminal_inv (terminal_set_cursor x y s)"
  by (auto simp: terminal_set_cursor_def terminal_inv_def cursor_ok_def Let_def)

lemma set_region_inv:
  "terminal_inv s \<Longrightarrow> terminal_inv (terminal_set_region t b s)"
  "terminal_inv s \<Longrightarrow> terminal_inv (terminal_reset_region s)"
  by (auto simp: terminal_set_region_def terminal_reset_region_def Let_def terminal_inv_def [of s]
      cursor_ok_def region_ok_def intro!: reset_history_inv)

lemma clear_inv:
  assumes "terminal_inv s"
  shows "terminal_inv (terminal_clear s)"
proof -
  have "terminal_inv (terminal_fill_rect 0 0 80 25 (terminal_color s) s)"
    by (rule fill_rect_inv [OF assms])
  then show ?thesis
    by (auto simp: terminal_clear_def Let_def terminal_inv_def [of "terminal_fill_rect _ _ _ _ _ _"]
        cursor_ok_def ring_ok_def region_ok_def intro!: reset_history_inv)
qed

text \<open>A move of the view: the offset that results and the redrawn region.\<close>

definition move_view :: "nat \<Rightarrow> 'a terminal_globals_scheme \<Rightarrow> 'a terminal_globals_scheme" where
  "move_view n s =
     terminal_scrollback_sync_view_after_scroll (s\<lparr>terminal_scrollback_view_offset := n\<rparr>)"

lemma page_step: "region_ok s \<Longrightarrow> (if height s > 1 then height s - 1 else height s) = max 1 (height s - 1)"
  using height_bound [of s] by auto

lemma view_moves:
  assumes "ring_ok s"
  defines "m \<equiv> terminal_scrollback_count s - height s" and "v \<equiv> terminal_scrollback_view_offset s"
  shows "terminal_scrollback_line_up s = (if v < m then move_view (v + 1) s else s)"
    and "terminal_scrollback_line_down s = (if 0 < v then move_view (v - 1) s else s)"
    and "terminal_scrollback_page_up s =
      (if v < m then move_view (min m (v + max 1 (height s - 1))) s else s)"
    and "terminal_scrollback_page_down s =
      (if 0 < v then move_view (v - max 1 (height s - 1)) s else s)"
  using assms page_step [of s]
  by (auto simp: terminal_scrollback_line_up_def terminal_scrollback_line_down_def
      terminal_scrollback_page_up_def terminal_scrollback_page_down_def max_offset_eq move_view_def
      Let_def ring_ok_def)

lemma move_view_inv:
  "ring_ok s \<Longrightarrow> n \<le> terminal_scrollback_count s - height s \<Longrightarrow> terminal_inv (move_view n s)"
  unfolding move_view_def by (intro sync_view_inv ring_ok_offset)

lemma view_inv:
  assumes "terminal_inv s"
  shows "terminal_inv (terminal_scrollback_line_up s)" "terminal_inv (terminal_scrollback_line_down s)"
    "terminal_inv (terminal_scrollback_page_up s)" "terminal_inv (terminal_scrollback_page_down s)"
    "terminal_inv (terminal_scrollback_follow s)"
proof -
  have r: "ring_ok s" using assms by (simp add: terminal_inv_def)
  then have le: "terminal_scrollback_view_offset s \<le> terminal_scrollback_count s - height s"
    by (simp add: ring_ok_def)
  show "terminal_inv (terminal_scrollback_line_up s)" "terminal_inv (terminal_scrollback_line_down s)"
    "terminal_inv (terminal_scrollback_page_up s)" "terminal_inv (terminal_scrollback_page_down s)"
    using assms le r by (simp_all add: view_moves move_view_inv)
  let ?s = "s\<lparr>terminal_scrollback_view_offset := 0\<rparr>"
  have z: "ring_ok ?s" using r by (simp add: ring_ok_offset)
  then show "terminal_inv (terminal_scrollback_follow s)"
    using assms shows_view_synced [OF z]
    by (simp add: terminal_scrollback_follow_def sync_region_eq terminal_inv_def cursor_ok_def)
qed

section \<open>Initialisation\<close>

lemma putentryat_unscrolled:
  assumes "terminal_scrollback_view_offset s = 0" "x < 80" "y < 25"
  shows "\<exists>h. terminal_putentryat c k x y s =
    s\<lparr>terminal_buffer := (terminal_buffer s)(y * 80 + x := vga_entry c k),
      terminal_scrollback_history := h\<rparr>"
proof -
  let ?t = "buffer_set (y * 80 + x) (vga_entry c k) s"
  have "snd (terminal_scrollback_visible_top_logical ?t) = ?t"
    using assms(1)
    by (simp add: terminal_scrollback_visible_top_logical_def Let_def buffer_set_def)
  then have u: "\<exists>h. terminal_scrollback_update_cell x y (vga_entry c k) ?t =
      ?t\<lparr>terminal_scrollback_history := h\<rparr>"
    by (cases ?t)
      (auto simp: terminal_scrollback_update_cell_def Let_def line_set_def split: prod.splits)
  have "\<exists>h. ?t = ?t\<lparr>terminal_scrollback_history := h\<rparr>" by (cases ?t) simp
  with u show ?thesis
    using assms by (auto simp: terminal_putentryat_def Let_def buffer_set_def)
qed

definition blank_to :: "nat \<Rightarrow> nat \<Rightarrow> u16 \<Rightarrow> (nat \<Rightarrow> u16) \<Rightarrow> nat \<Rightarrow> u16" where
  "blank_to y x e b = (\<lambda>i. if i < y * 80 + x then e else b i)"

lemma blank_row:
  assumes "terminal_scrollback_view_offset s = 0" "terminal_buffer s = blank_to y 0 e b" "y < 25"
    and "n \<le> 80" "e = vga_entry CHR '' '' k"
  shows "\<exists>h. fold (\<lambda>xx. terminal_putentryat CHR '' '' k xx y) [0..<n] s =
    s\<lparr>terminal_buffer := blank_to y n e b, terminal_scrollback_history := h\<rparr>"
  using assms(4)
proof (induction n)
  case 0
  show ?case using assms(2) by (cases s) auto
next
  case (Suc n)
  then obtain h where h: "fold (\<lambda>xx. terminal_putentryat CHR '' '' k xx y) [0..<n] s =
      s\<lparr>terminal_buffer := blank_to y n e b, terminal_scrollback_history := h\<rparr>" by auto
  have "(blank_to y n e b)(y * 80 + n := e) = blank_to y (Suc n) e b"
    by (auto simp: blank_to_def fun_eq_iff)
  then show ?case
    using putentryat_unscrolled [of "s\<lparr>terminal_buffer := blank_to y n e b,
        terminal_scrollback_history := h\<rparr>" n y "CHR '' ''" k] assms Suc.prems
    by (auto simp: h)
qed

lemma blank_rows:
  assumes "terminal_scrollback_view_offset s = 0" "e = vga_entry CHR '' '' k" "n \<le> 25"
  shows "\<exists>h. fold (\<lambda>yy. fold (\<lambda>xx. terminal_putentryat CHR '' '' k xx yy) [0..<80]) [0..<n] s =
    s\<lparr>terminal_buffer := blank_to n 0 e (terminal_buffer s), terminal_scrollback_history := h\<rparr>"
  using assms(3)
proof (induction n)
  case 0
  show ?case by (cases s) (auto simp: blank_to_def)
next
  case (Suc n)
  then obtain h where h: "fold (\<lambda>yy. fold (\<lambda>xx. terminal_putentryat CHR '' '' k xx yy) [0..<80]) [0..<n] s =
      s\<lparr>terminal_buffer := blank_to n 0 e (terminal_buffer s), terminal_scrollback_history := h\<rparr>" by auto
  have "blank_to n 80 e b = blank_to (Suc n) 0 e b" for b
    by (simp add: blank_to_def add.commute)
  then show ?case
    using blank_row [of "s\<lparr>terminal_buffer := blank_to n 0 e (terminal_buffer s),
        terminal_scrollback_history := h\<rparr>" n e "terminal_buffer s" 80 k] assms Suc.prems
    by (auto simp: h simp del: upt_rec_numeral)
qed

lemma initialize_eq:
  assumes "terminal_scrollback_view_offset s = 0"
  shows "\<exists>h. terminal_initialize fg bg s = terminal_scrollback_reset_history
    (s\<lparr>terminal_row := 0, terminal_column := 0, terminal_color := terminal_make_color fg bg,
       region_top := 0, region_bottom := 24,
       terminal_buffer := blank_to 25 0 (vga_entry CHR '' '' (terminal_make_color fg bg)) (terminal_buffer s),
       terminal_scrollback_history := h\<rparr>)"
proof -
  let ?s = "s\<lparr>terminal_row := 0, terminal_column := 0, terminal_color := terminal_make_color fg bg,
              region_top := 0, region_bottom := 24\<rparr>"
  have m: "min (size_add 0 80) 80 = 80" "min (size_add 0 25) 25 = 25" by (simp_all add: size_add_def)
  have i: "terminal_initialize fg bg s = terminal_clear ?s" by (simp add: terminal_initialize_def)
  let ?e = "vga_entry CHR '' '' (terminal_make_color fg bg)"
  obtain h where h: "terminal_fill_rect 0 0 80 25 (terminal_make_color fg bg) ?s =
      ?s\<lparr>terminal_buffer := blank_to 25 0 ?e (terminal_buffer s), terminal_scrollback_history := h\<rparr>"
    using blank_rows [of ?s ?e "terminal_make_color fg bg" 25] assms
    unfolding terminal_fill_rect_def m by (auto simp del: upt_rec_numeral)
  have "terminal_clear ?s = terminal_scrollback_reset_history
      (?s\<lparr>terminal_buffer := blank_to 25 0 ?e (terminal_buffer s), terminal_scrollback_history := h,
         terminal_row := 0, terminal_column := 0\<rparr>)"
    using h by (simp add: terminal_clear_def)
  moreover have "?s\<lparr>terminal_buffer := b, terminal_scrollback_history := h,
         terminal_row := 0, terminal_column := 0\<rparr> =
      ?s\<lparr>terminal_buffer := b, terminal_scrollback_history := h\<rparr>" for b
    by (cases s) simp
  ultimately show ?thesis unfolding i by (intro exI [of _ h]) (simp only:)
qed

section \<open>The terminal as a transition system\<close>

inductive terminal_step :: "'a terminal_globals_scheme \<Rightarrow> 'a terminal_globals_scheme \<Rightarrow> bool" where
  step_setcolor: "terminal_step s (terminal_setcolor fg bg s)"
| step_putentryat: "terminal_step s (terminal_putentryat c k x y s)"
| step_fill_rect: "terminal_step s (terminal_fill_rect x y w h k s)"
| step_clear: "terminal_step s (terminal_clear s)"
| step_set_cursor: "terminal_step s (terminal_set_cursor x y s)"
| step_set_region: "terminal_step s (terminal_set_region t b s)"
| step_reset_region: "terminal_step s (terminal_reset_region s)"
| step_putchar: "terminal_step s (terminal_putchar c s)"
| step_write: "terminal_step s (terminal_write data s)"
| step_writeline: "terminal_step s (terminal_writeline data s)"
| step_writeat: "terminal_step s (terminal_writeat data x y s)"
| step_writecenter: "terminal_step s (terminal_writecenter data y s)"
| step_hline: "terminal_step s (terminal_draw_hline y c k s)"
| step_box: "terminal_step s (terminal_draw_box x y w h k s)"
| step_log: "terminal_step s (terminal_log tag message fg s)"
| step_prompt: "terminal_step s (terminal_prompt s)"
| step_follow: "terminal_step s (terminal_scrollback_follow s)"
| step_line_up: "terminal_step s (terminal_scrollback_line_up s)"
| step_line_down: "terminal_step s (terminal_scrollback_line_down s)"
| step_page_up: "terminal_step s (terminal_scrollback_page_up s)"
| step_page_down: "terminal_step s (terminal_scrollback_page_down s)"

lemmas terminal_op_inv = setcolor_inv putentryat_inv fill_rect_inv clear_inv set_cursor_inv
  set_region_inv putchar_inv write_inv writeline_inv writeat_inv draw_inv log_inv view_inv

lemma terminal_step_inv: "terminal_step s t \<Longrightarrow> terminal_inv s \<Longrightarrow> terminal_inv t"
  by (induction rule: terminal_step.induct) (simp_all add: terminal_op_inv)

lemma terminal_run_inv: "terminal_step\<^sup>*\<^sup>* s t \<Longrightarrow> terminal_inv s \<Longrightarrow> terminal_inv t"
  by (induction rule: rtranclp_induct) (simp_all add: terminal_step_inv)

lemma initialize_inv:
  assumes "terminal_scrollback_view_offset s = 0"
  shows "terminal_inv (terminal_initialize fg bg s)"
proof -
  from initialize_eq [OF assms] obtain h where
    "terminal_initialize fg bg s = terminal_scrollback_reset_history
    (s\<lparr>terminal_row := 0, terminal_column := 0, terminal_color := terminal_make_color fg bg,
       region_top := 0, region_bottom := 24,
       terminal_buffer := blank_to 25 0 (vga_entry CHR '' '' (terminal_make_color fg bg)) (terminal_buffer s),
       terminal_scrollback_history := h\<rparr>)" by blast
  then show ?thesis by (simp add: reset_history_inv region_ok_def cursor_ok_def)
qed

definition boot_screen :: terminal_globals where
  "boot_screen = terminal_initialize VGA_COLOR_LIGHT_GREY VGA_COLOR_BLACK boot_terminal"

lemma boot_screen_inv: "terminal_inv boot_screen"
  unfolding boot_screen_def by (rule initialize_inv) (simp add: boot_terminal_def)

lemma initialize_fields:
  fixes s :: "'a terminal_globals_scheme" and fg bg :: vga_color
  assumes "terminal_scrollback_view_offset s = 0"
  defines "t \<equiv> terminal_initialize fg bg s" and "e \<equiv> vga_entry CHR '' '' (terminal_make_color fg bg)"
  shows "terminal_row t = 0" "terminal_column t = 0" "region_top t = 0" "region_bottom t = 24"
    "terminal_color t = terminal_make_color fg bg" "terminal_scrollback_view_offset t = 0"
    "\<And>i. i < 2000 \<Longrightarrow> terminal_buffer t i = e" "term_lines t = replicate 25 (replicate 80 e)"
proof -
  obtain h where t: "t = terminal_scrollback_reset_history
    (s\<lparr>terminal_row := 0, terminal_column := 0, terminal_color := terminal_make_color fg bg,
       region_top := 0, region_bottom := 24, terminal_buffer := blank_to 25 0 e (terminal_buffer s),
       terminal_scrollback_history := h\<rparr>)"
    using initialize_eq [OF assms(1)] unfolding assms by blast
  have f: "terminal_row t = 0 \<and> terminal_column t = 0 \<and> region_top t = 0 \<and> region_bottom t = 24 \<and>
    terminal_color t = terminal_make_color fg bg \<and> terminal_scrollback_view_offset t = 0 \<and>
    terminal_scrollback_count t = 25 \<and> terminal_buffer t = blank_to 25 0 e (terminal_buffer s)"
    unfolding t by (simp add: reset_history_eq region_ok_def terminal_region_height_def)
  then show "terminal_row t = 0" "terminal_column t = 0" "region_top t = 0" "region_bottom t = 24"
    "terminal_color t = terminal_make_color fg bg" "terminal_scrollback_view_offset t = 0"
    "\<And>i. i < 2000 \<Longrightarrow> terminal_buffer t i = e"
    by (simp_all add: blank_to_def)
  have "shows_view t" using initialize_inv [OF assms(1)] unfolding assms by (simp add: terminal_inv_def)
  moreover have "height t = 25" "view_top t = 0"
    using f by (simp_all add: terminal_region_height_def view_top_def)
  ultimately have "hist t y x = e" if "y < 25" "x < 80" for y x
    using that f unfolding shows_view_def by (auto simp: blank_to_def)
  then show "term_lines t = replicate 25 (replicate 80 e)"
    using f by (auto simp: term_lines_def list_eq_iff_nth_eq)
qed

lemma write_refines:
  assumes "terminal_inv s" "in_region (terminal_row s) s"
  shows "term_abs (terminal_write cs s) =
    fold (spec_putchar (height s) (terminal_color s)) (takeWhile (\<lambda>c. c \<noteq> CHR 0x00) cs) (term_abs s)"
  using assms
proof (induction cs arbitrary: s)
  case (Cons c cs)
  have "height (terminal_putchar c s) = height s" "terminal_color (terminal_putchar c s) = terminal_color s"
    using putchar_fields [OF Cons.prems(1)] by (simp_all add: terminal_region_height_def)
  then show ?case
    using Cons.IH [of "terminal_putchar c s"] putchar_inv [OF Cons.prems(1)]
      putchar_refines [OF Cons.prems] by simp
qed simp

lemma move_view_fields:
  assumes "ring_ok s" "n \<le> terminal_scrollback_count s - height s"
  shows "term_lines (move_view n s) = term_lines s"
    "terminal_scrollback_view_offset (move_view n s) = n"
    "terminal_scrollback_count (move_view n s) = terminal_scrollback_count s"
    "height (move_view n s) = height s"
    "region_top (move_view n s) = region_top s"
    "hist (move_view n s) = hist s"
    "terminal_buffer (move_view n s) = rows_shift (region_top s) (height s)
       (terminal_scrollback_count s - height s - n) (hist s) (terminal_buffer s)"
  using ring_ok_offset [OF assms]
  by (simp_all add: move_view_def sync_view_eq term_lines_def synced_buffer_def view_top_def)

lemma rows_shift_twice:
  "rows_shift r n t f (rows_shift r n u f b) = rows_shift r n t f b"
  by (auto simp: rows_shift_def fun_eq_iff)

lemma rows_shift_shown:
  assumes "shows_view s"
  shows "rows_shift (region_top s) (height s) (view_top s) (hist s) (terminal_buffer s) = terminal_buffer s"
proof
  fix i
  show "rows_shift (region_top s) (height s) (view_top s) (hist s) (terminal_buffer s) i = terminal_buffer s i"
  proof (cases "region_top s \<le> i div 80 \<and> i div 80 < region_top s + height s")
    case True
    then have y: "i div 80 - region_top s < height s" "region_top s + (i div 80 - region_top s) = i div 80"
      by auto
    have "terminal_buffer s ((region_top s + (i div 80 - region_top s)) * 80 + i mod 80) =
        hist s (view_top s + (i div 80 - region_top s)) (i mod 80)"
      using assms y(1) unfolding shows_view_def by simp
    then show ?thesis using True unfolding y(2) by (simp add: rows_shift_def)
  qed (auto simp: rows_shift_def)
qed

section \<open>Properties\<close>

text \<open>
  C26. In every state that calls of the terminal interface reach after initialisation, the cursor
  is on the screen, the history holds at least the region and at most 1024 lines, and every cell of
  the scrolling region shows the history line that the view offset selects.
\<close>

theorem terminal_shows_history:
  assumes "terminal_scrollback_view_offset s0 = 0"
    and "terminal_step\<^sup>*\<^sup>* (terminal_initialize fg bg s0) s"
  shows "terminal_row s < 25 \<and> terminal_column s < 80 \<and>
    region_top s \<le> region_bottom s \<and> region_bottom s < 25 \<and>
    height s \<le> length (term_lines s) \<and> length (term_lines s) \<le> 1024 \<and>
    (\<forall>y x. region_top s \<le> y \<and> y \<le> region_bottom s \<and> x < 80 \<longrightarrow>
       terminal_buffer s (y * 80 + x) =
       term_lines s ! (length (term_lines s) - height s - terminal_scrollback_view_offset s
                        + (y - region_top s)) ! x)"
proof -
  have i: "terminal_inv s"
    using terminal_run_inv [OF assms(2)] initialize_inv [OF assms(1)] by blast
  then have r: "ring_ok s" "cursor_ok s" "shows_view s" by (simp_all add: terminal_inv_def)
  have "terminal_buffer s (y * 80 + x) = term_lines s ! (view_top s + (y - region_top s)) ! x"
    if "region_top s \<le> y \<and> y \<le> region_bottom s \<and> x < 80" for x y
  proof -
    have h: "y - region_top s < height s"
      using that in_region_height [of y s] by (simp add: in_region_def)
    then have "view_top s + (y - region_top s) < terminal_scrollback_count s"
      using r(1) by (auto simp: ring_ok_def view_top_def)
    moreover have "region_top s + (y - region_top s) = y" using that by simp
    ultimately show ?thesis
      using r(3) h that unfolding shows_view_def by (metis term_lines_nth nth_map_upt add_0 diff_zero)
  qed
  then show ?thesis
    using r by (auto simp: ring_ok_def cursor_ok_def region_ok_def view_top_def
        TERMINAL_SCROLLBACK_LINES_def)
qed

text \<open>One character written to the freshly initialised terminal.\<close>

theorem terminal_shows_history_witness:
  "terminal_column (terminal_putchar CHR ''A'' boot_screen) < 80"
  using terminal_shows_history [of boot_terminal VGA_COLOR_LIGHT_GREY VGA_COLOR_BLACK
      "terminal_putchar CHR ''A'' boot_screen"]
  by (simp add: boot_terminal_def boot_screen_def r_into_rtranclp step_putchar)

text \<open>
  C27. Writing a string refines the abstract terminal: character by character it places cells at
  the cursor, wraps at column 80, and at the bottom of the region appends a blank line to the
  history, dropping the oldest beyond 1024.
\<close>

theorem terminal_write_refines:
  assumes "terminal_inv s" "region_top s \<le> terminal_row s" "terminal_row s \<le> region_bottom s"
  shows "term_abs (terminal_write data s) =
      fold (spec_putchar (height s) (terminal_color s)) (takeWhile (\<lambda>c. c \<noteq> CHR 0x00) data) (term_abs s)
    \<and> terminal_inv (terminal_write data s)"
  using assms by (simp add: write_refines write_inv in_region_def)

theorem terminal_write_refines_witness:
  "fst (term_abs (terminal_write ''ok'' boot_screen)) ! 0 ! 1 = vga_entry CHR ''k'' 7"
proof -
  note f = initialize_fields [where s = boot_terminal and fg = VGA_COLOR_LIGHT_GREY and bg = VGA_COLOR_BLACK,
      folded boot_screen_def]
  have b: "terminal_scrollback_view_offset boot_terminal = 0" by (simp add: boot_terminal_def)
  have c: "terminal_color boot_screen = 7"
    using f(5) [OF b] by (simp add: terminal_make_color_def)
  have h: "height boot_screen = 25" using f(3,4) [OF b] by (simp add: terminal_region_height_def)
  have a: "term_abs boot_screen = (replicate 25 (replicate 80 (vga_entry CHR '' ''
      (terminal_make_color VGA_COLOR_LIGHT_GREY VGA_COLOR_BLACK))), 0, 0)"
    using f(1,2,3,8) [OF b] by (simp add: term_abs_def)
  have "term_abs (terminal_write ''ok'' boot_screen) =
      fold (spec_putchar 25 7) ''ok'' (term_abs boot_screen)"
    using terminal_write_refines [of boot_screen "''ok''"] boot_screen_inv f(1,3,4) [OF b] c h by simp
  then show ?thesis unfolding a by (simp add: Let_def)
qed

text \<open>
  C28. Scrolling back by a line and forward again shows exactly the screen there was, and neither
  step changes the history.
\<close>

theorem terminal_line_up_down:
  assumes "terminal_inv s"
    and "terminal_scrollback_view_offset s < terminal_scrollback_count s - terminal_region_height s"
  shows "terminal_buffer (terminal_scrollback_line_down (terminal_scrollback_line_up s)) = terminal_buffer s \<and>
    terminal_scrollback_view_offset (terminal_scrollback_line_up s) = terminal_scrollback_view_offset s + 1 \<and>
    terminal_scrollback_view_offset (terminal_scrollback_line_down (terminal_scrollback_line_up s)) =
      terminal_scrollback_view_offset s \<and>
    term_lines (terminal_scrollback_line_up s) = term_lines s \<and>
    term_lines (terminal_scrollback_line_down (terminal_scrollback_line_up s)) = term_lines s"
proof -
  let ?v = "terminal_scrollback_view_offset s"
  have r: "ring_ok s" and w: "shows_view s" using assms by (simp_all add: terminal_inv_def)
  let ?u = "move_view (?v + 1) s"
  have n: "?v + 1 \<le> terminal_scrollback_count s - height s" using assms(2) by simp
  note m = move_view_fields [OF r n]
  have "ring_ok ?u" using move_view_inv [OF r n] by (simp add: terminal_inv_def)
  moreover from this have "?v \<le> terminal_scrollback_count ?u - height ?u" using m n by simp
  ultimately have k: "terminal_scrollback_line_down ?u = move_view ?v ?u"
    "terminal_buffer (move_view ?v ?u) = rows_shift (region_top s) (height s)
       (terminal_scrollback_count s - height s - ?v) (hist s) (terminal_buffer ?u)"
    "term_lines (move_view ?v ?u) = term_lines s" "terminal_scrollback_view_offset (move_view ?v ?u) = ?v"
    using view_moves(2) [of ?u] move_view_fields [of ?u ?v] m by simp_all
  have "terminal_buffer (move_view ?v ?u) = terminal_buffer s"
    using rows_shift_shown [OF w] unfolding k(2) m(7) rows_shift_twice by (simp add: view_top_def)
  then show ?thesis
    using assms(2) k m by (simp add: view_moves(1) [OF r])
qed

definition boot_scrolled :: terminal_globals where
  "boot_scrolled = terminal_scroll boot_screen"

theorem terminal_line_up_down_witness:
  "terminal_buffer (terminal_scrollback_line_down (terminal_scrollback_line_up boot_scrolled)) =
    terminal_buffer boot_scrolled"
proof -
  note f = initialize_fields [where s = boot_terminal and fg = VGA_COLOR_LIGHT_GREY and bg = VGA_COLOR_BLACK,
      folded boot_screen_def]
  have b: "terminal_scrollback_view_offset boot_terminal = 0" by (simp add: boot_terminal_def)
  have r: "ring_ok boot_screen" using boot_screen_inv by (simp add: terminal_inv_def)
  have i: "terminal_inv boot_scrolled" unfolding boot_scrolled_def by (rule scroll_inv(1) [OF r])
  have "length (term_lines boot_scrolled) = 26"
    using f(8) [OF b] unfolding boot_scrolled_def scroll_inv(2) [OF r]
    by (simp add: last_n_def TERMINAL_SCROLLBACK_LINES_def)
  moreover have "terminal_scrollback_view_offset boot_scrolled = 0"
    unfolding boot_scrolled_def by (rule scroll_inv(8) [OF r])
  moreover have "height boot_scrolled = 25"
    using scroll_inv(6,7) [OF r] f(3,4) [OF b] by (simp add: boot_scrolled_def terminal_region_height_def)
  ultimately show ?thesis using terminal_line_up_down [OF i] by simp
qed

text \<open>
  C29. Initialisation clears all 2000 cells to blanks of the chosen colour, puts the cursor at the
  origin and starts the history with one blank line per row.
\<close>

theorem terminal_initialize_blank:
  assumes "terminal_scrollback_view_offset s = 0"
  shows "(\<forall>i < 2000. terminal_buffer (terminal_initialize fg bg s) i =
      vga_entry CHR '' '' (terminal_make_color fg bg)) \<and>
    term_abs (terminal_initialize fg bg s) =
      (replicate 25 (replicate 80 (vga_entry CHR '' '' (terminal_make_color fg bg))), 0, 0) \<and>
    terminal_inv (terminal_initialize fg bg s)"
  using assms by (simp add: initialize_fields term_abs_def initialize_inv)

theorem terminal_initialize_blank_witness:
  "terminal_buffer (terminal_initialize VGA_COLOR_WHITE VGA_COLOR_BLUE boot_terminal) 1999 =
    vga_entry CHR '' '' 31"
  using terminal_initialize_blank [of boot_terminal VGA_COLOR_WHITE VGA_COLOR_BLUE]
  by (simp add: boot_terminal_def terminal_make_color_def)

end
