(* ===== verification/Klog.thy ===== *)
theory Klog
  imports Terminal
begin

text \<open>
  The kernel log (\<^verbatim>\<open>core/klog.c\<close>) and the serial port mirror (\<^verbatim>\<open>drivers/serial.c\<close>), the two
  sinks every other component writes its diagnostics to. The log is a buffer of
  \<^verbatim>\<open>KLOG_CAPACITY\<close> characters that always ends in NUL; a full buffer is shifted down by one
  character for each character that arrives. The serial port is the trace of the port writes the
  driver issues; the wait for the transmitter-empty bit changes nothing and is not represented.

  The lemmas show that the buffer always holds the last \<^verbatim>\<open>KLOG_CAPACITY - 1\<close> characters that
  were written, in order.
\<close>

section \<open>State\<close>

definition KLOG_CAPACITY :: nat where
  "KLOG_CAPACITY = 4096"

abbreviation (input) NUL :: char where
  "NUL \<equiv> CHR 0x00"

abbreviation (input) NEWLINE :: char where
  "NEWLINE \<equiv> CHR 0x0A"

record log_globals = terminal_globals +
  klog_buffer :: "char list"
  klog_length :: nat
  serial_enabled :: bool
  serial_port_writes :: "(u16 \<times> u8) list"

section \<open>The log buffer\<close>

function klog_shift :: "nat \<Rightarrow> char list \<Rightarrow> char list" where
  "klog_shift i buf =
     (if i < KLOG_CAPACITY - 1 then klog_shift (Suc i) (buf[i - 1 := buf ! i]) else buf)"
  by pat_completeness auto
termination
  by (relation "measure (\<lambda>(i, buf). KLOG_CAPACITY - i)") (auto simp: KLOG_CAPACITY_def)

declare klog_shift.simps [simp del]

definition klog_append_char :: "char \<Rightarrow> 'a log_globals_scheme \<Rightarrow> 'a log_globals_scheme" where
  "klog_append_char c s =
     (if klog_length s < KLOG_CAPACITY - 1
      then let buf = (klog_buffer s)[klog_length s := c]; n = Suc (klog_length s)
           in s\<lparr>klog_buffer := buf[n := NUL], klog_length := n\<rparr>
      else let buf = klog_shift 1 (klog_buffer s)
           in s\<lparr>klog_buffer := buf[KLOG_CAPACITY - 2 := c, KLOG_CAPACITY - 1 := NUL]\<rparr>)"

definition klog_init :: "'a log_globals_scheme \<Rightarrow> 'a log_globals_scheme" where
  "klog_init s = s\<lparr>klog_length := 0, klog_buffer := (klog_buffer s)[0 := NUL]\<rparr>"

definition klog_clear :: "'a log_globals_scheme \<Rightarrow> 'a log_globals_scheme" where
  "klog_clear s = klog_init s"

primrec klog_write :: "string \<Rightarrow> 'a log_globals_scheme \<Rightarrow> 'a log_globals_scheme" where
  "klog_write [] s = s"
| "klog_write (c # cs) s = (if c = NUL then s else klog_write cs (klog_append_char c s))"

definition klog_writeline :: "string \<Rightarrow> 'a log_globals_scheme \<Rightarrow> 'a log_globals_scheme" where
  "klog_writeline text s = klog_append_char NEWLINE (klog_write text s)"

definition klog_dump_to_terminal :: "'a log_globals_scheme \<Rightarrow> 'a log_globals_scheme" where
  "klog_dump_to_terminal s =
     (let s = terminal_write (klog_buffer s) s
      in if klog_length s > 0 \<and> klog_buffer s ! (klog_length s - 1) \<noteq> NEWLINE
         then terminal_putchar NEWLINE s else s)"

definition klog_size :: "'a log_globals_scheme \<Rightarrow> nat" where
  "klog_size s = klog_length s"

section \<open>The serial port\<close>

abbreviation (input) COM_DATA :: u16 where "COM_DATA \<equiv> 0x3F8"
abbreviation (input) COM_INTERRUPT_EN :: u16 where "COM_INTERRUPT_EN \<equiv> 0x3F9"
abbreviation (input) COM_FIFO_CONTROL :: u16 where "COM_FIFO_CONTROL \<equiv> 0x3FA"
abbreviation (input) COM_LINE_CONTROL :: u16 where "COM_LINE_CONTROL \<equiv> 0x3FB"
abbreviation (input) COM_MODEM_CONTROL :: u16 where "COM_MODEM_CONTROL \<equiv> 0x3FC"

definition serial_outb :: "u16 \<Rightarrow> u8 \<Rightarrow> 'a log_globals_scheme \<Rightarrow> 'a log_globals_scheme" where
  "serial_outb port value s = s\<lparr>serial_port_writes := serial_port_writes s @ [(port, value)]\<rparr>"

text \<open>
  The code first polls the line status until the transmit register is empty. The port is taken to
  get ready, and the polling itself is not recorded.
\<close>

definition serial_write_raw :: "char \<Rightarrow> 'a log_globals_scheme \<Rightarrow> 'a log_globals_scheme" where
  "serial_write_raw c s = serial_outb COM_DATA (of_char c) s"

text \<open>\<open>echo\<close> is the byte the loop-back test reads back from the data port.\<close>

definition serial_init :: "u8 \<Rightarrow> 'a log_globals_scheme \<Rightarrow> 'a log_globals_scheme" where
  "serial_init echo s0 =
     (let s = s0\<lparr>serial_enabled := False\<rparr>;
          s = serial_outb COM_INTERRUPT_EN 0x00 s;
          s = serial_outb COM_LINE_CONTROL 0x80 s;
          s = serial_outb COM_DATA 0x03 s;
          s = serial_outb COM_INTERRUPT_EN 0x00 s;
          s = serial_outb COM_LINE_CONTROL 0x03 s;
          s = serial_outb COM_FIFO_CONTROL 0xC7 s;
          s = serial_outb COM_MODEM_CONTROL 0x1E s;
          s = serial_outb COM_DATA 0xAE s
      in if echo \<noteq> 0xAE then s
         else (serial_outb COM_MODEM_CONTROL 0x0F s)\<lparr>serial_enabled := True\<rparr>)"

definition serial_is_enabled :: "'a log_globals_scheme \<Rightarrow> bool" where
  "serial_is_enabled s = serial_enabled s"

definition serial_write_char :: "char \<Rightarrow> 'a log_globals_scheme \<Rightarrow> 'a log_globals_scheme" where
  "serial_write_char c s =
     (if \<not> serial_enabled s then s
      else serial_write_raw c (if c = NEWLINE then serial_write_raw (CHR 0x0D) s else s))"

primrec serial_write_loop :: "string \<Rightarrow> 'a log_globals_scheme \<Rightarrow> 'a log_globals_scheme" where
  "serial_write_loop [] s = s"
| "serial_write_loop (c # cs) s =
     (if c = NUL then s else serial_write_loop cs (serial_write_char c s))"

definition serial_write :: "string \<Rightarrow> 'a log_globals_scheme \<Rightarrow> 'a log_globals_scheme" where
  "serial_write text s = (if \<not> serial_enabled s then s else serial_write_loop text s)"

definition serial_writeline :: "string \<Rightarrow> 'a log_globals_scheme \<Rightarrow> 'a log_globals_scheme" where
  "serial_writeline text s = serial_write_char NEWLINE (serial_write text s)"

definition hex_digits :: string where
  "hex_digits = ''0123456789ABCDEF''"

definition serial_write_hex32 :: "u32 \<Rightarrow> 'a log_globals_scheme \<Rightarrow> 'a log_globals_scheme" where
  "serial_write_hex32 value s =
     (if \<not> serial_enabled s then s
      else fold (\<lambda>shift. serial_write_char
                   (hex_digits ! unat (drop_bit shift value AND 0x0F)))
             [28, 24, 20, 16, 12, 8, 4, 0] (serial_write ''0x'' s))"

text \<open>
  The body of the private \<^verbatim>\<open>*_log_event\<close> function that the heap, the block layer, the scheduler,
  the FAT reader and the virtio and mouse drivers each define.
\<close>

definition log_event :: "string \<Rightarrow> 'a log_globals_scheme \<Rightarrow> 'a log_globals_scheme" where
  "log_event message s = serial_writeline message (klog_writeline message s)"

section \<open>The state at boot\<close>

definition boot_log :: log_globals where
  "boot_log = terminal_globals.extend boot_terminal
     (log_globals.fields (replicate KLOG_CAPACITY NUL) 0 False [])"

lemmas boot_log_defs = boot_log_def terminal_globals.defs log_globals.defs boot_terminal_def

section \<open>What the log holds\<close>

definition klog_wf :: "'a log_globals_scheme \<Rightarrow> bool" where
  "klog_wf s \<longleftrightarrow> length (klog_buffer s) = KLOG_CAPACITY \<and> klog_length s < KLOG_CAPACITY \<and>
     klog_buffer s ! klog_length s = NUL"

definition klog_contents :: "'a log_globals_scheme \<Rightarrow> string" where
  "klog_contents s = take (klog_length s) (klog_buffer s)"

definition c_string :: "string \<Rightarrow> string" where
  "c_string t = takeWhile (\<lambda>c. c \<noteq> NUL) t"

text \<open>The proofs only use that the capacity leaves room for a character and the NUL.\<close>

abbreviation klog_last :: nat where
  "klog_last \<equiv> KLOG_CAPACITY - 2"

lemma klog_last_simps [simp]:
  "KLOG_CAPACITY - 1 = Suc klog_last" "KLOG_CAPACITY - Suc 0 = Suc klog_last"
  "Suc (Suc klog_last) = KLOG_CAPACITY" "min KLOG_CAPACITY (Suc klog_last) = Suc klog_last"
  "KLOG_CAPACITY - Suc klog_last = 1"
  by (simp_all add: KLOG_CAPACITY_def)

lemma klog_shift_eq:
  "length buf = KLOG_CAPACITY \<Longrightarrow> i \<le> klog_last \<Longrightarrow>
     klog_shift (Suc i) buf =
       take i buf @ take (klog_last - i) (drop (Suc i) buf) @ drop klog_last buf"
proof (induction "klog_last - i" arbitrary: i buf)
  case 0
  then have "i = klog_last" by simp
  then show ?case by (simp add: klog_shift.simps [of "Suc klog_last"])
next
  case (Suc k)
  let ?buf = "buf[i := buf ! Suc i]"
  from Suc.hyps(2) have i: "i < klog_last" by simp
  have "klog_shift (Suc i) buf = klog_shift (Suc (Suc i)) ?buf"
    using i by (simp add: klog_shift.simps [of "Suc i"])
  also have "\<dots> = take (Suc i) ?buf @ take (klog_last - Suc i) (drop (Suc (Suc i)) ?buf) @
      drop klog_last ?buf"
    using Suc.hyps Suc.prems i by (intro Suc.hyps(1)) auto
  also have "take (Suc i) ?buf = take i buf @ [buf ! Suc i]"
    using Suc.prems i by (simp add: take_Suc_conv_app_nth)
  also have "drop klog_last ?buf = drop klog_last buf"
    using i by simp
  also have "(take i buf @ [buf ! Suc i]) @ take (klog_last - Suc i) (drop (Suc (Suc i)) ?buf) @
        drop klog_last buf =
      take i buf @ (buf ! Suc i # take (klog_last - Suc i) (drop (Suc (Suc i)) buf)) @
        drop klog_last buf"
    by simp
  also have "buf ! Suc i # take (klog_last - Suc i) (drop (Suc (Suc i)) buf) =
      take (klog_last - i) (drop (Suc i) buf)"
  proof -
    have "drop (Suc i) buf = buf ! Suc i # drop (Suc (Suc i)) buf"
      using Suc.prems i by (simp add: Cons_nth_drop_Suc)
    moreover have "klog_last - i = Suc (klog_last - Suc i)" using i by simp
    ultimately show ?thesis by simp
  qed
  finally show ?case .
qed

lemma klog_shift_1:
  "length buf = KLOG_CAPACITY \<Longrightarrow>
     klog_shift (Suc 0) buf = take klog_last (drop 1 buf) @ drop klog_last buf"
  using klog_shift_eq [of buf 0] by simp

lemma klog_append_char_full:
  assumes "klog_wf s" "\<not> klog_length s < Suc klog_last"
  shows "klog_append_char c s =
    s\<lparr>klog_buffer := take klog_last (drop 1 (klog_buffer s)) @ [c, NUL]\<rparr>"
proof -
  have l: "length (klog_buffer s) = KLOG_CAPACITY" using assms by (simp add: klog_wf_def)
  then have "length (drop klog_last (klog_buffer s)) = 2" by (simp add: KLOG_CAPACITY_def)
  then obtain x y where "drop klog_last (klog_buffer s) = [x, y]"
    by (metis (no_types, opaque_lifting) length_0_conv length_Suc_conv numeral_2_eq_2)
  moreover have "length (take klog_last (drop 1 (klog_buffer s))) = klog_last"
    using l by simp
  ultimately show ?thesis
    using assms(2) l by (simp add: klog_append_char_def klog_shift_1 list_update_append Suc_diff_le)
qed

lemma klog_append_char_wf: "klog_wf s \<Longrightarrow> klog_wf (klog_append_char c s)"
proof (cases "klog_length s < Suc klog_last")
  case True
  then have "Suc (klog_length s) < KLOG_CAPACITY"
    using klog_last_simps(3) by linarith
  moreover assume "klog_wf s"
  ultimately show ?thesis
    by (auto simp: klog_append_char_def klog_wf_def Let_def)
next
  case False
  moreover assume wf: "klog_wf s"
  moreover have "klog_length s = Suc klog_last"
    using wf False klog_last_simps(3) unfolding klog_wf_def by linarith
  moreover have "length (take klog_last (drop 1 (klog_buffer s))) = klog_last"
    using wf by (simp add: klog_wf_def)
  ultimately show ?thesis
    by (simp add: klog_append_char_full klog_wf_def nth_append)
qed

lemma klog_append_char_contents:
  assumes "klog_wf s"
  shows "klog_contents (klog_append_char c s) = last_n (KLOG_CAPACITY - 1) (klog_contents s @ [c])"
proof (cases "klog_length s < Suc klog_last")
  case True
  with assms show ?thesis
    by (simp add: klog_append_char_def klog_contents_def klog_wf_def last_n_def Let_def
        take_Suc_conv_app_nth)
next
  case False
  with assms have n: "klog_length s = Suc klog_last" and l: "length (klog_buffer s) = KLOG_CAPACITY"
    using klog_last_simps(3) unfolding klog_wf_def by linarith+
  have "klog_contents (klog_append_char c s) = take klog_last (drop 1 (klog_buffer s)) @ [c]"
    using n l by (simp add: klog_append_char_full [OF assms False] klog_contents_def)
  also have "\<dots> = last_n (KLOG_CAPACITY - 1) (klog_contents s @ [c])"
    using n l by (simp add: klog_contents_def last_n_def drop_take)
  finally show ?thesis .
qed

lemma klog_write_wf: "klog_wf s \<Longrightarrow> klog_wf (klog_write t s)"
  by (induction t arbitrary: s) (auto simp: klog_append_char_wf)

lemma klog_wf_full: "klog_wf s \<Longrightarrow> last_n (KLOG_CAPACITY - 1) (klog_contents s) = klog_contents s"
  by (auto simp: klog_wf_def klog_contents_def last_n_def KLOG_CAPACITY_def)

lemma klog_write_keeps_tail:
  "klog_wf s \<Longrightarrow>
     klog_contents (klog_write t s) = last_n (KLOG_CAPACITY - 1) (klog_contents s @ c_string t)"
proof (induction t arbitrary: s)
  case Nil
  then show ?case using klog_wf_full [of s] by (simp add: c_string_def)
next
  case (Cons c t)
  show ?case
  proof (cases "c = NUL")
    case True
    with Cons.prems show ?thesis using klog_wf_full [of s] by (simp add: c_string_def)
  next
    case False
    then have "klog_contents (klog_write (c # t) s) =
        last_n (KLOG_CAPACITY - 1) (klog_contents (klog_append_char c s) @ c_string t)"
      using Cons by (simp add: klog_append_char_wf)
    also have "\<dots> = last_n (KLOG_CAPACITY - 1) ((klog_contents s @ [c]) @ c_string t)"
      by (simp only: klog_append_char_contents [OF Cons.prems] last_n_append_last_n)
    also have "\<dots> = last_n (KLOG_CAPACITY - 1) (klog_contents s @ c_string (c # t))"
      using False by (simp add: c_string_def)
    finally show ?thesis .
  qed
qed

lemma klog_writeline_wf: "klog_wf s \<Longrightarrow> klog_wf (klog_writeline t s)"
  by (simp add: klog_writeline_def klog_append_char_wf klog_write_wf)

section \<open>What the serial port transmits\<close>

text \<open>Line feeds are sent as carriage return and line feed.\<close>

definition crlf :: "string \<Rightarrow> string" where
  "crlf t = concat (map (\<lambda>c. if c = NEWLINE then [CHR 0x0D, NEWLINE] else [c]) t)"

lemma serial_write_char_frame [simp]:
  "klog_buffer (serial_write_char c s) = klog_buffer s"
  "klog_length (serial_write_char c s) = klog_length s"
  "serial_enabled (serial_write_char c s) = serial_enabled s"
  by (simp_all add: serial_write_char_def serial_write_raw_def serial_outb_def)

lemma serial_write_loop_frame [simp]:
  "klog_buffer (serial_write_loop t s) = klog_buffer s"
  "klog_length (serial_write_loop t s) = klog_length s"
  "serial_enabled (serial_write_loop t s) = serial_enabled s"
  by (induction t arbitrary: s) simp_all

lemma serial_writeline_frame [simp]:
  "klog_buffer (serial_writeline t s) = klog_buffer s"
  "klog_length (serial_writeline t s) = klog_length s"
  "serial_enabled (serial_writeline t s) = serial_enabled s"
  by (simp_all add: serial_writeline_def serial_write_def)

lemma serial_wf_contents [simp]:
  "klog_wf (serial_writeline t s) = klog_wf s"
  "klog_contents (serial_writeline t s) = klog_contents s"
  by (simp_all add: klog_wf_def klog_contents_def)

lemma klog_append_char_serial [simp]:
  "serial_enabled (klog_append_char c s) = serial_enabled s"
  "serial_port_writes (klog_append_char c s) = serial_port_writes s"
  by (simp_all add: klog_append_char_def Let_def)

lemma klog_write_serial [simp]:
  "serial_enabled (klog_write t s) = serial_enabled s"
  "serial_port_writes (klog_write t s) = serial_port_writes s"
  by (induction t arbitrary: s) simp_all

lemma klog_writeline_serial [simp]:
  "serial_enabled (klog_writeline t s) = serial_enabled s"
  "serial_port_writes (klog_writeline t s) = serial_port_writes s"
  by (simp_all add: klog_writeline_def)

lemma serial_write_loop_trace:
  "serial_enabled s \<Longrightarrow>
     serial_port_writes (serial_write_loop t s) =
       serial_port_writes s @ map (\<lambda>c. (COM_DATA, of_char c)) (crlf (c_string t))"
  by (induction t arbitrary: s)
    (auto simp: c_string_def crlf_def serial_write_char_def serial_write_raw_def serial_outb_def)

lemma serial_writeline_trace:
  "serial_port_writes (serial_writeline t s) =
     (if serial_enabled s
      then serial_port_writes s @ map (\<lambda>c. (COM_DATA, of_char c)) (crlf (c_string t @ [NEWLINE]))
      else serial_port_writes s)"
  by (simp add: serial_writeline_def serial_write_def serial_write_char_def serial_write_raw_def
      serial_outb_def serial_write_loop_trace crlf_def)

lemma log_event_wf: "klog_wf s \<Longrightarrow> klog_wf (log_event m s)"
  by (simp add: log_event_def klog_writeline_wf)

lemma log_event_serial_enabled [simp]: "serial_enabled (log_event m s) = serial_enabled s"
  by (simp add: log_event_def)

text \<open>Whatever the fields that extend the record, writing a message leaves them alone.\<close>

lemma klog_append_char_more [simp]: "log_globals.more (klog_append_char c s) = log_globals.more s"
  by (simp add: klog_append_char_def Let_def)

lemma klog_write_more [simp]: "log_globals.more (klog_write t s) = log_globals.more s"
  by (induction t arbitrary: s) simp_all

lemma serial_write_char_more [simp]: "log_globals.more (serial_write_char c s) = log_globals.more s"
  by (simp add: serial_write_char_def serial_write_raw_def serial_outb_def)

lemma serial_write_loop_more [simp]: "log_globals.more (serial_write_loop t s) = log_globals.more s"
  by (induction t arbitrary: s) simp_all

lemma log_event_more [simp]: "log_globals.more (log_event m s) = log_globals.more s"
  by (simp add: log_event_def serial_writeline_def serial_write_def klog_writeline_def)

section \<open>Properties\<close>

text \<open>
  C25. Writing a line to a well-formed log leaves it well formed and holding exactly the last
  \<^verbatim>\<open>KLOG_CAPACITY - 1\<close> characters of what it held followed by the line and a line feed.
\<close>

theorem klog_writeline_keeps_tail:
  assumes "klog_wf s"
  shows "klog_wf (klog_writeline t s) \<and>
    klog_contents (klog_writeline t s) =
      last_n (KLOG_CAPACITY - 1) (klog_contents s @ c_string t @ [NEWLINE])"
proof -
  have wf: "klog_wf (klog_write t s)" using assms by (rule klog_write_wf)
  have "klog_contents (klog_writeline t s) =
      last_n (KLOG_CAPACITY - 1) (last_n (KLOG_CAPACITY - 1) (klog_contents s @ c_string t) @ [NEWLINE])"
    by (simp only: klog_writeline_def klog_append_char_contents [OF wf] klog_write_keeps_tail [OF assms])
  then show ?thesis
    using klog_writeline_wf [OF assms] by (simp only: last_n_append_last_n append_assoc simp_thms)
qed

theorem klog_writeline_keeps_tail_witness:
  "klog_contents (klog_writeline ''boot'' boot_log) = ''boot'' @ [NEWLINE]"
proof -
  have "klog_wf boot_log"
    by (simp add: boot_log_defs klog_wf_def KLOG_CAPACITY_def)
  from klog_writeline_keeps_tail [OF this, of "''boot''"] show ?thesis
    by (simp add: boot_log_defs klog_contents_def c_string_def last_n_def KLOG_CAPACITY_def)
qed

end
