(* ===== verification/Kheap.thy ===== *)
theory Kheap
  imports Klog
begin

text \<open>
  The kernel heap (\<^verbatim>\<open>core/heap.c\<close>): a first-fit allocator over one fixed region. Every block
  starts with a header that links it to its neighbours in memory and, when it is free, to the free
  list, which is kept in address order.

  Headers are reached through pointers, so they live in a store \<open>heap_mem\<close> from addresses to
  header values; a null pointer is address 0. Payload bytes live in \<open>mem\<close>. That the two do not
  overlap is a theorem about the allocator, not an assumption (see \<^verbatim>\<open>Kheap_Spec\<close>).

  The loops that the source bounds by \<^verbatim>\<open>heap_max_walks()\<close> recurse on what is left of that bound. The
  two that have no bound, the search for a fit and the search for the insertion point, are partial:
  \<open>None\<close> is a loop that never ends.
\<close>

section \<open>State\<close>

abbreviation (input) TERMOB_HEAP_ALIGNMENT :: u32 where "TERMOB_HEAP_ALIGNMENT \<equiv> 16"
abbreviation (input) TERMOB_HEAP_SIZE_BYTES :: u32 where "TERMOB_HEAP_SIZE_BYTES \<equiv> 0x100000"
abbreviation (input) TERMOB_HEAP_BLOCK_MAGIC :: u32 where "TERMOB_HEAP_BLOCK_MAGIC \<equiv> 0x48454150"
abbreviation (input) TERMOB_HEAP_BLOCK_FLAG_FREE :: u32 where "TERMOB_HEAP_BLOCK_FLAG_FREE \<equiv> 1"
abbreviation (input) TERMOB_HEAP_MIN_SPLIT_BYTES :: u32 where "TERMOB_HEAP_MIN_SPLIT_BYTES \<equiv> 16"
abbreviation (input) TERMOB_HEAP_DIAG_INVALID_FREE :: u32 where "TERMOB_HEAP_DIAG_INVALID_FREE \<equiv> 0x01"
abbreviation (input) TERMOB_HEAP_DIAG_DOUBLE_FREE :: u32 where "TERMOB_HEAP_DIAG_DOUBLE_FREE \<equiv> 0x02"
abbreviation (input) TERMOB_HEAP_DIAG_CORRUPTION :: u32 where "TERMOB_HEAP_DIAG_CORRUPTION \<equiv> 0x04"
abbreviation (input) TERMOB_HEAP_DIAG_INTEGRITY :: u32 where "TERMOB_HEAP_DIAG_INTEGRITY \<equiv> 0x08"
abbreviation (input) TERMOB_HEAP_DIAG_SELFTEST :: u32 where "TERMOB_HEAP_DIAG_SELFTEST \<equiv> 0x10"

text \<open>\<^verbatim>\<open>sizeof(heap_block_t)\<close> is 28 on i386, rounded up to the alignment.\<close>

abbreviation (input) TERMOB_HEAP_HEADER_SIZE :: u32 where "TERMOB_HEAP_HEADER_SIZE \<equiv> 32"

record heap_block =
  hb_magic :: u32
  hb_flags :: u32
  hb_size_bytes :: u32
  hb_prev_phys :: u32
  hb_next_phys :: u32
  hb_prev_free :: u32
  hb_next_free :: u32

record heap_globals = log_globals +
  mem :: "u32 \<Rightarrow> u8"
  heap_mem :: "u32 \<Rightarrow> heap_block"
  heap_start_ptr :: u32
  heap_end_ptr :: u32
  heap_first_block :: u32
  heap_free_list :: u32
  heap_ready :: bool
  heap_diag_error_count :: u32
  heap_diag_error_flags :: u32
  heap_diag_last_error_message :: string

text \<open>Assignment to one field of the header that a pointer refers to.\<close>

definition upd_block ::
  "u32 \<Rightarrow> (heap_block \<Rightarrow> heap_block) \<Rightarrow> 'a heap_globals_scheme \<Rightarrow> 'a heap_globals_scheme" where
  "upd_block p f s = s\<lparr>heap_mem := (heap_mem s)(p := f (heap_mem s p))\<rparr>"

section \<open>Small helpers\<close>

definition heap_align_up :: "u32 \<Rightarrow> u32 \<Rightarrow> u32" where
  "heap_align_up value alignment = (value + (alignment - 1)) AND NOT (alignment - 1)"

definition heap_log_event :: "string \<Rightarrow> 'a heap_globals_scheme \<Rightarrow> 'a heap_globals_scheme" where
  "heap_log_event message s = serial_writeline message (klog_writeline message s)"

definition heap_note_error ::
  "u32 \<Rightarrow> string \<Rightarrow> 'a heap_globals_scheme \<Rightarrow> 'a heap_globals_scheme" where
  "heap_note_error flag message s =
     heap_log_event message
       (s\<lparr>heap_diag_error_count := heap_diag_error_count s + 1,
          heap_diag_error_flags := heap_diag_error_flags s OR flag,
          heap_diag_last_error_message := message\<rparr>)"

definition heap_block_payload_address :: "u32 \<Rightarrow> u32" where
  "heap_block_payload_address block = block + TERMOB_HEAP_HEADER_SIZE"

definition heap_block_end_address :: "'a heap_globals_scheme \<Rightarrow> u32 \<Rightarrow> u32" where
  "heap_block_end_address s block =
     heap_block_payload_address block + hb_size_bytes (heap_mem s block)"

definition heap_block_is_free :: "'a heap_globals_scheme \<Rightarrow> u32 \<Rightarrow> bool" where
  "heap_block_is_free s block \<longleftrightarrow> hb_flags (heap_mem s block) AND TERMOB_HEAP_BLOCK_FLAG_FREE \<noteq> 0"

definition heap_mark_block_free :: "u32 \<Rightarrow> 'a heap_globals_scheme \<Rightarrow> 'a heap_globals_scheme" where
  "heap_mark_block_free block =
     upd_block block (\<lambda>b. b\<lparr>hb_flags := hb_flags b OR TERMOB_HEAP_BLOCK_FLAG_FREE\<rparr>)"

definition heap_mark_block_used :: "u32 \<Rightarrow> 'a heap_globals_scheme \<Rightarrow> 'a heap_globals_scheme" where
  "heap_mark_block_used block =
     upd_block block (\<lambda>b. b\<lparr>hb_flags := hb_flags b AND NOT TERMOB_HEAP_BLOCK_FLAG_FREE\<rparr>)"

primrec heap_zero_loop :: "nat \<Rightarrow> u32 \<Rightarrow> (u32 \<Rightarrow> u8) \<Rightarrow> u32 \<Rightarrow> u8" where
  "heap_zero_loop 0 dst m = m"
| "heap_zero_loop (Suc n) dst m = heap_zero_loop n (dst + 1) (m(dst := 0))"

definition heap_zero_bytes :: "u32 \<Rightarrow> u32 \<Rightarrow> 'a heap_globals_scheme \<Rightarrow> 'a heap_globals_scheme" where
  "heap_zero_bytes dst count s = s\<lparr>mem := heap_zero_loop (unat count) dst (mem s)\<rparr>"

definition heap_total_payload_bytes :: "'a heap_globals_scheme \<Rightarrow> u32" where
  "heap_total_payload_bytes s =
     (if \<not> heap_ready s \<or> heap_end_ptr s \<le> heap_start_ptr s + TERMOB_HEAP_HEADER_SIZE then 0
      else (heap_end_ptr s - heap_start_ptr s) - TERMOB_HEAP_HEADER_SIZE)"

definition heap_pointer_within_region :: "'a heap_globals_scheme \<Rightarrow> u32 \<Rightarrow> bool" where
  "heap_pointer_within_region s pointer \<longleftrightarrow> pointer \<ge> heap_start_ptr s \<and> pointer < heap_end_ptr s"

definition heap_max_walks :: "'a heap_globals_scheme \<Rightarrow> u32" where
  "heap_max_walks s =
     (let total_bytes = heap_end_ptr s - heap_start_ptr s
      in if total_bytes = 0 then 0 else total_bytes div TERMOB_HEAP_ALIGNMENT + 1)"

definition heap_block_is_sane :: "'a heap_globals_scheme \<Rightarrow> u32 \<Rightarrow> bool" where
  "heap_block_is_sane s block =
     (if block = 0 then False
      else
        let block_address = block;
            payload_address = heap_block_payload_address block;
            block_end = heap_block_end_address s block
        in if block_address AND (TERMOB_HEAP_ALIGNMENT - 1) \<noteq> 0 then False
           else if \<not> heap_pointer_within_region s block_address \<or> payload_address < block_address
           then False
           else if hb_magic (heap_mem s block) \<noteq> TERMOB_HEAP_BLOCK_MAGIC then False
           else if hb_size_bytes (heap_mem s block) AND (TERMOB_HEAP_ALIGNMENT - 1) \<noteq> 0 then False
           else if block_end < payload_address \<or> block_end > heap_end_ptr s then False
           else True)"

section \<open>The free list\<close>

definition heap_remove_free_block ::
  "u32 \<Rightarrow> 'a heap_globals_scheme \<Rightarrow> 'a heap_globals_scheme" where
  "heap_remove_free_block block s0 =
     (if block = 0 then s0
      else
        let prev = hb_prev_free (heap_mem s0 block);
            s1 = (if prev \<noteq> 0
                  then upd_block prev (\<lambda>b. b\<lparr>hb_next_free := hb_next_free (heap_mem s0 block)\<rparr>) s0
                  else if heap_free_list s0 = block
                  then s0\<lparr>heap_free_list := hb_next_free (heap_mem s0 block)\<rparr>
                  else s0);
            nxt = hb_next_free (heap_mem s1 block);
            s2 = (if nxt \<noteq> 0
                  then upd_block nxt (\<lambda>b. b\<lparr>hb_prev_free := hb_prev_free (heap_mem s1 block)\<rparr>) s1
                  else s1)
        in upd_block block (\<lambda>b. b\<lparr>hb_prev_free := 0, hb_next_free := 0\<rparr>) s2)"

partial_function (option) heap_insert_scan ::
  "(u32 \<Rightarrow> heap_block) \<Rightarrow> u32 \<Rightarrow> u32 \<Rightarrow> u32 \<Rightarrow> (u32 \<times> u32) option" where
  "heap_insert_scan m block previous cursor =
     (if cursor \<noteq> 0 \<and> cursor < block
      then heap_insert_scan m block cursor (hb_next_free (m cursor))
      else Some (previous, cursor))"

definition heap_insert_free_block ::
  "u32 \<Rightarrow> 'a heap_globals_scheme \<Rightarrow> 'a heap_globals_scheme option" where
  "heap_insert_free_block block s0 =
     (if block = 0 then Some s0
      else
        let s1 = heap_mark_block_free block s0;
            s2 = upd_block block (\<lambda>b. b\<lparr>hb_prev_free := 0, hb_next_free := 0\<rparr>) s1
        in if heap_free_list s2 = 0 \<or> block < heap_free_list s2
           then
             let s3 = upd_block block (\<lambda>b. b\<lparr>hb_next_free := heap_free_list s2\<rparr>) s2;
                 s4 = (if heap_free_list s3 \<noteq> 0
                       then upd_block (heap_free_list s3) (\<lambda>b. b\<lparr>hb_prev_free := block\<rparr>) s3
                       else s3)
             in Some (s4\<lparr>heap_free_list := block\<rparr>)
           else
             do {
               (previous, cursor) \<leftarrow>
                 heap_insert_scan (heap_mem s2) block (heap_free_list s2)
                   (hb_next_free (heap_mem s2 (heap_free_list s2)));
               let s3 = upd_block block
                          (\<lambda>b. b\<lparr>hb_prev_free := previous, hb_next_free := cursor\<rparr>) s2;
                   s4 = upd_block previous (\<lambda>b. b\<lparr>hb_next_free := block\<rparr>) s3
               in Some (if cursor \<noteq> 0
                        then upd_block cursor (\<lambda>b. b\<lparr>hb_prev_free := block\<rparr>) s4
                        else s4)
             })"

section \<open>Splitting and coalescing\<close>

definition heap_initialize_block ::
  "u32 \<Rightarrow> u32 \<Rightarrow> u32 \<Rightarrow> u32 \<Rightarrow> bool \<Rightarrow> 'a heap_globals_scheme \<Rightarrow> 'a heap_globals_scheme" where
  "heap_initialize_block block size_bytes prev_phys next_phys is_free s =
     (let s1 = upd_block block
                 (\<lambda>b. \<lparr>hb_magic = TERMOB_HEAP_BLOCK_MAGIC, hb_flags = 0, hb_size_bytes = size_bytes,
                       hb_prev_phys = prev_phys, hb_next_phys = next_phys,
                       hb_prev_free = 0, hb_next_free = 0\<rparr>) s
      in if is_free then heap_mark_block_free block s1 else s1)"

definition heap_can_split_block :: "'a heap_globals_scheme \<Rightarrow> u32 \<Rightarrow> u32 \<Rightarrow> bool" where
  "heap_can_split_block s block requested_size =
     (if block = 0 \<or> requested_size > hb_size_bytes (heap_mem s block) then False
      else hb_size_bytes (heap_mem s block) - requested_size \<ge>
             TERMOB_HEAP_HEADER_SIZE + TERMOB_HEAP_MIN_SPLIT_BYTES)"

definition heap_split_block ::
  "u32 \<Rightarrow> u32 \<Rightarrow> 'a heap_globals_scheme \<Rightarrow> u32 \<times> 'a heap_globals_scheme" where
  "heap_split_block block requested_size s0 =
     (if \<not> heap_can_split_block s0 block requested_size then (0, s0)
      else
        let split_block = heap_block_payload_address block + requested_size;
            split_payload_bytes =
              hb_size_bytes (heap_mem s0 block) - requested_size - TERMOB_HEAP_HEADER_SIZE;
            s1 = heap_initialize_block split_block split_payload_bytes block
                   (hb_next_phys (heap_mem s0 block)) True s0;
            nxt = hb_next_phys (heap_mem s1 block);
            s2 = (if nxt \<noteq> 0 then upd_block nxt (\<lambda>b. b\<lparr>hb_prev_phys := split_block\<rparr>) s1 else s1)
        in (split_block,
            upd_block block (\<lambda>b. b\<lparr>hb_next_phys := split_block, hb_size_bytes := requested_size\<rparr>) s2))"

text \<open>
  The walk of \<^verbatim>\<open>heap_find_block_by_payload\<close>; its first argument is the number of steps that
  \<^verbatim>\<open>walks < heap_max_walks()\<close> still allows.
\<close>

fun heap_find_walk ::
  "nat \<Rightarrow> u32 \<Rightarrow> u32 \<Rightarrow> 'a heap_globals_scheme \<Rightarrow> u32 \<times> 'a heap_globals_scheme" where
  "heap_find_walk 0 block ptr s = (0, s)"
| "heap_find_walk (Suc n) block ptr s =
     (if block = 0 then (0, s)
      else if \<not> heap_block_is_sane s block
      then (0, heap_note_error TERMOB_HEAP_DIAG_CORRUPTION
                 ''TERMOB: heap corruption detected during free lookup'' s)
      else if heap_block_payload_address block = ptr then (block, s)
      else heap_find_walk n (hb_next_phys (heap_mem s block)) ptr s)"

definition heap_find_block_by_payload ::
  "u32 \<Rightarrow> 'a heap_globals_scheme \<Rightarrow> u32 \<times> 'a heap_globals_scheme" where
  "heap_find_block_by_payload ptr s =
     (if \<not> heap_ready s \<or> ptr = 0 then (0, s)
      else heap_find_walk (unat (heap_max_walks s)) (heap_first_block s) ptr s)"

fun heap_free_list_walk :: "nat \<Rightarrow> (u32 \<Rightarrow> heap_block) \<Rightarrow> u32 \<Rightarrow> u32 \<Rightarrow> bool" where
  "heap_free_list_walk n m block target =
     (if block = 0 then False
      else case n of
             0 \<Rightarrow> False
           | Suc n' \<Rightarrow> if block = target then True
                       else heap_free_list_walk n' m (hb_next_free (m block)) target)"

declare heap_free_list_walk.simps [simp del]

definition heap_free_list_contains :: "'a heap_globals_scheme \<Rightarrow> u32 \<Rightarrow> bool" where
  "heap_free_list_contains s target =
     (if target = 0 then False
      else heap_free_list_walk (unat (heap_max_walks s)) (heap_mem s) (heap_free_list s) target)"

definition heap_try_coalesce_with_next ::
  "u32 \<Rightarrow> 'a heap_globals_scheme \<Rightarrow> 'a heap_globals_scheme" where
  "heap_try_coalesce_with_next block s0 =
     (if block = 0 \<or> \<not> heap_block_is_free s0 block then s0
      else
        let nxt = hb_next_phys (heap_mem s0 block)
        in if nxt = 0 \<or> \<not> heap_block_is_free s0 nxt then s0
           else if \<not> heap_block_is_sane s0 nxt \<or> heap_block_end_address s0 block \<noteq> nxt
           then heap_note_error TERMOB_HEAP_DIAG_CORRUPTION
                  ''TERMOB: heap corruption detected during coalesce'' s0
           else
             let s1 = heap_remove_free_block nxt s0;
                 s2 = upd_block block
                        (\<lambda>b. b\<lparr>hb_size_bytes := hb_size_bytes b +
                                 (TERMOB_HEAP_HEADER_SIZE + hb_size_bytes (heap_mem s1 nxt))\<rparr>) s1;
                 s3 = upd_block block (\<lambda>b. b\<lparr>hb_next_phys := hb_next_phys (heap_mem s2 nxt)\<rparr>) s2;
                 nn = hb_next_phys (heap_mem s3 nxt)
             in if nn \<noteq> 0 then upd_block nn (\<lambda>b. b\<lparr>hb_prev_phys := block\<rparr>) s3 else s3)"

definition heap_coalesce ::
  "u32 \<Rightarrow> 'a heap_globals_scheme \<Rightarrow> u32 \<times> 'a heap_globals_scheme" where
  "heap_coalesce block s =
     (if block = 0 then (0, s)
      else
        let prev = hb_prev_phys (heap_mem s block);
            block' = (if prev \<noteq> 0 \<and> heap_block_is_free s prev then prev else block)
        in (block', heap_try_coalesce_with_next block' (heap_try_coalesce_with_next block' s)))"

section \<open>Initialisation, allocation and release\<close>

text \<open>\<open>kernel_end\<close> is the address of the linker symbol \<^verbatim>\<open>__kernel_end\<close>.\<close>

definition heap_init :: "u32 \<Rightarrow> 'a heap_globals_scheme \<Rightarrow> 'a heap_globals_scheme" where
  "heap_init kernel_end s0 =
     (let start = heap_align_up kernel_end TERMOB_HEAP_ALIGNMENT;
          stop = start + TERMOB_HEAP_SIZE_BYTES;
          s1 = s0\<lparr>heap_start_ptr := start, heap_end_ptr := stop, heap_first_block := 0,
                  heap_free_list := 0, heap_ready := False, heap_diag_error_count := 0,
                  heap_diag_error_flags := 0, heap_diag_last_error_message := ''none''\<rparr>
      in if stop \<le> start + TERMOB_HEAP_HEADER_SIZE then s1
         else
           let initial = heap_align_up ((stop - start) - TERMOB_HEAP_HEADER_SIZE) TERMOB_HEAP_ALIGNMENT;
               initial_payload_bytes =
                 (if start + TERMOB_HEAP_HEADER_SIZE + initial > stop
                  then initial - TERMOB_HEAP_ALIGNMENT else initial);
               s2 = heap_initialize_block start initial_payload_bytes 0 0 True
                      (s1\<lparr>heap_first_block := start\<rparr>)
           in s2\<lparr>heap_free_list := start, heap_ready := True\<rparr>)"

definition heap_is_initialized :: "'a heap_globals_scheme \<Rightarrow> bool" where
  "heap_is_initialized s = heap_ready s"

text \<open>The body of the search once a block is large enough.\<close>

definition kmalloc_take ::
  "u32 \<Rightarrow> u32 \<Rightarrow> 'a heap_globals_scheme \<Rightarrow> (u32 \<times> 'a heap_globals_scheme) option" where
  "kmalloc_take block aligned_size s0 =
     (let s1 = heap_remove_free_block block s0;
          (split_block, s2) = heap_split_block block aligned_size s1
      in do {
           s3 \<leftarrow> (if split_block \<noteq> 0 then heap_insert_free_block split_block s2 else Some s2);
           Some (heap_block_payload_address block, heap_mark_block_used block s3)
         })"

partial_function (option) kmalloc_search ::
  "u32 \<Rightarrow> u32 \<Rightarrow> 'a heap_globals_scheme \<Rightarrow> (u32 \<times> 'a heap_globals_scheme) option" where
  "kmalloc_search aligned_size block s =
     (if block = 0 then Some (0, s)
      else if \<not> heap_block_is_sane s block \<or> \<not> heap_block_is_free s block
      then Some (0, heap_note_error TERMOB_HEAP_DIAG_CORRUPTION
                      ''TERMOB: heap corruption detected during allocation'' s)
      else if hb_size_bytes (heap_mem s block) \<ge> aligned_size
      then kmalloc_take block aligned_size s
      else kmalloc_search aligned_size (hb_next_free (heap_mem s block)) s)"

definition kmalloc ::
  "u32 \<Rightarrow> 'a heap_globals_scheme \<Rightarrow> (u32 \<times> 'a heap_globals_scheme) option" where
  "kmalloc bytes s =
     (if \<not> heap_ready s \<or> bytes = 0 then Some (0, s)
      else kmalloc_search (heap_align_up bytes TERMOB_HEAP_ALIGNMENT) (heap_free_list s) s)"

definition kcalloc ::
  "u32 \<Rightarrow> u32 \<Rightarrow> 'a heap_globals_scheme \<Rightarrow> (u32 \<times> 'a heap_globals_scheme) option" where
  "kcalloc count bytes s =
     (if count = 0 \<or> bytes = 0 then Some (0, s)
      else if count > (- 1) div bytes then Some (0, s)
      else
        let total_size = count * bytes
        in do {
             (block, s') \<leftarrow> kmalloc total_size s;
             Some (if block = 0 then (0, s') else (block, heap_zero_bytes block total_size s'))
           })"

definition kfree :: "u32 \<Rightarrow> 'a heap_globals_scheme \<Rightarrow> 'a heap_globals_scheme option" where
  "kfree ptr s0 =
     (if \<not> heap_ready s0 \<or> ptr = 0 then Some s0
      else
        let (block, s) = heap_find_block_by_payload ptr s0
        in if block = 0
           then Some (heap_note_error TERMOB_HEAP_DIAG_INVALID_FREE ''TERMOB: invalid kfree pointer'' s)
           else if heap_block_is_free s block
           then Some (heap_note_error TERMOB_HEAP_DIAG_DOUBLE_FREE ''TERMOB: double free detected'' s)
           else do {
             s' \<leftarrow> heap_insert_free_block block s;
             Some (snd (heap_coalesce block s'))
           })"

section \<open>The integrity check\<close>

text \<open>
  The three loops of \<^verbatim>\<open>heap_check_integrity_internal\<close>. They only read, so each returns the message of
  the check that failed (\<open>Inl\<close>) or what the loop computed (\<open>Inr\<close>); the first argument is how many
  more nodes \<^verbatim>\<open>walks++ >= heap_max_walks()\<close> lets through.
\<close>

fun heap_check_phys ::
  "nat \<Rightarrow> u32 \<Rightarrow> u32 \<Rightarrow> u32 \<Rightarrow> u32 \<Rightarrow> 'a heap_globals_scheme \<Rightarrow> string + (u32 \<times> u32)" where
  "heap_check_phys n block previous expected_address physical_free_blocks s =
     (if block = 0 then Inr (expected_address, physical_free_blocks)
      else case n of
        0 \<Rightarrow> Inl ''TERMOB: heap integrity failed (physical loop)''
      | Suc n' \<Rightarrow>
          if \<not> heap_block_is_sane s block
          then Inl ''TERMOB: heap integrity failed (invalid block)''
          else if block \<noteq> expected_address
          then Inl ''TERMOB: heap integrity failed (non-contiguous block chain)''
          else if hb_prev_phys (heap_mem s block) \<noteq> previous
          then Inl ''TERMOB: heap integrity failed (broken prev_phys)''
          else if heap_block_is_free s block \<and> hb_next_phys (heap_mem s block) \<noteq> 0 \<and>
                  heap_block_is_free s (hb_next_phys (heap_mem s block))
          then Inl ''TERMOB: heap integrity failed (adjacent free blocks not coalesced)''
          else heap_check_phys n' (hb_next_phys (heap_mem s block)) block
                 (heap_block_end_address s block)
                 (if heap_block_is_free s block then physical_free_blocks + 1
                  else physical_free_blocks) s)"

declare heap_check_phys.simps [simp del]

fun heap_check_free ::
  "nat \<Rightarrow> u32 \<Rightarrow> u32 \<Rightarrow> u32 \<Rightarrow> 'a heap_globals_scheme \<Rightarrow> string + u32" where
  "heap_check_free n free_block previous free_list_blocks s =
     (if free_block = 0 then Inr free_list_blocks
      else case n of
        0 \<Rightarrow> Inl ''TERMOB: heap integrity failed (free list loop)''
      | Suc n' \<Rightarrow>
          if \<not> heap_block_is_sane s free_block \<or> \<not> heap_block_is_free s free_block
          then Inl ''TERMOB: heap integrity failed (invalid free block)''
          else if hb_prev_free (heap_mem s free_block) \<noteq> previous
          then Inl ''TERMOB: heap integrity failed (broken prev_free)''
          else if previous \<noteq> 0 \<and> previous \<ge> free_block
          then Inl ''TERMOB: heap integrity failed (free list ordering)''
          else heap_check_free n' (hb_next_free (heap_mem s free_block)) free_block
                 (free_list_blocks + 1) s)"

declare heap_check_free.simps [simp del]

fun heap_check_rewalk :: "nat \<Rightarrow> u32 \<Rightarrow> 'a heap_globals_scheme \<Rightarrow> string + unit" where
  "heap_check_rewalk n block s =
     (if block = 0 then Inr ()
      else case n of
        0 \<Rightarrow> Inl ''TERMOB: heap integrity failed (physical rewalk loop)''
      | Suc n' \<Rightarrow>
          if heap_block_is_free s block \<and> \<not> heap_free_list_contains s block
          then Inl ''TERMOB: heap integrity failed (free block missing from free list)''
          else heap_check_rewalk n' (hb_next_phys (heap_mem s block)) s)"

declare heap_check_rewalk.simps [simp del]

text \<open>All the checks after the first guard, up to the first one that fails.\<close>

definition heap_check_chains :: "'a heap_globals_scheme \<Rightarrow> string + unit" where
  "heap_check_chains s =
     (case heap_check_phys (unat (heap_max_walks s)) (heap_first_block s) 0 (heap_start_ptr s) 0 s of
        Inl m \<Rightarrow> Inl m
      | Inr (expected_address, physical_free_blocks) \<Rightarrow>
          if expected_address \<noteq> heap_end_ptr s
          then Inl ''TERMOB: heap integrity failed (heap end mismatch)''
          else
            (case heap_check_free (unat (heap_max_walks s)) (heap_free_list s) 0 0 s of
               Inl m \<Rightarrow> Inl m
             | Inr free_list_blocks \<Rightarrow>
                 if free_list_blocks \<noteq> physical_free_blocks
                 then Inl ''TERMOB: heap integrity failed (free block count mismatch)''
                 else heap_check_rewalk (unat (heap_max_walks s)) (heap_first_block s) s))"

definition heap_check_integrity_internal ::
  "bool \<Rightarrow> 'a heap_globals_scheme \<Rightarrow> bool \<times> 'a heap_globals_scheme" where
  "heap_check_integrity_internal log_errors s =
     (if \<not> heap_ready s \<or> heap_first_block s = 0 then (False, s)
      else case heap_check_chains s of
             Inl message \<Rightarrow>
               (False, if log_errors then heap_note_error TERMOB_HEAP_DIAG_INTEGRITY message s else s)
           | Inr _ \<Rightarrow> (True, s))"

definition heap_integrity_status ::
  "'a heap_globals_scheme \<Rightarrow> bool \<times> 'a heap_globals_scheme" where
  "heap_integrity_status s = heap_check_integrity_internal False s"

definition heap_check_integrity ::
  "'a heap_globals_scheme \<Rightarrow> bool \<times> 'a heap_globals_scheme" where
  "heap_check_integrity s = heap_check_integrity_internal True s"

section \<open>Statistics\<close>

fun heap_total_walk :: "nat \<Rightarrow> u32 \<Rightarrow> u32 \<Rightarrow> 'a heap_globals_scheme \<Rightarrow> u32" where
  "heap_total_walk 0 block count s = count"
| "heap_total_walk (Suc n) block count s =
     (if block = 0 then count
      else if \<not> heap_block_is_sane s block then 0
      else heap_total_walk n (hb_next_phys (heap_mem s block)) (count + 1) s)"

definition heap_total_block_count :: "'a heap_globals_scheme \<Rightarrow> u32" where
  "heap_total_block_count s =
     (if \<not> heap_ready s then 0
      else heap_total_walk (unat (heap_max_walks s)) (heap_first_block s) 0 s)"

fun heap_used_walk :: "nat \<Rightarrow> u32 \<Rightarrow> u32 \<Rightarrow> 'a heap_globals_scheme \<Rightarrow> u32" where
  "heap_used_walk 0 block count s = count"
| "heap_used_walk (Suc n) block count s =
     (if block = 0 then count
      else if \<not> heap_block_is_sane s block then 0
      else heap_used_walk n (hb_next_phys (heap_mem s block))
             (if \<not> heap_block_is_free s block then count + 1 else count) s)"

definition heap_used_block_count :: "'a heap_globals_scheme \<Rightarrow> u32" where
  "heap_used_block_count s =
     (if \<not> heap_ready s then 0
      else heap_used_walk (unat (heap_max_walks s)) (heap_first_block s) 0 s)"

text \<open>
  \<^verbatim>\<open>heap_free_block_count\<close>, \<^verbatim>\<open>heap_largest_free_block\<close> and \<^verbatim>\<open>heap_bytes_free\<close> are the same walk of the
  free list with a different update \<open>f\<close> of the accumulator.
\<close>

fun heap_free_walk ::
  "(heap_block \<Rightarrow> u32 \<Rightarrow> u32) \<Rightarrow> nat \<Rightarrow> u32 \<Rightarrow> u32 \<Rightarrow> (u32 \<Rightarrow> heap_block) \<Rightarrow> u32" where
  "heap_free_walk f 0 block acc m = acc"
| "heap_free_walk f (Suc n) block acc m =
     (if block = 0 then acc
      else heap_free_walk f n (hb_next_free (m block)) (f (m block) acc) m)"

definition heap_free_block_count :: "'a heap_globals_scheme \<Rightarrow> u32" where
  "heap_free_block_count s =
     (if \<not> heap_ready s then 0
      else heap_free_walk (\<lambda>b count. count + 1) (unat (heap_max_walks s)) (heap_free_list s) 0
             (heap_mem s))"

definition heap_largest_free_block :: "'a heap_globals_scheme \<Rightarrow> u32" where
  "heap_largest_free_block s =
     (if \<not> heap_ready s then 0
      else heap_free_walk (\<lambda>b largest. if hb_size_bytes b > largest then hb_size_bytes b else largest)
             (unat (heap_max_walks s)) (heap_free_list s) 0 (heap_mem s))"

definition heap_bytes_free :: "'a heap_globals_scheme \<Rightarrow> u32" where
  "heap_bytes_free s =
     (if \<not> heap_ready s then 0
      else heap_free_walk (\<lambda>b free_bytes. free_bytes + hb_size_bytes b)
             (unat (heap_max_walks s)) (heap_free_list s) 0 (heap_mem s))"

definition heap_bytes_total :: "'a heap_globals_scheme \<Rightarrow> u32" where
  "heap_bytes_total s = heap_total_payload_bytes s"

definition heap_bytes_used :: "'a heap_globals_scheme \<Rightarrow> u32" where
  "heap_bytes_used s =
     (let total = heap_bytes_total s; free_bytes = heap_bytes_free s
      in if total \<ge> free_bytes then total - free_bytes else 0)"

definition heap_error_count :: "'a heap_globals_scheme \<Rightarrow> u32" where
  "heap_error_count s = heap_diag_error_count s"

definition heap_error_flags :: "'a heap_globals_scheme \<Rightarrow> u32" where
  "heap_error_flags s = heap_diag_error_flags s"

definition heap_last_error_message :: "'a heap_globals_scheme \<Rightarrow> string" where
  "heap_last_error_message s = heap_diag_last_error_message s"

definition heap_start_address :: "'a heap_globals_scheme \<Rightarrow> u32" where
  "heap_start_address s = heap_start_ptr s"

definition heap_end_address :: "'a heap_globals_scheme \<Rightarrow> u32" where
  "heap_end_address s = heap_end_ptr s"

section \<open>The boot self-test\<close>

text \<open>\<^verbatim>\<open>if (p != 0) kfree(p)\<close>, as the failure path of the self-test has it three times.\<close>

definition kfree_unless_null :: "u32 \<Rightarrow> 'a heap_globals_scheme \<Rightarrow> 'a heap_globals_scheme option" where
  "kfree_unless_null p s = (if p \<noteq> 0 then kfree p s else Some s)"

text \<open>What the self-test does once its three allocations have succeeded.\<close>

definition heap_self_test_reuse ::
  "u32 \<Rightarrow> u32 \<Rightarrow> u32 \<Rightarrow> u32 \<Rightarrow> 'a heap_globals_scheme \<Rightarrow> (bool \<times> 'a heap_globals_scheme) option" where
  "heap_self_test_reuse free_before a b c s = do {
     s \<leftarrow> kfree b s;
     (d, s) \<leftarrow> kmalloc 80 s;
     if d = 0 then do {
       s \<leftarrow> kfree a (heap_note_error TERMOB_HEAP_DIAG_SELFTEST
                        ''TERMOB: heap self-test reuse allocation failed'' s);
       s \<leftarrow> kfree c s;
       Some (False, s)
     } else do {
       s \<leftarrow> kfree d s;
       s \<leftarrow> kfree c s;
       s \<leftarrow> kfree a s;
       let (ok, s) = heap_check_integrity_internal True s in
       if \<not> ok then Some (False, s)
       else if heap_bytes_free s \<noteq> free_before
       then Some (False, heap_note_error TERMOB_HEAP_DIAG_SELFTEST
                           ''TERMOB: heap self-test free space mismatch'' s)
       else Some (True, heap_log_event ''TERMOB: heap self-test ok'' s)
     }
   }"

definition heap_run_self_test ::
  "'a heap_globals_scheme \<Rightarrow> (bool \<times> 'a heap_globals_scheme) option" where
  "heap_run_self_test s =
     (if \<not> heap_ready s then Some (False, s)
      else
        let free_before = heap_bytes_free s;
            (ok, s) = heap_check_integrity_internal True s
        in if \<not> ok then Some (False, s)
           else do {
             (a, s) \<leftarrow> kmalloc 64 s;
             (b, s) \<leftarrow> kmalloc 128 s;
             (c, s) \<leftarrow> kcalloc 16 8 s;
             if a = 0 \<or> b = 0 \<or> c = 0 then do {
               s \<leftarrow> kfree_unless_null a (heap_note_error TERMOB_HEAP_DIAG_SELFTEST
                        ''TERMOB: heap self-test allocation failed'' s);
               s \<leftarrow> kfree_unless_null b s;
               s \<leftarrow> kfree_unless_null c s;
               Some (False, s)
             } else heap_self_test_reuse free_before a b c s
           })"

section \<open>The state at boot\<close>

definition boot_globals :: heap_globals where
  "boot_globals = log_globals.extend boot_log
     (heap_globals.fields (\<lambda>_. 0)
        (\<lambda>_. \<lparr>hb_magic = 0, hb_flags = 0, hb_size_bytes = 0, hb_prev_phys = 0,
          hb_next_phys = 0, hb_prev_free = 0, hb_next_free = 0\<rparr>)
        0 0 0 0 False 0 0 ''none'')"

lemmas boot_globals_defs = boot_globals_def boot_log_defs heap_globals.defs

end
