(* ===== verification/Kheap_Inv.thy ===== *)
theory Kheap_Inv
  imports Kheap
begin

text \<open>
  The representation invariant of the kernel heap and what the helpers of \<^verbatim>\<open>core/heap.c\<close> do to it.
  A heap is described by the list \<open>ps\<close> of its block addresses in memory order. \<open>heap_phys\<close> says that
  the headers tile the region and are linked both ways, \<open>heap_flist\<close> that the free list is exactly a
  given list, and \<open>heap_rep\<close> that it is the free blocks of \<open>ps\<close> in address order. \<open>heap_ok\<close> adds that
  no two neighbours are both free, which the allocator breaks only between the insertion and the
  coalescing inside \<^verbatim>\<open>kfree\<close>.
\<close>

section \<open>Reading the headers\<close>

abbreviation bsize :: "'a heap_globals_scheme \<Rightarrow> u32 \<Rightarrow> nat" where
  "bsize s p \<equiv> unat (hb_size_bytes (heap_mem s p))"

abbreviation nphys :: "'a heap_globals_scheme \<Rightarrow> u32 \<Rightarrow> u32" where
  "nphys s p \<equiv> hb_next_phys (heap_mem s p)"

abbreviation pphys :: "'a heap_globals_scheme \<Rightarrow> u32 \<Rightarrow> u32" where
  "pphys s p \<equiv> hb_prev_phys (heap_mem s p)"

abbreviation nfree :: "'a heap_globals_scheme \<Rightarrow> u32 \<Rightarrow> u32" where
  "nfree s p \<equiv> hb_next_free (heap_mem s p)"

abbreviation pfree :: "'a heap_globals_scheme \<Rightarrow> u32 \<Rightarrow> u32" where
  "pfree s p \<equiv> hb_prev_free (heap_mem s p)"

text \<open>Consecutive blocks: each starts where the one before it ends, from \<open>a\<close> to \<open>e\<close>.\<close>

fun chain :: "(u32 \<Rightarrow> nat) \<Rightarrow> nat \<Rightarrow> u32 list \<Rightarrow> nat \<Rightarrow> bool" where
  "chain sz a [] e \<longleftrightarrow> a = e"
| "chain sz a (p # ps) e \<longleftrightarrow> unat p = a \<and> chain sz (a + 32 + sz p) ps e"

definition heap_phys :: "'a heap_globals_scheme \<Rightarrow> u32 list \<Rightarrow> bool" where
  "heap_phys s ps \<longleftrightarrow>
     heap_ready s \<and> 0 < unat (heap_start_ptr s) \<and> 16 dvd unat (heap_start_ptr s) \<and>
     ps \<noteq> [] \<and> heap_first_block s = hd ps \<and>
     chain (bsize s) (unat (heap_start_ptr s)) ps (unat (heap_end_ptr s)) \<and>
     (\<forall>p\<in>set ps. hb_magic (heap_mem s p) = TERMOB_HEAP_BLOCK_MAGIC \<and> 16 dvd bsize s p) \<and>
     dseg (nphys s) (pphys s) 0 ps 0"

definition heap_flist :: "'a heap_globals_scheme \<Rightarrow> u32 list \<Rightarrow> bool" where
  "heap_flist s fs \<longleftrightarrow> heap_free_list s = hd (fs @ [0]) \<and> dseg (nfree s) (pfree s) 0 fs 0"

definition heap_rep :: "'a heap_globals_scheme \<Rightarrow> u32 list \<Rightarrow> bool" where
  "heap_rep s ps \<longleftrightarrow> heap_phys s ps \<and> heap_flist s (filter (heap_block_is_free s) ps)"

definition heap_ok :: "'a heap_globals_scheme \<Rightarrow> u32 list \<Rightarrow> bool" where
  "heap_ok s ps \<longleftrightarrow> heap_rep s ps \<and>
     successively (\<lambda>p q. \<not> (heap_block_is_free s p \<and> heap_block_is_free s q)) ps"

section \<open>Chains\<close>

lemma chain_append:
  "chain sz a (xs @ ys) e \<longleftrightarrow> (\<exists>m. chain sz a xs m \<and> chain sz m ys e)"
  by (induction xs arbitrary: a) auto

lemma chain_cong:
  "(\<And>p. p \<in> set ps \<Longrightarrow> sz' p = sz p) \<Longrightarrow> chain sz' a ps e = chain sz a ps e"
  by (induction ps arbitrary: a) auto

lemma chain_le: "chain sz a ps e \<Longrightarrow> a + 32 * length ps \<le> e"
  by (induction ps arbitrary: a) fastforce+

lemma chain_bounds:
  "chain sz a ps e \<Longrightarrow> p \<in> set ps \<Longrightarrow> a \<le> unat p \<and> unat p + 32 + sz p \<le> e"
proof (induction ps arbitrary: a)
  case (Cons x xs)
  then show ?case using chain_le [of sz "a + 32 + sz x" xs e] by fastforce
qed simp

lemma chain_split_bounds:
  assumes "chain sz a (xs @ b # ys) e"
  shows "p \<in> set xs \<Longrightarrow> unat p + 32 + sz p \<le> unat b"
    and "q \<in> set ys \<Longrightarrow> unat b + 32 + sz b \<le> unat q"
proof -
  from assms obtain m where x: "chain sz a xs m" and m: "unat b = m"
    and y: "chain sz (m + 32 + sz b) ys e"
    by (auto simp: chain_append)
  show "p \<in> set xs \<Longrightarrow> unat p + 32 + sz p \<le> unat b" using chain_bounds [OF x] m by auto
  show "q \<in> set ys \<Longrightarrow> unat b + 32 + sz b \<le> unat q" using chain_bounds [OF y] m by auto
qed

lemma chain_sorted: "chain sz a ps e \<Longrightarrow> sorted_wrt (<) ps"
proof (induction ps arbitrary: a)
  case (Cons x xs)
  then have c: "chain sz (a + 32 + sz x) xs e" "unat x = a" by simp_all
  then have "\<forall>y\<in>set xs. x < y"
    using chain_bounds [OF c(1)] by (fastforce simp: word_less_nat_alt)
  with Cons.IH [OF c(1)] show ?case by simp
qed simp

lemma sorted_wrt_less_distinct: "sorted_wrt (<) (ps :: u32 list) \<Longrightarrow> distinct ps"
  by (induction ps) auto

lemma chain_distinct: "chain sz a ps e \<Longrightarrow> distinct ps"
  by (blast intro: sorted_wrt_less_distinct chain_sorted)

lemma chain_dvd:
  "chain sz a ps e \<Longrightarrow> 16 dvd a \<Longrightarrow> (\<And>p. p \<in> set ps \<Longrightarrow> 16 dvd sz p) \<Longrightarrow>
     p \<in> set ps \<Longrightarrow> 16 dvd unat p"
proof (induction ps arbitrary: a)
  case (Cons x xs)
  then show ?case
  proof (cases "p = x")
    case False
    have "16 dvd a + 32 + sz x" using Cons.prems by (intro dvd_add) auto
    with False Cons show ?thesis by auto
  qed auto
qed simp

text \<open>Splitting a block of a chain, and joining two neighbours.\<close>

lemma chain_split_join:
  assumes "\<And>p. p \<in> set xs \<union> set ys \<Longrightarrow> sz' p = sz p"
    and "unat c = unat b + 32 + sz b" and "sz' b = sz b + 32 + sz c"
  shows "chain sz a (xs @ b # c # ys) e = chain sz' a (xs @ b # ys) e"
proof -
  have "chain sz' n xs m = chain sz n xs m" "chain sz' n ys m = chain sz n ys m" for n m
    using assms(1) by (auto intro!: chain_cong)
  then show ?thesis
    using assms(2,3) by (simp add: chain_append add.assoc conj_commute)
qed

section \<open>Consequences of the invariant\<close>

lemma heap_physD:
  assumes "heap_phys s ps"
  shows "heap_ready s" "ps \<noteq> []" "heap_first_block s = hd ps"
    and "chain (bsize s) (unat (heap_start_ptr s)) ps (unat (heap_end_ptr s))"
    and "dseg (nphys s) (pphys s) 0 ps 0" and "sorted_wrt (<) ps" and "distinct ps" and "0 \<notin> set ps"
proof -
  show c: "chain (bsize s) (unat (heap_start_ptr s)) ps (unat (heap_end_ptr s))"
    using assms by (simp add: heap_phys_def)
  show "0 \<notin> set ps"
    using chain_bounds [OF c, of 0] assms by (auto simp: heap_phys_def)
  show "sorted_wrt (<) ps" using c by (rule chain_sorted)
  show "distinct ps" using c by (rule chain_distinct)
qed (use assms in \<open>simp_all add: heap_phys_def\<close>)

lemma heap_phys_block:
  assumes "heap_phys s ps" "p \<in> set ps"
  shows "16 dvd unat p" "16 dvd bsize s p" "hb_magic (heap_mem s p) = TERMOB_HEAP_BLOCK_MAGIC"
    and "p \<noteq> 0" "unat (heap_start_ptr s) \<le> unat p"
    and "unat p + 32 + bsize s p \<le> unat (heap_end_ptr s)"
proof -
  note d = heap_physD [OF assms(1)]
  show "16 dvd unat p"
    using chain_dvd [OF d(4)] assms by (auto simp: heap_phys_def)
  show "p \<noteq> 0" using d(8) assms(2) by auto
  show "unat (heap_start_ptr s) \<le> unat p" "unat p + 32 + bsize s p \<le> unat (heap_end_ptr s)"
    using chain_bounds [OF d(4) assms(2)] by auto
qed (use assms in \<open>auto simp: heap_phys_def\<close>)

lemma and_15_eq_0_iff: "(x :: u32) AND 15 = 0 \<longleftrightarrow> 16 dvd unat x"
  using and_mask_eq_0_iff [of x 4] by (simp add: mask_eq_exp_minus_1 dvd_eq_mod_eq_0)

text \<open>Address arithmetic inside the region does not wrap.\<close>

lemma heap_phys_addresses:
  assumes "heap_phys s ps" "p \<in> set ps"
  shows "unat (heap_block_payload_address p) = unat p + 32"
    and "unat (heap_block_end_address s p) = unat p + 32 + bsize s p"
proof -
  have b: "unat p + 32 + bsize s p < 4294967296"
    using heap_phys_block(6) [OF assms] u32_less [of "heap_end_ptr s"] by linarith
  then show 1: "unat (heap_block_payload_address p) = unat p + 32"
    unfolding heap_block_payload_address_def by (subst unat_add_small) simp_all
  show "unat (heap_block_end_address s p) = unat p + 32 + bsize s p"
    unfolding heap_block_end_address_def using b 1 by (subst unat_add_small) simp_all
qed

lemma heap_phys_sane:
  assumes "heap_phys s ps" "p \<in> set ps"
  shows "heap_block_is_sane s p"
  using heap_phys_block [OF assms] heap_phys_addresses [OF assms]
  by (simp add: heap_block_is_sane_def heap_pointer_within_region_def and_15_eq_0_iff
      word_less_nat_alt word_le_nat_alt not_less)

lemma heap_phys_walks:
  assumes "heap_phys s ps"
  shows "length ps < unat (heap_max_walks s)"
proof -
  note d = heap_physD [OF assms]
  let ?n = "unat (heap_end_ptr s) - unat (heap_start_ptr s)"
  have l: "32 * length ps \<le> ?n" "unat (heap_start_ptr s) \<le> unat (heap_end_ptr s)"
    using chain_le [OF d(4)] by auto
  have n: "unat (heap_end_ptr s - heap_start_ptr s) = ?n"
    using l(2) by (simp add: unat_sub word_le_nat_alt)
  have ne: "length ps > 0" using d(2) by simp
  then have "heap_end_ptr s - heap_start_ptr s \<noteq> 0" using n l(1)
    by (metis gr_implies_not0 le_zero_eq mult_is_0 unat_0 zero_neq_numeral)
  then have "heap_max_walks s = (heap_end_ptr s - heap_start_ptr s) div 16 + 1"
    by (simp add: heap_max_walks_def Let_def)
  moreover have "unat ((heap_end_ptr s - heap_start_ptr s) div 16) = ?n div 16"
    using n by (simp add: unat_div)
  moreover have "?n div 16 + 1 < 4294967296"
    using u32_less [of "heap_end_ptr s"] by linarith
  ultimately have "unat (heap_max_walks s) = ?n div 16 + 1"
    by (simp add: unat_add_small)
  moreover have "2 * length ps \<le> ?n div 16" using l(1) by linarith
  ultimately show ?thesis using ne by linarith
qed

section \<open>Updates of headers\<close>

lemma upd_block_simps [simp]:
  "heap_mem (upd_block p f s) = (heap_mem s)(p := f (heap_mem s p))"
  "heap_start_ptr (upd_block p f s) = heap_start_ptr s"
  "heap_end_ptr (upd_block p f s) = heap_end_ptr s"
  "heap_first_block (upd_block p f s) = heap_first_block s"
  "heap_free_list (upd_block p f s) = heap_free_list s"
  "heap_ready (upd_block p f s) = heap_ready s"
  "mem (upd_block p f s) = mem s"
  "heap_diag_error_count (upd_block p f s) = heap_diag_error_count s"
  by (simp_all add: upd_block_def)

text \<open>
  The allocator only ever writes headers and the head of the free list; \<open>heap_frame\<close> says so of a
  pair of states, whatever record extends the heap's globals. \<open>core_hdr\<close> is a header without its
  free-list links.
\<close>

definition heap_frame :: "'a heap_globals_scheme \<Rightarrow> 'a heap_globals_scheme \<Rightarrow> bool" where
  "heap_frame s s' \<longleftrightarrow> (\<exists>m fl. s' = s\<lparr>heap_mem := m, heap_free_list := fl\<rparr>)"

definition core_hdr :: "heap_block \<Rightarrow> heap_block" where
  "core_hdr b = b\<lparr>hb_prev_free := 0, hb_next_free := 0\<rparr>"

lemma heap_frame_refl [simp]: "heap_frame s s"
  unfolding heap_frame_def by (intro exI [of _ "heap_mem s"] exI [of _ "heap_free_list s"]) simp

lemma heap_frame_upd [simp]:
  "heap_frame s s' \<Longrightarrow> heap_frame s (upd_block p f s')"
  "heap_frame s s' \<Longrightarrow> heap_frame s (s'\<lparr>heap_free_list := x\<rparr>)"
proof -
  have "upd_block p f (s\<lparr>heap_mem := m, heap_free_list := fl\<rparr>) =
      s\<lparr>heap_mem := m(p := f (m p)), heap_free_list := fl\<rparr>" for m fl
    by (simp add: upd_block_def)
  then show "heap_frame s s' \<Longrightarrow> heap_frame s (upd_block p f s')"
    unfolding heap_frame_def by blast
  have "s\<lparr>heap_mem := m, heap_free_list := fl\<rparr>\<lparr>heap_free_list := x\<rparr> =
      s\<lparr>heap_mem := m, heap_free_list := x\<rparr>" for m fl
    by simp
  then show "heap_frame s s' \<Longrightarrow> heap_frame s (s'\<lparr>heap_free_list := x\<rparr>)"
    unfolding heap_frame_def by blast
qed

lemma heap_frame_trans: "heap_frame s t \<Longrightarrow> heap_frame t u \<Longrightarrow> heap_frame s u"
proof -
  have "s\<lparr>heap_mem := m, heap_free_list := fl\<rparr>\<lparr>heap_mem := m', heap_free_list := fl'\<rparr> =
      s\<lparr>heap_mem := m', heap_free_list := fl'\<rparr>" for m m' fl fl'
    by simp
  then show "heap_frame s t \<Longrightarrow> heap_frame t u \<Longrightarrow> heap_frame s u"
    unfolding heap_frame_def by blast
qed

lemma heap_frameD:
  assumes "heap_frame s s'"
  shows "heap_ready s' = heap_ready s" "heap_start_ptr s' = heap_start_ptr s"
    "heap_end_ptr s' = heap_end_ptr s" "heap_first_block s' = heap_first_block s"
    "mem s' = mem s" "heap_diag_error_count s' = heap_diag_error_count s"
    "heap_diag_error_flags s' = heap_diag_error_flags s"
    "heap_globals.more s' = heap_globals.more s"
    "klog_contents s' = klog_contents s" "klog_wf s' = klog_wf s"
  using assms by (auto simp: heap_frame_def klog_contents_def klog_wf_def)

lemma core_hdr_eqD:
  assumes "core_hdr b = core_hdr b'"
  shows "hb_magic b = hb_magic b'" "hb_flags b = hb_flags b'" "hb_size_bytes b = hb_size_bytes b'"
    "hb_prev_phys b = hb_prev_phys b'" "hb_next_phys b = hb_next_phys b'"
  using assms by (cases b; cases b'; simp add: core_hdr_def)+

lemma core_hdr_upd [simp]:
  "core_hdr (b\<lparr>hb_prev_free := x\<rparr>) = core_hdr b" "core_hdr (b\<lparr>hb_next_free := x\<rparr>) = core_hdr b"
  by (simp_all add: core_hdr_def)

text \<open>Writes to free-list links leave the physical chain and the flags alone.\<close>

lemma core_hdr_same:
  assumes "heap_frame s s'" "\<And>p. core_hdr (heap_mem s' p) = core_hdr (heap_mem s p)"
  shows "heap_phys s' ps = heap_phys s ps" "heap_block_is_free s' = heap_block_is_free s"
    "bsize s' = bsize s"
proof -
  note e = core_hdr_eqD [OF assms(2)]
  show "heap_phys s' ps = heap_phys s ps"
    by (simp add: heap_phys_def heap_frameD [OF assms(1)] e)
  show "heap_block_is_free s' = heap_block_is_free s"
    by (simp add: heap_block_is_free_def fun_eq_iff e)
  show "bsize s' = bsize s" by (simp add: fun_eq_iff e)
qed

section \<open>The free list\<close>

lemma heap_remove_free_block_spec:
  assumes f: "heap_flist s (xs @ b # ys)" and d: "distinct (xs @ b # ys)" "0 \<notin> set (xs @ b # ys)"
  defines "s' \<equiv> heap_remove_free_block b s"
  shows "heap_frame s s'" "core_hdr (heap_mem s' p) = core_hdr (heap_mem s p)"
    "heap_flist s' (xs @ ys)"
proof -
  have b: "b \<noteq> 0" "pfree s b = last (0 # xs)" "nfree s b = hd (ys @ [0])"
    and fl: "heap_free_list s = hd (xs @ b # ys)"
    and ds: "dseg (nfree s) (pfree s) 0 (xs @ b # ys) 0"
    using f d by (auto simp: heap_flist_def dseg_append hd_append)
  have x: "last (0 # xs) \<noteq> 0 \<longleftrightarrow> xs \<noteq> []" and y: "hd (ys @ [0]) \<noteq> 0 \<longleftrightarrow> ys \<noteq> []"
    using d(2) by (cases xs rule: rev_cases; auto) (use d(2) in \<open>cases ys; auto\<close>)
  have xb: "xs \<noteq> [] \<Longrightarrow> last xs \<noteq> b" and yb: "ys \<noteq> [] \<Longrightarrow> hd ys \<noteq> b"
    using d(1) by (auto dest: last_in_set hd_in_set)
  show "heap_frame s s'"
    by (simp add: s'_def heap_remove_free_block_def Let_def)
  show "core_hdr (heap_mem s' p) = core_hdr (heap_mem s p)"
    by (simp add: s'_def heap_remove_free_block_def Let_def)
  have n: "nfree s' q = (if xs = [] then nfree s else (nfree s)(last xs := hd (ys @ [0]))) q"
    and p: "pfree s' q = (if ys = [] then pfree s else (pfree s)(hd ys := last (0 # xs))) q"
    if "q \<noteq> b" for q
    unfolding s'_def heap_remove_free_block_def Let_def using that b(1) x y xb yb
    by (cases "xs = []"; cases "ys = []"; simp add: b(2,3))+
  have "q \<in> set (xs @ ys) \<Longrightarrow> q \<noteq> b" for q using d(1) by auto
  with n p have "dseg (nfree s') (pfree s') 0 (xs @ ys) 0"
    by (intro iffD2 [OF dseg_cong dseg_unlink [OF ds d(1)]]) blast
  moreover have "heap_free_list s' = hd ((xs @ ys) @ [0])"
    using b fl x by (cases xs) (auto simp: s'_def heap_remove_free_block_def Let_def)
  ultimately show "heap_flist s' (xs @ ys)" by (simp add: heap_flist_def)
qed

lemma heap_insert_scan_spec:
  "dseg (\<lambda>p. hb_next_free (m p)) pv p cs 0 \<Longrightarrow> 0 \<notin> set cs \<Longrightarrow>
     heap_insert_scan m b prev (hd (cs @ [0])) =
       Some (last (prev # takeWhile (\<lambda>c. c < b) cs), hd (dropWhile (\<lambda>c. c < b) cs @ [0]))"
proof (induction cs arbitrary: p prev)
  case Nil
  then show ?case by (simp add: heap_insert_scan.simps)
next
  case (Cons c cs)
  then show ?case using Cons.IH [of c c] by (simp add: heap_insert_scan.simps [of _ _ _ c])
qed

text \<open>
  The state in which \<open>heap_insert_free_block\<close> starts to link the block, and the common form of what it
  returns: a state in which \<open>b\<close> has been linked between \<open>xs\<close> and \<open>ys\<close>.
\<close>

abbreviation unlinked_free :: "u32 \<Rightarrow> 'a heap_globals_scheme \<Rightarrow> 'a heap_globals_scheme" where
  "unlinked_free b s \<equiv>
     upd_block b (\<lambda>x. x\<lparr>hb_prev_free := 0, hb_next_free := 0\<rparr>) (heap_mark_block_free b s)"

definition inserted_free ::
  "u32 \<Rightarrow> u32 list \<Rightarrow> u32 list \<Rightarrow> 'a heap_globals_scheme \<Rightarrow> 'a heap_globals_scheme \<Rightarrow> bool" where
  "inserted_free b xs ys s s' \<longleftrightarrow> heap_frame s s' \<and> heap_flist s' (xs @ b # ys) \<and>
     (\<forall>p. core_hdr (heap_mem s' p) = core_hdr (if p = b then (heap_mem s b)
        \<lparr>hb_flags := hb_flags (heap_mem s b) OR TERMOB_HEAP_BLOCK_FLAG_FREE\<rparr> else heap_mem s p))"

lemma inserted_freeI:
  assumes "heap_flist s (xs @ ys)" "distinct (xs @ b # ys)"
    and "heap_frame s s'" "heap_free_list s' = hd (xs @ [b])"
    and "\<And>p. core_hdr (heap_mem s' p) = core_hdr (heap_mem (unlinked_free b s) p)"
    and "\<And>q. nfree s' q =
      ((if xs = [] then nfree (unlinked_free b s) else (nfree (unlinked_free b s))(last xs := b))
         (b := hd (ys @ [0]))) q"
    and "\<And>q. pfree s' q =
      ((if ys = [] then pfree (unlinked_free b s) else (pfree (unlinked_free b s))(hd ys := b))
         (b := last (0 # xs))) q"
  shows "inserted_free b xs ys s s'"
proof -
  have ds: "dseg (nfree s) (pfree s) 0 (xs @ ys) 0" using assms(1) by (simp add: heap_flist_def)
  have "dseg (nfree (unlinked_free b s)) (pfree (unlinked_free b s)) 0 (xs @ ys) 0"
    using assms(2) by (intro iffD2 [OF dseg_cong ds]) (auto simp: heap_mark_block_free_def)
  then have "dseg (nfree s') (pfree s') 0 (xs @ b # ys) 0"
    using assms(6,7) by (intro iffD2 [OF dseg_cong dseg_link [OF _ assms(2)]]) blast+
  moreover have "heap_free_list s' = hd ((xs @ b # ys) @ [0])"
    using assms(4) by (cases xs) simp_all
  ultimately show ?thesis
    using assms(3,5)
    by (simp add: inserted_free_def heap_flist_def heap_mark_block_free_def core_hdr_def)
qed

lemma heap_insert_front:
  assumes f: "heap_flist s fs" and d: "distinct fs" "0 \<notin> set fs" "b \<notin> set fs" "b \<noteq> 0"
    and front: "fs = [] \<or> b < hd fs"
  shows "\<exists>s'. heap_insert_free_block b s = Some s' \<and> inserted_free b [] fs s s'"
proof -
  have fl: "heap_free_list s = hd (fs @ [0])" using f by (simp add: heap_flist_def)
  have z: "fs \<noteq> [] \<Longrightarrow> hd fs \<noteq> 0 \<and> hd fs \<noteq> b" using d by (cases fs) auto
  let ?s3 = "upd_block b (\<lambda>x. x\<lparr>hb_next_free := hd (fs @ [0])\<rparr>) (unlinked_free b s)"
  let ?s' = "(if fs \<noteq> [] then upd_block (hd fs) (\<lambda>x. x\<lparr>hb_prev_free := b\<rparr>) ?s3 else ?s3)
    \<lparr>heap_free_list := b\<rparr>"
  have "heap_free_list s = 0 \<or> b < heap_free_list s" using front fl d by (cases fs) auto
  moreover have "heap_free_list s \<noteq> 0 \<longleftrightarrow> fs \<noteq> []" "fs \<noteq> [] \<Longrightarrow> heap_free_list s = hd fs"
    using fl d z by (cases fs; auto)+
  ultimately have "heap_insert_free_block b s = Some ?s'"
    using d(4) fl by (simp add: heap_insert_free_block_def heap_mark_block_free_def Let_def)
  moreover have "inserted_free b [] fs s ?s'"
  proof (rule inserted_freeI)
    show "heap_flist s ([] @ fs)" "distinct ([] @ b # fs)" using f d by simp_all
    show "heap_frame s ?s'" by (simp add: heap_mark_block_free_def)
  qed (use z in \<open>simp_all\<close>)
  ultimately show ?thesis by blast
qed

lemma heap_insert_after:
  assumes f: "heap_flist s (c # cs)" and d: "distinct (c # cs)" "0 \<notin> set (c # cs)"
    "b \<notin> set (c # cs)" "b \<noteq> 0" and cb: "c < b"
  defines "xs \<equiv> c # takeWhile (\<lambda>c. c < b) cs" and "ys \<equiv> dropWhile (\<lambda>c. c < b) cs"
  shows "\<exists>s'. heap_insert_free_block b s = Some s' \<and> inserted_free b xs ys s s'"
proof -
  have fs: "c # cs = xs @ ys" and xn: "xs \<noteq> []" by (simp_all add: xs_def ys_def)
  have db: "distinct (xs @ b # ys)" using d(1,3) unfolding fs by auto
  let ?s2 = "unlinked_free b s" and ?p = "last xs" and ?c = "hd (ys @ [0])"
  have fl: "heap_free_list s = c" and ds: "dseg (nfree s) (pfree s) 0 (c # cs) 0"
    using f by (auto simp: heap_flist_def)
  have "dseg (nfree ?s2) (pfree ?s2) 0 (c # cs) 0"
    using d(3) by (intro iffD2 [OF dseg_cong ds]) (auto simp: heap_mark_block_free_def)
  then have scan: "heap_insert_scan (heap_mem ?s2) b c (nfree ?s2 c) = Some (?p, ?c)"
    using heap_insert_scan_spec [of "heap_mem ?s2" "pfree ?s2" c cs b c] d(2)
    unfolding xs_def ys_def by simp
  let ?s3 = "upd_block b (\<lambda>x. x\<lparr>hb_prev_free := ?p, hb_next_free := ?c\<rparr>) ?s2"
  let ?s4 = "upd_block ?p (\<lambda>x. x\<lparr>hb_next_free := b\<rparr>) ?s3"
  let ?s' = "if ys \<noteq> [] then upd_block ?c (\<lambda>x. x\<lparr>hb_prev_free := b\<rparr>) ?s4 else ?s4"
  have pb: "?p \<noteq> b" using xn db by (auto dest: last_in_set)
  have yn: "?c \<noteq> 0 \<longleftrightarrow> ys \<noteq> []" "ys \<noteq> [] \<Longrightarrow> ?c = hd ys \<and> ?c \<noteq> b"
    using d(2) db unfolding fs by (cases ys; auto)+
  have "heap_free_list ?s2 = c" "c \<noteq> 0" "\<not> b < c"
    using fl d(2) cb by (auto simp: heap_mark_block_free_def)
  then have "heap_insert_free_block b s = Some ?s'"
    using d(4) scan yn(1) unfolding heap_insert_free_block_def by (simp add: Let_def)
  moreover have "inserted_free b xs ys s ?s'"
  proof (rule inserted_freeI)
    show "heap_flist s (xs @ ys)" using f by (simp only: fs)
    show "distinct (xs @ b # ys)" by (rule db)
    show "heap_frame s ?s'" by (simp add: heap_mark_block_free_def)
    show "heap_free_list ?s' = hd (xs @ [b])"
      using fl by (simp add: heap_mark_block_free_def xs_def)
    show "core_hdr (heap_mem ?s' p) = core_hdr (heap_mem ?s2 p)" for p by simp
    show "nfree ?s' q = ((if xs = [] then nfree ?s2 else (nfree ?s2)(last xs := b))
        (b := hd (ys @ [0]))) q" for q
      using xn pb by simp
    show "pfree ?s' q = ((if ys = [] then pfree ?s2 else (pfree ?s2)(hd ys := b))
        (b := last (0 # xs))) q" for q
      using xn yn(2) by simp
  qed
  ultimately show ?thesis by blast
qed

lemma heap_insert_free_block_spec:
  assumes "heap_flist s fs" "distinct fs" "0 \<notin> set fs" "b \<notin> set fs" "b \<noteq> 0"
  shows "\<exists>s'. heap_insert_free_block b s = Some s' \<and>
    inserted_free b (takeWhile (\<lambda>c. c < b) fs) (dropWhile (\<lambda>c. c < b) fs) s s'"
proof (cases "fs = [] \<or> b < hd fs")
  case True
  then have "takeWhile (\<lambda>c. c < b) fs = [] \<and> dropWhile (\<lambda>c. c < b) fs = fs"
    by (cases fs) auto
  then show ?thesis using heap_insert_front [OF assms True] by simp
next
  case False
  then obtain c cs where "fs = c # cs" "c < b" using assms(4) by (cases fs) auto
  then show ?thesis using heap_insert_after [of s c cs b] assms by simp
qed

end
