(* ===== verification/Kheap_Alloc.thy ===== *)
theory Kheap_Alloc
  imports Kheap_Inv
begin

text \<open>
  Allocation and release at the level of block lists. \<open>blocks\<close> reads a heap as the list of its blocks,
  each an address, a payload size and whether it is free. \<open>spec_alloc\<close> is first fit with splitting and
  \<open>spec_free\<close> marks a block free and joins all neighbours that are both free. The lemmas show that
  \<^verbatim>\<open>kmalloc\<close> and \<^verbatim>\<open>kfree\<close> implement the two, that they end, and that they keep \<open>heap_ok\<close>.
\<close>

type_synonym hblock = "nat \<times> nat \<times> bool"

abbreviation hview :: "'a heap_globals_scheme \<Rightarrow> u32 \<Rightarrow> hblock" where
  "hview s p \<equiv> (unat p, bsize s p, heap_block_is_free s p)"

definition blocks :: "'a heap_globals_scheme \<Rightarrow> u32 list \<Rightarrow> hblock list" where
  "blocks s ps = map (hview s) ps"

fun spec_alloc :: "nat \<Rightarrow> hblock list \<Rightarrow> (nat \<times> hblock list) option" where
  "spec_alloc n [] = None"
| "spec_alloc n ((a, k, f) # bs) =
     (if f \<and> n \<le> k
      then Some (a, if n + 48 \<le> k then (a, n, False) # (a + 32 + n, k - n - 32, True) # bs
                    else (a, k, False) # bs)
      else map_option (\<lambda>(p, bs'). (p, (a, k, f) # bs')) (spec_alloc n bs))"

fun merge_free :: "hblock list \<Rightarrow> hblock list" where
  "merge_free ((a, n, f) # (a', n', f') # bs) =
     (if f \<and> f' then merge_free ((a, n + 32 + n', True) # bs)
      else (a, n, f) # merge_free ((a', n', f') # bs))"
| "merge_free bs = bs"

definition spec_free :: "nat \<Rightarrow> hblock list \<Rightarrow> hblock list" where
  "spec_free p bs = merge_free (map (\<lambda>(a, n, f). (a, n, f \<or> a = p)) bs)"

section \<open>Flags and views\<close>

lemma free_flag [simp]:
  "((x :: u32) OR 1) AND 1 \<noteq> 0" "((x :: u32) AND - 2) AND 1 = 0"
proof -
  have "bit ((x OR 1) AND 1) 0" by (simp add: bit_simps)
  then show "(x OR 1) AND 1 \<noteq> 0" by fastforce
  have "(x AND NOT 1) AND 1 = 0" by (rule bit_word_eqI) (auto simp: bit_simps)
  then show "(x AND - 2) AND 1 = 0" by simp
qed

lemma hview_core:
  "core_hdr (heap_mem s' p) = core_hdr (heap_mem s p) \<Longrightarrow> hview s' p = hview s p"
  by (auto dest: core_hdr_eqD simp: heap_block_is_free_def)

lemma filter_free_cong:
  "(\<And>p. p \<in> set ps \<Longrightarrow> hview s' p = hview s p) \<Longrightarrow>
     filter (heap_block_is_free s') ps = filter (heap_block_is_free s) ps"
  by (rule filter_cong) auto

lemma blocks_cong:
  "(\<And>p. p \<in> set ps \<Longrightarrow> hview s' p = hview s p) \<Longrightarrow> blocks s' ps = blocks s ps"
  by (simp add: blocks_def)

lemma heap_flist_cong:
  "(\<And>p. p \<in> set fs \<Longrightarrow> nfree s' p = nfree s p \<and> pfree s' p = pfree s p) \<Longrightarrow>
     heap_free_list s' = heap_free_list s \<Longrightarrow> heap_flist s' fs = heap_flist s fs"
  unfolding heap_flist_def by (subst dseg_cong [of fs "nfree s'" "nfree s"]) auto

text \<open>Marking a block used touches neither the chain nor the free links.\<close>

lemma heap_mark_block_used_simps [simp]:
  "heap_frame s (heap_mark_block_used b s)"
  "heap_phys (heap_mark_block_used b s) ps = heap_phys s ps"
  "heap_flist (heap_mark_block_used b s) fs = heap_flist s fs"
  "bsize (heap_mark_block_used b s) p = bsize s p"
  "heap_block_is_free (heap_mark_block_used b s) p = (p \<noteq> b \<and> heap_block_is_free s p)"
proof -
  let ?s = "heap_mark_block_used b s"
  have e: "nphys ?s = nphys s" "pphys ?s = pphys s" "nfree ?s = nfree s" "pfree ?s = pfree s"
    "bsize ?s = bsize s"
    by (auto simp: heap_mark_block_used_def)
  have m: "hb_magic (heap_mem ?s p) = hb_magic (heap_mem s p)" for p
    by (simp add: heap_mark_block_used_def)
  show f: "heap_frame s ?s" by (simp add: heap_mark_block_used_def)
  show "heap_phys ?s ps = heap_phys s ps"
    unfolding heap_phys_def e m heap_frameD [OF f] using fun_cong [OF e(5)] by simp
  show "heap_flist ?s fs = heap_flist s fs"
    unfolding heap_flist_def e by (simp add: heap_mark_block_used_def)
  show "bsize ?s p = bsize s p" by (simp add: fun_cong [OF e(5)])
  show "heap_block_is_free ?s p = (p \<noteq> b \<and> heap_block_is_free s p)"
    by (simp add: heap_mark_block_used_def heap_block_is_free_def)
qed

section \<open>Splitting\<close>

text \<open>The address of the block that a split creates lies strictly inside the block that is split.\<close>

lemma split_address:
  assumes "heap_phys s (xs @ b # ys)" "unat n + 48 \<le> bsize s b"
  defines "c \<equiv> b + 32 + n"
  shows "unat c = unat b + 32 + unat n" "c \<notin> set (xs @ b # ys)" "c \<noteq> 0"
    "\<And>p. p \<in> set xs \<Longrightarrow> p < c" "\<And>p. p \<in> set ys \<Longrightarrow> c < p"
proof -
  note ch = heap_physD(4) [OF assms(1)]
  have "unat b + 32 + bsize s b < 4294967296"
    using heap_phys_block(6) [OF assms(1), of b] u32_less [of "heap_end_ptr s"] by simp
  then have small: "unat b + 32 + unat n < 4294967296" using assms(2) by linarith
  have "unat (b + 32) = unat b + 32" using small by (subst unat_add_small) simp_all
  then show c: "unat c = unat b + 32 + unat n"
    unfolding c_def using small by (subst unat_add_small) simp_all
  then show "c \<noteq> 0" by auto
  show x: "p < c" if "p \<in> set xs" for p
    using chain_split_bounds(1) [OF ch that] c by (simp add: word_less_nat_alt)
  show y: "c < p" if "p \<in> set ys" for p
    using chain_split_bounds(2) [OF ch that] c assms(2) by (simp add: word_less_nat_alt)
  have "c \<noteq> b" using c by auto
  then show "c \<notin> set (xs @ b # ys)" using x y by fastforce
qed

text \<open>What a split writes: the new header, the back link of the next block, and the split block.\<close>

lemma heap_split_block_eq:
  assumes "heap_phys s (xs @ b # ys)" "unat n + 48 \<le> bsize s b"
  defines "c \<equiv> b + 32 + n"
  shows "heap_split_block b n s = (c, snd (heap_split_block b n s))"
    and "heap_frame s (snd (heap_split_block b n s))"
    and "heap_free_list (snd (heap_split_block b n s)) = heap_free_list s"
    and "heap_mem (snd (heap_split_block b n s)) =
      (if ys = [] then heap_mem s
       else (heap_mem s)(hd ys := (heap_mem s (hd ys))\<lparr>hb_prev_phys := c\<rparr>))
        (c := \<lparr>hb_magic = TERMOB_HEAP_BLOCK_MAGIC, hb_flags = 1,
               hb_size_bytes = hb_size_bytes (heap_mem s b) - n - 32, hb_prev_phys = b,
               hb_next_phys = hd (ys @ [0]), hb_prev_free = 0, hb_next_free = 0\<rparr>,
         b := (heap_mem s b)\<lparr>hb_next_phys := c, hb_size_bytes := n\<rparr>)"
proof -
  note d = heap_physD [OF assms(1)] and c = split_address [OF assms(1,2), folded c_def]
  have b0: "b \<noteq> 0" and cb: "c \<noteq> b" using d(8) c(2) by auto
  have sp: "heap_can_split_block s b n"
    using assms(2) b0 by (simp add: heap_can_split_block_def word_le_nat_alt not_less unat_sub)
  have nb: "nphys s b = hd (ys @ [0])" using d(5) by (simp add: dseg_append)
  have ys: "hd (ys @ [0]) \<noteq> 0 \<longleftrightarrow> ys \<noteq> []" "ys \<noteq> [] \<Longrightarrow> hd ys \<noteq> c \<and> hd ys \<noteq> b"
    using c(2,3) b0 d(7,8) by (cases ys; auto)+
  note defs = heap_split_block_def heap_block_payload_address_def Let_def
    heap_initialize_block_def heap_mark_block_free_def
  show "heap_split_block b n s = (c, snd (heap_split_block b n s))"
    using sp cb by (simp add: defs c_def)
  show "heap_frame s (snd (heap_split_block b n s))"
    "heap_free_list (snd (heap_split_block b n s)) = heap_free_list s"
    by (simp_all add: defs)
  show "heap_mem (snd (heap_split_block b n s)) =
      (if ys = [] then heap_mem s
       else (heap_mem s)(hd ys := (heap_mem s (hd ys))\<lparr>hb_prev_phys := c\<rparr>))
        (c := \<lparr>hb_magic = TERMOB_HEAP_BLOCK_MAGIC, hb_flags = 1,
               hb_size_bytes = hb_size_bytes (heap_mem s b) - n - 32, hb_prev_phys = b,
               hb_next_phys = hd (ys @ [0]), hb_prev_free = 0, hb_next_free = 0\<rparr>,
         b := (heap_mem s b)\<lparr>hb_next_phys := c, hb_size_bytes := n\<rparr>)"
    using sp cb ys nb by (cases "ys = []") (auto simp: defs c_def fun_eq_iff)
qed

lemma heap_split_block_views:
  assumes p: "heap_phys s (xs @ b # ys)" and n: "unat n + 48 \<le> bsize s b"
  defines "c \<equiv> b + 32 + n" and "s' \<equiv> snd (heap_split_block b n s)"
  shows "hview s' b = (unat b, unat n, heap_block_is_free s b)"
    "hview s' c = (unat b + 32 + unat n, bsize s b - unat n - 32, True)"
    "\<And>q. q \<noteq> b \<Longrightarrow> q \<noteq> c \<Longrightarrow> hview s' q = hview s q"
    "\<And>q. q \<noteq> c \<Longrightarrow> nfree s' q = nfree s q \<and> pfree s' q = pfree s q"
    "\<And>q. q \<noteq> c \<Longrightarrow> hb_magic (heap_mem s' q) = hb_magic (heap_mem s q)"
    "hb_magic (heap_mem s' c) = TERMOB_HEAP_BLOCK_MAGIC"
proof -
  note c = split_address [OF p n, folded c_def]
    and m = heap_split_block_eq(4) [OF p n, folded c_def s'_def]
  have cb: "c \<noteq> b" using c(2) by auto
  have "unat (hb_size_bytes (heap_mem s b) - n) = bsize s b - unat n"
    using n by (simp add: unat_sub word_le_nat_alt)
  then have k: "unat (hb_size_bytes (heap_mem s b) - n - 32) = bsize s b - unat n - 32"
    using n by (simp add: unat_sub word_le_nat_alt)
  show "hview s' b = (unat b, unat n, heap_block_is_free s b)"
    by (simp add: m heap_block_is_free_def)
  show "hview s' c = (unat b + 32 + unat n, bsize s b - unat n - 32, True)"
    using cb c(1) k by (simp add: m heap_block_is_free_def)
qed (use split_address(2) [OF p n, folded c_def] in
      \<open>auto simp: heap_split_block_eq(4) [OF p n, folded c_def s'_def] heap_block_is_free_def\<close>)

lemma heap_split_block_phys:
  assumes p: "heap_phys s (xs @ b # ys)" and n: "unat n + 48 \<le> bsize s b" "16 dvd unat n"
  shows "heap_phys (snd (heap_split_block b n s)) (xs @ b # (b + 32 + n) # ys)"
proof -
  define c where "c = b + 32 + n"
  define s' where "s' = snd (heap_split_block b n s)"
  note d = heap_physD [OF p] and c = split_address [OF p n(1), folded c_def]
    and v = heap_split_block_views [OF p n(1), folded c_def s'_def]
    and m = heap_split_block_eq(4) [OF p n(1), folded c_def s'_def]
    and fr = heap_split_block_eq(2) [OF p n(1), folded s'_def]
  have cb: "c \<noteq> b" using c(2) by auto
  have out: "q \<noteq> b \<and> q \<noteq> c" if "q \<in> set xs \<union> set ys" for q using that c(2) d(7) by auto
  have "chain (bsize s') (unat (heap_start_ptr s)) (xs @ b # c # ys) (unat (heap_end_ptr s)) =
      chain (bsize s) (unat (heap_start_ptr s)) (xs @ b # ys) (unat (heap_end_ptr s))"
  proof (rule chain_split_join)
    show "bsize s q = bsize s' q" if "q \<in> set xs \<union> set ys" for q using v(3) out [OF that] by simp
  qed (use v(1,2) c(1) n(1) in simp_all)
  moreover have "dseg (nphys s') (pphys s') 0 (xs @ b # c # ys) 0"
  proof -
    have "dseg (nphys s) (pphys s) 0 ((xs @ [b]) @ ys) 0" "distinct ((xs @ [b]) @ c # ys)"
      using d(5,7) c(2) by auto
    from dseg_link [OF this] have l: "dseg ((nphys s)(b := c, c := hd (ys @ [0])))
        ((if ys = [] then pphys s else (pphys s)(hd ys := c))(c := b)) 0 (xs @ b # c # ys) 0"
      by simp
    have "ys \<noteq> [] \<Longrightarrow> hd ys \<noteq> c \<and> hd ys \<noteq> b" using c(2) d(7) by (cases ys) auto
    then show ?thesis using cb by (intro iffD2 [OF dseg_cong l]) (auto simp: m)
  qed
  moreover have "16 dvd bsize s b - unat n - 32"
    using heap_phys_block(2) [OF p, of b] n(2) by (intro dvd_diff_nat) auto
  moreover have "16 dvd bsize s' q \<and> hb_magic (heap_mem s' q) = TERMOB_HEAP_BLOCK_MAGIC"
    if "q \<in> set xs \<union> set ys" for q
    using v(3,5) out [OF that] heap_phys_block(2,3) [OF p, of q] that by auto
  ultimately have "heap_phys s' (xs @ b # c # ys)"
    using p v(1,2,5,6) cb n(2) unfolding heap_phys_def by (auto simp: heap_frameD [OF fr] hd_append)
  then show ?thesis by (simp add: c_def s'_def)
qed

section \<open>Taking a free block\<close>

lemma heap_rep_unlink:
  assumes r: "heap_rep s (xs @ b # ys)" and f: "heap_block_is_free s b"
  defines "s' \<equiv> heap_remove_free_block b s"
  shows "heap_frame s s'" "heap_phys s' (xs @ b # ys)" "\<And>p. hview s' p = hview s p"
    "heap_flist s' (filter (heap_block_is_free s) xs @ filter (heap_block_is_free s) ys)"
proof -
  have p: "heap_phys s (xs @ b # ys)" using r by (simp add: heap_rep_def)
  note d = heap_physD [OF p]
  let ?f = "filter (heap_block_is_free s)"
  have "heap_flist s (?f xs @ b # ?f ys)" "distinct (?f xs @ b # ?f ys)" "0 \<notin> set (?f xs @ b # ?f ys)"
    using r f d(7,8) by (auto simp: heap_rep_def)
  note u = heap_remove_free_block_spec [OF this, folded s'_def]
  show fr: "heap_frame s s'" and "heap_flist s' (?f xs @ ?f ys)" by (rule u(1), rule u(3))
  show "heap_phys s' (xs @ b # ys)" using core_hdr_same(1) [OF fr u(2)] p by simp
  show "hview s' p = hview s p" for p by (rule hview_core [OF u(2)])
qed

lemma takeWhile_sorted_split:
  fixes c :: u32
  assumes "\<And>p. p \<in> set xs \<Longrightarrow> p < c" "\<And>p. p \<in> set ys \<Longrightarrow> c < p"
  shows "takeWhile (\<lambda>p. p < c) (xs @ ys) = xs" "dropWhile (\<lambda>p. p < c) (xs @ ys) = ys"
proof -
  have "takeWhile (\<lambda>p. p < c) ys = []" "dropWhile (\<lambda>p. p < c) ys = ys"
    using assms(2) by (cases ys; fastforce)+
  then show "takeWhile (\<lambda>p. p < c) (xs @ ys) = xs" "dropWhile (\<lambda>p. p < c) (xs @ ys) = ys"
    using assms(1) by (auto simp: takeWhile_append dropWhile_append)
qed

lemma kmalloc_take_whole:
  assumes r: "heap_rep s (xs @ b # ys)" and f: "heap_block_is_free s b" and n: "bsize s b < unat n + 48"
  shows "\<exists>s'. kmalloc_take b n s = Some (heap_block_payload_address b, s') \<and> heap_frame s s' \<and>
    heap_rep s' (xs @ b # ys) \<and>
    blocks s' (xs @ b # ys) = blocks s xs @ (unat b, bsize s b, False) # blocks s ys"
proof -
  let ?s1 = "heap_remove_free_block b s"
  let ?s' = "heap_mark_block_used b ?s1"
  note u = heap_rep_unlink [OF r f]
  have d: "distinct (xs @ b # ys)" using r unfolding heap_rep_def by (blast dest: heap_physD(7))
  have "\<not> heap_can_split_block ?s1 b n"
    using n u(3) [of b] by (auto simp: heap_can_split_block_def word_le_nat_alt not_less unat_sub)
  then have "kmalloc_take b n s = Some (heap_block_payload_address b, ?s')"
    by (simp add: kmalloc_take_def heap_split_block_def)
  moreover have "hview ?s' q = hview s q" if "q \<in> set xs \<union> set ys" for q
    using u(3) [of q] d that by auto
  then have g: "filter (heap_block_is_free ?s') xs = filter (heap_block_is_free s) xs"
      "filter (heap_block_is_free ?s') ys = filter (heap_block_is_free s) ys"
    and bl: "blocks ?s' xs = blocks s xs" "blocks ?s' ys = blocks s ys"
    by (blast intro: filter_free_cong blocks_cong)+
  then have "heap_rep ?s' (xs @ b # ys)" using u(2,4) by (simp add: heap_rep_def)
  moreover have "blocks ?s' (xs @ b # ys) = blocks s xs @ (unat b, bsize s b, False) # blocks s ys"
    using bl u(3) [of b] unfolding blocks_def by simp
  moreover have "heap_frame s ?s'"
    using u(1) heap_mark_block_used_simps(1) by (rule heap_frame_trans)
  ultimately show ?thesis by blast
qed

lemma kmalloc_take_split:
  assumes r: "heap_rep s (xs @ b # ys)" and f: "heap_block_is_free s b"
    and n: "unat n + 48 \<le> bsize s b" "16 dvd unat n"
  defines "c \<equiv> b + 32 + n"
  shows "\<exists>s'. kmalloc_take b n s = Some (heap_block_payload_address b, s') \<and> heap_frame s s' \<and>
    heap_rep s' (xs @ b # c # ys) \<and>
    blocks s' (xs @ b # c # ys) = blocks s xs @ (unat b, unat n, False) #
      (unat b + 32 + unat n, bsize s b - unat n - 32, True) # blocks s ys"
proof -
  let ?s1 = "heap_remove_free_block b s" and ?f = "filter (heap_block_is_free s)"
  note u = heap_rep_unlink [OF r f]
  have n1: "unat n + 48 \<le> bsize ?s1 b" using n(1) u(3) [of b] by simp
  define s2 where "s2 = snd (heap_split_block b n ?s1)"
  note c = split_address [OF u(2) n1, folded c_def]
    and e = heap_split_block_eq [OF u(2) n1, folded c_def s2_def]
    and v = heap_split_block_views [OF u(2) n1, folded c_def s2_def]
    and p2 = heap_split_block_phys [OF u(2) n1 n(2), folded c_def s2_def]
  have "q \<noteq> c" if "q \<in> set (?f xs @ ?f ys)" for q using that c(2) by auto
  then have fl: "heap_flist s2 (?f xs @ ?f ys)"
    using v(4) by (intro iffD2 [OF heap_flist_cong u(4)] e(3)) blast
  have d: "distinct (xs @ b # c # ys)" "0 \<notin> set (xs @ b # c # ys)" by (rule heap_physD [OF p2])+
  have t: "takeWhile (\<lambda>p. p < c) (?f xs @ ?f ys) = ?f xs" "dropWhile (\<lambda>p. p < c) (?f xs @ ?f ys) = ?f ys"
    using c(4,5) by (intro takeWhile_sorted_split; auto)+
  have df: "distinct (?f xs @ ?f ys)" "0 \<notin> set (?f xs @ ?f ys)" "c \<notin> set (?f xs @ ?f ys)"
    using d by auto
  obtain s3 where s3: "heap_insert_free_block c s2 = Some s3" "inserted_free c (?f xs) (?f ys) s2 s3"
    using heap_insert_free_block_spec [OF fl df c(3)] unfolding t by blast
  then have i: "heap_frame s2 s3" "heap_flist s3 (?f xs @ c # ?f ys)" by (auto simp: inserted_free_def)
  have ch: "core_hdr (heap_mem s3 p) = core_hdr (heap_mem s2 p)" for p
    using s3(2) e(4) c(2) by (cases "p = c") (auto simp: inserted_free_def core_hdr_def)
  let ?s' = "heap_mark_block_used b s3"
  have k: "kmalloc_take b n s = Some (heap_block_payload_address b, ?s')"
    using s3(1) c(3) e(1) by (simp add: kmalloc_take_def)
  have wf: "heap_block_is_free ?s' q = (q \<noteq> b \<and> (q = c \<or> heap_block_is_free s q))" for q
    using hview_core [OF ch, of q] v(2) v(3) [of q] u(3) [of q] by auto
  have ws: "bsize ?s' q = (if q = b then unat n
      else if q = c then bsize s b - unat n - 32 else bsize s q)" for q
    using hview_core [OF ch, of q] v(1,2) v(3) [of q] u(3) [of q] u(3) [of b] by auto
  have o: "b \<notin> set xs" "b \<notin> set ys" "c \<notin> set xs" "c \<notin> set ys" "c \<noteq> b" using d(1) by auto
  have "hview ?s' q = hview s q" if "q \<in> set xs \<union> set ys" for q
    using that o unfolding wf ws by auto
  then have g: "filter (heap_block_is_free ?s') xs = ?f xs" "filter (heap_block_is_free ?s') ys = ?f ys"
    and bl: "blocks ?s' xs = blocks s xs" "blocks ?s' ys = blocks s ys"
    by (blast intro: filter_free_cong blocks_cong)+
  have "heap_phys s3 (xs @ b # c # ys)" using core_hdr_same(1) [OF i(1) ch] p2 by simp
  then have "heap_rep ?s' (xs @ b # c # ys)"
    using i(2) wf [of b] wf [of c] o(5) by (simp add: heap_rep_def g del: heap_mark_block_used_simps(5))
  moreover have "blocks ?s' (xs @ b # c # ys) = blocks s xs @ (unat b, unat n, False) #
      (unat b + 32 + unat n, bsize s b - unat n - 32, True) # blocks s ys"
    using bl c(1) o(5) wf [of b] wf [of c] ws [of b] ws [of c] unfolding blocks_def by simp
  moreover have "heap_frame s ?s'"
    by (intro heap_frame_trans [OF u(1)] heap_frame_trans [OF e(2)] heap_frame_trans [OF i(1)]) simp
  ultimately show ?thesis using k by blast
qed

section \<open>The search\<close>

lemma kmalloc_search_spec:
  "dseg (nfree s) (pfree s) q fs 0 \<Longrightarrow>
     (\<And>p. p \<in> set fs \<Longrightarrow> p \<noteq> 0 \<and> heap_block_is_sane s p \<and> heap_block_is_free s p) \<Longrightarrow>
     kmalloc_search n (hd (fs @ [0])) s =
       (case find (\<lambda>p. unat n \<le> bsize s p) fs of None \<Rightarrow> Some (0, s) | Some b \<Rightarrow> kmalloc_take b n s)"
proof (induction fs arbitrary: q)
  case Nil
  then show ?case by (simp add: kmalloc_search.simps)
next
  case (Cons b fs)
  then show ?case
    using Cons.IH [of b] by (simp add: kmalloc_search.simps [of _ b] word_le_nat_alt)
qed

text \<open>First fit on the block list finds the first free block that is large enough.\<close>

lemma spec_alloc_none:
  "find (\<lambda>p. n \<le> bsize s p) (filter (heap_block_is_free s) ps) = None \<longleftrightarrow>
     spec_alloc n (blocks s ps) = None"
  by (induction ps) (auto simp: blocks_def find_None_iff split: if_splits)

lemma spec_alloc_some:
  "(\<And>p. p \<in> set xs \<Longrightarrow> \<not> (heap_block_is_free s p \<and> n \<le> bsize s p)) \<Longrightarrow>
     heap_block_is_free s b \<Longrightarrow> n \<le> bsize s b \<Longrightarrow>
     spec_alloc n (blocks s (xs @ b # ys)) =
       Some (unat b, blocks s xs @
         (if n + 48 \<le> bsize s b
          then (unat b, n, False) # (unat b + 32 + n, bsize s b - n - 32, True) # blocks s ys
          else (unat b, bsize s b, False) # blocks s ys))"
proof (induction xs)
  case (Cons a xs)
  have "heap_block_is_free s a \<Longrightarrow> \<not> n \<le> bsize s a" using Cons.prems(1) [of a] by simp
  with Cons show ?case by (cases "heap_block_is_free s a") (simp_all add: blocks_def)
qed (simp add: blocks_def)

lemma find_filter_split:
  assumes "find P (filter Q ps) = Some b"
  obtains xs ys where "ps = xs @ b # ys" "P b" "Q b" "\<And>p. p \<in> set xs \<Longrightarrow> \<not> (Q p \<and> P p)"
proof -
  have "find (\<lambda>p. Q p \<and> P p) ps = Some b"
    using assms by (induction ps) (auto split: if_splits)
  then show thesis
    using that unfolding find_Some_iff by (metis (no_types, lifting) in_set_conv_nth id_take_nth_drop length_take min_less_iff_conj nth_take)
qed

definition kmalloc_result ::
  "u32 \<Rightarrow> 'a heap_globals_scheme \<Rightarrow> u32 list \<Rightarrow> (u32 \<times> 'a heap_globals_scheme) option \<Rightarrow> bool" where
  "kmalloc_result n s ps r \<longleftrightarrow>
     (case spec_alloc (unat n) (blocks s ps) of
        None \<Rightarrow> r = Some (0, s)
      | Some (a, bs) \<Rightarrow>
          (\<exists>p s' ps'. r = Some (p, s') \<and> unat p = a + 32 \<and> heap_frame s s' \<and> heap_rep s' ps' \<and>
             blocks s' ps' = bs))"

lemma kmalloc_search_rep:
  assumes r: "heap_rep s ps" and n: "16 dvd unat n"
  shows "kmalloc_result n s ps (kmalloc_search n (heap_free_list s) s)"
proof -
  have p: "heap_phys s ps" using r by (simp add: heap_rep_def)
  let ?fs = "filter (heap_block_is_free s) ps"
  have fl: "heap_free_list s = hd (?fs @ [0])" "dseg (nfree s) (pfree s) 0 ?fs 0"
    using r by (auto simp: heap_rep_def heap_flist_def)
  have "kmalloc_search n (heap_free_list s) s = (case find (\<lambda>p. unat n \<le> bsize s p) ?fs of
      None \<Rightarrow> Some (0, s) | Some b \<Rightarrow> kmalloc_take b n s)"
    unfolding fl(1) using heap_phys_sane [OF p] heap_phys_block(4) [OF p]
    by (intro kmalloc_search_spec [OF fl(2)]) auto
  moreover have ?thesis if "find (\<lambda>p. unat n \<le> bsize s p) ?fs = None"
    using that calculation spec_alloc_none [of "unat n" s ps] by (simp add: kmalloc_result_def)
  moreover have ?thesis if f: "find (\<lambda>p. unat n \<le> bsize s p) ?fs = Some b" for b
  proof -
    from f obtain xs ys where ps: "ps = xs @ b # ys" and b: "unat n \<le> bsize s b" "heap_block_is_free s b"
      and x: "\<And>p. p \<in> set xs \<Longrightarrow> \<not> (heap_block_is_free s p \<and> unat n \<le> bsize s p)"
      by (rule find_filter_split) blast
    note sp = spec_alloc_some [OF x b(2,1), of xs ys, simplified]
    have a: "unat (heap_block_payload_address b) = unat b + 32"
      using heap_phys_addresses(1) [OF p, of b] ps by simp
    have k: "kmalloc_search n (heap_free_list s) s = kmalloc_take b n s" using f calculation by simp
    show ?thesis
    proof (cases "unat n + 48 \<le> bsize s b")
      case True
      with kmalloc_take_split [OF r [unfolded ps] b(2) True n] sp a show ?thesis
        unfolding kmalloc_result_def k by (auto simp: ps)
    next
      case False
      with kmalloc_take_whole [OF r [unfolded ps] b(2), of n] sp a show ?thesis
        unfolding kmalloc_result_def k by (auto simp: ps)
    qed
  qed
  ultimately show ?thesis by (cases "find (\<lambda>p. unat n \<le> bsize s p) ?fs") blast+
qed

end
