(* ===== verification/Kheap_Free.thy ===== *)
theory Kheap_Free
  imports Kheap_Alloc
begin

text \<open>
  Release of a block: the lookup of a payload address, the insertion into the free list, and the
  coalescing with the neighbours, up to the lemma that \<^verbatim>\<open>kfree\<close> implements \<open>spec_free\<close>.
\<close>

section \<open>Finding a block\<close>

lemma heap_find_walk_spec:
  "dseg (nphys s) (pphys s) q ps 0 \<Longrightarrow> length ps < n \<Longrightarrow>
     (\<And>p. p \<in> set ps \<Longrightarrow> p \<noteq> 0 \<and> heap_block_is_sane s p) \<Longrightarrow>
     heap_find_walk n (hd (ps @ [0])) ptr s =
       (case find (\<lambda>p. heap_block_payload_address p = ptr) ps of None \<Rightarrow> (0, s) | Some b \<Rightarrow> (b, s))"
proof (induction ps arbitrary: q n)
  case Nil
  then show ?case by (cases n) simp_all
next
  case (Cons b ps)
  then obtain n' where "n = Suc n'" by (cases n) auto
  with Cons.IH [of b n'] Cons.prems show ?case by simp
qed

lemma heap_find_block_by_payload_spec:
  assumes p: "heap_phys s ps"
  shows "heap_find_block_by_payload ptr s =
    (if ptr = 0 then (0, s)
     else case find (\<lambda>p. heap_block_payload_address p = ptr) ps of None \<Rightarrow> (0, s) | Some b \<Rightarrow> (b, s))"
proof -
  note d = heap_physD [OF p]
  have h: "heap_first_block s = hd (ps @ [0])" using d(2,3) by simp
  have "heap_find_walk (unat (heap_max_walks s)) (hd (ps @ [0])) ptr s =
      (case find (\<lambda>p. heap_block_payload_address p = ptr) ps of None \<Rightarrow> (0, s) | Some b \<Rightarrow> (b, s))"
    using heap_phys_sane [OF p] heap_phys_block(4) [OF p]
    by (intro heap_find_walk_spec [OF d(5) heap_phys_walks [OF p]]) blast
  then show ?thesis using d(1) h by (simp add: heap_find_block_by_payload_def)
qed

section \<open>Insertion\<close>

lemma heap_rep_insert:
  assumes r: "heap_rep s (xs @ b # ys)" and f: "\<not> heap_block_is_free s b"
  shows "\<exists>s'. heap_insert_free_block b s = Some s' \<and> heap_frame s s' \<and> heap_rep s' (xs @ b # ys) \<and>
    blocks s' (xs @ b # ys) = blocks s xs @ (unat b, bsize s b, True) # blocks s ys"
proof -
  have p: "heap_phys s (xs @ b # ys)" using r by (simp add: heap_rep_def)
  note d = heap_physD [OF p]
  let ?f = "filter (heap_block_is_free s)"
  have fl: "heap_flist s (?f xs @ ?f ys)" using r f by (simp add: heap_rep_def)
  have df: "distinct (?f xs @ ?f ys)" "0 \<notin> set (?f xs @ ?f ys)" "b \<notin> set (?f xs @ ?f ys)" "b \<noteq> 0"
    using d(7,8) by auto
  have "takeWhile (\<lambda>p. p < b) (?f xs @ ?f ys) = ?f xs" "dropWhile (\<lambda>p. p < b) (?f xs @ ?f ys) = ?f ys"
    using d(6) by (intro takeWhile_sorted_split; auto simp: sorted_wrt_append)+
  then obtain s' where s': "heap_insert_free_block b s = Some s'" "inserted_free b (?f xs) (?f ys) s s'"
    using heap_insert_free_block_spec [OF fl df] by auto
  then have fr: "heap_frame s s'" and fl': "heap_flist s' (?f xs @ b # ?f ys)"
    and ch: "\<And>q. q \<noteq> b \<Longrightarrow> core_hdr (heap_mem s' q) = core_hdr (heap_mem s q)"
    and cb: "core_hdr (heap_mem s' b) =
      core_hdr ((heap_mem s b)\<lparr>hb_flags := hb_flags (heap_mem s b) OR 1\<rparr>)"
    by (auto simp: inserted_free_def)
  have vb: "hview s' b = (unat b, bsize s b, True)"
    using core_hdr_eqD(2,3) [OF cb] by (simp add: heap_block_is_free_def)
  have same: "hb_magic (heap_mem s' q) = hb_magic (heap_mem s q)" "bsize s' q = bsize s q"
    "nphys s' q = nphys s q" "pphys s' q = pphys s q" for q
    using core_hdr_eqD [OF ch, of q] core_hdr_eqD [OF cb] by (cases "q = b"; simp)+
  have ph: "heap_phys s' (xs @ b # ys)"
    using p unfolding heap_phys_def same heap_frameD [OF fr] .
  have "hview s' q = hview s q" if "q \<in> set xs \<union> set ys" for q
    using that d(7) by (intro hview_core ch) auto
  then have g: "filter (heap_block_is_free s') xs = ?f xs" "filter (heap_block_is_free s') ys = ?f ys"
    and bl: "blocks s' xs = blocks s xs" "blocks s' ys = blocks s ys"
    by (blast intro: filter_free_cong blocks_cong)+
  have "heap_rep s' (xs @ b # ys)" using ph fl' vb by (simp add: heap_rep_def g)
  moreover have "blocks s' (xs @ b # ys) = blocks s xs @ (unat b, bsize s b, True) # blocks s ys"
    using bl vb unfolding blocks_def by simp
  ultimately show ?thesis using s'(1) fr by blast
qed

section \<open>Joining two neighbours\<close>

text \<open>What \<open>heap_try_coalesce_with_next\<close> does to two adjacent free blocks.\<close>

lemma heap_try_coalesce_eq:
  assumes r: "heap_rep s (xs @ b # c # ys)" and f: "heap_block_is_free s b" "heap_block_is_free s c"
  defines "s1 \<equiv> heap_remove_free_block c s" and "s' \<equiv> heap_try_coalesce_with_next b s"
  shows "heap_frame s1 s'" "heap_free_list s' = heap_free_list s1"
    "heap_mem s' = (if ys = [] then heap_mem s1
       else (heap_mem s1)(hd ys := (heap_mem s1 (hd ys))\<lparr>hb_prev_phys := b\<rparr>))
      (b := (heap_mem s1 b)\<lparr>hb_size_bytes := hb_size_bytes (heap_mem s1 b) +
                (32 + hb_size_bytes (heap_mem s1 c)), hb_next_phys := hd (ys @ [0])\<rparr>)"
proof -
  have p: "heap_phys s (xs @ b # c # ys)" using r by (simp add: heap_rep_def)
  note d = heap_physD [OF p]
  have r': "heap_rep s ((xs @ [b]) @ c # ys)" using r by simp
  note u = heap_rep_unlink [OF r' f(2), folded s1_def]
  have d1: "dseg (nphys s1) (pphys s1) 0 (xs @ b # c # ys) 0" using heap_physD(5) [OF u(2)] by simp
  have n: "nphys s b = c" "nphys s1 c = hd (ys @ [0])"
    using d(5) d1 by (simp_all add: dseg_append)
  have cb: "b \<noteq> 0" "c \<noteq> 0" "c \<noteq> b" "b \<noteq> c" using d(7,8) by auto
  have ys: "hd (ys @ [0]) \<noteq> 0 \<longleftrightarrow> ys \<noteq> []" "ys \<noteq> [] \<Longrightarrow> hd ys \<noteq> b \<and> hd ys \<noteq> c"
    using d(7,8) by (cases ys; auto)+
  have "unat c = unat b + 32 + bsize s b" using d(4) by (auto simp: chain_append)
  then have e: "heap_block_end_address s b = c"
    using heap_phys_addresses(2) [OF p, of b] by (simp add: word_unat_eq_iff)
  have sane: "heap_block_is_sane s c" using heap_phys_sane [OF p] by simp
  have s': "s' = (let s2 = upd_block b
        (\<lambda>x. x\<lparr>hb_size_bytes := hb_size_bytes x + (32 + hb_size_bytes (heap_mem s1 c))\<rparr>) s1;
      s3 = upd_block b (\<lambda>x. x\<lparr>hb_next_phys := hb_next_phys (heap_mem s2 c)\<rparr>) s2;
      nn = hb_next_phys (heap_mem s3 c)
      in if nn \<noteq> 0 then upd_block nn (\<lambda>x. x\<lparr>hb_prev_phys := b\<rparr>) s3 else s3)"
    using cb n(1) f sane e unfolding s'_def s1_def heap_try_coalesce_with_next_def
    by (simp add: Let_def)
  show "heap_frame s1 s'" "heap_free_list s' = heap_free_list s1" by (simp_all add: s' Let_def)
  show "heap_mem s' = (if ys = [] then heap_mem s1
       else (heap_mem s1)(hd ys := (heap_mem s1 (hd ys))\<lparr>hb_prev_phys := b\<rparr>))
      (b := (heap_mem s1 b)\<lparr>hb_size_bytes := hb_size_bytes (heap_mem s1 b) +
                (32 + hb_size_bytes (heap_mem s1 c)), hb_next_phys := hd (ys @ [0])\<rparr>)"
    using cb n(2) ys by (cases "ys = []") (auto simp: s' Let_def fun_eq_iff)
qed

lemma heap_try_coalesce_views:
  assumes r: "heap_rep s (xs @ b # c # ys)" and f: "heap_block_is_free s b" "heap_block_is_free s c"
  defines "s' \<equiv> heap_try_coalesce_with_next b s"
  shows "bsize s' q = (if q = b then bsize s b + 32 + bsize s c else bsize s q)"
    "heap_block_is_free s' = heap_block_is_free s"
    "heap_frame s s'" "heap_flist s' (filter (heap_block_is_free s) (xs @ b # ys))"
proof -
  define s1 where "s1 = heap_remove_free_block c s"
  have r': "heap_rep s ((xs @ [b]) @ c # ys)" using r by simp
  note u = heap_rep_unlink [OF r' f(2), folded s1_def]
    and e = heap_try_coalesce_eq [OF r f, folded s1_def s'_def]
  have p1: "heap_phys s1 (xs @ b # c # ys)" using u(2) by simp
  have v1: "bsize s1 q = bsize s q" "heap_block_is_free s1 q = heap_block_is_free s q" for q
    using u(3) [of q] by auto
  have "unat c = unat b + 32 + bsize s1 b" using heap_physD(4) [OF p1] by (auto simp: chain_append)
  moreover have "unat c + 32 + bsize s1 c < 4294967296"
    using heap_phys_block(6) [OF p1, of c] u32_less [of "heap_end_ptr s1"] by simp
  ultimately have "unat (hb_size_bytes (heap_mem s1 b) + (32 + hb_size_bytes (heap_mem s1 c))) =
      bsize s1 b + (32 + bsize s1 c)"
    by (subst unat_add_small; subst unat_add_small; simp)+
  then show "bsize s' q = (if q = b then bsize s b + 32 + bsize s c else bsize s q)"
    using v1(1) [of b] v1(1) [of c] v1(1) [of q] by (auto simp: e(3))
  show "heap_block_is_free s' = heap_block_is_free s"
    using v1(2) by (auto simp: e(3) heap_block_is_free_def fun_eq_iff)
  show "heap_frame s s'" using u(1) e(1) by (rule heap_frame_trans)
  have "nfree s' q = nfree s1 q \<and> pfree s' q = pfree s1 q" for q by (simp add: e(3))
  then show "heap_flist s' (filter (heap_block_is_free s) (xs @ b # ys))"
    using u(4) e(2) f(1) heap_flist_cong [of _ s' s1] by simp
qed

lemma heap_try_coalesce_phys:
  assumes r: "heap_rep s (xs @ b # c # ys)" and f: "heap_block_is_free s b" "heap_block_is_free s c"
  shows "heap_phys (heap_try_coalesce_with_next b s) (xs @ b # ys)"
proof -
  define s1 s' where "s1 = heap_remove_free_block c s" and "s' = heap_try_coalesce_with_next b s"
  have r': "heap_rep s ((xs @ [b]) @ c # ys)" using r by simp
  note u = heap_rep_unlink [OF r' f(2), folded s1_def]
    and e = heap_try_coalesce_eq [OF r f, folded s1_def s'_def]
    and v = heap_try_coalesce_views [OF r f, folded s'_def]
  have p: "heap_phys s (xs @ b # c # ys)" using r by (simp add: heap_rep_def)
  have p1: "heap_phys s1 (xs @ b # c # ys)" using u(2) by simp
  note d = heap_physD [OF p] and d1 = heap_physD [OF p1]
  have out: "b \<notin> set xs" "b \<notin> set ys" "c \<noteq> b" using d(7) by auto
  have "unat c = unat b + 32 + bsize s b" using d(4) by (auto simp: chain_append)
  then have "chain (bsize s) (unat (heap_start_ptr s)) (xs @ b # c # ys) (unat (heap_end_ptr s)) =
      chain (bsize s') (unat (heap_start_ptr s)) (xs @ b # ys) (unat (heap_end_ptr s))"
    by (intro chain_split_join) (use out in \<open>auto simp: v(1)\<close>)
  moreover have "dseg (nphys s') (pphys s') 0 (xs @ b # ys) 0"
  proof -
    have "dseg (nphys s1) (pphys s1) 0 ((xs @ [b]) @ c # ys) 0" "distinct ((xs @ [b]) @ c # ys)"
      using d1(5,7) by simp_all
    from dseg_unlink [OF this] have l: "dseg ((nphys s1)(b := hd (ys @ [0])))
        (if ys = [] then pphys s1 else (pphys s1)(hd ys := b)) 0 (xs @ b # ys) 0"
      by (cases "ys = []") simp_all
    have "ys \<noteq> [] \<Longrightarrow> hd ys \<noteq> b" using out(2) by (cases ys) auto
    then show ?thesis by (intro iffD2 [OF dseg_cong l]) (auto simp: e(3))
  qed
  moreover have "16 dvd bsize s' q \<and> hb_magic (heap_mem s' q) = TERMOB_HEAP_BLOCK_MAGIC"
    if "q \<in> set (xs @ b # ys)" for q
  proof -
    have "16 dvd bsize s b + 32 + bsize s c" "16 dvd bsize s q"
      using heap_phys_block(2) [OF p] that by (auto intro!: dvd_add)
    moreover have "hb_magic (heap_mem s1 q) = TERMOB_HEAP_BLOCK_MAGIC"
      using heap_phys_block(3) [OF p1] that by auto
    ultimately show ?thesis unfolding v(1) by (auto simp: e(3))
  qed
  ultimately have "heap_phys s' (xs @ b # ys)"
    using p unfolding heap_phys_def heap_frameD [OF v(3)] by (auto simp: hd_append)
  then show ?thesis by (simp add: s'_def)
qed

lemma heap_try_coalesce_join:
  assumes r: "heap_rep s (xs @ b # c # ys)" and f: "heap_block_is_free s b" "heap_block_is_free s c"
  defines "s' \<equiv> heap_try_coalesce_with_next b s"
  shows "heap_frame s s' \<and> heap_rep s' (xs @ b # ys) \<and>
    blocks s' (xs @ b # ys) =
      blocks s xs @ (unat b, bsize s b + 32 + bsize s c, True) # blocks s ys"
proof -
  note v = heap_try_coalesce_views [OF r f, folded s'_def]
    and p = heap_try_coalesce_phys [OF r f, folded s'_def]
  have "b \<notin> set xs" "b \<notin> set ys" using heap_physD(7) [OF p] by auto
  then have "blocks s' xs = blocks s xs" "blocks s' ys = blocks s ys"
    unfolding blocks_def v by auto
  then have "blocks s' (xs @ b # ys) =
      blocks s xs @ (unat b, bsize s b + 32 + bsize s c, True) # blocks s ys"
    using f(1) unfolding blocks_def v by simp
  with v p show ?thesis by (simp add: heap_rep_def)
qed

text \<open>On block lists: the first block absorbs the second when both are free.\<close>

fun join1 :: "hblock list \<Rightarrow> hblock list" where
  "join1 ((a, n, f) # (a', n', f') # bs) =
     (if f \<and> f' then (a, n + 32 + n', True) # bs else (a, n, f) # (a', n', f') # bs)"
| "join1 bs = bs"

lemma heap_try_coalesce_rep:
  assumes r: "heap_rep s (xs @ b # ys)" and f: "heap_block_is_free s b"
  defines "s' \<equiv> heap_try_coalesce_with_next b s"
  shows "\<exists>ys'. heap_frame s s' \<and> heap_rep s' (xs @ b # ys') \<and> blocks s' xs = blocks s xs \<and>
    blocks s' (b # ys') = join1 (blocks s (b # ys))"
proof (cases "ys \<noteq> [] \<and> heap_block_is_free s (hd ys)")
  case True
  then obtain c cs where c: "ys = c # cs" "heap_block_is_free s c" by (cases ys) auto
  then have j: "heap_frame s s' \<and> heap_rep s' (xs @ b # cs) \<and>
    blocks s' (xs @ b # cs) = blocks s xs @ (unat b, bsize s b + 32 + bsize s c, True) # blocks s cs"
    using heap_try_coalesce_join [of s xs b c cs] r f by (simp add: s'_def)
  then have "blocks s' xs = blocks s xs \<and>
      blocks s' (b # cs) = (unat b, bsize s b + 32 + bsize s c, True) # blocks s cs"
    by (simp add: blocks_def)
  with j c f show ?thesis by (intro exI [of _ cs]) (simp add: blocks_def)
next
  case False
  have "nphys s b = hd (ys @ [0])"
    using r by (auto simp: heap_rep_def heap_phys_def dseg_append)
  then have "s' = s" using False by (cases ys) (auto simp: s'_def heap_try_coalesce_with_next_def)
  moreover have "join1 (blocks s (b # ys)) = blocks s (b # ys)"
    using False by (cases ys) (auto simp: blocks_def)
  ultimately show ?thesis using r by auto
qed

lemma heap_try_coalesce_twice:
  assumes r: "heap_rep s (xs @ b # ys)" and f: "heap_block_is_free s b"
  defines "s' \<equiv> heap_try_coalesce_with_next b (heap_try_coalesce_with_next b s)"
  shows "\<exists>ps. heap_frame s s' \<and> heap_rep s' ps \<and>
    blocks s' ps = blocks s xs @ join1 (join1 (blocks s (b # ys)))"
proof -
  let ?s1 = "heap_try_coalesce_with_next b s"
  obtain ys1 where 1: "heap_frame s ?s1" "heap_rep ?s1 (xs @ b # ys1)" "blocks ?s1 xs = blocks s xs"
    "blocks ?s1 (b # ys1) = join1 (blocks s (b # ys))"
    using heap_try_coalesce_rep [OF r f] by blast
  have "bs \<noteq> [] \<Longrightarrow> snd (snd (hd (join1 bs))) = snd (snd (hd bs))" for bs
    by (cases bs rule: join1.cases) auto
  from this [of "blocks s (b # ys)"] have "heap_block_is_free ?s1 b"
    using f unfolding 1(4) [symmetric] by (simp add: blocks_def)
  from heap_try_coalesce_rep [OF 1(2) this] obtain ys2 where 2: "heap_frame ?s1 s'"
    "heap_rep s' (xs @ b # ys2)" "blocks s' xs = blocks ?s1 xs"
    "blocks s' (b # ys2) = join1 (blocks ?s1 (b # ys1))"
    by (auto simp: s'_def)
  have "blocks s' (xs @ b # ys2) = blocks s xs @ join1 (join1 (blocks s (b # ys)))"
    using 1(3,4) 2(3,4) by (simp add: blocks_def)
  then show ?thesis using heap_frame_trans [OF 1(1) 2(1)] 2(2) by blast
qed

section \<open>Coalescing a freed block\<close>

definition no_adj :: "hblock list \<Rightarrow> bool" where
  "no_adj bs \<longleftrightarrow> successively (\<lambda>(_, _, f) (_, _, g). \<not> (f \<and> g)) bs"

lemma heap_ok_no_adj: "heap_ok s ps \<longleftrightarrow> heap_rep s ps \<and> no_adj (blocks s ps)"
  by (simp add: heap_ok_def no_adj_def blocks_def successively_map)

lemma no_adj_simps [simp]:
  "no_adj []" "no_adj [b]"
  "no_adj ((a, n, f) # (a', n', f') # bs) \<longleftrightarrow> \<not> (f \<and> f') \<and> no_adj ((a', n', f') # bs)"
  by (simp_all add: no_adj_def)

lemma no_adj_ConsD: "no_adj (b # bs) \<Longrightarrow> no_adj bs"
  by (cases bs) (auto simp: no_adj_def)

lemma no_adj_append:
  "no_adj (xs @ ys) \<longleftrightarrow> no_adj xs \<and> no_adj ys \<and>
     (xs \<noteq> [] \<and> ys \<noteq> [] \<longrightarrow> \<not> (snd (snd (last xs)) \<and> snd (snd (hd ys))))"
  by (auto simp: no_adj_def successively_append_iff split_def)

lemma merge_free_no_adj_id: "no_adj bs \<Longrightarrow> merge_free bs = bs"
  by (induction bs rule: merge_free.induct) auto

lemma merge_free_append:
  "no_adj (xs @ [x]) \<Longrightarrow> merge_free (xs @ x # ys) = xs @ merge_free (x # ys)"
proof (induction xs)
  case (Cons y xs)
  then have "no_adj (xs @ [x])" using no_adj_ConsD [of y "xs @ [x]"] by simp
  with Cons show ?case by (cases x; cases y; cases xs) auto
qed simp

text \<open>One join finishes the merge when the rest of the list has no two free neighbours.\<close>

lemma join1_merge_free:
  assumes "no_adj ys"
  shows "join1 ((a, n, True) # ys) = merge_free ((a, n, True) # ys)"
    "join1 (join1 ((a, n, True) # ys)) = merge_free ((a, n, True) # ys)"
proof -
  have "join1 ((a, n, True) # ys) = merge_free ((a, n, True) # ys) \<and>
      no_adj (join1 ((a, n, True) # ys))"
  proof (cases ys)
    case (Cons y zs)
    with assms show ?thesis
      by (cases y; cases zs) (auto simp: merge_free_no_adj_id)
  qed simp
  moreover have "no_adj bs \<Longrightarrow> join1 bs = bs" for bs by (cases bs rule: join1.cases) auto
  ultimately show "join1 ((a, n, True) # ys) = merge_free ((a, n, True) # ys)"
    "join1 (join1 ((a, n, True) # ys)) = merge_free ((a, n, True) # ys)" by auto
qed

lemma merge_free_head: "\<exists>k cs. merge_free ((a, n, f) # bs) = (a, k, f) # cs"
  by (induction "(a, n, f) # bs" arbitrary: n bs rule: merge_free.induct) auto

lemma no_adj_merge_free: "no_adj (merge_free bs)"
proof (induction bs rule: merge_free.induct)
  case (1 a n f a' n' f' bs)
  then show ?case using merge_free_head [of a' n' f' bs] by (cases "f \<and> f'") auto
qed auto

lemma heap_coalesce_rep:
  assumes r: "heap_rep s (xs @ b # ys)" and f: "heap_block_is_free s b"
    and na: "no_adj (blocks s xs)" "no_adj (blocks s ys)"
  defines "s' \<equiv> snd (heap_coalesce b s)"
  shows "\<exists>ps. heap_frame s s' \<and> heap_rep s' ps \<and> blocks s' ps = merge_free (blocks s (xs @ b # ys))"
proof -
  have p: "heap_phys s (xs @ b # ys)" using r by (simp add: heap_rep_def)
  note d = heap_physD [OF p]
  have pb: "pphys s b = last (0 # xs)" and b0: "b \<noteq> 0"
    using d(5,8) by (auto simp: dseg_append)
  show ?thesis
  proof (cases "xs \<noteq> [] \<and> heap_block_is_free s (last xs)")
    case True
    then obtain zs p where zs: "xs = zs @ [p]" "heap_block_is_free s p" by (cases xs rule: rev_cases) auto
    moreover have "p \<noteq> 0" using d(8) zs by auto
    ultimately have "s' = heap_try_coalesce_with_next p (heap_try_coalesce_with_next p s)"
      using pb b0 by (simp add: s'_def heap_coalesce_def Let_def)
    moreover have "join1 (join1 (blocks s (p # b # ys))) = merge_free (blocks s (p # b # ys))"
      using join1_merge_free(1) [OF na(2)] f zs(2) by (simp add: blocks_def)
    moreover have "merge_free (blocks s (xs @ b # ys)) = blocks s zs @ merge_free (blocks s (p # b # ys))"
      using merge_free_append [of "blocks s zs" "hview s p" "blocks s (b # ys)"] na(1)
      by (simp add: zs(1) blocks_def)
    moreover have "heap_rep s (zs @ p # b # ys)" using r zs by simp
    ultimately show ?thesis using heap_try_coalesce_twice zs(2) by metis
  next
    case False
    then have "s' = heap_try_coalesce_with_next b (heap_try_coalesce_with_next b s)"
      using pb b0 by (auto simp: s'_def heap_coalesce_def Let_def)
    moreover have "join1 (join1 (blocks s (b # ys))) = merge_free (blocks s (b # ys))"
      using join1_merge_free(2) [OF na(2)] f by (simp add: blocks_def)
    moreover have "merge_free (blocks s (xs @ b # ys)) = blocks s xs @ merge_free (blocks s (b # ys))"
    proof -
      have "no_adj (blocks s xs @ [hview s b])"
        using na(1) False by (auto simp: no_adj_append blocks_def last_map)
      from merge_free_append [OF this, of "blocks s ys"] show ?thesis by (simp add: blocks_def)
    qed
    ultimately show ?thesis using heap_try_coalesce_twice [OF r f] by simp
  qed
qed

section \<open>Release\<close>

lemma kfree_live:
  assumes ok: "heap_ok s ps" and b: "b \<in> set ps" "\<not> heap_block_is_free s b"
  shows "\<exists>s' ps'. kfree (heap_block_payload_address b) s = Some s' \<and> heap_frame s s' \<and>
    heap_ok s' ps' \<and> blocks s' ps' = spec_free (unat b) (blocks s ps)"
proof -
  from b obtain xs ys where ps: "ps = xs @ b # ys" by (meson split_list)
  have r: "heap_rep s (xs @ b # ys)" and na: "no_adj (blocks s (xs @ b # ys))"
    using ok ps by (auto simp: heap_ok_no_adj)
  have p: "heap_phys s (xs @ b # ys)" using r by (simp add: heap_rep_def)
  note d = heap_physD [OF p]
  let ?a = "heap_block_payload_address b"
  have "?a \<noteq> 0" using heap_phys_addresses(1) [OF p, of b] by auto
  moreover have "find (\<lambda>p. heap_block_payload_address p = ?a) (xs @ b # ys) = Some b"
  proof -
    have "find (\<lambda>p. heap_block_payload_address p = ?a) (xs @ b # ys) =
        find (\<lambda>p. p = b) (xs @ b # ys)"
      by (simp add: heap_block_payload_address_def)
    also have "\<dots> = Some b" by (induction xs) auto
    finally show ?thesis .
  qed
  ultimately have fd: "heap_find_block_by_payload ?a s = (b, s)"
    by (simp add: heap_find_block_by_payload_spec [OF p])
  obtain s1 where s1: "heap_insert_free_block b s = Some s1" "heap_frame s s1"
    "heap_rep s1 (xs @ b # ys)"
    "blocks s1 (xs @ b # ys) = blocks s xs @ (unat b, bsize s b, True) # blocks s ys"
    using heap_rep_insert [OF r b(2)] by blast
  then have e: "blocks s1 xs = blocks s xs" "blocks s1 ys = blocks s ys" "heap_block_is_free s1 b"
    by (auto simp: blocks_def)
  moreover have "no_adj (blocks s xs)" "no_adj (blocks s ys)"
    using na no_adj_ConsD unfolding blocks_def by (auto simp: no_adj_append)
  ultimately obtain ps' where c: "heap_frame s1 (snd (heap_coalesce b s1))"
    "heap_rep (snd (heap_coalesce b s1)) ps'"
    "blocks (snd (heap_coalesce b s1)) ps' = merge_free (blocks s1 (xs @ b # ys))"
    using heap_coalesce_rep [OF s1(3)] by force
  have "map (\<lambda>(a, n, f). (a, n, f \<or> a = unat b)) (blocks s ps) = blocks s1 (xs @ b # ys)"
    using d(7) unfolding s1(4) ps by (auto simp: blocks_def word_unat_eq_iff [symmetric])
  then have "blocks (snd (heap_coalesce b s1)) ps' = spec_free (unat b) (blocks s ps)"
    by (simp add: spec_free_def c(3))
  moreover have "kfree ?a s = Some (snd (heap_coalesce b s1))"
    using d(1,8) \<open>?a \<noteq> 0\<close> fd b(2) s1(1) by (auto simp: kfree_def)
  moreover have "heap_ok (snd (heap_coalesce b s1)) ps'"
    using c(2,3) no_adj_merge_free by (simp add: heap_ok_no_adj)
  ultimately show ?thesis using heap_frame_trans [OF s1(2) c(1)] by blast
qed

end
