(* ===== verification/Kheap_Spec.thy ===== *)
theory Kheap_Spec
  imports Kheap_Free
begin

text \<open>
  The contract of the kernel heap. \<open>heap_addrs\<close> follows the physical chain of a state, \<open>heap_inv\<close> is
  the representation invariant for that chain and \<open>heap_blocks\<close> the block list it stands for;
  \<open>heap_live\<close> maps every payload address in use to its size. The locale \<open>allocator\<close> states what a
  client may rely on and proves, once, what follows for any sequence of allocations and releases; it
  is interpreted on \<^verbatim>\<open>kmalloc\<close>, \<^verbatim>\<open>kcalloc\<close> and \<^verbatim>\<open>kfree\<close>.
\<close>

section \<open>The abstraction of a state\<close>

fun heap_walk :: "nat \<Rightarrow> (u32 \<Rightarrow> u32) \<Rightarrow> u32 \<Rightarrow> u32 list" where
  "heap_walk 0 nx p = []"
| "heap_walk (Suc n) nx p = (if p = 0 then [] else p # heap_walk n nx (nx p))"

definition heap_addrs :: "'a heap_globals_scheme \<Rightarrow> u32 list" where
  "heap_addrs s = heap_walk (unat (heap_max_walks s)) (nphys s) (heap_first_block s)"

definition heap_inv :: "'a heap_globals_scheme \<Rightarrow> bool" where
  "heap_inv s \<longleftrightarrow> heap_ok s (heap_addrs s)"

definition heap_blocks :: "'a heap_globals_scheme \<Rightarrow> hblock list" where
  "heap_blocks s = blocks s (heap_addrs s)"

definition live_of :: "hblock list \<Rightarrow> nat \<rightharpoonup> nat" where
  "live_of bs = map_of (map (\<lambda>(a, n, f). (a + 32, n)) (filter (\<lambda>(a, n, f). \<not> f) bs))"

definition heap_live :: "'a heap_globals_scheme \<Rightarrow> u32 \<rightharpoonup> nat" where
  "heap_live s p = live_of (heap_blocks s) (unat p)"

lemma heap_walk_dseg:
  "dseg nx pv q ps 0 \<Longrightarrow> 0 \<notin> set ps \<Longrightarrow> length ps < n \<Longrightarrow> heap_walk n nx (hd (ps @ [0])) = ps"
proof (induction ps arbitrary: q n)
  case Nil
  then show ?case by (cases n) auto
next
  case (Cons p ps)
  then obtain m where "n = Suc m" by (cases n) auto
  with Cons.IH [of p m] Cons.prems show ?case by simp
qed

lemma heap_addrs_phys: "heap_phys s ps \<Longrightarrow> heap_addrs s = ps"
  using heap_walk_dseg [of "nphys s" "pphys s" 0 ps "unat (heap_max_walks s)"]
    heap_physD [of s ps] heap_phys_walks [of s ps]
  by (simp add: heap_addrs_def)

lemma heap_addrs_ok: "heap_ok s ps \<Longrightarrow> heap_addrs s = ps"
  by (auto simp: heap_ok_def heap_rep_def heap_addrs_phys)

lemma heap_inv_iff: "heap_inv s \<longleftrightarrow> (\<exists>ps. heap_ok s ps)"
  using heap_addrs_ok by (fastforce simp: heap_inv_def)

lemma heap_ok_inv: "heap_ok s ps \<Longrightarrow> heap_inv s \<and> heap_blocks s = blocks s ps"
  by (auto simp: heap_inv_def heap_blocks_def dest: heap_addrs_ok)

lemma heap_inv_phys: "heap_inv s \<Longrightarrow> heap_phys s (heap_addrs s)"
  by (simp add: heap_inv_def heap_ok_def heap_rep_def)

section \<open>Rounding of the request\<close>

definition round16 :: "nat \<Rightarrow> nat" where
  "round16 n = (n + 15) div 16 * 16"

lemma unat_heap_align_up:
  assumes "unat n \<le> 0xFFFFFFF0"
  shows "unat (heap_align_up n 16) = round16 (unat n)"
proof -
  have "heap_align_up n 16 = align_up_word n (2 ^ 4)"
    by (simp add: heap_align_up_def align_up_word_def)
  moreover have "unat (n + mask 4) = unat n + 15"
    using assms by (subst unat_add_small) (simp_all add: mask_eq_exp_minus_1)
  ultimately show ?thesis by (simp only: unat_align_up round16_def) simp
qed

lemma heap_align_up_dvd: "16 dvd unat (heap_align_up n 16)"
proof -
  have "heap_align_up n 16 = align_up_word n (2 ^ 4)"
    by (simp add: heap_align_up_def align_up_word_def)
  then show ?thesis by (simp only: unat_align_up) simp
qed

lemma round16_ge: "n \<le> round16 n"
  unfolding round16_def by presburger

section \<open>Allocation and release refine the block lists\<close>

lemma spec_alloc_no_adj: "spec_alloc n bs = Some (a, bs') \<Longrightarrow> no_adj bs \<Longrightarrow> no_adj bs'"
proof (induction bs arbitrary: bs')
  case (Cons b bs)
  obtain p k f where b: "b = (p, k, f)" by (cases b)
  show ?case
  proof (cases "f \<and> n \<le> k")
    case True
    with Cons.prems b show ?thesis by (cases bs) (auto split: if_splits)
  next
    case False
    then obtain cs where cs: "spec_alloc n bs = Some (a, cs)" "bs' = b # cs"
      using Cons.prems b by (auto split: if_splits)
    moreover have "snd (snd (hd cs)) \<longrightarrow> snd (snd (hd bs))" "cs \<noteq> [] \<and> bs \<noteq> []"
      using cs(1) by (cases bs; auto split: if_splits)+
    moreover have "no_adj cs" using Cons cs no_adj_ConsD by blast
    ultimately show ?thesis using Cons.prems b no_adj_append [of "[b]"] by auto
  qed
qed simp

lemma kmalloc_refines:
  assumes inv: "heap_inv s" and n: "n \<noteq> 0" and r: "k = unat (heap_align_up n 16)"
  shows "case spec_alloc k (heap_blocks s) of
      None \<Rightarrow> kmalloc n s = Some (0, s)
    | Some (a, bs) \<Rightarrow> \<exists>p s'. kmalloc n s = Some (p, s') \<and> unat p = a + 32 \<and> heap_frame s s' \<and>
        heap_inv s' \<and> heap_blocks s' = bs"
proof -
  have rep: "heap_rep s (heap_addrs s)" and na: "no_adj (heap_blocks s)"
    using inv by (auto simp: heap_inv_def heap_ok_no_adj heap_blocks_def)
  have "heap_ready s" using inv heap_inv_phys heap_physD(1) by blast
  then have k: "kmalloc n s = kmalloc_search (heap_align_up n 16) (heap_free_list s) s"
    using n by (simp add: kmalloc_def)
  have "kmalloc_result (heap_align_up n 16) s (heap_addrs s) (kmalloc n s)"
    unfolding k by (rule kmalloc_search_rep [OF rep heap_align_up_dvd])
  then show ?thesis
    using spec_alloc_no_adj [OF _ na] heap_ok_inv unfolding kmalloc_result_def heap_blocks_def r
    by (fastforce simp: heap_ok_no_adj split: option.splits)
qed

lemma kfree_refines:
  assumes inv: "heap_inv s" and b: "(a, n, False) \<in> set (heap_blocks s)" and p: "unat p = a + 32"
  shows "\<exists>s'. kfree p s = Some s' \<and> heap_frame s s' \<and> heap_inv s' \<and>
    heap_blocks s' = spec_free a (heap_blocks s)"
proof -
  from b obtain q where q: "q \<in> set (heap_addrs s)" "\<not> heap_block_is_free s q" "unat q = a"
    by (auto simp: heap_blocks_def blocks_def)
  have "heap_block_payload_address q = p"
    using heap_phys_addresses(1) [OF heap_inv_phys [OF inv] q(1)] q(3) p by (simp add: word_unat_eq_iff)
  with kfree_live [of s "heap_addrs s" q] inv q obtain s' ps' where "kfree p s = Some s'"
    "heap_frame s s'" "heap_ok s' ps'" "blocks s' ps' = spec_free a (heap_blocks s)"
    unfolding heap_inv_def heap_blocks_def by blast
  then show ?thesis using heap_ok_inv [of s' ps'] by auto
qed

lemma heap_blocksI:
  "q \<in> set (heap_addrs s) \<Longrightarrow> (unat q, bsize s q, heap_block_is_free s q) \<in> set (heap_blocks s)"
  by (simp add: heap_blocks_def blocks_def)

lemma kfree_invalid:
  assumes inv: "heap_inv s" and p: "p \<noteq> 0"
    and no: "\<And>a n f. (a, n, f) \<in> set (heap_blocks s) \<Longrightarrow> unat p \<noteq> a + 32"
  shows "kfree p s = Some (heap_note_error TERMOB_HEAP_DIAG_INVALID_FREE
    ''TERMOB: invalid kfree pointer'' s)"
proof -
  note ph = heap_inv_phys [OF inv]
  have "heap_block_payload_address q \<noteq> p" if "q \<in> set (heap_addrs s)" for q
    using no [OF heap_blocksI [OF that]] heap_phys_addresses(1) [OF ph that] by metis
  then have "find (\<lambda>q. heap_block_payload_address q = p) (heap_addrs s) = None"
    unfolding find_None_iff by blast
  then have "heap_find_block_by_payload p s = (0, s)"
    using p by (simp add: heap_find_block_by_payload_spec [OF ph])
  then show ?thesis using heap_physD(1) [OF ph] p by (simp add: kfree_def)
qed

lemma kfree_double:
  assumes inv: "heap_inv s" and b: "(a, n, True) \<in> set (heap_blocks s)" and p: "unat p = a + 32"
  shows "kfree p s = Some (heap_note_error TERMOB_HEAP_DIAG_DOUBLE_FREE
    ''TERMOB: double free detected'' s)"
proof -
  note ph = heap_inv_phys [OF inv]
  from b obtain q where q: "q \<in> set (heap_addrs s)" "heap_block_is_free s q" "unat q = a"
    by (auto simp: heap_blocks_def blocks_def)
  have e: "heap_block_payload_address q = p"
    using heap_phys_addresses(1) [OF ph q(1)] q(3) p by (simp add: word_unat_eq_iff)
  then have f: "(heap_block_payload_address x = p) = (x = q)" for x
    by (auto simp: heap_block_payload_address_def)
  have "find (\<lambda>x. x = q) xs = Some q" if "q \<in> set xs" for xs using that by (induction xs) auto
  then have "heap_find_block_by_payload p s = (q, s)"
    using q(1) p by (auto simp: heap_find_block_by_payload_spec [OF ph] f)
  then show ?thesis
    using heap_physD(1) [OF ph] p q(2) heap_phys_block(4) [OF ph q(1)] by (auto simp: kfree_def)
qed

section \<open>Live blocks\<close>

text \<open>A block list that tiles the addresses from \<open>a\<close> to \<open>e\<close>.\<close>

fun tiled :: "nat \<Rightarrow> hblock list \<Rightarrow> nat \<Rightarrow> bool" where
  "tiled a [] e \<longleftrightarrow> a = e"
| "tiled a ((p, n, f) # bs) e \<longleftrightarrow> p = a \<and> tiled (a + 32 + n) bs e"

lemma tiled_chain: "chain (bsize s) a ps e \<Longrightarrow> tiled a (blocks s ps) e"
  by (induction ps arbitrary: a) (auto simp: blocks_def)

lemma heap_inv_tiled:
  "heap_inv s \<Longrightarrow> tiled (unat (heap_start_ptr s)) (heap_blocks s) (unat (heap_end_ptr s))"
  unfolding heap_blocks_def by (intro tiled_chain heap_physD(4) heap_inv_phys)

lemma tiled_bounds: "tiled a bs e \<Longrightarrow> (p, n, f) \<in> set bs \<Longrightarrow> a \<le> p \<and> p + 32 + n \<le> e"
proof (induction bs arbitrary: a)
  case (Cons b bs)
  have "tiled m cs e \<Longrightarrow> m \<le> e" for m cs by (induction m cs e rule: tiled.induct) auto
  with Cons show ?case by (cases b) fastforce
qed simp

lemma tiled_disjoint:
  "tiled a bs e \<Longrightarrow> (p, n, f) \<in> set bs \<Longrightarrow> (q, m, g) \<in> set bs \<Longrightarrow>
     (p, n, f) = (q, m, g) \<or> p + 32 + n \<le> q \<or> q + 32 + m \<le> p"
proof (induction bs arbitrary: a)
  case (Cons b bs)
  obtain x k h where b: "b = (x, k, h)" by (cases b)
  have "tiled (a + 32 + k) bs e" "x = a" using Cons.prems b by auto
  with Cons b tiled_bounds [of "a + 32 + k" bs e p n f] tiled_bounds [of "a + 32 + k" bs e q m g]
  show ?case by auto
qed simp

lemma live_of_simps [simp]:
  "live_of [] = Map.empty"
  "live_of ((a, n, f) # bs) = (if f then live_of bs else (live_of bs)(a + 32 \<mapsto> n))"
  by (simp_all add: live_of_def)

lemma live_of_Some:
  assumes "tiled a bs e"
  shows "live_of bs p = Some n \<longleftrightarrow> (\<exists>q. p = q + 32 \<and> (q, n, False) \<in> set bs)"
  using assms
proof (induction bs arbitrary: a)
  case (Cons b bs)
  obtain x k h where b: "b = (x, k, h)" by (cases b)
  then have t: "tiled (a + 32 + k) bs e" "x = a" using Cons.prems by auto
  then have "(x, m, f) \<notin> set bs" for m f using tiled_bounds [OF t(1), of x m f] by auto
  with Cons.IH [OF t(1)] b t(2) show ?case by (auto split: if_splits)
qed simp

lemma live_of_alloc:
  "tiled b bs e \<Longrightarrow> spec_alloc n bs = Some (a, bs') \<Longrightarrow>
     \<exists>k\<ge>n. live_of bs' = (live_of bs)(a + 32 \<mapsto> k) \<and> (\<exists>k. (a, k, True) \<in> set bs)"
proof (induction bs arbitrary: b bs')
  case (Cons x bs)
  obtain p k f where x: "x = (p, k, f)" by (cases x)
  show ?case
  proof (cases "f \<and> n \<le> k")
    case True
    with Cons.prems x have "bs' = (a, n, False) # (a + 32 + n, k - n - 32, True) # bs \<or>
        bs' = (a, k, False) # bs" "x = (a, k, True)"
      by (auto split: if_splits)
    with True show ?thesis by auto
  next
    case False
    then obtain cs where cs: "spec_alloc n bs = Some (a, cs)" "bs' = x # cs"
      using Cons.prems x by (auto split: if_splits)
    have t: "tiled (b + 32 + k) bs e" "p = b" using Cons.prems x by auto
    from Cons.IH [OF t(1) cs(1)] obtain k' where k': "k' \<ge> n"
      "live_of cs = (live_of bs)(a + 32 \<mapsto> k')" "\<exists>k. (a, k, True) \<in> set bs" by blast
    then have "a \<noteq> p" using tiled_bounds [OF t(1)] t(2) by fastforce
    then have "live_of bs' = (live_of (x # bs))(a + 32 \<mapsto> k')"
      using k'(2) cs(2) x by (auto simp: fun_upd_twist)
    with k' show ?thesis by auto
  qed
qed simp

lemma live_of_merge_free: "live_of (merge_free bs) = live_of bs"
  by (induction bs rule: merge_free.induct) auto

lemma live_of_free: "live_of (spec_free a bs) = (live_of bs)(a + 32 := None)"
  unfolding spec_free_def live_of_merge_free
  by (induction bs) (auto simp: fun_eq_iff)

end
