(* ===== verification/Kheap_Contract.thy ===== *)
theory Kheap_Contract
  imports Kheap_Spec
begin

text \<open>
  The interface of an allocator as a locale, what any client gets from it, and its interpretations
  on \<^verbatim>\<open>kmalloc\<close>/\<^verbatim>\<open>kfree\<close> and \<^verbatim>\<open>kcalloc\<close>/\<^verbatim>\<open>kfree\<close>. The properties of allocation and release that the
  rest of the kernel relies on are stated here over the functions of \<^verbatim>\<open>core/heap.c\<close>.
\<close>

section \<open>The interface\<close>

text \<open>
  \<open>live s\<close> maps the pointers a client holds to the number of bytes behind them. A request that
  \<open>fits\<close> is answered by null or by a pointer that was not live, to at least \<open>amount n\<close> bytes.
\<close>

datatype ('n, 'p) heap_op = Alloc 'n | Free 'p

fun run_ops ::
  "('n \<Rightarrow> 's \<Rightarrow> ('p \<times> 's) option) \<Rightarrow> ('p \<Rightarrow> 's \<Rightarrow> 's option) \<Rightarrow> ('n, 'p) heap_op list \<Rightarrow> 's \<Rightarrow>
     ('p list \<times> 's) option" where
  "run_ops al fr [] s = Some ([], s)"
| "run_ops al fr (Alloc n # os) s = do {
     (p, s) \<leftarrow> al n s; (ps, s) \<leftarrow> run_ops al fr os s; Some (p # ps, s) }"
| "run_ops al fr (Free p # os) s = do { s \<leftarrow> fr p s; run_ops al fr os s }"

definition ops_fit :: "('n \<Rightarrow> bool) \<Rightarrow> ('n, 'p) heap_op list \<Rightarrow> bool" where
  "ops_fit fits os \<longleftrightarrow> list_all (\<lambda>x. case x of Alloc n \<Rightarrow> fits n | Free p \<Rightarrow> True) os"

locale allocator =
  fixes alloc :: "'n \<Rightarrow> 's \<Rightarrow> ('p \<times> 's) option"
    and free :: "'p \<Rightarrow> 's \<Rightarrow> 's option"
    and inv :: "'s \<Rightarrow> bool"
    and live :: "'s \<Rightarrow> 'p \<rightharpoonup> nat"
    and null :: 'p
    and addr :: "'p \<Rightarrow> nat"
    and fits :: "'n \<Rightarrow> bool"
    and amount :: "'n \<Rightarrow> nat"
  assumes alloc_contract: "inv s \<Longrightarrow> fits n \<Longrightarrow>
      \<exists>p s'. alloc n s = Some (p, s') \<and> inv s' \<and>
        (if p = null then live s' = live s
         else live s p = None \<and> (\<exists>k\<ge>amount n. live s' = (live s)(p \<mapsto> k)))"
    and free_contract: "inv s \<Longrightarrow>
      \<exists>s'. free p s = Some s' \<and> inv s' \<and> live s' = (live s)(p := None)"
    and live_disjoint: "inv s \<Longrightarrow> live s p = Some k \<Longrightarrow> live s q = Some m \<Longrightarrow> p \<noteq> q \<Longrightarrow>
      addr p + k \<le> addr q \<or> addr q + m \<le> addr p"
    and live_null: "inv s \<Longrightarrow> live s null = None"
begin

lemma alloc_undo:
  assumes "inv s" "fits n"
  shows "\<exists>p s'. alloc n s = Some (p, s') \<and> inv s' \<and> live s = (live s')(p := None) \<and>
    (p \<noteq> null \<longrightarrow> (\<exists>k\<ge>amount n. live s' p = Some k))"
proof -
  obtain p s' where p: "alloc n s = Some (p, s')" "inv s'" "if p = null then live s' = live s
      else live s p = None \<and> (\<exists>k\<ge>amount n. live s' = (live s)(p \<mapsto> k))"
    using alloc_contract [OF assms] by blast
  show ?thesis
  proof (cases "p = null")
    case True
    then show ?thesis using p live_null [OF assms(1)] by (auto simp: fun_upd_idem)
  next
    case False
    then obtain k where k: "live s p = None" "amount n \<le> k" "live s' = (live s)(p \<mapsto> k)"
      using p(3) by auto
    then have "live s = (live s')(p := None)" "live s' p = Some k" by (auto simp: fun_eq_iff)
    then show ?thesis using p(1,2) k(2) by blast
  qed
qed

lemma alloc_free_restores:
  assumes "inv s" "fits n" "alloc n s = Some (p, s')"
  shows "\<exists>s''. free p s' = Some s'' \<and> inv s'' \<and> live s'' = live s"
  using alloc_undo [OF assms(1,2)] assms(3) free_contract [of s' p] by auto

lemma run_ops_returns:
  "inv s \<Longrightarrow> ops_fit fits os \<Longrightarrow> \<exists>ps s'. run_ops alloc free os s = Some (ps, s') \<and> inv s'"
proof (induction os arbitrary: s)
  case (Cons x os)
  then have os: "ops_fit fits os" by (simp add: ops_fit_def)
  show ?case
  proof (cases x)
    case (Alloc n)
    then have "fits n" using Cons.prems by (simp add: ops_fit_def)
    then obtain p s1 where "alloc n s = Some (p, s1)" "inv s1"
      using alloc_contract [OF Cons.prems(1)] by blast
    then show ?thesis using Cons.IH [OF _ os] Alloc by fastforce
  next
    case (Free p)
    obtain s1 where "free p s = Some s1" "inv s1" using free_contract [OF Cons.prems(1)] by blast
    then show ?thesis using Cons.IH [OF _ os] Free by fastforce
  qed
qed simp

lemma run_ops_keeps:
  "inv s \<Longrightarrow> ops_fit fits os \<Longrightarrow> run_ops alloc free os s = Some (ps, s') \<Longrightarrow>
     live s p = Some n \<Longrightarrow> Free p \<notin> set os \<Longrightarrow> live s' p = Some n"
proof (induction os arbitrary: s ps)
  case (Cons x os)
  then have os: "ops_fit fits os" by (simp add: ops_fit_def)
  show ?case
  proof (cases x)
    case (Alloc m)
    then have "fits m" using Cons.prems by (simp add: ops_fit_def)
    then obtain q s1 where 1: "alloc m s = Some (q, s1)" "inv s1" "if q = null then live s1 = live s
        else live s q = None \<and> (\<exists>k\<ge>amount m. live s1 = (live s)(q \<mapsto> k))"
      using alloc_contract [OF Cons.prems(1)] by blast
    then have "live s1 p = Some n" using Cons.prems(4) by (auto split: if_splits)
    then show ?thesis using Cons.IH [OF 1(2) os] Cons.prems(3,5) Alloc 1(1)
      by (auto split: bind_splits)
  next
    case (Free q)
    obtain s1 where 1: "free q s = Some s1" "inv s1" "live s1 = (live s)(q := None)"
      using free_contract [OF Cons.prems(1)] by blast
    moreover have "q \<noteq> p" using Cons.prems(5) Free by auto
    ultimately show ?thesis using Cons.IH [OF 1(2) os] Cons.prems(3-5) Free by simp
  qed
qed simp

end

section \<open>The kernel heap implements the interface\<close>

text \<open>Writing a message or a payload byte leaves every part of the heap alone.\<close>

lemma heap_fields_more:
  assumes "log_globals.more s' = log_globals.more s"
  shows "heap_mem s' = heap_mem s" "heap_free_list s' = heap_free_list s"
    "heap_first_block s' = heap_first_block s" "heap_ready s' = heap_ready s"
    "heap_start_ptr s' = heap_start_ptr s" "heap_end_ptr s' = heap_end_ptr s" "mem s' = mem s"
    "heap_globals.more s' = heap_globals.more s"
  using assms by (cases s; cases s'; simp)+

lemma heap_inv_same:
  assumes "heap_mem s' = heap_mem s" "heap_free_list s' = heap_free_list s"
    "heap_first_block s' = heap_first_block s" "heap_ready s' = heap_ready s"
    "heap_start_ptr s' = heap_start_ptr s" "heap_end_ptr s' = heap_end_ptr s"
  shows "heap_inv s' = heap_inv s" "heap_blocks s' = heap_blocks s" "heap_live s' = heap_live s"
proof -
  have f: "heap_block_is_free s' = heap_block_is_free s"
    by (simp add: fun_eq_iff heap_block_is_free_def assms)
  have a: "heap_addrs s' = heap_addrs s" by (simp add: heap_addrs_def heap_max_walks_def assms)
  show "heap_inv s' = heap_inv s"
    unfolding heap_inv_def heap_ok_def heap_rep_def heap_phys_def heap_flist_def a f assms ..
  show b: "heap_blocks s' = heap_blocks s" unfolding heap_blocks_def blocks_def a f assms ..
  show "heap_live s' = heap_live s" by (simp add: fun_eq_iff heap_live_def b)
qed

lemma heap_log_event_fields [simp]:
  "heap_mem (heap_log_event m s) = heap_mem s" "heap_free_list (heap_log_event m s) = heap_free_list s"
  "heap_first_block (heap_log_event m s) = heap_first_block s"
  "heap_ready (heap_log_event m s) = heap_ready s"
  "heap_start_ptr (heap_log_event m s) = heap_start_ptr s"
  "heap_end_ptr (heap_log_event m s) = heap_end_ptr s" "mem (heap_log_event m s) = mem s"
  "heap_globals.more (heap_log_event m s) = heap_globals.more s"
proof -
  have "log_globals.more (heap_log_event m s) = log_globals.more s"
    using log_event_more [of m s] by (simp add: heap_log_event_def log_event_def)
  then show "heap_mem (heap_log_event m s) = heap_mem s" "heap_free_list (heap_log_event m s) = heap_free_list s"
    "heap_first_block (heap_log_event m s) = heap_first_block s"
    "heap_ready (heap_log_event m s) = heap_ready s"
    "heap_start_ptr (heap_log_event m s) = heap_start_ptr s"
    "heap_end_ptr (heap_log_event m s) = heap_end_ptr s" "mem (heap_log_event m s) = mem s"
    "heap_globals.more (heap_log_event m s) = heap_globals.more s"
    by (fact heap_fields_more)+
qed

lemma heap_note_error_inv [simp]:
  "mem (heap_note_error f m s) = mem s"
  "heap_inv (heap_note_error f m s) = heap_inv s"
  "heap_blocks (heap_note_error f m s) = heap_blocks s"
  "heap_live (heap_note_error f m s) = heap_live s"
  by (simp add: heap_note_error_def) (rule heap_inv_same; simp add: heap_note_error_def)+

lemma heap_zero_bytes_inv [simp]:
  "heap_inv (heap_zero_bytes p n s) = heap_inv s"
  "heap_blocks (heap_zero_bytes p n s) = heap_blocks s"
  "heap_live (heap_zero_bytes p n s) = heap_live s"
  by (rule heap_inv_same; simp add: heap_zero_bytes_def)+

definition kmalloc_fits :: "u32 \<Rightarrow> bool" where
  "kmalloc_fits n \<longleftrightarrow> unat n \<le> 0xFFFFFFF0"

text \<open>
  The products for which \<^verbatim>\<open>kcalloc\<close> keeps its contract: at most 0xFFFFFFF0, or refused because they do not
  fit 32 bits. The fifteen products between are excluded: they pass the overflow test and then wrap when
  \<^verbatim>\<open>kmalloc\<close> rounds them up.
\<close>

definition kcalloc_fits :: "u32 \<times> u32 \<Rightarrow> bool" where
  "kcalloc_fits r \<longleftrightarrow> unat (fst r) * unat (snd r) \<le> 0xFFFFFFF0 \<or> 0xFFFFFFFF < unat (fst r) * unat (snd r)"

lemma heap_live_Some:
  assumes "heap_inv s"
  shows "heap_live s p = Some n \<longleftrightarrow> (\<exists>q. unat p = q + 32 \<and> (q, n, False) \<in> set (heap_blocks s))"
  unfolding heap_live_def by (rule live_of_Some [OF heap_inv_tiled [OF assms]])

lemma heap_live_not_free:
  assumes "heap_inv s" "(a, k, True) \<in> set (heap_blocks s)" "unat p = a + 32"
  shows "heap_live s p = None"
proof (rule ccontr)
  assume "heap_live s p \<noteq> None"
  then obtain n where "(a, n, False) \<in> set (heap_blocks s)"
    using heap_live_Some [OF assms(1), of p] assms(3) by auto
  with tiled_disjoint [OF heap_inv_tiled [OF assms(1)] this assms(2)] show False by auto
qed

lemma kmalloc_contract:
  assumes inv: "heap_inv s" and n: "kmalloc_fits n"
  shows "\<exists>p s'. kmalloc n s = Some (p, s') \<and> heap_inv s' \<and> heap_frame s s' \<and>
    (if p = 0 then heap_live s' = heap_live s
     else heap_live s p = None \<and> (\<exists>k\<ge>unat n. heap_live s' = (heap_live s)(p \<mapsto> k)))"
proof (cases "n = 0")
  case True
  then show ?thesis using inv by (simp add: kmalloc_def)
next
  case False
  let ?k = "round16 (unat n)"
  have k: "?k = unat (heap_align_up n 16)" using n by (simp add: unat_heap_align_up kmalloc_fits_def)
  note r = kmalloc_refines [OF inv False k]
  show ?thesis
  proof (cases "spec_alloc ?k (heap_blocks s)")
    case None
    then show ?thesis using r inv by simp
  next
    case (Some ab)
    then obtain a bs p s' where sp: "spec_alloc ?k (heap_blocks s) = Some (a, bs)"
      and k: "kmalloc n s = Some (p, s')" and p: "unat p = a + 32" and fr: "heap_frame s s'"
      and i: "heap_inv s'" and b: "heap_blocks s' = bs"
      using r by (cases ab) auto
    from live_of_alloc [OF heap_inv_tiled [OF inv] sp] obtain m j where
      m: "m \<ge> ?k" "live_of bs = (live_of (heap_blocks s))(a + 32 \<mapsto> m)"
      and j: "(a, j, True) \<in> set (heap_blocks s)" by blast
    have "heap_live s' = (heap_live s)(p \<mapsto> m)"
      using m(2) p by (auto simp: heap_live_def b fun_eq_iff word_unat_eq_iff)
    moreover have "m \<ge> unat n" using m(1) round16_ge [of "unat n"] by linarith
    moreover have "p \<noteq> 0" using p by auto
    ultimately show ?thesis using k i fr heap_live_not_free [OF inv j p] by auto
  qed
qed

definition heap_region :: "'a heap_globals_scheme \<Rightarrow> u32 \<times> u32" where
  "heap_region s = (heap_start_ptr s, heap_end_ptr s)"

lemma heap_region_simps [simp]:
  "heap_region (heap_note_error f m s) = heap_region s"
  "heap_region (heap_zero_bytes p n s) = heap_region s"
  "heap_frame s s' \<Longrightarrow> heap_region s' = heap_region s"
  by (simp_all add: heap_region_def heap_note_error_def heap_zero_bytes_def heap_frameD)

lemma kfree_contract:
  assumes inv: "heap_inv s"
  shows "\<exists>s'. kfree p s = Some s' \<and> heap_inv s' \<and> heap_region s' = heap_region s \<and> mem s' = mem s \<and>
    heap_live s' = (heap_live s)(p := None)"
proof -
  have z: "heap_live s 0 = None" using heap_live_Some [OF inv, of 0] by (cases "heap_live s 0") auto
  consider "p = 0" | "p \<noteq> 0" "\<And>a n f. (a, n, f) \<in> set (heap_blocks s) \<Longrightarrow> unat p \<noteq> a + 32"
    | a n where "(a, n, True) \<in> set (heap_blocks s)" "unat p = a + 32"
    | a n where "(a, n, False) \<in> set (heap_blocks s)" "unat p = a + 32"
    by (metis (full_types))
  then show ?thesis
  proof cases
    case 1
    then show ?thesis using inv z by (simp add: kfree_def fun_upd_idem)
  next
    case 2
    then have "heap_live s p = None"
      using heap_live_Some [OF inv, of p] by (metis not_None_eq)
    then show ?thesis using kfree_invalid [OF inv 2(1)] 2(2) inv by (simp add: fun_upd_idem)
  next
    case 3
    then show ?thesis
      using kfree_double [OF inv] heap_live_not_free [OF inv] inv by (simp add: fun_upd_idem)
  next
    case 4
    then obtain s' where s': "kfree p s = Some s'" "heap_inv s'"
      "heap_blocks s' = spec_free a (heap_blocks s)" "heap_frame s s'"
      using kfree_refines [OF inv] by blast
    moreover have "heap_live s' = (heap_live s)(p := None)"
      using 4(2) by (auto simp: heap_live_def s'(3) live_of_free fun_eq_iff word_unat_eq_iff)
    ultimately show ?thesis using heap_frameD(5) heap_region_simps(3) by blast
  qed
qed

lemma heap_live_disjoint:
  assumes inv: "heap_inv s" and l: "heap_live s p = Some k" "heap_live s q = Some m" "p \<noteq> q"
  shows "unat p + k + 32 \<le> unat q \<or> unat q + m + 32 \<le> unat p"
proof -
  obtain a b where a: "unat p = a + 32" "(a, k, False) \<in> set (heap_blocks s)"
    and b: "unat q = b + 32" "(b, m, False) \<in> set (heap_blocks s)"
    using l heap_live_Some [OF inv] by auto
  moreover have "a \<noteq> b" using a(1) b(1) l(3) by (auto simp: word_unat_eq_iff)
  ultimately show ?thesis using tiled_disjoint [OF heap_inv_tiled [OF inv] a(2) b(2)] by auto
qed

lemma heap_live_null: "heap_inv s \<Longrightarrow> heap_live s 0 = None"
  using heap_live_Some [of s 0] by (cases "heap_live s 0") auto

text \<open>The region \<open>r\<close> of the heap never moves, so it is part of the invariant of a run.\<close>

interpretation kheap: allocator kmalloc kfree "\<lambda>s. heap_inv s \<and> heap_region s = r" heap_live 0 unat
  kmalloc_fits unat
  for r
proof
  show "\<exists>p s'. kmalloc n s = Some (p, s') \<and> (heap_inv s' \<and> heap_region s' = r) \<and>
      (if p = 0 then heap_live s' = heap_live s
       else heap_live s p = None \<and> (\<exists>k\<ge>unat n. heap_live s' = (heap_live s)(p \<mapsto> k)))"
    if ir: "heap_inv s \<and> heap_region s = r" and fit: "kmalloc_fits n"
    for n and s :: "'a heap_globals_scheme"
  proof -
    obtain p s' where k: "kmalloc n s = Some (p, s')" "heap_inv s'" "heap_frame s s'"
      "if p = 0 then heap_live s' = heap_live s
       else heap_live s p = None \<and> (\<exists>k\<ge>unat n. heap_live s' = (heap_live s)(p \<mapsto> k))"
      using kmalloc_contract [of s n] ir fit by blast
    moreover have "heap_region s' = r" using heap_region_simps(3) [OF k(3)] ir by simp
    ultimately show ?thesis by blast
  qed
  show "\<exists>s'. kfree p s = Some s' \<and> (heap_inv s' \<and> heap_region s' = r) \<and>
      heap_live s' = (heap_live s)(p := None)"
    if "heap_inv s \<and> heap_region s = r" for p and s :: "'a heap_globals_scheme"
    using kfree_contract [of s p] that by blast
  show "unat p + k \<le> unat q \<or> unat q + m \<le> unat p"
    if "heap_inv s \<and> heap_region s = r" "heap_live s p = Some k" "heap_live s q = Some m" "p \<noteq> q"
    for p k q m and s :: "'a heap_globals_scheme"
    using heap_live_disjoint [of s p k q m] that by linarith
qed (auto intro: heap_live_null)

text \<open>\<^verbatim>\<open>kcalloc\<close> refuses a product that does not fit 32 bits and otherwise is \<^verbatim>\<open>kmalloc\<close> and a clear.\<close>

lemma kcalloc_overflow_iff:
  assumes "count \<noteq> 0" "n \<noteq> 0"
  shows "count > (- 1 :: u32) div n \<longleftrightarrow> 0xFFFFFFFF < unat count * unat n"
proof -
  have "unat (- 1 :: u32) = 4294967295" by (simp add: unsigned_minus_1_eq_mask mask_eq_exp_minus_1)
  then have "count > (- 1) div n \<longleftrightarrow> 4294967295 div unat n < unat count"
    by (simp add: word_less_nat_alt unat_div)
  also have "\<dots> \<longleftrightarrow> 4294967295 < unat count * unat n"
    using assms(2) by (simp add: div_less_iff_less_mult unat_gt_0)
  finally show ?thesis by simp
qed

lemma kcalloc_contract:
  assumes inv: "heap_inv s" and n: "kcalloc_fits (count, n)"
  shows "\<exists>p s'. kcalloc count n s = Some (p, s') \<and> heap_inv s' \<and> heap_region s' = heap_region s \<and>
    heap_globals.more s' = heap_globals.more s \<and>
    (if p = 0 then heap_live s' = heap_live s
     else heap_live s p = None \<and> (\<exists>k\<ge>unat count * unat n. heap_live s' = (heap_live s)(p \<mapsto> k)))"
proof (cases "count = 0 \<or> n = 0 \<or> 0xFFFFFFFF < unat count * unat n")
  case True
  then have "kcalloc count n s = Some (0, s)"
    using kcalloc_overflow_iff [of count n] by (auto simp: kcalloc_def)
  then show ?thesis using inv by simp
next
  case False
  then have u: "unat (count * n) = unat count * unat n" by (simp add: unat_word_ariths)
  then have "kmalloc_fits (count * n)" using n False by (simp add: kmalloc_fits_def kcalloc_fits_def)
  from kmalloc_contract [OF inv this] obtain p s' where k: "kmalloc (count * n) s = Some (p, s')" "heap_inv s'"
    "heap_region s' = heap_region s" "if p = 0 then heap_live s' = heap_live s
     else heap_live s p = None \<and> (\<exists>k\<ge>unat (count * n). heap_live s' = (heap_live s)(p \<mapsto> k))"
    "heap_globals.more s' = heap_globals.more s"
    using heap_region_simps(3) heap_frameD(8) by blast
  have "heap_globals.more (heap_zero_bytes p (count * n) s') = heap_globals.more s'"
    by (simp add: heap_zero_bytes_def)
  moreover have "kcalloc count n s = Some (p, if p = 0 then s' else heap_zero_bytes p (count * n) s')"
    using False k(1) kcalloc_overflow_iff [of count n] by (auto simp: kcalloc_def)
  ultimately show ?thesis using k(2-5) u by auto
qed

text \<open>The release of a block in use touches nothing but the heap.\<close>

lemma kfree_live_ptr:
  assumes "heap_inv s" "heap_live s p = Some k"
  shows "\<exists>s'. kfree p s = Some s' \<and> heap_frame s s' \<and> heap_inv s' \<and> heap_live s' = (heap_live s)(p := None)"
proof -
  obtain a where "unat p = a + 32" "(a, k, False) \<in> set (heap_blocks s)"
    using heap_live_Some [OF assms(1)] assms(2) by blast
  then obtain s' where "kfree p s = Some s'" "heap_frame s s'" using kfree_refines [OF assms(1)] by blast
  then show ?thesis using kfree_contract [OF assms(1), of p] by auto
qed

interpretation kcheap: allocator "case_prod kcalloc" kfree "\<lambda>s. heap_inv s \<and> heap_region s = r"
  heap_live 0 unat kcalloc_fits "\<lambda>q. unat (fst q) * unat (snd q)"
  for r
proof
  show "\<exists>p s'. (case q of (c, n) \<Rightarrow> kcalloc c n) s = Some (p, s') \<and> (heap_inv s' \<and> heap_region s' = r) \<and>
      (if p = 0 then heap_live s' = heap_live s else heap_live s p = None \<and>
        (\<exists>k\<ge>unat (fst q) * unat (snd q). heap_live s' = (heap_live s)(p \<mapsto> k)))"
    if "heap_inv s \<and> heap_region s = r" "kcalloc_fits q" for q and s :: "'a heap_globals_scheme"
  proof -
    obtain c n where q: "q = (c, n)" by (cases q)
    have h: "heap_inv s" "heap_region s = r" "kcalloc_fits (c, n)" using that q by simp_all
    obtain p s' where "kcalloc c n s = Some (p, s')" "heap_inv s'" "heap_region s' = heap_region s"
      "if p = 0 then heap_live s' = heap_live s else heap_live s p = None \<and>
        (\<exists>k\<ge>unat c * unat n. heap_live s' = (heap_live s)(p \<mapsto> k))"
      using kcalloc_contract [OF h(1,3)] by blast
    then show ?thesis using h(2) by (intro exI [of _ p] exI [of _ s']) (simp add: q)
  qed
  show "\<exists>s'. kfree p s = Some s' \<and> (heap_inv s' \<and> heap_region s' = r) \<and>
      heap_live s' = (heap_live s)(p := None)"
    if "heap_inv s \<and> heap_region s = r" for p and s :: "'a heap_globals_scheme"
    using kfree_contract [of s p] that by blast
  show "unat p + k \<le> unat q \<or> unat q + m \<le> unat p"
    if "heap_inv s \<and> heap_region s = r" "heap_live s p = Some k" "heap_live s q = Some m" "p \<noteq> q"
    for p k q m and s :: "'a heap_globals_scheme"
    using kheap.live_disjoint [OF that] .
qed (auto intro: heap_live_null)

section \<open>The live blocks determine the heap\<close>

text \<open>
  Two block lists over the same region with the same blocks in use and no two free neighbours are
  the same list: what is free is one block per gap.
\<close>

definition used_in :: "hblock list \<Rightarrow> (nat \<times> nat) set" where
  "used_in bs = {(a, n). (a, n, False) \<in> set bs}"

lemma used_in_live:
  assumes "tiled a bs e" "tiled a bs' e" "\<And>p. live_of bs p = live_of bs' p"
  shows "used_in bs = used_in bs'"
proof -
  have "(q, n, False) \<in> set bs \<longleftrightarrow> (q, n, False) \<in> set bs'" for q n
    using live_of_Some [OF assms(1), of "q + 32" n] live_of_Some [OF assms(2), of "q + 32" n] assms(3)
    by simp
  then show ?thesis by (simp add: used_in_def)
qed

lemma free_head_le:
  assumes t: "tiled a ((a, n, True) # bs) e" "tiled a ((a, n', True) # bs') e"
    and na: "no_adj ((a, n, True) # bs)" and u: "used_in ((a, n, True) # bs) = used_in ((a, n', True) # bs')"
  shows "n' \<le> n"
proof (rule ccontr)
  assume lt: "\<not> n' \<le> n"
  have "a + 32 + n' \<le> e" using tiled_bounds [OF t(2), of a n' True] by simp
  then obtain c m g cs where bs: "bs = (c, m, g) # cs" using t(1) lt by (cases bs) auto
  then have c: "c = a + 32 + n" "\<not> g" using t(1) na by auto
  then have "(c, m) \<in> used_in ((a, n', True) # bs')" unfolding u [symmetric] bs by (simp add: used_in_def)
  then have "(c, m, False) \<in> set bs'" by (auto simp: used_in_def)
  moreover have "tiled (a + 32 + n') bs' e" using t(2) by simp
  ultimately show False using tiled_bounds [of "a + 32 + n'" bs' e c m False] c lt by simp
qed

lemma tiled_unique:
  "tiled a bs e \<Longrightarrow> tiled a bs' e \<Longrightarrow> no_adj bs \<Longrightarrow> no_adj bs' \<Longrightarrow> used_in bs = used_in bs' \<Longrightarrow> bs = bs'"
proof (induction bs arbitrary: a bs')
  case Nil
  then show ?case using tiled_bounds [of a bs' e] by (cases bs') fastforce+
next
  case (Cons b bs)
  obtain n f where b: "b = (a, n, f)" using Cons.prems(1) by (cases b) auto
  have "a + 32 \<le> e" using tiled_bounds [OF Cons.prems(1), of a n f] b by simp
  then obtain n' f' cs where b': "bs' = (a, n', f') # cs"
    using Cons.prems(2) by (cases bs') auto
  have t: "tiled (a + 32 + n) bs e" "tiled (a + 32 + n') cs e" using Cons.prems(1,2) b b' by auto
  have out: "(a, m, g) \<notin> set bs" "(a, m, g) \<notin> set cs" for m g
    using tiled_bounds [OF t(1), of a m g] tiled_bounds [OF t(2), of a m g] by auto
  have u: "used_in ((a, n, f) # bs) = used_in ((a, n', f') # cs)" using Cons.prems(5) b b' by simp
  have "f = f' \<and> n = n'"
  proof (cases "f \<and> f'")
    case True
    then show ?thesis
      using free_head_le [of a n bs e n' cs] free_head_le [of a n' cs e n bs] Cons.prems u
      by (auto simp: b b')
  next
    case False
    then have "(a, n) \<in> used_in ((a, n, f) # bs) \<or> (a, n') \<in> used_in ((a, n', f') # cs)"
      by (auto simp: used_in_def)
    then have "(a, n) \<in> used_in ((a, n, f) # bs) \<and> (a, n) \<in> used_in ((a, n', f') # cs) \<or>
        (a, n') \<in> used_in ((a, n, f) # bs) \<and> (a, n') \<in> used_in ((a, n', f') # cs)"
      unfolding u by simp
    then show ?thesis using out unfolding used_in_def by auto
  qed
  moreover have "used_in bs = used_in cs"
    using u calculation out unfolding used_in_def set_eq_iff by (auto split: if_splits) metis+
  moreover have "no_adj bs" "no_adj cs" using Cons.prems(3,4) b' no_adj_ConsD by blast+
  ultimately show ?case using Cons.IH t b b' by simp
qed

lemma heap_blocks_unique:
  assumes "heap_inv s" "heap_inv s'" "heap_live s' = heap_live s"
    and "heap_region s' = heap_region s"
  shows "heap_blocks s' = heap_blocks s"
proof -
  have r: "heap_start_ptr s' = heap_start_ptr s" "heap_end_ptr s' = heap_end_ptr s"
    using assms(4) by (simp_all add: heap_region_def)
  note t = heap_inv_tiled [OF assms(1)] heap_inv_tiled [OF assms(2), unfolded r]
  have "(q, n, False) \<in> set (heap_blocks s) \<longleftrightarrow> (q, n, False) \<in> set (heap_blocks s')" for q n
  proof (cases "q + 32 < 4294967296")
    case True
    have "unat (word_of_nat m :: u32) = m" if "m < 4294967296" for m
      using that by (simp add: unat_of_nat)
    with True obtain p :: u32 where "unat p = q + 32" by metis
    then show ?thesis
      using heap_live_Some [OF assms(1), of p n] heap_live_Some [OF assms(2), of p n] assms(3) by simp
  next
    case False
    then show ?thesis
      using tiled_bounds [OF t(1), of q n False] tiled_bounds [OF t(2), of q n False]
        u32_less [of "heap_end_ptr s"] by linarith
  qed
  then have "used_in (heap_blocks s') = used_in (heap_blocks s)" by (auto simp: used_in_def)
  moreover have "no_adj (heap_blocks s)" "no_adj (heap_blocks s')"
    using assms(1,2) by (auto simp: heap_inv_def heap_ok_no_adj heap_blocks_def)
  ultimately show ?thesis using tiled_unique t by metis
qed

end
