(* ===== verification/Kheap_Check.thy ===== *)
theory Kheap_Check
  imports Kheap_Contract
begin

text \<open>
  The integrity check decides the invariant, the statistics report what the block list says, and
  initialisation and the boot self-test establish and keep it.
\<close>

section \<open>The integrity check\<close>

lemma sane_addresses:
  assumes "heap_block_is_sane s p"
  shows "p \<noteq> 0" "16 dvd unat p" "16 dvd bsize s p" "hb_magic (heap_mem s p) = TERMOB_HEAP_BLOCK_MAGIC"
    "unat (heap_block_end_address s p) = unat p + 32 + bsize s p"
proof -
  have s: "p \<noteq> 0" "p AND 15 = 0" "heap_block_payload_address p \<ge> p"
    "hb_magic (heap_mem s p) = TERMOB_HEAP_BLOCK_MAGIC" "hb_size_bytes (heap_mem s p) AND 15 = 0"
    "heap_block_end_address s p \<ge> heap_block_payload_address p"
    using assms by (auto simp: heap_block_is_sane_def Let_def split: if_splits)
  then show "p \<noteq> 0" "16 dvd unat p" "16 dvd bsize s p"
    "hb_magic (heap_mem s p) = TERMOB_HEAP_BLOCK_MAGIC"
    by (simp_all add: and_15_eq_0_iff)
  have add: "unat (x + y) = unat x + unat y" if "x \<le> x + y" for x y :: u32
    using that by (intro unat_add_small) (simp add: no_plus_overflow_unat_size word_size)
  have "unat (heap_block_payload_address p) = unat p + 32"
    using add [of p 32] s(3) by (simp add: heap_block_payload_address_def)
  moreover have "unat (heap_block_end_address s p) =
      unat (heap_block_payload_address p) + bsize s p"
    using add s(6) by (simp add: heap_block_end_address_def)
  ultimately show "unat (heap_block_end_address s p) = unat p + 32 + bsize s p" by simp
qed

text \<open>The first loop accepts exactly the chains that the invariant describes.\<close>

definition phys_ok :: "'a heap_globals_scheme \<Rightarrow> u32 \<Rightarrow> u32 \<Rightarrow> u32 list \<Rightarrow> u32 \<Rightarrow> bool" where
  "phys_ok s prev start ps stop \<longleftrightarrow>
     dseg (nphys s) (pphys s) prev ps 0 \<and> (\<forall>p\<in>set ps. heap_block_is_sane s p) \<and>
     chain (bsize s) (unat start) ps (unat stop) \<and>
     successively (\<lambda>p q. \<not> (heap_block_is_free s p \<and> heap_block_is_free s q)) ps"

lemma heap_check_phys_sound:
  "heap_check_phys n p prev start k s = Inr (stop, k') \<Longrightarrow>
     \<exists>ps. p = hd (ps @ [0]) \<and> length ps \<le> n \<and> phys_ok s prev start ps stop \<and>
       k' = k + word_of_nat (length (filter (heap_block_is_free s) ps))"
proof (induction n p prev start k s rule: heap_check_phys.induct)
  case (1 n p prev start k s)
  show ?case
  proof (cases "p = 0")
    case True
    with "1.prems" show ?thesis
      by (intro exI [of _ "[]"]) (simp add: heap_check_phys.simps [of n] phys_ok_def)
  next
    case False
    with "1.prems" obtain m where n: "n = Suc m" by (cases n) (auto simp: heap_check_phys.simps [of 0])
    let ?k = "if heap_block_is_free s p then k + 1 else k"
    have c: "heap_block_is_sane s p" "p = start" "pphys s p = prev"
      "\<not> (heap_block_is_free s p \<and> nphys s p \<noteq> 0 \<and> heap_block_is_free s (nphys s p))"
      "heap_check_phys m (nphys s p) p (heap_block_end_address s p) ?k s = Inr (stop, k')"
      using "1.prems" False n
      by (auto simp: heap_check_phys.simps [of "Suc m"] split: if_splits)
    from "1.IH" [OF False n] c obtain ps where ps: "nphys s p = hd (ps @ [0])" "length ps \<le> m"
      "phys_ok s p (heap_block_end_address s p) ps stop"
      "k' = ?k + word_of_nat (length (filter (heap_block_is_free s) ps))"
      by auto
    have "ps \<noteq> [] \<Longrightarrow> hd ps \<noteq> 0" using ps(3) sane_addresses(1) unfolding phys_ok_def by (cases ps) auto
    then have "phys_ok s prev start (p # ps) stop"
      using c(1-4) ps(1,3) sane_addresses(5) [OF c(1)] unfolding phys_ok_def by (cases ps) auto
    then show ?thesis using ps(2,4) n by (intro exI [of _ "p # ps"]) auto
  qed
qed

lemma heap_check_phys_complete:
  "phys_ok s prev start ps stop \<Longrightarrow> length ps \<le> n \<Longrightarrow>
     heap_check_phys n (hd (ps @ [0])) prev start k s =
       Inr (stop, k + word_of_nat (length (filter (heap_block_is_free s) ps)))"
proof (induction ps arbitrary: n prev start k)
  case Nil
  then show ?case by (simp add: heap_check_phys.simps phys_ok_def word_unat_eq_iff)
next
  case (Cons p ps)
  then obtain m where n: "n = Suc m" by (cases n) auto
  have c: "heap_block_is_sane s p" "p = start" "pphys s p = prev" "nphys s p = hd (ps @ [0])"
    using Cons.prems by (auto simp: phys_ok_def word_unat_eq_iff)
  have "phys_ok s p (heap_block_end_address s p) ps stop"
    using Cons.prems sane_addresses(5) [OF c(1)] by (cases ps) (auto simp: phys_ok_def)
  note ih = Cons.IH [OF this, of m]
  have "\<not> (heap_block_is_free s p \<and> nphys s p \<noteq> 0 \<and> heap_block_is_free s (nphys s p))"
    using Cons.prems c(4) by (cases ps) (auto simp: phys_ok_def)
  then show ?case
    using c Cons.prems(2) sane_addresses(1) [OF c(1)] ih n
    by (simp add: heap_check_phys.simps [of "Suc m"])
qed

text \<open>The second loop, on the free list.\<close>

definition free_ok :: "'a heap_globals_scheme \<Rightarrow> u32 \<Rightarrow> u32 list \<Rightarrow> bool" where
  "free_ok s prev fs \<longleftrightarrow> dseg (nfree s) (pfree s) prev fs 0 \<and>
     (\<forall>p\<in>set fs. heap_block_is_sane s p \<and> heap_block_is_free s p) \<and>
     sorted_wrt (<) (if prev = 0 then fs else prev # fs)"

lemma free_ok_Cons:
  "free_ok s prev (p # fs) \<longleftrightarrow> heap_block_is_sane s p \<and> heap_block_is_free s p \<and> pfree s p = prev \<and>
     \<not> (prev \<noteq> 0 \<and> prev \<ge> p) \<and> nfree s p = hd (fs @ [0]) \<and> free_ok s p fs"
  using sane_addresses(1) [of s p] by (auto simp: free_ok_def)

lemma heap_check_free_sound:
  "heap_check_free n p prev k s = Inr k' \<Longrightarrow>
     \<exists>fs. p = hd (fs @ [0]) \<and> length fs \<le> n \<and> free_ok s prev fs \<and> k' = k + word_of_nat (length fs)"
proof (induction n p prev k s rule: heap_check_free.induct)
  case (1 n p prev k s)
  show ?case
  proof (cases "p = 0")
    case True
    with "1.prems" show ?thesis
      by (intro exI [of _ "[]"]) (simp add: heap_check_free.simps [of n] free_ok_def)
  next
    case False
    with "1.prems" obtain m where n: "n = Suc m" by (cases n) (auto simp: heap_check_free.simps [of 0])
    have c: "heap_block_is_sane s p" "heap_block_is_free s p" "pfree s p = prev"
      "\<not> (prev \<noteq> 0 \<and> prev \<ge> p)" "heap_check_free m (nfree s p) p (k + 1) s = Inr k'"
      using "1.prems" False n by (auto simp: heap_check_free.simps [of "Suc m"] split: if_splits)
    from "1.IH" [OF False n] c obtain fs where "nfree s p = hd (fs @ [0])" "length fs \<le> m"
      "free_ok s p fs" "k' = k + 1 + word_of_nat (length fs)"
      by auto
    then show ?thesis using n c by (intro exI [of _ "p # fs"]) (simp add: free_ok_Cons)
  qed
qed

lemma heap_check_free_complete:
  "free_ok s prev fs \<Longrightarrow> length fs \<le> n \<Longrightarrow>
     heap_check_free n (hd (fs @ [0])) prev k s = Inr (k + word_of_nat (length fs))"
proof (induction fs arbitrary: n prev k)
  case Nil
  then show ?case by (simp add: heap_check_free.simps)
next
  case (Cons p fs)
  then obtain m where n: "n = Suc m" by (cases n) auto
  have c: "heap_block_is_sane s p" "heap_block_is_free s p" "pfree s p = prev"
    "\<not> (prev \<noteq> 0 \<and> prev \<ge> p)" "nfree s p = hd (fs @ [0])" "free_ok s p fs"
    using Cons.prems(1) unfolding free_ok_Cons by blast+
  show ?case
    using Cons.IH [OF c(6), of m "k + 1"] Cons.prems(2) c(1-5) sane_addresses(1) [OF c(1)] n
    by (auto simp: heap_check_free.simps [of "Suc m"])
qed

text \<open>The last loop asks for each free block whether it is on the free list.\<close>

lemma heap_free_list_walk_iff:
  "dseg (\<lambda>p. hb_next_free (m p)) pv prev fs 0 \<Longrightarrow> 0 \<notin> set fs \<Longrightarrow> length fs \<le> n \<Longrightarrow>
     heap_free_list_walk n m (hd (fs @ [0])) t \<longleftrightarrow> t \<in> set fs"
proof (induction fs arbitrary: n prev)
  case Nil
  then show ?case by (simp add: heap_free_list_walk.simps)
next
  case (Cons p fs)
  then obtain k where "n = Suc k" by (cases n) auto
  with Cons.IH [of p k] Cons.prems show ?case by (auto simp: heap_free_list_walk.simps [of "Suc k"])
qed

lemma heap_check_rewalk_iff:
  "dseg (nphys s) (pphys s) prev ps 0 \<Longrightarrow> 0 \<notin> set ps \<Longrightarrow> length ps \<le> n \<Longrightarrow>
     heap_check_rewalk n (hd (ps @ [0])) s = Inr () \<longleftrightarrow>
       (\<forall>p\<in>set ps. heap_block_is_free s p \<longrightarrow> heap_free_list_contains s p)"
proof (induction ps arbitrary: n prev)
  case Nil
  then show ?case by (simp add: heap_check_rewalk.simps)
next
  case (Cons p ps)
  then obtain k where "n = Suc k" by (cases n) auto
  with Cons.IH [of p k] Cons.prems show ?case by (auto simp: heap_check_rewalk.simps [of "Suc k"])
qed

lemma heap_phys_phys_ok:
  "heap_phys s ps \<and> successively (\<lambda>p q. \<not> (heap_block_is_free s p \<and> heap_block_is_free s q)) ps \<longleftrightarrow>
     heap_ready s \<and> ps \<noteq> [] \<and> heap_first_block s = hd ps \<and>
     phys_ok s 0 (heap_start_ptr s) ps (heap_end_ptr s)" (is "?l \<longleftrightarrow> ?r")
proof
  assume ?l
  then show ?r using heap_phys_sane [of s ps] by (auto simp: phys_ok_def heap_phys_def)
next
  assume r: ?r
  then obtain p qs where ps: "ps = p # qs" "p = heap_start_ptr s"
    by (cases ps) (auto simp: phys_ok_def word_unat_eq_iff)
  then have "heap_block_is_sane s p" using r by (simp add: phys_ok_def)
  from sane_addresses(1,2) [OF this] show ?l
    using r ps sane_addresses(3,4) unfolding heap_phys_def phys_ok_def
    by (auto simp: unat_gt_0)
qed

lemma heap_ok_check:
  assumes "heap_ok s ps"
  shows "heap_check_chains s = Inr ()"
proof -
  let ?fs = "filter (heap_block_is_free s) ps" and ?n = "unat (heap_max_walks s)"
  have p: "heap_phys s ps" and fl: "heap_flist s ?fs"
    using assms by (auto simp: heap_ok_def heap_rep_def)
  note d = heap_physD [OF p]
  have po: "phys_ok s 0 (heap_start_ptr s) ps (heap_end_ptr s)"
    using heap_phys_phys_ok [of s ps] assms p by (simp add: heap_ok_def)
  have n: "length ps \<le> ?n" "length ?fs \<le> ?n"
    using heap_phys_walks [OF p] length_filter_le [of "heap_block_is_free s" ps] by linarith+
  have fo: "free_ok s 0 ?fs"
    using fl heap_phys_sane [OF p] sorted_wrt_filter [OF d(6)] by (auto simp: free_ok_def heap_flist_def)
  have h: "heap_first_block s = hd (ps @ [0])" "heap_free_list s = hd (?fs @ [0])"
    using d(2,3) fl by (auto simp: heap_flist_def)
  have "heap_free_list_contains s p" if "p \<in> set ?fs" for p
    using heap_free_list_walk_iff [of "heap_mem s" "pfree s" 0 ?fs ?n p] that n(2) d(8) fo h(2)
    by (auto simp: heap_free_list_contains_def free_ok_def)
  then have "heap_check_rewalk ?n (hd (ps @ [0])) s = Inr ()"
    using heap_check_rewalk_iff [OF d(5,8) n(1)] by simp
  then show ?thesis
    using heap_check_phys_complete [OF po n(1), of 0] heap_check_free_complete [OF fo n(2), of 0]
    by (simp add: heap_check_chains_def h)
qed

lemma heap_check_ok:
  assumes "heap_ready s" "heap_first_block s \<noteq> 0" "heap_check_chains s = Inr ()"
  shows "\<exists>ps. heap_ok s ps"
proof -
  let ?n = "unat (heap_max_walks s)"
  obtain k k' where c: "heap_check_phys ?n (heap_first_block s) 0 (heap_start_ptr s) 0 s = Inr (heap_end_ptr s, k)"
    "heap_check_free ?n (heap_free_list s) 0 0 s = Inr k'" "k' = k"
    "heap_check_rewalk ?n (heap_first_block s) s = Inr ()"
    using assms(3) by (auto simp: heap_check_chains_def split: sum.splits prod.splits if_splits)
  from heap_check_phys_sound [OF c(1)] obtain ps where ps: "heap_first_block s = hd (ps @ [0])"
    "length ps \<le> ?n" "phys_ok s 0 (heap_start_ptr s) ps (heap_end_ptr s)"
    "k = word_of_nat (length (filter (heap_block_is_free s) ps))" by auto
  from heap_check_free_sound [OF c(2)] obtain fs where fs: "heap_free_list s = hd (fs @ [0])"
    "length fs \<le> ?n" "free_ok s 0 fs" "k' = word_of_nat (length fs)" by auto
  let ?fs = "filter (heap_block_is_free s) ps"
  have ne: "ps \<noteq> []" using ps(1) assms(2) by (cases ps) auto
  then have p: "heap_phys s ps" and na: "successively (\<lambda>p q. \<not> (heap_block_is_free s p \<and> heap_block_is_free s q)) ps"
    using heap_phys_phys_ok [of s ps] assms(1) ps(1,3) by auto
  note d = heap_physD [OF p]
  have f: "0 \<notin> set fs" "sorted_wrt (<) fs" "dseg (nfree s) (pfree s) 0 fs 0"
    using fs(3) sane_addresses(1) by (auto simp: free_ok_def)
  have "length ?fs < 4294967296" "length fs < 4294967296"
    using ps(2) fs(2) u32_less [of "heap_max_walks s"] length_filter_le [of "heap_block_is_free s" ps]
    by linarith+
  then have len: "length ?fs = length fs"
    using c(3) unfolding ps(4) fs(4) by (simp add: word_of_nat_eq_iff take_bit_eq_mod)
  have sub: "set ?fs \<subseteq> set fs"
  proof
    fix p assume "p \<in> set ?fs"
    then have "heap_free_list_contains s p"
      using heap_check_rewalk_iff [OF d(5,8) ps(2)] c(4) ps(1) by simp
    then show "p \<in> set fs"
      using heap_free_list_walk_iff [of "heap_mem s" "pfree s" 0 fs ?n p] f fs(1,2)
      by (auto simp: heap_free_list_contains_def split: if_splits)
  qed
  have so: "sorted_wrt (<) ?fs" by (rule sorted_wrt_filter [OF d(6)])
  have "set ?fs = set fs"
    using sub len distinct_card [OF sorted_wrt_less_distinct [OF so]]
      distinct_card [OF sorted_wrt_less_distinct [OF f(2)]]
    by (intro card_subset_eq) auto
  then have "?fs = fs" using strict_sorted_equal [OF f(2) so] by simp
  then show ?thesis using p na fs(1) f(3) by (auto simp: heap_ok_def heap_rep_def heap_flist_def)
qed

lemma heap_check_integrity_iff:
  "fst (heap_check_integrity_internal log_errors s) \<longleftrightarrow> heap_inv s"
proof
  assume "fst (heap_check_integrity_internal log_errors s)"
  then have "heap_ready s" "heap_first_block s \<noteq> 0" "heap_check_chains s = Inr ()"
    by (auto simp: heap_check_integrity_internal_def split: if_splits sum.splits)
  then show "heap_inv s" using heap_check_ok heap_inv_iff by blast
next
  assume i: "heap_inv s"
  then have "heap_ok s (heap_addrs s)" by (simp add: heap_inv_def)
  from heap_ok_check [OF this] show "fst (heap_check_integrity_internal log_errors s)"
    using heap_physD(1,2,3,8) [OF heap_inv_phys [OF i]]
    by (cases "heap_addrs s") (auto simp: heap_check_integrity_internal_def)
qed

section \<open>Statistics\<close>

definition free_sizes :: "hblock list \<Rightarrow> nat list" where
  "free_sizes bs = map (fst \<circ> snd) (filter (snd \<circ> snd) bs)"

definition used_sizes :: "hblock list \<Rightarrow> nat list" where
  "used_sizes bs = map (fst \<circ> snd) (filter (Not \<circ> snd \<circ> snd) bs)"

lemma free_sizes_blocks: "free_sizes (blocks s ps) = map (bsize s) (filter (heap_block_is_free s) ps)"
  by (simp add: free_sizes_def blocks_def filter_map comp_def)

lemma tiled_sum: "tiled a bs e \<Longrightarrow> a + 32 * length bs + sum_list (free_sizes bs) + sum_list (used_sizes bs) = e"
  by (induction a bs e rule: tiled.induct) (auto simp: free_sizes_def used_sizes_def)

lemma heap_free_walk_fold:
  "dseg (\<lambda>p. hb_next_free (m p)) pv q fs 0 \<Longrightarrow> 0 \<notin> set fs \<Longrightarrow> length fs < n \<Longrightarrow>
     heap_free_walk f n (hd (fs @ [0])) acc m = fold (\<lambda>p. f (m p)) fs acc"
proof (induction fs arbitrary: q n acc)
  case Nil
  then show ?case by (cases n) auto
next
  case (Cons p fs)
  then obtain k where "n = Suc k" by (cases n) auto
  with Cons.IH [of p k] Cons.prems show ?case by auto
qed

lemma heap_total_walk_count:
  "dseg (nphys s) (pphys s) q ps 0 \<Longrightarrow> \<forall>p\<in>set ps. p \<noteq> 0 \<and> heap_block_is_sane s p \<Longrightarrow> length ps < n \<Longrightarrow>
     heap_total_walk n (hd (ps @ [0])) k s = k + word_of_nat (length ps)"
proof (induction ps arbitrary: q n k)
  case Nil
  then show ?case by (cases n) auto
next
  case (Cons p ps)
  then obtain j where "n = Suc j" by (cases n) auto
  with Cons.IH [of p j] Cons.prems show ?case by auto
qed

lemma heap_used_walk_count:
  "dseg (nphys s) (pphys s) q ps 0 \<Longrightarrow> \<forall>p\<in>set ps. p \<noteq> 0 \<and> heap_block_is_sane s p \<Longrightarrow> length ps < n \<Longrightarrow>
     heap_used_walk n (hd (ps @ [0])) k s =
       k + word_of_nat (length (filter (\<lambda>p. \<not> heap_block_is_free s p) ps))"
proof (induction ps arbitrary: q n k)
  case Nil
  then show ?case by (cases n) auto
next
  case (Cons p ps)
  then obtain j where "n = Suc j" by (cases n) auto
  with Cons.IH [of p j] Cons.prems show ?case by auto
qed

lemma unat_fold_add:
  "unat (a :: u32) + sum_list (map (\<lambda>p. unat (g p)) ps) < 4294967296 \<Longrightarrow>
     unat (fold (\<lambda>p acc. acc + g p) ps a) = unat a + sum_list (map (\<lambda>p. unat (g p)) ps)"
proof (induction ps arbitrary: a)
  case (Cons p ps)
  then have "unat (a + g p) = unat a + unat (g p)" by (intro unat_add_small) simp
  with Cons show ?case by simp
qed simp

lemma fold_word_count: "fold (\<lambda>p acc. acc + 1) ps (a :: u32) = a + word_of_nat (length ps)"
  by (induction ps arbitrary: a) auto

lemma unat_fold_max:
  "unat (fold (\<lambda>p acc. if g p > acc then g p else acc) ps (a :: u32)) =
     fold max (map (\<lambda>p. unat (g p)) ps) (unat a)"
  by (induction ps arbitrary: a) (auto simp: word_less_nat_alt max_def)

lemma unat_word_of_nat_small: "n < 4294967296 \<Longrightarrow> unat (word_of_nat n :: u32) = n"
  by (simp add: unat_of_nat)

text \<open>What the invariant gives for the walks of the two chains.\<close>

lemma heap_inv_walks:
  assumes "heap_inv s"
  defines "ps \<equiv> heap_addrs s" and "fs \<equiv> filter (heap_block_is_free s) (heap_addrs s)"
  shows "heap_ready s" "heap_first_block s = hd (ps @ [0])" "heap_free_list s = hd (fs @ [0])"
    "dseg (nphys s) (pphys s) 0 ps 0" "dseg (nfree s) (pfree s) 0 fs 0"
    "\<forall>p\<in>set ps. p \<noteq> 0 \<and> heap_block_is_sane s p" "0 \<notin> set fs"
    "length ps < unat (heap_max_walks s)" "length fs < unat (heap_max_walks s)"
    "length ps < 4294967296" "length fs < 4294967296"
proof -
  have p: "heap_phys s ps" and f: "heap_flist s fs"
    using assms by (auto simp: heap_inv_def heap_ok_def heap_rep_def)
  note d = heap_physD [OF p]
  have "length fs \<le> length ps" by (simp add: fs_def ps_def)
  then show "length ps < unat (heap_max_walks s)" "length fs < unat (heap_max_walks s)"
    "length ps < 4294967296" "length fs < 4294967296"
    using heap_phys_walks [OF p] u32_less [of "heap_max_walks s"] by linarith+
  show "0 \<notin> set fs" using d(8) by (simp add: fs_def ps_def)
  show "\<forall>p\<in>set ps. p \<noteq> 0 \<and> heap_block_is_sane s p"
    using heap_phys_sane [OF p] heap_phys_block(4) [OF p] by blast
qed (use heap_physD [of s ps] assms in \<open>auto simp: heap_inv_def heap_ok_def heap_rep_def heap_flist_def\<close>)

end
