(* ===== verification/Kheap_Props.thy ===== *)
theory Kheap_Props
  imports Kheap_Check
begin

text \<open>
  Initialisation, clearing of memory and the boot self-test of the kernel heap, and the properties
  of \<^verbatim>\<open>core/heap.c\<close> as a whole.
\<close>

section \<open>Initialisation\<close>

lemma heap_init_ok:
  fixes s :: "'a heap_globals_scheme"
  assumes k: "kernel_end \<noteq> 0" "unat kernel_end + 0x10000F < 4294967296"
  defines "s' \<equiv> heap_init kernel_end s"
  shows "heap_ok s' [heap_align_up kernel_end 16]"
    "blocks s' [heap_align_up kernel_end 16] = [(round16 (unat kernel_end), 0xFFFE0, True)]"
    "unat (heap_start_ptr s') = round16 (unat kernel_end)"
    "unat (heap_end_ptr s') = round16 (unat kernel_end) + 0x100000"
proof -
  let ?a = "heap_align_up kernel_end 16"
  have a: "unat ?a = round16 (unat kernel_end)" using k(2) by (simp add: unat_heap_align_up)
  have "0 < unat kernel_end" using k(1) by (simp add: unat_gt_0)
  then have b: "round16 (unat kernel_end) \<le> unat kernel_end + 15" "0 < round16 (unat kernel_end)"
    unfolding round16_def by (simp_all add: div_greater_zero_iff)
  have e: "unat (?a + 0x100000) = unat ?a + 0x100000" "unat (?a + 32) = unat ?a + 32"
    using a b k(2) by (subst unat_add_small; simp)+
  have i: "heap_align_up ((?a + 0x100000 - ?a) - 32) 16 = 0xFFFE0"
    by (simp add: heap_align_up_def)
  have f: "unat (?a + 32 + 0xFFFE0) = unat ?a + 0x100000"
    using a b k(2) e(2) by (subst unat_add_small) simp_all
  have g: "\<not> ?a + 0x100000 \<le> ?a + 32" "\<not> ?a + 32 + 0xFFFE0 > ?a + 0x100000"
    using e f by (simp_all add: word_le_nat_alt word_less_nat_alt)
  have s': "heap_start_ptr s' = ?a" "heap_end_ptr s' = ?a + 0x100000" "heap_first_block s' = ?a"
    "heap_free_list s' = ?a" "heap_ready s'"
    "heap_mem s' ?a = \<lparr>hb_magic = TERMOB_HEAP_BLOCK_MAGIC, hb_flags = 1, hb_size_bytes = 0xFFFE0,
       hb_prev_phys = 0, hb_next_phys = 0, hb_prev_free = 0, hb_next_free = 0\<rparr>"
    using g unfolding s'_def heap_init_def Let_def i heap_initialize_block_def heap_mark_block_free_def
    by simp_all
  have fr: "heap_block_is_free s' ?a" by (simp add: heap_block_is_free_def s'(6))
  have "0 < unat ?a" "16 dvd unat ?a" using a b(2) by (simp_all add: round16_def)
  then show "heap_ok s' [?a]"
    using e(1) s' fr by (simp add: heap_ok_def heap_rep_def heap_phys_def heap_flist_def)
  show "blocks s' [?a] = [(round16 (unat kernel_end), 0xFFFE0, True)]"
    using a s'(6) fr by (simp add: blocks_def)
  show "unat (heap_start_ptr s') = round16 (unat kernel_end)"
    "unat (heap_end_ptr s') = round16 (unat kernel_end) + 0x100000"
    using a e(1) by (simp_all add: s')
qed

lemma heap_init_inv:
  assumes "kernel_end \<noteq> 0" "unat kernel_end + 0x10000F < 4294967296"
  shows "heap_inv (heap_init kernel_end s)"
    "heap_blocks (heap_init kernel_end s) = [(round16 (unat kernel_end), 0xFFFE0, True)]"
  using heap_ok_inv [OF heap_init_ok(1) [OF assms, of s]] heap_init_ok(2) [OF assms, of s] by auto

lemma heap_init_fields:
  "heap_globals.more (heap_init k s) = heap_globals.more s" "heap_start_ptr (heap_init k s) = heap_align_up k 16"
  "heap_end_ptr (heap_init k s) = heap_align_up k 16 + 0x100000"
  by (simp_all add: heap_init_def Let_def heap_initialize_block_def heap_mark_block_free_def upd_block_def)

section \<open>Clearing memory\<close>

lemma heap_zero_loop_get:
  "unat dst + n \<le> 4294967296 \<Longrightarrow>
     heap_zero_loop n dst m a = (if unat dst \<le> unat a \<and> unat a < unat dst + n then 0 else m a)"
proof (induction n arbitrary: dst m)
  case (Suc n)
  show ?case
  proof (cases "n = 0")
    case True
    then show ?thesis by (auto simp: word_unat_eq_iff)
  next
    case False
    then have "unat (dst + 1) = unat dst + 1"
      using Suc.prems by (subst unat_add_small) simp_all
    then show ?thesis using Suc.IH [of "dst + 1"] Suc.prems by (auto simp: word_unat_eq_iff)
  qed
qed auto

section \<open>The self-test\<close>

lemma heap_check_integrity_pass:
  "heap_inv s \<Longrightarrow> heap_check_integrity_internal l s = (True, s)"
  using heap_check_integrity_iff [of l s]
  by (auto simp: heap_check_integrity_internal_def split: if_splits sum.splits)

lemma heap_bytes_free_blocks:
  assumes "heap_inv s"
  shows "unat (heap_bytes_free s) = sum_list (free_sizes (heap_blocks s))"
proof -
  note w = heap_inv_walks [OF assms]
  let ?fs = "filter (heap_block_is_free s) (heap_addrs s)"
  have f: "free_sizes (heap_blocks s) = map (bsize s) ?fs"
    by (simp add: heap_blocks_def free_sizes_blocks)
  have "sum_list (free_sizes (heap_blocks s)) < 4294967296"
    using tiled_sum [OF heap_inv_tiled [OF assms]] u32_less [of "heap_end_ptr s"] by linarith
  then have "unat (fold (\<lambda>p acc. acc + hb_size_bytes (heap_mem s p)) ?fs 0) =
      unat (0 :: u32) + sum_list (map (bsize s) ?fs)"
    unfolding f by (intro unat_fold_add) simp
  then show ?thesis
    using w(1) heap_free_walk_fold [OF w(5,7,9), of "\<lambda>b acc. acc + hb_size_bytes b" 0]
    by (simp add: heap_bytes_free_def w(3) f)
qed

lemma heap_bytes_free_cong:
  "heap_inv s \<Longrightarrow> heap_inv s' \<Longrightarrow> heap_blocks s' = heap_blocks s \<Longrightarrow> heap_bytes_free s' = heap_bytes_free s"
  using heap_bytes_free_blocks [of s] heap_bytes_free_blocks [of s'] by (simp add: word_unat_eq_iff)

lemma spec_alloc_succeeds:
  "(a, k, True) \<in> set bs \<Longrightarrow> n \<le> k \<Longrightarrow> spec_alloc n bs \<noteq> None"
  by (induction bs) auto

lemma spec_alloc_free: "spec_alloc n bs = Some r \<Longrightarrow> \<exists>a k. (a, k, True) \<in> set bs"
  by (induction bs arbitrary: r) (fastforce split: if_splits)+

lemma merge_free_covers:
  "(a, n, True) \<in> set bs \<Longrightarrow> \<exists>a' n'. (a', n', True) \<in> set (merge_free bs) \<and> n \<le> n'"
proof (induction bs arbitrary: n a rule: merge_free.induct)
  case (1 b m f b' m' f' bs)
  show ?case
  proof (cases "f \<and> f'")
    case True
    then have "\<exists>c k. (c, k, True) \<in> set ((b, m + 32 + m', True) # bs) \<and> n \<le> k"
      using "1.prems" by fastforce
    then obtain c k where c: "(c, k, True) \<in> set ((b, m + 32 + m', True) # bs)" "n \<le> k" by blast
    from "1.IH"(1) [OF True c(1)] obtain a' n' where
      "(a', n', True) \<in> set (merge_free ((b, m + 32 + m', True) # bs))" "k \<le> n'" by blast
    with True c(2) show ?thesis by (intro exI [of _ a'] exI [of _ n']) simp
  next
    case False
    then have e: "merge_free ((b, m, f) # (b', m', f') # bs) = (b, m, f) # merge_free ((b', m', f') # bs)"
      by auto
    show ?thesis
    proof (cases "(a, n, True) = (b, m, f)")
      case True
      then show ?thesis unfolding e by auto
    next
      case no: False
      then have "(a, n, True) \<in> set ((b', m', f') # bs)" using "1.prems" by auto
      from "1.IH"(2) [OF False this] show ?thesis unfolding e by auto
    qed
  qed
qed auto

lemma kmalloc_after_kfree:
  assumes inv: "heap_inv s" and l: "heap_live s p = Some k" and n: "n \<noteq> 0" "round16 (unat n) \<le> k" "kmalloc_fits n"
    and f: "kfree p s = Some s1"
  shows "\<exists>q s2. kmalloc n s1 = Some (q, s2) \<and> q \<noteq> 0"
proof -
  obtain a where a: "unat p = a + 32" "(a, k, False) \<in> set (heap_blocks s)"
    using heap_live_Some [OF inv] l by blast
  from kfree_refines [OF inv a(2,1)] f have 1: "heap_inv s1" "heap_blocks s1 = spec_free a (heap_blocks s)"
    by auto
  have "(a, k, True) \<in> set (map (\<lambda>(b, n, f). (b, n, f \<or> b = a)) (heap_blocks s))"
    using a(2) by force
  from merge_free_covers [OF this] obtain b j where j: "(b, j, True) \<in> set (heap_blocks s1)" "k \<le> j"
    by (auto simp: 1(2) spec_free_def)
  have "round16 (unat n) \<le> j" using n(2) j(2) by simp
  with j(1) have "spec_alloc (round16 (unat n)) (heap_blocks s1) \<noteq> None"
    by (rule spec_alloc_succeeds)
  moreover have "round16 (unat n) = unat (heap_align_up n 16)"
    using n(3) by (simp add: unat_heap_align_up kmalloc_fits_def)
  ultimately show ?thesis
    using kmalloc_refines [OF 1(1) n(1), of "round16 (unat n)"] by (auto split: option.splits)
qed

text \<open>A request that some free block of the heap can hold is answered.\<close>

lemma kcalloc_succeeds:
  assumes "heap_inv s" "(a, k, True) \<in> set (heap_blocks s)" "round16 (unat c * unat n) \<le> k"
    and "c \<noteq> 0" "n \<noteq> 0" "unat c * unat n \<le> 0xFFFFFFF0"
  shows "\<exists>p s'. kcalloc c n s = Some (p, s') \<and> p \<noteq> 0 \<and> heap_inv s' \<and> heap_region s' = heap_region s \<and>
    heap_globals.more s' = heap_globals.more s \<and> (\<exists>j\<ge>unat c * unat n. heap_live s' p = Some j) \<and>
    heap_blocks s' = snd (the (spec_alloc (round16 (unat c * unat n)) (heap_blocks s)))"
proof -
  let ?n = "c * n"
  have u: "unat ?n = unat c * unat n" "?n \<noteq> 0"
    using assms(4-6) by (auto simp: unat_word_ariths word_unat_eq_iff)
  then have f: "kmalloc_fits ?n" using assms(6) by (simp add: kmalloc_fits_def)
  obtain p t where k: "kmalloc ?n s = Some (p, t)" "heap_inv t" "heap_frame s t" "if p = 0 then heap_live t = heap_live s
     else heap_live s p = None \<and> (\<exists>k\<ge>unat ?n. heap_live t = (heap_live s)(p \<mapsto> k))"
    using kmalloc_contract [OF assms(1) f] by blast
  have "spec_alloc (round16 (unat ?n)) (heap_blocks s) \<noteq> None"
    using spec_alloc_succeeds [OF assms(2)] assms(3) u(1) by simp
  moreover have "round16 (unat ?n) = unat (heap_align_up ?n 16)"
    using f by (simp add: unat_heap_align_up kmalloc_fits_def)
  ultimately have p: "p \<noteq> 0" "heap_blocks t = snd (the (spec_alloc (round16 (unat ?n)) (heap_blocks s)))"
    using kmalloc_refines [OF assms(1) u(2), of "round16 (unat ?n)"] k(1) by (auto split: option.splits)
  have "kcalloc c n s = Some (p, heap_zero_bytes p ?n t)"
    using assms(4-6) k(1) p kcalloc_overflow_iff [OF assms(4,5)] by (simp add: kcalloc_def)
  moreover have "heap_globals.more (heap_zero_bytes p ?n t) = heap_globals.more s"
    using heap_frameD(8) [OF k(3)] by (simp add: heap_zero_bytes_def)
  ultimately show ?thesis
    using p k(2,4) u(1) heap_region_simps(3) [OF k(3)] by auto
qed

text \<open>
  The second half of the self-test, from a state \<open>s\<close> in which the three blocks are live on top of
  what was live in \<open>s0\<close>.
\<close>

lemma heap_self_test_reuse_spec:
  assumes inv: "heap_inv s0" "heap_inv s" "heap_region s = heap_region s0"
    and l: "heap_live s0 = (heap_live s)(a := None, b := None, c := None)"
    and b: "heap_live s b = Some k" "80 \<le> k"
  shows "\<exists>s'. heap_self_test_reuse (heap_bytes_free s0) a b c s = Some (True, s') \<and> heap_inv s' \<and>
    heap_blocks s' = heap_blocks s0"
proof -
  obtain s1 where 1: "kfree b s = Some s1" "heap_inv s1" "heap_region s1 = heap_region s"
    "heap_live s1 = (heap_live s)(b := None)"
    using kfree_contract [OF inv(2), of b] by blast
  obtain d s2 where 2: "kmalloc 80 s1 = Some (d, s2)" "d \<noteq> 0"
    using kmalloc_after_kfree [OF inv(2) b(1) _ _ _ 1(1), of 80] b(2)
    by (auto simp: kmalloc_fits_def round16_def)
  then obtain j where 2: "kmalloc 80 s1 = Some (d, s2)" "d \<noteq> 0" "heap_inv s2"
    "heap_region s2 = heap_region s1" "heap_live s1 d = None" "heap_live s2 = (heap_live s1)(d \<mapsto> j)"
    using kmalloc_contract [OF 1(2), of 80] heap_region_simps(3) by (auto simp: kmalloc_fits_def)
  obtain s3 where 3: "kfree d s2 = Some s3" "heap_inv s3" "heap_region s3 = heap_region s2"
    "heap_live s3 = (heap_live s2)(d := None)"
    using kfree_contract [OF 2(3), of d] by blast
  obtain s4 where 4: "kfree c s3 = Some s4" "heap_inv s4" "heap_region s4 = heap_region s3"
    "heap_live s4 = (heap_live s3)(c := None)"
    using kfree_contract [OF 3(2), of c] by blast
  obtain s5 where 5: "kfree a s4 = Some s5" "heap_inv s5" "heap_region s5 = heap_region s4"
    "heap_live s5 = (heap_live s4)(a := None)"
    using kfree_contract [OF 4(2), of a] by blast
  have "heap_live s5 = heap_live s0"
    using 2(5) by (auto simp: 5(4) 4(4) 3(4) 2(6) 1(4) l fun_eq_iff)
  then have bl: "heap_blocks s5 = heap_blocks s0"
    using heap_blocks_unique [OF inv(1) 5(2)] 5(3) 4(3) 3(3) 2(4) 1(3) inv(3) by simp
  have "heap_self_test_reuse (heap_bytes_free s0) a b c s =
      Some (True, heap_log_event ''TERMOB: heap self-test ok'' s5)"
    using 1(1) 2(1,2) 3(1) 4(1) 5(1) heap_bytes_free_cong [OF inv(1) 5(2) bl]
    by (simp add: heap_self_test_reuse_def heap_check_integrity_pass [OF 5(2)])
  moreover have "heap_inv (heap_log_event m s5) = heap_inv s5"
    "heap_blocks (heap_log_event m s5) = heap_blocks s5" for m
    by (rule heap_inv_same; simp)+
  ultimately show ?thesis using 5(2) bl by auto
qed

lemma kfree_unless_null_contract:
  assumes "heap_inv s"
  shows "\<exists>s'. kfree_unless_null p s = Some s' \<and> heap_inv s' \<and> heap_region s' = heap_region s \<and>
    heap_live s' = (heap_live s)(p := None)"
  using kfree_contract [OF assms, of p] heap_live_null [OF assms] assms
  by (auto simp: kfree_unless_null_def fun_upd_idem)

text \<open>Every path through the self-test ends with the blocks it found.\<close>

lemma heap_run_self_test_spec:
  assumes inv: "heap_inv s"
  shows "\<exists>ok s'. heap_run_self_test s = Some (ok, s') \<and> heap_inv s' \<and> heap_blocks s' = heap_blocks s \<and>
    (ok \<longleftrightarrow> (\<exists>a b c s1 s2 s3. kmalloc 64 s = Some (a, s1) \<and> kmalloc 128 s1 = Some (b, s2) \<and>
       kcalloc 16 8 s2 = Some (c, s3) \<and> a \<noteq> 0 \<and> b \<noteq> 0 \<and> c \<noteq> 0))"
proof -
  obtain a s1 where 1: "kmalloc 64 s = Some (a, s1)" "heap_inv s1" "heap_region s1 = heap_region s"
    "heap_live s = (heap_live s1)(a := None)"
    using kheap.alloc_undo [of s "heap_region s" 64] inv by (auto simp: kmalloc_fits_def)
  obtain b s2 where 2: "kmalloc 128 s1 = Some (b, s2)" "heap_inv s2" "heap_region s2 = heap_region s1"
    "heap_live s1 = (heap_live s2)(b := None)" "b \<noteq> 0 \<Longrightarrow> \<exists>k\<ge>128. heap_live s2 b = Some k"
    using kheap.alloc_undo [of s1 "heap_region s1" 128] 1(2) by (auto simp: kmalloc_fits_def)
  obtain c s3 where 3: "kcalloc 16 8 s2 = Some (c, s3)" "heap_inv s3" "heap_region s3 = heap_region s2"
    "heap_live s2 = (heap_live s3)(c := None)"
    using kcheap.alloc_undo [of s2 "heap_region s2" "(16, 8)"] 2(2) by (auto simp: kcalloc_fits_def)
  have l: "heap_live s = (heap_live s3)(a := None, b := None, c := None)"
    by (auto simp: 1(4) 2(4) 3(4) fun_eq_iff)
  have r: "heap_region s3 = heap_region s" using 1(3) 2(3) 3(3) by simp
  have st: "heap_run_self_test s = (if a = 0 \<or> b = 0 \<or> c = 0 then do {
      s \<leftarrow> kfree_unless_null a (heap_note_error TERMOB_HEAP_DIAG_SELFTEST
             ''TERMOB: heap self-test allocation failed'' s3);
      s \<leftarrow> kfree_unless_null b s; s \<leftarrow> kfree_unless_null c s; Some (False, s) }
    else heap_self_test_reuse (heap_bytes_free s) a b c s3)"
    using heap_inv_walks(1) [OF inv] 1(1) 2(1) 3(1)
    by (simp add: heap_run_self_test_def heap_check_integrity_pass [OF inv])
  show ?thesis
  proof (cases "a = 0 \<or> b = 0 \<or> c = 0")
    case True
    let ?e = "heap_note_error TERMOB_HEAP_DIAG_SELFTEST ''TERMOB: heap self-test allocation failed'' s3"
    have e: "heap_inv ?e" using 3(2) by simp
    obtain t1 where t1: "kfree_unless_null a ?e = Some t1" "heap_inv t1" "heap_region t1 = heap_region ?e"
      "heap_live t1 = (heap_live ?e)(a := None)" using kfree_unless_null_contract [OF e] by blast
    obtain t2 where t2: "kfree_unless_null b t1 = Some t2" "heap_inv t2" "heap_region t2 = heap_region t1"
      "heap_live t2 = (heap_live t1)(b := None)" using kfree_unless_null_contract [OF t1(2)] by blast
    obtain t3 where t3: "kfree_unless_null c t2 = Some t3" "heap_inv t3" "heap_region t3 = heap_region t2"
      "heap_live t3 = (heap_live t2)(c := None)" using kfree_unless_null_contract [OF t2(2)] by blast
    have "heap_live t3 = heap_live s" using l by (simp add: t3(4) t2(4) t1(4))
    then have "heap_blocks t3 = heap_blocks s"
      using heap_blocks_unique [OF inv t3(2)] t3(3) t2(3) t1(3) r by simp
    then show ?thesis using st True t1(1) t2(1) t3(1,2) 1(1) 2(1) 3(1) by auto
  next
    case False
    then obtain k where "heap_live s2 b = Some k" "128 \<le> k" using 2(5) by blast
    then have "heap_live s3 b = Some k" "80 \<le> k" by (auto simp: 3(4) split: if_splits)
    from heap_self_test_reuse_spec [OF inv 3(2) r l this] obtain s' where
      "heap_self_test_reuse (heap_bytes_free s) a b c s3 = Some (True, s')" "heap_inv s'"
      "heap_blocks s' = heap_blocks s" by blast
    then show ?thesis using st False 1(1) 2(1) 3(1) by auto
  qed
qed

section \<open>The statistics of a valid heap\<close>

lemma length_free_used: "length (free_sizes bs) + length (used_sizes bs) = length bs"
  using sum_length_filter_compl [of "snd \<circ> snd" bs] by (simp add: free_sizes_def used_sizes_def comp_def)

lemma heap_counts_blocks:
  assumes "heap_inv s"
  shows "unat (heap_total_block_count s) = length (heap_blocks s)"
    "unat (heap_used_block_count s) = length (used_sizes (heap_blocks s))"
    "unat (heap_free_block_count s) = length (free_sizes (heap_blocks s))"
    "unat (heap_largest_free_block s) = fold max (free_sizes (heap_blocks s)) 0"
proof -
  note w = heap_inv_walks [OF assms]
  let ?ps = "heap_addrs s"
  let ?fs = "filter (heap_block_is_free s) ?ps" and ?us = "filter (\<lambda>p. \<not> heap_block_is_free s p) ?ps"
  have f: "free_sizes (heap_blocks s) = map (bsize s) ?fs" "length (used_sizes (heap_blocks s)) = length ?us"
    "length (heap_blocks s) = length ?ps"
    by (simp add: heap_blocks_def free_sizes_blocks)
      (simp_all add: heap_blocks_def blocks_def used_sizes_def filter_map comp_def)
  have u: "length ?us < 4294967296" using w(10) length_filter_le [of "\<lambda>p. \<not> heap_block_is_free s p" ?ps] by linarith
  show "unat (heap_total_block_count s) = length (heap_blocks s)"
    using heap_total_walk_count [OF w(4,6,8), of 0] w(1,2,10) f(3)
    by (simp add: heap_total_block_count_def unat_word_of_nat_small)
  show "unat (heap_used_block_count s) = length (used_sizes (heap_blocks s))"
    using heap_used_walk_count [OF w(4,6,8), of 0] w(1,2) u f(2)
    by (simp add: heap_used_block_count_def unat_word_of_nat_small)
  show "unat (heap_free_block_count s) = length (free_sizes (heap_blocks s))"
    using heap_free_walk_fold [OF w(5,7,9), of "\<lambda>b acc. acc + 1" 0] w(1,3,11) f(1)
    by (simp add: heap_free_block_count_def fold_word_count unat_word_of_nat_small)
  show "unat (heap_largest_free_block s) = fold max (free_sizes (heap_blocks s)) 0"
    using heap_free_walk_fold [OF w(5,7,9),
        of "\<lambda>b acc. if hb_size_bytes b > acc then hb_size_bytes b else acc" 0]
      unat_fold_max [of "\<lambda>p. hb_size_bytes (heap_mem s p)" ?fs 0] w(1,3) f(1)
    by (simp add: heap_largest_free_block_def)
qed

lemma heap_bytes_used_blocks:
  assumes "heap_inv s"
  shows "unat (heap_bytes_used s) + 32 = sum_list (used_sizes (heap_blocks s)) + 32 * length (heap_blocks s)"
proof -
  note w = heap_inv_walks [OF assms] and b = heap_bytes_free_blocks [OF assms]
  let ?a = "unat (heap_start_ptr s)" and ?e = "unat (heap_end_ptr s)"
  have t: "?a + 32 * length (heap_blocks s) + sum_list (free_sizes (heap_blocks s)) +
      sum_list (used_sizes (heap_blocks s)) = ?e"
    by (rule tiled_sum [OF heap_inv_tiled [OF assms]])
  have "heap_addrs s \<noteq> []" using heap_physD(2) [OF heap_inv_phys [OF assms]] .
  then have n: "1 \<le> length (heap_blocks s)" by (cases "heap_addrs s") (simp_all add: heap_blocks_def blocks_def)
  have ae: "?a + 32 \<le> ?e" using t n by linarith
  have a32: "unat (heap_start_ptr s + 32) = ?a + 32"
    using ae u32_less [of "heap_end_ptr s"] by (subst unat_add_small) simp_all
  have tot: "unat (heap_bytes_total s) = ?e - ?a - 32"
  proof (cases "?e = ?a + 32")
    case True
    then show ?thesis by (simp add: heap_bytes_total_def heap_total_payload_bytes_def word_le_nat_alt a32)
  next
    case False
    then have "unat (heap_end_ptr s - heap_start_ptr s) = ?e - ?a"
      using ae by (simp add: unat_sub word_le_nat_alt)
    moreover have "unat (heap_end_ptr s - heap_start_ptr s - 32) =
        unat (heap_end_ptr s - heap_start_ptr s) - 32"
      using ae calculation by (simp add: unat_sub word_le_nat_alt)
    ultimately show ?thesis
      using w(1) ae False
      by (simp add: heap_bytes_total_def heap_total_payload_bytes_def word_le_nat_alt a32)
  qed
  have "unat (heap_bytes_used s) = unat (heap_bytes_total s) - unat (heap_bytes_free s)"
    by (auto simp: heap_bytes_used_def Let_def unat_sub word_le_nat_alt)
  then show ?thesis using t n tot b by linarith
qed

section \<open>The three ranges of kcalloc\<close>

lemma heap_zero_loop_keeps: "m a = 0 \<Longrightarrow> heap_zero_loop n dst m a = 0"
  by (induction n arbitrary: dst m) auto

lemma heap_zero_loop_wrapped: "unat (a - dst) < n \<Longrightarrow> heap_zero_loop n dst m a = 0"
proof (induction n arbitrary: dst m)
  case (Suc n)
  show ?case
  proof (cases "a = dst")
    case False
    then have "unat (a - dst) \<noteq> 0" by (simp add: unat_eq_zero)
    then have "unat (a - (dst + 1)) < n"
      using False Suc.prems unat_minus_one [of "a - dst"] by (simp add: diff_diff_eq [symmetric])
    then show ?thesis by (simp add: Suc.IH)
  qed (simp add: heap_zero_loop_keeps)
qed simp

lemma kmalloc_wrapped:
  assumes "heap_inv s" "0xFFFFFFF0 < unat n"
  shows "if \<exists>a k. (a, k, True) \<in> set (heap_blocks s)
    then \<exists>p s' m. kmalloc n s = Some (p, s') \<and> p \<noteq> 0 \<and> heap_live s' p = Some m \<and> m < unat n
    else kmalloc n s = Some (0, s)"
proof -
  have "unat (n + mask 4) < 16"
    using assms(2) u32_less [of n] by (simp add: unat_word_ariths mask_eq_exp_minus_1 mod_if, linarith)
  moreover have "heap_align_up n 16 = align_up_word n (2 ^ 4)"
    by (simp add: heap_align_up_def align_up_word_def)
  ultimately have z: "0 = unat (heap_align_up n 16)" by (simp only: unat_align_up) simp
  have n0: "n \<noteq> 0" using assms(2) by auto
  show ?thesis
  proof (cases "spec_alloc 0 (heap_blocks s)")
    case None
    then show ?thesis using kmalloc_refines [OF assms(1) n0 z] spec_alloc_succeeds [of _ _ "heap_blocks s" 0] by auto
  next
    case (Some r)
    then obtain b bs where sp: "spec_alloc 0 (heap_blocks s) = Some (b, bs)" by (cases r) auto
    with kmalloc_refines [OF assms(1) n0 z] obtain p s' where k: "kmalloc n s = Some (p, s')"
      "unat p = b + 32" "heap_inv s'" "heap_blocks s' = bs" by auto
    from live_of_alloc [OF heap_inv_tiled [OF assms(1)] sp] obtain m where
      "live_of bs = (live_of (heap_blocks s))(b + 32 \<mapsto> m)" by blast
    then have l: "heap_live s' p = Some m" by (simp add: heap_live_def k(2,4))
    then have "unat p + m \<le> unat (heap_end_ptr s')"
      using heap_live_Some [OF k(3), of p m] tiled_bounds [OF heap_inv_tiled [OF k(3)]] by fastforce
    then have "m < unat n" using k(2) assms(2) u32_less [of "heap_end_ptr s'"] by linarith
    moreover have "p \<noteq> 0" using k(2) by auto
    moreover have "\<exists>a k. (a, k, True) \<in> set (heap_blocks s)" using spec_alloc_free [OF sp] by blast
    ultimately show ?thesis using k(1) l by auto
  qed
qed

lemma kcalloc_refuses:
  assumes "unat count * unat n = 0 \<or> 0xFFFFFFFF < unat count * unat n"
  shows "kcalloc count n s = Some (0, s)"
  using assms kcalloc_overflow_iff [of count n] by (auto simp: kcalloc_def unat_eq_zero)

lemma kcalloc_passes:
  assumes "0 < unat count * unat n" "unat count * unat n \<le> 0xFFFFFFFF"
  shows "unat (count * n) = unat count * unat n"
    "kcalloc count n s = map_option (\<lambda>(q, t). (q, if q = 0 then t else heap_zero_bytes q (count * n) t)) (kmalloc (count * n) s)"
proof -
  show "unat (count * n) = unat count * unat n" using assms by (simp add: unat_word_ariths)
  show "kcalloc count n s = map_option (\<lambda>(q, t). (q, if q = 0 then t else heap_zero_bytes q (count * n) t)) (kmalloc (count * n) s)"
    using assms kcalloc_overflow_iff [of count n] by (cases "kmalloc (count * n) s") (auto simp: kcalloc_def)
qed

lemma kcalloc_rounded:
  assumes "heap_inv s" "0 < unat count * unat n" "unat count * unat n \<le> 0xFFFFFFF0"
  shows "\<exists>p s'. kcalloc count n s = Some (p, s') \<and> heap_inv s' \<and>
    (if p = 0 then heap_live s' = heap_live s \<and> mem s' = mem s
     else heap_live s p = None \<and> (\<exists>k\<ge>unat count * unat n. heap_live s' = (heap_live s)(p \<mapsto> k)) \<and>
       (\<forall>a. mem s' a = (if unat p \<le> unat a \<and> unat a < unat p + unat count * unat n then 0 else mem s a)))"
proof -
  have u: "unat (count * n) = unat count * unat n" using assms by (intro kcalloc_passes) auto
  then have "kmalloc_fits (count * n)" using assms(3) by (simp add: kmalloc_fits_def)
  from kmalloc_contract [OF assms(1) this] obtain q t where k: "kmalloc (count * n) s = Some (q, t)"
    "heap_inv t" "heap_frame s t" "if q = 0 then heap_live t = heap_live s
     else heap_live s q = None \<and> (\<exists>k\<ge>unat (count * n). heap_live t = (heap_live s)(q \<mapsto> k))"
    by blast
  let ?t = "if q = 0 then t else heap_zero_bytes q (count * n) t"
  have e: "kcalloc count n s = Some (q, ?t)" using assms k(1) by (simp add: kcalloc_passes(2))
  have "mem ?t a = (if unat q \<le> unat a \<and> unat a < unat q + unat count * unat n then 0 else mem s a)"
    if q: "q \<noteq> 0" for a
  proof -
    obtain j where j: "unat (count * n) \<le> j" "heap_live t q = Some j" using k(4) q by auto
    then have "unat q + j \<le> unat (heap_end_ptr t)"
      using heap_live_Some [OF k(2), of q j] tiled_bounds [OF heap_inv_tiled [OF k(2)]] by fastforce
    then have "unat q + unat (count * n) \<le> 4294967296"
      using j(1) u32_less [of "heap_end_ptr t"] by linarith
    then show ?thesis
      using heap_zero_loop_get [of q "unat (count * n)" "mem t" a] q u heap_frameD(5) [OF k(3)]
      by (simp add: heap_zero_bytes_def)
  qed
  then show ?thesis using e k(2,4) u heap_frameD(5) [OF k(3)] by (intro exI [of _ q] exI [of _ ?t]) auto
qed

lemma kcalloc_wrapped:
  assumes "heap_inv s" "0xFFFFFFF0 < unat count * unat n" "unat count * unat n \<le> 0xFFFFFFFF"
  shows "\<exists>p s'. kcalloc count n s = Some (p, s') \<and>
    (p \<noteq> 0 \<longrightarrow> (\<exists>m<unat count * unat n. heap_live s' p = Some m) \<and>
      (\<forall>a. unat (a - p) < unat count * unat n \<longrightarrow> mem s' a = 0))"
proof -
  have pos: "0 < unat count * unat n" using assms(2) by linarith
  then have u: "unat (count * n) = unat count * unat n" using assms(3) by (rule kcalloc_passes)
  then obtain p t where k: "kmalloc (count * n) s = Some (p, t)"
    "p \<noteq> 0 \<longrightarrow> (\<exists>m<unat count * unat n. heap_live t p = Some m)"
    using kmalloc_wrapped [of s "count * n"] assms(1,2) by (auto split: if_splits)
  let ?t = "heap_zero_bytes p (count * n) t"
  have "kcalloc count n s = Some (p, if p = 0 then t else ?t)"
    by (simp add: kcalloc_passes(2) [OF pos assms(3)] k(1))
  moreover have "mem ?t a = 0" if "unat (a - p) < unat count * unat n" for a
    using that u by (simp add: heap_zero_bytes_def heap_zero_loop_wrapped)
  ultimately show ?thesis using k(2) by auto
qed

section \<open>A heap at boot\<close>

text \<open>The statics of the kernel as the loader leaves them, and the heap set up on them.\<close>

definition boot_heap :: heap_globals where
  "boot_heap = heap_init 0x150000 boot_globals"

lemma boot_heap_inv [simp]: "heap_inv boot_heap"
  "heap_blocks boot_heap = [(0x150000, 0xFFFE0, True)]"
  using heap_init_inv [of "0x150000" boot_globals] by (simp_all add: boot_heap_def round16_def)

section \<open>Properties\<close>

text \<open>
  C1. Allocation is first fit. On a valid heap, a non-zero request that does not exceed the largest
  value the rounding can represent is answered by the first free block that holds the rounded
  size: the block is split when at least 48 bytes are left over, the pointer is 32 bytes past its
  header, the resulting heap is valid and its block list is exactly the specified one. When no free
  block is large enough, the answer is null and nothing changes. In either case the function
  returns.
\<close>

theorem kmalloc_is_first_fit:
  assumes "heap_inv s" "n \<noteq> 0" "unat n \<le> 0xFFFFFFF0"
  shows "case spec_alloc (round16 (unat n)) (heap_blocks s) of
      None \<Rightarrow> kmalloc n s = Some (0, s)
    | Some (a, bs) \<Rightarrow> \<exists>p s'. kmalloc n s = Some (p, s') \<and> unat p = a + 32 \<and> heap_frame s s' \<and>
        heap_inv s' \<and> heap_blocks s' = bs"
  by (rule kmalloc_refines [OF assms(1,2)]) (simp add: unat_heap_align_up assms(3))

theorem kmalloc_is_first_fit_witness:
  "\<exists>p s'. kmalloc 100 boot_heap = Some (p, s') \<and> unat p = 0x150020 \<and>
     heap_blocks s' = [(0x150000, 112, False), (0x150090, 0xFFF50, True)]"
  using kmalloc_is_first_fit [of boot_heap 100] by (auto simp: round16_def)

text \<open>
  C2. Release coalesces. On a valid heap, \<^verbatim>\<open>kfree\<close> of the payload address of a block in use returns,
  leaves the heap valid, and the block list is the old one with that block marked free and all
  runs of free neighbours joined.
\<close>

theorem kfree_coalesces:
  assumes "heap_inv s" "(a, n, False) \<in> set (heap_blocks s)" "unat p = a + 32"
  shows "\<exists>s'. kfree p s = Some s' \<and> heap_frame s s' \<and> heap_inv s' \<and>
    heap_blocks s' = spec_free a (heap_blocks s)"
  by (rule kfree_refines [OF assms])

theorem kfree_coalesces_witness:
  "\<exists>p s s'. kmalloc 100 boot_heap = Some (p, s) \<and> kfree p s = Some s' \<and>
     heap_blocks s' = [(0x150000, 0xFFFE0, True)]"
proof -
  obtain p s where k: "kmalloc 100 boot_heap = Some (p, s)" "unat p = 0x150000 + 32" "heap_inv s"
    "heap_blocks s = [(0x150000, 112, False), (0x150090, 0xFFF50, True)]"
    using kmalloc_refines [of boot_heap 100 112]
    by (auto simp: unat_heap_align_up round16_def)
  then have "(0x150000, 112, False) \<in> set (heap_blocks s)" by simp
  from kfree_coalesces [OF k(3) this k(2)] show ?thesis
    using k(1,4) by (auto simp: spec_free_def)
qed

text \<open>
  C17. Bad releases are refused. On a valid heap, a non-null pointer that is no block's payload is
  reported as an invalid free, the payload of a free block as a double free, and in both cases the
  blocks of the heap are unchanged; only the error counters and the log are written.
\<close>

theorem kfree_refuses_bad_pointers:
  assumes "heap_inv s" "p \<noteq> 0" "\<forall>a n. (a, n, False) \<in> set (heap_blocks s) \<longrightarrow> unat p \<noteq> a + 32"
  shows "\<exists>s'. kfree p s = Some s' \<and> heap_inv s' \<and> heap_blocks s' = heap_blocks s \<and>
    (if \<exists>a n. (a, n, True) \<in> set (heap_blocks s) \<and> unat p = a + 32
     then s' = heap_note_error TERMOB_HEAP_DIAG_DOUBLE_FREE ''TERMOB: double free detected'' s
     else s' = heap_note_error TERMOB_HEAP_DIAG_INVALID_FREE ''TERMOB: invalid kfree pointer'' s)"
proof (cases "\<exists>a n. (a, n, True) \<in> set (heap_blocks s) \<and> unat p = a + 32")
  case True
  then show ?thesis using kfree_double [OF assms(1)] assms(1) by auto
next
  case False
  have "unat p \<noteq> a + 32" if "(a, n, f) \<in> set (heap_blocks s)" for a n f
    using False assms(3) that by (cases f) auto
  with False show ?thesis using kfree_invalid [OF assms(1,2)] assms(1) by auto
qed

theorem kfree_refuses_bad_pointers_witness:
  "\<exists>s'. kfree 0x150020 boot_heap = Some s' \<and> heap_inv s' \<and>
     s' = heap_note_error TERMOB_HEAP_DIAG_DOUBLE_FREE ''TERMOB: double free detected'' boot_heap"
  using kfree_refuses_bad_pointers [of boot_heap "0x150020"] by auto



text \<open>
  C6. Any sequence of allocations and releases, whatever pointers it frees, returns from a valid heap,
  ends in a valid heap on the same region, and keeps every block in use that it does not free itself.
\<close>

theorem heap_runs_are_safe:
  assumes "heap_inv s" "ops_fit kmalloc_fits os"
  shows "\<exists>rs s'. run_ops kmalloc kfree os s = Some (rs, s') \<and> heap_inv s' \<and>
    heap_region s' = heap_region s \<and>
    (\<forall>p n. heap_live s p = Some n \<and> Free p \<notin> set os \<longrightarrow> heap_live s' p = Some n)"
proof -
  have i: "heap_inv s \<and> heap_region s = heap_region s" using assms(1) by simp
  from kheap.run_ops_returns [OF i assms(2)] obtain rs s' where
    r: "run_ops kmalloc kfree os s = Some (rs, s')" "heap_inv s'" "heap_region s' = heap_region s"
    by blast
  with kheap.run_ops_keeps [OF i assms(2) r(1)] show ?thesis by blast
qed

theorem heap_runs_are_safe_witness:
  "\<exists>rs s'. run_ops kmalloc kfree [Alloc 100, Free 5, Alloc 0x200000, Free 0x150020] boot_heap = Some (rs, s') \<and>
     heap_inv s'"
  using heap_runs_are_safe [of boot_heap "[Alloc 100, Free 5, Alloc 0x200000, Free 0x150020]"]
  by (auto simp: ops_fit_def kmalloc_fits_def)

text \<open>
  C3. Nothing leaks or fragments for good. When a sequence of allocations and releases ends with the
  same blocks in use as it began with, the heap has exactly the blocks it began with.
\<close>

theorem heap_runs_do_not_leak:
  assumes "heap_inv s" "ops_fit kmalloc_fits os" "run_ops kmalloc kfree os s = Some (rs, s')"
    and "heap_live s' = heap_live s"
  shows "heap_blocks s' = heap_blocks s"
proof -
  have "heap_inv s \<and> heap_region s = heap_region s" using assms(1) by simp
  from kheap.run_ops_returns [OF this assms(2)] assms(3)
  have "heap_inv s'" "heap_region s' = heap_region s" by auto
  with assms(1,4) show ?thesis by (intro heap_blocks_unique)
qed

theorem heap_runs_do_not_leak_witness:
  "\<exists>p s1 s2. run_ops kmalloc kfree [Alloc 100, Free p] boot_heap = Some ([p], s2) \<and>
     kmalloc 100 boot_heap = Some (p, s1) \<and> heap_blocks s2 = [(0x150000, 0xFFFE0, True)]"
proof -
  have i: "heap_inv boot_heap \<and> heap_region boot_heap = heap_region boot_heap" by simp
  obtain p s1 where k: "kmalloc 100 boot_heap = Some (p, s1)"
    using kmalloc_contract [of boot_heap 100] by (auto simp: kmalloc_fits_def)
  obtain s2 where f: "kfree p s1 = Some s2" "heap_live s2 = heap_live boot_heap"
    using kheap.alloc_free_restores [OF i _ k] by (auto simp: kmalloc_fits_def)
  then have r: "run_ops kmalloc kfree [Alloc 100, Free p] boot_heap = Some ([p], s2)" using k by simp
  have "ops_fit kmalloc_fits [Alloc 100, Free p]" by (simp add: ops_fit_def kmalloc_fits_def)
  from heap_runs_do_not_leak [OF boot_heap_inv(1) this r f(2)] show ?thesis using k r by auto
qed

text \<open>
  C4. The integrity check decides the invariant. \<^verbatim>\<open>heap_check_integrity_internal\<close> answers yes exactly on
  the states that satisfy the representation invariant, with or without logging, and a yes changes
  nothing.
\<close>

theorem heap_check_integrity_decides:
  "heap_check_integrity_internal log_errors s = (True, s) \<longleftrightarrow> heap_inv s"
  using heap_check_integrity_iff [of log_errors s] heap_check_integrity_pass [of s log_errors] by auto

text \<open>
  C21. Initialisation gives a valid heap of one free block that fills the region but for its header,
  whatever the state it starts from, when the kernel image ends below the last mebibyte of memory.
\<close>

theorem heap_init_establishes:
  assumes "kernel_end \<noteq> 0" "unat kernel_end + 0x10000F < 2 ^ 32"
  shows "heap_inv (heap_init kernel_end s) \<and>
    heap_blocks (heap_init kernel_end s) = [(round16 (unat kernel_end), 0x100000 - 32, True)] \<and>
    heap_live (heap_init kernel_end s) = Map.empty"
proof -
  have "heap_inv (heap_init kernel_end s)"
    "heap_blocks (heap_init kernel_end s) = [(round16 (unat kernel_end), 0xFFFE0, True)]"
    using heap_init_inv [of kernel_end s] assms by simp_all
  then show ?thesis by (simp add: heap_live_def fun_eq_iff)
qed

theorem heap_init_establishes_witness:
  "heap_inv (heap_init 0x123457 boot_globals) \<and>
   heap_blocks (heap_init 0x123457 boot_globals) = [(0x123460, 0xFFFE0, True)]"
  using heap_init_establishes [of "0x123457" boot_globals] by (simp add: round16_def)

text \<open>
  C18. Every branch of \<^verbatim>\<open>kcalloc\<close> on a valid heap, for all counts and sizes. A zero product and one
  that does not fit 32 bits give null and change nothing. A product of at most 0xFFFFFFF0 bytes gives null
  with the live blocks as they were, or a fresh block of at least that many bytes, all zero, with no
  byte outside it changed. The products between, which fit 32 bits but wrap when \<^verbatim>\<open>kmalloc\<close> rounds them up,
  give null or a block smaller than the product, and then the product's number of bytes is cleared from
  its start, beyond the block.
\<close>

theorem kcalloc_gives_zeroed_memory:
  assumes "heap_inv s"
  shows "\<exists>p s'. kcalloc count n s = Some (p, s') \<and>
    (let total = unat count * unat n in
     if total = 0 \<or> 0xFFFFFFFF < total then p = 0 \<and> s' = s
     else if total \<le> 0xFFFFFFF0 then heap_inv s' \<and>
       (if p = 0 then heap_live s' = heap_live s \<and> mem s' = mem s
        else heap_live s p = None \<and> (\<exists>k\<ge>total. heap_live s' = (heap_live s)(p \<mapsto> k)) \<and>
          (\<forall>a. mem s' a = (if unat p \<le> unat a \<and> unat a < unat p + total then 0 else mem s a)))
     else p \<noteq> 0 \<longrightarrow> (\<exists>m<total. heap_live s' p = Some m) \<and> (\<forall>a. unat (a - p) < total \<longrightarrow> mem s' a = 0))"
proof -
  consider "unat count * unat n = 0 \<or> 0xFFFFFFFF < unat count * unat n"
    | "0 < unat count * unat n" "unat count * unat n \<le> 0xFFFFFFF0"
    | "0xFFFFFFF0 < unat count * unat n" "unat count * unat n \<le> 0xFFFFFFFF" by linarith
  then show ?thesis
  proof cases
    case 1
    then show ?thesis using kcalloc_refuses [of count n s] by (simp add: Let_def)
  next
    case 2
    then show ?thesis using kcalloc_rounded [OF assms 2] by (simp add: Let_def)
  next
    case 3
    then have "\<not> (unat count * unat n = 0 \<or> 0xFFFFFFFF < unat count * unat n)" "\<not> unat count * unat n \<le> 0xFFFFFFF0"
      by linarith+
    then show ?thesis using kcalloc_wrapped [OF assms 3] by (simp only: Let_def if_False)
  qed
qed

theorem kcalloc_gives_zeroed_memory_witness:
  "\<exists>p s'. kcalloc 16 8 boot_heap = Some (p, s') \<and> heap_inv s' \<and> (p \<noteq> 0 \<longrightarrow> (\<exists>k\<ge>128. heap_live s' p = Some k))"
  using kcalloc_gives_zeroed_memory [OF boot_heap_inv(1), of 16 8] by (auto simp: Let_def split: if_splits)

text \<open>
  C20. The statistics agree with the blocks: the counts of all, used and free blocks, the free bytes and
  the largest free block are those of the block list, and free bytes, used bytes and one header add
  up to the region.
\<close>

theorem heap_statistics_agree:
  assumes "heap_inv s"
  shows "unat (heap_total_block_count s) = length (heap_blocks s) \<and>
    unat (heap_used_block_count s) = length (used_sizes (heap_blocks s)) \<and>
    unat (heap_free_block_count s) = length (free_sizes (heap_blocks s)) \<and>
    unat (heap_largest_free_block s) = fold max (free_sizes (heap_blocks s)) 0 \<and>
    unat (heap_bytes_free s) = sum_list (free_sizes (heap_blocks s)) \<and>
    unat (heap_bytes_used s) + 32 = sum_list (used_sizes (heap_blocks s)) + 32 * length (heap_blocks s) \<and>
    unat (heap_start_ptr s) + unat (heap_bytes_used s) + unat (heap_bytes_free s) + 32 = unat (heap_end_ptr s)"
  using heap_counts_blocks [OF assms] heap_bytes_free_blocks [OF assms] heap_bytes_used_blocks [OF assms]
    tiled_sum [OF heap_inv_tiled [OF assms]] by linarith

theorem heap_statistics_agree_witness:
  "unat (heap_total_block_count boot_heap) = 1 \<and> unat (heap_bytes_free boot_heap) = 0xFFFE0 \<and>
   unat (heap_bytes_used boot_heap) = 0"
  using heap_statistics_agree [of boot_heap] by (simp add: free_sizes_def used_sizes_def)

text \<open>
  C19. The boot self-test returns on every valid heap, leaves exactly the blocks it found on every path,
  and succeeds precisely when its three allocations do: the block it allocates again after a
  release always fits.
\<close>

theorem heap_self_test_is_neutral:
  assumes "heap_inv s"
  shows "\<exists>ok s'. heap_run_self_test s = Some (ok, s') \<and> heap_inv s' \<and> heap_blocks s' = heap_blocks s \<and>
    (ok \<longleftrightarrow> (\<exists>a b c s1 s2 s3. kmalloc 64 s = Some (a, s1) \<and> kmalloc 128 s1 = Some (b, s2) \<and>
       kcalloc 16 8 s2 = Some (c, s3) \<and> a \<noteq> 0 \<and> b \<noteq> 0 \<and> c \<noteq> 0))"
  by (rule heap_run_self_test_spec [OF assms])

theorem heap_self_test_is_neutral_witness:
  "\<exists>ok s'. heap_run_self_test boot_heap = Some (ok, s') \<and> heap_blocks s' = [(0x150000, 0xFFFE0, True)]"
  using heap_self_test_is_neutral [of boot_heap] by auto

text \<open>
  C22. A request within 15 bytes of the top of the 32-bit range is not refused: rounding it up wraps to
  zero, and on a valid heap with any free block the caller gets a non-null pointer to fewer bytes than
  it asked for.
\<close>

theorem kmalloc_huge_request_wraps:
  assumes "heap_inv s" "0xFFFFFFF0 < unat n" "(a, k, True) \<in> set (heap_blocks s)"
  shows "\<exists>p s' m. kmalloc n s = Some (p, s') \<and> p \<noteq> 0 \<and> heap_live s' p = Some m \<and> m < unat n"
  using kmalloc_wrapped [OF assms(1,2)] assms(3) by (auto split: if_splits)

theorem kmalloc_huge_request_wraps_witness:
  "\<exists>p s' m. kmalloc 0xFFFFFFFF boot_heap = Some (p, s') \<and> p \<noteq> 0 \<and> heap_live s' p = Some m \<and> m < 0xFFFFFFFF"
  using kmalloc_huge_request_wraps [of boot_heap "0xFFFFFFFF" "0x150000" "0xFFFE0"] by simp

end
