(* ===== verification/Bootinfo.thy ===== *)
theory Bootinfo
  imports Kheap
begin

text \<open>
  The Multiboot2 memory map (\<^verbatim>\<open>core/bootinfo.c\<close>): a walk over the tags the boot loader left in memory
  and the table of memory ranges it fills. The tag and entry loops advance a 32-bit address by sizes
  read from memory and have no other bound, so they are partial; \<open>tags_at\<close> describes the memory on
  which they end, and the table is then exactly what the entries describe.
\<close>

section \<open>State\<close>

abbreviation (input) TERMOB_MULTIBOOT2_MAGIC :: u32 where "TERMOB_MULTIBOOT2_MAGIC \<equiv> 0x36D76289"
abbreviation (input) TERMOB_MEMORY_TYPE_AVAILABLE :: u32 where "TERMOB_MEMORY_TYPE_AVAILABLE \<equiv> 1"
abbreviation (input) MULTIBOOT_TAG_TYPE_END :: u32 where "MULTIBOOT_TAG_TYPE_END \<equiv> 0"
abbreviation (input) MULTIBOOT_TAG_TYPE_MMAP :: u32 where "MULTIBOOT_TAG_TYPE_MMAP \<equiv> 6"
abbreviation (input) UINT32_MAX :: u32 where "UINT32_MAX \<equiv> 0xFFFFFFFF"

definition TERMOB_BOOTINFO_MAX_MEMORY_RANGES :: nat where
  "TERMOB_BOOTINFO_MAX_MEMORY_RANGES = 64"

record bootinfo_memory_range =
  br_base_addr :: u32
  br_length :: u32
  br_type :: u32

record multiboot_mmap_entry =
  me_addr :: u64
  me_len :: u64
  me_type :: u32

record bootinfo_globals = heap_globals +
  bootinfo_ready :: bool
  bootinfo_info_address :: u32
  bootinfo_info_size :: u32
  bootinfo_memory_ranges :: "bootinfo_memory_range list"
  bootinfo_memory_range_count_value :: nat
  bootinfo_usable_memory_bytes_value :: u32
  bootinfo_highest_usable_address_value :: u32

definition load64 :: "(u32 \<Rightarrow> u8) \<Rightarrow> u32 \<Rightarrow> u64" where
  "load64 m a = ucast (load32 m a) OR push_bit 32 (ucast (load32 m (a + 4)))"

text \<open>The packed entry behind a pointer.\<close>

definition mmap_entry_at :: "(u32 \<Rightarrow> u8) \<Rightarrow> u32 \<Rightarrow> multiboot_mmap_entry" where
  "mmap_entry_at m a = \<lparr>me_addr = load64 m a, me_len = load64 m (a + 8), me_type = load32 m (a + 16)\<rparr>"

section \<open>Operations\<close>

definition bootinfo_align_up_u32 :: "u32 \<Rightarrow> u32 \<Rightarrow> u32" where
  "bootinfo_align_up_u32 value alignment = (value + (alignment - 1)) AND NOT (alignment - 1)"

definition bootinfo_reset :: "'a bootinfo_globals_scheme \<Rightarrow> 'a bootinfo_globals_scheme" where
  "bootinfo_reset s =
     s\<lparr>bootinfo_ready := False, bootinfo_info_address := 0, bootinfo_info_size := 0,
       bootinfo_memory_range_count_value := 0, bootinfo_usable_memory_bytes_value := 0,
       bootinfo_highest_usable_address_value := 0\<rparr>"

definition bootinfo_store_memory_range ::
  "multiboot_mmap_entry \<Rightarrow> 'a bootinfo_globals_scheme \<Rightarrow> 'a bootinfo_globals_scheme" where
  "bootinfo_store_memory_range entry s =
     (if bootinfo_memory_range_count_value s \<ge> TERMOB_BOOTINFO_MAX_MEMORY_RANGES then s
      else if me_len entry = 0 \<or> me_addr entry \<ge> 0x100000000 then s
      else
        let end_address = me_addr entry + me_len entry;
            capped_end_address =
              (if end_address < me_addr entry \<or> end_address > 0x100000000 then 0x100000000
               else end_address);
            base_addr = (ucast (me_addr entry) :: u32);
            length = (ucast (capped_end_address - me_addr entry) :: u32)
        in if length = 0 then s
           else
             let i = bootinfo_memory_range_count_value s;
                 s1 = s\<lparr>bootinfo_memory_ranges := (bootinfo_memory_ranges s)
                          [i := \<lparr>br_base_addr = base_addr, br_length = length, br_type = me_type entry\<rparr>],
                        bootinfo_memory_range_count_value := i + 1\<rparr>
             in if me_type entry = TERMOB_MEMORY_TYPE_AVAILABLE
                then
                  let usable = bootinfo_usable_memory_bytes_value s1;
                      highest = bootinfo_highest_usable_address_value s1;
                      last = (ucast (capped_end_address - 1) :: u32)
                  in s1\<lparr>bootinfo_usable_memory_bytes_value :=
                          (if usable > UINT32_MAX - length then UINT32_MAX else usable + length),
                        bootinfo_highest_usable_address_value := (if last > highest then last else highest)\<rparr>
                else s1)"

text \<open>The loop over the entries of a memory map tag.\<close>

partial_function (option) bootinfo_entries ::
  "u32 \<Rightarrow> u32 \<Rightarrow> u32 \<Rightarrow> 'a bootinfo_globals_scheme \<Rightarrow> 'a bootinfo_globals_scheme option" where
  "bootinfo_entries entry_size tag_end entry_cursor s =
     (if entry_cursor + entry_size \<le> tag_end
      then bootinfo_entries entry_size tag_end (entry_cursor + entry_size)
             (bootinfo_store_memory_range (mmap_entry_at (mem s) entry_cursor) s)
      else Some s)"

definition bootinfo_mmap_tag ::
  "u32 \<Rightarrow> 'a bootinfo_globals_scheme \<Rightarrow> 'a bootinfo_globals_scheme option" where
  "bootinfo_mmap_tag tag s =
     (let entry_size = load32 (mem s) (tag + 8)
      in if entry_size \<ge> 24 then bootinfo_entries entry_size (tag + load32 (mem s) (tag + 4)) (tag + 16) s
         else Some s)"

text \<open>The loop over the tags.\<close>

partial_function (option) bootinfo_tags ::
  "u32 \<Rightarrow> u32 \<Rightarrow> 'a bootinfo_globals_scheme \<Rightarrow> 'a bootinfo_globals_scheme option" where
  "bootinfo_tags info_end tag s =
     (if tag + 8 \<le> info_end
      then
        if load32 (mem s) tag = MULTIBOOT_TAG_TYPE_END then Some s
        else do {
          s' \<leftarrow> (if load32 (mem s) tag = MULTIBOOT_TAG_TYPE_MMAP then bootinfo_mmap_tag tag s else Some s);
          if load32 (mem s') (tag + 4) < 8 then Some s'
          else bootinfo_tags info_end (bootinfo_align_up_u32 (tag + load32 (mem s') (tag + 4)) 8) s'
        }
      else Some s)"

definition bootinfo_init ::
  "u32 \<Rightarrow> u32 \<Rightarrow> 'a bootinfo_globals_scheme \<Rightarrow> 'a bootinfo_globals_scheme option" where
  "bootinfo_init multiboot_magic multiboot_info_addr s0 =
     (let s = bootinfo_reset s0
      in if multiboot_magic \<noteq> TERMOB_MULTIBOOT2_MAGIC \<or> multiboot_info_addr = 0 then Some s
         else
           let total_size = load32 (mem s) multiboot_info_addr
           in if total_size < 8 then Some s
              else do {
                s \<leftarrow> bootinfo_tags (multiboot_info_addr + total_size) (multiboot_info_addr + 8)
                       (s\<lparr>bootinfo_info_address := multiboot_info_addr, bootinfo_info_size := total_size\<rparr>);
                Some (if bootinfo_memory_range_count_value s \<noteq> 0 then s\<lparr>bootinfo_ready := True\<rparr> else s)
              })"

definition bootinfo_is_valid :: "'a bootinfo_globals_scheme \<Rightarrow> bool" where
  "bootinfo_is_valid s = bootinfo_ready s"

definition bootinfo_multiboot_info_address :: "'a bootinfo_globals_scheme \<Rightarrow> u32" where
  "bootinfo_multiboot_info_address s = bootinfo_info_address s"

definition bootinfo_multiboot_info_size :: "'a bootinfo_globals_scheme \<Rightarrow> u32" where
  "bootinfo_multiboot_info_size s = bootinfo_info_size s"

definition bootinfo_memory_range_count :: "'a bootinfo_globals_scheme \<Rightarrow> nat" where
  "bootinfo_memory_range_count s = bootinfo_memory_range_count_value s"

text \<open>\<open>None\<close> is a return value of 0; the caller's pointer is never null.\<close>

definition bootinfo_memory_range_at ::
  "nat \<Rightarrow> 'a bootinfo_globals_scheme \<Rightarrow> bootinfo_memory_range option" where
  "bootinfo_memory_range_at i s =
     (if \<not> bootinfo_ready s \<or> i \<ge> bootinfo_memory_range_count_value s then None
      else Some (bootinfo_memory_ranges s ! i))"

definition bootinfo_usable_memory_bytes :: "'a bootinfo_globals_scheme \<Rightarrow> u32" where
  "bootinfo_usable_memory_bytes s = bootinfo_usable_memory_bytes_value s"

definition bootinfo_highest_usable_address :: "'a bootinfo_globals_scheme \<Rightarrow> u32" where
  "bootinfo_highest_usable_address s = bootinfo_highest_usable_address_value s"

section \<open>What an entry describes\<close>

text \<open>
  The part of an entry below 4 GiB, in unbounded integers. A single entry for all of the 32-bit
  space has a length that a 32-bit field cannot hold and is dropped.
\<close>

definition clip_entry :: "multiboot_mmap_entry \<Rightarrow> (nat \<times> nat) option" where
  "clip_entry e =
     (let a = unat (me_addr e); n = min (a + unat (me_len e)) (2 ^ 32) - a
      in if me_len e = 0 \<or> a \<ge> 2 ^ 32 \<or> n = 2 ^ 32 then None else Some (a, n))"

definition entry_ranges :: "multiboot_mmap_entry \<Rightarrow> (nat \<times> nat \<times> u32) list" where
  "entry_ranges e = (case clip_entry e of None \<Rightarrow> [] | Some (a, n) \<Rightarrow> [(a, n, me_type e)])"

definition boot_table :: "'a bootinfo_globals_scheme \<Rightarrow> (nat \<times> nat \<times> u32) list" where
  "boot_table s = map (\<lambda>r. (unat (br_base_addr r), unat (br_length r), br_type r))
     (take (bootinfo_memory_range_count_value s) (bootinfo_memory_ranges s))"

definition available :: "(nat \<times> nat \<times> u32) list \<Rightarrow> (nat \<times> nat) list" where
  "available rs = map (\<lambda>(a, n, t). (a, n)) (filter (\<lambda>(a, n, t). t = TERMOB_MEMORY_TYPE_AVAILABLE) rs)"

definition bootinfo_wf :: "'a bootinfo_globals_scheme \<Rightarrow> bool" where
  "bootinfo_wf s \<longleftrightarrow>
     length (bootinfo_memory_ranges s) = TERMOB_BOOTINFO_MAX_MEMORY_RANGES \<and>
     bootinfo_memory_range_count_value s \<le> TERMOB_BOOTINFO_MAX_MEMORY_RANGES \<and>
     (\<forall>(a, n, t)\<in>set (boot_table s). 0 < n \<and> a + n \<le> 2 ^ 32) \<and>
     unat (bootinfo_usable_memory_bytes_value s) =
       min (sum_list (map snd (available (boot_table s)))) (2 ^ 32 - 1) \<and>
     unat (bootinfo_highest_usable_address_value s) =
       fold max (map (\<lambda>(a, n). a + n - 1) (available (boot_table s))) 0"

lemma bootinfo_reset_wf:
  "length (bootinfo_memory_ranges s) = TERMOB_BOOTINFO_MAX_MEMORY_RANGES \<Longrightarrow>
     bootinfo_wf (bootinfo_reset s) \<and> boot_table (bootinfo_reset s) = []"
  by (simp add: bootinfo_wf_def bootinfo_reset_def boot_table_def available_def)

text \<open>The 64-bit arithmetic of the source computes the clipped range.\<close>

lemma store_arith:
  fixes a n :: u64
  assumes "n \<noteq> 0" "\<not> a \<ge> 0x100000000"
  defines "c \<equiv> (if a + n < a \<or> a + n > 0x100000000 then 0x100000000 else a + n)"
  shows "unat c = min (unat a + unat n) (2 ^ 32)" "unat (c - a) = unat c - unat a" "unat a < unat c"
    "unat (ucast a :: u32) = unat a" "unat (ucast (c - a) :: u32) = (unat c - unat a) mod 2 ^ 32"
    "unat (ucast (c - 1) :: u32) = unat c - 1"
proof -
  have a: "unat a < 4294967296" using assms(2) by (simp add: word_le_nat_alt)
  have n: "0 < unat n" "unat n < 18446744073709551616"
    using assms(1) unsigned_less [of n, where ?'a = nat] by (simp_all add: unat_gt_0)
  have s: "unat (a + n) = (unat a + unat n) mod 18446744073709551616" by (simp add: unat_word_ariths)
  show c: "unat c = min (unat a + unat n) (2 ^ 32)"
  proof (cases "unat a + unat n < 18446744073709551616")
    case True
    then show ?thesis using s by (auto simp: c_def word_less_nat_alt)
  next
    case False
    then have "unat (a + n) = unat a + unat n - 18446744073709551616"
      using s a n by (simp add: mod_if)
    then show ?thesis using False a n by (auto simp: c_def word_less_nat_alt)
  qed
  show l: "unat a < unat c" using a n c by simp
  show d: "unat (c - a) = unat c - unat a" using l by (simp add: unat_sub word_le_nat_alt)
  show "unat (ucast a :: u32) = unat a" using a by (simp add: unsigned_ucast_eq take_bit_eq_mod)
  show "unat (ucast (c - a) :: u32) = (unat c - unat a) mod 2 ^ 32"
    using d by (simp add: unsigned_ucast_eq take_bit_eq_mod)
  have "unat (c - 1) = unat c - 1" using l by (simp add: unat_sub word_le_nat_alt)
  then show "unat (ucast (c - 1) :: u32) = unat c - 1"
    using c l by (simp add: unsigned_ucast_eq take_bit_eq_mod)
qed

lemma clip_entry_Some:
  assumes "me_len e \<noteq> 0" "\<not> me_addr e \<ge> 0x100000000"
  defines "a \<equiv> unat (me_addr e)" and "n \<equiv> min (unat (me_addr e) + unat (me_len e)) (2 ^ 32) - unat (me_addr e)"
  shows "clip_entry e = (if n mod 2 ^ 32 = 0 then None else Some (a, n))"
    "n mod 2 ^ 32 \<noteq> 0 \<Longrightarrow> n mod 2 ^ 32 = n" "a + n \<le> 2 ^ 32"
proof -
  have "a < 4294967296" "0 < unat (me_len e)"
    using assms(1,2) by (simp_all add: a_def word_le_nat_alt unat_gt_0)
  then have "0 < n" "n \<le> 4294967296" "a + n \<le> 4294967296" by (auto simp: n_def a_def)
  then show "n mod 2 ^ 32 \<noteq> 0 \<Longrightarrow> n mod 2 ^ 32 = n" "a + n \<le> 2 ^ 32"
    by (cases "n = 4294967296"; simp)+
  show "clip_entry e = (if n mod 2 ^ 32 = 0 then None else Some (a, n))"
  proof -
    have "clip_entry e = (if me_len e = 0 \<or> a \<ge> 2 ^ 32 \<or> n = 2 ^ 32 then None else Some (a, n))"
      by (simp add: clip_entry_def Let_def a_def n_def)
    then show ?thesis
      using assms(1) \<open>0 < n\<close> \<open>n \<le> 4294967296\<close> \<open>a < 4294967296\<close>
      by (cases "n = 4294967296") auto
  qed
qed

lemma boot_table_snoc:
  assumes "bootinfo_memory_range_count_value s < length (bootinfo_memory_ranges s)"
  shows "boot_table (s\<lparr>bootinfo_memory_ranges := (bootinfo_memory_ranges s)
      [bootinfo_memory_range_count_value s := r],
      bootinfo_memory_range_count_value := bootinfo_memory_range_count_value s + 1\<rparr>) =
    boot_table s @ [(unat (br_base_addr r), unat (br_length r), br_type r)]"
  using assms by (simp add: boot_table_def take_Suc_conv_app_nth)

lemma length_boot_table:
  "bootinfo_wf s \<Longrightarrow> length (boot_table s) = bootinfo_memory_range_count_value s"
  by (simp add: bootinfo_wf_def boot_table_def)

lemma bootinfo_store_full:
  assumes "bootinfo_wf s" "bootinfo_memory_range_count_value s \<ge> TERMOB_BOOTINFO_MAX_MEMORY_RANGES \<or> clip_entry e = None"
  shows "bootinfo_store_memory_range e s = s \<and>
    take TERMOB_BOOTINFO_MAX_MEMORY_RANGES (boot_table s @ entry_ranges e) = boot_table s"
proof -
  have "bootinfo_store_memory_range e s = s"
  proof (cases "me_len e = 0 \<or> me_addr e \<ge> 0x100000000 \<or>
      bootinfo_memory_range_count_value s \<ge> TERMOB_BOOTINFO_MAX_MEMORY_RANGES")
    case True
    then show ?thesis by (auto simp: bootinfo_store_memory_range_def)
  next
    case False
    then have h: "me_len e \<noteq> 0" "\<not> me_addr e \<ge> 0x100000000" by auto
    have "clip_entry e = None" using False assms(2) by auto
    then have z: "(min (unat (me_addr e) + unat (me_len e)) (2 ^ 32) - unat (me_addr e)) mod 2 ^ 32 = 0"
      using clip_entry_Some(1) [OF h] by (auto split: if_splits)
    note st = store_arith [OF h]
    have "ucast ((if me_addr e + me_len e < me_addr e \<or> me_addr e + me_len e > 0x100000000
        then 0x100000000 else me_addr e + me_len e) - me_addr e) = (0 :: u32)"
      using st(5) z unfolding st(1) by (simp only: word_unat_eq_iff unat_0)
    then show ?thesis using False by (simp add: bootinfo_store_memory_range_def Let_def)
  qed
  moreover have "take TERMOB_BOOTINFO_MAX_MEMORY_RANGES (boot_table s @ entry_ranges e) = boot_table s"
    using assms length_boot_table [OF assms(1)] by (auto simp: bootinfo_wf_def entry_ranges_def)
  ultimately show ?thesis ..
qed

lemma bootinfo_store_new:
  assumes wf: "bootinfo_wf s"
    and c: "bootinfo_memory_range_count_value s < TERMOB_BOOTINFO_MAX_MEMORY_RANGES" "clip_entry e = Some (a, n)"
  shows "bootinfo_wf (bootinfo_store_memory_range e s) \<and>
    boot_table (bootinfo_store_memory_range e s) = boot_table s @ [(a, n, me_type e)]"
proof -
  have h: "me_len e \<noteq> 0" "\<not> me_addr e \<ge> 0x100000000"
    using c(2) by (auto simp: clip_entry_def Let_def word_le_nat_alt split: if_splits)
  define d where "d = (if me_addr e + me_len e < me_addr e \<or> me_addr e + me_len e > 0x100000000
        then 0x100000000 else me_addr e + me_len e)"
  note st = store_arith [OF h, folded d_def] and cl = clip_entry_Some [OF h, folded st(1)]
  let ?b = "ucast (me_addr e) :: u32" and ?n = "ucast (d - me_addr e) :: u32"
  have an: "a = unat (me_addr e)" "n = unat d - unat (me_addr e)" "n mod 2 ^ 32 \<noteq> 0"
    using c(2) cl(1) by (auto split: if_splits)
  then have u: "unat ?b = a" "unat ?n = n" "0 < n" "a + n \<le> 2 ^ 32" "unat (ucast (d - 1) :: u32) = a + n - 1"
    using st(3-6) cl(2,3) by auto
  then have nz: "?n \<noteq> 0" by auto
  let ?s1 = "s\<lparr>bootinfo_memory_ranges := (bootinfo_memory_ranges s)
      [bootinfo_memory_range_count_value s := \<lparr>br_base_addr = ?b, br_length = ?n, br_type = me_type e\<rparr>],
      bootinfo_memory_range_count_value := bootinfo_memory_range_count_value s + 1\<rparr>"
  have t1: "boot_table ?s1 = boot_table s @ [(a, n, me_type e)]"
    using boot_table_snoc [of s "\<lparr>br_base_addr = ?b, br_length = ?n, br_type = me_type e\<rparr>"] wf c(1) u(1,2)
    by (simp add: bootinfo_wf_def)
  have len: "length (bootinfo_memory_ranges ?s1) = TERMOB_BOOTINFO_MAX_MEMORY_RANGES"
    "bootinfo_memory_range_count_value ?s1 \<le> TERMOB_BOOTINFO_MAX_MEMORY_RANGES"
    "\<forall>(a, n, t)\<in>set (boot_table ?s1). 0 < n \<and> a + n \<le> 2 ^ 32"
    using wf c(1) u(3,4) unfolding t1 by (auto simp: bootinfo_wf_def)
  have old: "unat (bootinfo_usable_memory_bytes_value s) =
       min (sum_list (map snd (available (boot_table s)))) (2 ^ 32 - 1)"
    "unat (bootinfo_highest_usable_address_value s) =
       fold max (map (\<lambda>(a, n). a + n - 1) (available (boot_table s))) 0"
    using wf by (simp_all add: bootinfo_wf_def)
  show ?thesis
  proof (cases "me_type e = TERMOB_MEMORY_TYPE_AVAILABLE")
    case False
    then have "bootinfo_store_memory_range e s = ?s1"
      using h c(1) nz unfolding bootinfo_store_memory_range_def Let_def d_def [symmetric] by simp
    moreover have "available (boot_table s @ [(a, n, me_type e)]) = available (boot_table s)"
      using False by (simp add: available_def)
    ultimately show ?thesis using t1 len old by (simp add: bootinfo_wf_def)
  next
    case True
    let ?u = "bootinfo_usable_memory_bytes_value s" and ?h = "bootinfo_highest_usable_address_value s"
    let ?u' = "if ?u > UINT32_MAX - ?n then UINT32_MAX else ?u + ?n"
    let ?h' = "if ucast (d - 1) > ?h then ucast (d - 1) else ?h"
    let ?s2 = "?s1\<lparr>bootinfo_usable_memory_bytes_value := ?u', bootinfo_highest_usable_address_value := ?h'\<rparr>"
    have e: "bootinfo_store_memory_range e s = ?s2"
      using h c(1) nz True unfolding bootinfo_store_memory_range_def Let_def d_def [symmetric] by simp
    have av: "available (boot_table s @ [(a, n, me_type e)]) = available (boot_table s) @ [(a, n)]"
      using True by (simp add: available_def)
    have "unat ?u' = min (sum_list (map snd (available (boot_table s))) + n) (2 ^ 32 - 1)"
      unfolding unat_saturating_add old(1) u(2) by (simp add: min_def)
    moreover have "unat ?h' = max (a + n - 1) (unat ?h)"
      using u(5) by (auto simp: word_less_nat_alt)
    moreover have t2: "boot_table ?s2 = boot_table s @ [(a, n, me_type e)]"
      using t1 by (simp add: boot_table_def)
    ultimately have "bootinfo_wf ?s2"
      unfolding bootinfo_wf_def t2 av using len [unfolded t1] old(2) by simp
    then show ?thesis unfolding e t2 by simp
  qed
qed

lemma bootinfo_store_spec:
  assumes "bootinfo_wf s"
  shows "bootinfo_wf (bootinfo_store_memory_range e s)"
    "boot_table (bootinfo_store_memory_range e s) =
       take TERMOB_BOOTINFO_MAX_MEMORY_RANGES (boot_table s @ entry_ranges e)"
proof -
  have "bootinfo_wf (bootinfo_store_memory_range e s) \<and> boot_table (bootinfo_store_memory_range e s) =
      take TERMOB_BOOTINFO_MAX_MEMORY_RANGES (boot_table s @ entry_ranges e)"
  proof (cases "bootinfo_memory_range_count_value s \<ge> TERMOB_BOOTINFO_MAX_MEMORY_RANGES \<or> clip_entry e = None")
    case True
    then show ?thesis using bootinfo_store_full [OF assms] assms by simp
  next
    case False
    then obtain a n where "clip_entry e = Some (a, n)"
      "bootinfo_memory_range_count_value s < TERMOB_BOOTINFO_MAX_MEMORY_RANGES" by auto
    then show ?thesis
      using bootinfo_store_new [OF assms] length_boot_table [OF assms] by (simp add: entry_ranges_def)
  qed
  then show "bootinfo_wf (bootinfo_store_memory_range e s)"
    "boot_table (bootinfo_store_memory_range e s) =
       take TERMOB_BOOTINFO_MAX_MEMORY_RANGES (boot_table s @ entry_ranges e)" by blast+
qed

text \<open>Reading entries writes the table and its two summaries and nothing else.\<close>

definition boot_frame :: "'a bootinfo_globals_scheme \<Rightarrow> 'a bootinfo_globals_scheme \<Rightarrow> bool" where
  "boot_frame s s' \<longleftrightarrow>
     (\<exists>rs n u h. s' = s\<lparr>bootinfo_memory_ranges := rs, bootinfo_memory_range_count_value := n,
        bootinfo_usable_memory_bytes_value := u, bootinfo_highest_usable_address_value := h\<rparr>)"

lemma boot_frameI:
  "s' = s\<lparr>bootinfo_memory_ranges := rs, bootinfo_memory_range_count_value := n,
      bootinfo_usable_memory_bytes_value := u, bootinfo_highest_usable_address_value := h\<rparr> \<Longrightarrow>
     boot_frame s s'"
  unfolding boot_frame_def by blast

lemma boot_frame_refl [simp]: "boot_frame s s"
  unfolding boot_frame_def
  by (intro exI [of _ "bootinfo_memory_ranges s"] exI [of _ "bootinfo_memory_range_count_value s"]
        exI [of _ "bootinfo_usable_memory_bytes_value s"]
        exI [of _ "bootinfo_highest_usable_address_value s"]) simp

lemma boot_frame_trans: "boot_frame s t \<Longrightarrow> boot_frame t u \<Longrightarrow> boot_frame s u"
proof -
  have "s\<lparr>bootinfo_memory_ranges := rs, bootinfo_memory_range_count_value := n,
      bootinfo_usable_memory_bytes_value := v, bootinfo_highest_usable_address_value := h\<rparr>
      \<lparr>bootinfo_memory_ranges := rs', bootinfo_memory_range_count_value := n',
        bootinfo_usable_memory_bytes_value := v', bootinfo_highest_usable_address_value := h'\<rparr> =
    s\<lparr>bootinfo_memory_ranges := rs', bootinfo_memory_range_count_value := n',
      bootinfo_usable_memory_bytes_value := v', bootinfo_highest_usable_address_value := h'\<rparr>"
    for rs n v h rs' n' v' h'
    by simp
  then show "boot_frame s t \<Longrightarrow> boot_frame t u \<Longrightarrow> boot_frame s u"
    unfolding boot_frame_def by blast
qed

lemma boot_frameD:
  assumes "boot_frame s s'"
  shows "mem s' = mem s" "bootinfo_ready s' = bootinfo_ready s"
    "bootinfo_info_address s' = bootinfo_info_address s" "bootinfo_info_size s' = bootinfo_info_size s"
    "heap_mem s' = heap_mem s" "heap_free_list s' = heap_free_list s"
    "heap_first_block s' = heap_first_block s" "heap_ready s' = heap_ready s"
    "heap_start_ptr s' = heap_start_ptr s" "heap_end_ptr s' = heap_end_ptr s"
  using assms by (auto simp: boot_frame_def)

lemma bootinfo_store_frame [simp]: "boot_frame s (bootinfo_store_memory_range e s)"
proof -
  have "boot_frame s (s\<lparr>bootinfo_memory_ranges := rs, bootinfo_memory_range_count_value := n\<rparr>)" for rs n
    by (rule boot_frameI [where u = "bootinfo_usable_memory_bytes_value s"
          and h = "bootinfo_highest_usable_address_value s"]) simp
  moreover have "boot_frame s (s\<lparr>bootinfo_memory_ranges := rs, bootinfo_memory_range_count_value := n,
      bootinfo_usable_memory_bytes_value := u, bootinfo_highest_usable_address_value := h\<rparr>)" for rs n u h
    by (rule boot_frameI) (rule refl)
  ultimately show ?thesis
    unfolding bootinfo_store_memory_range_def Let_def by (simp only: boot_frame_refl split: if_split) simp
qed

section \<open>Walking the tags\<close>

text \<open>
  \<open>entries_at m k a xs e\<close>: from address \<open>a\<close> on, memory \<open>m\<close> holds the entries \<open>xs\<close>, \<open>k\<close> bytes apart,
  and no further whole entry before \<open>e\<close>. \<open>tags_at m a ts e\<close>: from \<open>a\<close> on it holds tags that stay
  below \<open>e\<close> and are followed by an end tag or by \<open>e\<close>; \<open>ts\<close> has the entries of each of them.
\<close>

fun entries_at :: "(u32 \<Rightarrow> u8) \<Rightarrow> nat \<Rightarrow> nat \<Rightarrow> multiboot_mmap_entry list \<Rightarrow> nat \<Rightarrow> bool" where
  "entries_at m k a [] e \<longleftrightarrow> a + k < 2 ^ 32 \<and> e < a + k"
| "entries_at m k a (x # xs) e \<longleftrightarrow>
     a + k < 2 ^ 32 \<and> a + k \<le> e \<and> mmap_entry_at m (word_of_nat a) = x \<and> entries_at m k (a + k) xs e"

definition round8 :: "nat \<Rightarrow> nat" where
  "round8 n = (n + 7) div 8 * 8"

fun tags_at :: "(u32 \<Rightarrow> u8) \<Rightarrow> nat \<Rightarrow> multiboot_mmap_entry list list \<Rightarrow> nat \<Rightarrow> bool" where
  "tags_at m a [] e \<longleftrightarrow> e < a + 8 \<or> load32 m (word_of_nat a) = MULTIBOOT_TAG_TYPE_END"
| "tags_at m a (t # ts) e \<longleftrightarrow>
     a + 8 \<le> e \<and> load32 m (word_of_nat a) \<noteq> MULTIBOOT_TAG_TYPE_END \<and>
     (let n = unat (load32 m (word_of_nat (a + 4)));
          k = unat (load32 m (word_of_nat (a + 8)))
      in 8 \<le> n \<and> a + n \<le> e \<and>
         (if load32 m (word_of_nat a) = MULTIBOOT_TAG_TYPE_MMAP \<and> 24 \<le> k
          then entries_at m k (a + 16) t (a + n) else t = []) \<and>
         tags_at m (round8 (a + n)) ts e)"

lemma take_take_append: "take n (take n xs @ ys) = take n (xs @ ys)"
  by (cases "length xs \<le> n") simp_all

lemma bootinfo_entries_spec:
  "entries_at (mem s) (unat k) a xs (unat e) \<Longrightarrow> bootinfo_wf s \<Longrightarrow>
     \<exists>s'. bootinfo_entries k e (word_of_nat a) s = Some s' \<and> bootinfo_wf s' \<and> boot_frame s s' \<and>
       boot_table s' = take TERMOB_BOOTINFO_MAX_MEMORY_RANGES (boot_table s @ concat (map entry_ranges xs))"
proof (induction xs arbitrary: a s)
  case Nil
  then have "unat (word_of_nat a + k) = a + unat k" by (intro unat_word_of_nat_add) simp
  then have "\<not> word_of_nat a + k \<le> e" using Nil by (simp add: word_le_nat_alt)
  then show ?case
    using Nil length_boot_table [OF Nil(2)]
    by (auto simp: bootinfo_entries.simps [of k e "word_of_nat a"] bootinfo_wf_def)
next
  case (Cons x xs)
  have u: "unat (word_of_nat a + k) = a + unat k"
    using Cons.prems by (intro unat_word_of_nat_add) simp
  then have c: "word_of_nat a + k \<le> e" using Cons.prems by (simp add: word_le_nat_alt)
  have w: "word_of_nat (a + unat k) = word_of_nat a + k" by simp
  let ?s = "bootinfo_store_memory_range x s"
  note st = bootinfo_store_spec [OF Cons.prems(2), of x]
  from Cons.IH [of ?s "a + unat k"] Cons.prems(1) st(1) obtain s' where
    s': "bootinfo_entries k e (word_of_nat a + k) ?s = Some s'" "bootinfo_wf s'" "boot_frame ?s s'"
    "boot_table s' = take TERMOB_BOOTINFO_MAX_MEMORY_RANGES (boot_table ?s @ concat (map entry_ranges xs))"
    unfolding w boot_frameD(1) [OF bootinfo_store_frame] by auto
  have "bootinfo_entries k e (word_of_nat a) s = Some s'"
    using c s'(1) Cons.prems(1) by (simp add: bootinfo_entries.simps [of k e "word_of_nat a"])
  moreover have "boot_table s' =
      take TERMOB_BOOTINFO_MAX_MEMORY_RANGES (boot_table s @ concat (map entry_ranges (x # xs)))"
    unfolding s'(4) st(2) take_take_append by simp
  ultimately show ?case using s'(2) boot_frame_trans [OF bootinfo_store_frame s'(3)] by blast
qed

lemma round8_less: "n \<le> m \<Longrightarrow> round8 n < m + 8"
  unfolding round8_def by linarith

lemma unat_bootinfo_align_up:
  "unat v + 7 < 2 ^ 32 \<Longrightarrow> unat (bootinfo_align_up_u32 v 8) = round8 (unat v)"
proof -
  assume v: "unat v + 7 < 2 ^ 32"
  have "bootinfo_align_up_u32 v 8 = align_up_word v (2 ^ 3)"
    by (simp add: bootinfo_align_up_u32_def align_up_word_def)
  moreover have "unat (v + mask 3) = unat v + 7"
    using v by (subst unat_add_small) (simp_all add: mask_eq_exp_minus_1)
  ultimately show ?thesis by (simp only: unat_align_up round8_def) simp
qed

lemma bootinfo_mmap_tag_spec:
  fixes e :: u32
  assumes wf: "bootinfo_wf s" and a: "a + 8 \<le> unat e" "a + unat (load32 (mem s) (word_of_nat (a + 4))) \<le> unat e"
    and t: "if 24 \<le> unat (load32 (mem s) (word_of_nat (a + 8)))
      then entries_at (mem s) (unat (load32 (mem s) (word_of_nat (a + 8)))) (a + 16) t
        (a + unat (load32 (mem s) (word_of_nat (a + 4)))) else t = []"
  shows "\<exists>s'. bootinfo_mmap_tag (word_of_nat a) s = Some s' \<and> bootinfo_wf s' \<and> boot_frame s s' \<and>
    boot_table s' = take TERMOB_BOOTINFO_MAX_MEMORY_RANGES (boot_table s @ concat (map entry_ranges t))"
proof (cases "24 \<le> unat (load32 (mem s) (word_of_nat (a + 8)))")
  case True
  let ?n = "load32 (mem s) (word_of_nat (a + 4))" and ?k = "load32 (mem s) (word_of_nat (a + 8))"
  have u: "unat (word_of_nat a + ?n) = a + unat ?n"
    using a(2) u32_less [of e] by (intro unat_word_of_nat_add) linarith
  then have "entries_at (mem s) (unat ?k) (a + 16) t (unat (word_of_nat a + ?n))" using t True by simp
  from bootinfo_entries_spec [OF this wf] show ?thesis
    using True by (simp add: bootinfo_mmap_tag_def Let_def word_le_nat_alt)
next
  case False
  then show ?thesis using t wf length_boot_table [OF wf]
    by (auto simp: bootinfo_mmap_tag_def Let_def word_le_nat_alt bootinfo_wf_def)
qed

lemma bootinfo_tags_spec:
  "tags_at (mem s) a ts (unat e) \<Longrightarrow> bootinfo_wf s \<Longrightarrow> unat e + 16 \<le> 2 ^ 32 \<Longrightarrow> a < unat e + 8 \<Longrightarrow>
     \<exists>s'. bootinfo_tags e (word_of_nat a) s = Some s' \<and> bootinfo_wf s' \<and> boot_frame s s' \<and>
       boot_table s' = take TERMOB_BOOTINFO_MAX_MEMORY_RANGES
         (boot_table s @ concat (map entry_ranges (concat ts)))"
proof (induction ts arbitrary: a s)
  case Nil
  then have "unat (word_of_nat a + 8 :: u32) = a + 8"
    using unat_word_of_nat_add [of a 8] by simp
  then show ?case
    using Nil length_boot_table [OF Nil(2)]
    by (auto simp: bootinfo_tags.simps [of e "word_of_nat a"] bootinfo_wf_def word_le_nat_alt)
next
  case (Cons t ts)
  let ?n = "load32 (mem s) (word_of_nat (a + 4))"
  have c: "a + 8 \<le> unat e" "load32 (mem s) (word_of_nat a) \<noteq> 0" "8 \<le> unat ?n" "a + unat ?n \<le> unat e"
    "tags_at (mem s) (round8 (a + unat ?n)) ts (unat e)"
    using Cons.prems(1) by (auto simp: Let_def)
  have u: "unat (word_of_nat a + 8 :: u32) = a + 8" "unat (word_of_nat a + ?n) = a + unat ?n"
    using unat_word_of_nat_add [of a 8] unat_word_of_nat_add [of a ?n] c(1,4) Cons.prems(3) by simp_all
  let ?m = "if load32 (mem s) (word_of_nat a) = 6 then bootinfo_mmap_tag (word_of_nat a) s else Some s"
  obtain s1 where s1: "?m = Some s1" "bootinfo_wf s1" "boot_frame s s1"
    "boot_table s1 = take TERMOB_BOOTINFO_MAX_MEMORY_RANGES (boot_table s @ concat (map entry_ranges t))"
  proof (cases "load32 (mem s) (word_of_nat a) = 6")
    case True
    let ?k = "load32 (mem s) (word_of_nat (a + 8))"
    have "if 24 \<le> unat ?k then entries_at (mem s) (unat ?k) (a + 16) t (a + unat ?n) else t = []"
      using Cons.prems(1) True by (auto simp: Let_def simp del: of_nat_add)
    from bootinfo_mmap_tag_spec [OF Cons.prems(2) c(1,4) this] show ?thesis
      using that True by auto
  next
    case False
    then show ?thesis
      using that [of s] Cons.prems(1,2) length_boot_table [OF Cons.prems(2)]
      by (auto simp: Let_def bootinfo_wf_def)
  qed
  let ?a = "bootinfo_align_up_u32 (word_of_nat a + ?n) 8"
  have r: "unat ?a = round8 (a + unat ?n)"
    using unat_bootinfo_align_up [of "word_of_nat a + ?n"] u(2) c(4) Cons.prems(3) by simp
  have w: "word_of_nat (round8 (a + unat ?n)) = ?a" unfolding r [symmetric] by simp
  have "round8 (a + unat ?n) < unat e + 8" using c(4) by (rule round8_less)
  from Cons.IH [of s1 "round8 (a + unat ?n)"] this c(5) s1(2) boot_frameD(1) [OF s1(3)] Cons.prems(3) obtain s' where
    s': "bootinfo_tags e ?a s1 = Some s'" "bootinfo_wf s'" "boot_frame s1 s'" "boot_table s' =
      take TERMOB_BOOTINFO_MAX_MEMORY_RANGES (boot_table s1 @ concat (map entry_ranges (concat ts)))"
    unfolding w by auto
  have "bootinfo_tags e (word_of_nat a) s = Some s'"
    using c(1,2,3) u(1) s1(1) boot_frameD(1) [OF s1(3)] s'(1)
    by (simp add: bootinfo_tags.simps [of e "word_of_nat a"] word_le_nat_alt word_less_nat_alt not_less)
  then show ?case
    using s'(2,4) boot_frame_trans [OF s1(3) s'(3)] unfolding s1(4) take_take_append by simp
qed

section \<open>Properties\<close>

text \<open>
  C24. One entry of the memory map. On a well-formed table the entry's part below 4 GiB is appended,
  unless it is empty, the table already has 64 ranges, or it is all of the 32-bit space; the table
  stays well formed, so its usable byte count is the saturated sum of the available ranges and its
  highest address the largest last byte of one.
\<close>

theorem bootinfo_store_appends_clipped_range:
  assumes "bootinfo_wf s"
  shows "bootinfo_wf (bootinfo_store_memory_range e s) \<and>
    boot_table (bootinfo_store_memory_range e s) =
      take TERMOB_BOOTINFO_MAX_MEMORY_RANGES (boot_table s @ entry_ranges e)"
  using bootinfo_store_spec [OF assms] by blast

definition boot_bootinfo :: "(u32 \<Rightarrow> u8) \<Rightarrow> bootinfo_globals" where
  "boot_bootinfo m = heap_globals.extend (boot_globals\<lparr>mem := m\<rparr>)
     (bootinfo_globals.fields False 0 0
        (replicate TERMOB_BOOTINFO_MAX_MEMORY_RANGES \<lparr>br_base_addr = 0, br_length = 0, br_type = 0\<rparr>)
        0 0 0)"

lemmas boot_bootinfo_defs = boot_bootinfo_def boot_globals_defs bootinfo_globals.defs

lemma boot_bootinfo_wf: "bootinfo_wf (boot_bootinfo m)" "boot_table (boot_bootinfo m) = []"
  by (simp_all add: bootinfo_wf_def boot_bootinfo_defs boot_table_def available_def)

theorem bootinfo_store_appends_clipped_range_witness:
  "boot_table (bootinfo_store_memory_range \<lparr>me_addr = 0xFFFF0000, me_len = 0x20000, me_type = 1\<rparr>
     (boot_bootinfo (\<lambda>_. 0))) = [(0xFFFF0000, 0x10000, 1)]"
  using bootinfo_store_appends_clipped_range [OF boot_bootinfo_wf(1) [of "\<lambda>_. 0"],
      of "\<lparr>me_addr = 0xFFFF0000, me_len = 0x20000, me_type = 1\<rparr>"]
  by (simp add: boot_bootinfo_wf(2) entry_ranges_def clip_entry_def TERMOB_BOOTINFO_MAX_MEMORY_RANGES_def)

lemma bootinfo_init_spec:
  assumes "length (bootinfo_memory_ranges s) = TERMOB_BOOTINFO_MAX_MEMORY_RANGES" "addr \<noteq> 0"
    and "8 \<le> unat (load32 (mem s) addr)" "unat addr + unat (load32 (mem s) addr) + 16 \<le> 2 ^ 32"
    and "tags_at (mem s) (unat addr + 8) ts (unat addr + unat (load32 (mem s) addr))"
  shows "\<exists>s'. bootinfo_init TERMOB_MULTIBOOT2_MAGIC addr s = Some s' \<and> bootinfo_wf s' \<and>
    boot_table s' = take TERMOB_BOOTINFO_MAX_MEMORY_RANGES (concat (map entry_ranges (concat ts))) \<and>
    (bootinfo_ready s' \<longleftrightarrow> boot_table s' \<noteq> []) \<and>
    bootinfo_info_address s' = addr \<and> bootinfo_info_size s' = load32 (mem s) addr"
proof -
  let ?n = "load32 (mem s) addr"
  let ?s = "(bootinfo_reset s)\<lparr>bootinfo_info_address := addr, bootinfo_info_size := ?n\<rparr>"
  have r: "bootinfo_wf ?s" "boot_table ?s = []" "mem ?s = mem s" "mem (bootinfo_reset s) = mem s"
    "\<not> bootinfo_ready ?s"
    using bootinfo_reset_wf [OF assms(1)]
    by (simp_all add: bootinfo_wf_def boot_table_def bootinfo_reset_def)
  have e: "unat (addr + ?n) = unat addr + unat ?n" using assms(4) by (intro unat_add_small) simp
  have w: "word_of_nat (unat addr + 8) = addr + 8" by simp
  have "\<exists>s'. bootinfo_tags (addr + ?n) (addr + 8) ?s = Some s' \<and> bootinfo_wf s' \<and> boot_frame ?s s' \<and>
      boot_table s' = take TERMOB_BOOTINFO_MAX_MEMORY_RANGES (concat (map entry_ranges (concat ts)))"
    using bootinfo_tags_spec [of ?s "unat addr + 8" ts "addr + ?n"] assms(3-5) r(1,2)
    unfolding e r(3) w by simp
  then obtain s' where s': "bootinfo_tags (addr + ?n) (addr + 8) ?s = Some s'" "bootinfo_wf s'"
    "boot_frame ?s s'" "boot_table s' = take TERMOB_BOOTINFO_MAX_MEMORY_RANGES (concat (map entry_ranges (concat ts)))" by blast
  let ?t = "if bootinfo_memory_range_count_value s' \<noteq> 0 then s'\<lparr>bootinfo_ready := True\<rparr> else s'"
  have "bootinfo_init TERMOB_MULTIBOOT2_MAGIC addr s = Some ?t"
    using s'(1) assms(2,3) unfolding bootinfo_init_def Let_def r(4) by (simp add: word_less_nat_alt)
  moreover have "bootinfo_wf ?t" "boot_table ?t = boot_table s'"
    using s'(2) by (auto simp: bootinfo_wf_def boot_table_def)
  moreover have "bootinfo_ready ?t \<longleftrightarrow> boot_table s' \<noteq> []"
    using boot_frameD(2) [OF s'(3)] r(5) length_boot_table [OF s'(2)] by auto
  moreover have "bootinfo_info_address ?t = addr" "bootinfo_info_size ?t = ?n"
    using boot_frameD(3,4) [OF s'(3)] by simp_all
  ultimately show ?thesis using s'(4) by auto
qed

text \<open>
  C23. Reading the boot loader's information. When the information block lies in memory as the Multiboot2
  layout prescribes, \<^verbatim>\<open>bootinfo_init\<close> returns and the table holds the clipped ranges of all entries of all
  memory map tags in order, up to 64; it is valid exactly when there is at least one.
\<close>

theorem bootinfo_init_reads_memory_map:
  assumes "length (bootinfo_memory_ranges s) = TERMOB_BOOTINFO_MAX_MEMORY_RANGES" "addr \<noteq> 0"
    and "8 \<le> unat (load32 (mem s) addr)" "unat addr + unat (load32 (mem s) addr) + 16 \<le> 2 ^ 32"
    and "tags_at (mem s) (unat addr + 8) ts (unat addr + unat (load32 (mem s) addr))"
  shows "\<exists>s'. bootinfo_init TERMOB_MULTIBOOT2_MAGIC addr s = Some s' \<and> bootinfo_wf s' \<and>
    boot_table s' = take TERMOB_BOOTINFO_MAX_MEMORY_RANGES (concat (map entry_ranges (concat ts))) \<and>
    (bootinfo_is_valid s' \<longleftrightarrow> boot_table s' \<noteq> [])"
  using bootinfo_init_spec [OF assms] unfolding bootinfo_is_valid_def by blast

text \<open>An information block of one memory map tag with one entry and an end tag, at address 16.\<close>

definition example_info :: "u32 \<Rightarrow> u8" where
  "example_info a =
     (if a = 16 then 64 else if a = 24 then 6 else if a = 28 then 40 else if a = 32 then 24
      else if a = 42 then 0x10 else if a = 50 then 0xF0 else if a = 56 then 1 else 0)"

theorem bootinfo_init_reads_memory_map_witness:
  "\<exists>s'. bootinfo_init TERMOB_MULTIBOOT2_MAGIC 16 (boot_bootinfo example_info) = Some s' \<and>
     boot_table s' = [(0x100000, 0xF00000, 1)] \<and> bootinfo_is_valid s'"
proof -
  let ?e = "\<lparr>me_addr = 0x100000, me_len = 0xF00000, me_type = 1\<rparr>"
  let ?s = "boot_bootinfo example_info"
  have m: "mem ?s = example_info" by (simp add: boot_bootinfo_defs)
  have l: "load32 example_info 16 = 64" "load32 example_info 24 = 6" "load32 example_info 28 = 40"
    "load32 example_info 32 = 24" "load32 example_info 64 = 0" "mmap_entry_at example_info 40 = ?e"
    by (simp_all add: load32_def le32_def example_info_def mmap_entry_at_def load64_def push_bit_eq_mult)
  have t: "tags_at (mem ?s) (unat (16 :: u32) + 8) [[?e]] (unat (16 :: u32) + unat (load32 (mem ?s) 16))"
    unfolding m by (simp add: l Let_def round8_def)
  have "entry_ranges ?e = [(0x100000, 0xF00000, 1)]"
    by (simp add: entry_ranges_def clip_entry_def)
  moreover have "length (bootinfo_memory_ranges ?s) = TERMOB_BOOTINFO_MAX_MEMORY_RANGES"
    by (simp add: boot_bootinfo_defs)
  ultimately show ?thesis
    using bootinfo_init_reads_memory_map [OF _ _ _ _ t]
    by (auto simp: m l TERMOB_BOOTINFO_MAX_MEMORY_RANGES_def)
qed

end
