(* ===== verification/Registry.thy ===== *)
theory Registry
  imports Kernel_Prelude
begin

text \<open>
  The interface of an append-only registry: a registration that may be refused, a count, and access by
  index that the dump loops use to enumerate what is registered. \<open>entries\<close> is what a client can rely on
  of the state and \<open>stored\<close> what the registry keeps of a request. \<open>room\<close> is what decides about a
  request, and \<open>admit\<close> decides it: a request is refused, or taken with the room that is left.
\<close>

fun register_all ::
  "('i \<Rightarrow> 's \<Rightarrow> (bool \<times> 's) option) \<Rightarrow> 'i list \<Rightarrow> 's \<Rightarrow> (bool list \<times> 's) option" where
  "register_all reg [] s = Some ([], s)"
| "register_all reg (x # xs) s =
     do { (b, s') \<leftarrow> reg x s; (bs, s'') \<leftarrow> register_all reg xs s'; Some (b # bs, s'') }"

text \<open>The answers to a sequence of requests, and the room that is left.\<close>

fun admit_all :: "('i \<Rightarrow> 'r \<Rightarrow> 'r option) \<Rightarrow> 'i list \<Rightarrow> 'r \<Rightarrow> bool list \<times> 'r" where
  "admit_all admit [] r = ([], r)"
| "admit_all admit (x # xs) r =
     (case admit x r of
        None \<Rightarrow> map_prod ((#) False) id (admit_all admit xs r)
      | Some r' \<Rightarrow> map_prod ((#) True) id (admit_all admit xs r'))"

locale registry =
  fixes reg :: "'i \<Rightarrow> 's \<Rightarrow> (bool \<times> 's) option"
    and at_index :: "nat \<Rightarrow> 's \<Rightarrow> 'e option"
    and count_of :: "'s \<Rightarrow> nat"
    and rinv :: "'s \<Rightarrow> bool"
    and entries :: "'s \<Rightarrow> 'e list"
    and stored :: "'i \<Rightarrow> 'e"
    and room :: "'s \<Rightarrow> 'r"
    and admit :: "'i \<Rightarrow> 'r \<Rightarrow> 'r option"
  assumes refused: "rinv s \<Longrightarrow> admit x (room s) = None \<Longrightarrow>
      \<exists>s'. reg x s = Some (False, s') \<and> rinv s' \<and> entries s' = entries s \<and> room s' = room s"
    and taken: "rinv s \<Longrightarrow> admit x (room s) = Some r \<Longrightarrow>
      \<exists>s'. reg x s = Some (True, s') \<and> rinv s' \<and> entries s' = entries s @ [stored x] \<and> room s' = r"
    and at_law: "rinv s \<Longrightarrow> at_index i s = (if i < length (entries s) then Some (entries s ! i) else None)"
    and count_law: "rinv s \<Longrightarrow> count_of s = length (entries s)"
begin

lemma register_all_returns:
  "rinv s \<Longrightarrow> \<exists>s'. register_all reg xs s = Some (fst (admit_all admit xs (room s)), s') \<and> rinv s' \<and>
     entries s' = entries s @ map stored (map fst (filter snd (zip xs (fst (admit_all admit xs (room s)))))) \<and>
     room s' = snd (admit_all admit xs (room s))"
proof (induction xs arbitrary: s)
  case (Cons x xs)
  show ?case
  proof (cases "admit x (room s)")
    case None
    from refused [OF Cons.prems None] obtain s1 where
      1: "reg x s = Some (False, s1)" "rinv s1" "entries s1 = entries s" "room s1 = room s" by blast
    from Cons.IH [OF 1(2)] show ?thesis using 1 None by auto
  next
    case (Some r)
    from taken [OF Cons.prems Some] obtain s1 where
      1: "reg x s = Some (True, s1)" "rinv s1" "entries s1 = entries s @ [stored x]" "room s1 = r" by blast
    from Cons.IH [OF 1(2)] show ?thesis using 1 Some by auto
  qed
qed simp

lemma enumerates:
  "rinv s \<Longrightarrow> map (\<lambda>i. at_index i s) [0..<count_of s] = map Some (entries s) \<and>
     at_index (count_of s) s = None"
  by (auto simp: at_law count_law intro!: nth_equalityI)

end

end
