(* ===== verification/Console.thy ===== *)
theory Console
  imports Klog
begin

text \<open>
  The number printers. Every file of the kernel that reports to the terminal has a private copy of
  the same decimal and hexadecimal printers; the copies are definitions of the components and
  share the loops defined here. The lemmas show that the digits are those of the number.
\<close>

text \<open>The loop that fills \<^verbatim>\<open>digits[10]\<close>, least significant digit first.\<close>

fun u32_digits :: "nat \<Rightarrow> u32 \<Rightarrow> string" where
  "u32_digits 0 value = []"
| "u32_digits (Suc n) value =
     (if value > 0 then char_of (48 + unat (value mod 10)) # u32_digits n (value div 10) else [])"

definition console_write_u32 :: "u32 \<Rightarrow> 'a terminal_globals_scheme \<Rightarrow> 'a terminal_globals_scheme" where
  "console_write_u32 value s =
     (if value = 0 then terminal_putchar CHR ''0'' s
      else fold terminal_putchar (rev (u32_digits 10 value)) s)"

definition console_write_hex8 :: "u8 \<Rightarrow> 'a terminal_globals_scheme \<Rightarrow> 'a terminal_globals_scheme" where
  "console_write_hex8 value s =
     (let s = terminal_putchar (hex_digits ! unat (drop_bit 4 value AND 0x0F)) s
      in terminal_putchar (hex_digits ! unat (value AND 0x0F)) s)"

definition console_write_hex16 :: "u16 \<Rightarrow> 'a terminal_globals_scheme \<Rightarrow> 'a terminal_globals_scheme" where
  "console_write_hex16 value s =
     (let s = console_write_hex8 (ucast (drop_bit 8 value AND 0xFF)) s
      in console_write_hex8 (ucast (value AND 0xFF)) s)"

text \<open>Statements one after the other, as most of the reporting code is.\<close>

definition steps :: "('s \<Rightarrow> 's) list \<Rightarrow> 's \<Rightarrow> 's" where
  "steps fs s = fold (\<lambda>f. f) fs s"

lemma steps_simps [simp]: "steps [] s = s" "steps (f # fs) s = steps fs (f s)"
  by (simp_all add: steps_def)

section \<open>Reading the digits back\<close>

definition digit_value :: "char \<Rightarrow> nat" where
  "digit_value c = of_char c - 48"

fun read_decimal :: "string \<Rightarrow> nat" where
  "read_decimal [] = 0"
| "read_decimal (c # cs) = digit_value c + 10 * read_decimal cs"

lemma digit_value_char: "d < 10 \<Longrightarrow> digit_value (char_of (48 + d)) = d"
  by (simp add: digit_value_def of_char_of)

lemma u32_digits_value:
  "unat v < 10 ^ n \<Longrightarrow> read_decimal (u32_digits n v) = unat v"
proof (induction n v rule: u32_digits.induct)
  case (2 n v)
  have "unat (v div 10) < 10 ^ n" using "2.prems" by (simp add: unat_div less_mult_imp_div_less)
  moreover have "unat (v mod 10) < 10" by (simp add: unat_mod)
  ultimately show ?case
    using "2.IH" by (auto simp: digit_value_char unat_mod unat_div word_less_nat_alt)
qed simp

lemma u32_digits_all: "read_decimal (u32_digits 10 v) = unat v"
  by (rule u32_digits_value) (use u32_less [of v] in simp)

lemma console_write_u32_decimal:
  "v \<noteq> 0 \<Longrightarrow> \<exists>ds. console_write_u32 v s = fold terminal_putchar ds s \<and> read_decimal (rev ds) = unat v"
  by (rule exI [of _ "rev (u32_digits 10 v)"]) (simp add: console_write_u32_def u32_digits_all)

end
