(* ===== verification/Pmm.thy ===== *)
theory Pmm
  imports Bootinfo Kheap_Contract
begin

text \<open>
  The physical frame allocator (\<^verbatim>\<open>core/pmm.c\<close>): one bit per 4096-byte frame in a bitmap that lives in
  a heap block, a count of the free frames and the place where the next search starts. The bitmap
  bytes are bytes of \<open>mem\<close> behind the pointer \<open>pmm_bitmap\<close>. Loops over frame numbers run over the
  numbers from the first to the one before the last; no frame number is above 2^20, so the counter
  of the source does not wrap. \<^verbatim>\<open>&__kernel_end\<close> is a linker symbol and an argument of \<open>pmm_init\<close>.
\<close>

section \<open>State\<close>

abbreviation (input) PMM_FRAME_SIZE :: u32 where "PMM_FRAME_SIZE \<equiv> 0x1000"
abbreviation (input) TERMOB_KERNEL_LOAD_ADDRESS :: u32 where "TERMOB_KERNEL_LOAD_ADDRESS \<equiv> 0x00100000"

record pmm_globals = bootinfo_globals +
  pmm_bitmap :: u32
  pmm_bitmap_size_bytes :: u32
  pmm_total_frames_count :: u32
  pmm_free_frames_count :: u32
  pmm_next_search_frame :: u32
  pmm_ready :: bool

section \<open>Operations\<close>

definition pmm_align_up_u32 :: "u32 \<Rightarrow> u32 \<Rightarrow> u32" where
  "pmm_align_up_u32 value alignment = (value + (alignment - 1)) AND NOT (alignment - 1)"

definition pmm_align_down_u32 :: "u32 \<Rightarrow> u32 \<Rightarrow> u32" where
  "pmm_align_down_u32 value alignment = value AND NOT (alignment - 1)"

definition pmm_bitmap_index :: "u32 \<Rightarrow> u32" where
  "pmm_bitmap_index frame_index = drop_bit 3 frame_index"

definition pmm_bitmap_mask :: "u32 \<Rightarrow> u8" where
  "pmm_bitmap_mask frame_index = ucast (push_bit (unat (frame_index AND 7)) (1 :: u32))"

definition pmm_frame_is_used :: "u32 \<Rightarrow> 'a pmm_globals_scheme \<Rightarrow> bool" where
  "pmm_frame_is_used frame_index s =
     (mem s (pmm_bitmap s + pmm_bitmap_index frame_index) AND pmm_bitmap_mask frame_index \<noteq> 0)"

definition pmm_mark_frame_used :: "u32 \<Rightarrow> 'a pmm_globals_scheme \<Rightarrow> 'a pmm_globals_scheme" where
  "pmm_mark_frame_used frame_index s =
     (if frame_index \<ge> pmm_total_frames_count s \<or> pmm_frame_is_used frame_index s then s
      else
        let a = pmm_bitmap s + pmm_bitmap_index frame_index;
            s = s\<lparr>mem := (mem s)(a := mem s a OR pmm_bitmap_mask frame_index)\<rparr>
        in if pmm_free_frames_count s > 0
           then s\<lparr>pmm_free_frames_count := pmm_free_frames_count s - 1\<rparr> else s)"

definition pmm_mark_frame_free :: "u32 \<Rightarrow> 'a pmm_globals_scheme \<Rightarrow> 'a pmm_globals_scheme" where
  "pmm_mark_frame_free frame_index s =
     (if frame_index \<ge> pmm_total_frames_count s \<or> \<not> pmm_frame_is_used frame_index s then s
      else
        let a = pmm_bitmap s + pmm_bitmap_index frame_index
        in s\<lparr>mem := (mem s)(a := mem s a AND NOT (pmm_bitmap_mask frame_index)),
             pmm_free_frames_count := pmm_free_frames_count s + 1\<rparr>)"

text \<open>The frame numbers of a loop from \<open>a\<close> to below \<open>b\<close>.\<close>

definition frame_range :: "u32 \<Rightarrow> u32 \<Rightarrow> u32 list" where
  "frame_range a b = map word_of_nat [unat a..<unat b]"

definition pmm_release_region :: "u32 \<Rightarrow> u32 \<Rightarrow> 'a pmm_globals_scheme \<Rightarrow> 'a pmm_globals_scheme" where
  "pmm_release_region base_addr len s =
     (if len = 0 then s
      else
        let the_end = (if base_addr > UINT32_MAX - len then UINT32_MAX else base_addr + len);
            start = pmm_align_up_u32 base_addr PMM_FRAME_SIZE;
            the_end = pmm_align_down_u32 the_end PMM_FRAME_SIZE
        in if the_end \<le> start then s
           else fold pmm_mark_frame_free
                  (frame_range (start div PMM_FRAME_SIZE) (the_end div PMM_FRAME_SIZE)) s)"

definition pmm_reserve_region :: "u32 \<Rightarrow> u32 \<Rightarrow> 'a pmm_globals_scheme \<Rightarrow> 'a pmm_globals_scheme" where
  "pmm_reserve_region base_addr len s =
     (if len = 0 then s
      else
        let the_end = (if base_addr > UINT32_MAX - len then UINT32_MAX else base_addr + len);
            start_frame = base_addr div PMM_FRAME_SIZE;
            end_frame = pmm_align_up_u32 the_end PMM_FRAME_SIZE div PMM_FRAME_SIZE;
            end_frame = (if end_frame > pmm_total_frames_count s then pmm_total_frames_count s else end_frame)
        in fold pmm_mark_frame_used (frame_range start_frame end_frame) s)"

text \<open>
  The loop of \<^verbatim>\<open>pmm_init\<close> over the memory ranges. It ends because marking frames leaves the table of
  ranges alone.
\<close>

lemma pmm_mark_frame_boot:
  "bootinfo_memory_range_at i (pmm_mark_frame_free f s) = bootinfo_memory_range_at i s"
  "bootinfo_memory_range_count_value (pmm_mark_frame_free f s) = bootinfo_memory_range_count_value s"
  by (simp_all add: pmm_mark_frame_free_def Let_def bootinfo_memory_range_at_def)

lemma fold_mark_free_boot:
  "bootinfo_memory_range_at i (fold pmm_mark_frame_free fs s) = bootinfo_memory_range_at i s"
  "bootinfo_memory_range_count_value (fold pmm_mark_frame_free fs s) = bootinfo_memory_range_count_value s"
  by (induction fs arbitrary: s) (simp_all add: pmm_mark_frame_boot)

lemma pmm_release_region_boot [simp]:
  "bootinfo_memory_range_at i (pmm_release_region b n s) = bootinfo_memory_range_at i s"
  "bootinfo_memory_range_count_value (pmm_release_region b n s) = bootinfo_memory_range_count_value s"
  by (simp_all add: pmm_release_region_def Let_def fold_mark_free_boot)

function pmm_release_ranges :: "nat \<Rightarrow> 'a pmm_globals_scheme \<Rightarrow> 'a pmm_globals_scheme" where
  "pmm_release_ranges range_index s =
     (case bootinfo_memory_range_at range_index s of
        None \<Rightarrow> s
      | Some r \<Rightarrow>
          pmm_release_ranges (range_index + 1)
            (if br_type r = TERMOB_MEMORY_TYPE_AVAILABLE
             then pmm_release_region (br_base_addr r) (br_length r) s else s))"
  by pat_completeness auto
termination
  by (relation "measure (\<lambda>(i, s). bootinfo_memory_range_count_value s - i)")
    (auto simp: bootinfo_memory_range_at_def split: if_splits)

declare pmm_release_ranges.simps [simp del]

definition pmm_fill_bitmap :: "'a pmm_globals_scheme \<Rightarrow> 'a pmm_globals_scheme" where
  "pmm_fill_bitmap s =
     fold (\<lambda>bitmap_index s. s\<lparr>mem := (mem s)(pmm_bitmap s + word_of_nat bitmap_index := 0xFF)\<rparr>)
       [0..<unat (pmm_bitmap_size_bytes s)] s"

text \<open>The number of frames up to the highest usable address.\<close>

definition pmm_frames_up_to :: "u32 \<Rightarrow> u32" where
  "pmm_frames_up_to highest_usable_address =
     (if highest_usable_address = UINT32_MAX then UINT32_MAX div PMM_FRAME_SIZE + 1
      else pmm_align_up_u32 (highest_usable_address + 1) PMM_FRAME_SIZE div PMM_FRAME_SIZE)"

text \<open>The five calls at the end of \<^verbatim>\<open>pmm_init\<close>.\<close>

definition pmm_reserve_all :: "u32 \<Rightarrow> 'a pmm_globals_scheme \<Rightarrow> 'a pmm_globals_scheme" where
  "pmm_reserve_all kernel_end s =
     (let s = pmm_reserve_region 0 TERMOB_KERNEL_LOAD_ADDRESS s;
          s = pmm_reserve_region TERMOB_KERNEL_LOAD_ADDRESS
                (pmm_align_up_u32 kernel_end PMM_FRAME_SIZE - TERMOB_KERNEL_LOAD_ADDRESS) s;
          s = pmm_reserve_region (heap_start_address s) (heap_end_address s - heap_start_address s) s;
          s = pmm_reserve_region (bootinfo_multiboot_info_address s) (bootinfo_multiboot_info_size s) s
      in pmm_reserve_region (pmm_bitmap s) (pmm_bitmap_size_bytes s) s)"

definition pmm_init :: "u32 \<Rightarrow> 'a pmm_globals_scheme \<Rightarrow> 'a pmm_globals_scheme option" where
  "pmm_init kernel_end s0 =
     (let s = s0\<lparr>pmm_bitmap := 0, pmm_bitmap_size_bytes := 0, pmm_total_frames_count := 0,
                 pmm_free_frames_count := 0, pmm_next_search_frame := 0, pmm_ready := False\<rparr>
      in if \<not> bootinfo_is_valid s \<or> \<not> heap_is_initialized s then Some s
         else
           let highest_usable_address = bootinfo_highest_usable_address s
           in if highest_usable_address < PMM_FRAME_SIZE - 1 then Some s
              else
                let total = pmm_frames_up_to highest_usable_address;
                    s = s\<lparr>pmm_total_frames_count := total, pmm_bitmap_size_bytes := (total + 7) div 8\<rparr>
                in do {
                     (bitmap, s) \<leftarrow> kcalloc (pmm_bitmap_size_bytes s) 1 s;
                     let s = s\<lparr>pmm_bitmap := bitmap\<rparr>;
                     Some
                       (if bitmap = 0 then s\<lparr>pmm_bitmap_size_bytes := 0, pmm_total_frames_count := 0\<rparr>
                        else (pmm_reserve_all kernel_end (pmm_release_ranges 0 (pmm_fill_bitmap s)))\<lparr>pmm_ready := True\<rparr>)
                   })"

definition pmm_is_initialized :: "'a pmm_globals_scheme \<Rightarrow> bool" where
  "pmm_is_initialized s = pmm_ready s"

text \<open>One search loop of \<^verbatim>\<open>pmm_alloc_frame\<close> over the frames from \<open>a\<close> to below \<open>b\<close>.\<close>

definition pmm_search :: "u32 \<Rightarrow> u32 \<Rightarrow> 'a pmm_globals_scheme \<Rightarrow> u32 option" where
  "pmm_search a b s = List.find (\<lambda>frame_index. \<not> pmm_frame_is_used frame_index s) (frame_range a b)"

definition pmm_take :: "u32 \<Rightarrow> 'a pmm_globals_scheme \<Rightarrow> u32 \<times> 'a pmm_globals_scheme" where
  "pmm_take frame_index s =
     (frame_index * PMM_FRAME_SIZE,
      (pmm_mark_frame_used frame_index s)\<lparr>pmm_next_search_frame := frame_index + 1\<rparr>)"

definition pmm_alloc_frame :: "'a pmm_globals_scheme \<Rightarrow> u32 \<times> 'a pmm_globals_scheme" where
  "pmm_alloc_frame s =
     (if \<not> pmm_ready s \<or> pmm_free_frames_count s = 0 then (0, s)
      else case pmm_search (pmm_next_search_frame s) (pmm_total_frames_count s) s of
        Some frame_index \<Rightarrow> pmm_take frame_index s
      | None \<Rightarrow>
          (case pmm_search 0 (pmm_next_search_frame s) s of
             Some frame_index \<Rightarrow> pmm_take frame_index s
           | None \<Rightarrow> (0, s)))"

definition pmm_free_frame :: "u32 \<Rightarrow> 'a pmm_globals_scheme \<Rightarrow> 'a pmm_globals_scheme" where
  "pmm_free_frame physical_address s =
     (if \<not> pmm_ready s \<or> physical_address AND (PMM_FRAME_SIZE - 1) \<noteq> 0 then s
      else
        let frame_index = physical_address div PMM_FRAME_SIZE
        in if frame_index \<ge> pmm_total_frames_count s then s
           else
             let s = pmm_mark_frame_free frame_index s
             in if frame_index < pmm_next_search_frame s
                then s\<lparr>pmm_next_search_frame := frame_index\<rparr> else s)"

definition pmm_frame_size :: u32 where
  "pmm_frame_size = PMM_FRAME_SIZE"

definition pmm_total_frames :: "'a pmm_globals_scheme \<Rightarrow> u32" where
  "pmm_total_frames s = pmm_total_frames_count s"

definition pmm_free_frames :: "'a pmm_globals_scheme \<Rightarrow> u32" where
  "pmm_free_frames s = pmm_free_frames_count s"

definition pmm_used_frames :: "'a pmm_globals_scheme \<Rightarrow> u32" where
  "pmm_used_frames s = pmm_total_frames_count s - pmm_free_frames_count s"

definition pmm_total_bytes :: "'a pmm_globals_scheme \<Rightarrow> u32" where
  "pmm_total_bytes s = pmm_total_frames_count s * PMM_FRAME_SIZE"

definition pmm_free_bytes :: "'a pmm_globals_scheme \<Rightarrow> u32" where
  "pmm_free_bytes s = pmm_free_frames_count s * PMM_FRAME_SIZE"

definition pmm_used_bytes :: "'a pmm_globals_scheme \<Rightarrow> u32" where
  "pmm_used_bytes s = (pmm_total_frames_count s - pmm_free_frames_count s) * PMM_FRAME_SIZE"

definition pmm_bitmap_bytes :: "'a pmm_globals_scheme \<Rightarrow> u32" where
  "pmm_bitmap_bytes s = pmm_bitmap_size_bytes s"

end
