(* ===== verification/Paging.thy ===== *)
theory Paging
  imports Pmm
begin

unbundle bit_operations_syntax

text \<open>
  Paging (\<^verbatim>\<open>core/paging.c\<close>): one page directory and the page tables that map the first megabytes to
  themselves, all in frames of the frame allocator. The tables are bytes of \<open>mem\<close>, as the processor
  reads them; the control registers are fields of the state.
\<close>

abbreviation (input) PAGING_PAGE_SIZE :: u32 where "PAGING_PAGE_SIZE \<equiv> 0x1000"
abbreviation (input) PAGING_TABLE_ENTRIES :: nat where "PAGING_TABLE_ENTRIES \<equiv> 1024"
abbreviation (input) PAGING_DIRECTORY_ENTRIES :: u32 where "PAGING_DIRECTORY_ENTRIES \<equiv> 1024"
abbreviation (input) PAGING_BYTES_PER_TABLE :: u32 where "PAGING_BYTES_PER_TABLE \<equiv> 0x400000"
abbreviation (input) PAGING_MIN_IDENTITY_BYTES :: u32 where "PAGING_MIN_IDENTITY_BYTES \<equiv> 0x1000000"
abbreviation (input) PAGING_FLAG_PRESENT :: u32 where "PAGING_FLAG_PRESENT \<equiv> 1"
abbreviation (input) PAGING_FLAG_RW :: u32 where "PAGING_FLAG_RW \<equiv> 2"

record paging_globals = pmm_globals +
  paging_directory_physical :: u32
  paging_identity_bytes :: u32
  paging_tables_count :: u32
  paging_ready :: bool
  cpu_cr0 :: u32
  cpu_cr3 :: u32

definition paging_align_up_u32 :: "u32 \<Rightarrow> u32 \<Rightarrow> u32" where
  "paging_align_up_u32 value alignment = (value + (alignment - 1)) AND NOT (alignment - 1)"

definition paging_zero_page :: "u32 \<Rightarrow> 'a paging_globals_scheme \<Rightarrow> 'a paging_globals_scheme" where
  "paging_zero_page physical_address s =
     fold (\<lambda>index s. s\<lparr>mem := store32 (physical_address + 4 * word_of_nat index) 0 (mem s)\<rparr>) [0..<1024] s"

definition paging_identity_limit_bytes :: "'a paging_globals_scheme \<Rightarrow> u32" where
  "paging_identity_limit_bytes s =
     (let limit = heap_end_address s;
          limit = (if limit < PAGING_MIN_IDENTITY_BYTES then PAGING_MIN_IDENTITY_BYTES else limit);
          bootinfo_end = bootinfo_multiboot_info_address s + bootinfo_multiboot_info_size s;
          limit = (if bootinfo_is_valid s \<and> bootinfo_end > limit then bootinfo_end else limit)
      in paging_align_up_u32 limit PAGING_BYTES_PER_TABLE)"

text \<open>The loop over the entries of one table; it returns the next physical address to map.\<close>

primrec paging_fill_table ::
  "nat \<Rightarrow> u32 \<Rightarrow> u32 \<Rightarrow> u32 \<Rightarrow> 'a paging_globals_scheme \<Rightarrow> u32 \<times> 'a paging_globals_scheme" where
  "paging_fill_table 0 page_index page_table physical_address s = (physical_address, s)"
| "paging_fill_table (Suc n) page_index page_table physical_address s =
     (if physical_address < paging_identity_bytes s
      then paging_fill_table n (page_index + 1) page_table (physical_address + PAGING_PAGE_SIZE)
             (s\<lparr>mem := store32 (page_table + 4 * page_index)
                        (physical_address OR PAGING_FLAG_PRESENT OR PAGING_FLAG_RW) (mem s)\<rparr>)
      else (physical_address, s))"

text \<open>The loop over the tables. The flag says whether every table got its frame.\<close>

primrec paging_map_tables ::
  "nat \<Rightarrow> u32 \<Rightarrow> u32 \<Rightarrow> 'a paging_globals_scheme \<Rightarrow> bool \<times> 'a paging_globals_scheme" where
  "paging_map_tables 0 table_index physical_address s = (True, s)"
| "paging_map_tables (Suc n) table_index physical_address s =
     (let (table_physical, s) = pmm_alloc_frame s
      in if table_physical = 0
         then (False, s\<lparr>paging_directory_physical := 0, paging_identity_bytes := 0, paging_tables_count := 0\<rparr>)
         else
           let s = paging_zero_page table_physical s;
               (physical_address, s) = paging_fill_table PAGING_TABLE_ENTRIES 0 table_physical physical_address s;
               s = s\<lparr>mem := store32 (paging_directory_physical s + 4 * table_index)
                               (table_physical OR PAGING_FLAG_PRESENT OR PAGING_FLAG_RW) (mem s)\<rparr>
           in paging_map_tables n (table_index + 1) physical_address s)"

definition paging_init :: "'a paging_globals_scheme \<Rightarrow> 'a paging_globals_scheme" where
  "paging_init s0 =
     (let s = s0\<lparr>paging_directory_physical := 0, paging_identity_bytes := 0, paging_tables_count := 0,
                 paging_ready := False\<rparr>
      in if \<not> pmm_is_initialized s \<or> \<not> heap_is_initialized s then s
         else
           let identity = paging_identity_limit_bytes s;
               tables = identity div PAGING_BYTES_PER_TABLE
           in if tables = 0 \<or> tables > PAGING_DIRECTORY_ENTRIES then s
              else
                let s = s\<lparr>paging_identity_bytes := identity, paging_tables_count := tables\<rparr>;
                    (directory, s) = pmm_alloc_frame s;
                    s = s\<lparr>paging_directory_physical := directory\<rparr>
                in if directory = 0 then s\<lparr>paging_identity_bytes := 0, paging_tables_count := 0\<rparr>
                   else
                     let (mapped, s) = paging_map_tables (unat tables) 0 0 (paging_zero_page directory s)
                     in if mapped
                        then s\<lparr>cpu_cr3 := paging_directory_physical s, cpu_cr0 := cpu_cr0 s OR 0x80000000,
                               paging_ready := True\<rparr>
                        else s)"

definition paging_is_enabled :: "'a paging_globals_scheme \<Rightarrow> bool" where
  "paging_is_enabled s = paging_ready s"

definition paging_directory_physical_address :: "'a paging_globals_scheme \<Rightarrow> u32" where
  "paging_directory_physical_address s = paging_directory_physical s"

definition paging_identity_mapped_bytes :: "'a paging_globals_scheme \<Rightarrow> u32" where
  "paging_identity_mapped_bytes s = paging_identity_bytes s"

definition paging_table_count :: "'a paging_globals_scheme \<Rightarrow> u32" where
  "paging_table_count s = paging_tables_count s"

definition paging_page_size_bytes :: u32 where
  "paging_page_size_bytes = PAGING_PAGE_SIZE"

section \<open>The state at boot\<close>

definition zeroed_paging :: paging_globals where
  "zeroed_paging = pmm_globals.extend (bootinfo_globals.extend (boot_bootinfo (\<lambda>_. 0)) (pmm_globals.fields 0 0 0 0 0 False))
     (paging_globals.fields 0 0 0 False 0 0)"

lemmas zeroed_paging_defs = zeroed_paging_def pmm_globals.defs paging_globals.defs boot_bootinfo_def
  bootinfo_globals.defs boot_globals_defs

end
