(* ===== verification/Block.thy ===== *)
theory Block
  imports Kheap_Contract Registry Console Paging
begin

text \<open>
  The block device layer (\<^verbatim>\<open>core/block.c\<close>). The list of devices is linked through its nodes: a node
  is a record at the address \<^verbatim>\<open>kmalloc\<close> gave it, and 0 is the null pointer. The read callback of a
  device is a function of the driver: for the private data, a sector number and a count it yields the
  bytes it puts at the start of the buffer, or \<open>None\<close> when it returns 0. A driver's own state is not
  part of this layer.
\<close>

section \<open>State\<close>

record termob_block_device =
  bd_name :: "string option"
  bd_driver_name :: "string option"
  bd_sector_size_bytes :: u32
  bd_sector_count :: u32
  bd_read :: "(u32 \<Rightarrow> u32 \<Rightarrow> u32 \<Rightarrow> u8 list option) option"
  bd_private_data :: u32

record block_device_node =
  bn_device :: termob_block_device
  bn_next :: u32

record block_globals = paging_globals +
  block_ready :: bool
  block_device_list :: u32
  block_device_count_value :: nat
  block_nodes :: "u32 \<Rightarrow> block_device_node"

definition zero_block_nodes :: "u32 \<Rightarrow> block_device_node" where
  "zero_block_nodes = (\<lambda>_. \<lparr>bn_device = \<lparr>bd_name = None, bd_driver_name = None, bd_sector_size_bytes = 0,
     bd_sector_count = 0, bd_read = None, bd_private_data = 0\<rparr>, bn_next = 0\<rparr>)"

abbreviation (input) BLOCK_NODE_SIZE :: u32 where "BLOCK_NODE_SIZE \<equiv> 28"

definition block_write_u32 :: "u32 \<Rightarrow> 'a block_globals_scheme \<Rightarrow> 'a block_globals_scheme" where
  "block_write_u32 value s = console_write_u32 value s"

definition block_log_event :: "string \<Rightarrow> 'a block_globals_scheme \<Rightarrow> 'a block_globals_scheme" where
  "block_log_event message s = serial_writeline message (klog_writeline message s)"

section \<open>Operations\<close>

definition block_init :: "'a block_globals_scheme \<Rightarrow> 'a block_globals_scheme" where
  "block_init s =
     (let s = s\<lparr>block_ready := False, block_device_list := 0, block_device_count_value := 0\<rparr>
      in if \<not> heap_is_initialized s then s else s\<lparr>block_ready := True\<rparr>)"

definition block_is_initialized :: "'a block_globals_scheme \<Rightarrow> bool" where
  "block_is_initialized s = block_ready s"

text \<open>The walk to the last node, which ends when the list does.\<close>

partial_function (option) block_tail :: "(u32 \<Rightarrow> block_device_node) \<Rightarrow> u32 \<Rightarrow> u32 option" where
  "block_tail nodes tail =
     (if bn_next (nodes tail) \<noteq> 0 then block_tail nodes (bn_next (nodes tail)) else Some tail)"

definition block_append_node :: "u32 \<Rightarrow> 'a block_globals_scheme \<Rightarrow> 'a block_globals_scheme option" where
  "block_append_node node s =
     (if block_device_list s = 0 then Some (s\<lparr>block_device_list := node\<rparr>)
      else do {
        tail \<leftarrow> block_tail (block_nodes s) (block_device_list s);
        Some (s\<lparr>block_nodes := (block_nodes s)(tail := (block_nodes s tail)\<lparr>bn_next := node\<rparr>)\<rparr>)
      })"

definition block_register_device ::
  "termob_block_device option \<Rightarrow> 'a block_globals_scheme \<Rightarrow> (bool \<times> 'a block_globals_scheme) option" where
  "block_register_device device s =
     (case device of
        None \<Rightarrow> Some (False, s)
      | Some d \<Rightarrow>
          if \<not> block_ready s \<or> bd_name d = None then Some (False, s)
          else do {
            (node, s) \<leftarrow> kmalloc BLOCK_NODE_SIZE s;
            if node = 0 then Some (False, s)
            else do {
              s \<leftarrow> block_append_node node
                    (s\<lparr>block_nodes := (block_nodes s)(node := \<lparr>bn_device = d, bn_next = 0\<rparr>)\<rparr>);
              let s = s\<lparr>block_device_count_value := block_device_count_value s + 1\<rparr>;
              Some (True, block_log_event ''TERMOB: block device registered'' s)
            }
          })"

definition block_device_count :: "'a block_globals_scheme \<Rightarrow> nat" where
  "block_device_count s = block_device_count_value s"

text \<open>The walk along the list; \<open>left\<close> is the difference of \<^verbatim>\<open>index\<close> and \<^verbatim>\<open>cursor\<close>.\<close>

primrec block_device_walk :: "(u32 \<Rightarrow> block_device_node) \<Rightarrow> u32 \<Rightarrow> nat \<Rightarrow> termob_block_device option" where
  "block_device_walk nodes node 0 = (if node = 0 then None else Some (bn_device (nodes node)))"
| "block_device_walk nodes node (Suc left) =
     (if node = 0 then None else block_device_walk nodes (bn_next (nodes node)) left)"

definition block_device_at :: "nat \<Rightarrow> 'a block_globals_scheme \<Rightarrow> termob_block_device option" where
  "block_device_at index s =
     (if \<not> block_ready s then None else block_device_walk (block_nodes s) (block_device_list s) index)"

text \<open>The driver stores \<open>bytes\<close> at offset \<open>off\<close> of the caller's buffer.\<close>

definition buffer_store :: "nat \<Rightarrow> u8 list \<Rightarrow> u8 list \<Rightarrow> u8 list" where
  "buffer_store off bytes buffer = take off buffer @ bytes @ drop (off + length bytes) buffer"

fun block_read_loop ::
  "(u32 \<Rightarrow> u32 \<Rightarrow> u8 list option) \<Rightarrow> u32 \<Rightarrow> u32 \<Rightarrow> nat list \<Rightarrow> u8 list \<Rightarrow> u8 list option" where
  "block_read_loop read lba sector_size [] buffer = Some buffer"
| "block_read_loop read lba sector_size (sector_index # rest) buffer =
     (case read (lba + word_of_nat sector_index) 1 of
        None \<Rightarrow> None
      | Some bytes \<Rightarrow>
          block_read_loop read lba sector_size rest
            (buffer_store (unat (word_of_nat sector_index * sector_size)) bytes buffer))"

definition block_read_device ::
  "nat \<Rightarrow> u32 \<Rightarrow> u32 \<Rightarrow> u8 list option \<Rightarrow> 'a block_globals_scheme \<Rightarrow> u8 list option" where
  "block_read_device index lba sector_count buffer s =
     (case (block_device_at index s, buffer) of
        (Some device, Some buf) \<Rightarrow>
          (case bd_read device of
             None \<Rightarrow> None
           | Some read \<Rightarrow>
               if sector_count = 0 then None
               else if sector_count = 1
               then map_option (\<lambda>bytes. buffer_store 0 bytes buf)
                      (read (bd_private_data device) lba sector_count)
               else if bd_sector_size_bytes device = 0 then None
               else block_read_loop (read (bd_private_data device)) lba
                      (bd_sector_size_bytes device) [0..<unat sector_count] buf)
      | _ \<Rightarrow> None)"

definition block_dump_device ::
  "nat \<times> termob_block_device \<Rightarrow> 'a block_globals_scheme \<Rightarrow> 'a block_globals_scheme" where
  "block_dump_device = (\<lambda>(index, device) s.
     let s = terminal_write ''  #'' s;
         s = block_write_u32 (word_of_nat index) s;
         s = terminal_write ''  '' s;
         s = terminal_write (case bd_name device of Some n \<Rightarrow> n | None \<Rightarrow> []) s;
         s = terminal_write ''  drv '' s;
         s = terminal_write (case bd_driver_name device of Some n \<Rightarrow> n | None \<Rightarrow> ''unknown'') s;
         s = terminal_write ''  sector '' s;
         s = block_write_u32 (bd_sector_size_bytes device) s;
         s = terminal_write ''B'' s;
         s = (if bd_sector_count device \<noteq> 0
              then block_write_u32 (bd_sector_count device) (terminal_write ''  count '' s)
              else terminal_write ''  count unknown'' s);
         s = terminal_write ''  read '' s
     in terminal_writeline (if bd_read device \<noteq> None then ''hooked'' else ''offline'') s)"

partial_function (option) block_dump_loop ::
  "nat \<Rightarrow> 'a block_globals_scheme \<Rightarrow> 'a block_globals_scheme option" where
  "block_dump_loop index s =
     (case block_device_at index s of
        None \<Rightarrow> Some s
      | Some device \<Rightarrow> block_dump_loop (index + 1) (block_dump_device (index, device) s))"

definition block_dump_to_terminal :: "'a block_globals_scheme \<Rightarrow> 'a block_globals_scheme option" where
  "block_dump_to_terminal s =
     (let s = terminal_writeline ''Block devices:'' s;
          s = terminal_write ''  State      : '' s;
          s = terminal_writeline (if block_ready s then ''Ready'' else ''Offline'') s;
          s = terminal_write ''  Devices    : '' s;
          s = block_write_u32 (word_of_nat (block_device_count_value s)) s;
          s = terminal_writeline '' registered'' s
      in if block_device_count_value s = 0
         then Some (terminal_writeline ''  No block devices available'' s)
         else block_dump_loop 0 s)"

section \<open>The device list\<close>

text \<open>The addresses on the list, and that they are a list that ends.\<close>

primrec follow :: "('a \<Rightarrow> 'a) \<Rightarrow> 'a \<Rightarrow> nat \<Rightarrow> 'a list" where
  "follow nx p 0 = []"
| "follow nx p (Suc n) = p # follow nx (nx p) n"

fun linked :: "(u32 \<Rightarrow> u32) \<Rightarrow> u32 \<Rightarrow> u32 list \<Rightarrow> bool" where
  "linked nx p [] \<longleftrightarrow> p = 0"
| "linked nx p (q # qs) \<longleftrightarrow> p = q \<and> q \<noteq> 0 \<and> linked nx (nx q) qs"

definition block_addrs :: "'a block_globals_scheme \<Rightarrow> u32 list" where
  "block_addrs s = follow (\<lambda>p. bn_next (block_nodes s p)) (block_device_list s) (block_device_count_value s)"

definition block_entries :: "'a block_globals_scheme \<Rightarrow> termob_block_device list" where
  "block_entries s = map (\<lambda>p. bn_device (block_nodes s p)) (block_addrs s)"

definition block_inv :: "'a block_globals_scheme \<Rightarrow> bool" where
  "block_inv s \<longleftrightarrow> heap_inv s \<and> (\<not> block_ready s \<longrightarrow> block_device_count_value s = 0) \<and>
     linked (\<lambda>p. bn_next (block_nodes s p)) (block_device_list s) (block_addrs s) \<and> distinct (block_addrs s) \<and>
     (\<forall>p \<in> set (block_addrs s). \<exists>k\<ge>28. heap_live s p = Some k)"

text \<open>What a request needs: the layer is up, the device has a name, and the heap has a block for the node.\<close>

fun block_admit :: "termob_block_device option \<Rightarrow> bool \<times> hblock list \<Rightarrow> (bool \<times> hblock list) option" where
  "block_admit d (ready, bs) =
     (if ready \<and> d \<noteq> None \<and> bd_name (the d) \<noteq> None
      then map_option (\<lambda>(a, bs'). (ready, bs')) (spec_alloc 32 bs) else None)"

lemma linked_follow: "linked nx p qs \<Longrightarrow> follow nx p (length qs) = qs"
  by (induction qs arbitrary: p) auto

lemma nodes_linked_cong: "(\<And>q. q \<in> set qs \<Longrightarrow> nx' q = nx q) \<Longrightarrow> linked nx' p qs = linked nx p qs"
  by (induction qs arbitrary: p) auto

lemma nodes_linked_snoc:
  assumes "linked nx p (qs @ [q])" "distinct (qs @ [q])" "r \<noteq> 0" "r \<notin> set (qs @ [q])" "nx r = 0"
  shows "linked (nx(q := r)) p (qs @ [q, r])"
  using assms by (induction qs arbitrary: p) auto

lemma length_follow [simp]: "length (follow nx p n) = n"
  by (induction n arbitrary: p) auto

lemma block_walk_eq:
  "linked (\<lambda>p. bn_next (nodes p)) p qs \<Longrightarrow>
     block_device_walk nodes p i = (if i < length qs then Some (bn_device (nodes (qs ! i))) else None)"
proof (induction qs arbitrary: p i)
  case Nil
  then show ?case by (cases i) auto
next
  case (Cons q qs)
  then show ?case by (cases i) auto
qed

lemma block_tail_eq:
  "linked (\<lambda>p. bn_next (nodes p)) p (qs @ [q]) \<Longrightarrow> block_tail nodes p = Some q"
proof (induction qs arbitrary: p)
  case Nil
  then show ?case by (subst block_tail.simps) auto
next
  case (Cons r qs)
  have "bn_next (nodes p) \<noteq> 0" using Cons.prems by (cases qs) auto
  then show ?case using Cons by (subst block_tail.simps) auto
qed

lemma block_device_at_eq:
  assumes "linked (\<lambda>p. bn_next (block_nodes s p)) (block_device_list s) (block_addrs s)"
  shows "block_device_at index s =
     (if block_ready s \<and> index < length (block_entries s) then Some (block_entries s ! index) else None)"
  by (simp add: block_device_at_def block_walk_eq [OF assms] block_entries_def)

lemma block_fields_more:
  assumes "log_globals.more s' = log_globals.more s"
  shows "block_ready s' = block_ready s" "block_device_list s' = block_device_list s"
    "block_device_count_value s' = block_device_count_value s" "block_nodes s' = block_nodes s"
    "block_globals.more s' = block_globals.more s"
    "heap_inv s' = heap_inv s" "heap_live s' = heap_live s" "heap_blocks s' = heap_blocks s" "mem s' = mem s"
proof -
  show "block_ready s' = block_ready s" "block_device_list s' = block_device_list s"
    "block_device_count_value s' = block_device_count_value s" "block_nodes s' = block_nodes s"
    "block_globals.more s' = block_globals.more s"
    using assms by (cases s; cases s'; simp)+
  show "heap_inv s' = heap_inv s" "heap_live s' = heap_live s" "heap_blocks s' = heap_blocks s"
    using heap_fields_more [OF assms] by (intro heap_inv_same; simp)+
  show "mem s' = mem s" using heap_fields_more [OF assms] by simp
qed

lemma block_log_event_more [simp]: "log_globals.more (block_log_event m s) = log_globals.more s"
  using log_event_more [of m s] by (simp add: block_log_event_def log_event_def)

lemmas block_log_event_fields [simp] = block_fields_more [OF block_log_event_more]

lemma heap_frame_block:
  "heap_frame s s' \<Longrightarrow> block_ready s' = block_ready s \<and> block_device_list s' = block_device_list s \<and>
     block_device_count_value s' = block_device_count_value s \<and> block_nodes s' = block_nodes s"
  by (auto simp: heap_frame_def)

lemma block_view_more:
  assumes "log_globals.more s' = log_globals.more s"
  shows "block_addrs s' = block_addrs s" "block_entries s' = block_entries s" "block_inv s' = block_inv s"
  using block_fields_more [OF assms] by (simp_all add: block_addrs_def block_entries_def block_inv_def)

text \<open>Appending a node that is not on the list yet.\<close>

lemma block_append_node_spec:
  assumes "linked (\<lambda>p. bn_next (block_nodes s p)) (block_device_list s) qs" "distinct qs"
    and "node \<notin> set qs" "node \<noteq> 0" "block_nodes s node = \<lparr>bn_device = d, bn_next = 0\<rparr>"
  shows "\<exists>nodes head. block_append_node node s = Some (s\<lparr>block_device_list := head, block_nodes := nodes\<rparr>) \<and>
    linked (\<lambda>p. bn_next (nodes p)) head (qs @ [node]) \<and> (\<forall>p. bn_device (nodes p) = bn_device (block_nodes s p))"
proof (cases qs rule: rev_cases)
  case Nil
  then show ?thesis
    using assms by (intro exI [of _ "block_nodes s"] exI [of _ node]) (simp add: block_append_node_def)
next
  case (snoc rs q)
  let ?nx = "\<lambda>p. bn_next (block_nodes s p)"
  let ?nodes = "(block_nodes s)(q := (block_nodes s q)\<lparr>bn_next := node\<rparr>)"
  have h: "block_device_list s \<noteq> 0" using assms(1) snoc by (cases rs) auto
  have t: "block_tail (block_nodes s) (block_device_list s) = Some q"
    using block_tail_eq assms(1) snoc by blast
  have "linked (?nx(q := node)) (block_device_list s) (rs @ [q, node])"
    using nodes_linked_snoc [of ?nx "block_device_list s" rs q node] assms snoc by simp
  moreover have "(\<lambda>p. bn_next (?nodes p)) = ?nx(q := node)" by auto
  ultimately have "linked (\<lambda>p. bn_next (?nodes p)) (block_device_list s) (qs @ [node])" using snoc by simp
  moreover have "block_append_node node s = Some (s\<lparr>block_device_list := block_device_list s, block_nodes := ?nodes\<rparr>)"
    using h t by (simp add: block_append_node_def)
  ultimately show ?thesis by fastforce
qed

lemma node_size: "32 = unat (heap_align_up 28 16)"
  by (simp add: heap_align_up_def)

lemma block_register_refused:
  assumes "block_inv s" "block_admit d (block_ready s, heap_blocks s) = None"
  shows "block_register_device d s = Some (False, s)"
proof (cases "d = None \<or> \<not> block_ready s \<or> bd_name (the d) = None")
  case True
  then show ?thesis by (auto simp: block_register_device_def split: option.splits)
next
  case False
  then obtain v where d: "d = Some v" and r: "block_ready s" "bd_name v \<noteq> None" by auto
  have a: "spec_alloc 32 (heap_blocks s) = None" using assms(2) d r by simp
  have "heap_inv s" using assms(1) by (simp add: block_inv_def)
  from kmalloc_refines [OF this _ node_size] have "kmalloc 28 s = Some (0, s)" unfolding a by simp
  then show ?thesis using d r by (simp add: block_register_device_def)
qed

lemma block_register_taken:
  assumes "block_inv s" "block_admit d (block_ready s, heap_blocks s) = Some r"
  shows "\<exists>s'. block_register_device d s = Some (True, s') \<and> block_inv s' \<and>
    block_entries s' = block_entries s @ [the d] \<and> (block_ready s', heap_blocks s') = r"
proof -
  obtain v a bs where d: "d = Some v" and r: "block_ready s" "bd_name v \<noteq> None"
    and al: "spec_alloc 32 (heap_blocks s) = Some (a, bs)" "r = (block_ready s, bs)"
    using assms(2) by (auto split: if_splits)
  have i: "heap_inv s" using assms(1) by (simp add: block_inv_def)
  obtain p s1 where k: "kmalloc 28 s = Some (p, s1)" "unat p = a + 32" "heap_frame s s1" "heap_inv s1" "heap_blocks s1 = bs"
    using kmalloc_refines [OF i _ node_size] unfolding al(1) by auto
  have p: "p \<noteq> 0" using k(2) by auto
  obtain n where n: "28 \<le> n" "heap_live s p = None" "heap_live s1 = (heap_live s)(p \<mapsto> n)"
    using kmalloc_contract [OF i, of 28] k(1) p by (auto simp: kmalloc_fits_def)
  note f = heap_frame_block [OF k(3)]
  let ?nodes = "(block_nodes s)(p := \<lparr>bn_device = v, bn_next = 0\<rparr>)" and ?qs = "block_addrs s"
  let ?s2 = "s1\<lparr>block_nodes := ?nodes\<rparr>"
  have new: "p \<notin> set ?qs" using assms(1) n(2) by (fastforce simp: block_inv_def)
  have "linked (\<lambda>q. bn_next (block_nodes s q)) (block_device_list s) ?qs"
    using assms(1) by (simp add: block_inv_def)
  moreover have "linked (\<lambda>q. bn_next (?nodes q)) (block_device_list s) ?qs =
      linked (\<lambda>q. bn_next (block_nodes s q)) (block_device_list s) ?qs"
    by (rule nodes_linked_cong) (use new in auto)
  ultimately have "linked (\<lambda>q. bn_next (?nodes q)) (block_device_list s) ?qs" by simp
  then obtain nodes head where ap: "block_append_node p ?s2 = Some (?s2\<lparr>block_device_list := head, block_nodes := nodes\<rparr>)"
    "linked (\<lambda>q. bn_next (nodes q)) head (?qs @ [p])" "\<forall>q. bn_device (nodes q) = bn_device (?nodes q)"
    using block_append_node_spec [of ?s2 ?qs p v] assms(1) new p f by (auto simp: block_inv_def)
  let ?s3 = "?s2\<lparr>block_device_list := head, block_nodes := nodes, block_device_count_value := block_device_count_value s + 1\<rparr>"
  let ?s4 = "block_log_event ''TERMOB: block device registered'' ?s3"
  have e: "block_register_device d s = Some (True, ?s4)"
    using d r k(1) p ap(1) f by (simp add: block_register_device_def)
  have l: "heap_inv ?s3 = heap_inv s1" "heap_live ?s3 = heap_live s1" "heap_blocks ?s3 = heap_blocks s1"
    by (intro heap_inv_same; simp)+
  have ad: "block_addrs ?s3 = ?qs @ [p]"
    using linked_follow [OF ap(2)] by (simp add: block_addrs_def)
  have "block_inv ?s3"
    using assms(1) k(4) n ap(2) r f new unfolding block_inv_def l ad by auto
  moreover have "block_entries ?s3 = block_entries s @ [v]"
    using ap(3) new unfolding block_entries_def ad by auto
  ultimately show ?thesis
    unfolding e using al(2) k(5) f d l(3) by (simp add: block_view_more [OF block_log_event_more])
qed

interpretation blocks: registry block_register_device block_device_at block_device_count block_inv
  block_entries the "\<lambda>s. (block_ready s, heap_blocks s)" block_admit
proof
  show "\<exists>s'. block_register_device x s = Some (False, s') \<and> block_inv s' \<and> block_entries s' = block_entries s \<and>
      (block_ready s', heap_blocks s') = (block_ready s, heap_blocks s)"
    if "block_inv s" "block_admit x (block_ready s, heap_blocks s) = None" for x and s :: "'a block_globals_scheme"
    using block_register_refused [OF that] that(1) by blast
  show "\<exists>s'. block_register_device x s = Some (True, s') \<and> block_inv s' \<and> block_entries s' = block_entries s @ [the x] \<and>
      (block_ready s', heap_blocks s') = r"
    if "block_inv s" "block_admit x (block_ready s, heap_blocks s) = Some r" for x r and s :: "'a block_globals_scheme"
    using that by (rule block_register_taken)
qed (auto simp: block_device_at_eq block_inv_def block_device_count_def block_entries_def block_addrs_def)

section \<open>Reading\<close>

lemma buffer_store_length:
  "off + length bs \<le> length buf \<Longrightarrow> length (buffer_store off bs buf) = length buf"
  by (simp add: buffer_store_def)

lemma buffer_store_prefix:
  "length pre = off \<Longrightarrow> buffer_store off bs (pre @ rest) = (pre @ bs) @ drop (length bs) rest"
  by (simp add: buffer_store_def)

text \<open>
  A driver that delivers whole sectors: \<open>sector\<close> is the content of the medium, \<open>n\<close> the size of
  its sectors, and \<open>readable\<close> the sectors that can be read. A driver may refuse the others, as one with a
  known capacity does beyond it.
\<close>

definition reads_sectors :: "(u32 \<Rightarrow> u32 \<Rightarrow> u8 list option) \<Rightarrow> u32 set \<Rightarrow> (u32 \<Rightarrow> u8 list) \<Rightarrow> nat \<Rightarrow> bool" where
  "reads_sectors rd readable sector n \<longleftrightarrow>
     (\<forall>lba. length (sector lba) = n) \<and> (\<forall>lba \<in> readable. rd lba 1 = Some (sector lba))"

lemma block_read_loop_eq:
  assumes "reads_sectors rd readable sector (unat ss)" "m * unat ss < 4294967296" "i \<le> m"
    "length pre = i * unat ss" "\<And>j. j < m \<Longrightarrow> lba + word_of_nat j \<in> readable"
  shows "block_read_loop rd lba ss [i..<m] (pre @ rest) =
    Some (pre @ concat (map (\<lambda>j. sector (lba + word_of_nat j)) [i..<m]) @ drop ((m - i) * unat ss) rest)"
  using assms(3,4)
proof (induction "m - i" arbitrary: i pre rest)
  case (Suc k)
  then have i: "i < m" by simp
  have s: "rd (lba + word_of_nat i) 1 = Some (sector (lba + word_of_nat i))" "length (sector l) = unat ss" for l
    using assms(1) assms(5) [OF i] by (auto simp: reads_sectors_def)
  have "i * unat ss \<le> m * unat ss" using i by simp
  then have "i * unat ss < 4294967296" using assms(2) by linarith
  then have w: "unat (word_of_nat i * ss) = i * unat ss"
    using i by (cases "unat ss = 0") (auto simp: unat_word_ariths unat_of_nat mod_mult_left_eq)
  have l: "length (pre @ sector (lba + word_of_nat i)) = Suc i * unat ss"
    using Suc.prems(2) s(2) by simp
  have b: "buffer_store (i * unat ss) (sector (lba + word_of_nat i)) (pre @ rest) =
      (pre @ sector (lba + word_of_nat i)) @ drop (unat ss) rest"
    using buffer_store_prefix [OF Suc.prems(2)] s(2) by simp
  have d: "(m - Suc i) * unat ss + unat ss = (m - i) * unat ss"
    using i by (metis Suc_diff_Suc add.commute mult_Suc)
  have "block_read_loop rd lba ss [Suc i..<m] ((pre @ sector (lba + word_of_nat i)) @ drop (unat ss) rest) =
      Some ((pre @ sector (lba + word_of_nat i)) @
        concat (map (\<lambda>j. sector (lba + word_of_nat j)) [Suc i..<m]) @
        drop ((m - Suc i) * unat ss) (drop (unat ss) rest))"
    by (rule Suc.hyps(1)) (use Suc.hyps(2) i l in simp_all)
  then show ?case
    using i by (simp add: upt_conv_Cons s w b d)
qed simp

end
