(* ===== verification/Block_Props.thy ===== *)
theory Block_Props
  imports Block Kheap_Props
begin

text \<open>
  Properties of the block layer: devices are enumerated in the order of their registration, and a
  read of several sectors gives the sectors one after the other.
\<close>

definition boot_block :: block_globals where
  "boot_block = block_init (heap_init 0x150000
     (paging_globals.extend zeroed_paging (block_globals.fields False 0 0 zero_block_nodes)))"

lemma block_init_inv:
  assumes "heap_inv s"
  shows "block_inv (block_init s)" "block_ready (block_init s)"
proof -
  have r: "heap_ready s" using assms by (simp add: heap_inv_def heap_ok_def heap_rep_def heap_phys_def)
  let ?t = "s\<lparr>block_device_list := 0, block_device_count_value := 0, block_ready := True\<rparr>"
  have i: "heap_inv ?t = heap_inv s" by (intro heap_inv_same; simp)
  show "block_ready (block_init s)" "block_inv (block_init s)"
    using r i assms
    by (simp_all add: block_init_def block_inv_def block_addrs_def heap_is_initialized_def)
qed

lemma boot_block_inv: "block_inv boot_block" "block_ready boot_block"
  unfolding boot_block_def by (rule block_init_inv [OF heap_init_inv(1)]; simp)+

lemma boot_block_heap: "heap_blocks boot_block = [(0x150000, 0xFFFE0, True)]"
proof -
  let ?h = "heap_init 0x150000 (paging_globals.extend zeroed_paging (block_globals.fields False 0 0 zero_block_nodes))"
  have "heap_blocks (block_init ?h) = heap_blocks ?h" by (rule heap_inv_same(2)) (simp_all add: block_init_def Let_def)
  then show ?thesis using heap_init_inv(2) [of "0x150000"] by (simp add: boot_block_def round16_def)
qed

lemma block_read_device_many:
  assumes "block_device_at i s = Some d" "bd_read d = Some rd" "2 \<le> unat n"
    and "reads_sectors (rd (bd_private_data d)) readable sector (unat (bd_sector_size_bytes d))"
    and "bd_sector_size_bytes d \<noteq> 0" "unat n * unat (bd_sector_size_bytes d) < 4294967296"
    and "\<And>j. j < unat n \<Longrightarrow> lba + word_of_nat j \<in> readable"
  shows "block_read_device i lba n (Some buf) s =
    Some (concat (map (\<lambda>j. sector (lba + word_of_nat j)) [0..<unat n]) @
      drop (unat n * unat (bd_sector_size_bytes d)) buf)"
proof -
  have "n \<noteq> 0" "n \<noteq> 1" using assms(3) by auto
  then show ?thesis
    using block_read_loop_eq [OF assms(4,6), of 0 "[]" lba buf] assms
    by (simp add: block_read_device_def)
qed

lemma block_read_device_one:
  assumes "block_device_at i s = Some d" "bd_read d = Some rd"
    and "reads_sectors (rd (bd_private_data d)) readable sector m" "lba \<in> readable"
  shows "block_read_device i lba 1 (Some buf) s = Some (sector lba @ drop m buf)"
  using assms by (auto simp: block_read_device_def reads_sectors_def buffer_store_def)

section \<open>Properties\<close>

text \<open>
  C30. Registering devices implements an abstract registry on the linked list of nodes. A request is
  taken exactly when the layer is up, the device has a name and first fit finds a heap block for the
  node; otherwise it is refused and changes nothing. The calls return, although the list is walked to its
  end, and afterwards the devices that were taken follow the earlier ones in the order of the requests,
  the heap has the blocks that first fit leaves, and access by index enumerates the devices and
  fails at the count. Every node is a live heap block of its own, and the list ends.
\<close>

theorem block_registry_in_order:
  assumes "block_inv s"
  shows "\<exists>s' bs heap. admit_all block_admit ds (block_ready s, heap_blocks s) = (bs, (block_ready s, heap)) \<and>
    register_all block_register_device ds s = Some (bs, s') \<and> block_inv s' \<and> heap_blocks s' = heap \<and>
    map (\<lambda>i. block_device_at i s') [0..<block_device_count s'] =
      map Some (block_entries s @ map the (map fst (filter snd (zip ds bs)))) \<and>
    block_device_at (block_device_count s') s' = None"
proof -
  have r: "fst (snd (admit_all block_admit ds (ready, bl))) = ready" for ready bl
    by (induction ds arbitrary: bl) (auto split: option.split)
  obtain bs heap where a: "admit_all block_admit ds (block_ready s, heap_blocks s) = (bs, (block_ready s, heap))"
    using r [of "block_ready s" "heap_blocks s"]
    by (cases "admit_all block_admit ds (block_ready s, heap_blocks s)") auto
  from blocks.register_all_returns [OF assms, of ds] obtain s' where
    "register_all block_register_device ds s = Some (bs, s')" and i: "block_inv s'" and
    "block_entries s' = block_entries s @ map the (map fst (filter snd (zip ds bs)))" "heap_blocks s' = heap"
    unfolding a by auto
  then show ?thesis using blocks.enumerates [OF i] a by auto
qed

definition example_device :: "string \<Rightarrow> termob_block_device" where
  "example_device n = \<lparr>bd_name = Some n, bd_driver_name = None, bd_sector_size_bytes = 4,
     bd_sector_count = 16, bd_read = Some (\<lambda>priv lba count. Some [ucast lba, 1, 2, 3]),
     bd_private_data = 0\<rparr>"

theorem block_registry_in_order_witness:
  "\<exists>s'. register_all block_register_device [Some (example_device ''vda''), None, Some (example_device ''vdb'')] boot_block =
       Some ([True, False, True], s') \<and>
     map (\<lambda>i. block_device_at i s') [0..<block_device_count s'] = [Some (example_device ''vda''), Some (example_device ''vdb'')]"
proof -
  have b: "heap_blocks boot_block = [(0x150000, 0xFFFE0, True)]" by (rule boot_block_heap)
  have e: "block_entries boot_block = []" by (simp add: block_entries_def block_addrs_def boot_block_def block_init_def Let_def)
  show ?thesis
    using block_registry_in_order [OF boot_block_inv(1), of "[Some (example_device ''vda''), None, Some (example_device ''vdb'')]"]
    by (auto simp: b e boot_block_inv(2) example_device_def)
qed

text \<open>
  C31. A read of one or more sectors that the device can read, from a driver that delivers whole sectors,
  puts exactly those sectors, in order, at the start of the buffer and leaves the rest of the buffer alone.
\<close>

theorem block_read_joins_sectors:
  assumes "block_device_at i s = Some d" "bd_read d = Some rd" "n \<noteq> 0" "bd_sector_size_bytes d \<noteq> 0"
    and "reads_sectors (rd (bd_private_data d)) readable sector (unat (bd_sector_size_bytes d))"
    and "unat n * unat (bd_sector_size_bytes d) < 2 ^ 32" "\<forall>j < unat n. lba + word_of_nat j \<in> readable"
  shows "block_read_device i lba n (Some buf) s =
    Some (concat (map (\<lambda>j. sector (lba + word_of_nat j)) [0..<unat n]) @
      drop (unat n * unat (bd_sector_size_bytes d)) buf)"
proof (cases "n = 1")
  case True
  then show ?thesis using block_read_device_one [OF assms(1,2,5), of lba] assms(7) by simp
next
  case False
  then have "unat n \<noteq> 0" "unat n \<noteq> 1" using assms(3) by (auto simp: word_unat_eq_iff)
  then have "2 \<le> unat n" by linarith
  then show ?thesis using block_read_device_many [OF assms(1,2) _ assms(5,4)] assms(6,7) by simp
qed

definition example_block :: block_globals where
  "example_block = boot_block\<lparr>block_ready := True, block_device_list := 0x150020, block_device_count_value := 1,
     block_nodes := (block_nodes boot_block)(0x150020 := \<lparr>bn_device = example_device ''vda'', bn_next = 0\<rparr>)\<rparr>"

text \<open>The driver of this device reads its sixteen sectors and no others.\<close>

definition example_bounded :: termob_block_device where
  "example_bounded = (example_device ''vda'')
     \<lparr>bd_read := Some (\<lambda>priv lba count. if lba < 16 then Some [ucast lba, 1, 2, 3] else None)\<rparr>"

theorem block_read_joins_sectors_witness:
  "block_read_device 0 7 2 (Some [9, 9, 9, 9, 9, 9, 9, 9, 9])
     (example_block\<lparr>block_nodes := (block_nodes boot_block)(0x150020 := \<lparr>bn_device = example_bounded, bn_next = 0\<rparr>)\<rparr>) =
    Some [7, 1, 2, 3, 8, 1, 2, 3, 9]"
proof -
  let ?s = "example_block\<lparr>block_nodes := (block_nodes boot_block)(0x150020 := \<lparr>bn_device = example_bounded, bn_next = 0\<rparr>)\<rparr>"
  let ?rd = "\<lambda>priv lba count :: u32. if lba < 16 then Some [ucast lba, 1, 2, 3 :: u8] else None"
  have "block_device_at 0 ?s = Some example_bounded"
    by (simp add: block_device_at_def example_block_def)
  moreover have "[0..<2] = [0, 1 :: nat]" by (simp add: upt_rec)
  moreover have "reads_sectors (?rd 0) {..<16} (\<lambda>lba. [ucast lba, 1, 2, 3]) 4" by (simp add: reads_sectors_def)
  moreover have "\<forall>j<2. (7 :: u32) + word_of_nat j \<in> {..<16}" by (auto simp: less_2_cases_iff)
  ultimately show ?thesis
    using block_read_joins_sectors [of 0 ?s example_bounded ?rd 2 "{..<16}"
      "\<lambda>lba. [ucast lba, 1, 2, 3]" 7 "[9, 9, 9, 9, 9, 9, 9, 9, 9]"]
    by (simp add: example_bounded_def example_device_def)
qed

end
