(* ===== verification/Fat_Names.thy ===== *)
theory Fat_Names
  imports Block
begin

text \<open>
  The types of the FAT reader (\<^verbatim>\<open>include/fat.h\<close>, \<^verbatim>\<open>fs/fat.c\<close>) and everything it does with names:
  8.3 names, the slots of long names, comparison, and the components of a path. A packed structure
  is read field by field from the bytes of a sector; a C string is the list of its characters
  before the NUL; a byte beyond the bytes a buffer holds reads as 0.
\<close>

section \<open>Types\<close>

datatype termob_fat_type =
  TERMOB_FAT_TYPE_NONE | TERMOB_FAT_TYPE_12 | TERMOB_FAT_TYPE_16 | TERMOB_FAT_TYPE_32

datatype termob_fat_dirent_kind =
    TERMOB_FAT_DIRENT_FILE | TERMOB_FAT_DIRENT_DIRECTORY | TERMOB_FAT_DIRENT_VOLUME_LABEL
  | TERMOB_FAT_DIRENT_LFN | TERMOB_FAT_DIRENT_DELETED | TERMOB_FAT_DIRENT_RESERVED

datatype termob_fat_status =
    TERMOB_FAT_STATUS_OK | TERMOB_FAT_STATUS_INVALID_ARGUMENT | TERMOB_FAT_STATUS_INVALID_PATH
  | TERMOB_FAT_STATUS_NOT_FOUND | TERMOB_FAT_STATUS_NOT_DIRECTORY | TERMOB_FAT_STATUS_NOT_FILE
  | TERMOB_FAT_STATUS_CORRUPT | TERMOB_FAT_STATUS_IO_ERROR

record termob_fat_fs =
  fs_device_index :: nat
  fs_boot_lba :: u32
  fs_bytes_per_sector :: u32
  fs_sectors_per_cluster :: u32
  fs_reserved_sectors :: u32
  fs_fat_count :: u32
  fs_sectors_per_fat :: u32
  fs_root_entry_count :: u32
  fs_total_sectors :: u32
  fs_first_fat_lba :: u32
  fs_first_data_lba :: u32
  fs_first_root_dir_lba :: u32
  fs_root_dir_sectors :: u32
  fs_root_cluster :: u32
  fs_cluster_count :: u32
  fs_fat_type :: termob_fat_type

record termob_fat_dirent =
  de_short_name :: string
  de_display_name :: string
  de_raw_name :: "u8 list"
  de_attributes :: u8
  de_first_cluster :: u32
  de_size_bytes :: u32
  de_kind :: termob_fat_dirent_kind
  de_has_long_name :: bool
  de_suspicious :: bool

record fat_dir_entry_raw =
  raw_name :: "u8 list"
  raw_attributes :: u8
  raw_first_cluster_high :: u16
  raw_first_cluster_low :: u16
  raw_file_size :: u32

record fat_lfn_entry_raw =
  lraw_order :: u8
  lraw_name1 :: "u16 list"
  lraw_attributes :: u8
  lraw_entry_type :: u8
  lraw_checksum :: u8
  lraw_name2 :: "u16 list"
  lraw_first_cluster_low :: u16
  lraw_name3 :: "u16 list"

record fat_lfn_state =
  lfn_active :: bool
  lfn_total_slots :: u8
  lfn_checksum :: u8
  lfn_seen_mask :: u32
  lfn_name :: string

abbreviation (input) TERMOB_FAT_NAME_MAX :: nat where "TERMOB_FAT_NAME_MAX \<equiv> 255"
abbreviation (input) FAT_NAME_LENGTH :: nat where "FAT_NAME_LENGTH \<equiv> 11"
abbreviation (input) FAT_ATTR_VOLUME_ID :: u8 where "FAT_ATTR_VOLUME_ID \<equiv> 0x08"
abbreviation (input) FAT_ATTR_DIRECTORY :: u8 where "FAT_ATTR_DIRECTORY \<equiv> 0x10"
abbreviation (input) FAT_ATTR_LFN :: u8 where "FAT_ATTR_LFN \<equiv> 0x0F"

section \<open>Bytes\<close>

definition byte_at :: "u8 list \<Rightarrow> nat \<Rightarrow> u8" where
  "byte_at bs i = (if i < length bs then bs ! i else 0)"

definition fat_read_le16 :: "u8 list \<Rightarrow> nat \<Rightarrow> u16" where
  "fat_read_le16 src off = le16 (byte_at src off) (byte_at src (off + 1))"

definition fat_read_le32 :: "u8 list \<Rightarrow> nat \<Rightarrow> u32" where
  "fat_read_le32 src off =
     le32 (byte_at src off) (byte_at src (off + 1)) (byte_at src (off + 2)) (byte_at src (off + 3))"

definition fat_is_power_of_two :: "u32 \<Rightarrow> bool" where
  "fat_is_power_of_two value \<longleftrightarrow> value \<noteq> 0 \<and> value AND (value - 1) = 0"

definition dir_entry_at :: "u8 list \<Rightarrow> nat \<Rightarrow> fat_dir_entry_raw" where
  "dir_entry_at sector off =
     \<lparr>raw_name = map (\<lambda>i. byte_at sector (off + i)) [0..<11],
      raw_attributes = byte_at sector (off + 11),
      raw_first_cluster_high = fat_read_le16 sector (off + 20),
      raw_first_cluster_low = fat_read_le16 sector (off + 26),
      raw_file_size = fat_read_le32 sector (off + 28)\<rparr>"

definition lfn_entry_at :: "u8 list \<Rightarrow> nat \<Rightarrow> fat_lfn_entry_raw" where
  "lfn_entry_at sector off =
     \<lparr>lraw_order = byte_at sector off,
      lraw_name1 = map (\<lambda>i. fat_read_le16 sector (off + 1 + 2 * i)) [0..<5],
      lraw_attributes = byte_at sector (off + 11),
      lraw_entry_type = byte_at sector (off + 12),
      lraw_checksum = byte_at sector (off + 13),
      lraw_name2 = map (\<lambda>i. fat_read_le16 sector (off + 14 + 2 * i)) [0..<6],
      lraw_first_cluster_low = fat_read_le16 sector (off + 26),
      lraw_name3 = map (\<lambda>i. fat_read_le16 sector (off + 28 + 2 * i)) [0..<2]\<rparr>"

section \<open>Long names\<close>

definition fat_lfn_reset :: "fat_lfn_state \<Rightarrow> fat_lfn_state" where
  "fat_lfn_reset state =
     state\<lparr>lfn_active := False, lfn_total_slots := 0, lfn_checksum := 0, lfn_seen_mask := 0,
           lfn_name := replicate (TERMOB_FAT_NAME_MAX + 1) NUL\<rparr>"

definition fat_short_name_checksum :: "u8 list \<Rightarrow> u8" where
  "fat_short_name_checksum name =
     fold (\<lambda>index checksum.
       (if checksum AND 1 \<noteq> 0 then 0x80 else 0) + drop_bit 1 checksum + name ! index)
       [0..<FAT_NAME_LENGTH] 0"

definition fat_lfn_ascii_char :: "u16 \<Rightarrow> char" where
  "fat_lfn_ascii_char code_unit = (if code_unit \<le> 0x007E then char_of (unat code_unit) else CHR ''?'')"

definition fat_lfn_store_name_part :: "u8 \<Rightarrow> nat \<Rightarrow> u16 \<Rightarrow> fat_lfn_state \<Rightarrow> fat_lfn_state" where
  "fat_lfn_store_name_part slot_index char_index code_unit state =
     (if slot_index = 0 then state
      else
        let target_index = (unat slot_index - 1) * 13 + char_index
        in if target_index \<ge> TERMOB_FAT_NAME_MAX then state
           else if code_unit = 0x0000
           then state\<lparr>lfn_name := (lfn_name state)[target_index := NUL]\<rparr>
           else if code_unit = 0xFFFF then state
           else state\<lparr>lfn_name := (lfn_name state)[target_index := fat_lfn_ascii_char code_unit]\<rparr>)"

definition fat_lfn_collect ::
  "fat_lfn_state \<Rightarrow> fat_lfn_entry_raw \<Rightarrow> bool \<times> fat_lfn_state" where
  "fat_lfn_collect state raw =
     (if lraw_attributes raw \<noteq> FAT_ATTR_LFN \<or> lraw_entry_type raw \<noteq> 0 \<or> lraw_first_cluster_low raw \<noteq> 0
      then (False, fat_lfn_reset state)
      else
        let order = lraw_order raw AND 0x1F; is_last = lraw_order raw AND 0x40
        in if order = 0 \<or> order > 20 then (False, fat_lfn_reset state)
           else if is_last = 0 \<and>
             (\<not> lfn_active state \<or> lfn_total_slots state = 0 \<or> order > lfn_total_slots state \<or>
              lraw_checksum raw \<noteq> lfn_checksum state)
           then (False, fat_lfn_reset state)
           else
             let state =
                   (if is_last \<noteq> 0
                    then (fat_lfn_reset state)\<lparr>lfn_active := True, lfn_total_slots := order,
                           lfn_checksum := lraw_checksum raw\<rparr>
                    else state);
                 slot_index = order;
                 state =
                   (if slot_index \<ge> 1 \<and> slot_index \<le> 20
                    then state\<lparr>lfn_seen_mask := lfn_seen_mask state OR push_bit (unat slot_index - 1) 1\<rparr>
                    else state);
                 state = fold (\<lambda>i. fat_lfn_store_name_part slot_index i (lraw_name1 raw ! i)) [0..<5] state;
                 state = fold (\<lambda>i. fat_lfn_store_name_part slot_index (5 + i) (lraw_name2 raw ! i)) [0..<6] state;
                 state = fold (\<lambda>i. fat_lfn_store_name_part slot_index (11 + i) (lraw_name3 raw ! i)) [0..<2] state;
                 expected_mask = (if lfn_total_slots state \<ge> 32 then 0xFFFFFFFF
                                  else push_bit (unat (lfn_total_slots state)) 1 - 1)
             in (lfn_active state \<and> lfn_seen_mask state AND expected_mask = expected_mask, state))"

section \<open>Short names\<close>

text \<open>The two loops that drop trailing blanks.\<close>

fun fat_trim_end :: "u8 list \<Rightarrow> nat \<Rightarrow> nat \<Rightarrow> nat" where
  "fat_trim_end name start 0 = 0"
| "fat_trim_end name start (Suc n) =
     (if name ! (start + n) = 0x20 then fat_trim_end name start n else Suc n)"

definition fat_printable :: "u8 \<Rightarrow> char" where
  "fat_printable c = (if c < 32 \<or> c > 126 then CHR ''_'' else char_of (unat c))"

definition fat_copy_83_name :: "u8 list \<Rightarrow> string" where
  "fat_copy_83_name name =
     (let base_end = fat_trim_end name 0 8;
          ext_end = fat_trim_end name 8 3;
          out = map (\<lambda>i. fat_printable (if i = 0 \<and> name ! i = 0x05 then 0xE5 else name ! i)) [0..<base_end];
          out = (if ext_end > 0
                 then out @ CHR ''.'' # map (\<lambda>i. fat_printable (name ! (8 + i))) [0..<ext_end]
                 else out)
      in if out = [] then ''?'' else out)"

definition fat_ascii_upper :: "char \<Rightarrow> char" where
  "fat_ascii_upper c =
     (if (of_char c :: nat) \<ge> 97 \<and> (of_char c :: nat) \<le> 122
      then char_of ((of_char c :: nat) - (97 - 65)) else c)"

fun fat_name_equals_case_insensitive :: "string \<Rightarrow> string \<Rightarrow> bool" where
  "fat_name_equals_case_insensitive (a # as) (b # bs) =
     (if fat_ascii_upper a \<noteq> fat_ascii_upper b then False
      else fat_name_equals_case_insensitive as bs)"
| "fat_name_equals_case_insensitive as bs = (as = [] \<and> bs = [])"

definition fat_dirent_name_matches :: "termob_fat_dirent \<Rightarrow> string \<Rightarrow> bool" where
  "fat_dirent_name_matches dirent name =
     (if de_has_long_name dirent \<and> fat_name_equals_case_insensitive (de_display_name dirent) name
      then True
      else fat_name_equals_case_insensitive (de_short_name dirent) name)"

section \<open>Paths\<close>

fun fat_skip_path_separators :: "string \<Rightarrow> string" where
  "fat_skip_path_separators [] = []"
| "fat_skip_path_separators (c # cs) = (if c = CHR ''/'' then fat_skip_path_separators cs else c # cs)"

definition fat_is_valid_path_char :: "char \<Rightarrow> bool" where
  "fat_is_valid_path_char c \<longleftrightarrow>
     (of_char c :: nat) \<ge> 32 \<and> (of_char c :: nat) \<le> 126 \<and> c \<noteq> CHR ''/''"

text \<open>The copying loop: the component so far and the rest of the path.\<close>

fun fat_component_loop :: "nat \<Rightarrow> string \<Rightarrow> string \<Rightarrow> (string \<times> string) option" where
  "fat_component_loop out_size out [] = Some (out, [])"
| "fat_component_loop out_size out (c # cs) =
     (if c = CHR ''/'' then Some (out, c # cs)
      else if \<not> fat_is_valid_path_char c \<or> length out + 1 \<ge> out_size then None
      else fat_component_loop out_size (out @ [c]) cs)"

definition fat_parse_path_component :: "string \<Rightarrow> nat \<Rightarrow> (string \<times> string \<times> bool) option" where
  "fat_parse_path_component path out_size =
     (if out_size < 2 then None
      else
        let cursor = fat_skip_path_separators path
        in if cursor = [] then Some ([], cursor, False)
           else
             case fat_component_loop out_size [] cursor of
               None \<Rightarrow> None
             | Some (out, cursor) \<Rightarrow>
                 let cursor = fat_skip_path_separators cursor
                 in Some (out, cursor, cursor \<noteq> []))"

section \<open>Directory entries\<close>

definition fat_dirent_from_raw :: "fat_dir_entry_raw \<Rightarrow> termob_fat_dirent" where
  "fat_dirent_from_raw raw =
     (let d = \<lparr>de_short_name = fat_copy_83_name (raw_name raw),
               de_display_name = fat_copy_83_name (raw_name raw),
               de_raw_name = raw_name raw,
               de_attributes = raw_attributes raw,
               de_first_cluster = push_bit 16 (ucast (raw_first_cluster_high raw)) OR
                                  ucast (raw_first_cluster_low raw),
               de_size_bytes = raw_file_size raw,
               de_kind = TERMOB_FAT_DIRENT_FILE,
               de_has_long_name = False,
               de_suspicious = False\<rparr>
      in if raw_name raw ! 0 = 0xE5 then d\<lparr>de_kind := TERMOB_FAT_DIRENT_DELETED\<rparr>
         else if raw_attributes raw = FAT_ATTR_LFN then d\<lparr>de_kind := TERMOB_FAT_DIRENT_LFN\<rparr>
         else if raw_attributes raw AND FAT_ATTR_VOLUME_ID \<noteq> 0
         then d\<lparr>de_kind := TERMOB_FAT_DIRENT_VOLUME_LABEL\<rparr>
         else if raw_attributes raw AND FAT_ATTR_DIRECTORY \<noteq> 0
         then d\<lparr>de_kind := TERMOB_FAT_DIRENT_DIRECTORY\<rparr>
         else if raw_attributes raw AND 0xC0 \<noteq> 0
         then d\<lparr>de_kind := TERMOB_FAT_DIRENT_RESERVED, de_suspicious := True\<rparr>
         else d\<lparr>de_kind := TERMOB_FAT_DIRENT_FILE\<rparr>)"

section \<open>Names of values\<close>

fun fat_type_name :: "termob_fat_type \<Rightarrow> string" where
  "fat_type_name TERMOB_FAT_TYPE_12 = ''FAT12''"
| "fat_type_name TERMOB_FAT_TYPE_16 = ''FAT16''"
| "fat_type_name TERMOB_FAT_TYPE_32 = ''FAT32''"
| "fat_type_name TERMOB_FAT_TYPE_NONE = ''unknown''"

fun fat_dirent_kind_name :: "termob_fat_dirent_kind \<Rightarrow> string" where
  "fat_dirent_kind_name TERMOB_FAT_DIRENT_FILE = ''file''"
| "fat_dirent_kind_name TERMOB_FAT_DIRENT_DIRECTORY = ''directory''"
| "fat_dirent_kind_name TERMOB_FAT_DIRENT_VOLUME_LABEL = ''volume''"
| "fat_dirent_kind_name TERMOB_FAT_DIRENT_LFN = ''lfn''"
| "fat_dirent_kind_name TERMOB_FAT_DIRENT_DELETED = ''deleted''"
| "fat_dirent_kind_name TERMOB_FAT_DIRENT_RESERVED = ''reserved''"

fun fat_status_name :: "termob_fat_status \<Rightarrow> string" where
  "fat_status_name TERMOB_FAT_STATUS_OK = ''ok''"
| "fat_status_name TERMOB_FAT_STATUS_INVALID_ARGUMENT = ''invalid argument''"
| "fat_status_name TERMOB_FAT_STATUS_INVALID_PATH = ''invalid path''"
| "fat_status_name TERMOB_FAT_STATUS_NOT_FOUND = ''not found''"
| "fat_status_name TERMOB_FAT_STATUS_NOT_DIRECTORY = ''not a directory''"
| "fat_status_name TERMOB_FAT_STATUS_NOT_FILE = ''not a file''"
| "fat_status_name TERMOB_FAT_STATUS_CORRUPT = ''corrupt''"
| "fat_status_name TERMOB_FAT_STATUS_IO_ERROR = ''io error''"

section \<open>Consuming a path\<close>

lemma skip_path_separators_length [simp]: "length (fat_skip_path_separators cs) \<le> length cs"
  by (induction cs) auto

lemma component_loop_length:
  "fat_component_loop n out cs = Some (out', rest) \<Longrightarrow> length out' + length rest = length out + length cs"
  by (induction n out cs rule: fat_component_loop.induct) (auto split: if_splits)

lemma parse_path_component_shorter:
  assumes "fat_parse_path_component path n = Some (name, cursor, has_more)" "name \<noteq> []"
  shows "length cursor < length path"
proof -
  let ?c = "fat_skip_path_separators path"
  obtain rest where l: "fat_component_loop n [] ?c = Some (name, rest)"
    and c: "cursor = fat_skip_path_separators rest"
    using assms by (auto simp: fat_parse_path_component_def Let_def split: if_splits option.splits)
  have "length name + length rest = length ?c"
    using component_loop_length [OF l] by simp
  moreover have "length ?c \<le> length path" "length cursor \<le> length rest" "0 < length name"
    using assms(2) c by simp_all
  ultimately show ?thesis by linarith
qed

section \<open>The rest of a sector is not empty\<close>

lemma sector_rest_pos:
  fixes co bps spc :: u32
  assumes "co < bps * spc"
  shows "0 < unat (bps - co mod bps)"
proof -
  have "bps \<noteq> 0" using assms by auto
  then have "co mod bps < bps" by (simp add: word_mod_less_divisor word_neq_0_conv)
  then have "bps - co mod bps \<noteq> 0" by simp
  then show ?thesis by (simp add: unat_gt_0)
qed

end
