(* ===== verification/Fat.thy ===== *)
theory Fat
  imports Fat_Names
begin

text \<open>
  The FAT reader (\<^verbatim>\<open>fs/fat.c\<close>) from the boot sector to the directory walks. Sector buffers are local
  arrays that a read fills; they start as zero bytes here. A directory callback is a function of
  the entry, the caller's data and the kernel state; it answers whether to go on. The walk of a
  cluster chain is total because at most 256 clusters are remembered.
\<close>

section \<open>Geometry and table entries\<close>

definition fat_log_event :: "string \<Rightarrow> 'a block_globals_scheme \<Rightarrow> 'a block_globals_scheme" where
  "fat_log_event message s = serial_writeline message (klog_writeline message s)"

definition fat_block_read_sector ::
  "termob_fat_fs \<Rightarrow> u32 \<Rightarrow> 'a block_globals_scheme \<Rightarrow> u8 list option" where
  "fat_block_read_sector fs lba s =
     block_read_device (fs_device_index fs) lba 1 (Some (replicate 4096 0)) s"

definition fat_cluster_is_valid :: "termob_fat_fs \<Rightarrow> u32 \<Rightarrow> bool" where
  "fat_cluster_is_valid fs cluster \<longleftrightarrow> cluster \<ge> 2 \<and> cluster < fs_cluster_count fs + 2"

fun fat_entry_is_end :: "termob_fat_type \<Rightarrow> u32 \<Rightarrow> bool" where
  "fat_entry_is_end TERMOB_FAT_TYPE_12 value = (value \<ge> 0x0FF8)"
| "fat_entry_is_end TERMOB_FAT_TYPE_16 value = (value \<ge> 0xFFF8)"
| "fat_entry_is_end TERMOB_FAT_TYPE_32 value = (value \<ge> 0x0FFFFFF8)"
| "fat_entry_is_end TERMOB_FAT_TYPE_NONE value = False"

fun fat_entry_is_bad :: "termob_fat_type \<Rightarrow> u32 \<Rightarrow> bool" where
  "fat_entry_is_bad TERMOB_FAT_TYPE_12 value = (value = 0x0FF7)"
| "fat_entry_is_bad TERMOB_FAT_TYPE_16 value = (value = 0xFFF7)"
| "fat_entry_is_bad TERMOB_FAT_TYPE_32 value = (value = 0x0FFFFFF7)"
| "fat_entry_is_bad TERMOB_FAT_TYPE_NONE value = False"

fun fat_entry_is_reserved :: "termob_fat_type \<Rightarrow> u32 \<Rightarrow> bool" where
  "fat_entry_is_reserved TERMOB_FAT_TYPE_12 value = (value \<ge> 0x0FF0 \<and> value \<le> 0x0FF6)"
| "fat_entry_is_reserved TERMOB_FAT_TYPE_16 value = (value \<ge> 0xFFF0 \<and> value \<le> 0xFFF6)"
| "fat_entry_is_reserved TERMOB_FAT_TYPE_32 value = (value \<ge> 0x0FFFFFF0 \<and> value \<le> 0x0FFFFFF6)"
| "fat_entry_is_reserved TERMOB_FAT_TYPE_NONE value = False"

text \<open>The fields \<^verbatim>\<open>fat_mount\<close> takes from the boot sector before it checks anything.\<close>

definition fat_mount_bpb :: "termob_fat_fs \<Rightarrow> nat \<Rightarrow> u32 \<Rightarrow> u8 list \<Rightarrow> termob_fat_fs" where
  "fat_mount_bpb fs device_index boot_lba sector =
     (let fs = fs\<lparr>fs_device_index := device_index, fs_boot_lba := boot_lba,
                  fs_bytes_per_sector := ucast (fat_read_le16 sector 11),
                  fs_sectors_per_cluster := ucast (byte_at sector 13),
                  fs_reserved_sectors := ucast (fat_read_le16 sector 14),
                  fs_fat_count := ucast (byte_at sector 16),
                  fs_root_entry_count := ucast (fat_read_le16 sector 17),
                  fs_total_sectors := ucast (fat_read_le16 sector 19)\<rparr>;
          fs = (if fs_total_sectors fs = 0 then fs\<lparr>fs_total_sectors := fat_read_le32 sector 32\<rparr> else fs);
          sectors_per_fat = ucast (fat_read_le16 sector 22);
          (sectors_per_fat, fs) =
            (if sectors_per_fat = 0
             then (fat_read_le32 sector 36, fs\<lparr>fs_root_cluster := fat_read_le32 sector 44\<rparr>)
             else (sectors_per_fat, fs\<lparr>fs_root_cluster := 0\<rparr>))
      in fs\<lparr>fs_sectors_per_fat := sectors_per_fat\<rparr>)"

text \<open>The layout, once the sector size, cluster size and BPB checks have passed.\<close>

definition fat_mount_layout ::
  "termob_fat_fs \<Rightarrow> 'a block_globals_scheme \<Rightarrow> bool \<times> termob_fat_fs \<times> 'a block_globals_scheme" where
  "fat_mount_layout fs s =
     (let root_dir_sectors =
            (fs_root_entry_count fs * 32 + (fs_bytes_per_sector fs - 1)) div fs_bytes_per_sector fs;
          total_sectors = fs_total_sectors fs;
          metadata_sectors =
            fs_reserved_sectors fs + fs_fat_count fs * fs_sectors_per_fat fs + root_dir_sectors
      in if total_sectors \<le> metadata_sectors
         then (False, fs, fat_log_event ''TERMOB: fat mount failed (layout outside volume)'' s)
         else
           let data_sectors = total_sectors - metadata_sectors;
               cluster_count = data_sectors div fs_sectors_per_cluster fs
           in if cluster_count = 0
              then (False, fs, fat_log_event ''TERMOB: fat mount failed (no data clusters)'' s)
              else
                let fs = fs\<lparr>fs_fat_type :=
                           (if cluster_count < 4085 then TERMOB_FAT_TYPE_12
                            else if cluster_count < 65525 then TERMOB_FAT_TYPE_16
                            else TERMOB_FAT_TYPE_32)\<rparr>;
                    fs = fs\<lparr>fs_cluster_count := cluster_count, fs_root_dir_sectors := root_dir_sectors\<rparr>;
                    fs = fs\<lparr>fs_first_fat_lba := fs_boot_lba fs + fs_reserved_sectors fs\<rparr>;
                    fs = fs\<lparr>fs_first_root_dir_lba :=
                           fs_first_fat_lba fs + fs_fat_count fs * fs_sectors_per_fat fs\<rparr>;
                    fs = fs\<lparr>fs_first_data_lba := fs_first_root_dir_lba fs + root_dir_sectors\<rparr>
                in if fs_fat_type fs = TERMOB_FAT_TYPE_32
                   then
                     let fs = fs\<lparr>fs_first_root_dir_lba := 0\<rparr>
                     in if \<not> fat_cluster_is_valid fs (fs_root_cluster fs)
                        then (False, fs,
                              fat_log_event ''TERMOB: fat mount failed (invalid FAT32 root cluster)'' s)
                        else (True, fs, s)
                   else (True, fs, s))"

definition fat_mount ::
  "termob_fat_fs \<Rightarrow> nat \<Rightarrow> u32 \<Rightarrow> 'a block_globals_scheme \<Rightarrow>
    bool \<times> termob_fat_fs \<times> 'a block_globals_scheme" where
  "fat_mount fs device_index boot_lba s =
     (case block_device_at device_index s of
        None \<Rightarrow> (False, fs, fat_log_event ''TERMOB: fat mount failed (device missing)'' s)
      | Some device \<Rightarrow>
          (case fat_block_read_sector (fs\<lparr>fs_device_index := device_index\<rparr>) boot_lba s of
             None \<Rightarrow> (False, fs, fat_log_event ''TERMOB: fat boot sector read failed'' s)
           | Some sector \<Rightarrow>
               let fs = fat_mount_bpb fs device_index boot_lba sector
               in if \<not> (fs_bytes_per_sector fs = 512 \<or> fs_bytes_per_sector fs = 1024 \<or>
                        fs_bytes_per_sector fs = 2048 \<or> fs_bytes_per_sector fs = 4096)
                  then (False, fs, fat_log_event ''TERMOB: fat mount failed (invalid bytes/sector)'' s)
                  else if fs_bytes_per_sector fs \<noteq> bd_sector_size_bytes device
                  then (False, fs, fat_log_event ''TERMOB: fat mount failed (sector size mismatch)'' s)
                  else if \<not> fat_is_power_of_two (fs_sectors_per_cluster fs) \<or>
                          fs_sectors_per_cluster fs > 128
                  then (False, fs, fat_log_event ''TERMOB: fat mount failed (invalid sectors/cluster)'' s)
                  else if fs_reserved_sectors fs = 0 \<or> fs_fat_count fs = 0 \<or>
                          fs_sectors_per_fat fs = 0 \<or> fs_total_sectors fs = 0 \<or>
                          byte_at sector 510 \<noteq> 0x55 \<or> byte_at sector 511 \<noteq> 0xAA
                  then (False, fs, fat_log_event ''TERMOB: fat mount failed (invalid BPB)'' s)
                  else fat_mount_layout fs s))"

fun fat_entry_offset :: "termob_fat_type \<Rightarrow> u32 \<Rightarrow> u32 option" where
  "fat_entry_offset TERMOB_FAT_TYPE_12 cluster = Some (cluster + cluster div 2)"
| "fat_entry_offset TERMOB_FAT_TYPE_16 cluster = Some (cluster * 2)"
| "fat_entry_offset TERMOB_FAT_TYPE_32 cluster = Some (cluster * 4)"
| "fat_entry_offset TERMOB_FAT_TYPE_NONE cluster = None"

definition fat_read_fat_entry ::
  "termob_fat_fs \<Rightarrow> u32 \<Rightarrow> 'a block_globals_scheme \<Rightarrow> u32 option" where
  "fat_read_fat_entry fs cluster s =
     (if fs_bytes_per_sector fs > 8192 then None
      else
        case fat_entry_offset (fs_fat_type fs) cluster of
          None \<Rightarrow> None
        | Some fat_offset \<Rightarrow>
            let sector_index = fat_offset div fs_bytes_per_sector fs;
                byte_offset = fat_offset mod fs_bytes_per_sector fs;
                sectors_to_read =
                  (if (fs_fat_type fs = TERMOB_FAT_TYPE_12 \<and> byte_offset = fs_bytes_per_sector fs - 1) \<or>
                      (fs_fat_type fs = TERMOB_FAT_TYPE_16 \<and> byte_offset > fs_bytes_per_sector fs - 2) \<or>
                      (fs_fat_type fs = TERMOB_FAT_TYPE_32 \<and> byte_offset > fs_bytes_per_sector fs - 4)
                   then 2 else 1)
            in case block_read_device (fs_device_index fs) (fs_first_fat_lba fs + sector_index)
                      sectors_to_read (Some (replicate 8192 0)) s of
                 None \<Rightarrow> None
               | Some entry_buffer \<Rightarrow>
                   (case fs_fat_type fs of
                      TERMOB_FAT_TYPE_12 \<Rightarrow>
                        (let raw = fat_read_le16 entry_buffer (unat byte_offset)
                         in Some (if cluster AND 1 = 0 then ucast (raw AND 0x0FFF)
                                  else ucast (drop_bit 4 raw AND 0x0FFF)))
                    | TERMOB_FAT_TYPE_16 \<Rightarrow> Some (ucast (fat_read_le16 entry_buffer (unat byte_offset)))
                    | TERMOB_FAT_TYPE_32 \<Rightarrow>
                        Some (fat_read_le32 entry_buffer (unat byte_offset) AND 0x0FFFFFFF)
                    | TERMOB_FAT_TYPE_NONE \<Rightarrow> None))"

definition fat_cluster_first_lba :: "termob_fat_fs \<Rightarrow> u32 \<Rightarrow> u32" where
  "fat_cluster_first_lba fs cluster =
     fs_first_data_lba fs + (cluster - 2) * fs_sectors_per_cluster fs"

section \<open>The entries of a directory sector\<close>

type_synonym ('u, 's) dirent_callback =
  "termob_fat_fs \<Rightarrow> termob_fat_dirent \<Rightarrow> 'u \<Rightarrow> 's \<Rightarrow> bool \<times> 'u \<times> 's"

definition fat_call_back ::
  "('u, 's) dirent_callback option \<Rightarrow> termob_fat_fs \<Rightarrow> termob_fat_dirent \<Rightarrow> 'u \<Rightarrow> 's \<Rightarrow>
    bool \<times> 'u \<times> 's" where
  "fat_call_back callback fs dirent user s =
     (case callback of None \<Rightarrow> (True, user, s) | Some f \<Rightarrow> f fs dirent user s)"

text \<open>The entry that follows its long-name slots, as the callback gets it.\<close>

definition fat_short_entry ::
  "termob_fat_fs \<Rightarrow> fat_dir_entry_raw \<Rightarrow> fat_lfn_state \<Rightarrow> termob_fat_dirent" where
  "fat_short_entry fs raw lfn_state =
     (let dirent = fat_dirent_from_raw raw;
          dirent =
            (if lfn_active lfn_state \<and> lfn_checksum lfn_state = fat_short_name_checksum (raw_name raw) \<and>
                lfn_name lfn_state ! 0 \<noteq> NUL
             then dirent\<lparr>de_display_name := takeWhile (\<lambda>c. c \<noteq> NUL) (take TERMOB_FAT_NAME_MAX (lfn_name lfn_state)),
                         de_has_long_name := True\<rparr>
             else dirent)
      in if (de_kind dirent = TERMOB_FAT_DIRENT_FILE \<or> de_kind dirent = TERMOB_FAT_DIRENT_DIRECTORY) \<and>
            de_first_cluster dirent \<noteq> 0 \<and> \<not> fat_cluster_is_valid fs (de_first_cluster dirent)
         then dirent\<lparr>de_suspicious := True\<rparr> else dirent)"

text \<open>
  The loop over the offsets of a sector. The result is \<^verbatim>\<open>*out_reached_end\<close> with the long-name state,
  the caller's data and the kernel state; the function itself always returns 1.
\<close>

fun fat_visit_loop ::
  "termob_fat_fs \<Rightarrow> u8 list \<Rightarrow> ('u, 's) dirent_callback option \<Rightarrow> nat list \<Rightarrow>
    fat_lfn_state \<Rightarrow> 'u \<Rightarrow> 's \<Rightarrow> bool \<times> fat_lfn_state \<times> 'u \<times> 's" where
  "fat_visit_loop fs sector callback [] lfn_state user s = (False, lfn_state, user, s)"
| "fat_visit_loop fs sector callback (offset # offsets) lfn_state user s =
     (let raw = dir_entry_at sector offset
      in if raw_name raw ! 0 = 0x00 then (True, fat_lfn_reset lfn_state, user, s)
         else if raw_name raw ! 0 = 0xE5
         then
           let lfn_state = fat_lfn_reset lfn_state;
               (continue, user, s) = fat_call_back callback fs (fat_dirent_from_raw raw) user s
           in if \<not> continue then (False, lfn_state, user, s)
              else fat_visit_loop fs sector callback offsets lfn_state user s
         else if raw_attributes raw = FAT_ATTR_LFN
         then fat_visit_loop fs sector callback offsets
                (snd (fat_lfn_collect lfn_state (lfn_entry_at sector offset))) user s
         else
           let dirent = fat_short_entry fs raw lfn_state;
               lfn_state = fat_lfn_reset lfn_state;
               (continue, user, s) = fat_call_back callback fs dirent user s
           in if \<not> continue then (False, lfn_state, user, s)
              else fat_visit_loop fs sector callback offsets lfn_state user s)"

definition entry_offsets :: "u32 \<Rightarrow> nat list" where
  "entry_offsets bytes_per_sector = map (\<lambda>k. k * 32) [0..<(unat bytes_per_sector + 31) div 32]"

definition fat_visit_sector_entries ::
  "termob_fat_fs \<Rightarrow> u8 list \<Rightarrow> fat_lfn_state \<Rightarrow> ('u, 's) dirent_callback option \<Rightarrow> 'u \<Rightarrow> 's \<Rightarrow>
    bool \<times> fat_lfn_state \<times> 'u \<times> 's" where
  "fat_visit_sector_entries fs sector lfn_state callback user s =
     fat_visit_loop fs sector callback (entry_offsets (fs_bytes_per_sector fs)) lfn_state user s"

text \<open>A local \<^verbatim>\<open>fat_lfn_state_t\<close> after its first reset.\<close>

definition lfn_fresh :: fat_lfn_state where
  "lfn_fresh = fat_lfn_reset \<lparr>lfn_active = False, lfn_total_slots = 0, lfn_checksum = 0,
     lfn_seen_mask = 0, lfn_name = []\<rparr>"

end
