(* ===== verification/Fat_Dir.thy ===== *)
theory Fat_Dir
  imports Fat
begin

text \<open>
  Searching and listing directories and resolving paths (\<^verbatim>\<open>fs/fat.c\<close>). An operation that writes
  through an out parameter returns the value; a null \<^verbatim>\<open>fs\<close> or \<^verbatim>\<open>path\<close> is \<open>None\<close>.
\<close>

section \<open>Searching\<close>

record fat_find_context =
  fc_name :: string
  fc_out_dirent :: "termob_fat_dirent option"
  fc_found :: bool

record termob_fat_lookup_result =
  lr_dirent :: "termob_fat_dirent option"
  lr_is_root :: bool

text \<open>The messages a chain walk is called with.\<close>

record chain_messages =
  read_fail_message :: string
  next_fail_message :: string
  loop_message :: string
  long_message :: string
  corrupt_message :: string
  invalid_message :: string

abbreviation (input) FAT_MAX_VISITED_CLUSTERS :: nat where "FAT_MAX_VISITED_CLUSTERS \<equiv> 256"

definition fat_find_entry_callback :: "(fat_find_context, 's) dirent_callback" where
  "fat_find_entry_callback fs dirent context s =
     (if de_kind dirent = TERMOB_FAT_DIRENT_DELETED \<or> de_kind dirent = TERMOB_FAT_DIRENT_LFN \<or>
         de_kind dirent = TERMOB_FAT_DIRENT_VOLUME_LABEL \<or> de_kind dirent = TERMOB_FAT_DIRENT_RESERVED
      then (True, context, s)
      else if \<not> fat_dirent_name_matches dirent (fc_name context) then (True, context, s)
      else (False, context\<lparr>fc_out_dirent := Some dirent, fc_found := True\<rparr>, s))"

definition fat_find_status :: "fat_find_context \<Rightarrow> termob_fat_status" where
  "fat_find_status context =
     (case fc_out_dirent context of
        Some d \<Rightarrow> if de_suspicious d then TERMOB_FAT_STATUS_CORRUPT else TERMOB_FAT_STATUS_OK
      | None \<Rightarrow> TERMOB_FAT_STATUS_OK)"

text \<open>
  The loop over sectors that the fixed root directory and each cluster share: \<open>Inl\<close> is a status
  that ends the search, \<open>Inr\<close> the state in which the loop ran out of sectors.
\<close>

fun fat_find_sectors ::
  "termob_fat_fs \<Rightarrow> string \<Rightarrow> u32 list \<Rightarrow> fat_lfn_state \<Rightarrow> fat_find_context \<Rightarrow> 'a block_globals_scheme \<Rightarrow>
    (termob_fat_status + fat_lfn_state) \<times> fat_find_context \<times> 'a block_globals_scheme" where
  "fat_find_sectors fs read_fail [] lfn_state context s = (Inr lfn_state, context, s)"
| "fat_find_sectors fs read_fail (lba # lbas) lfn_state context s =
     (case fat_block_read_sector fs lba s of
        None \<Rightarrow> (Inl TERMOB_FAT_STATUS_IO_ERROR, context, fat_log_event read_fail s)
      | Some sector \<Rightarrow>
          let (reached_end, lfn_state, context, s) =
                fat_visit_sector_entries fs sector lfn_state (Some fat_find_entry_callback) context s
          in if fc_found context then (Inl (fat_find_status context), context, s)
             else if reached_end then (Inl TERMOB_FAT_STATUS_NOT_FOUND, context, s)
             else fat_find_sectors fs read_fail lbas lfn_state context s)"

text \<open>The sectors \<^verbatim>\<open>lba\<close> runs through in \<^verbatim>\<open>for (lba = first; lba < first + n; lba++)\<close>.\<close>

definition lba_range :: "u32 \<Rightarrow> u32 \<Rightarrow> u32 list" where
  "lba_range first n = map word_of_nat [unat first..<unat (first + n)]"

definition cluster_lbas :: "termob_fat_fs \<Rightarrow> u32 \<Rightarrow> u32 list" where
  "cluster_lbas fs cluster =
     map (\<lambda>i. fat_cluster_first_lba fs cluster + word_of_nat i) [0..<unat (fs_sectors_per_cluster fs)]"

definition find_start :: "string \<Rightarrow> fat_find_context" where
  "find_start name = \<lparr>fc_name = name, fc_out_dirent = None, fc_found = False\<rparr>"

definition fat_find_root_fixed ::
  "termob_fat_fs \<Rightarrow> string \<Rightarrow> 'a block_globals_scheme \<Rightarrow>
    termob_fat_status \<times> termob_fat_dirent option \<times> 'a block_globals_scheme" where
  "fat_find_root_fixed fs name s =
     (let (r, context, s) =
            fat_find_sectors fs ''TERMOB: fat path root read failed''
              (lba_range (fs_first_root_dir_lba fs) (fs_root_dir_sectors fs)) lfn_fresh (find_start name) s
      in case r of
           Inl status \<Rightarrow> (status, fc_out_dirent context, s)
         | Inr lfn_state \<Rightarrow> (TERMOB_FAT_STATUS_NOT_FOUND, fc_out_dirent context, s))"

text \<open>The test every walk of a cluster chain makes of the next entry.\<close>

definition fat_next_corrupt :: "termob_fat_fs \<Rightarrow> u32 \<Rightarrow> bool" where
  "fat_next_corrupt fs next_cluster \<longleftrightarrow>
     next_cluster = 0 \<or> fat_entry_is_bad (fs_fat_type fs) next_cluster \<or>
     fat_entry_is_reserved (fs_fat_type fs) next_cluster \<or> \<not> fat_cluster_is_valid fs next_cluster"

function fat_find_chain ::
  "termob_fat_fs \<Rightarrow> chain_messages \<Rightarrow> u32 list \<Rightarrow> u32 \<Rightarrow> fat_lfn_state \<Rightarrow> fat_find_context \<Rightarrow>
    'a block_globals_scheme \<Rightarrow> termob_fat_status \<times> fat_find_context \<times> 'a block_globals_scheme" where
  "fat_find_chain fs ms visited cluster lfn_state context s =
     (if \<not> fat_cluster_is_valid fs cluster
      then (TERMOB_FAT_STATUS_CORRUPT, context, fat_log_event (invalid_message ms) s)
      else if cluster \<in> set visited
      then (TERMOB_FAT_STATUS_CORRUPT, context, fat_log_event (loop_message ms) s)
      else if length visited \<ge> FAT_MAX_VISITED_CLUSTERS
      then (TERMOB_FAT_STATUS_CORRUPT, context, fat_log_event (long_message ms) s)
      else
        case fat_find_sectors fs (read_fail_message ms) (cluster_lbas fs cluster) lfn_state context s of
          (Inl status, context, s) \<Rightarrow> (status, context, s)
        | (Inr lfn_state, context, s) \<Rightarrow>
            (case fat_read_fat_entry fs cluster s of
               None \<Rightarrow> (TERMOB_FAT_STATUS_IO_ERROR, context, fat_log_event (next_fail_message ms) s)
             | Some next_cluster \<Rightarrow>
                 if fat_entry_is_end (fs_fat_type fs) next_cluster
                 then (TERMOB_FAT_STATUS_NOT_FOUND, context, s)
                 else if fat_next_corrupt fs next_cluster
                 then (TERMOB_FAT_STATUS_CORRUPT, context, fat_log_event (corrupt_message ms) s)
                 else fat_find_chain fs ms (visited @ [cluster]) next_cluster lfn_state context s))"
  by pat_completeness auto
termination
  by (relation "measure (\<lambda>(fs, ms, visited, _). 256 - length visited)") auto

declare fat_find_chain.simps [simp del]

definition fat_find_directory_cluster_chain ::
  "termob_fat_fs \<Rightarrow> u32 \<Rightarrow> string \<Rightarrow> chain_messages \<Rightarrow> 'a block_globals_scheme \<Rightarrow>
    termob_fat_status \<times> termob_fat_dirent option \<times> 'a block_globals_scheme" where
  "fat_find_directory_cluster_chain fs start_cluster name ms s =
     (let (status, context, s) = fat_find_chain fs ms [] start_cluster lfn_fresh (find_start name) s
      in (status, fc_out_dirent context, s))"

definition fat_find_root_entry ::
  "termob_fat_fs \<Rightarrow> string \<Rightarrow> 'a block_globals_scheme \<Rightarrow>
    termob_fat_status \<times> termob_fat_dirent option \<times> 'a block_globals_scheme" where
  "fat_find_root_entry fs name s =
     (if fs_fat_type fs = TERMOB_FAT_TYPE_12 \<or> fs_fat_type fs = TERMOB_FAT_TYPE_16
      then fat_find_root_fixed fs name s
      else if fs_fat_type fs = TERMOB_FAT_TYPE_32
      then fat_find_directory_cluster_chain fs (fs_root_cluster fs) name
             \<lparr>read_fail_message = ''TERMOB: fat path root read failed'',
              next_fail_message = ''TERMOB: fat path root next cluster read failed'',
              loop_message = ''TERMOB: fat path root loop detected'',
              long_message = ''TERMOB: fat path root chain too long for guard table'',
              corrupt_message = ''TERMOB: fat path root chain corrupted'',
              invalid_message = ''TERMOB: fat path root cluster invalid''\<rparr> s
      else (TERMOB_FAT_STATUS_CORRUPT, None, s))"

definition fat_find_directory_entry ::
  "termob_fat_fs \<Rightarrow> u32 \<Rightarrow> string \<Rightarrow> 'a block_globals_scheme \<Rightarrow>
    termob_fat_status \<times> termob_fat_dirent option \<times> 'a block_globals_scheme" where
  "fat_find_directory_entry fs start_cluster name s =
     (if \<not> fat_cluster_is_valid fs start_cluster
      then (TERMOB_FAT_STATUS_CORRUPT, None,
            fat_log_event ''TERMOB: fat path directory cluster invalid'' s)
      else fat_find_directory_cluster_chain fs start_cluster name
             \<lparr>read_fail_message = ''TERMOB: fat path directory read failed'',
              next_fail_message = ''TERMOB: fat path directory next cluster read failed'',
              loop_message = ''TERMOB: fat path directory loop detected'',
              long_message = ''TERMOB: fat path directory chain too long for guard table'',
              corrupt_message = ''TERMOB: fat path directory chain corrupted'',
              invalid_message = ''TERMOB: fat path directory cluster invalid''\<rparr> s)"

section \<open>Listing\<close>

fun fat_list_sectors ::
  "termob_fat_fs \<Rightarrow> string \<Rightarrow> ('u, 'a block_globals_scheme) dirent_callback option \<Rightarrow> u32 list \<Rightarrow>
    fat_lfn_state \<Rightarrow> 'u \<Rightarrow> 'a block_globals_scheme \<Rightarrow>
    (bool + fat_lfn_state) \<times> 'u \<times> 'a block_globals_scheme" where
  "fat_list_sectors fs read_fail callback [] lfn_state user s = (Inr lfn_state, user, s)"
| "fat_list_sectors fs read_fail callback (lba # lbas) lfn_state user s =
     (case fat_block_read_sector fs lba s of
        None \<Rightarrow> (Inl False, user, fat_log_event read_fail s)
      | Some sector \<Rightarrow>
          let (reached_end, lfn_state, user, s) =
                fat_visit_sector_entries fs sector lfn_state callback user s
          in if reached_end then (Inl True, user, s)
             else fat_list_sectors fs read_fail callback lbas lfn_state user s)"

definition fat_list_root_fixed ::
  "termob_fat_fs \<Rightarrow> ('u, 'a block_globals_scheme) dirent_callback option \<Rightarrow> 'u \<Rightarrow>
    'a block_globals_scheme \<Rightarrow> bool \<times> 'u \<times> 'a block_globals_scheme" where
  "fat_list_root_fixed fs callback user s =
     (let (r, user, s) =
            fat_list_sectors fs ''TERMOB: fat root read failed'' callback
              (lba_range (fs_first_root_dir_lba fs) (fs_root_dir_sectors fs)) lfn_fresh user s
      in (case r of Inl ok \<Rightarrow> ok | Inr lfn_state \<Rightarrow> True, user, s))"

function fat_list_chain ::
  "termob_fat_fs \<Rightarrow> chain_messages \<Rightarrow> ('u, 'a block_globals_scheme) dirent_callback option \<Rightarrow>
    u32 list \<Rightarrow> u32 \<Rightarrow> fat_lfn_state \<Rightarrow> 'u \<Rightarrow> 'a block_globals_scheme \<Rightarrow>
    bool \<times> 'u \<times> 'a block_globals_scheme" where
  "fat_list_chain fs ms callback visited cluster lfn_state user s =
     (if \<not> fat_cluster_is_valid fs cluster then (False, user, fat_log_event (invalid_message ms) s)
      else if cluster \<in> set visited then (False, user, fat_log_event (loop_message ms) s)
      else if length visited \<ge> FAT_MAX_VISITED_CLUSTERS
      then (False, user, fat_log_event (long_message ms) s)
      else
        case fat_list_sectors fs (read_fail_message ms) callback (cluster_lbas fs cluster)
               lfn_state user s of
          (Inl ok, user, s) \<Rightarrow> (ok, user, s)
        | (Inr lfn_state, user, s) \<Rightarrow>
            (case fat_read_fat_entry fs cluster s of
               None \<Rightarrow> (False, user, fat_log_event (next_fail_message ms) s)
             | Some next_cluster \<Rightarrow>
                 if fat_entry_is_end (fs_fat_type fs) next_cluster then (True, user, s)
                 else if fat_next_corrupt fs next_cluster
                 then (False, user, fat_log_event (corrupt_message ms) s)
                 else fat_list_chain fs ms callback (visited @ [cluster]) next_cluster lfn_state user s))"
  by pat_completeness auto
termination
  by (relation "measure (\<lambda>(fs, ms, callback, visited, _). 256 - length visited)") auto

declare fat_list_chain.simps [simp del]

definition fat_list_cluster_chain ::
  "termob_fat_fs \<Rightarrow> u32 \<Rightarrow> ('u, 'a block_globals_scheme) dirent_callback option \<Rightarrow> 'u \<Rightarrow>
    chain_messages \<Rightarrow> 'a block_globals_scheme \<Rightarrow> bool \<times> 'u \<times> 'a block_globals_scheme" where
  "fat_list_cluster_chain fs start_cluster callback user ms s =
     fat_list_chain fs ms callback [] start_cluster lfn_fresh user s"

definition fat_list_directory ::
  "termob_fat_fs option \<Rightarrow> u32 \<Rightarrow> ('u, 'a block_globals_scheme) dirent_callback option \<Rightarrow> 'u \<Rightarrow>
    'a block_globals_scheme \<Rightarrow> bool \<times> 'u \<times> 'a block_globals_scheme" where
  "fat_list_directory fsp start_cluster callback user s =
     (case fsp of
        None \<Rightarrow> (False, user, fat_log_event ''TERMOB: fat directory cluster invalid'' s)
      | Some fs \<Rightarrow>
          if \<not> fat_cluster_is_valid fs start_cluster
          then (False, user, fat_log_event ''TERMOB: fat directory cluster invalid'' s)
          else fat_list_cluster_chain fs start_cluster callback user
                 \<lparr>read_fail_message = ''TERMOB: fat directory cluster read failed'',
                  next_fail_message = ''TERMOB: fat directory next cluster read failed'',
                  loop_message = ''TERMOB: fat directory loop detected'',
                  long_message = ''TERMOB: fat directory chain too long for guard table'',
                  corrupt_message = ''TERMOB: fat directory chain corrupted'',
                  invalid_message = ''TERMOB: fat directory cluster invalid''\<rparr> s)"

definition fat_list_root ::
  "termob_fat_fs option \<Rightarrow> ('u, 'a block_globals_scheme) dirent_callback option \<Rightarrow> 'u \<Rightarrow>
    'a block_globals_scheme \<Rightarrow> bool \<times> 'u \<times> 'a block_globals_scheme" where
  "fat_list_root fsp callback user s =
     (case fsp of
        None \<Rightarrow> (False, user, s)
      | Some fs \<Rightarrow>
          if fs_fat_type fs = TERMOB_FAT_TYPE_12 \<or> fs_fat_type fs = TERMOB_FAT_TYPE_16
          then fat_list_root_fixed fs callback user s
          else if fs_fat_type fs = TERMOB_FAT_TYPE_32
          then fat_list_cluster_chain fs (fs_root_cluster fs) callback user
                 \<lparr>read_fail_message = ''TERMOB: fat root cluster read failed'',
                  next_fail_message = ''TERMOB: fat root next cluster read failed'',
                  loop_message = ''TERMOB: fat root chain loop detected'',
                  long_message = ''TERMOB: fat root chain too long for guard table'',
                  corrupt_message = ''TERMOB: fat root chain corrupted'',
                  invalid_message = ''TERMOB: fat root cluster invalid''\<rparr> s
          else (False, user, s))"

section \<open>Paths\<close>

text \<open>One component: search the root or the directory that the result refers to.\<close>

definition fat_lookup_component ::
  "termob_fat_fs \<Rightarrow> string \<Rightarrow> termob_fat_lookup_result \<Rightarrow> 'a block_globals_scheme \<Rightarrow>
    termob_fat_status \<times> termob_fat_dirent option \<times> 'a block_globals_scheme" where
  "fat_lookup_component fs name result s =
     (if lr_is_root result then fat_find_root_entry fs name s
      else
        case lr_dirent result of
          None \<Rightarrow> (TERMOB_FAT_STATUS_NOT_DIRECTORY, None, s)
        | Some d \<Rightarrow>
            if de_kind d \<noteq> TERMOB_FAT_DIRENT_DIRECTORY
            then (TERMOB_FAT_STATUS_NOT_DIRECTORY, None,
                  fat_log_event ''TERMOB: fat path used file as directory'' s)
            else fat_find_directory_entry fs (de_first_cluster d) name s)"

function fat_lookup_loop ::
  "termob_fat_fs \<Rightarrow> string \<Rightarrow> termob_fat_lookup_result \<Rightarrow> 'a block_globals_scheme \<Rightarrow>
    termob_fat_status \<times> termob_fat_lookup_result \<times> 'a block_globals_scheme" where
  "fat_lookup_loop fs cursor result s =
     (if cursor = [] then (TERMOB_FAT_STATUS_OK, result, s)
      else
        case fat_parse_path_component cursor 13 of
          None \<Rightarrow> (TERMOB_FAT_STATUS_INVALID_PATH, result,
                   fat_log_event ''TERMOB: fat path component invalid'' s)
        | Some (name, cursor', has_more) \<Rightarrow>
            if name = []
            then (TERMOB_FAT_STATUS_INVALID_PATH, result,
                  fat_log_event ''TERMOB: fat path component invalid'' s)
            else
              (case fat_lookup_component fs name result s of
                 (TERMOB_FAT_STATUS_OK, Some entry, s) \<Rightarrow>
                   if de_suspicious entry
                   then (TERMOB_FAT_STATUS_CORRUPT, result,
                         fat_log_event ''TERMOB: fat path matched suspicious entry'' s)
                   else
                     let result = result\<lparr>lr_dirent := Some entry, lr_is_root := False\<rparr>
                     in if has_more \<and> de_kind entry \<noteq> TERMOB_FAT_DIRENT_DIRECTORY
                        then (TERMOB_FAT_STATUS_NOT_DIRECTORY, result,
                              fat_log_event ''TERMOB: fat path used file as directory'' s)
                        else fat_lookup_loop fs cursor' result s
               | (status, _, s) \<Rightarrow> (status, result, s)))"
  by pat_completeness auto
termination
  by (relation "measure (\<lambda>(fs, cursor, _). length cursor)") (auto dest: parse_path_component_shorter)

declare fat_lookup_loop.simps [simp del]

definition fat_lookup_path ::
  "termob_fat_fs option \<Rightarrow> string option \<Rightarrow> termob_fat_lookup_result \<Rightarrow> 'a block_globals_scheme \<Rightarrow>
    termob_fat_status \<times> termob_fat_lookup_result \<times> 'a block_globals_scheme" where
  "fat_lookup_path fsp pathp result s =
     (case (fsp, pathp) of
        (Some fs, Some path) \<Rightarrow>
          if path = [] \<or> hd path \<noteq> CHR ''/''
          then (TERMOB_FAT_STATUS_INVALID_PATH, result,
                fat_log_event ''TERMOB: fat path invalid syntax'' s)
          else fat_lookup_loop fs (fat_skip_path_separators path) (result\<lparr>lr_is_root := True\<rparr>) s
      | _ \<Rightarrow> (TERMOB_FAT_STATUS_INVALID_ARGUMENT, result, s))"

text \<open>An uninitialised local \<^verbatim>\<open>termob_fat_lookup_result_t\<close>.\<close>

definition lookup_start :: termob_fat_lookup_result where
  "lookup_start = \<lparr>lr_dirent = None, lr_is_root = False\<rparr>"

definition fat_list_path ::
  "termob_fat_fs option \<Rightarrow> string option \<Rightarrow> ('u, 'a block_globals_scheme) dirent_callback option \<Rightarrow> 'u \<Rightarrow>
    'a block_globals_scheme \<Rightarrow> termob_fat_status \<times> 'u \<times> 'a block_globals_scheme" where
  "fat_list_path fsp pathp callback user s =
     (case (fsp, pathp) of
        (Some fs, Some path) \<Rightarrow>
          if path = []
          then (TERMOB_FAT_STATUS_INVALID_PATH, user, fat_log_event ''TERMOB: fat path invalid syntax'' s)
          else if path = ''/''
          then
            let (ok, user, s) = fat_list_root (Some fs) callback user s
            in (if ok then TERMOB_FAT_STATUS_OK else TERMOB_FAT_STATUS_CORRUPT, user, s)
          else
            (case fat_lookup_path (Some fs) (Some path) lookup_start s of
               (TERMOB_FAT_STATUS_OK, lookup, s) \<Rightarrow>
                 if lr_is_root lookup
                 then
                   let (ok, user, s) = fat_list_root (Some fs) callback user s
                   in (if ok then TERMOB_FAT_STATUS_OK else TERMOB_FAT_STATUS_CORRUPT, user, s)
                 else
                   (case lr_dirent lookup of
                      None \<Rightarrow> (TERMOB_FAT_STATUS_NOT_DIRECTORY, user, s)
                    | Some d \<Rightarrow>
                        if de_kind d \<noteq> TERMOB_FAT_DIRENT_DIRECTORY
                        then (TERMOB_FAT_STATUS_NOT_DIRECTORY, user,
                              fat_log_event ''TERMOB: fat list path target not directory'' s)
                        else
                          let (ok, user, s) =
                                fat_list_directory (Some fs) (de_first_cluster d) callback user s
                          in (if ok then TERMOB_FAT_STATUS_OK else TERMOB_FAT_STATUS_CORRUPT, user, s))
             | (status, lookup, s) \<Rightarrow> (status, user, s))
      | _ \<Rightarrow> (TERMOB_FAT_STATUS_INVALID_ARGUMENT, user, s))"

end
