(* ===== verification/Fat_File.thy ===== *)
theory Fat_File
  imports Fat_Dir
begin

text \<open>
  Open files of the FAT reader (\<^verbatim>\<open>fs/fat.c\<close>): opening, seeking and reading. The caller's buffer is a
  list of bytes that a read updates in place; \<^verbatim>\<open>copied\<close> and \<^verbatim>\<open>buffer_size\<close> are natural numbers.
\<close>

abbreviation (input) TERMOB_FAT_FILE_MAX_VISITED_CLUSTERS :: nat where
  "TERMOB_FAT_FILE_MAX_VISITED_CLUSTERS \<equiv> 256"

record termob_fat_file =
  ff_fs :: termob_fat_fs
  ff_dirent :: termob_fat_dirent
  ff_position :: u32
  ff_current_cluster :: u32
  ff_current_cluster_file_offset :: u32
  ff_clusters_seen :: u32
  ff_visited_count :: nat
  ff_visited_clusters :: "u32 list"

definition fat_min_size :: "nat \<Rightarrow> nat \<Rightarrow> nat" where
  "fat_min_size a b = (if a < b then a else b)"

definition fat_copy_bytes :: "u8 list \<Rightarrow> nat \<Rightarrow> u8 list \<Rightarrow> nat \<Rightarrow> nat \<Rightarrow> u8 list" where
  "fat_copy_bytes dst dst_off src src_off count =
     fold (\<lambda>index d. d[dst_off + index := byte_at src (src_off + index)]) [0..<count] dst"

definition fat_file_cluster_size_bytes :: "termob_fat_file \<Rightarrow> u32" where
  "fat_file_cluster_size_bytes file =
     fs_bytes_per_sector (ff_fs file) * fs_sectors_per_cluster (ff_fs file)"

definition fat_file_reset_state :: "termob_fat_file \<Rightarrow> termob_fat_file" where
  "fat_file_reset_state file =
     (let empty = de_size_bytes (ff_dirent file) = 0;
          first = de_first_cluster (ff_dirent file);
          file = file\<lparr>ff_position := 0,
                      ff_current_cluster := (if empty then 0 else first),
                      ff_current_cluster_file_offset := 0,
                      ff_clusters_seen := (if empty then 0 else 1),
                      ff_visited_count := (if empty then 0 else 1)\<rparr>
      in if \<not> empty
         then file\<lparr>ff_visited_clusters := (ff_visited_clusters file)[0 := first]\<rparr> else file)"

definition fat_file_max_clusters :: "termob_fat_file \<Rightarrow> u32" where
  "fat_file_max_clusters file =
     (if de_size_bytes (ff_dirent file) = 0 then 0
      else
        let cluster_size = fat_file_cluster_size_bytes file
        in (de_size_bytes (ff_dirent file) + cluster_size - 1) div cluster_size)"

definition fat_file_advance_cluster ::
  "termob_fat_file \<Rightarrow> 'a block_globals_scheme \<Rightarrow>
    termob_fat_status \<times> termob_fat_file \<times> 'a block_globals_scheme" where
  "fat_file_advance_cluster file s =
     (if ff_current_cluster file = 0 \<or> \<not> fat_cluster_is_valid (ff_fs file) (ff_current_cluster file)
      then (TERMOB_FAT_STATUS_CORRUPT, file, fat_log_event ''TERMOB: fat file cluster invalid'' s)
      else if ff_clusters_seen file \<ge> fat_file_max_clusters file
      then (TERMOB_FAT_STATUS_CORRUPT, file, fat_log_event ''TERMOB: fat file chain too long'' s)
      else
        case fat_read_fat_entry (ff_fs file) (ff_current_cluster file) s of
          None \<Rightarrow> (TERMOB_FAT_STATUS_IO_ERROR, file,
                   fat_log_event ''TERMOB: fat file next cluster read failed'' s)
        | Some next_cluster \<Rightarrow>
            if fat_entry_is_end (fs_fat_type (ff_fs file)) next_cluster
            then (TERMOB_FAT_STATUS_CORRUPT, file,
                  fat_log_event ''TERMOB: fat file chain ended before eof'' s)
            else if fat_next_corrupt (ff_fs file) next_cluster
            then (TERMOB_FAT_STATUS_CORRUPT, file,
                  fat_log_event ''TERMOB: fat file chain corrupted'' s)
            else if next_cluster \<in> set (take (ff_visited_count file) (ff_visited_clusters file))
            then (TERMOB_FAT_STATUS_CORRUPT, file,
                  fat_log_event ''TERMOB: fat file chain loop detected'' s)
            else if ff_visited_count file \<ge> TERMOB_FAT_FILE_MAX_VISITED_CLUSTERS
            then (TERMOB_FAT_STATUS_CORRUPT, file,
                  fat_log_event ''TERMOB: fat file chain exceeds loop guard'' s)
            else
              (TERMOB_FAT_STATUS_OK,
               file\<lparr>ff_current_cluster := next_cluster,
                    ff_current_cluster_file_offset :=
                      ff_current_cluster_file_offset file + fat_file_cluster_size_bytes file,
                    ff_clusters_seen := ff_clusters_seen file + 1,
                    ff_visited_clusters :=
                      (ff_visited_clusters file)[ff_visited_count file := next_cluster],
                    ff_visited_count := ff_visited_count file + 1\<rparr>, s))"

primrec fat_advance_many ::
  "nat \<Rightarrow> termob_fat_file \<Rightarrow> 'a block_globals_scheme \<Rightarrow>
    termob_fat_status \<times> termob_fat_file \<times> 'a block_globals_scheme" where
  "fat_advance_many 0 file s = (TERMOB_FAT_STATUS_OK, file, s)"
| "fat_advance_many (Suc n) file s =
     (let (status, file, s) = fat_file_advance_cluster file s
      in if status \<noteq> TERMOB_FAT_STATUS_OK then (status, file, s) else fat_advance_many n file s)"

definition fat_seek_file ::
  "termob_fat_file \<Rightarrow> u32 \<Rightarrow> 'a block_globals_scheme \<Rightarrow>
    termob_fat_status \<times> termob_fat_file \<times> 'a block_globals_scheme" where
  "fat_seek_file file offset s =
     (if offset > de_size_bytes (ff_dirent file) then (TERMOB_FAT_STATUS_INVALID_ARGUMENT, file, s)
      else
        let file = fat_file_reset_state file
        in if offset = 0 \<or> de_size_bytes (ff_dirent file) = 0 then (TERMOB_FAT_STATUS_OK, file, s)
           else
             let cluster_size = fat_file_cluster_size_bytes file;
                 clusters_to_advance = offset div cluster_size;
                 (status, file, s) = fat_advance_many (unat clusters_to_advance) file s
             in if status \<noteq> TERMOB_FAT_STATUS_OK then (status, file, s)
                else (TERMOB_FAT_STATUS_OK,
                      file\<lparr>ff_position := offset,
                           ff_current_cluster_file_offset := clusters_to_advance * cluster_size\<rparr>, s))"

definition fat_open_file ::
  "termob_fat_fs option \<Rightarrow> string option \<Rightarrow> 'a block_globals_scheme \<Rightarrow>
    termob_fat_status \<times> termob_fat_file option \<times> 'a block_globals_scheme" where
  "fat_open_file fsp pathp s =
     (case (fsp, pathp) of
        (Some fs, Some path) \<Rightarrow>
          (case fat_lookup_path (Some fs) (Some path) lookup_start s of
             (TERMOB_FAT_STATUS_OK, lookup, s) \<Rightarrow>
               (case lr_dirent lookup of
                  Some d \<Rightarrow>
                    if lr_is_root lookup \<or> de_kind d \<noteq> TERMOB_FAT_DIRENT_FILE
                    then (TERMOB_FAT_STATUS_NOT_FILE, None,
                          fat_log_event ''TERMOB: fat path target not file'' s)
                    else if de_suspicious d
                    then (TERMOB_FAT_STATUS_CORRUPT, None,
                          fat_log_event ''TERMOB: fat file entry suspicious'' s)
                    else
                      let empty = de_size_bytes d = 0;
                          file = \<lparr>ff_fs = fs, ff_dirent = d, ff_position = 0,
                                  ff_current_cluster = (if empty then 0 else de_first_cluster d),
                                  ff_current_cluster_file_offset = 0,
                                  ff_clusters_seen = (if empty then 0 else 1),
                                  ff_visited_count = (if empty then 0 else 1),
                                  ff_visited_clusters =
                                    replicate TERMOB_FAT_FILE_MAX_VISITED_CLUSTERS 0\<rparr>
                      in if \<not> empty \<and> \<not> fat_cluster_is_valid fs (de_first_cluster d)
                         then (TERMOB_FAT_STATUS_CORRUPT, Some file,
                               fat_log_event ''TERMOB: fat file first cluster invalid'' s)
                         else (TERMOB_FAT_STATUS_OK,
                               Some (if \<not> empty
                                     then file\<lparr>ff_visited_clusters :=
                                            (ff_visited_clusters file)[0 := de_first_cluster d]\<rparr>
                                     else file), s)
                | None \<Rightarrow> (TERMOB_FAT_STATUS_NOT_FILE, None,
                           fat_log_event ''TERMOB: fat path target not file'' s))
           | (status, lookup, s) \<Rightarrow> (status, None, s))
      | _ \<Rightarrow> (TERMOB_FAT_STATUS_INVALID_ARGUMENT, None, s))"

text \<open>
  The loop of \<^verbatim>\<open>fat_read_file\<close>: status, file, buffer and \<^verbatim>\<open>copied\<close>. Every round that goes on has
  copied at least one byte.
\<close>

function fat_read_loop ::
  "nat \<Rightarrow> termob_fat_file \<Rightarrow> u8 list \<Rightarrow> nat \<Rightarrow> 'a block_globals_scheme \<Rightarrow>
    termob_fat_status \<times> termob_fat_file \<times> u8 list \<times> nat \<times> 'a block_globals_scheme" where
  "fat_read_loop total_to_copy file buffer copied s =
     (if \<not> copied < total_to_copy then (TERMOB_FAT_STATUS_OK, file, buffer, copied, s)
      else if ff_current_cluster file = 0 \<or> \<not> fat_cluster_is_valid (ff_fs file) (ff_current_cluster file)
      then (TERMOB_FAT_STATUS_CORRUPT, file, buffer, copied,
            fat_log_event ''TERMOB: fat file cluster invalid'' s)
      else
        let bps = fs_bytes_per_sector (ff_fs file);
            cluster_size = fat_file_cluster_size_bytes file;
            cluster_offset = ff_position file - ff_current_cluster_file_offset file
        in if cluster_offset \<ge> cluster_size
           then (TERMOB_FAT_STATUS_CORRUPT, file, buffer, copied,
                 fat_log_event ''TERMOB: fat file cursor outside cluster'' s)
           else
             let sector_index = cluster_offset div bps;
                 sector_byte_offset = cluster_offset mod bps;
                 sector_lba = fat_cluster_first_lba (ff_fs file) (ff_current_cluster file) + sector_index
             in case fat_block_read_sector (ff_fs file) sector_lba s of
                  None \<Rightarrow> (TERMOB_FAT_STATUS_IO_ERROR, file, buffer, copied,
                           fat_log_event ''TERMOB: fat file data read failed'' s)
                | Some sector \<Rightarrow>
                    let available_in_sector = unat (bps - sector_byte_offset);
                        bytes_this_round = fat_min_size available_in_sector (total_to_copy - copied);
                        buffer = fat_copy_bytes buffer copied sector (unat sector_byte_offset) bytes_this_round;
                        copied = copied + bytes_this_round;
                        file = file\<lparr>ff_position := ff_position file + word_of_nat bytes_this_round\<rparr>
                    in if ff_position file \<ge> de_size_bytes (ff_dirent file)
                       then (TERMOB_FAT_STATUS_OK, file, buffer, copied, s)
                       else if ff_position file - ff_current_cluster_file_offset file \<ge> cluster_size
                       then
                         (case fat_file_advance_cluster file s of
                            (status, file, s) \<Rightarrow>
                              if status \<noteq> TERMOB_FAT_STATUS_OK then (status, file, buffer, copied, s)
                              else fat_read_loop total_to_copy file buffer copied s)
                       else fat_read_loop total_to_copy file buffer copied s)"
  by pat_completeness auto
termination
proof (relation "measure (\<lambda>(total, file, buffer, copied, s). total - copied)", goal_cases)
  case 1
  show ?case by simp
qed (auto simp: fat_min_size_def fat_file_cluster_size_bytes_def not_le dest: sector_rest_pos)

declare fat_read_loop.simps [simp del]

definition fat_read_file ::
  "termob_fat_file \<Rightarrow> u8 list option \<Rightarrow> nat \<Rightarrow> 'a block_globals_scheme \<Rightarrow>
    termob_fat_status \<times> termob_fat_file \<times> u8 list option \<times> nat \<times> 'a block_globals_scheme" where
  "fat_read_file file bufferp buffer_size s =
     (if bufferp = None \<and> buffer_size \<noteq> 0
      then (TERMOB_FAT_STATUS_INVALID_ARGUMENT, file, bufferp, 0, s)
      else if buffer_size = 0 \<or> ff_position file \<ge> de_size_bytes (ff_dirent file)
      then (TERMOB_FAT_STATUS_OK, file, bufferp, 0, s)
      else if fs_bytes_per_sector (ff_fs file) > 4096
      then (TERMOB_FAT_STATUS_CORRUPT, file, bufferp, 0,
            fat_log_event ''TERMOB: fat file sector buffer too small'' s)
      else
        let total_to_copy =
              fat_min_size buffer_size (unat (de_size_bytes (ff_dirent file) - ff_position file));
            (status, file, buffer, copied, s) = fat_read_loop total_to_copy file (the bufferp) 0 s
        in (status, file, Some buffer, copied, s))"

definition fat_read_file_range ::
  "termob_fat_fs option \<Rightarrow> string option \<Rightarrow> u32 \<Rightarrow> u8 list option \<Rightarrow> nat \<Rightarrow> 'a block_globals_scheme \<Rightarrow>
    termob_fat_status \<times> u8 list option \<times> nat \<times> 'a block_globals_scheme" where
  "fat_read_file_range fsp pathp offset bufferp buffer_size s =
     (if fsp = None \<or> pathp = None \<or> bufferp = None \<and> buffer_size \<noteq> 0
      then (TERMOB_FAT_STATUS_INVALID_ARGUMENT, bufferp, 0, s)
      else
        case fat_open_file fsp pathp s of
          (TERMOB_FAT_STATUS_OK, Some file, s) \<Rightarrow>
            if offset \<ge> de_size_bytes (ff_dirent file) then (TERMOB_FAT_STATUS_OK, bufferp, 0, s)
            else
              (case fat_seek_file file offset s of
                 (status, file, s) \<Rightarrow>
                   if status \<noteq> TERMOB_FAT_STATUS_OK then (status, bufferp, 0, s)
                   else
                     let (status, file, bufferp, copied, s) = fat_read_file file bufferp buffer_size s
                     in (status, bufferp, copied, s))
        | (status, _, s) \<Rightarrow> (status, bufferp, 0, s))"

end
