(* ===== verification/Fat_Table.thy ===== *)
theory Fat_Table
  imports Fat_File Block_Props
begin

text \<open>
  The file allocation table as the medium holds it. \<open>fat_table_byte\<close> is the encoding of a table of
  entries as bytes: 12-bit entries packed in pairs over three bytes, 16-bit and 32-bit entries in
  little-endian order. The reader recovers every entry, also one whose bytes lie in two sectors.
\<close>

section \<open>A volume on a block device\<close>

text \<open>
  The device of the volume delivers its readable sectors, in the size the volume was mounted with.
\<close>

definition fat_medium ::
  "termob_fat_fs \<Rightarrow> u32 set \<Rightarrow> (u32 \<Rightarrow> u8 list) \<Rightarrow> 'a block_globals_scheme \<Rightarrow> bool" where
  "fat_medium fs readable sector s \<longleftrightarrow>
     (\<exists>d rd. block_device_at (fs_device_index fs) s = Some d \<and> bd_read d = Some rd \<and>
        bd_sector_size_bytes d = fs_bytes_per_sector fs \<and>
        reads_sectors (rd (bd_private_data d)) readable sector (unat (fs_bytes_per_sector fs)))"

definition sector_size_ok :: "termob_fat_fs \<Rightarrow> bool" where
  "sector_size_ok fs \<longleftrightarrow> fs_bytes_per_sector fs \<in> {512, 1024, 2048, 4096}"

abbreviation bps :: "termob_fat_fs \<Rightarrow> nat" where
  "bps fs \<equiv> unat (fs_bytes_per_sector fs)"

lemma sector_size_bounds:
  assumes "sector_size_ok fs"
  shows "512 \<le> bps fs" "bps fs \<le> 4096" "4 dvd bps fs"
  using assms by (auto simp: sector_size_ok_def)

lemma fat_medium_length: "fat_medium fs readable sector s \<Longrightarrow> length (sector lba) = bps fs"
  by (auto simp: fat_medium_def reads_sectors_def)

lemma fat_read_sector:
  assumes "fat_medium fs readable sector s" "lba \<in> readable"
  shows "fat_block_read_sector fs lba s = Some (sector lba @ drop (bps fs) (replicate 4096 0))"
proof -
  obtain d rd where "block_device_at (fs_device_index fs) s = Some d" "bd_read d = Some rd"
    "reads_sectors (rd (bd_private_data d)) readable sector (bps fs)"
    using assms(1) by (auto simp: fat_medium_def)
  then show ?thesis
    unfolding fat_block_read_sector_def using assms(2) by (rule block_read_device_one)
qed

lemma byte_at_append: "i < length xs \<Longrightarrow> byte_at (xs @ ys) i = xs ! i"
  by (simp add: byte_at_def nth_append)

section \<open>Bytes of consecutive sectors\<close>

lemma nth_concat_equal:
  assumes "\<And>j. j < n \<Longrightarrow> length (f j) = m" "i < n * m"
  shows "concat (map f [0..<n]) ! i = f (i div m) ! (i mod m)" "i < length (concat (map f [0..<n]))"
proof -
  have l: "length (concat (map f [0..<k])) = k * m" if "k \<le> n" for k
    using that assms(1) by (induction k) auto
  show "i < length (concat (map f [0..<n]))" using l [of n] assms(2) by simp
  have "concat (map f [0..<k]) ! i = f (i div m) ! (i mod m)" if "k \<le> n" "i < k * m" for k
    using that
  proof (induction k)
    case (Suc k)
    show ?case
    proof (cases "i < k * m")
      case True
      then show ?thesis using Suc l [of k] by (simp add: nth_append)
    next
      case False
      then have "k * m \<le> i" "i < k * m + m" using Suc.prems(2) by simp_all
      then have "i div m = k" by (intro div_nat_eqI) (simp_all add: algebra_simps)
      moreover from this have "i mod m = i - k * m" by (simp add: modulo_nat_def mult.commute)
      ultimately show ?thesis using False Suc.prems l [of k] by (simp add: nth_append)
    qed
  qed simp
  from this [of n] assms(2) show "concat (map f [0..<n]) ! i = f (i div m) ! (i mod m)" by simp
qed

text \<open>Byte \<open>n\<close> of the sectors from \<open>lba\<close> on.\<close>

definition stream_byte :: "nat \<Rightarrow> (u32 \<Rightarrow> u8 list) \<Rightarrow> u32 \<Rightarrow> nat \<Rightarrow> u8" where
  "stream_byte m sector lba n = sector (lba + word_of_nat (n div m)) ! (n mod m)"

lemma fat_read_sectors:
  assumes "fat_medium fs readable sector s" "sector_size_ok fs" "n = 1 \<or> n = 2" "i < n * bps fs"
    and "\<And>j. j < n \<Longrightarrow> lba + word_of_nat j \<in> readable"
  shows "\<exists>buf. block_read_device (fs_device_index fs) lba (word_of_nat n) (Some (replicate 8192 0)) s = Some buf
    \<and> (\<forall>i < n * bps fs. byte_at buf i = stream_byte (bps fs) sector lba i)"
proof -
  obtain d rd where d: "block_device_at (fs_device_index fs) s = Some d" "bd_read d = Some rd"
    "bd_sector_size_bytes d = fs_bytes_per_sector fs"
    "reads_sectors (rd (bd_private_data d)) readable sector (bps fs)"
    using assms(1) by (auto simp: fat_medium_def)
  note b = sector_size_bounds [OF assms(2)]
  let ?xs = "concat (map (\<lambda>j. sector (lba + word_of_nat j)) [0..<n])"
  have "\<exists>rest. block_read_device (fs_device_index fs) lba (word_of_nat n) (Some (replicate 8192 0)) s =
      Some (?xs @ rest)"
  proof (cases "n = 1")
    case True
    then show ?thesis using block_read_device_one [OF d(1,2,4), of lba] assms(5) [of 0] by auto
  next
    case False
    then have n: "n = 2" using assms(3) by simp
    have "fs_bytes_per_sector fs \<noteq> 0" using b(1) by (metis not_numeral_le_zero unat_0)
    then show ?thesis
      using block_read_device_many [OF d(1,2), of 2 readable sector lba "replicate 8192 0"] d b n assms(5) by auto
  qed
  then obtain rest where
    "block_read_device (fs_device_index fs) lba (word_of_nat n) (Some (replicate 8192 0)) s = Some (?xs @ rest)"
    by blast
  moreover have "byte_at (?xs @ rest) i = stream_byte (bps fs) sector lba i" if "i < n * bps fs" for i
    using nth_concat_equal [of n "\<lambda>j. sector (lba + word_of_nat j)" "bps fs" i]
      fat_medium_length [OF assms(1)] that
    by (simp add: byte_at_append stream_byte_def)
  ultimately show ?thesis by blast
qed

lemma stream_byte_shift:
  assumes "m \<noteq> 0"
  shows "stream_byte m sector (lba + word_of_nat (q div m)) (q mod m + k) = stream_byte m sector lba (q + k)"
proof -
  have "q + k = q div m * m + (q mod m + k)" by simp
  then have "(q + k) div m = q div m + (q mod m + k) div m" "(q + k) mod m = (q mod m + k) mod m"
    using assms by (metis div_mult_self3, metis mod_mult_self3)
  then show ?thesis by (simp add: stream_byte_def add.assoc)
qed

section \<open>Little-endian values\<close>

lemma nat_or_disjoint:
  assumes "(a :: nat) < 2 ^ k"
  shows "a OR push_bit k b = a + b * 2 ^ k"
proof -
  have a: "take_bit k a = a" using assms by (simp add: take_bit_nat_eq_self)
  have "\<not> bit a n \<or> \<not> bit (push_bit k b) n" for n
    by (subst a [symmetric]) (auto simp: bit_simps)
  then show ?thesis
    by (simp add: disjunctive_add [symmetric] push_bit_eq_mult)
qed

lemma unat_or_disjoint:
  fixes a b :: "'a::len word"
  assumes "unat a < 2 ^ k" "unat b * 2 ^ k < 2 ^ LENGTH('a)"
  shows "unat (a OR push_bit k b) = unat a + unat b * 2 ^ k"
proof -
  have "unat (push_bit k b) = push_bit k (unat b)"
    unfolding unsigned_push_bit_eq using assms(2) by (simp add: push_bit_eq_mult take_bit_nat_eq_self)
  then show ?thesis
    using nat_or_disjoint [OF assms(1), of "unat b"] by (simp add: unsigned_or_eq)
qed

lemma u8_less: "unat (x :: u8) < 256"
  using unsigned_less [of x, where ?'a = nat] by simp

lemma unat_ucast_u8 [simp]:
  "unat (ucast (x :: u8) :: u16) = unat x" "unat (ucast (x :: u8) :: u32) = unat x"
  using u8_less [of x] by (simp_all add: unsigned_ucast_eq take_bit_nat_eq_self)

lemma u16_less: "unat (x :: u16) < 65536"
  using unsigned_less [of x, where ?'a = nat] by simp

lemma unat_ucast_u16 [simp]: "unat (ucast (x :: u16) :: u32) = unat x"
  using u16_less [of x] by (simp add: unsigned_ucast_eq take_bit_nat_eq_self)

lemma unat_le16: "unat (le16 a b) = unat a + 256 * unat b"
proof -
  show ?thesis
    using unat_or_disjoint [of "ucast a :: u16" 8 "ucast b"] u8_less [of a] u8_less [of b]
    by (simp add: le16_def)
qed

lemma unat_le32: "unat (le32 a b c d) = unat a + 256 * unat b + 65536 * unat c + 16777216 * unat d"
proof -
  note l = u8_less [of a] u8_less [of b] u8_less [of c] u8_less [of d]
  have 1: "unat ((ucast a :: u32) OR push_bit 8 (ucast b)) = unat a + 256 * unat b"
    using unat_or_disjoint [of "ucast a :: u32" 8 "ucast b"] l by simp
  have 2: "unat ((ucast a :: u32) OR push_bit 8 (ucast b) OR push_bit 16 (ucast c)) =
      unat a + 256 * unat b + 65536 * unat c"
    using unat_or_disjoint [of "(ucast a :: u32) OR push_bit 8 (ucast b)" 16 "ucast c"] l 1
    by (simp add: or.assoc)
  show ?thesis
    using unat_or_disjoint [of "(ucast a :: u32) OR push_bit 8 (ucast b) OR push_bit 16 (ucast c)" 24 "ucast d"] l 2
    by (simp add: le32_def or.assoc)
qed

section \<open>The encoding of a table\<close>

fun fat_table_byte :: "termob_fat_type \<Rightarrow> (nat \<Rightarrow> nat) \<Rightarrow> nat \<Rightarrow> nat" where
  "fat_table_byte TERMOB_FAT_TYPE_12 e n =
     (let q = n div 3
      in if n mod 3 = 0 then e (2 * q) mod 256
         else if n mod 3 = 1 then e (2 * q) div 256 + 16 * (e (2 * q + 1) mod 16)
         else e (2 * q + 1) div 16)"
| "fat_table_byte TERMOB_FAT_TYPE_16 e n =
     (if n mod 2 = 0 then e (n div 2) mod 256 else e (n div 2) div 256)"
| "fat_table_byte TERMOB_FAT_TYPE_32 e n = e (n div 4) div 256 ^ (n mod 4) mod 256"
| "fat_table_byte TERMOB_FAT_TYPE_NONE e n = 0"

fun fat_entry_bits :: "termob_fat_type \<Rightarrow> nat" where
  "fat_entry_bits TERMOB_FAT_TYPE_12 = 12"
| "fat_entry_bits TERMOB_FAT_TYPE_16 = 16"
| "fat_entry_bits TERMOB_FAT_TYPE_32 = 32"
| "fat_entry_bits TERMOB_FAT_TYPE_NONE = 0"

lemma table_byte_12:
  assumes "\<And>i. e i < 4096"
  shows "fat_table_byte TERMOB_FAT_TYPE_12 e (c + c div 2) +
      256 * fat_table_byte TERMOB_FAT_TYPE_12 e (c + c div 2 + 1) =
    (if even c then e c + 4096 * (e (c + 1) mod 16) else e (c - 1) div 256 + 16 * e c)"
proof (cases "even c")
  case True
  then obtain q where q: "c = 2 * q" by (elim evenE)
  have "(q + 2 * q) div 3 = q" "(q + 2 * q) mod 3 = 0" by simp_all
  moreover have "Suc (q + 2 * q) div 3 = q" "Suc (q + 2 * q) mod 3 = 1" by presburger+
  moreover have "e (2 * q) mod 256 + 256 * (e (2 * q) div 256) = e (2 * q)" by simp
  ultimately show ?thesis using q by (simp add: algebra_simps)
next
  case False
  then obtain q where q: "c = 2 * q + 1" by (elim oddE)
  have "Suc (q + 2 * q) div 3 = q" "Suc (q + 2 * q) mod 3 = 1" by presburger+
  moreover have "Suc (Suc (q + 2 * q)) div 3 = q" "Suc (Suc (q + 2 * q)) mod 3 = 2" by presburger+
  moreover have "16 * (e (2 * q + 1) mod 16) + 256 * (e (2 * q + 1) div 16) = 16 * e (2 * q + 1)"
    using mult_div_mod_eq [of 16 "e (2 * q + 1)"] by linarith
  ultimately show ?thesis using q by (simp add: algebra_simps)
qed

section \<open>Reading an entry\<close>

abbreviation fat_byte :: "termob_fat_fs \<Rightarrow> (u32 \<Rightarrow> u8 list) \<Rightarrow> nat \<Rightarrow> u8" where
  "fat_byte fs sector \<equiv> stream_byte (bps fs) sector (fs_first_fat_lba fs)"

text \<open>The sector that holds a byte of the table can be read.\<close>

abbreviation fat_byte_readable :: "termob_fat_fs \<Rightarrow> u32 set \<Rightarrow> nat \<Rightarrow> bool" where
  "fat_byte_readable fs readable n \<equiv> fs_first_fat_lba fs + word_of_nat (n div bps fs) \<in> readable"

lemma fat_entry_buffer:
  assumes "fat_medium fs readable sector s" "sector_size_ok fs" "n = 1 \<or> n = 2"
    and "fat_byte_readable fs readable (unat off)" "n = 2 \<Longrightarrow> fat_byte_readable fs readable (unat off + bps fs)"
  shows "\<exists>buf. block_read_device (fs_device_index fs) (fs_first_fat_lba fs + off div fs_bytes_per_sector fs)
      (word_of_nat n) (Some (replicate 8192 0)) s = Some buf \<and>
    (\<forall>k. unat off mod bps fs + k < n * bps fs \<longrightarrow>
       byte_at buf (unat (off mod fs_bytes_per_sector fs) + k) = fat_byte fs sector (unat off + k))"
proof -
  note b = sector_size_bounds [OF assms(2)]
  have w: "off div fs_bytes_per_sector fs = word_of_nat (unat off div bps fs)"
    by (simp add: word_unat_eq_iff unat_div unat_of_nat)
      (metis div_le_dividend mod_less order_le_less_trans u32_less)
  have r: "fs_first_fat_lba fs + off div fs_bytes_per_sector fs + word_of_nat j \<in> readable" if "j < n" for j
  proof (cases "j = 0")
    case True
    then show ?thesis using assms(4) w by simp
  next
    case False
    then have j: "n = 2" "j = 1" using assms(3) that by auto
    have "(unat off + bps fs) div bps fs = unat off div bps fs + 1" using b(1) by (intro div_add_self2) linarith
    then show ?thesis using assms(5) [OF j(1)] w j(2) by (simp add: ac_simps)
  qed
  obtain buf where buf: "block_read_device (fs_device_index fs)
      (fs_first_fat_lba fs + off div fs_bytes_per_sector fs) (word_of_nat n) (Some (replicate 8192 0)) s = Some buf"
    "\<forall>i < n * bps fs. byte_at buf i =
       stream_byte (bps fs) sector (fs_first_fat_lba fs + off div fs_bytes_per_sector fs) i"
    using fat_read_sectors [OF assms(1-3), of 0 "fs_first_fat_lba fs + off div fs_bytes_per_sector fs"] assms(3) b r
    by auto
  have "byte_at buf (unat (off mod fs_bytes_per_sector fs) + k) = fat_byte fs sector (unat off + k)"
    if "unat off mod bps fs + k < n * bps fs" for k
    using buf(2) that stream_byte_shift [of "bps fs" sector "fs_first_fat_lba fs" "unat off" k] b(1)
    by (simp add: unat_mod w)
  then show ?thesis using buf(1) by blast
qed

lemma and_0xFFF: "unat (x AND 0xFFF :: u16) = unat x mod 4096"
  using unat_and_mask [of x 12] by (simp add: mask_eq_exp_minus_1)

lemma unat_drop_bit_u16: "unat (drop_bit k (x :: u16)) = unat x div 2 ^ k"
  unfolding unsigned_drop_bit_eq by (simp add: drop_bit_eq_div take_bit_nat_eq_self u16_less)

lemma even_word: "cluster AND 1 = 0 \<longleftrightarrow> even (unat (cluster :: u32))"
  by (simp add: and_one_eq even_iff_mod_2_eq_zero word_unat_eq_iff unat_mod flip: mod_2_eq_odd)

lemma fat_read_entry_12:
  assumes "fat_medium fs readable sector s" "sector_size_ok fs" "fs_fat_type fs = TERMOB_FAT_TYPE_12"
    and "unat c < 2 ^ 30" "\<And>k. k < 2 \<Longrightarrow> fat_byte_readable fs readable (unat c + unat c div 2 + k)"
  defines "w \<equiv> unat (fat_byte fs sector (unat c + unat c div 2)) +
      256 * unat (fat_byte fs sector (unat c + unat c div 2 + 1))"
  shows "fat_read_fat_entry fs c s = Some (word_of_nat (if even (unat c) then w mod 4096 else w div 16))"
proof -
  let ?off = "c + c div 2" and ?B = "fs_bytes_per_sector fs"
  note b = sector_size_bounds [OF assms(2)]
  have o: "unat ?off = unat c + unat c div 2"
    using assms(4) by (simp add: unat_word_ariths unat_div)
  define n :: nat where "n = (if ?off mod ?B = ?B - 1 then 2 else 1)"
  have n: "n = 1 \<or> n = 2" and n': "(if ?off mod ?B = ?B - 1 then 2 else 1) = (word_of_nat n :: u32)"
    by (simp_all add: n_def)
  have rd0: "fat_byte_readable fs readable (unat ?off)" using assms(5) [of 0] o by simp
  have rd: "fat_byte_readable fs readable (unat ?off + bps fs)" if "n = 2"
  proof -
    have "?off mod ?B = ?B - 1" using that by (simp add: n_def split: if_splits)
    then have "unat ?off mod bps fs = bps fs - 1"
      using b(1) by (metis le_numeral_extra(4) numeral_le_iff one_le_numeral order_trans unat_1 unat_mod unat_sub word_le_nat_alt)
    then have "unat ?off + 1 = Suc (unat ?off div bps fs) * bps fs"
      using b(1) div_mult_mod_eq [of "unat ?off" "bps fs"] by (simp add: add.commute)
    moreover have "(unat ?off + bps fs) div bps fs = unat ?off div bps fs + 1" using b(1) by (intro div_add_self2) linarith
    ultimately have "(unat ?off + 1) div bps fs = (unat ?off + bps fs) div bps fs" using b(1) by simp
    then show "fat_byte_readable fs readable (unat ?off + bps fs)" using assms(5) [of 1] o by simp
  qed
  obtain buf where buf: "block_read_device (fs_device_index fs) (fs_first_fat_lba fs + ?off div ?B)
      (word_of_nat n) (Some (replicate 8192 0)) s = Some buf"
    "\<And>k. unat ?off mod bps fs + k < n * bps fs \<Longrightarrow>
       byte_at buf (unat (?off mod ?B) + k) = fat_byte fs sector (unat ?off + k)"
    using fat_entry_buffer [OF assms(1,2) n, of ?off] rd0 rd by blast
  have m: "unat ?off mod bps fs < bps fs" using b(1) by simp
  have "unat ?off mod bps fs + 1 < n * bps fs"
  proof (cases "n = 2")
    case False
    then have "?off mod ?B \<noteq> ?B - 1" by (auto simp: n_def split: if_splits)
    moreover have "unat (?B - 1) = bps fs - 1" using b(1) by (simp add: unat_sub word_le_nat_alt)
    ultimately have "unat ?off mod bps fs \<noteq> bps fs - 1" by (simp add: word_unat_eq_iff unat_mod)
    then show ?thesis using m n False by simp
  qed (use m in simp)
  then have "fat_read_le16 buf (unat (?off mod ?B)) = le16 (fat_byte fs sector (unat ?off)) (fat_byte fs sector (unat ?off + 1))"
    using buf(2) [of 0] buf(2) [of 1] by (simp add: fat_read_le16_def)
  then have r: "unat (fat_read_le16 buf (unat (?off mod ?B))) = w"
    by (simp add: unat_le16 w_def o)
  have "w < 65536" using r u16_less by metis
  have "fat_read_fat_entry fs c s = Some (let raw = fat_read_le16 buf (unat (?off mod ?B))
      in if even (unat c) then ucast (raw AND 0x0FFF) else ucast (drop_bit 4 raw AND 0x0FFF))"
    unfolding even_word [symmetric]
    using assms(3) b n' buf(1) by (simp add: fat_read_fat_entry_def Let_def word_le_nat_alt not_less)
  moreover have "w div 16 mod 4096 = w div 16" "w mod 4096 < 4294967296" "w div 16 < 4294967296"
    using \<open>w < 65536\<close> by simp_all
  ultimately show ?thesis
    by (simp add: Let_def word_unat_eq_iff and_0xFFF unat_drop_bit_u16 r unat_of_nat)
qed

lemma aligned_rest:
  assumes "a dvd q" "a dvd m" "0 < (m :: nat)"
  shows "q mod m + a \<le> m"
proof -
  obtain x y where "q mod m = a * x" "m = a * y"
    using assms(1,2) by (metis dvdE dvd_mod)
  moreover have "q mod m < m" using assms(3) by simp
  ultimately show ?thesis
    by (metis Suc_leI add.commute mult_Suc_right mult_le_mono2 nat_mult_less_cancel_disj)
qed

lemma fat_read_entry_aligned:
  assumes "fat_medium fs readable sector s" "sector_size_ok fs" "unat c < 2 ^ 30"
  shows "fs_fat_type fs = TERMOB_FAT_TYPE_16 \<Longrightarrow> fat_byte_readable fs readable (2 * unat c) \<Longrightarrow> fat_read_fat_entry fs c s =
      Some (ucast (le16 (fat_byte fs sector (2 * unat c)) (fat_byte fs sector (2 * unat c + 1))))"
    and "fs_fat_type fs = TERMOB_FAT_TYPE_32 \<Longrightarrow> fat_byte_readable fs readable (4 * unat c) \<Longrightarrow> fat_read_fat_entry fs c s =
      Some (le32 (fat_byte fs sector (4 * unat c)) (fat_byte fs sector (4 * unat c + 1))
        (fat_byte fs sector (4 * unat c + 2)) (fat_byte fs sector (4 * unat c + 3)) AND 0x0FFFFFFF)"
proof -
  let ?B = "fs_bytes_per_sector fs"
  note b = sector_size_bounds [OF assms(2)]
  have rd: "\<exists>buf. block_read_device (fs_device_index fs) (fs_first_fat_lba fs + off div ?B) 1
      (Some (replicate 8192 0)) s = Some buf \<and>
    (\<forall>k < a. byte_at buf (unat (off mod ?B) + k) = fat_byte fs sector (unat off + k)) \<and>
    \<not> off mod ?B > ?B - word_of_nat a"
    if "a = 2 \<or> a = 4" "a dvd unat off" "fat_byte_readable fs readable (unat off)" for a off
  proof -
    have al: "unat off mod bps fs + a \<le> bps fs"
      using aligned_rest [of a "unat off" "bps fs"] that b by auto
    have "unat (?B - word_of_nat a) = bps fs - a"
      using that(1) b(1) by (auto simp: unat_sub word_le_nat_alt)
    then have "\<not> off mod ?B > ?B - word_of_nat a"
      using al by (simp add: word_less_nat_alt unat_mod)
    moreover have "unat off mod bps fs + k < 1 * bps fs" if "k < a" for k using al that by simp
    ultimately show ?thesis
      using fat_entry_buffer [OF assms(1,2), of 1 off] that(3) by auto
  qed
  have nb: "\<not> ?B > 8192" using b(2) by (simp add: word_less_nat_alt)
  show "fat_read_fat_entry fs c s =
      Some (ucast (le16 (fat_byte fs sector (2 * unat c)) (fat_byte fs sector (2 * unat c + 1))))"
    if ty: "fs_fat_type fs = TERMOB_FAT_TYPE_16" and re: "fat_byte_readable fs readable (2 * unat c)"
  proof -
    have o: "unat (c * 2) = 2 * unat c" using assms(3) by (simp add: unat_word_ariths)
    obtain buf where buf: "block_read_device (fs_device_index fs) (fs_first_fat_lba fs + c * 2 div ?B) 1
      (Some (replicate 8192 0)) s = Some buf" "\<not> c * 2 mod ?B > ?B - 2"
      "\<And>k. k < 2 \<Longrightarrow> byte_at buf (unat (c * 2 mod ?B) + k) = fat_byte fs sector (2 * unat c + k)"
      using rd [of 2 "c * 2"] o re by auto
    show ?thesis
      using buf(1,2) buf(3) [of 0] buf(3) [of 1] ty nb
      by (simp add: fat_read_fat_entry_def Let_def fat_read_le16_def)
  qed
  show "fat_read_fat_entry fs c s =
      Some (le32 (fat_byte fs sector (4 * unat c)) (fat_byte fs sector (4 * unat c + 1))
        (fat_byte fs sector (4 * unat c + 2)) (fat_byte fs sector (4 * unat c + 3)) AND 0x0FFFFFFF)"
    if ty: "fs_fat_type fs = TERMOB_FAT_TYPE_32" and re: "fat_byte_readable fs readable (4 * unat c)"
  proof -
    have o: "unat (c * 4) = 4 * unat c" using assms(3) by (simp add: unat_word_ariths)
    obtain buf where buf: "block_read_device (fs_device_index fs) (fs_first_fat_lba fs + c * 4 div ?B) 1
      (Some (replicate 8192 0)) s = Some buf" "\<not> c * 4 mod ?B > ?B - 4"
      "\<And>k. k < 4 \<Longrightarrow> byte_at buf (unat (c * 4 mod ?B) + k) = fat_byte fs sector (4 * unat c + k)"
      using rd [of 4 "c * 4"] o re by auto
    show ?thesis
      using buf(1,2) buf(3) [of 0] buf(3) [of 1] buf(3) [of 2] buf(3) [of 3] ty nb
      by (simp add: fat_read_fat_entry_def Let_def fat_read_le32_def)
  qed
qed

section \<open>Round trip\<close>

text \<open>The number of bytes of the table up to the end of the entry of a cluster.\<close>

fun fat_entry_end :: "termob_fat_type \<Rightarrow> nat \<Rightarrow> nat" where
  "fat_entry_end TERMOB_FAT_TYPE_12 c = c + c div 2 + 2"
| "fat_entry_end TERMOB_FAT_TYPE_16 c = 2 * c + 2"
| "fat_entry_end TERMOB_FAT_TYPE_32 c = 4 * c + 4"
| "fat_entry_end TERMOB_FAT_TYPE_NONE c = 0"

definition fat_table_on ::
  "termob_fat_fs \<Rightarrow> (u32 \<Rightarrow> u8 list) \<Rightarrow> (nat \<Rightarrow> nat) \<Rightarrow> nat \<Rightarrow> bool" where
  "fat_table_on fs sector e c \<longleftrightarrow> (\<forall>i. e i < 2 ^ fat_entry_bits (fs_fat_type fs)) \<and>
     (\<forall>n < fat_entry_end (fs_fat_type fs) c.
        unat (fat_byte fs sector n) = fat_table_byte (fs_fat_type fs) e n)"

lemma and_28_bits: "unat (x AND 0x0FFFFFFF :: u32) = unat x mod 268435456"
  using unat_and_mask [of x 28] by (simp add: mask_eq_exp_minus_1)

lemma four_bytes:
  assumes "(n :: nat) < 4294967296"
  shows "n mod 256 + 256 * (n div 256 mod 256) + 65536 * (n div 65536 mod 256) +
    16777216 * (n div 16777216 mod 256) = n"
proof -
  define x y z where "x = n div 256" and "y = x div 256" and "z = y div 256"
  have d: "n div 65536 = y" "n div 16777216 = z"
    unfolding x_def y_def z_def by (simp_all flip: div_mult2_eq)
  have "z mod 256 = z"
    unfolding x_def y_def z_def using assms by (simp flip: div_mult2_eq)
  moreover have "n mod 256 + 256 * x = n" "x mod 256 + 256 * y = x" "y mod 256 + 256 * z = y"
    unfolding x_def y_def z_def by simp_all
  ultimately show ?thesis unfolding x_def [symmetric] d by linarith
qed

lemma fat_entry_value:
  assumes "fat_medium fs readable sector s" "sector_size_ok fs" "unat c < 2 ^ 30"
    and "fat_table_on fs sector e (unat c)" "fs_fat_type fs \<noteq> TERMOB_FAT_TYPE_NONE"
    and "\<And>n. n < fat_entry_end (fs_fat_type fs) (unat c) \<Longrightarrow> fat_byte_readable fs readable n"
  shows "fat_read_fat_entry fs c s = Some (word_of_nat (e (unat c) mod 2 ^ 28))"
proof (cases "fs_fat_type fs")
  case TERMOB_FAT_TYPE_12
  have e: "e i < 4096" for i using assms(4) TERMOB_FAT_TYPE_12 by (simp add: fat_table_on_def)
  have m: "e i mod 268435456 = e i" for i using e [of i] by simp
  let ?w = "unat (fat_byte fs sector (unat c + unat c div 2)) +
      256 * unat (fat_byte fs sector (unat c + unat c div 2 + 1))"
  have w: "?w = (if even (unat c) then e (unat c) + 4096 * (e (unat c + 1) mod 16)
      else e (unat c - 1) div 256 + 16 * e (unat c))"
    using table_byte_12 [of e "unat c"] e assms(4) TERMOB_FAT_TYPE_12
    unfolding fat_table_on_def by simp
  have "(e (unat c - 1) div 256 + 16 * e (unat c)) div 16 = e (unat c)"
    using e [of "unat c - 1"] by simp
  then have "(if even (unat c) then ?w mod 4096 else ?w div 16) = e (unat c)"
    unfolding w using e [of "unat c"] by simp
  then show ?thesis
    using fat_read_entry_12 [OF assms(1,2) TERMOB_FAT_TYPE_12 assms(3)] m assms(6) TERMOB_FAT_TYPE_12 by simp
next
  case TERMOB_FAT_TYPE_16
  have e: "e i < 65536" for i using assms(4) TERMOB_FAT_TYPE_16 by (simp add: fat_table_on_def)
  have "unat (le16 (fat_byte fs sector (2 * unat c)) (fat_byte fs sector (2 * unat c + 1))) = e (unat c)"
    using assms(4) TERMOB_FAT_TYPE_16 unfolding unat_le16 fat_table_on_def by simp
  then have "ucast (le16 (fat_byte fs sector (2 * unat c)) (fat_byte fs sector (2 * unat c + 1))) =
      (word_of_nat (e (unat c) mod 2 ^ 28) :: u32)"
    using e [of "unat c"] by (simp add: word_unat_eq_iff unat_of_nat)
  then show ?thesis
    using fat_read_entry_aligned(1) [OF assms(1-3) TERMOB_FAT_TYPE_16] assms(6) TERMOB_FAT_TYPE_16 by simp
next
  case TERMOB_FAT_TYPE_32
  let ?b = "\<lambda>k. fat_byte fs sector (4 * unat c + k)"
  have b: "unat (?b k) = e (unat c) div 256 ^ k mod 256" if "k < 4" for k
    using assms(4) TERMOB_FAT_TYPE_32 that unfolding fat_table_on_def by simp
  have v: "unat (le32 (?b 0) (?b 1) (?b 2) (?b 3)) = e (unat c)"
    using b [of 0] b [of 1] b [of 2] b [of 3] four_bytes [of "e (unat c)"] assms(4) TERMOB_FAT_TYPE_32
    unfolding unat_le32 fat_table_on_def by simp
  then have "le32 (?b 0) (?b 1) (?b 2) (?b 3) AND 0x0FFFFFFF = word_of_nat (e (unat c) mod 2 ^ 28)"
    by (simp add: word_unat_eq_iff and_28_bits unat_of_nat)
  then show ?thesis
    using fat_read_entry_aligned(2) [OF assms(1-3) TERMOB_FAT_TYPE_32] assms(6) TERMOB_FAT_TYPE_32 by simp
qed (use assms(5) in simp)

end
