(* ===== verification/Fat_Chain.thy ===== *)
theory Fat_Chain
  imports Fat_Table
begin

text \<open>
  Files as the medium holds them: the clusters of a file are linked by the allocation table, and
  its contents are the bytes of these clusters up to the size in the directory entry. Opening,
  seeking and reading are shown to deliver these contents from the first 256 clusters, which is how many
  the reader remembers, and to fail beyond them.
\<close>

section \<open>Contents of a file\<close>

definition geometry_ok :: "termob_fat_fs \<Rightarrow> bool" where
  "geometry_ok fs \<longleftrightarrow> sector_size_ok fs \<and>
     1 \<le> unat (fs_sectors_per_cluster fs) \<and> unat (fs_sectors_per_cluster fs) \<le> 128"

abbreviation spc :: "termob_fat_fs \<Rightarrow> nat" where
  "spc fs \<equiv> unat (fs_sectors_per_cluster fs)"

definition csize :: "termob_fat_fs \<Rightarrow> nat" where
  "csize fs = bps fs * spc fs"

definition cluster_data :: "termob_fat_fs \<Rightarrow> (u32 \<Rightarrow> u8 list) \<Rightarrow> u32 \<Rightarrow> u8 list" where
  "cluster_data fs sector c =
     concat (map (\<lambda>i. sector (fat_cluster_first_lba fs c + word_of_nat i)) [0..<spc fs])"

definition chain_links :: "termob_fat_fs \<Rightarrow> u32 list \<Rightarrow> 'a block_globals_scheme \<Rightarrow> bool" where
  "chain_links fs cs s \<longleftrightarrow>
     (\<forall>i. Suc i < length cs \<longrightarrow> fat_read_fat_entry fs (cs ! i) s = Some (cs ! Suc i) \<and>
        \<not> fat_entry_is_end (fs_fat_type fs) (cs ! Suc i) \<and> \<not> fat_next_corrupt fs (cs ! Suc i))"

definition file_chain ::
  "termob_fat_fs \<Rightarrow> termob_fat_dirent \<Rightarrow> u32 list \<Rightarrow> 'a block_globals_scheme \<Rightarrow> bool" where
  "file_chain fs d cs s \<longleftrightarrow>
     cs \<noteq> [] \<and> distinct cs \<and> cs ! 0 = de_first_cluster d \<and>
     (\<forall>c \<in> set cs. fat_cluster_is_valid fs c) \<and> chain_links fs cs s \<and>
     (length cs - 1) * csize fs < unat (de_size_bytes d) \<and>
     unat (de_size_bytes d) \<le> length cs * csize fs"

definition clusters_readable :: "termob_fat_fs \<Rightarrow> u32 set \<Rightarrow> u32 list \<Rightarrow> bool" where
  "clusters_readable fs readable cs \<longleftrightarrow>
     (\<forall>c \<in> set cs. \<forall>i < spc fs. fat_cluster_first_lba fs c + word_of_nat i \<in> readable)"

text \<open>Rounding the size up to whole clusters stays within 32 bits.\<close>

definition size_rounds :: "termob_fat_fs \<Rightarrow> termob_fat_dirent \<Rightarrow> bool" where
  "size_rounds fs d \<longleftrightarrow> unat (de_size_bytes d) + csize fs < 2 ^ 32"

definition file_data ::
  "termob_fat_fs \<Rightarrow> (u32 \<Rightarrow> u8 list) \<Rightarrow> termob_fat_dirent \<Rightarrow> u32 list \<Rightarrow> u8 list" where
  "file_data fs sector d cs =
     take (unat (de_size_bytes d)) (concat (map (cluster_data fs sector) cs))"

lemma csize_bounds:
  assumes "geometry_ok fs"
  shows "512 \<le> csize fs" "csize fs \<le> 524288" "0 < bps fs" "bps fs \<le> csize fs" "0 < csize fs"
proof -
  have b: "512 \<le> bps fs" "bps fs \<le> 4096" and c: "1 \<le> spc fs" "spc fs \<le> 128"
    using assms sector_size_bounds by (auto simp: geometry_ok_def)
  show "csize fs \<le> 524288" using mult_le_mono [OF b(2) c(2)] by (simp add: csize_def)
  show l: "bps fs \<le> csize fs" using c(1) by (simp add: csize_def)
  show "512 \<le> csize fs" using l b(1) by linarith
  then show "0 < csize fs" by linarith
  show "0 < bps fs" using b(1) by linarith
qed

lemma unat_cluster_size:
  assumes "geometry_ok (ff_fs file)"
  shows "unat (fat_file_cluster_size_bytes file) = csize (ff_fs file)"
  using csize_bounds(2) [OF assms]
  by (simp add: fat_file_cluster_size_bytes_def unat_word_ariths csize_def)

lemma cluster_data_nth:
  assumes "fat_medium fs readable sector s" "x < csize fs"
  shows "cluster_data fs sector c ! x =
      sector (fat_cluster_first_lba fs c + word_of_nat (x div bps fs)) ! (x mod bps fs)"
    and "length (cluster_data fs sector c) = csize fs"
proof -
  let ?f = "\<lambda>i. sector (fat_cluster_first_lba fs c + word_of_nat i)"
  have l: "length (?f j) = bps fs" for j using fat_medium_length [OF assms(1)] .
  show "cluster_data fs sector c ! x = ?f (x div bps fs) ! (x mod bps fs)"
    unfolding cluster_data_def
    by (rule nth_concat_equal(1)) (use l assms(2) in \<open>simp_all add: csize_def mult.commute\<close>)
  have "length (concat (map ?f [0..<n])) = n * bps fs" for n
    by (induction n) (simp_all add: l)
  then show "length (cluster_data fs sector c) = csize fs"
    by (simp add: cluster_data_def csize_def)
qed

lemma file_data_nth:
  assumes "fat_medium fs readable sector s" "file_chain fs d cs s" "p < unat (de_size_bytes d)" "geometry_ok fs"
  shows "file_data fs sector d cs ! p = cluster_data fs sector (cs ! (p div csize fs)) ! (p mod csize fs)"
    and "length (file_data fs sector d cs) = unat (de_size_bytes d)"
    and "p div csize fs < length cs"
proof -
  note cs = csize_bounds [OF assms(4)]
  let ?f = "\<lambda>i. cluster_data fs sector (cs ! i)"
  have m: "map (cluster_data fs sector) cs = map ?f [0..<length cs]"
    by (rule nth_equalityI) simp_all
  have l: "length (?f j) = csize fs" for j
    using cluster_data_nth(2) [OF assms(1), of 0] cs by simp
  have le: "unat (de_size_bytes d) \<le> length cs * csize fs" using assms(2) by (simp add: file_chain_def)
  then have p: "p < length cs * csize fs" using assms(3) by linarith
  then show "p div csize fs < length cs" by (simp add: less_mult_imp_div_less)
  show "file_data fs sector d cs ! p = ?f (p div csize fs) ! (p mod csize fs)"
    using nth_concat_equal(1) [of "length cs" ?f "csize fs" p] l p assms(3)
    unfolding file_data_def m by simp
  have "length (concat (map ?f [0..<n])) = n * csize fs" for n
    by (induction n) (simp_all add: l)
  then show "length (file_data fs sector d cs) = unat (de_size_bytes d)"
    using le unfolding file_data_def m by simp
qed

section \<open>Moving along the chain\<close>

text \<open>The file is open and its cursor is in cluster number \<open>k\<close> of the chain.\<close>

definition file_at ::
  "termob_fat_fs \<Rightarrow> termob_fat_dirent \<Rightarrow> u32 list \<Rightarrow> nat \<Rightarrow> termob_fat_file \<Rightarrow> bool" where
  "file_at fs d cs k file \<longleftrightarrow>
     ff_fs file = fs \<and> ff_dirent file = d \<and> k < length cs \<and> ff_current_cluster file = cs ! k \<and>
     unat (ff_current_cluster_file_offset file) = k * csize fs \<and>
     unat (ff_clusters_seen file) = k + 1 \<and> ff_visited_count file = k + 1 \<and>
     length (ff_visited_clusters file) = 256 \<and>
     take (k + 1) (ff_visited_clusters file) = take (k + 1) cs"

lemma max_clusters_ge:
  assumes "geometry_ok fs" "file_chain fs d cs s" "ff_fs file = fs" "ff_dirent file = d" "size_rounds fs d"
  shows "unat (fat_file_max_clusters file) = length cs"
proof -
  note cs = csize_bounds [OF assms(1)]
  have c: "unat (fat_file_cluster_size_bytes file) = csize fs"
    using unat_cluster_size [of "file"] assms(1,3) by simp
  let ?n = "unat (de_size_bytes d)"
  have f: "(length cs - 1) * csize fs < ?n" "?n \<le> length cs * csize fs" "0 < length cs"
    using assms(2) by (auto simp: file_chain_def)
  have n: "?n + csize fs < 4294967296" using assms(5) by (simp add: size_rounds_def)
  have "unat (de_size_bytes d + fat_file_cluster_size_bytes file - 1) = ?n + csize fs - 1"
  proof -
    have a: "unat (de_size_bytes d + fat_file_cluster_size_bytes file) = ?n + csize fs"
      using n c by (subst unat_add_small) simp_all
    moreover have "1 \<le> de_size_bytes d + fat_file_cluster_size_bytes file"
      using a cs(1) by (simp add: word_le_nat_alt)
    ultimately show ?thesis by (simp add: unat_sub)
  qed
  moreover have "(?n + csize fs - 1) div csize fs = length cs"
  proof (rule div_nat_eqI)
    show "csize fs * length cs \<le> ?n + csize fs - 1"
      using f(1,3) cs(5) by (cases "length cs") (simp_all add: algebra_simps)
    show "?n + csize fs - 1 < csize fs * Suc (length cs)"
      using f(2) cs(5) by (simp add: algebra_simps)
  qed
  moreover have "de_size_bytes d \<noteq> 0" using f(1) by auto
  ultimately show ?thesis
    using assms(3,4) c by (simp add: fat_file_max_clusters_def Let_def unat_div)
qed

text \<open>Only as many clusters as the table of visited ones holds can be reached.\<close>

lemma file_at_guard: "file_at fs d cs k file \<Longrightarrow> k < 256"
proof -
  assume at: "file_at fs d cs k file"
  have "length (take (k + 1) (ff_visited_clusters file)) = length (take (k + 1) cs)"
    using at by (simp only: file_at_def)
  then show "k < 256" using at by (auto simp: file_at_def min_def split: if_splits)
qed

lemma advance_cluster:
  assumes "geometry_ok fs" "file_chain fs d cs s" "size_rounds fs d" "file_at fs d cs k file" "Suc k < length cs"
  shows "Suc k < 256 \<Longrightarrow> \<exists>file'. fat_file_advance_cluster file s = (TERMOB_FAT_STATUS_OK, file', s) \<and>
      file_at fs d cs (Suc k) file' \<and> ff_position file' = ff_position file"
    and "256 \<le> Suc k \<Longrightarrow> fst (fat_file_advance_cluster file s) = TERMOB_FAT_STATUS_CORRUPT"
proof -
  note at = assms(4) [unfolded file_at_def]
  have ch: "distinct cs" "\<And>c. c \<in> set cs \<Longrightarrow> fat_cluster_is_valid fs c"
    "fat_read_fat_entry fs (cs ! k) s = Some (cs ! Suc k)"
    "\<not> fat_entry_is_end (fs_fat_type fs) (cs ! Suc k)" "\<not> fat_next_corrupt fs (cs ! Suc k)"
    using assms(2,5) by (auto simp: file_chain_def chain_links_def)
  have v: "fat_cluster_is_valid fs (cs ! k)" "cs ! k \<noteq> 0"
    using ch(2) [of "cs ! k"] assms(5) by (auto simp: fat_cluster_is_valid_def)
  have seen: "\<not> ff_clusters_seen file \<ge> fat_file_max_clusters file"
    using max_clusters_ge [OF assms(1,2), of "file"] assms(3) at assms(5) by (simp add: word_le_nat_alt)
  have fresh: "cs ! Suc k \<notin> set (take (k + 1) cs)"
    using ch(1) assms(5) by (auto simp: in_set_conv_nth nth_eq_iff_index_eq)
  let ?f = "file\<lparr>ff_current_cluster := cs ! Suc k,
      ff_current_cluster_file_offset := ff_current_cluster_file_offset file + fat_file_cluster_size_bytes file,
      ff_clusters_seen := ff_clusters_seen file + 1,
      ff_visited_clusters := (ff_visited_clusters file)[ff_visited_count file := cs ! Suc k],
      ff_visited_count := ff_visited_count file + 1\<rparr>"
  show "fst (fat_file_advance_cluster file s) = TERMOB_FAT_STATUS_CORRUPT" if "256 \<le> Suc k"
    using at v seen fresh ch that by (simp add: fat_file_advance_cluster_def)
  assume k: "Suc k < 256"
  have "fat_file_advance_cluster file s = (TERMOB_FAT_STATUS_OK, ?f, s)"
    using at v seen fresh ch k by (simp add: fat_file_advance_cluster_def)
  moreover have "file_at fs d cs (Suc k) ?f"
  proof -
    have "Suc k * csize fs \<le> 256 * 524288"
      using k csize_bounds(2) [OF assms(1)] by (intro mult_le_mono) simp_all
    then have "k * csize fs + csize fs < 4294967296" by simp
    then have "unat (ff_current_cluster_file_offset file + fat_file_cluster_size_bytes file) = Suc k * csize fs"
      using at unat_cluster_size [of "file"] assms(1) by (subst unat_add_small) simp_all
    moreover have "unat (ff_clusters_seen file + 1) = Suc k + 1"
      using at k by (subst unat_add_small) simp_all
    moreover have "take (Suc k + 1) ((ff_visited_clusters file)[k + 1 := cs ! Suc k]) = take (Suc k + 1) cs"
      using at assms(5) k by (simp add: take_Suc_conv_app_nth)
    ultimately show ?thesis using at assms(5) by (simp add: file_at_def)
  qed
  ultimately show "\<exists>file'. fat_file_advance_cluster file s = (TERMOB_FAT_STATUS_OK, file', s) \<and>
      file_at fs d cs (Suc k) file' \<and> ff_position file' = ff_position file"
    by (intro exI [of _ ?f]) simp
qed

lemma advance_many:
  assumes "geometry_ok fs" "file_chain fs d cs s" "size_rounds fs d" "file_at fs d cs k file" "k + n < length cs"
  shows "if k + n < 256
    then \<exists>file'. fat_advance_many n file s = (TERMOB_FAT_STATUS_OK, file', s) \<and>
      file_at fs d cs (k + n) file' \<and> ff_position file' = ff_position file
    else fst (fat_advance_many n file s) = TERMOB_FAT_STATUS_CORRUPT"
  using assms(4,5)
proof (induction n arbitrary: k "file")
  case 0
  then show ?case using file_at_guard [OF 0(1)] by simp
next
  case (Suc n)
  have k: "Suc k < length cs" using Suc.prems(2) by simp
  show ?case
  proof (cases "Suc k < 256")
    case True
    obtain f where f: "fat_file_advance_cluster file s = (TERMOB_FAT_STATUS_OK, f, s)"
      "file_at fs d cs (Suc k) f" "ff_position f = ff_position file"
      using advance_cluster(1) [OF assms(1-3) Suc.prems(1) k True] by blast
    then show ?thesis using Suc.IH [OF f(2)] Suc.prems(2) by (auto split: if_splits)
  next
    case False
    then show ?thesis
      using advance_cluster(2) [OF assms(1-3) Suc.prems(1) k] by (auto simp: Let_def split: prod.splits)
  qed
qed

definition file_open :: "termob_fat_fs \<Rightarrow> termob_fat_dirent \<Rightarrow> termob_fat_file \<Rightarrow> bool" where
  "file_open fs d file \<longleftrightarrow> ff_fs file = fs \<and> ff_dirent file = d \<and> length (ff_visited_clusters file) = 256"

lemma reset_at:
  assumes "file_chain fs d cs s" "file_open fs d file"
  shows "file_at fs d cs 0 (fat_file_reset_state file)" "ff_position (fat_file_reset_state file) = 0"
proof -
  have "cs \<noteq> []" "cs ! 0 = de_first_cluster d" "de_size_bytes d \<noteq> 0"
    using assms(1) by (auto simp: file_chain_def)
  moreover have "take (Suc 0) (xs[0 := cs ! 0]) = take (Suc 0) cs" if "length xs = 256" for xs
    using that \<open>cs \<noteq> []\<close> by (cases xs; cases cs) simp_all
  ultimately show "file_at fs d cs 0 (fat_file_reset_state file)"
    "ff_position (fat_file_reset_state file) = 0"
    using assms(2) by (simp_all add: file_at_def fat_file_reset_state_def file_open_def Let_def)
qed

lemma seek_file:
  assumes "geometry_ok fs" "file_chain fs d cs s" "size_rounds fs d" "file_open fs d file" "offset < de_size_bytes d"
  shows "if unat offset < 256 * csize fs
    then \<exists>file'. fat_seek_file file offset s = (TERMOB_FAT_STATUS_OK, file', s) \<and>
      file_at fs d cs (unat offset div csize fs) file' \<and> ff_position file' = offset
    else fst (fat_seek_file file offset s) = TERMOB_FAT_STATUS_CORRUPT"
proof -
  let ?f = "fat_file_reset_state file" and ?k = "unat offset div csize fs"
  note r = reset_at [OF assms(2,4)]
  have le: "\<not> offset > de_size_bytes (ff_dirent file)" and nz: "de_size_bytes (ff_dirent ?f) \<noteq> 0"
    using assms(4,5) r(1) by (auto simp: file_open_def file_at_def)
  have g: "?k < 256 \<longleftrightarrow> unat offset < 256 * csize fs"
    using csize_bounds(5) [OF assms(1)] by (simp add: div_less_iff_less_mult)
  show ?thesis
  proof (cases "offset = 0")
    case True
    then show ?thesis using r le csize_bounds(5) [OF assms(1)] by (simp add: fat_seek_file_def Let_def)
  next
    case False
    have c: "unat (fat_file_cluster_size_bytes ?f) = csize fs"
      using unat_cluster_size [of ?f] r(1) assms(1) by (simp add: file_at_def)
    have k: "?k < length cs"
      using assms(2,5) by (intro less_mult_imp_div_less) (simp add: file_chain_def word_less_nat_alt)
    note m = advance_many [OF assms(1-3) r(1), of ?k]
    have sk: "fat_seek_file file offset s = (let (status, f, t) = fat_advance_many ?k ?f s
        in if status \<noteq> TERMOB_FAT_STATUS_OK then (status, f, t)
           else (TERMOB_FAT_STATUS_OK, f\<lparr>ff_position := offset, ff_current_cluster_file_offset :=
                   offset div fat_file_cluster_size_bytes ?f * fat_file_cluster_size_bytes ?f\<rparr>, t))"
      using le nz False by (simp add: fat_seek_file_def Let_def unat_div c)
    show ?thesis
    proof (cases "?k < 256")
      case True
      then obtain f where f: "fat_advance_many ?k ?f s = (TERMOB_FAT_STATUS_OK, f, s)" "file_at fs d cs ?k f"
        using m k by auto
      have "?k * csize fs \<le> unat offset" by simp
      then have "?k * csize fs < 4294967296" using u32_less [of offset] by linarith
      then have o: "unat (offset div fat_file_cluster_size_bytes ?f * fat_file_cluster_size_bytes ?f) = ?k * csize fs"
        by (simp add: unat_word_ariths unat_div c mod_mult_left_eq)
      show ?thesis using True g f o by (simp add: sk file_at_def)
    next
      case big: False
      then show ?thesis using m k g by (auto simp: sk Let_def split: prod.splits)
    qed
  qed
qed

section \<open>Reading\<close>

lemma fat_copy_bytes_eq:
  assumes "off + n \<le> length dst"
  shows "fat_copy_bytes dst off src soff n =
    take off dst @ map (\<lambda>j. byte_at src (soff + j)) [0..<n] @ drop (off + n) dst"
  using assms
proof (induction n)
  case (Suc n)
  have d: "drop (off + n) dst = dst ! (off + n) # drop (Suc (off + n)) dst"
    using Suc.prems by (simp add: Cons_nth_drop_Suc)
  have "fat_copy_bytes dst off src soff (Suc n) =
      (fat_copy_bytes dst off src soff n)[off + n := byte_at src (soff + n)]"
    by (simp add: fat_copy_bytes_def)
  then show ?case
    using Suc by (simp add: list_update_append d)
qed (simp add: fat_copy_bytes_def)

text \<open>The bytes of one round lie in one sector and are the next bytes of the file.\<close>

lemma round_bytes:
  assumes "fat_medium fs readable sector s" "geometry_ok fs" "file_chain fs d cs s"
    and "p + n \<le> unat (de_size_bytes d)" "n \<le> bps fs - (p mod csize fs) mod bps fs"
  defines "L \<equiv> fat_cluster_first_lba fs (cs ! (p div csize fs)) + word_of_nat ((p mod csize fs) div bps fs)"
  shows "map (\<lambda>j. byte_at (sector L @ rest) ((p mod csize fs) mod bps fs + j)) [0..<n] =
    take n (drop p (file_data fs sector d cs))"
proof (rule nth_equalityI)
  note c = csize_bounds [OF assms(2)]
  let ?co = "p mod csize fs"
  have sb: "?co mod bps fs < bps fs" "bps fs dvd csize fs" using c by (simp_all add: csize_def)
  have len: "length (file_data fs sector d cs) = unat (de_size_bytes d)" if "0 < n"
    using file_data_nth(2) [OF assms(1,3) _ assms(2), of 0] assms(4) that by simp
  show "length (map (\<lambda>j. byte_at (sector L @ rest) (?co mod bps fs + j)) [0..<n]) =
      length (take n (drop p (file_data fs sector d cs)))"
    using len assms(4) by (cases "n = 0") auto
  fix j
  assume "j < length (map (\<lambda>j. byte_at (sector L @ rest) (?co mod bps fs + j)) [0..<n])"
  then have j: "j < n" by simp
  have in_sector: "?co mod bps fs + j < bps fs" using j assms(5) sb(1) by linarith
  have co: "?co < csize fs" using c by simp
  have sec: "(?co + j) div bps fs = ?co div bps fs" "(?co + j) mod bps fs = ?co mod bps fs + j"
  proof -
    have e: "?co + j = ?co div bps fs * bps fs + (?co mod bps fs + j)" by simp
    show "(?co + j) div bps fs = ?co div bps fs"
      by (subst e, subst div_mult_self3) (use in_sector c in simp_all)
    show "(?co + j) mod bps fs = ?co mod bps fs + j"
      by (subst e, subst mod_mult_self3) (use in_sector in simp)
  qed
  have in_cluster: "?co + j < csize fs"
  proof -
    have "?co div bps fs < spc fs"
      using co by (simp add: csize_def less_mult_imp_div_less mult.commute)
    then have "(?co div bps fs + 1) * bps fs \<le> spc fs * bps fs" by (intro mult_le_mono) simp_all
    moreover have "?co + j < (?co div bps fs + 1) * bps fs"
      using in_sector div_mult_mod_eq [of ?co "bps fs"] unfolding add_mult_distrib by linarith
    ultimately show ?thesis by (simp add: csize_def mult.commute)
  qed
  have cl: "(p + j) div csize fs = p div csize fs" "(p + j) mod csize fs = ?co + j"
  proof -
    have e: "p + j = p div csize fs * csize fs + (?co + j)" by simp
    show "(p + j) div csize fs = p div csize fs"
      by (subst e, subst div_mult_self3) (use in_cluster c in simp_all)
    show "(p + j) mod csize fs = ?co + j"
      by (subst e, subst mod_mult_self3) (use in_cluster in simp)
  qed
  have "file_data fs sector d cs ! (p + j) = sector L ! (?co mod bps fs + j)"
    using file_data_nth(1) [OF assms(1,3) _ assms(2), of "p + j"] cluster_data_nth(1) [OF assms(1) in_cluster]
      j assms(4) by (simp add: cl sec L_def)
  moreover have "byte_at (sector L @ rest) (?co mod bps fs + j) = sector L ! (?co mod bps fs + j)"
    using in_sector fat_medium_length [OF assms(1)] by (simp add: byte_at_append)
  ultimately show "map (\<lambda>j. byte_at (sector L @ rest) (?co mod bps fs + j)) [0..<n] ! j =
      take n (drop p (file_data fs sector d cs)) ! j"
    using j len assms(4) by simp
qed

lemma word_of_nat_div: "unat (x div y :: u32) = unat x div unat y" "unat (x mod y :: u32) = unat x mod unat y"
  by (simp_all add: unat_div unat_mod)

text \<open>One round of the loop, in numbers.\<close>

lemma read_round:
  assumes "fat_medium fs readable sector s" "geometry_ok fs" "file_chain fs d cs s"
    and "file_at fs d cs (unat (ff_position file) div csize fs) file"
    and "unat (ff_position file) < unat (de_size_bytes d)"
    and "cp < tot" "tot - cp \<le> unat (de_size_bytes d) - unat (ff_position file)" "tot \<le> length buffer"
    and "clusters_readable fs readable cs"
  defines "q \<equiv> unat (ff_position file)"
  defines "n \<equiv> min (bps fs - (q mod csize fs) mod bps fs) (tot - cp)"
  defines "f \<equiv> file\<lparr>ff_position := ff_position file + word_of_nat n\<rparr>"
  defines "buf \<equiv> take cp buffer @ take n (drop q (file_data fs sector d cs)) @ drop (cp + n) buffer"
  shows "fat_read_loop tot file buffer cp s =
    (if unat (de_size_bytes d) \<le> q + n then (TERMOB_FAT_STATUS_OK, f, buf, cp + n, s)
     else if csize fs \<le> q mod csize fs + n
     then (case fat_file_advance_cluster f s of
             (status, file', s') \<Rightarrow>
               if status \<noteq> TERMOB_FAT_STATUS_OK then (status, file', buf, cp + n, s')
               else fat_read_loop tot file' buf (cp + n) s')
     else fat_read_loop tot f buf (cp + n) s)"
    and "0 < n" "n \<le> tot - cp" "unat (ff_position f) = q + n"
proof -
  note c = csize_bounds [OF assms(2)]
  let ?B = "fs_bytes_per_sector fs" and ?k = "q div csize fs" and ?co = "q mod csize fs"
  let ?w = "ff_position file - ff_current_cluster_file_offset file"
  have at: "ff_fs file = fs" "ff_dirent file = d" "ff_current_cluster file = cs ! ?k" "?k < length cs"
    "unat (ff_current_cluster_file_offset file) = ?k * csize fs"
    using assms(4) by (auto simp: file_at_def q_def)
  have v: "fat_cluster_is_valid fs (cs ! ?k)"
    using assms(3) at(4) by (auto simp: file_chain_def)
  then have v0: "cs ! ?k \<noteq> 0" by (auto simp: fat_cluster_is_valid_def)
  have cz: "unat (fat_file_cluster_size_bytes file) = csize fs"
    using unat_cluster_size [of "file"] at(1) assms(2) by simp
  have w: "unat ?w = ?co"
    using at(5) by (subst unat_sub) (simp_all add: word_le_nat_alt q_def minus_div_mult_eq_mod)
  show n: "0 < n" "n \<le> tot - cp" using assms(6) c by (auto simp: n_def)
  have sz: "q + n \<le> unat (de_size_bytes d)" using n(2) assms(5,7) by (simp add: q_def)
  then have "q + n < 4294967296" using u32_less [of "de_size_bytes d"] by linarith
  then have pos: "unat (ff_position file + word_of_nat n) = q + n"
    by (subst unat_add_small) (simp_all add: q_def unat_of_nat)
  then show "unat (ff_position f) = q + n" by (simp add: f_def)
  have sb: "unat (?w mod ?B) = ?co mod bps fs" and si: "?w div ?B = word_of_nat (?co div bps fs)"
    using w by (simp_all add: word_unat_eq_iff word_of_nat_div unat_of_nat)
      (metis div_le_dividend mod_less order_le_less_trans u32_less)
  have av: "unat (?B - ?w mod ?B) = bps fs - ?co mod bps fs"
    using sb c(3) by (subst unat_sub) (simp_all add: word_le_nat_alt)
  have nn: "fat_min_size (unat (?B - ?w mod ?B)) (tot - cp) = n"
    by (simp add: fat_min_size_def av n_def min_def)
  let ?L = "fat_cluster_first_lba fs (cs ! ?k) + ?w div ?B"
  have "?co div bps fs < spc fs"
    using c by (simp add: csize_def less_mult_imp_div_less mult.commute)
  then have "?L \<in> readable" using assms(9) at(4) unfolding si clusters_readable_def by simp
  then have rd: "fat_block_read_sector fs ?L s = Some (sector ?L @ replicate (4096 - bps fs) 0)"
    using fat_read_sector [OF assms(1)] by simp
  have bf: "fat_copy_bytes buffer cp (sector ?L @ replicate (4096 - bps fs) 0) (unat (?w mod ?B)) n = buf"
  proof -
    have "cp + n \<le> length buffer" using n(2) assms(6,8) by simp
    moreover have "n \<le> bps fs - ?co mod bps fs" by (simp add: n_def)
    ultimately show ?thesis
      using round_bytes [OF assms(1-3) sz, of "replicate (4096 - bps fs) 0"]
      unfolding buf_def si sb by (simp only: fat_copy_bytes_eq)
  qed
  have out: "\<not> ?w \<ge> fat_file_cluster_size_bytes file" using w cz c(5) by (simp add: word_le_nat_alt not_le)
  have e1: "de_size_bytes d \<le> ff_position file + word_of_nat n \<longleftrightarrow> unat (de_size_bytes d) \<le> q + n"
    by (simp add: word_le_nat_alt pos)
  have "unat (ff_position file + word_of_nat n - ff_current_cluster_file_offset file) = ?co + n"
  proof -
    have a: "?k * csize fs + ?co = q" by simp
    have "ff_current_cluster_file_offset file \<le> ff_position file + word_of_nat n"
      unfolding word_le_nat_alt at(5) pos using a by linarith
    then have "unat (ff_position file + word_of_nat n - ff_current_cluster_file_offset file) =
        q + n - ?k * csize fs"
      by (simp add: unat_sub at(5) pos)
    then show ?thesis using a by linarith
  qed
  then have e2: "fat_file_cluster_size_bytes file \<le>
      ff_position file + word_of_nat n - ff_current_cluster_file_offset file \<longleftrightarrow> csize fs \<le> ?co + n"
    by (simp add: word_le_nat_alt cz)
  show "fat_read_loop tot file buffer cp s =
    (if unat (de_size_bytes d) \<le> q + n then (TERMOB_FAT_STATUS_OK, f, buf, cp + n, s)
     else if csize fs \<le> ?co + n
     then (case fat_file_advance_cluster f s of
             (status, file', s') \<Rightarrow>
               if status \<noteq> TERMOB_FAT_STATUS_OK then (status, file', buf, cp + n, s')
               else fat_read_loop tot file' buf (cp + n) s')
     else fat_read_loop tot f buf (cp + n) s)"
    using assms(6) v v0 out rd
    by (subst fat_read_loop.simps) (simp add: at Let_def nn bf e1 e2 f_def cong: if_cong)
qed

text \<open>The cluster number after a round.\<close>

lemma round_within:
  assumes "geometry_ok fs" "n \<le> bps fs - (q mod csize fs) mod bps fs"
  shows "q mod csize fs + n \<le> csize fs"
proof -
  note c = csize_bounds [OF assms(1)]
  let ?co = "q mod csize fs"
  have "?co div bps fs < spc fs"
    using c by (simp add: csize_def less_mult_imp_div_less mult.commute)
  then have "(?co div bps fs + 1) * bps fs \<le> spc fs * bps fs" by (intro mult_le_mono) simp_all
  moreover have "?co mod bps fs < bps fs" using c by simp
  then have "?co + n \<le> (?co div bps fs + 1) * bps fs"
    using assms(2) div_mult_mod_eq [of ?co "bps fs"] unfolding add_mult_distrib by linarith
  ultimately show ?thesis by (simp add: csize_def mult.commute)
qed

lemma round_cluster:
  assumes "geometry_ok fs" "n \<le> bps fs - (q mod csize fs) mod bps fs"
  shows "(q + n) div csize fs =
    (if csize fs \<le> q mod csize fs + n then Suc (q div csize fs) else q div csize fs)"
proof -
  note c = csize_bounds [OF assms(1)]
  let ?co = "q mod csize fs"
  have e: "q + n = q div csize fs * csize fs + (?co + n)" by simp
  have "(?co + n) div csize fs = (if csize fs \<le> ?co + n then 1 else 0)"
    using round_within [OF assms] c(5) by (cases "?co + n = csize fs") simp_all
  then show ?thesis
    by (subst e, subst div_mult_self3) (use c in simp_all)
qed

lemma read_loop:
  assumes "fat_medium fs readable sector s" "geometry_ok fs" "file_chain fs d cs s"
    and "file_at fs d cs (unat (ff_position file) div csize fs) file"
    and "unat (ff_position file) < unat (de_size_bytes d)"
    and "cp \<le> tot" "tot - cp \<le> unat (de_size_bytes d) - unat (ff_position file)" "tot \<le> length buffer"
    and "unat (ff_position file) + (tot - cp) < 256 * csize fs \<or> unat (de_size_bytes d) \<le> 256 * csize fs"
    and all: "size_rounds fs d" "clusters_readable fs readable cs"
  shows "\<exists>file'. fat_read_loop tot file buffer cp s = (TERMOB_FAT_STATUS_OK, file',
      take cp buffer @ take (tot - cp) (drop (unat (ff_position file)) (file_data fs sector d cs)) @
      drop tot buffer, tot, s) \<and> file_open fs d file' \<and>
    unat (ff_position file') = unat (ff_position file) + (tot - cp) \<and>
    (unat (ff_position file') < unat (de_size_bytes d) \<longrightarrow>
       file_at fs d cs (unat (ff_position file') div csize fs) file')"
  using assms(4-9)
proof (induction "tot - cp" arbitrary: "file" buffer cp rule: less_induct)
  case less
  note c = csize_bounds [OF assms(2)]
  let ?q = "unat (ff_position file)" and ?data = "file_data fs sector d cs"
  have op: "file_open fs d file" using less.prems(1) by (simp add: file_at_def file_open_def)
  show ?case
  proof (cases "cp < tot")
    case False
    then have "cp = tot" using less.prems(3) by simp
    then show ?thesis using less.prems(1) op by (subst fat_read_loop.simps) simp
  next
    case True
    define n where "n = min (bps fs - (?q mod csize fs) mod bps fs) (tot - cp)"
    define f where "f = file\<lparr>ff_position := ff_position file + word_of_nat n\<rparr>"
    define buf where "buf = take cp buffer @ take n (drop ?q ?data) @ drop (cp + n) buffer"
    note r = read_round [OF assms(1-3) less.prems(1,2) True less.prems(4,5) all(2), folded n_def, folded f_def buf_def]
    have len: "length ?data = unat (de_size_bytes d)"
      using file_data_nth(2) [OF assms(1,3) _ assms(2)] less.prems(2) by simp
    have n: "n \<le> length ?data - ?q" using r(3) less.prems(4) len by simp
    have lb: "length buf = length buffer" using n r(3) less.prems(5) True by (simp add: buf_def)
    have join: "take (cp + n) buf @ take (tot - (cp + n)) (drop (?q + n) ?data) @ drop tot buf =
        take cp buffer @ take (tot - cp) (drop ?q ?data) @ drop tot buffer"
    proof -
      have t1: "take (cp + n) buf = take cp buffer @ take n (drop ?q ?data)"
        using n True less.prems(5) by (simp add: buf_def)
      have t2: "drop tot buf = drop tot buffer"
        using n r(3) True less.prems(5) by (simp add: buf_def)
      have "tot - cp = n + (tot - (cp + n))" using r(3) by simp
      then have t3: "take (tot - cp) (drop ?q ?data) =
          take n (drop ?q ?data) @ take (tot - (cp + n)) (drop (?q + n) ?data)"
        by (simp only: take_add drop_drop add.commute [of n ?q])
      show ?thesis unfolding t1 t2 t3 by simp
    qed
    have f_open: "file_open fs d f" using op by (simp add: f_def file_open_def)
    show ?thesis
    proof (cases "unat (de_size_bytes d) \<le> ?q + n")
      case end_of_file: True
      then have "n = tot - cp" using r(3) less.prems(2,4) by simp
      moreover from this have "cp + n = tot" using True by simp
      ultimately show ?thesis
        using r(1,4) end_of_file f_open join by (simp add: buf_def)
    next
      case more: False
      have step: "?thesis" if "file_at fs d cs ((?q + n) div csize fs) g" "ff_position g = ff_position f"
        "fat_read_loop tot file buffer cp s = fat_read_loop tot g buf (cp + n) s" for g
      proof -
        have "\<exists>file'. fat_read_loop tot g buf (cp + n) s = (TERMOB_FAT_STATUS_OK, file',
            take (cp + n) buf @ take (tot - (cp + n)) (drop (unat (ff_position g)) ?data) @
            drop tot buf, tot, s) \<and> file_open fs d file' \<and>
          unat (ff_position file') = unat (ff_position g) + (tot - (cp + n)) \<and>
          (unat (ff_position file') < unat (de_size_bytes d) \<longrightarrow>
             file_at fs d cs (unat (ff_position file') div csize fs) file')"
          by (rule less.hyps) (use that r(2-4) True more less.prems lb in simp_all)
        then show ?thesis using that(2,3) r(2-4) True join by simp
      qed
      have k: "(?q + n) div csize fs = (if csize fs \<le> ?q mod csize fs + n then Suc (?q div csize fs)
          else ?q div csize fs)"
        by (rule round_cluster [OF assms(2)]) (simp add: n_def)
      show ?thesis
      proof (cases "csize fs \<le> ?q mod csize fs + n")
        case False
        have "file_at fs d cs (?q div csize fs) f"
          using less.prems(1) by (simp add: f_def file_at_def)
        then show ?thesis using step [of f] r(1) more False k by simp
      next
        case next_cluster: True
        have fa: "file_at fs d cs (?q div csize fs) f"
          using less.prems(1) by (simp add: f_def file_at_def)
        have "Suc (?q div csize fs) < length cs"
        proof -
          have "(?q + n) div csize fs < length cs"
            using file_data_nth(3) [OF assms(1,3) _ assms(2)] more by simp
          then show ?thesis using k next_cluster by simp
        qed
        moreover have "Suc (?q div csize fs) < 256"
        proof -
          have "?q + n < 256 * csize fs" using more less.prems(6) r(3) by linarith
          then have "(?q + n) div csize fs < 256" using c(5) by (simp add: div_less_iff_less_mult)
          then show ?thesis using k next_cluster by simp
        qed
        ultimately obtain g where
          g: "fat_file_advance_cluster f s = (TERMOB_FAT_STATUS_OK, g, s)"
          "file_at fs d cs (Suc (?q div csize fs)) g" "ff_position g = ff_position f"
          using advance_cluster(1) [OF assms(2,3) all(1) fa] by blast
        then show ?thesis using step [of g] r(1) more next_cluster k by simp
      qed
    qed
  qed
qed

text \<open>A read that goes past the last cluster the reader can remember fails there.\<close>

lemma read_loop_guard:
  assumes "fat_medium fs readable sector s" "geometry_ok fs" "file_chain fs d cs s"
    and "file_at fs d cs (unat (ff_position file) div csize fs) file"
    and "unat (ff_position file) < unat (de_size_bytes d)"
    and "cp < tot" "tot - cp \<le> unat (de_size_bytes d) - unat (ff_position file)" "tot \<le> length buffer"
    and "256 * csize fs \<le> unat (ff_position file) + (tot - cp)" "256 * csize fs < unat (de_size_bytes d)"
    and all: "size_rounds fs d" "clusters_readable fs readable cs"
  shows "fst (fat_read_loop tot file buffer cp s) = TERMOB_FAT_STATUS_CORRUPT"
  using assms(4-9)
proof (induction "tot - cp" arbitrary: "file" buffer cp rule: less_induct)
  case less
  note c = csize_bounds [OF assms(2)]
  let ?q = "unat (ff_position file)" and ?data = "file_data fs sector d cs"
  define n where "n = min (bps fs - (?q mod csize fs) mod bps fs) (tot - cp)"
  define f where "f = file\<lparr>ff_position := ff_position file + word_of_nat n\<rparr>"
  define buf where "buf = take cp buffer @ take n (drop ?q ?data) @ drop (cp + n) buffer"
  note r = read_round [OF assms(1-3) less.prems(1-5) all(2), folded n_def, folded f_def buf_def]
  have len: "length ?data = unat (de_size_bytes d)"
    using file_data_nth(2) [OF assms(1,3) _ assms(2)] less.prems(2) by simp
  have lb: "length buf = length buffer" using r(3) less.prems(3-5) len by (simp add: buf_def)
  have k: "(?q + n) div csize fs = (if csize fs \<le> ?q mod csize fs + n then Suc (?q div csize fs) else ?q div csize fs)"
    by (rule round_cluster [OF assms(2)]) (simp add: n_def)
  have fa: "file_at fs d cs (?q div csize fs) f" using less.prems(1) by (simp add: f_def file_at_def)
  have g: "?q div csize fs < 256" using file_at_guard [OF less.prems(1)] .
  have end256: "?q + n \<le> 256 * csize fs"
  proof (cases "csize fs \<le> ?q mod csize fs + n")
    case True
    have "?q mod csize fs + n \<le> csize fs" using round_within [OF assms(2), of n ?q] by (simp add: n_def)
    then have "?q + n \<le> Suc (?q div csize fs) * csize fs" using div_mult_mod_eq [of ?q "csize fs"] unfolding mult_Suc by linarith
    also have "\<dots> \<le> 256 * csize fs" using g by (intro mult_le_mono1) simp
    finally show ?thesis .
  next
    case False
    then have "(?q + n) div csize fs < 256" using k g by simp
    then show ?thesis using c(5) by (simp add: div_less_iff_less_mult)
  qed
  then have more: "\<not> unat (de_size_bytes d) \<le> ?q + n" using assms(10) by simp
  have step: "?case" if "file_at fs d cs ((?q + n) div csize fs) h" "ff_position h = ff_position f" "?q + n < 256 * csize fs"
    "fat_read_loop tot file buffer cp s = fat_read_loop tot h buf (cp + n) s" for h
    unfolding that(4) by (rule less.hyps) (use that r(2-4) more less.prems lb in simp_all)
  show ?case
  proof (cases "csize fs \<le> ?q mod csize fs + n")
    case False
    then have "(?q + n) div csize fs < 256" using k g by simp
    then have "?q + n < 256 * csize fs" using c(5) by (simp add: div_less_iff_less_mult)
    then show ?thesis using step [of f] fa r(1) more False k by simp
  next
    case next_cluster: True
    have s: "Suc (?q div csize fs) < length cs"
      using file_data_nth(3) [OF assms(1,3) _ assms(2), of "?q + n"] more k next_cluster by simp
    show ?thesis
    proof (cases "Suc (?q div csize fs) < 256")
      case True
      obtain h where h: "fat_file_advance_cluster f s = (TERMOB_FAT_STATUS_OK, h, s)"
        "file_at fs d cs (Suc (?q div csize fs)) h" "ff_position h = ff_position f"
        using advance_cluster(1) [OF assms(2,3) all(1) fa s True] by blast
      have "(?q + n) div csize fs < 256" using True k next_cluster by simp
      then have "?q + n < 256 * csize fs" using c(5) by (simp add: div_less_iff_less_mult)
      then show ?thesis using step [of h] h r(1) more next_cluster k by simp
    next
      case False
      then show ?thesis
        using advance_cluster(2) [OF assms(2,3) all(1) fa s] r(1) more next_cluster by (auto split: prod.splits)
    qed
  qed
qed

end
