(* ===== verification/Fat_Props.thy ===== *)
theory Fat_Props
  imports Fat_Chain
begin

text \<open>
  Properties of the FAT reader: the table round trip, the contents of files through seeking and
  reading, within and beyond the clusters the reader remembers. A small FAT12 volume with one file
  of two clusters serves as the concrete instance.
\<close>

section \<open>Reading an open file\<close>

definition file_ready ::
  "termob_fat_fs \<Rightarrow> termob_fat_dirent \<Rightarrow> u32 list \<Rightarrow> termob_fat_file \<Rightarrow> bool" where
  "file_ready fs d cs file \<longleftrightarrow> file_open fs d file \<and> unat (ff_position file) \<le> unat (de_size_bytes d) \<and>
     (unat (ff_position file) < unat (de_size_bytes d) \<longrightarrow>
        file_at fs d cs (unat (ff_position file) div csize fs) file)"

lemma read_file:
  assumes "fat_medium fs readable sector s" "geometry_ok fs" "file_chain fs d cs s" "file_ready fs d cs file"
    and "m \<le> length buf" and all: "size_rounds fs d" "clusters_readable fs readable cs"
  defines "n \<equiv> min m (unat (de_size_bytes d) - unat (ff_position file))"
  assumes "unat (ff_position file) + n < 256 * csize fs \<or> unat (de_size_bytes d) \<le> 256 * csize fs"
  shows "\<exists>file'. fat_read_file file (Some buf) m s = (TERMOB_FAT_STATUS_OK, file',
      Some (take n (drop (unat (ff_position file)) (file_data fs sector d cs)) @ drop n buf), n, s) \<and>
    file_ready fs d cs file' \<and> unat (ff_position file') = unat (ff_position file) + n"
proof (cases "m = 0 \<or> unat (ff_position file) = unat (de_size_bytes d)")
  case True
  moreover have "ff_dirent file = d" using assms(4) by (simp add: file_ready_def file_open_def)
  ultimately show ?thesis
    using assms(4) by (auto simp: fat_read_file_def n_def word_le_nat_alt)
next
  case False
  have f: "ff_fs file = fs" "ff_dirent file = d"
    and lt: "unat (ff_position file) < unat (de_size_bytes d)"
    using assms(4) False by (auto simp: file_ready_def file_open_def)
  have at: "file_at fs d cs (unat (ff_position file) div csize fs) file"
    using assms(4) lt by (simp add: file_ready_def)
  have "unat (de_size_bytes d - ff_position file) = unat (de_size_bytes d) - unat (ff_position file)"
    using lt by (simp add: unat_sub word_le_nat_alt)
  then have t: "fat_min_size m (unat (de_size_bytes d - ff_position file)) = n"
    by (simp add: fat_min_size_def n_def min_def)
  have b: "\<not> fs_bytes_per_sector fs > 4096"
    using sector_size_bounds(2) [of fs] assms(2) by (simp add: geometry_ok_def word_less_nat_alt)
  have n: "n \<le> length buf" "n \<le> unat (de_size_bytes d) - unat (ff_position file)"
    using assms(5) by (simp_all add: n_def)
  obtain f' where f': "fat_read_loop n file buf 0 s = (TERMOB_FAT_STATUS_OK, f',
      take n (drop (unat (ff_position file)) (file_data fs sector d cs)) @ drop n buf, n, s)"
    "file_open fs d f'" "unat (ff_position f') = unat (ff_position file) + n"
    "unat (ff_position f') < unat (de_size_bytes d) \<longrightarrow>
       file_at fs d cs (unat (ff_position f') div csize fs) f'"
    using read_loop [OF assms(1-3) at lt, of 0 n buf] n all assms(9) by auto
  have "fat_read_file file (Some buf) m s = (TERMOB_FAT_STATUS_OK, f',
      Some (take n (drop (unat (ff_position file)) (file_data fs sector d cs)) @ drop n buf), n, s)"
    using False lt f b t f'(1) by (simp add: fat_read_file_def Let_def word_le_nat_alt)
  moreover have "file_ready fs d cs f'"
    using f'(2-4) n(2) lt by (simp add: file_ready_def)
  ultimately show ?thesis using f'(3) by blast
qed

lemma read_file_guard:
  assumes "fat_medium fs readable sector s" "geometry_ok fs" "file_chain fs d cs s"
    and at: "file_at fs d cs (unat (ff_position file) div csize fs) file"
    and lt: "unat (ff_position file) < unat (de_size_bytes d)"
    and "m \<le> length buf" "m \<noteq> 0" and all: "size_rounds fs d" "clusters_readable fs readable cs"
  defines "n \<equiv> min m (unat (de_size_bytes d) - unat (ff_position file))"
  assumes big: "256 * csize fs \<le> unat (ff_position file) + n" "256 * csize fs < unat (de_size_bytes d)"
  shows "fst (fat_read_file file (Some buf) m s) = TERMOB_FAT_STATUS_CORRUPT"
proof -
  have f: "ff_fs file = fs" "ff_dirent file = d" using at by (simp_all add: file_at_def)
  have "unat (de_size_bytes d - ff_position file) = unat (de_size_bytes d) - unat (ff_position file)"
    using lt by (simp add: unat_sub word_le_nat_alt)
  then have t: "fat_min_size m (unat (de_size_bytes d - ff_position file)) = n"
    by (simp add: fat_min_size_def n_def min_def)
  have b: "\<not> fs_bytes_per_sector fs > 4096"
    using sector_size_bounds(2) [of fs] assms(2) by (simp add: geometry_ok_def word_less_nat_alt)
  have n: "0 < n" "n \<le> length buf" "n \<le> unat (de_size_bytes d) - unat (ff_position file)"
    using assms(6,7) lt by (simp_all add: n_def)
  have "fst (fat_read_loop n file buf 0 s) = TERMOB_FAT_STATUS_CORRUPT"
    using read_loop_guard [OF assms(1-3) at lt, of 0 n buf] n big all by simp
  then show ?thesis
    using assms(7) lt f b t by (auto simp: fat_read_file_def Let_def word_le_nat_alt split: prod.splits)
qed

lemma open_file_open:
  assumes "fat_open_file (Some fs) (Some path) s = (TERMOB_FAT_STATUS_OK, Some file, s')"
  shows "file_open fs (ff_dirent file) file"
  using assms
  by (auto simp: fat_open_file_def file_open_def Let_def
      split: prod.splits termob_fat_status.splits option.splits if_splits)

lemma small_file:
  assumes "geometry_ok fs" "file_chain fs d cs s" "length cs \<le> 256"
  shows "unat (de_size_bytes d) \<le> 256 * csize fs" "size_rounds fs d"
proof -
  have "unat (de_size_bytes d) \<le> length cs * csize fs" using assms(2) by (simp add: file_chain_def)
  also have "\<dots> \<le> 256 * csize fs" using assms(3) by simp
  finally show l: "unat (de_size_bytes d) \<le> 256 * csize fs" .
  then show "size_rounds fs d" using csize_bounds(2) [OF assms(1)] by (simp add: size_rounds_def)
qed

text \<open>Reads of several sizes one after the other, each into a buffer of its own.\<close>

fun read_pieces ::
  "nat list \<Rightarrow> termob_fat_file \<Rightarrow> 'a block_globals_scheme \<Rightarrow> u8 list list \<times> termob_fat_file \<times> 'a block_globals_scheme" where
  "read_pieces [] file s = ([], file, s)"
| "read_pieces (m # ms) file s =
     (case fat_read_file file (Some (replicate m 0)) m s of
        (status, file', buf, n, s') \<Rightarrow>
          (case read_pieces ms file' s' of (bs, file'', s'') \<Rightarrow> (take n (the buf) # bs, file'', s'')))"

lemma read_pieces_concat:
  assumes "fat_medium fs readable sector s" "geometry_ok fs" "file_chain fs d cs s" "file_ready fs d cs file"
    and small: "length cs \<le> 256" and "clusters_readable fs readable cs"
  shows "concat (fst (read_pieces ms file s)) =
    take (sum_list ms) (drop (unat (ff_position file)) (file_data fs sector d cs))"
  using assms(4)
proof (induction ms arbitrary: "file")
  case (Cons m ms)
  note sz = small_file [OF assms(2,3) small]
  let ?p = "unat (ff_position file)" and ?data = "file_data fs sector d cs"
  let ?n = "min m (unat (de_size_bytes d) - ?p)"
  obtain f where f: "fat_read_file file (Some (replicate m 0)) m s = (TERMOB_FAT_STATUS_OK, f,
      Some (take ?n (drop ?p ?data) @ drop ?n (replicate m 0)), ?n, s)"
    "file_ready fs d cs f" "unat (ff_position f) = ?p + ?n"
    using read_file [OF assms(1-3) Cons.prems, of m "replicate m 0"] sz assms(6) by auto
  have len: "length ?data = unat (de_size_bytes d)"
  proof -
    have "0 < unat (de_size_bytes d)" using assms(3) by (auto simp: file_chain_def)
    then show ?thesis using file_data_nth(2) [OF assms(1,3) _ assms(2)] by blast
  qed
  have p: "?p \<le> unat (de_size_bytes d)" using Cons.prems by (simp add: file_ready_def)
  have 1: "take ?n (take ?n (drop ?p ?data) @ drop ?n (replicate m 0)) = take m (drop ?p ?data)"
    using len p by (simp add: min_def)
  have 2: "take m (drop ?p ?data) @ take k (drop (?p + ?n) ?data) = take (m + k) (drop ?p ?data)" for k
  proof (cases "m \<le> unat (de_size_bytes d) - ?p")
    case True
    then have n: "?n = m" by simp
    show ?thesis unfolding n take_add drop_drop by (simp only: add.commute [of ?p m])
  next
    case False
    then have "length (drop ?p ?data) \<le> m" "?p + ?n = length ?data" using len p by simp_all
    then show ?thesis by simp
  qed
  show ?case
    using Cons.IH [OF f(2)] f 1 2 by (simp add: split_beta)
qed simp

section \<open>A small volume\<close>

text \<open>
  Sectors of 512 bytes, one per cluster; the table in sector 1 links cluster 2 to cluster 3, the
  root directory in sector 2 holds \<^verbatim>\<open>A.TXT\<close> with 600 bytes, and the data area starts at sector 3.
\<close>

definition example_entry :: "u8 list" where
  "example_entry = [0x41, 0x20, 0x20, 0x20, 0x20, 0x20, 0x20, 0x20, 0x54, 0x58, 0x54, 0x20,
     0, 0, 0, 0, 0, 0, 0, 0, 0, 0, 0, 0, 0, 0, 2, 0, 0x58, 2, 0, 0]"

definition example_byte :: "u32 \<Rightarrow> nat \<Rightarrow> u8" where
  "example_byte lba i =
     (if lba = 1 then (if i = 3 then 3 else if i = 4 then 0xF0 else if i = 5 then 0xFF else 0)
      else if lba = 2 then (if i < 32 then example_entry ! i else 0)
      else if lba = 3 \<or> lba = 4 then ucast lba else 0)"

definition example_sector :: "u32 \<Rightarrow> u8 list" where
  "example_sector lba = map (example_byte lba) [0..<512]"

definition example_disk :: termob_block_device where
  "example_disk = \<lparr>bd_name = Some ''vda'', bd_driver_name = None, bd_sector_size_bytes = 512,
     bd_sector_count = 10, bd_read = Some (\<lambda>priv lba count. if lba < 10 then Some (example_sector lba) else None),
     bd_private_data = 0\<rparr>"

definition example_state :: block_globals where
  "example_state = boot_block\<lparr>block_ready := True, block_device_list := 0x150020, block_device_count_value := 1,
     block_nodes := (block_nodes boot_block)(0x150020 := \<lparr>bn_device = example_disk, bn_next = 0\<rparr>)\<rparr>"

definition example_fs :: termob_fat_fs where
  "example_fs = \<lparr>fs_device_index = 0, fs_boot_lba = 0, fs_bytes_per_sector = 512,
     fs_sectors_per_cluster = 1, fs_reserved_sectors = 1, fs_fat_count = 1, fs_sectors_per_fat = 1,
     fs_root_entry_count = 16, fs_total_sectors = 10, fs_first_fat_lba = 1, fs_first_data_lba = 3,
     fs_first_root_dir_lba = 2, fs_root_dir_sectors = 1, fs_root_cluster = 0, fs_cluster_count = 7,
     fs_fat_type = TERMOB_FAT_TYPE_12\<rparr>"

lemma example_medium: "fat_medium example_fs {..<10} example_sector example_state"
  by (simp add: fat_medium_def example_fs_def example_state_def block_device_at_def example_disk_def
      reads_sectors_def example_sector_def)

lemma example_geometry: "geometry_ok example_fs" "csize example_fs = 512" "bps example_fs = 512" "spc example_fs = 1"
  by (simp_all add: geometry_ok_def sector_size_ok_def example_fs_def csize_def)

definition example_dirent :: termob_fat_dirent where
  "example_dirent = \<lparr>de_short_name = ''A.TXT'', de_display_name = ''A.TXT'',
     de_raw_name = [0x41, 0x20, 0x20, 0x20, 0x20, 0x20, 0x20, 0x20, 0x54, 0x58, 0x54],
     de_attributes = 0x20, de_first_cluster = 2, de_size_bytes = 600,
     de_kind = TERMOB_FAT_DIRENT_FILE, de_has_long_name = False, de_suspicious = False\<rparr>"

lemma example_root_entry:
  "fat_short_entry example_fs (dir_entry_at (example_sector 2 @ replicate 3584 0) 0) lfn_fresh = example_dirent"
proof -
  have b: "byte_at (example_sector 2 @ replicate 3584 0) i = (if i < 32 then example_entry ! i else 0)"
    if "i < 512" for i
    using that by (simp add: byte_at_append example_sector_def example_byte_def)
  have u: "[0..<11] = [0, 1, 2, 3, 4, 5, 6, 7, 8, 9, 10 :: nat]" by (simp add: upt_rec)
  have r: "dir_entry_at (example_sector 2 @ replicate 3584 0) 0 =
      \<lparr>raw_name = [0x41, 0x20, 0x20, 0x20, 0x20, 0x20, 0x20, 0x20, 0x54, 0x58, 0x54],
       raw_attributes = 0x20, raw_first_cluster_high = 0, raw_first_cluster_low = 2, raw_file_size = 600\<rparr>"
    by (simp add: dir_entry_at_def fat_read_le16_def fat_read_le32_def b u example_entry_def le16_def le32_def)
  have n: "fat_copy_83_name [0x41, 0x20, 0x20, 0x20, 0x20, 0x20, 0x20, 0x20, 0x54, 0x58, 0x54] = ''A.TXT''"
    by code_simp
  show ?thesis
    unfolding r by (simp add: fat_short_entry_def fat_dirent_from_raw_def Let_def n lfn_fresh_def
        fat_lfn_reset_def example_dirent_def fat_cluster_is_valid_def example_fs_def)
qed

lemma example_find:
  "fat_find_root_entry example_fs ''A.TXT'' example_state =
    (TERMOB_FAT_STATUS_OK, Some example_dirent, example_state)"
proof -
  let ?sec = "example_sector 2 @ replicate 3584 0"
  have rd: "fat_block_read_sector example_fs 2 example_state = Some ?sec"
    using fat_read_sector [OF example_medium, of 2] example_geometry by simp
  obtain os where o: "entry_offsets (fs_bytes_per_sector example_fs) = 0 # os"
    by (simp add: entry_offsets_def upt_rec example_fs_def)
  have b: "byte_at ?sec i = example_entry ! i" if "i < 32" for i
    using that by (simp add: byte_at_append example_sector_def example_byte_def)
  have raw: "raw_name (dir_entry_at ?sec 0) ! 0 = 0x41" "raw_attributes (dir_entry_at ?sec 0) = 0x20"
    by (simp_all add: dir_entry_at_def b example_entry_def)
  have m: "fat_dirent_name_matches example_dirent ''A.TXT''" by code_simp
  have v: "fat_visit_sector_entries example_fs ?sec lfn_fresh (Some fat_find_entry_callback)
      (find_start ''A.TXT'') example_state = (False, fat_lfn_reset lfn_fresh,
        (find_start ''A.TXT'')\<lparr>fc_out_dirent := Some example_dirent, fc_found := True\<rparr>, example_state)"
    using m unfolding fat_visit_sector_entries_def o
    by (simp add: raw example_root_entry Let_def fat_call_back_def fat_find_entry_callback_def find_start_def)
      (simp add: example_dirent_def)
  have l: "lba_range 2 1 = [2]" by (simp add: lba_range_def upt_rec)
  have f: "fs_fat_type example_fs = TERMOB_FAT_TYPE_12" "fs_first_root_dir_lba example_fs = 2"
    "fs_root_dir_sectors example_fs = 1" by (simp_all add: example_fs_def)
  have "de_suspicious example_dirent = False" by (simp add: example_dirent_def)
  then show ?thesis
    by (simp add: fat_find_root_entry_def fat_find_root_fixed_def f l rd v fat_find_status_def)
qed

definition example_file :: termob_fat_file where
  "example_file = \<lparr>ff_fs = example_fs, ff_dirent = example_dirent, ff_position = 0,
     ff_current_cluster = 2, ff_current_cluster_file_offset = 0, ff_clusters_seen = 1,
     ff_visited_count = 1, ff_visited_clusters = (replicate 256 0)[0 := 2]\<rparr>"

lemma example_open:
  "fat_open_file (Some example_fs) (Some ''/A.TXT'') example_state =
    (TERMOB_FAT_STATUS_OK, Some example_file, example_state)"
proof -
  have p: "fat_parse_path_component ''A.TXT'' 13 = Some (''A.TXT'', [], False)" by code_simp
  have d: "\<not> de_suspicious example_dirent" "de_kind example_dirent = TERMOB_FAT_DIRENT_FILE"
    "de_size_bytes example_dirent = 600" "de_first_cluster example_dirent = 2"
    by (simp_all add: example_dirent_def)
  have l: "fat_lookup_loop example_fs ''A.TXT'' \<lparr>lr_dirent = None, lr_is_root = True\<rparr> example_state =
      (TERMOB_FAT_STATUS_OK, \<lparr>lr_dirent = Some example_dirent, lr_is_root = False\<rparr>, example_state)"
    by (subst fat_lookup_loop.simps, simp add: p fat_lookup_component_def example_find d)
      (subst fat_lookup_loop.simps, simp)
  have "fat_cluster_is_valid example_fs 2"
    by (simp add: fat_cluster_is_valid_def example_fs_def)
  then show ?thesis
    by (simp add: fat_open_file_def fat_lookup_path_def lookup_start_def l d example_file_def)
qed

lemma example_readable: "clusters_readable example_fs {..<10} [2, 3]"
  by (simp add: clusters_readable_def fat_cluster_first_lba_def example_fs_def)

lemma example_chain: "file_chain example_fs example_dirent [2, 3] example_state"
proof -
  have b: "stream_byte 512 example_sector 1 3 = 3" "stream_byte 512 example_sector 1 4 = 0xF0"
    by (simp_all add: stream_byte_def example_sector_def example_byte_def)
  have r: "fat_byte_readable example_fs {..<10} (unat (2 :: u32) + unat (2 :: u32) div 2 + k)" if "k < 2" for k
    using that by (auto simp: example_fs_def less_2_cases_iff)
  have "fat_read_fat_entry example_fs 2 example_state = Some 3"
    using fat_read_entry_12 [OF example_medium _ _ _ r] example_geometry b
    by (simp add: geometry_ok_def example_fs_def)
  moreover have "fs_fat_type example_fs = TERMOB_FAT_TYPE_12" "fat_cluster_is_valid example_fs 2"
    "fat_cluster_is_valid example_fs 3"
    by (simp_all add: fat_cluster_is_valid_def example_fs_def)
  ultimately show ?thesis
    by (simp add: file_chain_def chain_links_def less_Suc_eq fat_next_corrupt_def example_geometry)
      (simp add: example_dirent_def)
qed

section \<open>Properties\<close>

text \<open>
  C7. Reading a byte range of a file through its path, on a volume whose device reads the sectors of the
  file and whose table links its clusters. As long as the range ends before the 256 clusters that the
  reader can remember, or the whole file lies in them, the call succeeds, puts exactly the bytes of the
  file from the offset on at the start of the buffer, as many as fit, and reports their number; the
  rest of the buffer and the kernel state stay as opening left them. A range that reaches the end of
  these clusters in a longer file, intact as it is, is answered as corrupt. The size of the file
  rounded up to clusters fits 32 bits.
\<close>

theorem fat_read_file_range_delivers:
  assumes "fat_open_file (Some fs) (Some path) s = (TERMOB_FAT_STATUS_OK, Some file, s1)"
    and "fat_medium fs readable sector s1" "geometry_ok fs" "file_chain fs (ff_dirent file) cs s1"
    and "offset < de_size_bytes (ff_dirent file)" "length buf = m"
    and "clusters_readable fs readable cs" "size_rounds fs (ff_dirent file)"
  defines "n \<equiv> min m (unat (de_size_bytes (ff_dirent file)) - unat offset)"
  shows "if unat offset + n < 256 * csize fs \<or> unat (de_size_bytes (ff_dirent file)) \<le> 256 * csize fs
    then fat_read_file_range (Some fs) (Some path) offset (Some buf) m s =
      (TERMOB_FAT_STATUS_OK,
       Some (take n (drop (unat offset) (file_data fs sector (ff_dirent file) cs)) @ drop n buf), n, s1)
    else fst (fat_read_file_range (Some fs) (Some path) offset (Some buf) m s) = TERMOB_FAT_STATUS_CORRUPT"
proof -
  let ?d = "ff_dirent file" and ?r = "fat_read_file_range (Some fs) (Some path) offset (Some buf) m s"
  have lt: "\<not> de_size_bytes ?d \<le> offset" and lt': "unat offset < unat (de_size_bytes ?d)"
    using assms(5) by (simp_all add: word_less_nat_alt word_le_nat_alt)
  note sk = seek_file [OF assms(3,4,8) open_file_open [OF assms(1)] assms(5)]
  show ?thesis
  proof (cases "unat offset < 256 * csize fs")
    case True
    then obtain f where f: "fat_seek_file file offset s1 = (TERMOB_FAT_STATUS_OK, f, s1)"
      "file_at fs ?d cs (unat offset div csize fs) f" "ff_position f = offset"
      using sk by auto
    have e: "?r = (let (status, g, b, c, t) = fat_read_file f (Some buf) m s1 in (status, b, c, t))"
      using assms(1) f(1) lt by (simp add: fat_read_file_range_def)
    show ?thesis
    proof (cases "unat offset + n < 256 * csize fs \<or> unat (de_size_bytes ?d) \<le> 256 * csize fs")
      case ok: True
      have "file_ready fs ?d cs f"
        using f(2,3) lt' by (auto simp: file_ready_def file_open_def file_at_def)
      then show ?thesis
        using read_file [OF assms(2-4), of f m buf] ok f(3) assms(6-8) by (auto simp: e n_def)
    next
      case big: False
      then have "m \<noteq> 0" using True by (auto simp: n_def)
      then have "fst (fat_read_file f (Some buf) m s1) = TERMOB_FAT_STATUS_CORRUPT"
        using read_file_guard [OF assms(2-4), of f m buf] f(2,3) lt' assms(6-8) big by (simp add: n_def)
      then show ?thesis using big by (auto simp: e split: prod.splits)
    qed
  next
    case False
    then have "fst (fat_seek_file file offset s1) = TERMOB_FAT_STATUS_CORRUPT" using sk by simp
    then have "fst ?r = TERMOB_FAT_STATUS_CORRUPT"
      using assms(1) lt by (auto simp: fat_read_file_range_def split: prod.splits)
    then show ?thesis using False lt' by simp
  qed
qed

text \<open>Twelve bytes of the first cluster and eight of the second.\<close>

theorem fat_read_file_range_delivers_witness:
  "\<exists>buf. fat_read_file_range (Some example_fs) (Some ''/A.TXT'') 500 (Some (replicate 20 0)) 20 example_state =
    (TERMOB_FAT_STATUS_OK, Some buf, 20, example_state)"
  using fat_read_file_range_delivers [OF example_open example_medium example_geometry(1), of "[2, 3]" 500 "replicate 20 0" 20]
    example_chain example_readable small_file(2) [OF example_geometry(1) example_chain] example_geometry
  by (simp add: example_file_def example_dirent_def)

text \<open>
  C8. Reading a file in pieces of any sizes gives the same bytes as reading it at once: the pieces
  joined are the prefix of the contents, from the current position, of the total length. The file has
  at most the 256 clusters that the reader can remember.
\<close>

theorem fat_pieces_join:
  assumes "fat_medium fs readable sector s" "geometry_ok fs" "file_chain fs d cs s" "file_ready fs d cs file"
    and "length cs \<le> 256" "clusters_readable fs readable cs"
  shows "concat (fst (read_pieces ms file s)) =
    take (sum_list ms) (drop (unat (ff_position file)) (file_data fs sector d cs))"
  by (rule read_pieces_concat [OF assms])

lemma example_ready: "file_ready example_fs example_dirent [2, 3] example_file"
  using example_chain example_geometry
  by (simp add: file_ready_def file_open_def example_file_def file_at_def file_chain_def)
    (simp add: example_dirent_def take_Suc_conv_app_nth)

theorem fat_pieces_join_witness:
  "concat (fst (read_pieces [7, 512, 3] example_file example_state)) =
    take 522 (file_data example_fs example_sector example_dirent [2, 3])"
  using fat_pieces_join [OF example_medium example_geometry(1) example_chain example_ready, of "[7, 512, 3]"] example_readable
  by (simp add: example_file_def)

text \<open>
  C9. The table round trip: on a medium that holds the encoding of the table \<open>e\<close>, with 12-bit
  entries packed two in three bytes and across sector borders, in sectors that can be read up to the
  entry of a cluster, the reader returns the entry of that cluster; a 32-bit entry loses its four reserved bits.
\<close>

theorem fat_table_roundtrip:
  assumes "fat_medium fs readable sector s" "sector_size_ok fs" "fs_fat_type fs \<noteq> TERMOB_FAT_TYPE_NONE"
    and "\<forall>i. e i < 2 ^ fat_entry_bits (fs_fat_type fs)"
    and "\<forall>n < fat_entry_end (fs_fat_type fs) (unat cluster).
      unat (stream_byte (bps fs) sector (fs_first_fat_lba fs) n) = fat_table_byte (fs_fat_type fs) e n"
    and "\<forall>n < fat_entry_end (fs_fat_type fs) (unat cluster). fat_byte_readable fs readable n"
    and "unat cluster < 2 ^ 30"
  shows "fat_read_fat_entry fs cluster s = Some (word_of_nat (e (unat cluster) mod 2 ^ 28))"
proof (rule fat_entry_value [OF assms(1,2,7) _ assms(3)])
  show "fat_table_on fs sector e (unat cluster)" using assms(4,5) by (simp add: fat_table_on_def)
  show "fat_byte_readable fs readable n" if "n < fat_entry_end (fs_fat_type fs) (unat cluster)" for n
    using assms(6) that by blast
qed

theorem fat_table_roundtrip_witness: "fat_read_fat_entry example_fs 3 example_state = Some 0xFFF"
proof -
  let ?e = "\<lambda>i :: nat. if i = 2 then 3 else if i = 3 then 0xFFF else 0 :: nat"
  have f: "fs_fat_type example_fs = TERMOB_FAT_TYPE_12" "fs_first_fat_lba example_fs = 1"
    by (simp_all add: example_fs_def)
  have b: "unat (stream_byte 512 example_sector 1 n) = fat_table_byte TERMOB_FAT_TYPE_12 ?e n" if "n < 6" for n
  proof -
    from that have "n = 0 \<or> n = 1 \<or> n = 2 \<or> n = 3 \<or> n = 4 \<or> n = 5" by auto
    then show ?thesis
      by (elim disjE) (simp_all add: stream_byte_def example_sector_def example_byte_def)
  qed
  have "\<forall>n<6. fat_byte_readable example_fs {..<10} n" by (simp add: example_fs_def)
  then show ?thesis
    using fat_table_roundtrip [OF example_medium, of ?e 3] b example_geometry f
    by (simp add: geometry_ok_def)
qed

end
