(* ===== verification/Mount_Props.thy ===== *)
theory Mount_Props
  imports Fat_Props
begin

text \<open>
  What a successful mount promises (\<^verbatim>\<open>fs/fat.c\<close>): the record it fills in is well formed, which is what
  the readers of \<^verbatim>\<open>Fat_Chain\<close> ask for, and the clusters it describes are disjoint runs of sectors
  inside the volume.
\<close>

section \<open>Well-formed volumes\<close>

definition fat_type_of_count :: "u32 \<Rightarrow> termob_fat_type" where
  "fat_type_of_count n =
     (if n < 4085 then TERMOB_FAT_TYPE_12 else if n < 65525 then TERMOB_FAT_TYPE_16 else TERMOB_FAT_TYPE_32)"

definition fat_fs_wf :: "termob_fat_fs \<Rightarrow> bool" where
  "fat_fs_wf fs \<longleftrightarrow>
     geometry_ok fs \<and> fat_is_power_of_two (fs_sectors_per_cluster fs) \<and>
     fs_reserved_sectors fs \<noteq> 0 \<and> fs_fat_count fs \<noteq> 0 \<and> fs_sectors_per_fat fs \<noteq> 0 \<and>
     fs_cluster_count fs \<noteq> 0 \<and> fs_fat_type fs = fat_type_of_count (fs_cluster_count fs) \<and>
     fs_first_fat_lba fs = fs_boot_lba fs + fs_reserved_sectors fs \<and>
     (if fs_fat_type fs = TERMOB_FAT_TYPE_32
      then fs_first_root_dir_lba fs = 0 \<and> fat_cluster_is_valid fs (fs_root_cluster fs)
      else fs_first_root_dir_lba fs = fs_first_fat_lba fs + fs_fat_count fs * fs_sectors_per_fat fs)"

text \<open>The sectors before the first cluster, as a number, and that the 32 bit sums hold it.\<close>

definition fat_metadata :: "termob_fat_fs \<Rightarrow> nat" where
  "fat_metadata fs =
     unat (fs_reserved_sectors fs) + unat (fs_fat_count fs) * unat (fs_sectors_per_fat fs) +
     unat (fs_root_dir_sectors fs)"

definition fat_addressable :: "termob_fat_fs \<Rightarrow> bool" where
  "fat_addressable fs \<longleftrightarrow>
     fat_metadata fs < 2 ^ 32 \<and> unat (fs_boot_lba fs) + unat (fs_total_sectors fs) < 2 ^ 32"

definition fat_cluster_sectors :: "termob_fat_fs \<Rightarrow> u32 \<Rightarrow> nat set" where
  "fat_cluster_sectors fs c =
     {unat (fat_cluster_first_lba fs c)..<unat (fat_cluster_first_lba fs c) + unat (fs_sectors_per_cluster fs)}"

text \<open>The equations of the data area that the layout step leaves.\<close>

definition fat_data_area :: "termob_fat_fs \<Rightarrow> bool" where
  "fat_data_area fs \<longleftrightarrow>
     (let metadata = fs_reserved_sectors fs + fs_fat_count fs * fs_sectors_per_fat fs + fs_root_dir_sectors fs
      in metadata < fs_total_sectors fs \<and>
         fs_cluster_count fs = (fs_total_sectors fs - metadata) div fs_sectors_per_cluster fs \<and>
         fs_first_data_lba fs = fs_boot_lba fs + metadata)"

section \<open>The layout step\<close>

text \<open>The record the layout step returns when it succeeds.\<close>

definition fat_laid_out :: "termob_fat_fs \<Rightarrow> termob_fat_fs" where
  "fat_laid_out fs =
     (let root_dir_sectors = (fs_root_entry_count fs * 32 + (fs_bytes_per_sector fs - 1)) div fs_bytes_per_sector fs;
          metadata = fs_reserved_sectors fs + fs_fat_count fs * fs_sectors_per_fat fs + root_dir_sectors;
          clusters = (fs_total_sectors fs - metadata) div fs_sectors_per_cluster fs;
          first_fat = fs_boot_lba fs + fs_reserved_sectors fs;
          first_root = first_fat + fs_fat_count fs * fs_sectors_per_fat fs
      in fs\<lparr>fs_fat_type := fat_type_of_count clusters, fs_cluster_count := clusters,
            fs_root_dir_sectors := root_dir_sectors, fs_first_fat_lba := first_fat,
            fs_first_root_dir_lba := (if fat_type_of_count clusters = TERMOB_FAT_TYPE_32 then 0 else first_root),
            fs_first_data_lba := first_root + root_dir_sectors\<rparr>)"

lemma fat_mount_layout_succeeds:
  assumes "fat_mount_layout fs s = (True, fs', s')"
  shows "fs' = fat_laid_out fs" "s' = s" "fs_cluster_count fs' \<noteq> 0"
    "fs_reserved_sectors fs + fs_fat_count fs * fs_sectors_per_fat fs + fs_root_dir_sectors fs' < fs_total_sectors fs"
    "fs_fat_type fs' = TERMOB_FAT_TYPE_32 \<Longrightarrow> fat_cluster_is_valid fs' (fs_root_cluster fs')"
  using assms unfolding fat_mount_layout_def fat_laid_out_def Let_def fat_type_of_count_def [symmetric]
  by (simp_all add: not_le split: if_split_asm)
    (auto simp: not_le)

lemma fat_mount_layout_wf:
  assumes "fat_mount_layout fs s = (True, fs', s')" "geometry_ok fs"
    "fat_is_power_of_two (fs_sectors_per_cluster fs)"
    "fs_reserved_sectors fs \<noteq> 0" "fs_fat_count fs \<noteq> 0" "fs_sectors_per_fat fs \<noteq> 0"
  shows "fat_fs_wf fs' \<and> fat_data_area fs' \<and> s' = s \<and> fs_bytes_per_sector fs' = fs_bytes_per_sector fs"
  using fat_mount_layout_succeeds [OF assms(1)] assms(2-)
  by (simp add: fat_fs_wf_def fat_data_area_def fat_laid_out_def Let_def geometry_ok_def sector_size_ok_def add.assoc)

lemma power_of_two_pos: "fat_is_power_of_two w \<Longrightarrow> 1 \<le> unat w"
  by (simp add: fat_is_power_of_two_def Suc_le_eq unat_gt_0)

lemma fat_mount_bpb_device: "fs_device_index (fat_mount_bpb fs d lba sector) = d"
  by (simp add: fat_mount_bpb_def Let_def)

lemma fat_mount_wf:
  assumes "fat_mount fs d lba s = (True, fs', s')"
  shows "fat_fs_wf fs' \<and> fat_data_area fs' \<and> s' = s \<and>
    (\<exists>device. block_device_at d s = Some device \<and> bd_sector_size_bytes device = fs_bytes_per_sector fs')"
proof -
  obtain device sector where d: "block_device_at d s = Some device"
    and r: "fat_block_read_sector (fs\<lparr>fs_device_index := d\<rparr>) lba s = Some sector"
    using assms by (auto simp: fat_mount_def split: option.splits)
  define b where "b = fat_mount_bpb fs d lba sector"
  have *: "fat_mount_layout b s = (True, fs', s')" "sector_size_ok b"
    "bd_sector_size_bytes device = fs_bytes_per_sector b"
    "fat_is_power_of_two (fs_sectors_per_cluster b)" "fs_sectors_per_cluster b \<le> 128"
    "fs_reserved_sectors b \<noteq> 0" "fs_fat_count b \<noteq> 0" "fs_sectors_per_fat b \<noteq> 0"
    using assms unfolding fat_mount_def d r option.case b_def [symmetric] Let_def
    by (auto simp: sector_size_ok_def not_less split: if_splits)
  then have "geometry_ok b"
    using power_of_two_pos by (auto simp: geometry_ok_def word_le_nat_alt)
  then show ?thesis using fat_mount_layout_wf [OF *(1)] * d by auto
qed

section \<open>The clusters of the data area\<close>

lemma fat_metadata_word:
  assumes "fat_metadata fs < 2 ^ 32"
  shows "unat (fs_reserved_sectors fs + fs_fat_count fs * fs_sectors_per_fat fs + fs_root_dir_sectors fs) =
    fat_metadata fs"
proof -
  have "fs_reserved_sectors fs + fs_fat_count fs * fs_sectors_per_fat fs + fs_root_dir_sectors fs =
      (word_of_nat (fat_metadata fs) :: u32)"
    by (simp add: fat_metadata_def)
  then show ?thesis using assms by (simp add: unsigned_of_nat take_bit_nat_eq_self del: of_nat_add of_nat_mult)
qed

lemma fat_metadata_ge:
  assumes "fat_fs_wf fs"
  shows "2 \<le> fat_metadata fs"
proof -
  have "0 < unat (fs_reserved_sectors fs)" "0 < unat (fs_fat_count fs) * unat (fs_sectors_per_fat fs)"
    using assms by (simp_all add: fat_fs_wf_def unat_gt_0)
  then show ?thesis unfolding fat_metadata_def by linarith
qed

lemma fat_cluster_count_nat:
  assumes "fat_data_area fs" "fat_addressable fs"
  shows "fat_metadata fs < unat (fs_total_sectors fs)"
    and "unat (fs_cluster_count fs) =
      (unat (fs_total_sectors fs) - fat_metadata fs) div unat (fs_sectors_per_cluster fs)"
  using assms fat_metadata_word [of fs]
  by (simp_all add: fat_data_area_def fat_addressable_def Let_def word_less_nat_alt unat_div unat_sub word_le_nat_alt)

text \<open>The clusters before the end of a valid one fit into the volume.\<close>

lemma fat_clusters_fit:
  assumes "fat_fs_wf fs" "fat_data_area fs" "fat_addressable fs" "fat_cluster_is_valid fs c"
  shows "2 \<le> unat c"
    and "fat_metadata fs + (unat c - 2) * unat (fs_sectors_per_cluster fs) + unat (fs_sectors_per_cluster fs)
      \<le> unat (fs_total_sectors fs)"
proof -
  let ?k = "unat (fs_sectors_per_cluster fs)" and ?m = "fat_metadata fs" and ?t = "unat (fs_total_sectors fs)"
  let ?n = "unat (fs_cluster_count fs)"
  note n = fat_cluster_count_nat [OF assms(2,3)]
  have t: "?t < 2 ^ 32" using unsigned_less [of "fs_total_sectors fs"] by simp
  have "?n \<le> ?t - ?m" using n(2) by (simp add: div_le_dividend)
  then have "?n + 2 < 2 ^ 32" using fat_metadata_ge [OF assms(1)] n(1) t by linarith
  then have "unat (fs_cluster_count fs + 2) = ?n + 2" by (simp add: unat_word_ariths)
  then have c: "2 \<le> unat c" "unat c < ?n + 2"
    using assms(4) by (simp_all add: fat_cluster_is_valid_def word_le_nat_alt word_less_nat_alt)
  then have "Suc (unat c - 2) * ?k \<le> ?n * ?k" by (intro mult_le_mono1) linarith
  also have "\<dots> \<le> ?t - ?m" using n(2) by (simp add: div_times_less_eq_dividend)
  finally have "(unat c - 2) * ?k + ?k \<le> ?t - ?m" by simp
  then show "?m + (unat c - 2) * ?k + ?k \<le> ?t" using n(1) by linarith
  show "2 \<le> unat c" by (fact c(1))
qed

lemma fat_cluster_first_lba_nat:
  assumes "fat_fs_wf fs" "fat_data_area fs" "fat_addressable fs" "fat_cluster_is_valid fs c"
  shows "unat (fat_cluster_first_lba fs c) =
    unat (fs_boot_lba fs) + fat_metadata fs + (unat c - 2) * unat (fs_sectors_per_cluster fs)"
proof -
  let ?r = "unat (fs_boot_lba fs) + fat_metadata fs + (unat c - 2) * unat (fs_sectors_per_cluster fs)"
  note fit = fat_clusters_fit [OF assms]
  have "(word_of_nat (unat c - 2) :: u32) = c - 2" using fit(1) by (simp add: of_nat_diff)
  moreover have "fs_reserved_sectors fs + fs_fat_count fs * fs_sectors_per_fat fs + fs_root_dir_sectors fs =
      (word_of_nat (fat_metadata fs) :: u32)"
    by (simp add: fat_metadata_def)
  ultimately have "fat_cluster_first_lba fs c = word_of_nat ?r"
    using assms(2) by (simp add: fat_cluster_first_lba_def fat_data_area_def Let_def)
  moreover have "?r < 2 ^ 32" using fit(2) assms(3) unfolding fat_addressable_def by linarith
  ultimately show ?thesis by (simp add: unsigned_of_nat take_bit_nat_eq_self del: of_nat_add of_nat_mult)
qed

lemma fat_cluster_sectors_inside:
  assumes "fat_fs_wf fs" "fat_data_area fs" "fat_addressable fs" "fat_cluster_is_valid fs c"
  shows "fat_cluster_sectors fs c \<subseteq>
    {unat (fs_boot_lba fs) + fat_metadata fs..<unat (fs_boot_lba fs) + unat (fs_total_sectors fs)}"
  using fat_clusters_fit(2) [OF assms] by (auto simp: fat_cluster_sectors_def fat_cluster_first_lba_nat [OF assms])

lemma fat_cluster_sectors_disjoint:
  assumes fs: "fat_fs_wf fs" "fat_data_area fs" "fat_addressable fs"
    and c: "fat_cluster_is_valid fs c" "fat_cluster_is_valid fs c'" "c \<noteq> c'"
  shows "fat_cluster_sectors fs c \<inter> fat_cluster_sectors fs c' = {}"
proof -
  let ?k = "unat (fs_sectors_per_cluster fs)"
  have "2 \<le> unat c" "2 \<le> unat c'" using fat_clusters_fit(1) fs c by blast+
  moreover have "unat c \<noteq> unat c'" using c(3) by (simp add: word_unat_eq_iff)
  ultimately consider "unat c - 2 < unat c' - 2" | "unat c' - 2 < unat c - 2" by linarith
  then show ?thesis
  proof cases
    case 1
    have "(unat c - 2) * ?k + ?k \<le> (unat c' - 2) * ?k" using mult_le_mono1 [of "Suc (unat c - 2)" "unat c' - 2" ?k] 1 by simp
    then show ?thesis
      by (auto simp: fat_cluster_sectors_def fat_cluster_first_lba_nat [OF fs c(1)] fat_cluster_first_lba_nat [OF fs c(2)])
  next
    case 2
    have "(unat c' - 2) * ?k + ?k \<le> (unat c - 2) * ?k" using mult_le_mono1 [of "Suc (unat c' - 2)" "unat c - 2" ?k] 2 by simp
    then show ?thesis
      by (auto simp: fat_cluster_sectors_def fat_cluster_first_lba_nat [OF fs c(1)] fat_cluster_first_lba_nat [OF fs c(2)])
  qed
qed

section \<open>The property\<close>

definition example_boot_sector :: "u8 list" where
  "example_boot_sector = (replicate 512 0)[12 := 2, 13 := 1, 14 := 1, 16 := 1, 17 := 16, 19 := 10, 22 := 1,
     510 := 0x55, 511 := 0xAA]"

definition example_mount_state :: block_globals where
  "example_mount_state = example_state\<lparr>block_nodes := (block_nodes boot_block)(0x150020 :=
     \<lparr>bn_device = example_disk\<lparr>bd_read := Some (\<lambda>priv lba count. Some example_boot_sector)\<rparr>, bn_next = 0\<rparr>)\<rparr>"

definition example_blank_fs :: termob_fat_fs where
  "example_blank_fs = \<lparr>fs_device_index = 0, fs_boot_lba = 0, fs_bytes_per_sector = 0,
     fs_sectors_per_cluster = 0, fs_reserved_sectors = 0, fs_fat_count = 0, fs_sectors_per_fat = 0,
     fs_root_entry_count = 0, fs_total_sectors = 0, fs_first_fat_lba = 0, fs_first_data_lba = 0,
     fs_first_root_dir_lba = 0, fs_root_dir_sectors = 0, fs_root_cluster = 0, fs_cluster_count = 0,
     fs_fat_type = TERMOB_FAT_TYPE_NONE\<rparr>"

lemma example_boot_sector_read:
  "fat_block_read_sector (example_blank_fs\<lparr>fs_device_index := 0\<rparr>) 0 example_mount_state =
     Some (example_boot_sector @ replicate 3584 0)"
  by (simp add: fat_block_read_sector_def block_read_device_def example_mount_state_def example_state_def
      example_blank_fs_def block_device_at_def example_disk_def buffer_store_def example_boot_sector_def)

lemma example_mounts:
  "fat_mount example_blank_fs 0 0 example_mount_state = (True, example_fs, example_mount_state)"
proof -
  have b: "byte_at (example_boot_sector @ replicate 3584 0) i =
      (if i = 511 then 0xAA else if i = 510 then 0x55 else if i = 22 then 1 else if i = 19 then 10
       else if i = 17 then 16 else if i \<in> {13, 14, 16} then 1 else if i = 12 then 2 else 0)" if "i < 512" for i
    using that by (simp add: byte_at_append example_boot_sector_def nth_list_update)
  have p: "fat_mount_bpb example_blank_fs 0 0 (example_boot_sector @ replicate 3584 0) =
      example_blank_fs\<lparr>fs_bytes_per_sector := 512, fs_sectors_per_cluster := 1, fs_reserved_sectors := 1,
        fs_fat_count := 1, fs_root_entry_count := 16, fs_total_sectors := 10, fs_sectors_per_fat := 1\<rparr>"
    by (simp add: fat_mount_bpb_def fat_read_le16_def b le16_def
        example_blank_fs_def)
  have d: "block_device_at 0 example_mount_state =
      Some (example_disk\<lparr>bd_read := Some (\<lambda>priv lba count. Some example_boot_sector)\<rparr>)"
    by (simp add: example_mount_state_def example_state_def block_device_at_def)
  show ?thesis
    by (simp add: fat_mount_def d example_boot_sector_read p)
      (simp add: b example_disk_def fat_is_power_of_two_def
        fat_mount_layout_def example_blank_fs_def example_fs_def)
qed

text \<open>
  C38. A mount that succeeds fills in a well-formed volume. The sector size is one the readers support
  and is that of the device, the clusters are a power of two of at most 128 sectors, there is at least
  one, their number decides the type of the table, and a FAT32 root directory starts at a valid
  cluster; the kernel state is as before. When the sums of the boot sector's fields stay within 32 bits,
  the sectors of every valid cluster lie behind the metadata and inside the volume, and two clusters
  share no sector.
\<close>

theorem fat_mount_gives_wf:
  assumes "fat_mount fs d lba s = (True, fs', s')"
  shows "fat_fs_wf fs' \<and> s' = s \<and>
    (\<exists>device. block_device_at d s = Some device \<and> bd_sector_size_bytes device = fs_bytes_per_sector fs') \<and>
    (fat_addressable fs' \<longrightarrow>
      (\<forall>c. fat_cluster_is_valid fs' c \<longrightarrow> fat_cluster_sectors fs' c \<subseteq>
         {unat (fs_boot_lba fs') + fat_metadata fs'..<unat (fs_boot_lba fs') + unat (fs_total_sectors fs')}) \<and>
      (\<forall>c c'. fat_cluster_is_valid fs' c \<longrightarrow> fat_cluster_is_valid fs' c' \<longrightarrow> c \<noteq> c' \<longrightarrow>
         fat_cluster_sectors fs' c \<inter> fat_cluster_sectors fs' c' = {}))"
  using fat_mount_wf [OF assms] fat_cluster_sectors_inside fat_cluster_sectors_disjoint by blast

theorem fat_mount_gives_wf_witness:
  "fat_mount example_blank_fs 0 0 example_mount_state = (True, example_fs, example_mount_state) \<and>
   fat_fs_wf example_fs \<and> fat_addressable example_fs \<and>
   fat_cluster_is_valid example_fs 8 \<and> fat_cluster_sectors example_fs 8 \<subseteq> {3..<10} \<and>
   fat_cluster_sectors example_fs 7 \<inter> fat_cluster_sectors example_fs 8 = {}"
proof -
  have a: "fat_addressable example_fs" "fat_metadata example_fs = 3"
    by (simp_all add: fat_addressable_def fat_metadata_def example_fs_def)
  moreover have c: "fat_cluster_is_valid example_fs 8" "fat_cluster_is_valid example_fs 7"
    by (simp_all add: fat_cluster_is_valid_def example_fs_def)
  ultimately show ?thesis
    using fat_mount_gives_wf [OF example_mounts] example_mounts c by (auto simp: example_fs_def)
qed

end
