(* ===== verification/Pmm_Inv.thy ===== *)
theory Pmm_Inv
  imports Pmm
begin

text \<open>
  The set of free frames behind the bitmap. Marking a frame changes the set by that frame only, the
  loops over a region by the frames of the region, and the count stays the size of the set.
\<close>

section \<open>The bitmap\<close>

definition free_set :: "'a pmm_globals_scheme \<Rightarrow> u32 set" where
  "free_set s = {f. f < pmm_total_frames_count s \<and> \<not> pmm_frame_is_used f s}"

text \<open>No frame number needs more than 20 bits, so none of the products with the frame size wraps.\<close>

definition pmm_inv :: "'a pmm_globals_scheme \<Rightarrow> bool" where
  "pmm_inv s \<longleftrightarrow> unat (pmm_total_frames_count s) \<le> 2 ^ 20 \<and>
     unat (pmm_free_frames_count s) = card (free_set s) \<and>
     pmm_next_search_frame s \<le> pmm_total_frames_count s"

definition frame_bit :: "u32 \<Rightarrow> nat" where
  "frame_bit f = unat (f AND 7)"

lemma frame_bit_less: "frame_bit f < 8"
  using unat_and_mask [of f 3] by (simp add: frame_bit_def mask_eq_exp_minus_1)

lemma bitmap_mask_eq: "pmm_bitmap_mask f = push_bit (frame_bit f) 1"
  by (rule bit_word_eqI) (auto simp: pmm_bitmap_mask_def frame_bit_def bit_simps)

lemma frame_used_bit:
  "pmm_frame_is_used f s \<longleftrightarrow> bit (mem s (pmm_bitmap s + pmm_bitmap_index f)) (frame_bit f)"
  by (simp add: pmm_frame_is_used_def bitmap_mask_eq bit_iff_and_push_bit_not_eq_0)

lemma frame_index_bit_inj:
  assumes "pmm_bitmap_index f = pmm_bitmap_index g" "frame_bit f = frame_bit g"
  shows "f = g"
proof -
  have "unat x = 8 * unat (pmm_bitmap_index x) + frame_bit x" for x
    using unat_and_mask [of x 3]
    by (simp add: pmm_bitmap_index_def frame_bit_def mask_eq_exp_minus_1 drop_bit_eq_div unat_div)
  from this [of f] this [of g] assms show ?thesis by (simp add: word_unat_eq_iff)
qed

text \<open>Writing the byte of a frame with only its bit changed changes that frame only.\<close>

definition set_frame :: "bool \<Rightarrow> u32 \<Rightarrow> 'a pmm_globals_scheme \<Rightarrow> u32 \<Rightarrow> u8" where
  "set_frame b f s = (let a = pmm_bitmap s + pmm_bitmap_index f
     in (mem s)(a := if b then set_bit (frame_bit f) (mem s a) else unset_bit (frame_bit f) (mem s a)))"

lemma set_frame_used:
  assumes "mem t = set_frame b f s" "pmm_bitmap t = pmm_bitmap s"
  shows "pmm_frame_is_used g t \<longleftrightarrow> (if g = f then b else pmm_frame_is_used g s)"
proof (cases "pmm_bitmap_index g = pmm_bitmap_index f")
  case True
  then have "g = f \<longleftrightarrow> frame_bit f = frame_bit g" using frame_index_bit_inj [of g f] by auto
  then show ?thesis
    using True frame_bit_less [of f]
    by (auto simp: frame_used_bit assms set_frame_def Let_def bit_set_bit_iff bit_unset_bit_iff)
next
  case False
  then show ?thesis by (auto simp: frame_used_bit assms set_frame_def Let_def)
qed

lemma mark_used_eq:
  "pmm_mark_frame_used f s =
     (if f \<in> free_set s
      then s\<lparr>mem := set_frame True f s,
             pmm_free_frames_count := (if pmm_free_frames_count s > 0 then pmm_free_frames_count s - 1
                                       else pmm_free_frames_count s)\<rparr>
      else s)"
  by (auto simp: pmm_mark_frame_used_def free_set_def set_frame_def Let_def bitmap_mask_eq set_bit_eq_or)

lemma mark_free_eq:
  "pmm_mark_frame_free f s =
     (if f < pmm_total_frames_count s \<and> f \<notin> free_set s
      then s\<lparr>mem := set_frame False f s, pmm_free_frames_count := pmm_free_frames_count s + 1\<rparr>
      else s)"
  by (auto simp: pmm_mark_frame_free_def free_set_def set_frame_def Let_def bitmap_mask_eq unset_bit_eq_and_not)

section \<open>What the marking operations leave alone\<close>

definition pmm_frame :: "'a pmm_globals_scheme \<Rightarrow> 'a pmm_globals_scheme \<Rightarrow> bool" where
  "pmm_frame s t \<longleftrightarrow>
     t\<lparr>mem := \<lambda>_. 0, pmm_free_frames_count := 0\<rparr> = s\<lparr>mem := \<lambda>_. 0, pmm_free_frames_count := 0\<rparr>"

lemma pmm_frame_refl [simp]: "pmm_frame s s"
  by (simp add: pmm_frame_def)

lemma pmm_frame_trans: "pmm_frame s t \<Longrightarrow> pmm_frame t u \<Longrightarrow> pmm_frame s u"
  by (simp add: pmm_frame_def)

lemma pmm_frameD:
  assumes "pmm_frame s t"
  shows "pmm_total_frames_count t = pmm_total_frames_count s" "pmm_bitmap t = pmm_bitmap s"
    "pmm_bitmap_size_bytes t = pmm_bitmap_size_bytes s"
    "pmm_next_search_frame t = pmm_next_search_frame s" "pmm_ready t = pmm_ready s"
    "bootinfo_info_address t = bootinfo_info_address s" "bootinfo_info_size t = bootinfo_info_size s"
    "heap_start_ptr t = heap_start_ptr s" "heap_end_ptr t = heap_end_ptr s"
    "heap_mem t = heap_mem s" "heap_free_list t = heap_free_list s"
    "heap_first_block t = heap_first_block s" "heap_ready t = heap_ready s"
    "bootinfo_ready t = bootinfo_ready s" "bootinfo_memory_ranges t = bootinfo_memory_ranges s"
    "bootinfo_memory_range_count_value t = bootinfo_memory_range_count_value s"
    "pmm_globals.more t = pmm_globals.more s"
  using assms by (cases s; cases t; simp add: pmm_frame_def)+

lemma pmm_frame_heap:
  assumes "pmm_frame s t"
  shows "heap_inv t = heap_inv s" "heap_blocks t = heap_blocks s" "heap_live t = heap_live s"
  using pmm_frameD(8-13) [OF assms] by (intro heap_inv_same; simp)+

lemma mark_frame [simp]: "pmm_frame s (pmm_mark_frame_used f s)" "pmm_frame s (pmm_mark_frame_free f s)"
  unfolding mark_used_eq mark_free_eq pmm_frame_def by simp_all

text \<open>The count is the size of the set as long as the number of frames is below 2^20.\<close>

definition counted :: "'a pmm_globals_scheme \<Rightarrow> bool" where
  "counted s \<longleftrightarrow> unat (pmm_total_frames_count s) \<le> 2 ^ 20 \<and>
     unat (pmm_free_frames_count s) = card (free_set s)"

lemma free_set_finite [simp]: "finite (free_set s)"
  by (rule finite_subset [OF subset_UNIV]) simp

lemma free_set_mark:
  "free_set (pmm_mark_frame_used f s) = free_set s - {f}"
  "free_set (pmm_mark_frame_free f s) = free_set s \<union> ({f} \<inter> {f. f < pmm_total_frames_count s})"
proof -
  have u: "free_set t = free_set s - {f}" if "f \<in> free_set s" "mem t = set_frame True f s"
    "pmm_bitmap t = pmm_bitmap s" "pmm_total_frames_count t = pmm_total_frames_count s" for t :: "'a pmm_globals_scheme"
    using set_frame_used [OF that(2,3)] that(1,4) by (auto simp: free_set_def)
  then show "free_set (pmm_mark_frame_used f s) = free_set s - {f}"
    by (simp add: mark_used_eq)
  have "free_set t = insert f (free_set s)" if "f < pmm_total_frames_count s" "mem t = set_frame False f s"
    "pmm_bitmap t = pmm_bitmap s" "pmm_total_frames_count t = pmm_total_frames_count s" for t :: "'a pmm_globals_scheme"
    using set_frame_used [OF that(2,3)] that(1,4) by (auto simp: free_set_def)
  then show "free_set (pmm_mark_frame_free f s) = free_set s \<union> ({f} \<inter> {f. f < pmm_total_frames_count s})"
    by (auto simp: mark_free_eq free_set_def)
qed

lemma free_set_card: "card (free_set s) \<le> unat (pmm_total_frames_count s)"
proof -
  have "free_set s \<subseteq> word_of_nat ` {..<unat (pmm_total_frames_count s)}"
    by (auto simp: free_set_def word_less_nat_alt intro!: image_eqI [where x = "unat _"])
  from card_mono [OF _ this] have "card (free_set s) \<le> card (word_of_nat ` {..<unat (pmm_total_frames_count s)} :: u32 set)"
    by simp
  also have "\<dots> \<le> unat (pmm_total_frames_count s)"
    using card_image_le [of "{..<unat (pmm_total_frames_count s)}" "word_of_nat :: nat \<Rightarrow> u32"] by simp
  finally show ?thesis .
qed

lemma counted_mark:
  assumes "counted s"
  shows "counted (pmm_mark_frame_used f s)" "counted (pmm_mark_frame_free f s)"
proof -
  note t = pmm_frameD(1) [OF mark_frame(1) [of s f]] pmm_frameD(1) [OF mark_frame(2) [of s f]]
  have c: "unat (pmm_free_frames_count s) = card (free_set s)" "unat (pmm_total_frames_count s) \<le> 2 ^ 20"
    using assms by (simp_all add: counted_def)
  have "unat (pmm_free_frames_count (pmm_mark_frame_used f s)) = card (free_set s - {f})"
  proof (cases "f \<in> free_set s")
    case True
    then have "card (free_set s - {f}) = card (free_set s) - 1" "card (free_set s) \<noteq> 0"
      by auto
    then show ?thesis using True c(1) by (auto simp: mark_used_eq word_less_nat_alt unat_sub word_le_nat_alt)
  qed (simp add: mark_used_eq c(1))
  then show "counted (pmm_mark_frame_used f s)" using c(2) by (simp add: counted_def free_set_mark t)
  have "unat (pmm_free_frames_count (pmm_mark_frame_free f s)) =
      card (free_set s \<union> ({f} \<inter> {f. f < pmm_total_frames_count s}))"
  proof (cases "f < pmm_total_frames_count s \<and> f \<notin> free_set s")
    case True
    then have "unat (pmm_free_frames_count s + 1) = card (insert f (free_set s))"
      using c free_set_card [of s] by (simp add: unat_word_ariths)
    moreover have "free_set s \<union> ({f} \<inter> {f. f < pmm_total_frames_count s}) = insert f (free_set s)"
      using True by auto
    ultimately show ?thesis using True by (simp add: mark_free_eq)
  next
    case False
    then have "free_set s \<union> ({f} \<inter> {f. f < pmm_total_frames_count s}) = free_set s" by auto
    then show ?thesis using False c(1) by (auto simp: mark_free_eq)
  qed
  then show "counted (pmm_mark_frame_free f s)" using c(2) by (simp add: counted_def free_set_mark t)
qed

section \<open>Regions\<close>

lemma set_frame_range: "set (frame_range a b) = {f. a \<le> f \<and> f < b}"
proof -
  have "f \<in> word_of_nat ` {unat a..<unat b}" if "a \<le> f" "f < b" for f :: u32
    using that by (intro image_eqI [where x = "unat f"]) (simp_all add: word_le_nat_alt word_less_nat_alt)
  moreover have "a \<le> word_of_nat n \<and> word_of_nat n < b" if "unat a \<le> n" "n < unat b" for n
    using that u32_less [of b] by (simp add: word_le_nat_alt word_less_nat_alt unat_of_nat)
  ultimately show ?thesis by (auto simp: frame_range_def)
qed

lemma fold_mark:
  assumes "counted s"
  shows "counted (fold pmm_mark_frame_used fs s) \<and> pmm_frame s (fold pmm_mark_frame_used fs s) \<and>
      free_set (fold pmm_mark_frame_used fs s) = free_set s - set fs"
    and "counted (fold pmm_mark_frame_free fs s) \<and> pmm_frame s (fold pmm_mark_frame_free fs s) \<and>
      free_set (fold pmm_mark_frame_free fs s) = free_set s \<union> (set fs \<inter> {f. f < pmm_total_frames_count s})"
proof -
  show "counted (fold pmm_mark_frame_used fs s) \<and> pmm_frame s (fold pmm_mark_frame_used fs s) \<and>
      free_set (fold pmm_mark_frame_used fs s) = free_set s - set fs"
    using assms
  proof (induction fs arbitrary: s)
    case (Cons f fs)
    show ?case
      using Cons.IH [OF counted_mark(1) [OF Cons.prems]] pmm_frame_trans [OF mark_frame(1) [of s f]]
      by (auto simp: free_set_mark)
  qed simp
  show "counted (fold pmm_mark_frame_free fs s) \<and> pmm_frame s (fold pmm_mark_frame_free fs s) \<and>
      free_set (fold pmm_mark_frame_free fs s) = free_set s \<union> (set fs \<inter> {f. f < pmm_total_frames_count s})"
    using assms
  proof (induction fs arbitrary: s)
    case (Cons f fs)
    show ?case
      using Cons.IH [OF counted_mark(2) [OF Cons.prems]] pmm_frame_trans [OF mark_frame(2) [of s f]]
      by (auto simp: free_set_mark pmm_frameD(1) [OF mark_frame(2)])
  qed simp
qed

text \<open>The frames that lie in a region as a whole, and those that share a byte with it.\<close>

definition frames_inside :: "nat \<Rightarrow> nat \<Rightarrow> u32 set" where
  "frames_inside a n = {f. a \<le> 4096 * unat f \<and> 4096 * (unat f + 1) \<le> a + n}"

definition frames_touching :: "nat \<Rightarrow> nat \<Rightarrow> u32 set" where
  "frames_touching a n = {f. 0 < n \<and> a < 4096 * (unat f + 1) \<and> 4096 * unat f < a + n}"

lemma unat_frame: "unat (x div 0x1000 :: u32) = unat x div 4096"
  by (simp add: unat_div)

lemma unat_pmm_align_down: "unat (pmm_align_down_u32 v 0x1000) = unat v div 4096 * 4096"
  using unat_align_down [of v 12] by (simp add: align_down_word_def pmm_align_down_u32_def)

lemma unat_pmm_align_up:
  assumes "unat v \<le> 0xFFFFF000"
  shows "unat (pmm_align_up_u32 v 0x1000) = (unat v + 4095) div 4096 * 4096"
proof -
  have "unat (v + mask 12) = unat v + 4095"
    using assms by (subst unat_add_small) (simp_all add: mask_eq_exp_minus_1)
  then show ?thesis
    using unat_align_up [of v 12] by (simp add: align_up_word_def pmm_align_up_u32_def)
qed

text \<open>
  Releasing a region frees the frames inside it. The last frame below 4 GiB is out of reach: a
  region that ends there is cut to end one byte earlier.
\<close>

lemma release_region:
  assumes "counted s" "unat b \<le> 0xFFFFF000" "unat b + unat n \<le> 2 ^ 32"
  shows "counted (pmm_release_region b n s) \<and> pmm_frame s (pmm_release_region b n s) \<and>
    free_set (pmm_release_region b n s) =
      free_set s \<union> {f \<in> frames_inside (unat b) (unat n). f < pmm_total_frames_count s \<and> f \<noteq> 0xFFFFF}"
proof -
  define e where "e = (if b > UINT32_MAX - n then UINT32_MAX else b + n)"
  let ?st = "pmm_align_up_u32 b 0x1000" and ?en = "pmm_align_down_u32 e 0x1000"
  have e: "unat e = min (unat b + unat n) (2 ^ 32 - 1)" unfolding e_def by (rule unat_saturating_add)
  have st: "unat ?st = (unat b + 4095) div 4096 * 4096" by (rule unat_pmm_align_up [OF assms(2)])
  have en: "unat ?en = unat e div 4096 * 4096" by (rule unat_pmm_align_down)
  have fr: "f \<in> set (frame_range (?st div 0x1000) (?en div 0x1000)) \<longleftrightarrow>
      f \<in> frames_inside (unat b) (unat n) \<and> f \<noteq> 0xFFFFF" for f :: u32
  proof -
    have "f \<in> set (frame_range (?st div 0x1000) (?en div 0x1000)) \<longleftrightarrow>
        (unat b + 4095) div 4096 \<le> unat f \<and> unat f < unat e div 4096"
      by (simp add: set_frame_range word_le_nat_alt word_less_nat_alt unat_frame st en)
    also have "\<dots> \<longleftrightarrow> unat b \<le> 4096 * unat f \<and> 4096 * (unat f + 1) \<le> unat b + unat n \<and> unat f \<noteq> 0xFFFFF"
      unfolding e using assms(3) by (auto simp: min_def)
    finally show ?thesis by (simp add: frames_inside_def word_unat_eq_iff)
  qed
  show ?thesis
  proof (cases "n = 0 \<or> ?en \<le> ?st")
    case True
    then have "pmm_release_region b n s = s" by (auto simp: pmm_release_region_def Let_def e_def)
    moreover have "f \<notin> frames_inside (unat b) (unat n) \<or> f = 0xFFFFF" for f
    proof (cases "n = 0")
      case False
      then have "unat ?en \<le> unat ?st" using True by (simp add: word_le_nat_alt)
      then have "set (frame_range (?st div 0x1000) (?en div 0x1000)) = {}"
        by (auto simp: set_frame_range word_le_nat_alt word_less_nat_alt unat_frame)
      then show ?thesis using fr [of f] by auto
    qed (simp add: frames_inside_def)
    ultimately show ?thesis using assms(1) by auto
  next
    case False
    then have "pmm_release_region b n s = fold pmm_mark_frame_free (frame_range (?st div 0x1000) (?en div 0x1000)) s"
      by (auto simp: pmm_release_region_def Let_def e_def)
    then show ?thesis
      using fold_mark(2) [OF assms(1), of "frame_range (?st div 0x1000) (?en div 0x1000)"] fr by auto
  qed
qed

lemma reserve_region:
  assumes "counted s" "unat b + unat n \<le> 0xFFFFF000"
  shows "counted (pmm_reserve_region b n s) \<and> pmm_frame s (pmm_reserve_region b n s) \<and>
    free_set (pmm_reserve_region b n s) = free_set s - frames_touching (unat b) (unat n)"
proof (cases "n = 0")
  case False
  let ?e = "if b > UINT32_MAX - n then UINT32_MAX else b + n"
  let ?t = "pmm_total_frames_count s"
  let ?en = "pmm_align_up_u32 ?e 0x1000 div 0x1000"
  let ?en' = "if ?en > ?t then ?t else ?en"
  have e: "unat ?e = unat b + unat n"
    using unat_saturating_add [of n b] assms(2) by (simp add: min_def)
  then have en: "unat ?en = (unat b + unat n + 4095) div 4096"
    using unat_pmm_align_up [of ?e] assms(2) by (simp add: unat_frame)
  have "unat ?en' = min (unat ?en) (unat ?t)"
    by (simp add: word_less_nat_alt min_def)
  then have fr: "f \<in> set (frame_range (b div 0x1000) ?en') \<longleftrightarrow> f \<in> frames_touching (unat b) (unat n)"
    if "f < ?t" for f
    using that en False by (auto simp: set_frame_range word_le_nat_alt word_less_nat_alt unat_frame frames_touching_def unat_gt_0)
  have "free_set s - set (frame_range (b div 0x1000) ?en') = free_set s - frames_touching (unat b) (unat n)"
    using fr by (auto simp: free_set_def)
  moreover have "pmm_reserve_region b n s = fold pmm_mark_frame_used (frame_range (b div 0x1000) ?en') s"
    using False by (simp add: pmm_reserve_region_def Let_def)
  ultimately show ?thesis
    using fold_mark(1) [OF assms(1), of "frame_range (b div 0x1000) ?en'"] by simp
qed (simp add: pmm_reserve_region_def assms(1) frames_touching_def)

section \<open>Allocation and release\<close>

lemma pmm_search_Some:
  assumes "pmm_search a b s = Some f"
  shows "a \<le> f" "f < b" "\<not> pmm_frame_is_used f s" "\<And>g. a \<le> g \<Longrightarrow> g < f \<Longrightarrow> pmm_frame_is_used g s"
proof -
  from assms obtain i where i: "i < unat b - unat a" "f = word_of_nat (unat a + i)" "\<not> pmm_frame_is_used f s"
    "\<And>j. j < i \<Longrightarrow> pmm_frame_is_used (word_of_nat (unat a + j)) s"
    by (auto simp: pmm_search_def frame_range_def find_Some_iff)
  have f: "unat f = unat a + i"
    unfolding i(2) using i(1) u32_less [of b] by (simp only: unat_of_nat) simp
  show "a \<le> f" "f < b" "\<not> pmm_frame_is_used f s"
    using f i(1,3) by (auto simp: word_le_nat_alt word_less_nat_alt)
  fix g assume "a \<le> g" "g < f"
  then show "pmm_frame_is_used g s"
    using i(4) [of "unat g - unat a"] f by (simp add: word_le_nat_alt word_less_nat_alt less_diff_conv2)
qed

lemma pmm_search_None:
  "pmm_search a b s = None \<Longrightarrow> a \<le> g \<Longrightarrow> g < b \<Longrightarrow> pmm_frame_is_used g s"
  using set_frame_range [of a b] by (auto simp: pmm_search_def find_None_iff)

text \<open>The frame a search from \<open>n\<close> on that wraps around at the end finds.\<close>

definition next_fit :: "u32 \<Rightarrow> u32 set \<Rightarrow> u32 \<Rightarrow> bool" where
  "next_fit n A f \<longleftrightarrow> f \<in> A \<and>
     (if n \<le> f then (\<forall>g\<in>A. n \<le> g \<longrightarrow> f \<le> g) else (\<forall>g\<in>A. f \<le> g \<and> g < n))"

lemma pmm_take_inv:
  assumes "pmm_inv s" "f \<in> free_set s"
  shows "pmm_inv (snd (pmm_take f s))" "free_set (snd (pmm_take f s)) = free_set s - {f}"
    "pmm_ready (snd (pmm_take f s)) = pmm_ready s"
proof -
  let ?t = "pmm_mark_frame_used f s"
  have c: "counted ?t" using assms(1) by (intro counted_mark) (simp add: pmm_inv_def counted_def)
  have e: "free_set (?t\<lparr>pmm_next_search_frame := n\<rparr>) = free_set ?t" for n
    by (simp add: free_set_def pmm_frame_is_used_def)
  have "f + 1 \<le> pmm_total_frames_count s"
    using assms(2) by (auto simp: free_set_def inc_le)
  then show "pmm_inv (snd (pmm_take f s))"
    using c by (simp add: pmm_take_def pmm_inv_def counted_def e pmm_frameD [OF mark_frame(1)])
  show "free_set (snd (pmm_take f s)) = free_set s - {f}" "pmm_ready (snd (pmm_take f s)) = pmm_ready s"
    by (simp_all add: pmm_take_def e free_set_mark pmm_frameD [OF mark_frame(1)])
qed

lemma alloc_frame:
  assumes "pmm_inv s" "pmm_ready s"
  shows "if free_set s = {} then pmm_alloc_frame s = (0, s)
    else \<exists>f. next_fit (pmm_next_search_frame s) (free_set s) f \<and> pmm_alloc_frame s = pmm_take f s"
proof (cases "free_set s = {}")
  case True
  then have "pmm_free_frames_count s = 0" using assms(1) by (simp add: pmm_inv_def unat_eq_0)
  then show ?thesis using True by (simp add: pmm_alloc_frame_def)
next
  case False
  then have "card (free_set s) \<noteq> 0" by simp
  then have c: "pmm_free_frames_count s \<noteq> 0" using assms(1) by (auto simp: pmm_inv_def)
  let ?n = "pmm_next_search_frame s" and ?t = "pmm_total_frames_count s"
  show ?thesis
  proof (cases "pmm_search ?n ?t s")
    case (Some f)
    note r = pmm_search_Some [OF Some]
    have "next_fit ?n (free_set s) f"
      using r by (auto simp: next_fit_def free_set_def not_less [symmetric])
    then show ?thesis using False c assms(2) Some by (simp add: pmm_alloc_frame_def) blast
  next
    case None
    note hi = pmm_search_None [OF None]
    then have lo: "g < ?n" if "g \<in> free_set s" for g using that by (force simp: free_set_def not_less [symmetric])
    show ?thesis
    proof (cases "pmm_search 0 ?n s")
      case (Some f)
      note r = pmm_search_Some [OF Some]
      have "f < ?t" using r(2) assms(1) by (auto simp: pmm_inv_def)
      then have "next_fit ?n (free_set s) f"
        using r lo by (auto simp: next_fit_def free_set_def not_less [symmetric])
      then show ?thesis using False c assms(2) None Some by (simp add: pmm_alloc_frame_def) blast
    next
      case none: None
      then have "free_set s = {}"
        using pmm_search_None [OF none] lo by (auto simp: free_set_def)
      then show ?thesis using False by simp
    qed
  qed
qed

lemma unat_frame_address:
  assumes "pmm_inv s" "f < pmm_total_frames_count s"
  shows "unat (f * 0x1000) = 4096 * unat f"
  using assms by (simp add: pmm_inv_def word_less_nat_alt unat_word_ariths)

lemma free_frame:
  assumes "pmm_inv s"
  shows "pmm_inv (pmm_free_frame p s)" "pmm_ready (pmm_free_frame p s) = pmm_ready s"
    "free_set (pmm_free_frame p s) = free_set s \<union>
       {f. pmm_ready s \<and> f < pmm_total_frames_count s \<and> unat p = 4096 * unat f}"
proof -
  let ?f = "p div 0x1000" and ?t = "pmm_mark_frame_free (p div 0x1000) s"
  have a: "p AND 0xFFF = 0 \<longleftrightarrow> unat p mod 4096 = 0"
    using and_mask_eq_0_iff [of p 12] by (simp add: mask_eq_exp_minus_1)
  have f: "unat p = 4096 * unat f \<longleftrightarrow> unat p mod 4096 = 0 \<and> f = ?f" for f
    by (auto simp: word_unat_eq_iff unat_div)
  have e: "free_set (?t\<lparr>pmm_next_search_frame := n\<rparr>) = free_set ?t" for n
    by (simp add: free_set_def pmm_frame_is_used_def)
  have c: "counted ?t" using assms by (intro counted_mark) (simp add: pmm_inv_def counted_def)
  note d = pmm_frameD [OF mark_frame(2) [of s ?f]]
  have *: "pmm_inv (pmm_free_frame p s) \<and> pmm_ready (pmm_free_frame p s) = pmm_ready s \<and>
    free_set (pmm_free_frame p s) = free_set s \<union>
       {f. pmm_ready s \<and> f < pmm_total_frames_count s \<and> unat p = 4096 * unat f}"
  proof (cases "\<not> pmm_ready s \<or> unat p mod 4096 \<noteq> 0 \<or> \<not> ?f < pmm_total_frames_count s")
    case True
    then have "pmm_free_frame p s = s" by (auto simp: pmm_free_frame_def a Let_def)
    then show ?thesis using True assms f by auto
  next
    case False
    then have "pmm_free_frame p s =
        (if ?f < pmm_next_search_frame s then ?t\<lparr>pmm_next_search_frame := ?f\<rparr> else ?t)"
      by (auto simp: pmm_free_frame_def a Let_def d(4))
    then show ?thesis
      using False c assms f by (auto simp: pmm_inv_def counted_def e d free_set_mark)
  qed
  then show "pmm_inv (pmm_free_frame p s)" "pmm_ready (pmm_free_frame p s) = pmm_ready s"
    "free_set (pmm_free_frame p s) = free_set s \<union>
       {f. pmm_ready s \<and> f < pmm_total_frames_count s \<and> unat p = 4096 * unat f}"
    by blast+
qed

end
