(* ===== verification/Pmm_Props.thy ===== *)
theory Pmm_Props
  imports Pmm_Inv Kheap_Props
begin

text \<open>
  Properties of the physical frame allocator: what initialisation makes free, that no frame is
  handed out twice or taken from the kernel, and that every free frame is eventually handed out.
\<close>

section \<open>Initialisation\<close>

lemma fill_bitmap:
  "i < unat (pmm_bitmap_size_bytes s) \<Longrightarrow> mem (pmm_fill_bitmap s) (pmm_bitmap s + word_of_nat i) = 0xFF"
  "pmm_frame s (pmm_fill_bitmap s)" "pmm_free_frames_count (pmm_fill_bitmap s) = pmm_free_frames_count s"
proof -
  let ?w = "\<lambda>i s :: 'a pmm_globals_scheme. s\<lparr>mem := (mem s)(pmm_bitmap s + word_of_nat i := 0xFF)\<rparr>"
  have *: "pmm_frame s (fold ?w [0..<n] s) \<and> pmm_free_frames_count (fold ?w [0..<n] s) = pmm_free_frames_count s \<and>
    pmm_bitmap (fold ?w [0..<n] s) = pmm_bitmap s \<and>
    (\<forall>i<n. mem (fold ?w [0..<n] s) (pmm_bitmap s + word_of_nat i) = 0xFF)" for n
    by (induction n) (auto simp: pmm_frame_def less_Suc_eq)
  show "mem (pmm_fill_bitmap s) (pmm_bitmap s + word_of_nat i) = 0xFF" if "i < unat (pmm_bitmap_size_bytes s)"
    using * [of "unat (pmm_bitmap_size_bytes s)"] that by (simp add: pmm_fill_bitmap_def)
  show "pmm_frame s (pmm_fill_bitmap s)" "pmm_free_frames_count (pmm_fill_bitmap s) = pmm_free_frames_count s"
    using * [of "unat (pmm_bitmap_size_bytes s)"] by (simp_all add: pmm_fill_bitmap_def)
qed

lemma filled_counted:
  assumes "unat (pmm_total_frames_count s) \<le> 2 ^ 20" "pmm_free_frames_count s = 0"
    and "unat (pmm_bitmap_size_bytes s) = (unat (pmm_total_frames_count s) + 7) div 8"
  shows "counted (pmm_fill_bitmap s)" "free_set (pmm_fill_bitmap s) = {}"
proof -
  note d = pmm_frameD [OF fill_bitmap(2) [of s]]
  have "pmm_frame_is_used f (pmm_fill_bitmap s)" if "f < pmm_total_frames_count s" for f
  proof -
    have i: "pmm_bitmap_index f = word_of_nat (unat f div 8)"
      using u32_less [of f] by (simp add: word_unat_eq_iff pmm_bitmap_index_def drop_bit_eq_div unat_div unat_of_nat)
    have "unat f div 8 < unat (pmm_bitmap_size_bytes s)"
      unfolding assms(3) using that by (simp add: word_less_nat_alt)
    from fill_bitmap(1) [OF this] show ?thesis
      using frame_bit_less [of f] bit_mask_iff [of 8 "frame_bit f", where 'a = u8]
      by (simp add: frame_used_bit d i mask_eq_exp_minus_1)
  qed
  then show "free_set (pmm_fill_bitmap s) = {}" by (auto simp: free_set_def d)
  then show "counted (pmm_fill_bitmap s)" using assms(1,2) by (simp add: counted_def d fill_bitmap(3))
qed

definition available_frames :: "(nat \<times> nat \<times> u32) list \<Rightarrow> u32 set" where
  "available_frames rs = {f. f \<noteq> 0xFFFFF \<and> (\<exists>(a, n)\<in>set (available rs). f \<in> frames_inside a n)}"

definition ranges_low :: "(nat \<times> nat \<times> u32) list \<Rightarrow> bool" where
  "ranges_low rs \<longleftrightarrow> (\<forall>(a, n)\<in>set (available rs). a \<le> 0xFFFFF000 \<and> a + n \<le> 2 ^ 32)"

lemma available_frames_Cons:
  "available_frames ((a, n, t) # rs) =
     (if t = 1 then {f \<in> frames_inside a n. f \<noteq> 0xFFFFF} else {}) \<union> available_frames rs"
  "ranges_low ((a, n, t) # rs) \<longleftrightarrow> (t = 1 \<longrightarrow> a \<le> 0xFFFFF000 \<and> a + n \<le> 2 ^ 32) \<and> ranges_low rs"
  by (auto simp: available_frames_def available_def ranges_low_def)

lemma boot_table_frame: "pmm_frame s t \<Longrightarrow> boot_table t = boot_table s"
  by (simp add: boot_table_def pmm_frameD)

lemma release_ranges:
  assumes "counted s" "bootinfo_ready s" "ranges_low (drop i (boot_table s))"
    and "bootinfo_memory_range_count_value s \<le> length (bootinfo_memory_ranges s)"
  shows "counted (pmm_release_ranges i s) \<and> pmm_frame s (pmm_release_ranges i s) \<and>
    free_set (pmm_release_ranges i s) =
      free_set s \<union> {f \<in> available_frames (drop i (boot_table s)). f < pmm_total_frames_count s}"
  using assms
proof (induction i s rule: pmm_release_ranges.induct)
  case (1 i s)
  let ?n = "bootinfo_memory_range_count_value s"
  show ?case
  proof (cases "i < ?n")
    case False
    then have "drop i (boot_table s) = []" by (simp add: boot_table_def)
    moreover have "pmm_release_ranges i s = s"
      using False by (subst pmm_release_ranges.simps) (simp add: bootinfo_memory_range_at_def)
    ultimately show ?thesis using 1(2) by (simp add: available_frames_def available_def)
  next
    case True
    define r where "r = bootinfo_memory_ranges s ! i"
    define t where "t = (if br_type r = 1 then pmm_release_region (br_base_addr r) (br_length r) s else s)"
    have at: "bootinfo_memory_range_at i s = Some r"
      using True 1(3) by (simp add: bootinfo_memory_range_at_def r_def)
    have step: "pmm_release_ranges i s = pmm_release_ranges (i + 1) t"
      by (subst pmm_release_ranges.simps) (simp add: at t_def)
    have tab: "drop i (boot_table s) = (unat (br_base_addr r), unat (br_length r), br_type r) # drop (i + 1) (boot_table s)"
      using True 1(5) by (subst Cons_nth_drop_Suc [symmetric]) (simp_all add: boot_table_def r_def)
    have rel: "counted t \<and> pmm_frame s t \<and> free_set t = free_set s \<union>
        (if br_type r = 1 then {f \<in> frames_inside (unat (br_base_addr r)) (unat (br_length r)).
           f < pmm_total_frames_count s \<and> f \<noteq> 0xFFFFF} else {})"
      using release_region [OF 1(2), of "br_base_addr r" "br_length r"] 1(2,4) 
      by (simp add: t_def tab available_frames_Cons)
    note d = pmm_frameD [of s t] boot_table_frame [of s t]
    have "counted (pmm_release_ranges (i + 1) t) \<and> pmm_frame t (pmm_release_ranges (i + 1) t) \<and>
      free_set (pmm_release_ranges (i + 1) t) =
        free_set t \<union> {f \<in> available_frames (drop (i + 1) (boot_table t)). f < pmm_total_frames_count t}"
      using 1(1) [OF at] rel 1(3-5) d by (simp add: t_def [symmetric] tab available_frames_Cons)
    then show ?thesis
      unfolding step using rel d pmm_frame_trans [of s t] by (auto simp: tab available_frames_Cons)
  qed
qed

definition page_up :: "nat \<Rightarrow> nat" where
  "page_up n = (n + 4095) div 4096 * 4096"

lemma page_up_bounds: "n \<le> page_up n" "n \<le> 4096 * m \<Longrightarrow> page_up n \<le> 4096 * m"
proof -
  show "n \<le> page_up n"
    using div_mult_mod_eq [of "n + 4095" 4096] mod_less_divisor [of 4096 "n + 4095"]
    unfolding page_up_def by linarith
  assume "n \<le> 4096 * m"
  then have "(n + 4095) div 4096 \<le> (4096 * m + 4095) div 4096" by (intro div_le_mono) simp
  also have "\<dots> = m" by simp
  finally show "page_up n \<le> 4096 * m" by (simp add: page_up_def)
qed

text \<open>The frames that initialisation keeps: low memory, the kernel image, the heap and the boot information.\<close>

definition reserved_frames :: "u32 \<Rightarrow> 'a pmm_globals_scheme \<Rightarrow> u32 set" where
  "reserved_frames kernel_end s =
     frames_touching 0 (page_up (unat kernel_end)) \<union>
     frames_touching (unat (heap_start_ptr s)) (unat (heap_end_ptr s) - unat (heap_start_ptr s)) \<union>
     frames_touching (unat (bootinfo_info_address s)) (unat (bootinfo_info_size s))"

text \<open>The regions that initialisation reserves end below the last frame.\<close>

definition reserved_low :: "u32 \<Rightarrow> 'a pmm_globals_scheme \<Rightarrow> bool" where
  "reserved_low kernel_end s \<longleftrightarrow> 0x100000 \<le> unat kernel_end \<and> unat kernel_end \<le> 0xFFFFF000 \<and>
     unat (heap_end_ptr s) \<le> 0xFFFFF000 \<and>
     unat (bootinfo_info_address s) + unat (bootinfo_info_size s) \<le> 0xFFFFF000"

lemma frames_touching_mono:
  "a' \<le> a \<Longrightarrow> a + n \<le> a' + n' \<Longrightarrow> frames_touching a n \<subseteq> frames_touching a' n'"
  by (auto simp: frames_touching_def)

lemma frames_touching_join:
  assumes "0 < n" "4096 dvd a + n"
  shows "frames_touching a n \<union> frames_touching (a + n) m = frames_touching a (n + m)"
proof -
  from assms(2) obtain q where q: "a + n = 4096 * q" by (elim dvdE)
  have "4096 * unat f < a + n \<or> a + n < 4096 * (unat f + 1)" for f :: u32
    unfolding q by (cases "unat f < q") auto
  then show ?thesis using assms(1) by (fastforce simp: frames_touching_def)
qed

lemma reserve_all:
  assumes "counted s" "reserved_low kernel_end s" "heap_inv s"
    and "heap_live s (pmm_bitmap s) = Some j" "unat (pmm_bitmap_size_bytes s) \<le> j"
  shows "counted (pmm_reserve_all kernel_end s) \<and> pmm_frame s (pmm_reserve_all kernel_end s) \<and>
    free_set (pmm_reserve_all kernel_end s) = free_set s - reserved_frames kernel_end s"
proof -
  let ?ke = "pmm_align_up_u32 kernel_end 0x1000 - 0x100000" and ?hs = "heap_start_ptr s" and ?he = "heap_end_ptr s"
  have low: "0x100000 \<le> unat kernel_end" "unat kernel_end \<le> 0xFFFFF000" "unat ?he \<le> 0xFFFFF000"
    "unat (bootinfo_info_address s) + unat (bootinfo_info_size s) \<le> 0xFFFFF000"
    using assms(2) by (simp_all add: reserved_low_def)
  have up: "unat (pmm_align_up_u32 kernel_end 0x1000) = page_up (unat kernel_end)"
    using unat_pmm_align_up [OF low(2)] by (simp add: page_up_def)
  have pu: "0x100000 \<le> page_up (unat kernel_end)" "page_up (unat kernel_end) \<le> 0xFFFFF000"
    using low(1,2) page_up_bounds(1) [of "unat kernel_end"] page_up_bounds(2) [of "unat kernel_end" "0xFFFFF"]
    by simp_all
  then have ke: "unat ?ke = page_up (unat kernel_end) - 0x100000"
    using up by (simp add: unat_sub word_le_nat_alt)
  obtain q where "unat (pmm_bitmap s) = q + 32" "(q, j, False) \<in> set (heap_blocks s)"
    using heap_live_Some [OF assms(3)] assms(4) by blast
  then have b: "unat ?hs \<le> unat (pmm_bitmap s)" "unat (pmm_bitmap s) + j \<le> unat ?he"
    using tiled_bounds [OF heap_inv_tiled [OF assms(3)]] by fastforce+
  then have h: "unat (?he - ?hs) = unat ?he - unat ?hs" by (simp add: unat_sub word_le_nat_alt)
  define s1 where "s1 = pmm_reserve_region 0 0x100000 s"
  define s2 where "s2 = pmm_reserve_region 0x100000 ?ke s1"
  define s3 where "s3 = pmm_reserve_region ?hs (?he - ?hs) s2"
  define s4 where "s4 = pmm_reserve_region (bootinfo_info_address s) (bootinfo_info_size s) s3"
  define s5 where "s5 = pmm_reserve_region (pmm_bitmap s) (pmm_bitmap_size_bytes s) s4"
  have 1: "counted s1 \<and> pmm_frame s s1 \<and> free_set s1 = free_set s - frames_touching 0 0x100000"
    using reserve_region [OF assms(1), of 0 "0x100000"] by (simp add: s1_def)
  have 2: "counted s2 \<and> pmm_frame s1 s2 \<and> free_set s2 = free_set s1 - frames_touching 0x100000 (unat ?ke)"
    using reserve_region [of s1 "0x100000" ?ke] 1 ke pu by (simp add: s2_def)
  have 3: "counted s3 \<and> pmm_frame s2 s3 \<and> free_set s3 = free_set s2 - frames_touching (unat ?hs) (unat ?he - unat ?hs)"
    using reserve_region [of s2 ?hs "?he - ?hs"] 2 h b low(3) by (simp add: s3_def)
  have 4: "counted s4 \<and> pmm_frame s3 s4 \<and> free_set s4 =
      free_set s3 - frames_touching (unat (bootinfo_info_address s)) (unat (bootinfo_info_size s))"
    using reserve_region [of s3 "bootinfo_info_address s" "bootinfo_info_size s"] 3 low(4) by (simp add: s4_def)
  have 5: "counted s5 \<and> pmm_frame s4 s5 \<and> free_set s5 =
      free_set s4 - frames_touching (unat (pmm_bitmap s)) (unat (pmm_bitmap_size_bytes s))"
    using reserve_region [of s4 "pmm_bitmap s" "pmm_bitmap_size_bytes s"] 4 b low(3) assms(5) by (simp add: s5_def)
  have f2: "pmm_frame s s2" using 1 2 pmm_frame_trans [of s s1 s2] by simp
  then have f3: "pmm_frame s s3" using 3 pmm_frame_trans [of s s2 s3] by simp
  then have f4: "pmm_frame s s4" using 4 pmm_frame_trans [of s s3 s4] by simp
  then have f5: "pmm_frame s s5" using 5 pmm_frame_trans [of s s4 s5] by simp
  have e: "pmm_reserve_all kernel_end s = s5"
    unfolding pmm_reserve_all_def Let_def s1_def [symmetric] heap_start_address_def heap_end_address_def
      bootinfo_multiboot_info_address_def bootinfo_multiboot_info_size_def
    by (simp add: s1_def [symmetric] s2_def [symmetric] pmm_frameD [OF f2] s3_def [symmetric] pmm_frameD [OF f3]
        s4_def [symmetric] pmm_frameD [OF f4] s5_def [symmetric])
  have "frames_touching 0 0x100000 \<union> frames_touching 0x100000 (unat ?ke) = frames_touching 0 (page_up (unat kernel_end))"
    using frames_touching_join [of "0x100000" 0 "unat ?ke"] unfolding ke using pu by simp
  moreover have "frames_touching (unat (pmm_bitmap s)) (unat (pmm_bitmap_size_bytes s)) \<subseteq>
      frames_touching (unat ?hs) (unat ?he - unat ?hs)"
    using b assms(5) by (intro frames_touching_mono) auto
  ultimately have "free_set s5 = free_set s - reserved_frames kernel_end s"
    using 1 2 3 4 5 unfolding reserved_frames_def by blast
  then show ?thesis using e 5 f5 by simp
qed

lemma pmm_fields_more:
  assumes "heap_globals.more t = heap_globals.more s"
  shows "pmm_bitmap_size_bytes t = pmm_bitmap_size_bytes s" "pmm_total_frames_count t = pmm_total_frames_count s"
    "pmm_free_frames_count t = pmm_free_frames_count s" "pmm_next_search_frame t = pmm_next_search_frame s"
    "bootinfo_ready t = bootinfo_ready s" "bootinfo_memory_ranges t = bootinfo_memory_ranges s"
    "bootinfo_memory_range_count_value t = bootinfo_memory_range_count_value s"
    "bootinfo_info_address t = bootinfo_info_address s" "bootinfo_info_size t = bootinfo_info_size s"
    "bootinfo_usable_memory_bytes_value t = bootinfo_usable_memory_bytes_value s"
    "bootinfo_highest_usable_address_value t = bootinfo_highest_usable_address_value s"
    "pmm_globals.more t = pmm_globals.more s"
  using assms by (cases s; cases t; simp)+

text \<open>The state with the new bitmap pointer, before the bitmap is filled.\<close>

lemma init_tail:
  assumes "heap_inv s" "bootinfo_ready s" "ranges_low (boot_table s)" "reserved_low kernel_end s"
    and "bootinfo_memory_range_count_value s \<le> length (bootinfo_memory_ranges s)"
    and "unat (pmm_total_frames_count s) \<le> 2 ^ 20" "pmm_free_frames_count s = 0" "pmm_next_search_frame s = 0"
    and "unat (pmm_bitmap_size_bytes s) = (unat (pmm_total_frames_count s) + 7) div 8"
    and "heap_live s (pmm_bitmap s) = Some j" "unat (pmm_bitmap_size_bytes s) \<le> j"
  defines "t \<equiv> pmm_reserve_all kernel_end (pmm_release_ranges 0 (pmm_fill_bitmap s))"
  shows "pmm_inv t" "heap_inv t" "pmm_total_frames_count t = pmm_total_frames_count s"
    "free_set t = {f \<in> available_frames (boot_table s). f < pmm_total_frames_count s} - reserved_frames kernel_end s"
    "pmm_frame s t"
proof -
  let ?f = "pmm_fill_bitmap s" and ?r = "pmm_release_ranges 0 (pmm_fill_bitmap s)"
  note f = filled_counted [OF assms(6,7,9)] fill_bitmap(2) [of s]
  note fd = pmm_frameD [OF f(3)] boot_table_frame [OF f(3)]
  have r: "counted ?r" "pmm_frame ?f ?r"
    "free_set ?r = {f \<in> available_frames (boot_table s). f < pmm_total_frames_count s}"
    using release_ranges [OF f(1), of 0] f(2) assms(2,3,5) by (simp_all add: fd)
  have sr: "pmm_frame s ?r" by (rule pmm_frame_trans [OF f(3) r(2)])
  note rd = pmm_frameD [OF sr] pmm_frame_heap [OF sr]
  have e: "counted t" "pmm_frame ?r t" "free_set t = free_set ?r - reserved_frames kernel_end s"
    using reserve_all [OF r(1), of kernel_end j] assms(1,4,10,11)
    by (simp_all add: t_def rd reserved_low_def reserved_frames_def)
  have st: "pmm_frame s t" by (rule pmm_frame_trans [OF sr e(2)])
  then show "pmm_inv t" "heap_inv t" "pmm_total_frames_count t = pmm_total_frames_count s"
    "free_set t = {f \<in> available_frames (boot_table s). f < pmm_total_frames_count s} - reserved_frames kernel_end s"
    using e(1,3) r(3) assms(1,8) pmm_frameD [OF st] pmm_frame_heap [OF st]
    by (simp_all add: pmm_inv_def counted_def)
  show "pmm_frame s t" by (rule st)
qed

lemma frames_up_to:
  assumes "unat x < 0xFFFFF000 \<or> unat x = 0xFFFFFFFF"
  shows "unat (pmm_frames_up_to x) = (unat x + 4096) div 4096"
proof (cases "x = UINT32_MAX")
  case False
  then have x: "unat x < 0xFFFFF000" using assms by (auto simp: word_unat_eq_iff)
  then have "unat (x + 1) = unat x + 1" by (simp add: unat_word_ariths)
  then show ?thesis using False x unat_pmm_align_up [of "x + 1"] by (simp add: pmm_frames_up_to_def unat_frame)
qed (simp add: pmm_frames_up_to_def)

lemma init_frees:
  assumes "heap_inv s" "bootinfo_wf s" "bootinfo_ready s" "ranges_low (boot_table s)" "reserved_low kernel_end s"
    and h: "0xFFF \<le> h" "h < 0xFFFFF000 \<or> h = 0xFFFFFFFF" "h = unat (bootinfo_highest_usable_address s)"
    and room: "(a, k, True) \<in> set (heap_blocks s)" "round16 (((h + 4096) div 4096 + 7) div 8) \<le> k"
  shows "\<exists>s'. pmm_init kernel_end s = Some s' \<and> pmm_ready s' \<and> pmm_inv s' \<and> heap_inv s' \<and>
    unat (pmm_total_frames s') = (h + 4096) div 4096 \<and>
    free_set s' = {f \<in> available_frames (boot_table s). f < pmm_total_frames s'} - reserved_frames kernel_end s \<and>
    heap_start_ptr s' = heap_start_ptr s \<and> heap_end_ptr s' = heap_end_ptr s \<and>
    heap_blocks s' = snd (the (spec_alloc (round16 (((h + 4096) div 4096 + 7) div 8)) (heap_blocks s))) \<and>
    (\<exists>j. heap_live s' (pmm_bitmap s') = Some j \<and> (unat (pmm_total_frames s') + 7) div 8 \<le> j) \<and>
    bootinfo_ready s' = bootinfo_ready s \<and> bootinfo_info_address s' = bootinfo_info_address s \<and>
    bootinfo_info_size s' = bootinfo_info_size s \<and> pmm_globals.more s' = pmm_globals.more s"
proof -
  let ?H = "bootinfo_highest_usable_address s"
  define total where "total = pmm_frames_up_to ?H"
  have t: "unat total = (h + 4096) div 4096"
    using frames_up_to [of ?H] h(2,3) by (simp add: total_def)
  have tb: "unat total \<le> 2 ^ 20" using t h(2) by auto
  then have n: "unat ((total + 7) div 8) = (unat total + 7) div 8"
    by (simp add: unat_div unat_word_ariths)
  define s0 where "s0 = s\<lparr>pmm_bitmap := 0, pmm_bitmap_size_bytes := 0, pmm_total_frames_count := 0,
     pmm_free_frames_count := 0, pmm_next_search_frame := 0, pmm_ready := False\<rparr>\<lparr>
     pmm_total_frames_count := total, pmm_bitmap_size_bytes := (total + 7) div 8\<rparr>"
  have s0: "heap_inv s0" "heap_blocks s0 = heap_blocks s"
    using heap_inv_same(1,2) [of s0 s] assms(1) by (simp_all add: s0_def)
  have nz: "(total + 7) div 8 \<noteq> 0" "unat ((total + 7) div 8) \<le> 0xFFFFFFF0"
    using n t h(1) tb by (auto simp: word_unat_eq_iff)
  from kcalloc_succeeds [OF s0(1), of a k "(total + 7) div 8" 1] room n t nz obtain p s1 j where k: "kcalloc ((total + 7) div 8) 1 s0 = Some (p, s1)"
    "p \<noteq> 0" "heap_inv s1" "heap_region s1 = heap_region s0" "heap_globals.more s1 = heap_globals.more s0"
    "unat ((total + 7) div 8) \<le> j" "heap_live s1 p = Some j"
    "heap_blocks s1 = snd (the (spec_alloc (round16 (unat ((total + 7) div 8))) (heap_blocks s)))"
    by (auto simp: s0(2))
  define s2 where "s2 = s1\<lparr>pmm_bitmap := p\<rparr>"
  have s2: "heap_inv s2" "heap_live s2 = heap_live s1" "heap_start_ptr s2 = heap_start_ptr s" "heap_end_ptr s2 = heap_end_ptr s"
    "heap_blocks s2 = heap_blocks s1"
    using heap_inv_same [of s2 s1] k(3,4) by (simp_all add: s2_def heap_region_def s0_def)
  note m = pmm_fields_more [OF k(5)]
  have sim: "bootinfo_ready s2" "boot_table s2 = boot_table s" "reserved_low kernel_end s2"
    "reserved_frames kernel_end s2 = reserved_frames kernel_end s"
    "bootinfo_memory_range_count_value s2 \<le> length (bootinfo_memory_ranges s2)"
    using assms(2,3,5) s2 m by (simp_all add: s2_def s0_def boot_table_def reserved_low_def reserved_frames_def bootinfo_wf_def)
  have pm: "pmm_total_frames_count s2 = total" "pmm_free_frames_count s2 = 0" "pmm_next_search_frame s2 = 0"
    "pmm_bitmap_size_bytes s2 = (total + 7) div 8" "pmm_bitmap s2 = p"
    using m by (simp_all add: s2_def s0_def)
  let ?t = "pmm_reserve_all kernel_end (pmm_release_ranges 0 (pmm_fill_bitmap s2))"
  have tail: "pmm_inv ?t" "heap_inv ?t" "pmm_total_frames_count ?t = total"
    "free_set ?t = {f \<in> available_frames (boot_table s). f < total} - reserved_frames kernel_end s" "pmm_frame s2 ?t"
    using init_tail [OF s2(1) sim(1), of kernel_end j] sim pm n tb k(6,7) s2(2) assms(4) by simp_all
  have r: "heap_inv (?t\<lparr>pmm_ready := True\<rparr>) = heap_inv ?t" "heap_blocks (?t\<lparr>pmm_ready := True\<rparr>) = heap_blocks ?t"
    "heap_live (?t\<lparr>pmm_ready := True\<rparr>) = heap_live ?t" by (rule heap_inv_same; simp)+
  have u: "free_set (?t\<lparr>pmm_ready := True\<rparr>) = free_set ?t"
    by (simp add: free_set_def pmm_frame_is_used_def)
  have "\<not> ?H < 0xFFF" using h(1,3) by (simp add: word_less_nat_alt)
  moreover have "heap_ready s" using heap_physD(1) [OF heap_inv_phys [OF assms(1)]] .
  ultimately have e: "pmm_init kernel_end s = Some (?t\<lparr>pmm_ready := True\<rparr>)"
    using k(1,2) assms(3) 
    by (simp add: pmm_init_def Let_def bootinfo_is_valid_def heap_is_initialized_def
        bootinfo_highest_usable_address_def s2_def s0_def total_def cong: if_cong)
  have "heap_live ?t (pmm_bitmap ?t) = Some j" "(unat total + 7) div 8 \<le> j"
    using k(6,7) n s2(2) pm(5) pmm_frame_heap(3) [OF tail(5)] pmm_frameD(2) [OF tail(5)] by simp_all
  moreover have "heap_blocks ?t = snd (the (spec_alloc (round16 (((h + 4096) div 4096 + 7) div 8)) (heap_blocks s)))"
    using k(8) n t s2(5) pmm_frame_heap(2) [OF tail(5)] by simp
  moreover have "bootinfo_ready s2 = bootinfo_ready s" "bootinfo_info_address s2 = bootinfo_info_address s"
    "bootinfo_info_size s2 = bootinfo_info_size s" "pmm_globals.more s2 = pmm_globals.more s"
    using m by (simp_all add: s2_def s0_def)
  ultimately show ?thesis
    unfolding e using tail t s2 pmm_frameD [OF tail(5)] by (simp add: r u pmm_inv_def pmm_total_frames_def)
qed

section \<open>Sequences of calls\<close>

text \<open>
  Clients allocate frames and release frames they hold. \<open>held\<close> are the addresses handed out and not
  yet released.
\<close>

inductive pmm_run :: "'a pmm_globals_scheme \<Rightarrow> u32 set \<Rightarrow> 'a pmm_globals_scheme \<Rightarrow> bool"
  for s0 :: "'a pmm_globals_scheme" where
  start: "pmm_run s0 {} s0"
| alloc: "pmm_run s0 held s \<Longrightarrow> pmm_alloc_frame s = (p, s') \<Longrightarrow> pmm_run s0 (if p = 0 then held else insert p held) s'"
| release: "pmm_run s0 held s \<Longrightarrow> p \<in> held \<Longrightarrow> pmm_run s0 (held - {p}) (pmm_free_frame p s)"

primrec pmm_alloc_many :: "nat \<Rightarrow> 'a pmm_globals_scheme \<Rightarrow> u32 list \<times> 'a pmm_globals_scheme" where
  "pmm_alloc_many 0 s = ([], s)"
| "pmm_alloc_many (Suc n) s =
     (case pmm_alloc_frame s of (p, s1) \<Rightarrow> (case pmm_alloc_many n s1 of (ps, s2) \<Rightarrow> (p # ps, s2)))"

definition free_addresses :: "'a pmm_globals_scheme \<Rightarrow> u32 set" where
  "free_addresses s = (\<lambda>f. f * PMM_FRAME_SIZE) ` free_set s"

lemma frame_address_inj: "pmm_inv s \<Longrightarrow> inj_on (\<lambda>f. f * 0x1000) {f. f < pmm_total_frames_count s}"
  by (rule inj_onI) (auto simp: word_unat_eq_iff dest: arg_cong [where f = unat] simp: unat_frame_address)

lemma free_addresses_zero: "pmm_inv s \<Longrightarrow> 0 \<in> free_addresses s \<longleftrightarrow> 0 \<in> free_set s"
proof
  assume inv: "pmm_inv s" and "0 \<in> free_addresses s"
  then obtain f where f: "f \<in> free_set s" "f * 0x1000 = 0" by (auto simp: free_addresses_def)
  then have "f = 0" using unat_frame_address [OF inv, of f] by (simp add: free_set_def word_unat_eq_iff)
  then show "0 \<in> free_set s" using f by simp
qed (force simp: free_addresses_def)

lemma card_free_addresses: "pmm_inv s \<Longrightarrow> card (free_addresses s) = unat (pmm_free_frames s)"
  unfolding free_addresses_def
  by (subst card_image [OF inj_on_subset [OF frame_address_inj]])
    (auto simp: free_set_def pmm_inv_def pmm_free_frames_def)

text \<open>One allocation moves one address out of the free ones, and fails only when there is none.\<close>

lemma alloc_address:
  assumes "pmm_inv s" "pmm_ready s" "0 \<notin> free_set s" "pmm_alloc_frame s = (p, s')"
  shows "pmm_inv s'" "pmm_ready s'" "0 \<notin> free_set s'" "p = 0 \<longleftrightarrow> free_addresses s = {}"
    "p \<noteq> 0 \<Longrightarrow> p \<in> free_addresses s" "free_addresses s' = free_addresses s - {p}"
    "pmm_total_frames_count s' = pmm_total_frames_count s"
proof -
  have *: "pmm_inv s' \<and> pmm_ready s' \<and> 0 \<notin> free_set s' \<and> (p = 0 \<longleftrightarrow> free_addresses s = {}) \<and>
    (p \<noteq> 0 \<longrightarrow> p \<in> free_addresses s) \<and> free_addresses s' = free_addresses s - {p} \<and>
    pmm_total_frames_count s' = pmm_total_frames_count s"
  proof (cases "free_set s = {}")
    case True
    then show ?thesis using alloc_frame [OF assms(1,2)] assms by (simp add: free_addresses_def)
  next
    case False
    then obtain f where f: "f \<in> free_set s" "pmm_alloc_frame s = pmm_take f s"
      using alloc_frame [OF assms(1,2)] by (auto simp: next_fit_def)
    then have p: "p = f * 0x1000" "s' = snd (pmm_take f s)" using assms(4) by (simp_all add: pmm_take_def)
    note t = pmm_take_inv [OF assms(1) f(1)]
    have "free_addresses s' = free_addresses s - {p}"
      unfolding free_addresses_def p t(2)
      using inj_on_image_set_diff [OF frame_address_inj [OF assms(1)], of "free_set s" "{f}"] f(1)
      by (auto simp: free_set_def)
    moreover have "p \<in> free_addresses s" using f(1) p(1) by (simp add: free_addresses_def)
    moreover from this have "p \<noteq> 0" using assms(3) free_addresses_zero [OF assms(1)] by auto
    moreover have "pmm_total_frames_count s' = pmm_total_frames_count s"
      unfolding p by (simp add: pmm_take_def pmm_frameD(1) [OF mark_frame(1)])
    ultimately show ?thesis using t assms(2,3) unfolding p(2) [symmetric] by auto
  qed
  from * show "pmm_inv s'" "pmm_ready s'" "0 \<notin> free_set s'" "p = 0 \<longleftrightarrow> free_addresses s = {}"
    "p \<noteq> 0 \<Longrightarrow> p \<in> free_addresses s" "free_addresses s' = free_addresses s - {p}"
    "pmm_total_frames_count s' = pmm_total_frames_count s" by blast+
qed

lemma free_address:
  assumes "pmm_inv s" "p \<in> free_addresses s0" "free_addresses s0 \<subseteq> (\<lambda>f. f * 0x1000) ` {f. f < pmm_total_frames_count s}"
    "pmm_ready s"
  shows "free_addresses (pmm_free_frame p s) = insert p (free_addresses s)"
proof -
  obtain f where f: "f < pmm_total_frames_count s" "p = f * 0x1000" using assms(2,3) by auto
  have "{g. g < pmm_total_frames_count s \<and> unat p = 4096 * unat g} = {f}"
    using f unat_frame_address [OF assms(1) f(1)] by (auto simp: word_unat_eq_iff)
  then show ?thesis
    using free_frame(3) [OF assms(1), of p] assms(4) f(2) by (simp add: free_addresses_def)
qed

lemma pmm_free_frame_total: "pmm_total_frames_count (pmm_free_frame p s) = pmm_total_frames_count s"
  by (simp add: pmm_free_frame_def Let_def pmm_frameD(1) [OF mark_frame(2)])

definition frames_held :: "'a pmm_globals_scheme \<Rightarrow> u32 set \<Rightarrow> 'a pmm_globals_scheme \<Rightarrow> bool" where
  "frames_held s0 held s \<longleftrightarrow> pmm_inv s \<and> pmm_ready s \<and> 0 \<notin> free_set s \<and>
     pmm_total_frames_count s = pmm_total_frames_count s0 \<and>
     held \<inter> free_addresses s = {} \<and> held \<union> free_addresses s = free_addresses s0"

lemma pmm_run_held:
  assumes "pmm_run s0 held s" "pmm_inv s0" "pmm_ready s0" "0 \<notin> free_set s0"
  shows "frames_held s0 held s"
  using assms(1)
proof (induction rule: pmm_run.induct)
  case start
  then show ?case using assms(2-4) by (simp add: frames_held_def)
next
  case (alloc held s p s')
  then have h: "pmm_inv s" "pmm_ready s" "0 \<notin> free_set s" by (simp_all add: frames_held_def)
  note a = alloc_address [OF h alloc.hyps(2)]
  then show ?case using alloc.IH by (auto simp: frames_held_def)
next
  case (release held s p)
  then have h: "pmm_inv s" "pmm_ready s" "0 \<notin> free_set s" "p \<in> free_addresses s0" "p \<notin> free_addresses s"
    "pmm_total_frames_count s = pmm_total_frames_count s0" by (auto simp: frames_held_def)
  let ?t = "pmm_free_frame p s"
  have e: "free_addresses ?t = insert p (free_addresses s)"
    using h(1,2,4,6) by (intro free_address) (auto simp: free_addresses_def free_set_def)
  have "0 \<notin> free_addresses s0" using assms(2,4) free_addresses_zero by blast
  then have "0 \<notin> free_addresses ?t" using e h(3,4) free_addresses_zero [OF h(1)] by auto
  then have "0 \<notin> free_set ?t" using free_addresses_zero [OF free_frame(1) [OF h(1)]] by blast
  then show ?case
    using release.IH release.hyps(2) e h(5) free_frame(1,2) [OF h(1)] pmm_free_frame_total [of p s]
    by (auto simp: frames_held_def)
qed

lemma alloc_many:
  assumes "pmm_inv s" "pmm_ready s" "0 \<notin> free_set s" "pmm_alloc_many n s = (ps, s')" "n \<le> card (free_addresses s)"
  shows "distinct ps \<and> length ps = n \<and> set ps \<subseteq> free_addresses s \<and> pmm_inv s' \<and> pmm_ready s' \<and>
    0 \<notin> free_set s' \<and> free_addresses s' = free_addresses s - set ps"
  using assms
proof (induction n arbitrary: s ps)
  case (Suc n)
  obtain p t where p: "pmm_alloc_frame s = (p, t)" by force
  note a = alloc_address [OF Suc.prems(1-3) p]
  obtain qs where q: "pmm_alloc_many n t = (qs, s')" "ps = p # qs"
    using Suc.prems(4) p by (auto split: prod.splits)
  have fin: "finite (free_addresses s)" by (simp add: free_addresses_def)
  have "free_addresses s \<noteq> {}" using Suc.prems(5) by auto
  then have pin: "p \<in> free_addresses s" using a(4,5) by blast
  then have "n \<le> card (free_addresses t)" using Suc.prems(5) fin by (simp add: a(6))
  from Suc.IH [OF a(1-3) q(1) this] show ?case using pin a(6) q(2) by auto
qed simp

section \<open>The kernel at boot\<close>

text \<open>Three MiB of memory, the kernel up to 0x150000 and the heap behind it.\<close>

definition boot_pmm :: "'a \<Rightarrow> 'a pmm_globals_scheme" where
  "boot_pmm rest = heap_init 0x150000 (pmm_globals.extend (bootinfo_globals.extend
     ((boot_bootinfo (\<lambda>_. 0))\<lparr>bootinfo_ready := True, bootinfo_info_address := 0x9000, bootinfo_info_size := 0x100,
        bootinfo_memory_ranges := \<lparr>br_base_addr = 0, br_length = 0x300000, br_type = 1\<rparr> #
          replicate 63 \<lparr>br_base_addr = 0, br_length = 0, br_type = 0\<rparr>,
        bootinfo_memory_range_count_value := 1, bootinfo_usable_memory_bytes_value := 0x300000,
        bootinfo_highest_usable_address_value := 0x2FFFFF\<rparr>)
     (pmm_globals.fields 0 0 0 0 0 False)) rest)"

lemma boot_pmm_fields:
  "bootinfo_ready (boot_pmm rest)" "boot_table (boot_pmm rest) = [(0, 0x300000, 1)]" "bootinfo_wf (boot_pmm rest)"
  "bootinfo_highest_usable_address (boot_pmm rest) = 0x2FFFFF"
  "bootinfo_info_address (boot_pmm rest) = 0x9000" "bootinfo_info_size (boot_pmm rest) = 0x100"
proof -
  note m = pmm_fields_more [OF heap_init_fields(1)]
  show t: "boot_table (boot_pmm rest) = [(0, 0x300000, 1)]"
    by (simp add: boot_pmm_def boot_table_def m bootinfo_globals.defs pmm_globals.defs)
  show "bootinfo_ready (boot_pmm rest)" "bootinfo_highest_usable_address (boot_pmm rest) = 0x2FFFFF"
    "bootinfo_info_address (boot_pmm rest) = 0x9000" "bootinfo_info_size (boot_pmm rest) = 0x100"
    by (simp_all add: boot_pmm_def bootinfo_highest_usable_address_def m bootinfo_globals.defs pmm_globals.defs)
  have "bootinfo_memory_range_count_value (boot_pmm rest) = 1" "length (bootinfo_memory_ranges (boot_pmm rest)) = 64"
    "bootinfo_usable_memory_bytes_value (boot_pmm rest) = 0x300000" "bootinfo_highest_usable_address_value (boot_pmm rest) = 0x2FFFFF"
    by (simp_all add: boot_pmm_def m bootinfo_globals.defs pmm_globals.defs)
  then show "bootinfo_wf (boot_pmm rest)"
    by (simp add: bootinfo_wf_def t available_def TERMOB_BOOTINFO_MAX_MEMORY_RANGES_def)
qed

lemma boot_pmm_heap:
  "heap_start_ptr (boot_pmm rest) = 0x150000" "heap_end_ptr (boot_pmm rest) = 0x250000" "heap_inv (boot_pmm rest)"
  "heap_blocks (boot_pmm rest) = [(0x150000, 0xFFFE0, True)]"
  using heap_init_inv [of "0x150000"] unfolding boot_pmm_def
  by (simp_all add: heap_init_fields(2,3) heap_align_up_def round16_def)

lemma boot_pmm_low: "ranges_low (boot_table (boot_pmm rest))" "reserved_low 0x14F800 (boot_pmm rest)"
  by (simp_all add: boot_pmm_fields ranges_low_def available_def reserved_low_def boot_pmm_heap)

section \<open>Properties\<close>

text \<open>
  C14. Initialisation of the frame allocator on a valid heap with room for the bitmap and a well-formed
  memory map, all regions ending below the last frame: it returns, the allocator is ready and its
  count right, and exactly those frames are free that lie inside an available range and touch
  neither low memory and the kernel image, nor the heap, nor the boot information. The last frame
  below 4 GiB is never used.
\<close>

theorem pmm_init_frees_available:
  assumes "heap_inv s" "bootinfo_wf s" "bootinfo_is_valid s" "ranges_low (boot_table s)" "reserved_low kernel_end s"
    and "h = unat (bootinfo_highest_usable_address s)" "0xFFF \<le> h" "h < 0xFFFFF000 \<or> h = 0xFFFFFFFF"
    and "(a, k, True) \<in> set (heap_blocks s)" "round16 (((h + 4096) div 4096 + 7) div 8) \<le> k"
  shows "\<exists>s'. pmm_init kernel_end s = Some s' \<and> pmm_is_initialized s' \<and> pmm_inv s' \<and> heap_inv s' \<and>
    (\<forall>f. f < pmm_total_frames s' \<longrightarrow>
       (\<not> pmm_frame_is_used f s' \<longleftrightarrow> f \<in> available_frames (boot_table s) \<and> f \<notin> reserved_frames kernel_end s))"
proof -
  obtain s' where s': "pmm_init kernel_end s = Some s'" "pmm_ready s'" "pmm_inv s'" "heap_inv s'"
    "free_set s' = {f \<in> available_frames (boot_table s). f < pmm_total_frames s'} - reserved_frames kernel_end s"
    using init_frees [OF assms(1,2) _ assms(4,5,7,8,6,9,10)] assms(3) unfolding bootinfo_is_valid_def by blast
  have "\<not> pmm_frame_is_used f s' \<longleftrightarrow> f \<in> available_frames (boot_table s) \<and> f \<notin> reserved_frames kernel_end s"
    if "f < pmm_total_frames s'" for f
  proof -
    have "\<not> pmm_frame_is_used f s' \<longleftrightarrow> f \<in> free_set s'"
      using that by (simp add: free_set_def pmm_total_frames_def)
    then show ?thesis using that unfolding s'(5) by simp
  qed
  then show ?thesis using s'(1-4) unfolding pmm_is_initialized_def by blast
qed

theorem pmm_init_frees_available_witness:
  "\<exists>s'. pmm_init 0x14F800 (boot_pmm ()) = Some s' \<and> pmm_is_initialized s' \<and> pmm_inv s'"
  using pmm_init_frees_available [OF boot_pmm_heap(3) [of "()"] boot_pmm_fields(3) _ boot_pmm_low, of "0x2FFFFF" "0x150000" "0xFFFE0"]
  by (auto simp: bootinfo_is_valid_def boot_pmm_fields boot_pmm_heap round16_def)

lemma boot_pmm_ready: "\<exists>s'. pmm_init 0x14F800 (boot_pmm ()) = Some s' \<and> pmm_ready s' \<and> pmm_inv s' \<and> 0 \<notin> free_set s'"
proof -
  have "0 \<in> reserved_frames 0x14F800 (boot_pmm ())"
    by (simp add: reserved_frames_def frames_touching_def page_up_def)
  moreover have "(0x150000, 0xFFFE0, True) \<in> set (heap_blocks (boot_pmm ()))"
    "(0x2FFFFF :: nat) = unat (bootinfo_highest_usable_address (boot_pmm ()))"
    "round16 (((0x2FFFFF + 4096) div 4096 + 7) div 8) \<le> 0xFFFE0"
    by (simp_all add: boot_pmm_fields boot_pmm_heap round16_def)
  moreover have "(0xFFF :: nat) \<le> 0x2FFFFF" "(0x2FFFFF :: nat) < 0xFFFFF000 \<or> (0x2FFFFF :: nat) = 0xFFFFFFFF"
    by simp_all
  ultimately show ?thesis
    using init_frees [OF boot_pmm_heap(3) [of "()"] boot_pmm_fields(3,1) boot_pmm_low] by (metis (no_types, lifting) DiffD2)
qed

text \<open>
  C15. Frames are neither lost nor handed out twice: while clients allocate and release what they hold,
  the frames held and the free frames are disjoint and together are the frames that were free at
  the start, the count of free frames is exact, and the next frame handed out is not held.
\<close>

theorem pmm_conserves_frames:
  assumes "pmm_run s0 held s" "pmm_inv s0" "pmm_ready s0" "0 \<notin> free_set s0"
  shows "pmm_inv s \<and> held \<inter> free_addresses s = {} \<and> held \<union> free_addresses s = free_addresses s0 \<and>
    unat (pmm_free_frames s) + card held = unat (pmm_free_frames s0) \<and>
    (\<forall>p s'. pmm_alloc_frame s = (p, s') \<longrightarrow> p \<notin> held)"
proof -
  have h: "frames_held s0 held s" by (rule pmm_run_held [OF assms])
  then have i: "pmm_inv s" "pmm_ready s" "0 \<notin> free_set s" "held \<inter> free_addresses s = {}"
    "held \<union> free_addresses s = free_addresses s0" by (simp_all add: frames_held_def)
  have fin: "finite (free_addresses t)" for t :: "'a pmm_globals_scheme" by (simp add: free_addresses_def)
  then have "finite held" using i(5) by (metis finite_Un)
  then have c: "unat (pmm_free_frames s) + card held = unat (pmm_free_frames s0)"
    using card_Un_disjoint [OF _ fin i(4)] card_free_addresses [OF i(1)] card_free_addresses [OF assms(2)] i(5) by simp
  have z: "0 \<notin> held" using i(5) assms(4) free_addresses_zero [OF assms(2)] by auto
  have "p \<notin> held" if a: "pmm_alloc_frame s = (p, s')" for p s'
    using alloc_address(5) [OF i(1-3) a] z i(4) by auto
  then show ?thesis using i c by blast
qed

theorem pmm_conserves_frames_witness:
  "\<exists>s0. pmm_init 0x14F800 (boot_pmm ()) = Some s0 \<and>
     unat (pmm_free_frames (snd (pmm_alloc_frame s0))) + card (if fst (pmm_alloc_frame s0) = 0 then {} else {fst (pmm_alloc_frame s0)})
       = unat (pmm_free_frames s0)"
proof -
  obtain s0 where s0: "pmm_init 0x14F800 (boot_pmm ()) = Some s0" "pmm_ready s0" "pmm_inv s0" "0 \<notin> free_set s0"
    using boot_pmm_ready by blast
  have "pmm_run s0 (if fst (pmm_alloc_frame s0) = 0 then {} else {fst (pmm_alloc_frame s0)}) (snd (pmm_alloc_frame s0))"
    using pmm_run.alloc [OF pmm_run.start, of s0] by simp
  from pmm_conserves_frames [OF this s0(3,2,4)] s0(1) show ?thesis by blast
qed

text \<open>
  C16. Every free frame is handed out: on a state with \<open>n\<close> free frames, the next \<open>n\<close> calls of
  \<^verbatim>\<open>pmm_alloc_frame\<close> return the addresses of all of them, each once, wherever the search starts, and only
  then does a call fail.
\<close>

theorem pmm_alloc_exhausts:
  assumes "pmm_inv s" "pmm_ready s" "0 \<notin> free_set s" "pmm_alloc_many (unat (pmm_free_frames s)) s = (ps, s')"
  shows "distinct ps \<and> set ps = free_addresses s \<and> pmm_free_frames s' = 0 \<and> fst (pmm_alloc_frame s') = 0"
proof -
  let ?A = "free_addresses s"
  have c: "card ?A = unat (pmm_free_frames s)" by (rule card_free_addresses [OF assms(1)])
  note a = alloc_many [OF assms] 
  then have l: "distinct ps" "set ps \<subseteq> ?A" "card (set ps) = card ?A" "pmm_inv s'" "pmm_ready s'"
    "0 \<notin> free_set s'" "free_addresses s' = ?A - set ps" using c by (simp_all add: distinct_card)
  have "finite ?A" by (simp add: free_addresses_def)
  then have "set ps = ?A" using l(2,3) by (simp add: card_subset_eq)
  moreover from this have e: "free_addresses s' = {}" using l(7) by simp
  then have "pmm_free_frames s' = 0" using card_free_addresses [OF l(4)] by (simp add: unat_eq_0)
  moreover have "fst (pmm_alloc_frame s') = 0"
    using alloc_address(4) [OF l(4-6), of "fst (pmm_alloc_frame s')" "snd (pmm_alloc_frame s')"] e by simp
  ultimately show ?thesis using l(1) by blast
qed

theorem pmm_alloc_exhausts_witness:
  "\<exists>s0. pmm_init 0x14F800 (boot_pmm ()) = Some s0 \<and>
     set (fst (pmm_alloc_many (unat (pmm_free_frames s0)) s0)) = free_addresses s0"
proof -
  obtain s0 where s0: "pmm_init 0x14F800 (boot_pmm ()) = Some s0" "pmm_ready s0" "pmm_inv s0" "0 \<notin> free_set s0"
    using boot_pmm_ready by blast
  show ?thesis
    using pmm_alloc_exhausts [OF s0(3,2,4) surjective_pairing] s0(1) by blast
qed

text \<open>
  A range that starts inside the last page rounds up to address zero, so that releasing it makes
  every frame below free, whatever it holds.
\<close>

lemma pmm_release_wraps:
  assumes "counted s"
  shows "free_set (pmm_release_region 0xFFFFF800 0x700 s) = free_set s \<union> {f. f < pmm_total_frames_count s \<and> f < 0xFFFFF}"
proof -
  have "pmm_align_up_u32 0xFFFFF800 0x1000 = 0" "pmm_align_down_u32 0xFFFFFF00 0x1000 = 0xFFFFF000"
    by (simp_all add: pmm_align_up_u32_def pmm_align_down_u32_def)
  then have "pmm_release_region 0xFFFFF800 0x700 s = fold pmm_mark_frame_free (frame_range 0 0xFFFFF) s"
    by (simp add: pmm_release_region_def)
  then show ?thesis
    using fold_mark(2) [OF assms, of "frame_range 0 0xFFFFF"] by (auto simp: set_frame_range)
qed

text \<open>A region that ends in the last page is not reserved at all.\<close>

lemma pmm_reserve_wraps: "pmm_reserve_region 0xFFFE0000 0x1FF00 s = s"
proof -
  have "pmm_align_up_u32 0xFFFFFF00 0x1000 = 0" by (simp add: pmm_align_up_u32_def)
  then show ?thesis by (simp add: pmm_reserve_region_def frame_range_def)
qed

end
