(* ===== verification/Paging_Props.thy ===== *)
theory Paging_Props
  imports Paging Pmm_Props
begin

unbundle bit_operations_syntax

text \<open>
  What the page tables mean: the walk that the processor makes over them, and that after
  initialisation it takes every address below the limit to itself and faults on every other one.
\<close>

section \<open>Words of a page\<close>

definition page_of :: "u32 \<Rightarrow> u32" where
  "page_of a = a div 0x1000"

definition word_at :: "u32 \<Rightarrow> u32 \<Rightarrow> u32" where
  "word_at f i = f * 0x1000 + 4 * i"

lemma unat_word_at:
  assumes "unat f < 2 ^ 20" "unat i < 1024"
  shows "unat (word_at f i) = 4096 * unat f + 4 * unat i"
proof -
  have "unat (f * 0x1000) = 4096 * unat f" "unat (4 * i) = 4 * unat i"
    using assms by (simp_all add: unat_word_ariths)
  then show ?thesis using assms unfolding word_at_def by (subst unat_add_small) simp_all
qed

lemma page_quarters:
  assumes "i < 1024"
  shows "x div 4 = (4096 * f + 4 * i) div (4 :: nat) \<Longrightarrow> x div 4096 = f"
    "(4096 * f + 4 * i) mod 4 = 0"
proof -
  have q: "(4096 * f + 4 * i) div 4 = i + 1024 * f" by simp
  show "x div 4096 = f" if "x div 4 = (4096 * f + 4 * i) div 4"
    using that assms div_mult2_eq [of x 4 1024] unfolding q by simp
  show "(4096 * f + 4 * i) mod 4 = 0" by simp
qed

lemma page_of_word_at:
  assumes "unat f < 2 ^ 20" "unat i < 1024"
  shows "page_of (word_at f i) = f"
  using assms by (simp add: page_of_def word_unat_eq_iff unat_frame unat_word_at)

lemma unat_aligned_add:
  assumes "unat (a :: u32) mod 4 = 0" "j < 4"
  shows "unat (a + word_of_nat j) = unat a + j"
proof -
  have "unat a + j < 4294967296" using assms u32_less [of a] by presburger
  then show ?thesis using assms by (subst unat_add_small) (simp_all add: unat_of_nat)
qed

lemma store32_other:
  assumes "unat (a :: u32) mod 4 = 0" "unat x div 4 \<noteq> unat a div 4"
  shows "store32 a v m x = m x"
proof -
  have "x \<noteq> a + word_of_nat j" if "j < 4" for j
    using unat_aligned_add [OF assms(1) that] assms that by (auto simp: div_add1_eq)
  from this [of 0] this [of 1] this [of 2] this [of 3] show ?thesis by (simp add: store32_def)
qed

lemma load32_cong:
  assumes "unat (a :: u32) mod 4 = 0" "\<And>x. unat x div 4 = unat a div 4 \<Longrightarrow> m x = m' x"
  shows "load32 m a = load32 m' a"
proof -
  have "m (a + word_of_nat j) = m' (a + word_of_nat j)" if "j < 4" for j
    using assms(2) [of "a + word_of_nat j"] unat_aligned_add [OF assms(1) that] assms(1) that
    by (simp add: div_add1_eq)
  from this [of 0] this [of 1] this [of 2] this [of 3] show ?thesis by (simp add: load32_def)
qed

lemma load32_store32_other:
  assumes "unat (a :: u32) mod 4 = 0" "unat b mod 4 = 0" "a \<noteq> b"
  shows "load32 (store32 a v m) b = load32 m b"
proof (rule load32_cong [OF assms(2)])
  fix x :: u32
  assume "unat x div 4 = unat b div 4"
  moreover have "unat a div 4 \<noteq> unat b div 4"
    using assms by (metis add.right_neutral div_mult_mod_eq word_unat_eq_iff)
  ultimately show "store32 a v m x = m x" using store32_other [OF assms(1)] by simp
qed

lemma load32_word_at:
  assumes "unat f < 2 ^ 20" "unat i < 1024" "unat g < 2 ^ 20" "unat j < 1024"
  shows "load32 (store32 (word_at f i) v m) (word_at g j) =
    (if g = f \<and> j = i then v else load32 m (word_at g j))"
proof (cases "word_at f i = word_at g j")
  case True
  then have "4096 * unat f + 4 * unat i = 4096 * unat g + 4 * unat j"
    using unat_word_at [OF assms(1,2)] unat_word_at [OF assms(3,4)] by simp
  moreover from this have "unat f = unat g" using assms by linarith
  ultimately have "f = g" "i = j" by (simp_all add: word_unat_eq_iff)
  then show ?thesis by simp
next
  case False
  then show ?thesis
    using load32_store32_other [of "word_at f i" "word_at g j"] unat_word_at [OF assms(1,2)] unat_word_at [OF assms(3,4)]
    by (auto simp: mod_add_eq)
qed

lemma store32_page:
  assumes "unat f < 2 ^ 20" "unat i < 1024" "page_of x \<noteq> f"
  shows "store32 (word_at f i) v m x = m x"
proof (rule store32_other)
  have w: "unat (word_at f i) = 4096 * unat f + 4 * unat i" by (rule unat_word_at [OF assms(1,2)])
  then show "unat (word_at f i) mod 4 = 0" using page_quarters(2) [OF assms(2)] by simp
  have "unat x div 4096 \<noteq> unat f" using assms(3) by (simp add: page_of_def word_unat_eq_iff unat_frame)
  then show "unat x div 4 \<noteq> unat (word_at f i) div 4" unfolding w using page_quarters(1) [OF assms(2)] by blast
qed

lemma load32_page:
  assumes "unat f < 2 ^ 20" "unat i < 1024" "\<And>x. page_of x = f \<Longrightarrow> m x = m' x"
  shows "load32 m (word_at f i) = load32 m' (word_at f i)"
proof (rule load32_cong)
  have w: "unat (word_at f i) = 4096 * unat f + 4 * unat i" by (rule unat_word_at [OF assms(1,2)])
  then show "unat (word_at f i) mod 4 = 0" using page_quarters(2) [OF assms(2)] by simp
  fix x :: u32
  assume "unat x div 4 = unat (word_at f i) div 4"
  then have "unat x div 4096 = unat f" unfolding w by (rule page_quarters(1) [OF assms(2)])
  then show "m x = m' x" by (intro assms(3)) (simp add: page_of_def word_unat_eq_iff unat_frame)
qed

section \<open>The loops\<close>

definition page_entry :: "u32 \<Rightarrow> u32" where
  "page_entry a = a OR 1 OR 2"

lemma zero_page:
  assumes "unat f < 2 ^ 20"
  shows "\<exists>m. paging_zero_page (f * 0x1000) s = s\<lparr>mem := m\<rparr> \<and> (\<forall>x. page_of x \<noteq> f \<longrightarrow> m x = mem s x) \<and>
    (\<forall>i. unat i < 1024 \<longrightarrow> load32 m (word_at f i) = 0)"
proof -
  let ?w = "\<lambda>n s :: 'a paging_globals_scheme. s\<lparr>mem := store32 (f * 0x1000 + 4 * word_of_nat n) 0 (mem s)\<rparr>"
  have "\<exists>m. fold ?w [0..<n] s = s\<lparr>mem := m\<rparr> \<and> (\<forall>x. page_of x \<noteq> f \<longrightarrow> m x = mem s x) \<and>
    (\<forall>i. unat i < n \<longrightarrow> load32 m (word_at f i) = 0)" if "n \<le> 1024" for n
    using that
  proof (induction n)
    case 0
    show ?case by (rule exI [of _ "mem s"]) simp
  next
    case (Suc n)
    then obtain m where m: "fold ?w [0..<n] s = s\<lparr>mem := m\<rparr>" "\<forall>x. page_of x \<noteq> f \<longrightarrow> m x = mem s x"
      "\<forall>i. unat i < n \<longrightarrow> load32 m (word_at f i) = 0" by auto
    have n: "unat (word_of_nat n :: u32) = n" using Suc.prems by (simp add: unat_of_nat)
    let ?m = "store32 (word_at f (word_of_nat n)) 0 m"
    have "fold ?w [0..<Suc n] s = s\<lparr>mem := ?m\<rparr>" using m(1) by (simp add: word_at_def)
    moreover have "?m x = mem s x" if "page_of x \<noteq> f" for x
      using store32_page [OF assms, of "word_of_nat n"] m(2) that n Suc.prems by simp
    moreover have "load32 ?m (word_at f i) = 0" if "unat i < Suc n" for i
      using load32_word_at [OF assms _ assms, of "word_of_nat n" i] m(3) that n Suc.prems
      by (auto simp: less_Suc_eq word_unat_eq_iff)
    ultimately show ?case by blast
  qed
  from this [of 1024] show ?thesis by (simp add: paging_zero_page_def)
qed

lemma fill_table:
  assumes "unat f < 2 ^ 20" "unat p + n \<le> 1024" "unat a + 4096 * n \<le> unat (paging_identity_bytes s)"
  shows "\<exists>m. paging_fill_table n p (f * 0x1000) a s = (a + 0x1000 * word_of_nat n, s\<lparr>mem := m\<rparr>) \<and>
    (\<forall>x. page_of x \<noteq> f \<longrightarrow> m x = mem s x) \<and>
    (\<forall>i. unat i < 1024 \<longrightarrow> load32 m (word_at f i) =
       (if unat p \<le> unat i \<and> unat i < unat p + n then page_entry (a + 0x1000 * (i - p)) else load32 (mem s) (word_at f i)))"
  using assms(2,3)
proof (induction n arbitrary: p a s)
  case 0
  show ?case by (rule exI [of _ "mem s"]) auto
next
  case (Suc n)
  have lim: "unat (paging_identity_bytes s) < 4294967296" by (rule u32_less)
  have p: "unat (p + 1) = unat p + 1" using Suc.prems(1) by (subst unat_add_small) simp_all
  have a: "unat (a + 0x1000) = unat a + 4096" if "0 < n"
    using Suc.prems(2) lim that by (subst unat_add_small) simp_all
  let ?s = "s\<lparr>mem := store32 (word_at f p) (page_entry a) (mem s)\<rparr>"
  have "unat a < unat (paging_identity_bytes s)" using Suc.prems(2) by simp
  then have step: "paging_fill_table (Suc n) p (f * 0x1000) a s = paging_fill_table n (p + 1) (f * 0x1000) (a + 0x1000) ?s"
    by (simp add: word_at_def page_entry_def word_less_nat_alt)
  obtain m where m: "paging_fill_table n (p + 1) (f * 0x1000) (a + 0x1000) ?s = (a + 0x1000 + 0x1000 * word_of_nat n, ?s\<lparr>mem := m\<rparr>)"
    "\<forall>x. page_of x \<noteq> f \<longrightarrow> m x = mem ?s x"
    "\<forall>i. unat i < 1024 \<longrightarrow> load32 m (word_at f i) =
       (if unat (p + 1) \<le> unat i \<and> unat i < unat (p + 1) + n then page_entry (a + 0x1000 + 0x1000 * (i - (p + 1)))
        else load32 (mem ?s) (word_at f i))"
  proof (cases "n = 0")
    case True
    show thesis by (rule that [of "mem ?s"]) (use True in auto)
  next
    case False
    then have "unat (p + 1) + n \<le> 1024" "unat (a + 0x1000) + 4096 * n \<le> unat (paging_identity_bytes ?s)"
      using Suc.prems p a by simp_all
    from Suc.IH [OF this] that show thesis by blast
  qed
  have "m x = mem s x" if "page_of x \<noteq> f" for x
    using m(2) store32_page [OF assms(1), of p x] that Suc.prems(1) by simp
  moreover have "load32 m (word_at f i) =
       (if unat p \<le> unat i \<and> unat i < unat p + Suc n then page_entry (a + 0x1000 * (i - p)) else load32 (mem s) (word_at f i))"
    if i: "unat i < 1024" for i
  proof -
    have e: "a + 0x1000 + 0x1000 * (i - (p + 1)) = a + 0x1000 * (i - p)" by (simp add: algebra_simps)
    have l: "load32 (mem ?s) (word_at f i) = (if i = p then page_entry a else load32 (mem s) (word_at f i))"
      using load32_word_at [OF assms(1) _ assms(1) i, of p] Suc.prems(1) by simp
    have "i = p \<longleftrightarrow> unat i = unat p" by (simp add: word_unat_eq_iff)
    with m(3) [rule_format, OF i] show ?thesis unfolding e p l by (cases "i = p") auto
  qed
  ultimately show ?case unfolding step m(1)
    by (intro exI [of _ m] conjI) (simp_all add: algebra_simps)
qed

section \<open>Frames for tables\<close>

text \<open>The bytes of the bitmap of the frame allocator; no page that holds one of them is handed out.\<close>

definition bitmap_bytes :: "'a pmm_globals_scheme \<Rightarrow> u32 set" where
  "bitmap_bytes s = (\<lambda>f. pmm_bitmap s + pmm_bitmap_index f) ` {f. f < pmm_total_frames_count s}"

definition bitmap_pages :: "'a pmm_globals_scheme \<Rightarrow> u32 set" where
  "bitmap_pages s = page_of ` bitmap_bytes s"

definition pages_ok :: "'a pmm_globals_scheme \<Rightarrow> bool" where
  "pages_ok s \<longleftrightarrow> pmm_inv s \<and> pmm_ready s \<and> 0 \<notin> free_set s \<and> free_set s \<inter> bitmap_pages s = {}"

lemma bitmap_page: "x \<in> bitmap_bytes s \<Longrightarrow> page_of x \<in> bitmap_pages s"
  by (simp add: bitmap_pages_def)

definition paging_same :: "'a paging_globals_scheme \<Rightarrow> 'a paging_globals_scheme \<Rightarrow> bool" where
  "paging_same s t \<longleftrightarrow>
     t\<lparr>mem := \<lambda>_. 0, pmm_free_frames_count := 0, pmm_next_search_frame := 0\<rparr> =
     s\<lparr>mem := \<lambda>_. 0, pmm_free_frames_count := 0, pmm_next_search_frame := 0\<rparr>"

lemma paging_same_refl [simp]: "paging_same s s"
  by (simp add: paging_same_def)

lemma paging_same_trans: "paging_same s t \<Longrightarrow> paging_same t u \<Longrightarrow> paging_same s u"
  by (simp add: paging_same_def)

lemma paging_same_mem [simp]: "paging_same s (t\<lparr>mem := m\<rparr>) \<longleftrightarrow> paging_same s t"
  by (simp add: paging_same_def)

lemma paging_sameD:
  assumes "paging_same s t"
  shows "paging_identity_bytes t = paging_identity_bytes s" "paging_directory_physical t = paging_directory_physical s"
    "paging_tables_count t = paging_tables_count s" "cpu_cr0 t = cpu_cr0 s" "cpu_cr3 t = cpu_cr3 s"
    "paging_ready t = paging_ready s"
    "heap_ready t = heap_ready s" "heap_mem t = heap_mem s" "heap_start_ptr t = heap_start_ptr s"
    "heap_end_ptr t = heap_end_ptr s" "heap_first_block t = heap_first_block s" "heap_free_list t = heap_free_list s"
    "pmm_bitmap t = pmm_bitmap s" "pmm_total_frames_count t = pmm_total_frames_count s"
  using assms unfolding paging_same_def by (cases s; cases t; simp)+

lemma mem_pages:
  assumes "\<And>x. x \<in> bitmap_bytes s \<Longrightarrow> m x = mem s x"
  shows "free_set (s\<lparr>mem := m\<rparr>) = free_set s" "bitmap_bytes (s\<lparr>mem := m\<rparr>) = bitmap_bytes s"
    "pages_ok (s\<lparr>mem := m\<rparr>) = pages_ok s"
proof -
  have "m (pmm_bitmap s + pmm_bitmap_index f) = mem s (pmm_bitmap s + pmm_bitmap_index f)"
    if "f < pmm_total_frames_count s" for f
    using that by (intro assms) (auto simp: bitmap_bytes_def)
  then show f: "free_set (s\<lparr>mem := m\<rparr>) = free_set s"
    by (auto simp: free_set_def pmm_frame_is_used_def)
  show b: "bitmap_bytes (s\<lparr>mem := m\<rparr>) = bitmap_bytes s" by (simp add: bitmap_bytes_def)
  show "pages_ok (s\<lparr>mem := m\<rparr>) = pages_ok s" unfolding pages_ok_def f bitmap_pages_def b by (simp add: pmm_inv_def f)
qed

lemma alloc_page:
  assumes "pages_ok s" "free_set s \<noteq> {}"
  shows "\<exists>f t. f \<in> free_set s \<and> pmm_alloc_frame s = (f * 0x1000, t) \<and> unat f < 2 ^ 20 \<and> f * 0x1000 \<noteq> 0 \<and>
    pages_ok t \<and> free_set t = free_set s - {f} \<and> bitmap_bytes t = bitmap_bytes s \<and>
    (\<forall>x. x \<notin> bitmap_bytes s \<longrightarrow> mem t x = mem s x) \<and> paging_same s t"
proof -
  have inv: "pmm_inv s" "pmm_ready s" "0 \<notin> free_set s" "free_set s \<inter> bitmap_pages s = {}"
    using assms(1) by (simp_all add: pages_ok_def)
  obtain f where f: "f \<in> free_set s" "pmm_alloc_frame s = pmm_take f s"
    using alloc_frame [OF inv(1,2)] assms(2) by (auto simp: next_fit_def)
  define t where "t = snd (pmm_take f s)"
  have e: "pmm_alloc_frame s = (f * 0x1000, t)" unfolding f(2) t_def by (simp add: pmm_take_def)
  have t: "t = s\<lparr>mem := set_frame True f s, pmm_free_frames_count := pmm_free_frames_count t,
      pmm_next_search_frame := f + 1\<rparr>"
    using f(1) by (simp add: t_def pmm_take_def mark_used_eq)
  have lt: "f < pmm_total_frames_count s" using f(1) by (simp add: free_set_def)
  then have small: "unat f < 2 ^ 20" using inv(1) by (simp add: pmm_inv_def word_less_nat_alt)
  have b: "bitmap_bytes t = bitmap_bytes s" by (subst t) (simp add: bitmap_bytes_def)
  have fs: "free_set t = free_set s - {f}" "pmm_inv t" "pmm_ready t"
    using pmm_take_inv [OF inv(1) f(1)] inv(2) unfolding t_def by auto
  have "mem t x = mem s x" if "x \<notin> bitmap_bytes s" for x
    using that lt by (subst t) (auto simp: set_frame_def Let_def bitmap_bytes_def)
  moreover have "pages_ok t" using fs inv by (auto simp: pages_ok_def bitmap_pages_def b)
  moreover have "f * 0x1000 \<noteq> 0"
  proof -
    have "f \<noteq> 0" using f(1) inv(3) by auto
    then have "0 < unat f" by (simp add: unat_gt_0)
    then show ?thesis using unat_frame_address [OF inv(1) lt] by auto
  qed
  moreover have "paging_same s t" unfolding paging_same_def by (subst t) simp
  ultimately show ?thesis using f(1) e small fs(1) b by blast
qed

text \<open>What the loop over the tables leaves: entries \<open>ti\<close> to \<open>ti + n\<close> of the directory in frame \<open>d\<close> refer to
  the tables \<open>ts\<close>, and these map consecutive pages from \<open>a\<close> on.\<close>

definition tables_map ::
  "(u32 \<Rightarrow> u8) \<Rightarrow> (u32 \<Rightarrow> u8) \<Rightarrow> u32 \<Rightarrow> nat \<Rightarrow> u32 \<Rightarrow> u32 list \<Rightarrow> bool" where
  "tables_map m m' d ti a ts \<longleftrightarrow>
     (\<forall>i. unat i < 1024 \<longrightarrow> load32 m' (word_at d i) =
        (if ti \<le> unat i \<and> unat i < ti + length ts then page_entry (ts ! (unat i - ti) * 0x1000)
         else load32 m (word_at d i))) \<and>
     (\<forall>j<length ts. \<forall>i. unat i < 1024 \<longrightarrow>
        load32 m' (word_at (ts ! j) i) = page_entry (a + 0x400000 * word_of_nat j + 0x1000 * i))"

lemma tables_map_Cons:
  assumes rest: "tables_map m1 m2 d (Suc ti) (a + 0x400000) ts"
    and small: "unat d < 2 ^ 20" "unat f < 2 ^ 20" "ti + Suc (length ts) \<le> 1024" "f \<noteq> d"
    and dir: "\<And>i. unat i < 1024 \<Longrightarrow> load32 m1 (word_at d i) =
        (if unat i = ti then page_entry (f * 0x1000) else load32 m (word_at d i))"
    and tab: "\<And>i. unat i < 1024 \<Longrightarrow> load32 m2 (word_at f i) = page_entry (a + 0x1000 * i)"
  shows "tables_map m m2 d ti a (f # ts)"
proof -
  have "load32 m2 (word_at d i) =
      (if ti \<le> unat i \<and> unat i < ti + length (f # ts) then page_entry ((f # ts) ! (unat i - ti) * 0x1000)
       else load32 m (word_at d i))" if i: "unat i < 1024" for i
    using rest dir [OF i] i by (cases "unat i = ti") (auto simp: tables_map_def nth_Cons' Suc_diff_Suc)
  moreover have "load32 m2 (word_at ((f # ts) ! j) i) = page_entry (a + 0x400000 * word_of_nat j + 0x1000 * i)"
    if "j < length (f # ts)" "unat i < 1024" for i j
    using rest tab [OF that(2)] that by (cases j) (auto simp: tables_map_def algebra_simps)
  ultimately show ?thesis by (simp add: tables_map_def)
qed

lemma map_step:
  assumes "pages_ok s" "free_set s \<noteq> {}" "unat d < 2 ^ 20" "d \<notin> free_set s" "d \<notin> bitmap_pages s"
    and "paging_directory_physical s = d * 0x1000" "unat ti < 1024" "unat a + 0x400000 \<le> unat (paging_identity_bytes s)"
  shows "\<exists>f t. f \<in> free_set s \<and> unat f < 2 ^ 20 \<and> f \<notin> bitmap_pages s \<and>
    (\<forall>n. paging_map_tables (Suc n) ti a s = paging_map_tables n (ti + 1) (a + 0x400000) t) \<and>
    pages_ok t \<and> free_set t = free_set s - {f} \<and> bitmap_bytes t = bitmap_bytes s \<and> paging_same s t \<and>
    (\<forall>x. page_of x \<noteq> f \<and> page_of x \<noteq> d \<and> x \<notin> bitmap_bytes s \<longrightarrow> mem t x = mem s x) \<and>
    (\<forall>i. unat i < 1024 \<longrightarrow> load32 (mem t) (word_at f i) = page_entry (a + 0x1000 * i) \<and>
       load32 (mem t) (word_at d i) = (if i = ti then page_entry (f * 0x1000) else load32 (mem s) (word_at d i)))"
proof -
  from alloc_page [OF assms(1,2)] obtain f t1 where f: "f \<in> free_set s" "pmm_alloc_frame s = (f * 0x1000, t1)"
    "unat f < 2 ^ 20" "f * 0x1000 \<noteq> 0" and t1: "pages_ok t1" "free_set t1 = free_set s - {f}"
    "bitmap_bytes t1 = bitmap_bytes s" "\<forall>x. x \<notin> bitmap_bytes s \<longrightarrow> mem t1 x = mem s x" "paging_same s t1" by blast
  have fb: "f \<notin> bitmap_pages s" "f \<noteq> d" using assms(1,4) f(1) by (auto simp: pages_ok_def)
  obtain m2 where m2: "paging_zero_page (f * 0x1000) t1 = t1\<lparr>mem := m2\<rparr>" "\<forall>x. page_of x \<noteq> f \<longrightarrow> m2 x = mem t1 x"
    using zero_page [OF f(3), of t1] by blast
  have "unat (0 :: u32) + 1024 \<le> 1024" "unat a + 4096 * 1024 \<le> unat (paging_identity_bytes (t1\<lparr>mem := m2\<rparr>))"
    using assms(8) paging_sameD(1) [OF t1(5)] by simp_all
  from fill_table [OF f(3) this] obtain m3 where m3:
    "paging_fill_table 1024 0 (f * 0x1000) a (t1\<lparr>mem := m2\<rparr>) = (a + 0x400000, t1\<lparr>mem := m3\<rparr>)"
    "\<forall>x. page_of x \<noteq> f \<longrightarrow> m3 x = m2 x" "\<forall>i. unat i < 1024 \<longrightarrow> load32 m3 (word_at f i) = page_entry (a + 0x1000 * i)"
    by auto
  let ?m = "store32 (word_at d ti) (page_entry (f * 0x1000)) m3"
  let ?s = "t1\<lparr>mem := ?m\<rparr>"
  have step: "paging_map_tables (Suc n) ti a s = paging_map_tables n (ti + 1) (a + 0x400000) ?s" for n
    using f(2,4) m2(1) m3(1) assms(6) paging_sameD(2) [OF t1(5)] by (simp add: word_at_def page_entry_def)
  have mx: "?m x = mem s x" if "page_of x \<noteq> f" "page_of x \<noteq> d" "x \<notin> bitmap_bytes s" for x
    using that m2(2) m3(2) t1(4) store32_page [OF assms(3,7), of x] by simp
  have "?m x = mem t1 x" if "x \<in> bitmap_bytes t1" for x
  proof -
    have "page_of x \<noteq> f" "page_of x \<noteq> d" using that fb(1) assms(5) t1(3) bitmap_page by auto
    then show ?thesis using m2(2) m3(2) store32_page [OF assms(3,7), of x] by simp
  qed
  note ok = mem_pages [OF this, unfolded t1(3)]
  have "load32 m3 (word_at d i) = load32 (mem s) (word_at d i)" if "unat i < 1024" for i
  proof (rule load32_page [OF assms(3) that])
    fix x assume x: "page_of x = d"
    then have "x \<notin> bitmap_bytes s" using assms(5) by (auto dest: bitmap_page)
    then show "m3 x = mem s x" using x m2(2) m3(2) t1(4) fb(2) by simp
  qed
  then have "load32 ?m (word_at f i) = page_entry (a + 0x1000 * i) \<and>
      load32 ?m (word_at d i) = (if i = ti then page_entry (f * 0x1000) else load32 (mem s) (word_at d i))"
    if "unat i < 1024" for i
    using load32_word_at [OF assms(3,7) f(3) that] load32_word_at [OF assms(3,7,3) that] fb(2) m3(3) that by simp
  then show ?thesis using f(1,3) fb(1) step ok t1 mx by (intro exI [of _ f] exI [of _ ?s]) simp
qed

lemma map_tables:
  assumes "pages_ok s" "n \<le> card (free_set s)" "unat d < 2 ^ 20" "d \<notin> free_set s" "d \<notin> bitmap_pages s"
    and "paging_directory_physical s = d * 0x1000" "unat ti + n \<le> 1024"
    and "unat a + 0x400000 * n \<le> unat (paging_identity_bytes s)"
  shows "\<exists>ts t. paging_map_tables n ti a s = (True, t) \<and> length ts = n \<and> distinct ts \<and> set ts \<subseteq> free_set s \<and>
    pages_ok t \<and> free_set t = free_set s - set ts \<and> paging_same s t \<and>
    (\<forall>x. page_of x \<notin> insert d (set ts) \<and> x \<notin> bitmap_bytes s \<longrightarrow> mem t x = mem s x) \<and>
    tables_map (mem s) (mem t) d (unat ti) a ts"
  using assms
proof (induction n arbitrary: ti a s)
  case 0
  show ?case by (rule exI [of _ "[]"]) (use 0 in \<open>auto simp: tables_map_def\<close>)
next
  case (Suc n)
  note prems = Suc.prems
  have ne: "free_set s \<noteq> {}" and ti: "unat ti < 1024" and a: "unat a + 0x400000 \<le> unat (paging_identity_bytes s)"
    using prems by auto
  obtain f t where f: "f \<in> free_set s" "unat f < 2 ^ 20" "f \<notin> bitmap_pages s"
    and step: "paging_map_tables (Suc n) ti a s = paging_map_tables n (ti + 1) (a + 0x400000) t"
    and ok: "pages_ok t" "free_set t = free_set s - {f}" "bitmap_bytes t = bitmap_bytes s" "paging_same s t"
    and m: "\<And>x. page_of x \<noteq> f \<Longrightarrow> page_of x \<noteq> d \<Longrightarrow> x \<notin> bitmap_bytes s \<Longrightarrow> mem t x = mem s x"
    and tab: "\<And>i. unat i < 1024 \<Longrightarrow> load32 (mem t) (word_at f i) = page_entry (a + 0x1000 * i)"
    and dir: "\<And>i. unat i < 1024 \<Longrightarrow>
      load32 (mem t) (word_at d i) = (if i = ti then page_entry (f * 0x1000) else load32 (mem s) (word_at d i))"
    using map_step [OF prems(1) ne prems(3-6) ti a] by blast
  have ti1: "unat (ti + 1) = Suc (unat ti)" using ti by (subst unat_add_small) simp_all
  have a1: "unat (a + 0x400000) = unat a + 0x400000"
    using a u32_less [of "paging_identity_bytes s"] by (subst unat_add_small) simp_all
  have "n \<le> card (free_set t)" using prems(2) f(1) by (simp add: ok(2) card_Diff_singleton)
  moreover have "d \<notin> free_set t" "d \<notin> bitmap_pages t" using prems(4,5) ok by (simp_all add: bitmap_pages_def)
  moreover have "paging_directory_physical t = d * 0x1000" "unat (ti + 1) + n \<le> 1024"
    "unat (a + 0x400000) + 0x400000 * n \<le> unat (paging_identity_bytes t)"
    using prems(6-8) paging_sameD [OF ok(4)] ti1 a1 by simp_all
  ultimately obtain ts u where ih: "paging_map_tables n (ti + 1) (a + 0x400000) t = (True, u)" "length ts = n" "distinct ts"
    "set ts \<subseteq> free_set t" "pages_ok u" "free_set u = free_set t - set ts" "paging_same t u"
    "\<forall>x. page_of x \<notin> insert d (set ts) \<and> x \<notin> bitmap_bytes s \<longrightarrow> mem u x = mem t x"
    "tables_map (mem t) (mem u) d (unat (ti + 1)) (a + 0x400000) ts"
    using Suc.IH [OF ok(1) _ prems(3), of "ti + 1" "a + 0x400000"] unfolding ok(3) by blast
  have fd: "f \<noteq> d" "f \<notin> set ts" using f(1) prems(4) ih(4) ok(2) by auto
  have "tables_map (mem s) (mem u) d (unat ti) a (f # ts)"
  proof (rule tables_map_Cons [OF _ prems(3) f(2) _ fd(1)])
    show "tables_map (mem t) (mem u) d (Suc (unat ti)) (a + 0x400000) ts" using ih(9) ti1 by simp
    show "unat ti + Suc (length ts) \<le> 1024" using prems(7) ih(2) by simp
    show "load32 (mem t) (word_at d i) = (if unat i = unat ti then page_entry (f * 0x1000) else load32 (mem s) (word_at d i))"
      if "unat i < 1024" for i using dir [OF that] by (simp add: word_unat_eq_iff)
    show "load32 (mem u) (word_at f i) = page_entry (a + 0x1000 * i)" if "unat i < 1024" for i
    proof -
      have "mem u x = mem t x" if "page_of x = f" for x
      proof -
        have "x \<notin> bitmap_bytes s" using that f(3) by (auto dest: bitmap_page)
        then show ?thesis using that ih(8) fd by simp
      qed
      from load32_page [OF f(2) that this] show ?thesis using tab [OF that] by simp
    qed
  qed
  moreover have "mem u x = mem s x" if "page_of x \<notin> insert d (set (f # ts))" "x \<notin> bitmap_bytes s" for x
    using that ih(8) m [of x] by simp
  ultimately show ?case unfolding step
    using ih(1-6) f(1) ok(2) fd(2) paging_same_trans [OF ok(4) ih(7)]
    by (intro exI [of _ "f # ts"] exI [of _ u]) auto
qed

lemma map_tables_fails:
  assumes "pages_ok s" "card (free_set s) < n" "unat d < 2 ^ 20" "d \<notin> free_set s" "d \<notin> bitmap_pages s"
    and "paging_directory_physical s = d * 0x1000" "unat ti + n \<le> 1024"
    and "unat a + 0x400000 * n \<le> unat (paging_identity_bytes s)"
  shows "\<exists>t. paging_map_tables n ti a s = (False, t) \<and> cpu_cr0 t = cpu_cr0 s \<and> cpu_cr3 t = cpu_cr3 s \<and>
    paging_ready t = paging_ready s"
  using assms
proof (induction n arbitrary: ti a s)
  case (Suc n)
  note prems = Suc.prems
  show ?case
  proof (cases "free_set s = {}")
    case True
    have "pmm_inv s" "pmm_ready s" using prems(1) by (simp_all add: pages_ok_def)
    from alloc_frame [OF this] True show ?thesis by simp
  next
    case False
    have ti: "unat ti < 1024" and a: "unat a + 0x400000 \<le> unat (paging_identity_bytes s)" using prems by auto
    obtain f t where f: "f \<in> free_set s"
      and step: "paging_map_tables (Suc n) ti a s = paging_map_tables n (ti + 1) (a + 0x400000) t"
      and ok: "pages_ok t" "free_set t = free_set s - {f}" "bitmap_bytes t = bitmap_bytes s" "paging_same s t"
      using map_step [OF prems(1) False prems(3-6) ti a] by blast
    have ti1: "unat (ti + 1) = Suc (unat ti)" using ti by (subst unat_add_small) simp_all
    have a1: "unat (a + 0x400000) = unat a + 0x400000"
      using a u32_less [of "paging_identity_bytes s"] by (subst unat_add_small) simp_all
    have "card (free_set t) < n" using card_Diff1_less [OF free_set_finite f] prems(2) by (simp add: ok(2))
    moreover have "d \<notin> free_set t" "d \<notin> bitmap_pages t" using prems(4,5) ok by (simp_all add: bitmap_pages_def)
    moreover have "paging_directory_physical t = d * 0x1000" "unat (ti + 1) + n \<le> 1024"
      "unat (a + 0x400000) + 0x400000 * n \<le> unat (paging_identity_bytes t)"
      using prems(6-8) paging_sameD [OF ok(4)] ti1 a1 by simp_all
    ultimately show ?thesis
      using Suc.IH [OF ok(1) _ prems(3), of "ti + 1" "a + 0x400000"] paging_sameD [OF ok(4)] unfolding step by simp
  qed
qed simp

section \<open>The page walk\<close>

text \<open>
  Translation of a linear address by the processor with paging on: the directory at \<open>cr3\<close> gives the
  table, the table the page. \<open>None\<close> is a page fault; \<open>w\<close> says that the access is a write.
\<close>

definition page_walk :: "bool \<Rightarrow> (u32 \<Rightarrow> u8) \<Rightarrow> u32 \<Rightarrow> u32 \<Rightarrow> u32 option" where
  "page_walk w m cr3 a =
     (let pde = load32 m ((cr3 AND NOT 0xFFF) + 4 * drop_bit 22 a)
      in if \<not> bit pde 0 \<or> w \<and> \<not> bit pde 1 then None
         else
           let pte = load32 m ((pde AND NOT 0xFFF) + 4 * (drop_bit 12 a AND 0x3FF))
           in if \<not> bit pte 0 \<or> w \<and> \<not> bit pte 1 then None
              else Some ((pte AND NOT 0xFFF) OR (a AND 0xFFF)))"

lemma page_entry_bits: "bit (page_entry x) 0" "bit (page_entry x) 1"
  by (simp_all add: page_entry_def bit_simps)

lemma aligned_bits:
  assumes "unat (x :: u32) mod 4096 = 0" "bit x n"
  shows "12 \<le> n"
proof (rule ccontr)
  assume "\<not> 12 \<le> n"
  then have "bit (x AND mask 12) n" using assms(2) by (simp add: bit_simps)
  moreover have "x AND mask 12 = 0" using assms(1) by (simp add: and_mask_eq_0_iff)
  ultimately show False by simp
qed

lemma page_entry_page:
  assumes "unat x mod 4096 = 0"
  shows "page_entry x AND NOT 0xFFF = x"
proof -
  have "page_entry x = x OR mask 2" by (simp add: page_entry_def mask_eq_exp_minus_1 or.assoc)
  then have "page_entry x AND NOT (mask 12) = x"
    by (intro bit_word_eqI) (auto simp: bit_simps dest: aligned_bits [OF assms])
  then show ?thesis by (simp add: mask_eq_exp_minus_1)
qed

lemma aligned_page:
  assumes "unat x mod 4096 = 0"
  shows "x AND NOT 0xFFF = (x :: u32)"
proof -
  have "x AND NOT (mask 12) = x"
    by (rule bit_word_eqI) (auto simp: bit_simps dest: aligned_bits [OF assms])
  then show ?thesis by (simp add: mask_eq_exp_minus_1)
qed

lemma unat_page: "unat f < 2 ^ 20 \<Longrightarrow> unat (f * 0x1000 :: u32) = 4096 * unat f"
  by (simp add: unat_word_ariths)

text \<open>The three parts of a linear address.\<close>

lemma address_parts:
  fixes a :: u32
  shows "unat (drop_bit 22 a) = unat a div 0x400000" "unat (drop_bit 22 a) < 1024"
    "unat (drop_bit 12 a AND 0x3FF) = unat a div 4096 mod 1024" "unat (drop_bit 12 a AND 0x3FF) < 1024"
    "0x400000 * drop_bit 22 a + 0x1000 * (drop_bit 12 a AND 0x3FF) = a AND NOT 0xFFF"
    "(a AND NOT 0xFFF) OR (a AND 0xFFF) = a" "unat (a AND NOT 0xFFF) mod 4096 = 0"
proof -
  have m: "(0x3FF :: u32) = mask 10" "(0xFFF :: u32) = mask 12" by (simp_all add: mask_eq_exp_minus_1)
  show 1: "unat (drop_bit 22 a) = unat a div 0x400000" by (simp add: drop_bit_eq_div unat_div)
  then show "unat (drop_bit 22 a) < 1024" using u32_less [of a] by (simp add: less_mult_imp_div_less)
  show 3: "unat (drop_bit 12 a AND 0x3FF) = unat a div 4096 mod 1024"
    unfolding m unat_and_mask by (simp add: drop_bit_eq_div unat_div)
  then show 4: "unat (drop_bit 12 a AND 0x3FF) < 1024" by simp
  have p: "unat (a AND NOT 0xFFF) = unat a - unat a mod 4096" unfolding m unat_and_not_mask by simp
  then show "unat (a AND NOT 0xFFF) mod 4096 = 0" by (simp add: minus_mod_eq_div_mult)
  show "(a AND NOT 0xFFF) OR (a AND 0xFFF) = a" by (rule bit_word_eqI) (auto simp: bit_simps)
  have d: "unat a div 0x400000 = unat a div 4096 div 1024" using div_mult2_eq [of "unat a" 4096 1024] by simp
  have e: "0x400000 * (unat a div 0x400000) + 4096 * (unat a div 4096 mod 1024) = unat a - unat a mod 4096"
    using div_mult_mod_eq [of "unat a div 4096" 1024] div_mult_mod_eq [of "unat a" 4096] unfolding d by linarith
  have b: "4096 * (unat a div 4096 mod 1024) < 4294967296" "0x400000 * (unat a div 0x400000) < 4294967296"
    using e u32_less [of a] by linarith+
  have "unat (0x400000 * drop_bit 22 a) = 0x400000 * (unat a div 0x400000)"
    "unat (0x1000 * (drop_bit 12 a AND 0x3FF)) = 4096 * (unat a div 4096 mod 1024)"
    using 1 3 e u32_less [of a] mod_less [OF b(1)] mod_less [OF b(2)] by (simp_all add: unat_word_ariths)
  then show "0x400000 * drop_bit 22 a + 0x1000 * (drop_bit 12 a AND 0x3FF) = a AND NOT 0xFFF"
    using e less_imp_diff_less [OF u32_less [of a], of "unat a mod 4096"]
    unfolding word_unat_eq_iff p by (subst unat_add_small) simp_all
qed

lemma walk_tables:
  assumes tab: "tables_map m0 m d 0 0 ts" and small: "unat d < 2 ^ 20" "\<forall>t\<in>set ts. unat t < 2 ^ 20"
    and zero: "\<And>i. unat i < 1024 \<Longrightarrow> load32 m0 (word_at d i) = 0"
  shows "page_walk w m (d * 0x1000) a = (if unat a < 0x400000 * length ts then Some a else None)"
proof -
  define i where "i = drop_bit 22 a"
  define j where "j = (drop_bit 12 a AND 0x3FF)"
  note parts = address_parts [of a, folded i_def j_def]
  have d: "(d * 0x1000 AND NOT 0xFFF) + 4 * i = word_at d i"
    using aligned_page [of "d * 0x1000"] unat_page [OF small(1)] by (simp add: word_at_def)
  have pde: "load32 m (word_at d i) = (if unat i < length ts then page_entry (ts ! unat i * 0x1000) else 0)"
    using tab zero [OF parts(2)] parts(2) by (simp add: tables_map_def)
  have lim: "unat i < length ts \<longleftrightarrow> unat a < 0x400000 * length ts"
    unfolding parts(1) by (simp add: div_less_iff_less_mult mult.commute)
  show ?thesis
  proof (cases "unat i < length ts")
    case True
    let ?t = "ts ! unat i"
    have t: "unat ?t < 2 ^ 20" using small(2) True by simp
    have "page_entry (?t * 0x1000) AND NOT 0xFFF = ?t * 0x1000" by (rule page_entry_page) (simp add: unat_page [OF t])
    then have w: "(page_entry (?t * 0x1000) AND NOT 0xFFF) + 4 * j = word_at ?t j" by (simp add: word_at_def)
    have "load32 m (word_at ?t j) = page_entry (0x400000 * i + 0x1000 * j)"
      using tab True parts(4) by (simp add: tables_map_def)
    then have "load32 m (word_at ?t j) = page_entry (a AND NOT 0xFFF)" using parts(5) by simp
    then show ?thesis
      using True lim pde w parts(6) page_entry_page [OF parts(7)] page_entry_bits
      unfolding page_walk_def i_def [symmetric] j_def [symmetric] d by (simp add: Let_def)
  next
    case False
    then show ?thesis using lim pde unfolding page_walk_def i_def [symmetric] d by (simp add: Let_def)
  qed
qed

lemma identity_limit:
  assumes "paging_identity_limit_bytes s \<noteq> 0"
  shows "unat (paging_identity_limit_bytes s) = 0x400000 * unat (paging_identity_limit_bytes s div 0x400000)"
    "heap_end_address s \<le> paging_identity_limit_bytes s" "0 < unat (paging_identity_limit_bytes s div 0x400000)"
    "unat (paging_identity_limit_bytes s div 0x400000) \<le> 1023"
proof -
  define v where "v = (let limit = heap_end_address s;
      limit = (if limit < 0x1000000 then 0x1000000 else limit);
      bootinfo_end = bootinfo_multiboot_info_address s + bootinfo_multiboot_info_size s
    in if bootinfo_is_valid s \<and> bootinfo_end > limit then bootinfo_end else limit)"
  define l where "l = paging_identity_limit_bytes s"
  have l: "l = align_up_word v (2 ^ 22)"
    by (simp add: l_def paging_identity_limit_bytes_def v_def Let_def align_up_word_def paging_align_up_u32_def)
  have v: "heap_end_address s \<le> v" by (auto simp: v_def Let_def)
  have u: "unat l = unat (v + mask 22) div 0x400000 * 0x400000" unfolding l unat_align_up by simp
  show 1: "unat (paging_identity_limit_bytes s) = 0x400000 * unat (paging_identity_limit_bytes s div 0x400000)"
    unfolding l_def [symmetric] by (simp add: unat_div u)
  show "0 < unat (paging_identity_limit_bytes s div 0x400000)"
    using 1 assms by (metis mult_0_right neq0_conv unat_eq_zero)
  show "unat (paging_identity_limit_bytes s div 0x400000) \<le> 1023"
    using u32_less [of l] unfolding l_def [symmetric] by (simp add: unat_div less_mult_imp_div_less flip: less_Suc_eq_le)
  have "unat v + 0x3FFFFF < 4294967296"
  proof (rule ccontr)
    assume "\<not> ?thesis"
    then have "unat (v + mask 22) = unat v + 0x3FFFFF - 4294967296"
      using u32_less [of v] by (simp add: unat_word_ariths mask_eq_exp_minus_1 mod_if)
    then have "unat (v + mask 22) < 0x400000" using u32_less [of v] by simp
    then have "unat l = 0" using u by simp
    then show False using assms by (simp only: l_def unat_eq_zero)
  qed
  then have "unat (v + mask 22) = unat v + 0x3FFFFF" by (subst unat_add_small) (simp_all add: mask_eq_exp_minus_1)
  then have "unat v \<le> unat l" using div_mult_mod_eq [of "unat v + 0x3FFFFF" "0x400000"]
      mod_less_divisor [of "0x400000" "unat v + 0x3FFFFF"] unfolding u by linarith
  then show "heap_end_address s \<le> paging_identity_limit_bytes s"
    using v by (simp add: l_def word_le_nat_alt)
qed

section \<open>Initialisation\<close>

lemma pages_upd [simp]:
  "free_set (s\<lparr>paging_directory_physical := x\<rparr>) = free_set s" "free_set (s\<lparr>paging_identity_bytes := x\<rparr>) = free_set s"
  "free_set (s\<lparr>paging_tables_count := x\<rparr>) = free_set s" "free_set (s\<lparr>paging_ready := b\<rparr>) = free_set s"
  "free_set (s\<lparr>cpu_cr0 := x\<rparr>) = free_set s" "free_set (s\<lparr>cpu_cr3 := x\<rparr>) = free_set s"
  "bitmap_bytes (s\<lparr>paging_directory_physical := x\<rparr>) = bitmap_bytes s" "bitmap_bytes (s\<lparr>paging_identity_bytes := x\<rparr>) = bitmap_bytes s"
  "bitmap_bytes (s\<lparr>paging_tables_count := x\<rparr>) = bitmap_bytes s" "bitmap_bytes (s\<lparr>paging_ready := b\<rparr>) = bitmap_bytes s"
  "pages_ok (s\<lparr>paging_directory_physical := x\<rparr>) = pages_ok s" "pages_ok (s\<lparr>paging_identity_bytes := x\<rparr>) = pages_ok s"
  "pages_ok (s\<lparr>paging_tables_count := x\<rparr>) = pages_ok s" "pages_ok (s\<lparr>paging_ready := b\<rparr>) = pages_ok s"
  "pages_ok (s\<lparr>cpu_cr0 := x\<rparr>) = pages_ok s" "pages_ok (s\<lparr>cpu_cr3 := x\<rparr>) = pages_ok s"
  by (simp_all add: pages_ok_def free_set_def bitmap_pages_def bitmap_bytes_def pmm_inv_def pmm_frame_is_used_def)

text \<open>The state in which the loop over the tables starts: directory in frame \<open>d\<close>, cleared.\<close>

lemma init_directory:
  fixes s :: "'a paging_globals_scheme"
  defines "l \<equiv> paging_identity_limit_bytes s"
  assumes ok: "pages_ok s" "heap_ready s" "l \<noteq> 0" "free_set s \<noteq> {}"
  shows "\<exists>d t. d \<in> free_set s \<and> unat d < 2 ^ 20 \<and> d \<notin> bitmap_pages s \<and> pages_ok t \<and> free_set t = free_set s - {d} \<and>
    bitmap_bytes t = bitmap_bytes s \<and> paging_directory_physical t = d * 0x1000 \<and> paging_identity_bytes t = l \<and>
    \<not> paging_ready t \<and> cpu_cr0 t = cpu_cr0 s \<and> cpu_cr3 t = cpu_cr3 s \<and>
    (\<forall>x. page_of x \<noteq> d \<and> x \<notin> bitmap_bytes s \<longrightarrow> mem t x = mem s x) \<and>
    (\<forall>i. unat i < 1024 \<longrightarrow> load32 (mem t) (word_at d i) = 0) \<and>
    paging_init s = (let (mapped, u) = paging_map_tables (unat (l div 0x400000)) 0 0 t
      in if mapped then u\<lparr>cpu_cr3 := paging_directory_physical u, cpu_cr0 := cpu_cr0 u OR 0x80000000, paging_ready := True\<rparr> else u)"
proof -
  let ?s = "s\<lparr>paging_directory_physical := 0, paging_ready := False, paging_identity_bytes := l,
    paging_tables_count := l div 0x400000\<rparr>"
  have lim: "paging_identity_limit_bytes (s\<lparr>paging_directory_physical := 0, paging_identity_bytes := 0,
      paging_tables_count := 0, paging_ready := False\<rparr>) = l"
    by (simp add: l_def paging_identity_limit_bytes_def heap_end_address_def bootinfo_is_valid_def
        bootinfo_multiboot_info_address_def bootinfo_multiboot_info_size_def)
  have tc: "l div 0x400000 \<noteq> 0" "\<not> l div 0x400000 > 1024"
    using identity_limit(3,4) [of s] ok(3) by (auto simp: l_def word_less_nat_alt)
  obtain d t1 where d: "d \<in> free_set s" "pmm_alloc_frame ?s = (d * 0x1000, t1)" "unat d < 2 ^ 20" "d * 0x1000 \<noteq> 0"
    and t1: "pages_ok t1" "free_set t1 = free_set s - {d}" "bitmap_bytes t1 = bitmap_bytes s"
      "\<forall>x. x \<notin> bitmap_bytes s \<longrightarrow> mem t1 x = mem s x" "paging_same ?s t1"
    using alloc_page [of ?s] ok(1,4) by auto
  obtain m where m: "paging_zero_page (d * 0x1000) (t1\<lparr>paging_directory_physical := d * 0x1000\<rparr>) =
      t1\<lparr>paging_directory_physical := d * 0x1000, mem := m\<rparr>"
    "\<forall>x. page_of x \<noteq> d \<longrightarrow> m x = mem t1 x" "\<forall>i. unat i < 1024 \<longrightarrow> load32 m (word_at d i) = 0"
    using zero_page [OF d(3), of "t1\<lparr>paging_directory_physical := d * 0x1000\<rparr>"] by auto
  have db: "d \<notin> bitmap_pages s" using ok(1) d(1) by (auto simp: pages_ok_def)
  let ?t = "t1\<lparr>paging_directory_physical := d * 0x1000, mem := m\<rparr>"
  have "m x = mem (t1\<lparr>paging_directory_physical := d * 0x1000\<rparr>) x"
    if "x \<in> bitmap_bytes (t1\<lparr>paging_directory_physical := d * 0x1000\<rparr>)" for x
    using that m(2) t1(3) db bitmap_page [of x s] by auto
  note mp = mem_pages [OF this]
  have r: "pmm_ready s" using ok(1) by (simp add: pages_ok_def)
  have "paging_init s = (let (mapped, u) = paging_map_tables (unat (l div 0x400000)) 0 0 ?t
      in if mapped then u\<lparr>cpu_cr3 := paging_directory_physical u, cpu_cr0 := cpu_cr0 u OR 0x80000000, paging_ready := True\<rparr> else u)"
    unfolding paging_init_def Let_def lim using ok(2) r tc d(2,4) m(1)
    by (simp add: pmm_is_initialized_def heap_is_initialized_def)
  moreover have "mem ?t x = mem s x" if "page_of x \<noteq> d \<and> x \<notin> bitmap_bytes s" for x using that m(2) t1(4) by simp
  ultimately show ?thesis
    using d(1,3) db mp t1(1-3) m(3) paging_sameD [OF t1(5)] by (intro exI [of _ d] exI [of _ ?t]) simp
qed

lemma init_maps:
  fixes s :: "'a paging_globals_scheme"
  defines "l \<equiv> paging_identity_limit_bytes s" and "s' \<equiv> paging_init s"
  assumes ok: "pages_ok s" "heap_ready s" "l \<noteq> 0" "unat (l div 0x400000) < card (free_set s)"
  shows "paging_ready s'" "bit (cpu_cr0 s') 31" "paging_identity_bytes s' = l" "pages_ok s'" "free_set s' \<subseteq> free_set s"
    "page_walk w (mem s') (cpu_cr3 s') a = (if a < l then Some a else None)"
    "page_of x \<notin> free_set s - free_set s' \<Longrightarrow> x \<notin> bitmap_bytes s \<Longrightarrow> mem s' x = mem s x"
proof -
  let ?n = "unat (l div 0x400000)"
  note lim = identity_limit [of s, folded l_def, OF ok(3)]
  have ne: "free_set s \<noteq> {}" using ok(4) by auto
  obtain d t where d: "d \<in> free_set s" "unat d < 2 ^ 20" "d \<notin> bitmap_pages s"
    and t: "pages_ok t" "free_set t = free_set s - {d}" "bitmap_bytes t = bitmap_bytes s"
      "paging_directory_physical t = d * 0x1000" "paging_identity_bytes t = l"
      "\<forall>x. page_of x \<noteq> d \<and> x \<notin> bitmap_bytes s \<longrightarrow> mem t x = mem s x"
      "\<forall>i. unat i < 1024 \<longrightarrow> load32 (mem t) (word_at d i) = 0"
    and e: "s' = (let (mapped, u) = paging_map_tables ?n 0 0 t
      in if mapped then u\<lparr>cpu_cr3 := paging_directory_physical u, cpu_cr0 := cpu_cr0 u OR 0x80000000, paging_ready := True\<rparr> else u)"
    using init_directory [OF ok(1,2) ok(3) [unfolded l_def] ne, folded l_def s'_def]
    by (elim exE conjE) (rule that, assumption+)
  have "?n \<le> card (free_set t)" using ok(4) d(1) by (simp add: t(2) card_Diff_singleton)
  moreover have "d \<notin> free_set t" "d \<notin> bitmap_pages t" "unat (0 :: u32) + ?n \<le> 1024"
    "unat (0 :: u32) + 0x400000 * ?n \<le> unat (paging_identity_bytes t)"
    using d(3) t(2,3,5) lim by (simp_all add: bitmap_pages_def)
  ultimately obtain ts u where u: "paging_map_tables ?n 0 0 t = (True, u)" "length ts = ?n" "set ts \<subseteq> free_set t"
    "pages_ok u" "free_set u = free_set t - set ts" "paging_same t u"
    "\<forall>x. page_of x \<notin> insert d (set ts) \<and> x \<notin> bitmap_bytes t \<longrightarrow> mem u x = mem t x" "tables_map (mem t) (mem u) d 0 0 ts"
    using map_tables [OF t(1) _ d(2) _ _ t(4), of ?n 0 0] by auto
  have e': "s' = u\<lparr>cpu_cr3 := paging_directory_physical u, cpu_cr0 := cpu_cr0 u OR 0x80000000, paging_ready := True\<rparr>"
    unfolding e u(1) by simp
  have "\<forall>t\<in>set ts. unat t < 2 ^ 20"
    using u(3) t(1) by (fastforce simp: pages_ok_def pmm_inv_def free_set_def word_less_nat_alt)
  from walk_tables [OF u(8) d(2) this] t(7) have "page_walk w (mem u) (d * 0x1000) a = (if unat a < 0x400000 * ?n then Some a else None)"
    unfolding u(2) by blast
  then show "page_walk w (mem s') (cpu_cr3 s') a = (if a < l then Some a else None)"
    using paging_sameD(2) [OF u(6)] t(4) unfolding e' by (simp add: word_less_nat_alt lim(1))
  show "bit (cpu_cr0 s') 31"
  proof -
    have "(0x80000000 :: u32) = push_bit 31 1" by simp
    then show ?thesis unfolding e' by (simp add: bit_simps)
  qed
  show "paging_ready s'" "paging_identity_bytes s' = l" "pages_ok s'" "free_set s' \<subseteq> free_set s"
    using u(4,5) t(2,5) paging_sameD(1) [OF u(6)] unfolding e' by auto
  assume "page_of x \<notin> free_set s - free_set s'" "x \<notin> bitmap_bytes s"
  then show "mem s' x = mem s x" using u(3,5,7) t(2,3,6) d(1) unfolding e' by auto
qed

lemma init_fails:
  fixes s :: "'a paging_globals_scheme"
  defines "l \<equiv> paging_identity_limit_bytes s" and "s' \<equiv> paging_init s"
  assumes ok: "pages_ok s" "heap_ready s" "l \<noteq> 0 \<Longrightarrow> card (free_set s) \<le> unat (l div 0x400000)"
  shows "\<not> paging_ready s' \<and> cpu_cr0 s' = cpu_cr0 s \<and> cpu_cr3 s' = cpu_cr3 s"
proof -
  let ?s = "s\<lparr>paging_directory_physical := 0, paging_identity_bytes := 0, paging_tables_count := 0, paging_ready := False\<rparr>"
  have lim: "paging_identity_limit_bytes ?s = l"
    by (simp add: l_def paging_identity_limit_bytes_def heap_end_address_def bootinfo_is_valid_def
        bootinfo_multiboot_info_address_def bootinfo_multiboot_info_size_def)
  have r: "pmm_is_initialized ?s" "heap_is_initialized ?s"
    using ok(1,2) by (simp_all add: pmm_is_initialized_def heap_is_initialized_def pages_ok_def)
  consider "l = 0" | "l \<noteq> 0" "free_set s = {}" | "l \<noteq> 0" "free_set s \<noteq> {}" by blast
  then show ?thesis
  proof cases
    case 1
    then show ?thesis using r unfolding s'_def paging_init_def Let_def lim by simp
  next
    case 2
    let ?t = "?s\<lparr>paging_identity_bytes := l, paging_tables_count := l div 0x400000\<rparr>"
    have "pages_ok ?t" "free_set ?t = {}" using ok(1) 2 by simp_all
    then have "pmm_alloc_frame ?t = (0, ?t)" using alloc_frame [of ?t] by (simp add: pages_ok_def)
    then show ?thesis using r unfolding s'_def paging_init_def Let_def lim by simp
  next
    case 3
    note lim = identity_limit [of s, folded l_def, OF 3(1)]
    obtain d t where d: "d \<in> free_set s" "unat d < 2 ^ 20" "d \<notin> bitmap_pages s"
      and t: "pages_ok t" "free_set t = free_set s - {d}" "bitmap_bytes t = bitmap_bytes s"
        "paging_directory_physical t = d * 0x1000" "paging_identity_bytes t = l"
        "\<not> paging_ready t" "cpu_cr0 t = cpu_cr0 s" "cpu_cr3 t = cpu_cr3 s"
      and e: "s' = (let (mapped, u) = paging_map_tables (unat (l div 0x400000)) 0 0 t
        in if mapped then u\<lparr>cpu_cr3 := paging_directory_physical u, cpu_cr0 := cpu_cr0 u OR 0x80000000, paging_ready := True\<rparr> else u)"
      using init_directory [OF ok(1,2) 3(1) [unfolded l_def] 3(2), folded l_def s'_def]
      by (elim exE conjE) (rule that, assumption+)
    have "card (free_set t) < unat (l div 0x400000)"
      using ok(3) 3 card_Diff1_less [OF free_set_finite d(1)] by (simp add: t(2))
    then obtain u where "paging_map_tables (unat (l div 0x400000)) 0 0 t = (False, u)" "cpu_cr0 u = cpu_cr0 t"
      "cpu_cr3 u = cpu_cr3 t" "paging_ready u = paging_ready t"
      using map_tables_fails [OF t(1) _ d(2) _ _ t(4), of "unat (l div 0x400000)" 0 0] d(3) t(2,3,5) lim
      by (simp add: bitmap_pages_def) blast
    then show ?thesis using e t by simp
  qed
qed

lemma page_cover:
  assumes "(a :: nat) \<le> x" "x < b"
  shows "a < 4096 * (x div 4096 + 1)" "4096 * (x div 4096) < b"
  using assms dividend_less_div_times [of 4096 x] div_times_less_eq_dividend [of x 4096] by auto

text \<open>After the initialisation of the frame allocator the bitmap lies in the heap, and no free frame does.\<close>

lemma pmm_init_pages_ok:
  assumes "heap_inv s" "pmm_inv s" "pmm_ready s" "heap_live s (pmm_bitmap s) = Some j"
    and "(unat (pmm_total_frames s) + 7) div 8 \<le> j" "free_set s \<inter> reserved_frames kernel_end s = {}" "0 < unat kernel_end"
  shows "pages_ok s"
proof -
  obtain q where "unat (pmm_bitmap s) = q + 32" "(q, j, False) \<in> set (heap_blocks s)"
    using heap_live_Some [OF assms(1)] assms(4) by blast
  then have b: "unat (heap_start_ptr s) \<le> unat (pmm_bitmap s)" "unat (pmm_bitmap s) + j \<le> unat (heap_end_ptr s)"
    using tiled_bounds [OF heap_inv_tiled [OF assms(1)]] by fastforce+
  have "page_of (pmm_bitmap s + pmm_bitmap_index f) \<in> reserved_frames kernel_end s" if f: "f < pmm_total_frames_count s" for f
  proof -
    have i: "unat (pmm_bitmap_index f) = unat f div 8" by (simp add: pmm_bitmap_index_def drop_bit_eq_div unat_div)
    have "unat f div 8 < j" using assms(5) f by (simp add: pmm_total_frames_def word_less_nat_alt)
    then have u: "unat (pmm_bitmap s + pmm_bitmap_index f) = unat (pmm_bitmap s) + unat f div 8"
      "unat (pmm_bitmap s) + unat f div 8 < unat (heap_end_ptr s)"
      using b u32_less [of "heap_end_ptr s"] i by (simp_all add: unat_add_small)
    let ?x = "unat (pmm_bitmap s) + unat f div 8"
    have "unat (heap_start_ptr s) < 4096 * (?x div 4096 + 1)" "4096 * (?x div 4096) < unat (heap_end_ptr s)"
      using page_cover [of "unat (heap_start_ptr s)" ?x] b(1) u(2) by simp_all
    then show ?thesis using b u by (simp add: reserved_frames_def frames_touching_def page_of_def unat_frame)
  qed
  then have "bitmap_pages s \<subseteq> reserved_frames kernel_end s" by (auto simp: bitmap_pages_def bitmap_bytes_def)
  moreover have "0 \<in> reserved_frames kernel_end s"
    using assms(7) page_up_bounds(1) [of "unat kernel_end"] by (simp add: reserved_frames_def frames_touching_def)
  ultimately show ?thesis using assms(2,3,6) by (auto simp: pages_ok_def)
qed

lemma boot_paging:
  "\<exists>s. pmm_init 0x14F800 (boot_pmm rest) = Some s \<and> pages_ok s \<and> heap_ready s \<and> pmm_globals.more s = rest \<and>
     heap_end_ptr s = 0x250000 \<and> bootinfo_ready s \<and> bootinfo_info_address s = 0x9000 \<and> bootinfo_info_size s = 0x100 \<and>
     {0x250..<0x300} \<subseteq> free_set s"
proof -
  let ?s = "boot_pmm rest"
  have h: "(0xFFF :: nat) \<le> 0x2FFFFF" "(0x2FFFFF :: nat) < 0xFFFFF000 \<or> (0x2FFFFF :: nat) = 0xFFFFFFFF"
    "(0x2FFFFF :: nat) = unat (bootinfo_highest_usable_address ?s)" "(0x150000, 0xFFFE0, True) \<in> set (heap_blocks ?s)"
    "round16 (((0x2FFFFF + 4096) div 4096 + 7) div 8) \<le> 0xFFFE0"
    by (simp_all add: boot_pmm_fields boot_pmm_heap round16_def)
  obtain s j where s: "pmm_init 0x14F800 ?s = Some s" "pmm_ready s" "pmm_inv s" "heap_inv s"
    "unat (pmm_total_frames s) = 768"
    "free_set s = {f \<in> available_frames (boot_table ?s). f < pmm_total_frames s} - reserved_frames 0x14F800 ?s"
    "heap_start_ptr s = heap_start_ptr ?s" "heap_end_ptr s = heap_end_ptr ?s"
    "heap_live s (pmm_bitmap s) = Some j" "(unat (pmm_total_frames s) + 7) div 8 \<le> j"
    "bootinfo_ready s" "bootinfo_info_address s = bootinfo_info_address ?s" "bootinfo_info_size s = bootinfo_info_size ?s"
    "pmm_globals.more s = pmm_globals.more ?s"
    using init_frees [OF boot_pmm_heap(3) boot_pmm_fields(3,1) boot_pmm_low h] boot_pmm_fields(1) [of rest] by auto
  have "reserved_frames 0x14F800 s = reserved_frames 0x14F800 ?s" using s by (simp add: reserved_frames_def)
  then have "pages_ok s" using pmm_init_pages_ok [OF s(4,3,2,9,10), of "0x14F800"] s(6) by auto
  moreover have "{0x250..<0x300} \<subseteq> free_set s"
    unfolding s(6)
    by (auto simp: available_frames_def available_def boot_pmm_fields boot_pmm_heap frames_inside_def reserved_frames_def
        frames_touching_def page_up_def word_le_nat_alt word_less_nat_alt s(5))
  moreover have "heap_ready s" using heap_physD(1) [OF heap_inv_phys [OF s(4)]] .
  moreover have "pmm_globals.more s = rest"
    unfolding s(14) boot_pmm_def pmm_fields_more(12) [OF heap_init_fields(1)] by (simp add: pmm_globals.defs)
  ultimately show ?thesis using s(1,8,11-13) by (simp add: boot_pmm_heap boot_pmm_fields)
qed

section \<open>Properties\<close>

text \<open>
  C10. Paging is switched on exactly when the limit is not zero and the frame allocator has a frame for
  the directory and one for each table. Then the processor's walk over the tables takes every
  address below the limit to itself, for reads and for writes, and faults on every other address;
  the heap lies below the limit, and no byte has changed but those of the frames that were taken from
  the free ones and of the allocator's bitmap. Otherwise the control registers are as before.
\<close>

theorem paging_maps_identity:
  fixes s :: "'a paging_globals_scheme"
  assumes "pages_ok s" "heap_is_initialized s"
  defines "limit \<equiv> paging_identity_limit_bytes s" and "s' \<equiv> paging_init s"
  shows "if limit \<noteq> 0 \<and> limit div 0x400000 < pmm_free_frames s
    then paging_is_enabled s' \<and> bit (cpu_cr0 s') 31 \<and> paging_identity_mapped_bytes s' = limit \<and> heap_end_address s \<le> limit \<and>
      (\<forall>w a. page_walk w (mem s') (cpu_cr3 s') a = (if a < limit then Some a else None)) \<and>
      pages_ok s' \<and> free_set s' \<subseteq> free_set s \<and>
      (\<forall>x. page_of x \<notin> free_set s - free_set s' \<and> x \<notin> bitmap_bytes s \<longrightarrow> mem s' x = mem s x)
    else \<not> paging_is_enabled s' \<and> cpu_cr0 s' = cpu_cr0 s \<and> cpu_cr3 s' = cpu_cr3 s"
proof -
  have r: "heap_ready s" using assms(2) by (simp add: heap_is_initialized_def)
  have c: "limit div 0x400000 < pmm_free_frames s \<longleftrightarrow> unat (limit div 0x400000) < card (free_set s)"
    using assms(1) by (simp add: pages_ok_def pmm_inv_def pmm_free_frames_def word_less_nat_alt)
  show ?thesis
  proof (cases "limit \<noteq> 0 \<and> limit div 0x400000 < pmm_free_frames s")
    case True
    then have l: "paging_identity_limit_bytes s \<noteq> 0"
      "unat (paging_identity_limit_bytes s div 0x400000) < card (free_set s)" using c by (simp_all add: limit_def)
    show ?thesis
      using True init_maps [OF assms(1) r l] identity_limit(2) [OF l(1)]
      by (simp add: limit_def s'_def paging_is_enabled_def paging_identity_mapped_bytes_def)
  next
    case False
    then show ?thesis
      using init_fails [OF assms(1) r] c by (auto simp: limit_def s'_def paging_is_enabled_def)
  qed
qed

theorem paging_maps_identity_witness:
  "\<exists>s. pmm_init 0x14F800 (boot_pmm (paging_globals.fields 0 0 0 False 0 0)) = Some s \<and>
     (\<forall>a. page_walk True (mem (paging_init s)) (cpu_cr3 (paging_init s)) a = (if a < 0x1000000 then Some a else None))"
proof -
  obtain s where s: "pmm_init 0x14F800 (boot_pmm (paging_globals.fields 0 0 0 False 0 0)) = Some s" "pages_ok s" "heap_ready s"
    "heap_end_ptr s = 0x250000" "bootinfo_ready s" "bootinfo_info_address s = 0x9000" "bootinfo_info_size s = 0x100"
    "{0x250..<0x300} \<subseteq> free_set s"
    using boot_paging [of "paging_globals.fields 0 0 0 False 0 0"] by (elim exE conjE) (rule that, assumption+)
  have l: "paging_identity_limit_bytes s = 0x1000000"
    by (simp add: paging_identity_limit_bytes_def heap_end_address_def bootinfo_is_valid_def bootinfo_multiboot_info_address_def
        bootinfo_multiboot_info_size_def s paging_align_up_u32_def)
  have "card {0x250, 0x251, 0x252, 0x253, 0x254 :: u32} \<le> card (free_set s)"
    using s(8) by (intro card_mono) auto
  then have "4 < pmm_free_frames s" using s(2) by (simp add: pages_ok_def pmm_inv_def pmm_free_frames_def word_less_nat_alt)
  then show ?thesis using paging_maps_identity [OF s(2)] s(1,3) l by (auto simp: heap_is_initialized_def)
qed

end
