(* ===== verification/Scheduler.thy ===== *)
theory Scheduler
  imports Block
begin

text \<open>
  The cooperative scheduler (\<^verbatim>\<open>core/scheduler.c\<close>) and the switch of contexts (\<^verbatim>\<open>boot/scheduler.asm\<close>).
  Tasks are reached through pointers, so they live in a store \<open>scheduler_tasks\<close> from addresses to
  task values; a null pointer is address 0. The task list is threaded through the store by the
  \<open>task_next\<close> fields, and \<open>scheduler_idle_task\<close> is the address the linker gave the static idle task.

  A call of \<^verbatim>\<open>scheduler_context_switch\<close> returns only when another context switches back. The functions
  that contain one are therefore two definitions: the part up to the switch, whose result says
  whether control left, and the part that runs when control comes back (suffix \<open>_resume\<close>). Loops
  that the source bounds by the number of tasks recurse on what is left of that bound.
\<close>

section \<open>State\<close>

abbreviation (input) SCHEDULER_DEFAULT_TIMESLICE_TICKS :: u32 where "SCHEDULER_DEFAULT_TIMESLICE_TICKS \<equiv> 5"
abbreviation (input) SCHEDULER_DEFAULT_STACK_BYTES :: u32 where "SCHEDULER_DEFAULT_STACK_BYTES \<equiv> 4096"
abbreviation (input) SCHEDULER_MIN_STACK_BYTES :: u32 where "SCHEDULER_MIN_STACK_BYTES \<equiv> 2048"
abbreviation (input) SCHEDULER_STACK_ALIGNMENT :: u32 where "SCHEDULER_STACK_ALIGNMENT \<equiv> 16"
abbreviation (input) SCHEDULER_STACK_GUARD_MAGIC :: u32 where "SCHEDULER_STACK_GUARD_MAGIC \<equiv> 0x54424B54"

text \<open>\<^verbatim>\<open>sizeof(scheduler_task_t)\<close> on i386: thirteen words, the context, the flag padded to a word, the link.\<close>

abbreviation (input) SCHEDULER_TASK_BYTES :: u32 where "SCHEDULER_TASK_BYTES \<equiv> 88"

record scheduler_context =
  ctx_esp :: u32
  ctx_ebp :: u32
  ctx_ebx :: u32
  ctx_esi :: u32
  ctx_edi :: u32
  ctx_eflags :: u32
  ctx_eip :: u32

datatype scheduler_task_state =
  SCHEDULER_TASK_IDLE | SCHEDULER_TASK_READY | SCHEDULER_TASK_RUNNING | SCHEDULER_TASK_EXITED

record scheduler_task =
  task_id :: u32
  task_name :: string
  task_entry :: u32
  task_context :: u32
  task_state :: scheduler_task_state
  timeslice_ticks :: u32
  slice_ticks :: u32
  total_ticks :: u32
  dispatch_count :: u32
  yield_count :: u32
  exit_count :: u32
  stack_size_bytes :: u32
  stack_base :: u32
  cpu_context :: scheduler_context
  is_idle :: bool
  task_next :: u32

record scheduler_globals = block_globals +
  scheduler_tasks :: "u32 \<Rightarrow> scheduler_task"
  scheduler_idle_task :: u32
  scheduler_kernel_context :: scheduler_context
  scheduler_task_list_head :: u32
  scheduler_task_list_tail :: u32
  scheduler_current_task_ptr :: u32
  scheduler_last_task_ptr :: u32
  scheduler_next_task_id :: u32
  scheduler_total_tasks :: u32
  scheduler_tick_counter :: u32
  scheduler_total_dispatches :: u32
  scheduler_total_yields :: u32
  scheduler_ready :: bool
  scheduler_reschedule_pending :: bool
  scheduler_in_thread_context :: bool
  cpu_registers :: scheduler_context

text \<open>Assignment to fields of the task that a pointer refers to.\<close>

definition upd_task ::
  "u32 \<Rightarrow> (scheduler_task \<Rightarrow> scheduler_task) \<Rightarrow> 'a scheduler_globals_scheme \<Rightarrow> 'a scheduler_globals_scheme" where
  "upd_task p f s = s\<lparr>scheduler_tasks := (scheduler_tasks s)(p := f (scheduler_tasks s p))\<rparr>"

definition zero_context :: scheduler_context where
  "zero_context = \<lparr>ctx_esp = 0, ctx_ebp = 0, ctx_ebx = 0, ctx_esi = 0, ctx_edi = 0, ctx_eflags = 0, ctx_eip = 0\<rparr>"

text \<open>A task whose bytes are all zero.\<close>

definition zero_task :: scheduler_task where
  "zero_task = \<lparr>task_id = 0, task_name = [], task_entry = 0, task_context = 0, task_state = SCHEDULER_TASK_IDLE,
     timeslice_ticks = 0, slice_ticks = 0, total_ticks = 0, dispatch_count = 0, yield_count = 0, exit_count = 0,
     stack_size_bytes = 0, stack_base = 0, cpu_context = zero_context, is_idle = False, task_next = 0\<rparr>"

section \<open>Helpers\<close>

definition scheduler_log_event :: "string \<Rightarrow> 'a scheduler_globals_scheme \<Rightarrow> 'a scheduler_globals_scheme" where
  "scheduler_log_event message s = serial_writeline message (klog_writeline message s)"

definition scheduler_align_up_u32 :: "u32 \<Rightarrow> u32 \<Rightarrow> u32" where
  "scheduler_align_up_u32 value alignment =
     (if alignment = 0 then value else (value + alignment - 1) AND NOT (alignment - 1))"

definition scheduler_align_down_u32 :: "u32 \<Rightarrow> u32 \<Rightarrow> u32" where
  "scheduler_align_down_u32 value alignment =
     (if alignment = 0 then value else value AND NOT (alignment - 1))"

definition scheduler_link_task :: "u32 \<Rightarrow> 'a scheduler_globals_scheme \<Rightarrow> 'a scheduler_globals_scheme" where
  "scheduler_link_task task s =
     (if scheduler_task_list_head s = 0
      then upd_task task (\<lambda>t. t\<lparr>task_next := 0\<rparr>)
             (s\<lparr>scheduler_task_list_head := task, scheduler_task_list_tail := task\<rparr>)
      else
        let s = upd_task (scheduler_task_list_tail s) (\<lambda>t. t\<lparr>task_next := task\<rparr>) s
        in upd_task task (\<lambda>t. t\<lparr>task_next := 0\<rparr>) (s\<lparr>scheduler_task_list_tail := task\<rparr>))"

definition scheduler_next_task_after :: "u32 \<Rightarrow> 'a scheduler_globals_scheme \<Rightarrow> u32" where
  "scheduler_next_task_after task s =
     (if task = 0 \<or> task_next (scheduler_tasks s task) = 0 then scheduler_task_list_head s
      else task_next (scheduler_tasks s task))"

definition scheduler_stack_guard_slot_const :: "u32 \<Rightarrow> 'a scheduler_globals_scheme \<Rightarrow> u32" where
  "scheduler_stack_guard_slot_const task s =
     (if task = 0 \<or> stack_base (scheduler_tasks s task) = 0 \<or> stack_size_bytes (scheduler_tasks s task) < 4 then 0
      else stack_base (scheduler_tasks s task))"

definition scheduler_stack_guard_ok :: "u32 \<Rightarrow> 'a scheduler_globals_scheme \<Rightarrow> bool" where
  "scheduler_stack_guard_ok task s =
     (if task = 0 \<or> is_idle (scheduler_tasks s task) then True
      else
        let guard = scheduler_stack_guard_slot_const task s
        in if guard = 0 then False else load32 (mem s) guard = SCHEDULER_STACK_GUARD_MAGIC)"

definition scheduler_mark_task_corrupt ::
  "u32 \<Rightarrow> string \<Rightarrow> 'a scheduler_globals_scheme \<Rightarrow> 'a scheduler_globals_scheme" where
  "scheduler_mark_task_corrupt task message s =
     (if task = 0 \<or> task_state (scheduler_tasks s task) = SCHEDULER_TASK_EXITED then s
      else scheduler_log_event message
             ((upd_task task (\<lambda>t. t\<lparr>task_state := SCHEDULER_TASK_EXITED\<rparr>) s)\<lparr>scheduler_reschedule_pending := True\<rparr>))"

section \<open>Choosing a task\<close>

primrec scheduler_ready_walk :: "nat \<Rightarrow> u32 \<Rightarrow> 'a scheduler_globals_scheme \<Rightarrow> bool" where
  "scheduler_ready_walk 0 task s = False"
| "scheduler_ready_walk (Suc n) task s =
     (if task = 0 then False
      else if \<not> is_idle (scheduler_tasks s task) \<and> task_state (scheduler_tasks s task) = SCHEDULER_TASK_READY
      then True
      else scheduler_ready_walk n (task_next (scheduler_tasks s task)) s)"

definition scheduler_has_ready_non_idle_task :: "'a scheduler_globals_scheme \<Rightarrow> bool" where
  "scheduler_has_ready_non_idle_task s =
     scheduler_ready_walk (unat (scheduler_total_tasks s)) (scheduler_task_list_head s) s"

primrec scheduler_pick_walk :: "nat \<Rightarrow> bool \<Rightarrow> u32 \<Rightarrow> 'a scheduler_globals_scheme \<Rightarrow> u32" where
  "scheduler_pick_walk 0 prefer_non_idle task s = scheduler_idle_task s"
| "scheduler_pick_walk (Suc n) prefer_non_idle task s =
     (if task = 0 then scheduler_idle_task s
      else if task_state (scheduler_tasks s task) = SCHEDULER_TASK_READY \<and>
              (\<not> prefer_non_idle \<or> \<not> is_idle (scheduler_tasks s task))
      then task
      else scheduler_pick_walk n prefer_non_idle (scheduler_next_task_after task s) s)"

definition scheduler_pick_next_task :: "'a scheduler_globals_scheme \<Rightarrow> u32" where
  "scheduler_pick_next_task s =
     (if scheduler_task_list_head s = 0 then scheduler_idle_task s
      else scheduler_pick_walk (unat (scheduler_total_tasks s)) (scheduler_has_ready_non_idle_task s)
             (scheduler_next_task_after (scheduler_last_task_ptr s) s) s)"

definition scheduler_task_state_name :: "u32 \<Rightarrow> 'a scheduler_globals_scheme \<Rightarrow> string" where
  "scheduler_task_state_name task s =
     (if task = 0 then ''none''
      else case task_state (scheduler_tasks s task) of
        SCHEDULER_TASK_IDLE \<Rightarrow> ''idle''
      | SCHEDULER_TASK_READY \<Rightarrow> ''ready''
      | SCHEDULER_TASK_RUNNING \<Rightarrow> ''running''
      | SCHEDULER_TASK_EXITED \<Rightarrow> ''exited'')"

definition scheduler_terminal_write_u32 :: "u32 \<Rightarrow> 'a terminal_globals_scheme \<Rightarrow> 'a terminal_globals_scheme" where
  "scheduler_terminal_write_u32 value s =
     (if value = 0 then terminal_write ''0'' s else console_write_u32 value s)"

section \<open>Switching\<close>

text \<open>
  \<^verbatim>\<open>scheduler_context_switch\<close> stores the registers in one context, with the label \<^verbatim>\<open>.resume\<close> as the
  instruction pointer, and loads them from another. \<open>resume\<close> is the address of the label.
\<close>

definition scheduler_context_saved :: "u32 \<Rightarrow> scheduler_context \<Rightarrow> scheduler_context" where
  "scheduler_context_saved resume regs = regs\<lparr>ctx_eip := resume\<rparr>"

definition scheduler_switch_to_task ::
  "u32 \<Rightarrow> u32 \<Rightarrow> 'a scheduler_globals_scheme \<Rightarrow> 'a scheduler_globals_scheme" where
  "scheduler_switch_to_task resume task s =
     s\<lparr>scheduler_kernel_context := scheduler_context_saved resume (cpu_registers s),
       cpu_registers := cpu_context (scheduler_tasks s task)\<rparr>"

definition scheduler_switch_to_kernel ::
  "u32 \<Rightarrow> u32 \<Rightarrow> 'a scheduler_globals_scheme \<Rightarrow> 'a scheduler_globals_scheme" where
  "scheduler_switch_to_kernel resume task s =
     (upd_task task (\<lambda>t. t\<lparr>cpu_context := scheduler_context_saved resume (cpu_registers s)\<rparr>) s)
       \<lparr>cpu_registers := scheduler_kernel_context s\<rparr>"

text \<open>What a call comes to: it returns, control leaves for the other context, or the processor halts for good.\<close>

datatype sched_outcome = Returns | Switches | Halts

definition scheduler_exit_current_task ::
  "u32 \<Rightarrow> 'a scheduler_globals_scheme \<Rightarrow> sched_outcome \<times> 'a scheduler_globals_scheme" where
  "scheduler_exit_current_task resume s =
     (let task = scheduler_current_task_ptr s
      in if task = 0 \<or> is_idle (scheduler_tasks s task) then (Halts, s)
         else
           let s = upd_task task (\<lambda>t. t\<lparr>task_state := SCHEDULER_TASK_EXITED, slice_ticks := 0,
                                        exit_count := exit_count t + 1\<rparr>) s
           in (Switches, scheduler_switch_to_kernel resume task
                 (s\<lparr>scheduler_reschedule_pending := True, scheduler_in_thread_context := False,
                    scheduler_current_task_ptr := scheduler_idle_task s\<rparr>)))"

text \<open>
  The start of a thread: the entry function and its argument that \<^verbatim>\<open>scheduler_task_bootstrap\<close> calls, or,
  without an entry, the exit. When the entry function returns, \<open>scheduler_exit_current_task\<close> follows.
\<close>

definition scheduler_task_bootstrap ::
  "u32 \<Rightarrow> 'a scheduler_globals_scheme \<Rightarrow> (u32 \<times> u32) option \<times> sched_outcome \<times> 'a scheduler_globals_scheme" where
  "scheduler_task_bootstrap resume s =
     (let task = scheduler_current_task_ptr s
      in if task = 0 \<or> task_entry (scheduler_tasks s task) = 0
         then (None, scheduler_exit_current_task resume
                 (scheduler_log_event ''TERMOB: scheduler bootstrap missing task entry'' s))
         else (Some (task_entry (scheduler_tasks s task), task_context (scheduler_tasks s task)), Returns, s))"

text \<open>\<open>bootstrap\<close> is the address of \<^verbatim>\<open>scheduler_task_bootstrap\<close>.\<close>

definition scheduler_prepare_task_context ::
  "u32 \<Rightarrow> u32 \<Rightarrow> 'a scheduler_globals_scheme \<Rightarrow> 'a scheduler_globals_scheme" where
  "scheduler_prepare_task_context bootstrap task s =
     (let t = scheduler_tasks s task;
          stack_top = scheduler_align_down_u32 (stack_base t + stack_size_bytes t) SCHEDULER_STACK_ALIGNMENT
      in upd_task task (\<lambda>t. t\<lparr>cpu_context :=
           \<lparr>ctx_esp = stack_top, ctx_ebp = 0, ctx_ebx = 0, ctx_esi = 0, ctx_edi = 0, ctx_eflags = 0x202,
            ctx_eip = bootstrap\<rparr>\<rparr>) s)"

section \<open>Operations\<close>

definition idle_task_at_init :: scheduler_task where
  "idle_task_at_init = \<lparr>task_id = 0, task_name = ''idle'', task_entry = 0, task_context = 0,
     task_state = SCHEDULER_TASK_READY, timeslice_ticks = SCHEDULER_DEFAULT_TIMESLICE_TICKS,
     slice_ticks = 0, total_ticks = 0, dispatch_count = 0, yield_count = 0, exit_count = 0,
     stack_size_bytes = 0, stack_base = 0,
     cpu_context = \<lparr>ctx_esp = 0, ctx_ebp = 0, ctx_ebx = 0, ctx_esi = 0, ctx_edi = 0, ctx_eflags = 0x202, ctx_eip = 0\<rparr>,
     is_idle = True, task_next = 0\<rparr>"

definition scheduler_init :: "'a scheduler_globals_scheme \<Rightarrow> 'a scheduler_globals_scheme" where
  "scheduler_init s =
     (let s = s\<lparr>scheduler_task_list_head := 0, scheduler_task_list_tail := 0,
                scheduler_current_task_ptr := 0, scheduler_last_task_ptr := 0,
                scheduler_next_task_id := 1, scheduler_total_tasks := 0, scheduler_tick_counter := 0,
                scheduler_total_dispatches := 0, scheduler_total_yields := 0, scheduler_ready := False,
                scheduler_reschedule_pending := False, scheduler_in_thread_context := False\<rparr>;
          s = upd_task (scheduler_idle_task s) (\<lambda>_. idle_task_at_init) s;
          s = scheduler_link_task (scheduler_idle_task s) s;
          s = s\<lparr>scheduler_total_tasks := 1, scheduler_current_task_ptr := scheduler_idle_task s,
                scheduler_last_task_ptr := scheduler_idle_task s, scheduler_ready := True,
                scheduler_reschedule_pending := True\<rparr>
      in scheduler_log_event ''TERMOB: scheduler foundation online'' s)"

definition scheduler_is_initialized :: "'a scheduler_globals_scheme \<Rightarrow> bool" where
  "scheduler_is_initialized s = scheduler_ready s"

text \<open>The size of the stack that is allocated for a request.\<close>

definition scheduler_stack_bytes :: "u32 \<Rightarrow> u32" where
  "scheduler_stack_bytes request =
     (let size_bytes = (if request = 0 then SCHEDULER_DEFAULT_STACK_BYTES else request);
          alloc_size = scheduler_align_up_u32 size_bytes SCHEDULER_STACK_ALIGNMENT
      in if alloc_size < SCHEDULER_MIN_STACK_BYTES then SCHEDULER_MIN_STACK_BYTES else alloc_size)"

text \<open>The part of \<^verbatim>\<open>scheduler_create_kernel_thread\<close> after both allocations.\<close>

definition scheduler_register_task ::
  "u32 \<Rightarrow> string \<Rightarrow> u32 \<Rightarrow> u32 \<Rightarrow> u32 \<Rightarrow> u32 \<Rightarrow> u32 \<Rightarrow> 'a scheduler_globals_scheme \<Rightarrow> 'a scheduler_globals_scheme" where
  "scheduler_register_task bootstrap name entry ctx alloc_size task stack s =
     (let s = s\<lparr>mem := store32 stack SCHEDULER_STACK_GUARD_MAGIC (mem s)\<rparr>;
          s = upd_task task (\<lambda>t. t\<lparr>task_id := scheduler_next_task_id s, task_name := name,
                task_entry := entry, task_context := ctx, task_state := SCHEDULER_TASK_READY,
                timeslice_ticks := SCHEDULER_DEFAULT_TIMESLICE_TICKS, slice_ticks := 0,
                total_ticks := 0, dispatch_count := 0, yield_count := 0, exit_count := 0,
                stack_size_bytes := alloc_size, is_idle := False, task_next := 0\<rparr>) s;
          s = s\<lparr>scheduler_next_task_id := scheduler_next_task_id s + 1\<rparr>;
          s = scheduler_prepare_task_context bootstrap task s;
          s = scheduler_link_task task s;
          s = s\<lparr>scheduler_total_tasks := scheduler_total_tasks s + 1, scheduler_reschedule_pending := True\<rparr>
      in scheduler_log_event ''TERMOB: scheduler task registered'' s)"

definition scheduler_create_kernel_thread ::
  "u32 \<Rightarrow> string option \<Rightarrow> u32 \<Rightarrow> u32 \<Rightarrow> u32 \<Rightarrow> 'a scheduler_globals_scheme \<Rightarrow>
     (u32 \<times> 'a scheduler_globals_scheme) option" where
  "scheduler_create_kernel_thread bootstrap name entry ctx request s =
     (if \<not> scheduler_ready s \<or> name = None \<or> entry = 0 then Some (0, s)
      else
        let alloc_size = scheduler_stack_bytes request
        in do {
             (task, s) \<leftarrow> kcalloc 1 SCHEDULER_TASK_BYTES s;
             if task = 0 then Some (0, scheduler_log_event ''TERMOB: scheduler task allocation failed'' s)
             else do {
               let s = upd_task task (\<lambda>_. zero_task) s;
               (stack, s) \<leftarrow> kcalloc 1 alloc_size s;
               let s = upd_task task (\<lambda>t. t\<lparr>stack_base := stack\<rparr>) s;
               if stack = 0
               then do {
                 s \<leftarrow> kfree task (scheduler_log_event ''TERMOB: scheduler task stack allocation failed'' s);
                 Some (0, s)
               }
               else
                 Some (task, scheduler_register_task bootstrap (the name) entry ctx alloc_size task stack s)
             }
           })"

definition scheduler_create_kernel_task ::
  "u32 \<Rightarrow> string option \<Rightarrow> u32 \<Rightarrow> u32 \<Rightarrow> 'a scheduler_globals_scheme \<Rightarrow> (u32 \<times> 'a scheduler_globals_scheme) option" where
  "scheduler_create_kernel_task bootstrap name entry ctx s =
     scheduler_create_kernel_thread bootstrap name entry ctx SCHEDULER_DEFAULT_STACK_BYTES s"

definition scheduler_handle_tick :: "'a scheduler_globals_scheme \<Rightarrow> 'a scheduler_globals_scheme" where
  "scheduler_handle_tick s =
     (let task = scheduler_current_task_ptr s
      in if \<not> scheduler_ready s \<or> task = 0 then s
         else
           let s = s\<lparr>scheduler_tick_counter := scheduler_tick_counter s + 1\<rparr>;
               s = upd_task task (\<lambda>t. t\<lparr>total_ticks := total_ticks t + 1, slice_ticks := slice_ticks t + 1\<rparr>) s
           in if timeslice_ticks (scheduler_tasks s task) \<noteq> 0 \<and>
                 slice_ticks (scheduler_tasks s task) \<ge> timeslice_ticks (scheduler_tasks s task)
              then (upd_task task (\<lambda>t. t\<lparr>slice_ticks := 0\<rparr>) s)\<lparr>scheduler_reschedule_pending := True\<rparr>
              else s)"

text \<open>The part of \<^verbatim>\<open>scheduler_dispatch\<close> that makes the chosen task the current one, up to the switch.\<close>

definition scheduler_dispatch_enter ::
  "u32 \<Rightarrow> u32 \<Rightarrow> 'a scheduler_globals_scheme \<Rightarrow> 'a scheduler_globals_scheme" where
  "scheduler_dispatch_enter resume next_task s =
     (let s = s\<lparr>scheduler_last_task_ptr := next_task, scheduler_current_task_ptr := next_task\<rparr>;
          s = upd_task next_task (\<lambda>t. t\<lparr>task_state := SCHEDULER_TASK_RUNNING, slice_ticks := 0,
                                        dispatch_count := dispatch_count t + 1\<rparr>) s;
          s = s\<lparr>scheduler_total_dispatches := scheduler_total_dispatches s + 1,
                scheduler_reschedule_pending := False, scheduler_in_thread_context := True\<rparr>
      in scheduler_switch_to_task resume next_task s)"

definition scheduler_dispatch ::
  "u32 \<Rightarrow> 'a scheduler_globals_scheme \<Rightarrow> sched_outcome \<times> 'a scheduler_globals_scheme" where
  "scheduler_dispatch resume s =
     (if \<not> scheduler_ready s \<or> scheduler_in_thread_context s \<or> \<not> scheduler_reschedule_pending s
      then (Returns, s)
      else
        let next_task = scheduler_pick_next_task s
        in if next_task = 0 \<or> is_idle (scheduler_tasks s next_task)
           then (Returns, s\<lparr>scheduler_current_task_ptr := scheduler_idle_task s,
                            scheduler_reschedule_pending := False\<rparr>)
           else if \<not> scheduler_stack_guard_ok next_task s
           then (Returns, scheduler_mark_task_corrupt next_task ''TERMOB: scheduler stack guard corrupted'' s)
           else (Switches, scheduler_dispatch_enter resume next_task s))"

definition scheduler_dispatch_resume :: "'a scheduler_globals_scheme \<Rightarrow> 'a scheduler_globals_scheme" where
  "scheduler_dispatch_resume s =
     (let s = s\<lparr>scheduler_in_thread_context := False, scheduler_current_task_ptr := scheduler_idle_task s\<rparr>
      in if scheduler_has_ready_non_idle_task s then s\<lparr>scheduler_reschedule_pending := True\<rparr> else s)"

definition scheduler_yield ::
  "u32 \<Rightarrow> 'a scheduler_globals_scheme \<Rightarrow> sched_outcome \<times> 'a scheduler_globals_scheme" where
  "scheduler_yield resume s =
     (let task = scheduler_current_task_ptr s
      in if \<not> scheduler_ready s \<or> \<not> scheduler_in_thread_context s then (Returns, s)
         else if task = 0 \<or> is_idle (scheduler_tasks s task) then (Returns, s)
         else if \<not> scheduler_stack_guard_ok task s
         then scheduler_exit_current_task resume
                (scheduler_mark_task_corrupt task ''TERMOB: scheduler stack guard corrupted'' s)
         else
           let s = upd_task task (\<lambda>t. t\<lparr>yield_count := yield_count t + 1, task_state := SCHEDULER_TASK_READY,
                                        slice_ticks := 0\<rparr>) s;
               s = s\<lparr>scheduler_total_yields := scheduler_total_yields s + 1,
                     scheduler_reschedule_pending := True, scheduler_in_thread_context := False,
                     scheduler_current_task_ptr := scheduler_idle_task s\<rparr>
           in (Switches, scheduler_switch_to_kernel resume task s))"

definition scheduler_yield_resume :: "u32 \<Rightarrow> 'a scheduler_globals_scheme \<Rightarrow> 'a scheduler_globals_scheme" where
  "scheduler_yield_resume task s =
     (let s = s\<lparr>scheduler_in_thread_context := True, scheduler_current_task_ptr := task\<rparr>
      in if task_state (scheduler_tasks s task) \<noteq> SCHEDULER_TASK_EXITED
         then upd_task task (\<lambda>t. t\<lparr>task_state := SCHEDULER_TASK_RUNNING\<rparr>) s else s)"

definition scheduler_should_yield :: "'a scheduler_globals_scheme \<Rightarrow> bool" where
  "scheduler_should_yield s = (scheduler_in_thread_context s \<and> scheduler_reschedule_pending s)"

definition scheduler_is_running_in_task :: "'a scheduler_globals_scheme \<Rightarrow> bool" where
  "scheduler_is_running_in_task s = scheduler_in_thread_context s"

definition scheduler_current_task :: "'a scheduler_globals_scheme \<Rightarrow> u32" where
  "scheduler_current_task s = scheduler_current_task_ptr s"

definition scheduler_task_count :: "'a scheduler_globals_scheme \<Rightarrow> u32" where
  "scheduler_task_count s = scheduler_total_tasks s"

primrec scheduler_count_walk :: "nat \<Rightarrow> u32 \<Rightarrow> u32 \<Rightarrow> 'a scheduler_globals_scheme \<Rightarrow> u32" where
  "scheduler_count_walk 0 task ready_count s = ready_count"
| "scheduler_count_walk (Suc n) task ready_count s =
     (if task = 0 then ready_count
      else scheduler_count_walk n (task_next (scheduler_tasks s task))
             (if task_state (scheduler_tasks s task) = SCHEDULER_TASK_READY \<or>
                 task_state (scheduler_tasks s task) = SCHEDULER_TASK_RUNNING
              then ready_count + 1 else ready_count) s)"

definition scheduler_ready_task_count :: "'a scheduler_globals_scheme \<Rightarrow> u32" where
  "scheduler_ready_task_count s =
     (if \<not> scheduler_ready s then 0
      else scheduler_count_walk (unat (scheduler_total_tasks s)) (scheduler_task_list_head s) 0 s)"

definition scheduler_tick_count :: "'a scheduler_globals_scheme \<Rightarrow> u32" where
  "scheduler_tick_count s = scheduler_tick_counter s"

definition scheduler_timeslice_ticks :: u32 where
  "scheduler_timeslice_ticks = SCHEDULER_DEFAULT_TIMESLICE_TICKS"

definition scheduler_dispatch_count :: "'a scheduler_globals_scheme \<Rightarrow> u32" where
  "scheduler_dispatch_count s = scheduler_total_dispatches s"

definition scheduler_yield_total_count :: "'a scheduler_globals_scheme \<Rightarrow> u32" where
  "scheduler_yield_total_count s = scheduler_total_yields s"

section \<open>The report\<close>

definition scheduler_dump_task :: "u32 \<Rightarrow> 'a scheduler_globals_scheme \<Rightarrow> 'a scheduler_globals_scheme" where
  "scheduler_dump_task task s =
     (let t = scheduler_tasks s task;
          s = terminal_write ''  - '' s;
          s = terminal_write (task_name t) s;
          s = terminal_write ''  ['' s;
          s = terminal_write (scheduler_task_state_name task s) s;
          s = terminal_write '']  dispatch '' s;
          s = scheduler_terminal_write_u32 (dispatch_count t) s;
          s = terminal_write ''  yield '' s;
          s = scheduler_terminal_write_u32 (yield_count t) s;
          s = (if \<not> is_idle t
               then scheduler_terminal_write_u32 (stack_size_bytes t) (terminal_write ''  stack '' s) else s);
          s = (if \<not> scheduler_stack_guard_ok task s then terminal_write ''  guard BAD'' s else s)
      in terminal_putchar (CHR 0x0A) s)"

primrec scheduler_dump_walk :: "nat \<Rightarrow> u32 \<Rightarrow> 'a scheduler_globals_scheme \<Rightarrow> 'a scheduler_globals_scheme" where
  "scheduler_dump_walk 0 task s = s"
| "scheduler_dump_walk (Suc n) task s =
     (if task = 0 then s
      else
        let s = scheduler_dump_task task s
        in scheduler_dump_walk n (task_next (scheduler_tasks s task)) s)"

definition scheduler_dump_to_terminal :: "'a scheduler_globals_scheme \<Rightarrow> 'a scheduler_globals_scheme" where
  "scheduler_dump_to_terminal s =
     (let s = terminal_writeline ''Scheduler foundation:'' s;
          s = terminal_write ''  State      : '' s;
          s = terminal_writeline (if scheduler_ready s then ''ready'' else ''offline'') s;
          s = terminal_write ''  Mode       : '' s;
          s = terminal_writeline ''cooperative kernel threads'' s;
          s = terminal_write ''  In task    : '' s;
          s = terminal_writeline (if scheduler_in_thread_context s then ''yes'' else ''no'') s;
          s = terminal_write ''  Current    : '' s;
          s = terminal_writeline (if scheduler_current_task_ptr s \<noteq> 0
                then task_name (scheduler_tasks s (scheduler_current_task_ptr s)) else ''none'') s;
          s = terminal_write ''  Tasks      : '' s;
          s = scheduler_terminal_write_u32 (scheduler_total_tasks s) s;
          s = terminal_writeline '' total'' s;
          s = terminal_write ''  Ready      : '' s;
          s = scheduler_terminal_write_u32 (scheduler_ready_task_count s) s;
          s = terminal_writeline '' runnable'' s;
          s = terminal_write ''  Timeslice  : '' s;
          s = scheduler_terminal_write_u32 SCHEDULER_DEFAULT_TIMESLICE_TICKS s;
          s = terminal_writeline '' ticks'' s;
          s = terminal_write ''  Dispatches : '' s;
          s = scheduler_terminal_write_u32 (scheduler_total_dispatches s) s;
          s = terminal_putchar (CHR 0x0A) s;
          s = terminal_write ''  Yields     : '' s;
          s = scheduler_terminal_write_u32 (scheduler_total_yields s) s;
          s = terminal_putchar (CHR 0x0A) s
      in scheduler_dump_walk (unat (scheduler_total_tasks s)) (scheduler_task_list_head s) s)"

end
