(* ===== verification/Scheduler_Inv.thy ===== *)
theory Scheduler_Inv
  imports Scheduler Kheap_Contract
begin

text \<open>
  The task list behind the \<open>task_next\<close> pointers, the walks over it, and the two kinds of writes that
  the operations make: to fields that are no links, and the append of a new task.
\<close>

section \<open>The task list\<close>

definition linked :: "(u32 \<Rightarrow> u32) \<Rightarrow> u32 list \<Rightarrow> bool" where
  "linked nx ps \<longleftrightarrow> ps \<noteq> [] \<and> distinct ps \<and> 0 \<notin> set ps \<and>
     (\<forall>i<length ps. nx (ps ! i) = (if Suc i < length ps then ps ! Suc i else 0))"

abbreviation nexts :: "'a scheduler_globals_scheme \<Rightarrow> u32 \<Rightarrow> u32" where
  "nexts s \<equiv> \<lambda>p. task_next (scheduler_tasks s p)"

abbreviation state_of :: "'a scheduler_globals_scheme \<Rightarrow> u32 \<Rightarrow> scheduler_task_state" where
  "state_of s p \<equiv> task_state (scheduler_tasks s p)"

definition sched_list :: "'a scheduler_globals_scheme \<Rightarrow> u32 list \<Rightarrow> bool" where
  "sched_list s ps \<longleftrightarrow> linked (nexts s) ps \<and> scheduler_task_list_head s = hd ps \<and>
     scheduler_task_list_tail s = last ps \<and> scheduler_total_tasks s = word_of_nat (length ps) \<and>
     hd ps = scheduler_idle_task s \<and> (\<forall>p\<in>set ps. is_idle (scheduler_tasks s p) \<longleftrightarrow> p = scheduler_idle_task s)"

text \<open>A list of distinct pointers that are not null has a length that a word holds.\<close>

lemma linked_length: "linked nx ps \<Longrightarrow> length ps < 2 ^ 32"
proof -
  assume l: "linked nx ps"
  then have "set ps \<subseteq> UNIV - {0 :: u32}" "distinct ps" by (auto simp: linked_def)
  then have "length ps \<le> card (UNIV - {0 :: u32})"
    using card_mono [of "UNIV - {0 :: u32}" "set ps"] by (simp add: distinct_card)
  also have "\<dots> = CARD(32 word) - 1" by (simp add: card_Diff_singleton)
  also have "\<dots> < 2 ^ 32" by (simp only: card_word) simp
  finally show ?thesis .
qed

lemma sched_list_total: "sched_list s ps \<Longrightarrow> unat (scheduler_total_tasks s) = length ps"
  using linked_length [of "nexts s" ps] by (simp add: sched_list_def unat_of_nat)

lemma linked_nth: "linked nx ps \<Longrightarrow> i < length ps \<Longrightarrow> ps ! i \<noteq> 0"
  by (metis linked_def nth_mem)

lemma linked_pos: "linked nx ps \<Longrightarrow> 0 < length ps"
  by (simp add: linked_def)

lemma next_after_nth:
  assumes "sched_list s ps" "i < length ps"
  shows "scheduler_next_task_after (ps ! i) s = ps ! (Suc i mod length ps)"
proof -
  have l: "linked (nexts s) ps" "scheduler_task_list_head s = hd ps" using assms(1) by (simp_all add: sched_list_def)
  then have n: "task_next (scheduler_tasks s (ps ! i)) = (if Suc i < length ps then ps ! Suc i else 0)"
    using assms(2) by (simp add: linked_def)
  show ?thesis
  proof (cases "Suc i < length ps")
    case True
    then show ?thesis using n linked_nth [OF l(1)] by (simp add: scheduler_next_task_after_def)
  next
    case False
    then have "Suc i = length ps" using assms(2) by simp
    then show ?thesis using n l by (simp add: scheduler_next_task_after_def hd_conv_nth linked_def)
  qed
qed

definition ready_task :: "'a scheduler_globals_scheme \<Rightarrow> u32 \<Rightarrow> bool" where
  "ready_task s p \<longleftrightarrow> \<not> is_idle (scheduler_tasks s p) \<and> state_of s p = SCHEDULER_TASK_READY"

lemma ready_walk:
  assumes "linked (nexts s) ps" "i < length ps"
  shows "scheduler_ready_walk (length ps - i) (ps ! i) s \<longleftrightarrow> (\<exists>p\<in>set (drop i ps). ready_task s p)"
  using assms(2)
proof (induction "length ps - i" arbitrary: i)
  case (Suc n)
  have d: "drop i ps = ps ! i # drop (Suc i) ps" using Suc.prems by (simp add: Cons_nth_drop_Suc)
  have nz: "ps ! i \<noteq> 0" by (rule linked_nth [OF assms(1) Suc.prems])
  have nx: "task_next (scheduler_tasks s (ps ! i)) = (if Suc i < length ps then ps ! Suc i else 0)"
    using assms(1) Suc.prems by (simp add: linked_def)
  have n: "length ps - i = Suc n" "length ps - Suc i = n" using Suc.hyps(2) by simp_all
  show ?case
  proof (cases "Suc i < length ps")
    case True
    then show ?thesis using Suc.hyps(1) [of "Suc i"] n nz nx d by (auto simp: ready_task_def)
  next
    case False
    then have "n = 0" "drop (Suc i) ps = []" using n Suc.prems by simp_all
    then show ?thesis using n nz d by (auto simp: ready_task_def)
  qed
qed simp

lemma has_ready:
  assumes "sched_list s ps"
  shows "scheduler_has_ready_non_idle_task s \<longleftrightarrow> (\<exists>p\<in>set ps. ready_task s p)"
proof -
  have l: "linked (nexts s) ps" "scheduler_task_list_head s = ps ! 0" "0 < length ps"
    using assms by (auto simp: sched_list_def linked_def hd_conv_nth)
  then show ?thesis
    using ready_walk [OF l(1,3)] by (simp add: scheduler_has_ready_non_idle_task_def sched_list_total [OF assms])
qed

text \<open>The walk of the choice goes once round the list.\<close>

lemma pick_walk:
  assumes "sched_list s ps"
  shows "scheduler_pick_walk m pref (ps ! (k mod length ps)) s =
    (case find (\<lambda>p. state_of s p = SCHEDULER_TASK_READY \<and> (\<not> pref \<or> \<not> is_idle (scheduler_tasks s p)))
            (map (\<lambda>j. ps ! (j mod length ps)) [k..<k + m])
     of Some p \<Rightarrow> p | None \<Rightarrow> scheduler_idle_task s)"
proof (induction m arbitrary: k)
  case (Suc m)
  have l: "linked (nexts s) ps" using assms by (simp add: sched_list_def)
  have i: "k mod length ps < length ps" using linked_pos [OF l] by simp
  have nz: "ps ! (k mod length ps) \<noteq> 0" by (rule linked_nth [OF l i])
  have nx: "scheduler_next_task_after (ps ! (k mod length ps)) s = ps ! (Suc k mod length ps)"
    using next_after_nth [OF assms i] by (simp add: mod_Suc_eq)
  have u: "[k..<k + Suc m] = k # [Suc k..<Suc k + m]" by (simp add: upt_conv_Cons)
  show ?case unfolding u using Suc.IH [of "Suc k"] nz nx by (auto simp del: upt_Suc)
qed simp

lemma rotate_map: "map (\<lambda>j. ps ! (j mod length ps)) [k..<k + length ps] = rotate k ps"
  by (intro nth_equalityI) (simp_all add: nth_rotate)

text \<open>The task that is chosen is the first ready one after the last one that ran, going round.\<close>

definition round_robin :: "u32 list \<Rightarrow> u32 \<Rightarrow> nat \<Rightarrow> (u32 \<Rightarrow> bool) \<Rightarrow> u32" where
  "round_robin ps idle l rdy = (case find rdy (rotate (Suc l) ps) of Some p \<Rightarrow> p | None \<Rightarrow> idle)"

lemma find_SomeD: "find P xs = Some x \<Longrightarrow> x \<in> set xs \<and> P x"
  by (induction xs) (auto split: if_splits)

lemma find_cong_set: "(\<And>x. x \<in> set xs \<Longrightarrow> P x = Q x) \<Longrightarrow> find P xs = find Q xs"
  by (induction xs) auto

lemma pick_next:
  assumes "sched_list s ps" "l < length ps" "scheduler_last_task_ptr s = ps ! l"
    and "state_of s (scheduler_idle_task s) = SCHEDULER_TASK_READY"
  shows "scheduler_pick_next_task s = round_robin ps (scheduler_idle_task s) l (ready_task s)"
proof -
  let ?h = "scheduler_has_ready_non_idle_task s"
  let ?P = "\<lambda>p. state_of s p = SCHEDULER_TASK_READY \<and> (\<not> ?h \<or> \<not> is_idle (scheduler_tasks s p))"
  have l: "linked (nexts s) ps" "scheduler_task_list_head s = hd ps"
    "\<And>p. p \<in> set ps \<Longrightarrow> is_idle (scheduler_tasks s p) \<longleftrightarrow> p = scheduler_idle_task s"
    using assms(1) by (auto simp: sched_list_def)
  then have "scheduler_task_list_head s \<noteq> 0" by (metis linked_def hd_in_set)
  then have "scheduler_pick_next_task s =
      scheduler_pick_walk (length ps) ?h (ps ! (Suc l mod length ps)) s"
    using next_after_nth [OF assms(1,2)] by (simp add: scheduler_pick_next_task_def assms(3) sched_list_total [OF assms(1)])
  also have "\<dots> = (case find ?P (rotate (Suc l) ps) of Some p \<Rightarrow> p | None \<Rightarrow> scheduler_idle_task s)"
    unfolding pick_walk [OF assms(1)] rotate_map ..
  also have "\<dots> = round_robin ps (scheduler_idle_task s) l (ready_task s)"
  proof (cases ?h)
    case True
    then have "find ?P (rotate (Suc l) ps) = find (ready_task s) (rotate (Suc l) ps)"
      by (intro find_cong_set) (auto simp: ready_task_def)
    then show ?thesis by (simp only: round_robin_def)
  next
    case False
    then have none: "\<not> ready_task s p" if "p \<in> set ps" for p using has_ready [OF assms(1)] that by blast
    then have "find (ready_task s) (rotate (Suc l) ps) = None" by (simp add: find_None_iff)
    moreover have "p = scheduler_idle_task s" if "find ?P (rotate (Suc l) ps) = Some p" for p
    proof -
      from find_SomeD [OF that] have "p \<in> set ps" "state_of s p = SCHEDULER_TASK_READY" by simp_all
      then show ?thesis using none l(3) by (auto simp: ready_task_def)
    qed
    ultimately show ?thesis by (auto simp: round_robin_def split: option.splits)
  qed
  finally show ?thesis .
qed

section \<open>Operations that keep the list\<close>

definition sched_same :: "'a scheduler_globals_scheme \<Rightarrow> 'a scheduler_globals_scheme \<Rightarrow> bool" where
  "sched_same s t \<longleftrightarrow>
     (\<forall>p. task_next (scheduler_tasks t p) = task_next (scheduler_tasks s p) \<and>
          is_idle (scheduler_tasks t p) = is_idle (scheduler_tasks s p) \<and>
          task_entry (scheduler_tasks t p) = task_entry (scheduler_tasks s p)) \<and>
     scheduler_task_list_head t = scheduler_task_list_head s \<and>
     scheduler_task_list_tail t = scheduler_task_list_tail s \<and>
     scheduler_total_tasks t = scheduler_total_tasks s \<and>
     scheduler_idle_task t = scheduler_idle_task s \<and> scheduler_ready t = scheduler_ready s \<and>
     heap_mem t = heap_mem s \<and> heap_free_list t = heap_free_list s \<and> heap_first_block t = heap_first_block s \<and>
     heap_ready t = heap_ready s \<and> heap_start_ptr t = heap_start_ptr s \<and> heap_end_ptr t = heap_end_ptr s"

lemma sched_same_list: "sched_same s t \<Longrightarrow> sched_list t ps = sched_list s ps"
  by (simp add: sched_same_def sched_list_def)

lemma sched_same_heap:
  "sched_same s t \<Longrightarrow> heap_inv t = heap_inv s" "sched_same s t \<Longrightarrow> heap_live t = heap_live s"
  "sched_same s t \<Longrightarrow> heap_region t = heap_region s"
  by (simp_all add: sched_same_def heap_inv_same [of t s] heap_region_def)

lemma sched_same_refl [simp]: "sched_same s s"
  by (simp add: sched_same_def)

lemma sched_same_trans: "sched_same s t \<Longrightarrow> sched_same t u \<Longrightarrow> sched_same s u"
  by (simp add: sched_same_def)

lemma sched_fields_more:
  assumes "log_globals.more t = log_globals.more s"
  shows "scheduler_tasks t = scheduler_tasks s" "scheduler_idle_task t = scheduler_idle_task s"
    "scheduler_kernel_context t = scheduler_kernel_context s"
    "scheduler_task_list_head t = scheduler_task_list_head s" "scheduler_task_list_tail t = scheduler_task_list_tail s"
    "scheduler_current_task_ptr t = scheduler_current_task_ptr s" "scheduler_last_task_ptr t = scheduler_last_task_ptr s"
    "scheduler_next_task_id t = scheduler_next_task_id s" "scheduler_total_tasks t = scheduler_total_tasks s"
    "scheduler_ready t = scheduler_ready s" "scheduler_reschedule_pending t = scheduler_reschedule_pending s"
    "scheduler_in_thread_context t = scheduler_in_thread_context s" "cpu_registers t = cpu_registers s"
  using assms by (cases s; cases t; simp)+

lemma scheduler_log_event_more: "log_globals.more (scheduler_log_event m s) = log_globals.more s"
  using log_event_more [of m s] by (simp add: log_event_def scheduler_log_event_def)

lemmas scheduler_log_event_fields [simp] =
  sched_fields_more [OF scheduler_log_event_more] heap_fields_more [OF scheduler_log_event_more]

lemma upd_task_fields [simp]:
  "scheduler_tasks (upd_task p f s) = (scheduler_tasks s)(p := f (scheduler_tasks s p))"
  "scheduler_idle_task (upd_task p f s) = scheduler_idle_task s"
  "scheduler_kernel_context (upd_task p f s) = scheduler_kernel_context s"
  "scheduler_task_list_head (upd_task p f s) = scheduler_task_list_head s"
  "scheduler_task_list_tail (upd_task p f s) = scheduler_task_list_tail s"
  "scheduler_current_task_ptr (upd_task p f s) = scheduler_current_task_ptr s"
  "scheduler_last_task_ptr (upd_task p f s) = scheduler_last_task_ptr s"
  "scheduler_next_task_id (upd_task p f s) = scheduler_next_task_id s"
  "scheduler_total_tasks (upd_task p f s) = scheduler_total_tasks s"
  "scheduler_ready (upd_task p f s) = scheduler_ready s"
  "scheduler_reschedule_pending (upd_task p f s) = scheduler_reschedule_pending s"
  "scheduler_in_thread_context (upd_task p f s) = scheduler_in_thread_context s"
  "cpu_registers (upd_task p f s) = cpu_registers s" "mem (upd_task p f s) = mem s"
  "heap_mem (upd_task p f s) = heap_mem s" "heap_free_list (upd_task p f s) = heap_free_list s"
  "heap_first_block (upd_task p f s) = heap_first_block s" "heap_ready (upd_task p f s) = heap_ready s"
  "heap_start_ptr (upd_task p f s) = heap_start_ptr s" "heap_end_ptr (upd_task p f s) = heap_end_ptr s"
  by (simp_all add: upd_task_def)

lemmas sched_op_defs = scheduler_handle_tick_def scheduler_mark_task_corrupt_def scheduler_dispatch_enter_def
  scheduler_switch_to_task_def scheduler_switch_to_kernel_def scheduler_dispatch_resume_def
  scheduler_yield_resume_def scheduler_context_saved_def Let_def

lemma sched_same_ops:
  "sched_same s (scheduler_handle_tick s)"
  "sched_same s (scheduler_mark_task_corrupt p m s)"
  "sched_same s (scheduler_dispatch_enter resume p s)"
  "sched_same s (scheduler_dispatch_resume s)"
  "sched_same s (scheduler_yield_resume p s)"
  by (simp_all add: sched_op_defs sched_same_def)

end
