(* ===== verification/Scheduler_Props.thy ===== *)
theory Scheduler_Props
  imports Scheduler_Inv Kheap_Props
begin

text \<open>
  Properties of the scheduler as a system: the kernel loop calls \<^verbatim>\<open>scheduler_dispatch\<close>, threads run,
  yield and end, the timer interrupts anywhere, and threads are created. At every point at most
  one task runs, and it is the one that holds the processor; dispatch is round robin; a ready task
  is passed over fewer times than there are tasks.
\<close>

section \<open>The system\<close>

text \<open>
  Who holds the processor. When a context switch leads back into \<^verbatim>\<open>scheduler_yield\<close>, the frame on the
  restored stack is that of the task whose context was loaded. A running thread may change any
  payload byte and its registers; it leaves the statics of the scheduler and of the heap alone.
\<close>

datatype sched_control = InKernel | InThread u32

type_synonym 'a sched_config = "sched_control \<times> 'a scheduler_globals_scheme"

inductive sched_step :: "u32 \<Rightarrow> u32 \<Rightarrow> 'a sched_config \<Rightarrow> u32 list \<Rightarrow> 'a sched_config \<Rightarrow> bool"
  for bootstrap resume :: u32 where
  tick: "sched_step bootstrap resume (c, s) [] (c, scheduler_handle_tick s)"
| create: "scheduler_create_kernel_thread bootstrap name entry ctx request s = Some (p, s') \<Longrightarrow>
    sched_step bootstrap resume (c, s) [] (c, s')"
| dispatch_none: "scheduler_dispatch resume s = (Returns, s') \<Longrightarrow>
    sched_step bootstrap resume (InKernel, s) [] (InKernel, s')"
| dispatch_new: "scheduler_dispatch resume s = (Switches, s') \<Longrightarrow> ctx_eip (cpu_registers s') = bootstrap \<Longrightarrow>
    scheduler_task_bootstrap resume s' = (Some e, Returns, s'') \<Longrightarrow>
    sched_step bootstrap resume (InKernel, s) [scheduler_current_task s''] (InThread (scheduler_current_task s''), s'')"
| dispatch_old: "scheduler_dispatch resume s = (Switches, s') \<Longrightarrow> ctx_eip (cpu_registers s') = resume \<Longrightarrow>
    p = scheduler_current_task s' \<Longrightarrow>
    sched_step bootstrap resume (InKernel, s) [p] (InThread p, scheduler_yield_resume p s')"
| yield_back: "scheduler_yield resume s = (Returns, s') \<Longrightarrow>
    sched_step bootstrap resume (InThread p, s) [] (InThread p, s')"
| yield: "scheduler_yield resume s = (Switches, s') \<Longrightarrow>
    sched_step bootstrap resume (InThread p, s) [] (InKernel, scheduler_dispatch_resume s')"
| exit: "scheduler_exit_current_task resume s = (Switches, s') \<Longrightarrow>
    sched_step bootstrap resume (InThread p, s) [] (InKernel, scheduler_dispatch_resume s')"
| work: "sched_step bootstrap resume (InThread p, s) [] (InThread p, s\<lparr>mem := m, cpu_registers := r\<rparr>)"

inductive sched_run :: "u32 \<Rightarrow> u32 \<Rightarrow> 'a sched_config \<Rightarrow> u32 list \<Rightarrow> 'a sched_config \<Rightarrow> bool"
  for bootstrap resume :: u32 where
  refl: "sched_run bootstrap resume x [] x"
| step: "sched_run bootstrap resume x es y \<Longrightarrow> sched_step bootstrap resume y e z \<Longrightarrow>
    sched_run bootstrap resume x (es @ e) z"

inductive_cases sched_stepE: "sched_step bootstrap resume (c, s) e (c', s')"

lemmas sched_step_cases = sched_stepE [consumes 1,
  case_names tick create dispatch_none dispatch_new dispatch_old yield_back yield exit work]

section \<open>The invariant\<close>

definition sched_wf :: "u32 \<Rightarrow> u32 \<Rightarrow> 'a scheduler_globals_scheme \<Rightarrow> u32 list \<Rightarrow> bool" where
  "sched_wf bootstrap resume s ps \<longleftrightarrow> sched_list s ps \<and> scheduler_ready s \<and> scheduler_last_task_ptr s \<in> set ps \<and>
     state_of s (scheduler_idle_task s) = SCHEDULER_TASK_READY \<and>
     (\<forall>p\<in>set ps. p \<noteq> scheduler_idle_task s \<longrightarrow> state_of s p \<noteq> SCHEDULER_TASK_IDLE \<and>
        task_entry (scheduler_tasks s p) \<noteq> 0 \<and>
        ctx_eip (cpu_context (scheduler_tasks s p)) \<in> {bootstrap, resume} \<and> heap_live s p \<noteq> None) \<and>
     heap_inv s \<and> (scheduler_idle_task s < heap_start_ptr s \<or> heap_end_ptr s \<le> scheduler_idle_task s)"

text \<open>Who runs, seen from the point of control.\<close>

fun sched_at :: "sched_control \<Rightarrow> 'a scheduler_globals_scheme \<Rightarrow> u32 list \<Rightarrow> bool" where
  "sched_at InKernel s ps \<longleftrightarrow> \<not> scheduler_in_thread_context s \<and>
     scheduler_current_task_ptr s = scheduler_idle_task s \<and>
     (\<forall>p\<in>set ps. state_of s p \<noteq> SCHEDULER_TASK_RUNNING) \<and>
     ((\<exists>p\<in>set ps. ready_task s p) \<longrightarrow> scheduler_reschedule_pending s)"
| "sched_at (InThread q) s ps \<longleftrightarrow> scheduler_in_thread_context s \<and> scheduler_current_task_ptr s = q \<and>
     q \<in> set ps \<and> q \<noteq> scheduler_idle_task s \<and>
     (\<forall>p\<in>set ps. state_of s p = SCHEDULER_TASK_RUNNING \<longleftrightarrow> p = q)"

lemma wf_same:
  assumes "sched_wf b r s ps" "sched_same s t" "scheduler_last_task_ptr t \<in> set ps"
    and "state_of t (scheduler_idle_task s) = SCHEDULER_TASK_READY"
    and "\<And>p. p \<in> set ps \<Longrightarrow> p \<noteq> scheduler_idle_task s \<Longrightarrow>
      state_of t p \<noteq> SCHEDULER_TASK_IDLE \<and> ctx_eip (cpu_context (scheduler_tasks t p)) \<in> {b, r}"
  shows "sched_wf b r t ps"
proof -
  have i: "scheduler_idle_task t = scheduler_idle_task s" "scheduler_ready t = scheduler_ready s"
    "heap_start_ptr t = heap_start_ptr s" "heap_end_ptr t = heap_end_ptr s"
    "\<And>p. task_entry (scheduler_tasks t p) = task_entry (scheduler_tasks s p)"
    using assms(2) by (simp_all add: sched_same_def)
  show ?thesis
    using assms(1,3-5) sched_same_list [OF assms(2)] sched_same_heap [OF assms(2)]
    unfolding sched_wf_def i by auto
qed

lemma wf_facts:
  assumes "sched_wf b r s ps"
  shows "scheduler_idle_task s \<in> set ps" "scheduler_idle_task s \<noteq> 0" "0 \<notin> set ps"
    "\<And>p. p \<in> set ps \<Longrightarrow> is_idle (scheduler_tasks s p) \<longleftrightarrow> p = scheduler_idle_task s"
    "state_of s (scheduler_idle_task s) = SCHEDULER_TASK_READY"
  using assms hd_in_set [of ps] by (auto simp: sched_wf_def sched_list_def linked_def)

lemma tick_inv:
  assumes "sched_wf b r s ps" "sched_at c s ps"
  shows "sched_wf b r (scheduler_handle_tick s) ps" "sched_at c (scheduler_handle_tick s) ps"
proof -
  let ?t = "scheduler_handle_tick s"
  have f: "state_of ?t p = state_of s p" "is_idle (scheduler_tasks ?t p) = is_idle (scheduler_tasks s p)"
    "cpu_context (scheduler_tasks ?t p) = cpu_context (scheduler_tasks s p)"
    "scheduler_last_task_ptr ?t = scheduler_last_task_ptr s" "scheduler_idle_task ?t = scheduler_idle_task s"
    "scheduler_in_thread_context ?t = scheduler_in_thread_context s"
    "scheduler_current_task_ptr ?t = scheduler_current_task_ptr s"
    "scheduler_reschedule_pending s \<Longrightarrow> scheduler_reschedule_pending ?t" for p
    by (simp_all add: scheduler_handle_tick_def Let_def)
  show "sched_wf b r ?t ps"
    by (rule wf_same [OF assms(1) sched_same_ops(1)]) (use assms(1) in \<open>auto simp: sched_wf_def f\<close>)
  show "sched_at c ?t ps"
    using assms(2) by (cases c) (auto simp: f ready_task_def)
qed

lemma work_inv:
  assumes "sched_wf b r s ps" "sched_at c s ps"
  shows "sched_wf b r (s\<lparr>mem := m, cpu_registers := x\<rparr>) ps" "sched_at c (s\<lparr>mem := m, cpu_registers := x\<rparr>) ps"
proof -
  let ?t = "s\<lparr>mem := m, cpu_registers := x\<rparr>"
  have "sched_same s ?t" by (simp add: sched_same_def)
  then show "sched_wf b r ?t ps"
    by (rule wf_same [OF assms(1)]) (use assms(1) in \<open>auto simp: sched_wf_def\<close>)
  show "sched_at c ?t ps" using assms(2) by (cases c) (auto simp: ready_task_def)
qed

text \<open>Control comes back from a thread that is not running any more.\<close>

lemma resume_inv:
  assumes "sched_wf b r s ps" "\<forall>p\<in>set ps. state_of s p \<noteq> SCHEDULER_TASK_RUNNING"
  shows "sched_wf b r (scheduler_dispatch_resume s) ps" "sched_at InKernel (scheduler_dispatch_resume s) ps"
proof -
  let ?t = "scheduler_dispatch_resume s"
  let ?u = "s\<lparr>scheduler_in_thread_context := False, scheduler_current_task_ptr := scheduler_idle_task s\<rparr>"
  have f: "scheduler_tasks ?t = scheduler_tasks s" "scheduler_last_task_ptr ?t = scheduler_last_task_ptr s"
    "scheduler_idle_task ?t = scheduler_idle_task s" "\<not> scheduler_in_thread_context ?t"
    "scheduler_current_task_ptr ?t = scheduler_idle_task s"
    by (simp_all add: scheduler_dispatch_resume_def Let_def)
  show "sched_wf b r ?t ps"
    by (rule wf_same [OF assms(1) sched_same_ops(4)]) (use assms(1) in \<open>auto simp: sched_wf_def f\<close>)
  have "sched_list ?u ps"
    using assms(1) sched_same_list [of s ?u ps] by (simp add: sched_wf_def sched_same_def)
  from has_ready [OF this] have "(\<exists>p\<in>set ps. ready_task ?t p) \<longrightarrow> scheduler_reschedule_pending ?t"
    by (auto simp: scheduler_dispatch_resume_def Let_def ready_task_def)
  then show "sched_at InKernel ?t ps" using assms(2) f by simp
qed

text \<open>What \<^verbatim>\<open>scheduler_dispatch\<close> does, by the task that is next.\<close>

lemma wf_last:
  assumes "sched_wf b r s ps"
  obtains l where "l < length ps" "scheduler_last_task_ptr s = ps ! l"
  using assms by (auto simp: sched_wf_def in_set_conv_nth)

lemma robin_ready:
  assumes "find rdy (rotate (Suc l) ps) = Some p"
  shows "p \<in> set ps" "rdy p" "round_robin ps idle l rdy = p"
  using find_SomeD [OF assms] assms by (simp_all add: round_robin_def)

lemma dispatch_cases:
  assumes "sched_wf b r s ps" "sched_at InKernel s ps" "l < length ps" "scheduler_last_task_ptr s = ps ! l"
  shows "scheduler_dispatch r s =
    (if \<not> scheduler_reschedule_pending s then (Returns, s)
     else case find (ready_task s) (rotate (Suc l) ps) of
       None \<Rightarrow> (Returns, s\<lparr>scheduler_current_task_ptr := scheduler_idle_task s, scheduler_reschedule_pending := False\<rparr>)
     | Some p \<Rightarrow> if scheduler_stack_guard_ok p s then (Switches, scheduler_dispatch_enter r p s)
                 else (Returns, scheduler_mark_task_corrupt p ''TERMOB: scheduler stack guard corrupted'' s))"
proof -
  note w = wf_facts [OF assms(1)]
  have s: "scheduler_ready s" "\<not> scheduler_in_thread_context s" "sched_list s ps"
    using assms(1,2) by (simp_all add: sched_wf_def)
  have pick: "scheduler_pick_next_task s = round_robin ps (scheduler_idle_task s) l (ready_task s)"
    by (rule pick_next [OF s(3) assms(3,4) w(5)])
  show ?thesis
  proof (cases "find (ready_task s) (rotate (Suc l) ps)")
    case None
    then have "scheduler_pick_next_task s = scheduler_idle_task s" by (simp add: pick round_robin_def)
    then show ?thesis using None s w(1,4) by (simp add: scheduler_dispatch_def)
  next
    case (Some p)
    note p = robin_ready [OF Some]
    have "p \<noteq> 0" "\<not> is_idle (scheduler_tasks s p)" using p(1,2) w(3) by (auto simp: ready_task_def)
    then show ?thesis using Some s p(3) by (simp add: scheduler_dispatch_def pick)
  qed
qed

lemma enter_inv:
  assumes "sched_wf b r s ps" "sched_at InKernel s ps" "p \<in> set ps" "ready_task s p"
  shows "sched_wf b r (scheduler_dispatch_enter r p s) ps"
    "sched_at (InThread p) (scheduler_dispatch_enter r p s) ps"
    "ctx_eip (cpu_registers (scheduler_dispatch_enter r p s)) \<in> {b, r}"
proof -
  let ?t = "scheduler_dispatch_enter r p s"
  have np: "p \<noteq> scheduler_idle_task s" using assms(3,4) wf_facts(4) [OF assms(1)] by (auto simp: ready_task_def)
  have f: "scheduler_tasks ?t = (scheduler_tasks s)(p := (scheduler_tasks s p)\<lparr>task_state := SCHEDULER_TASK_RUNNING,
      slice_ticks := 0, dispatch_count := dispatch_count (scheduler_tasks s p) + 1\<rparr>)"
    "scheduler_last_task_ptr ?t = p" "scheduler_current_task_ptr ?t = p" "scheduler_in_thread_context ?t"
    "scheduler_idle_task ?t = scheduler_idle_task s" "cpu_registers ?t = cpu_context (scheduler_tasks s p)"
    by (simp_all add: sched_op_defs)
  show "sched_wf b r ?t ps"
    by (rule wf_same [OF assms(1) sched_same_ops(3)]) (use assms(1,3) np in \<open>auto simp: sched_wf_def f\<close>)
  show "sched_at (InThread p) ?t ps" using assms(2,3) np by (auto simp: f)
  show "ctx_eip (cpu_registers ?t) \<in> {b, r}" using assms(1,3) np by (auto simp: f sched_wf_def)
qed

lemma corrupt_wf:
  fixes m :: string
  assumes "sched_wf b r s ps" "p \<in> set ps" "p \<noteq> scheduler_idle_task s" "state_of s p \<noteq> SCHEDULER_TASK_EXITED"
  defines "t \<equiv> scheduler_mark_task_corrupt p m s"
  shows "sched_wf b r t ps" "scheduler_tasks t = (scheduler_tasks s)(p := (scheduler_tasks s p)\<lparr>task_state := SCHEDULER_TASK_EXITED\<rparr>)"
    "scheduler_last_task_ptr t = scheduler_last_task_ptr s" "scheduler_current_task_ptr t = scheduler_current_task_ptr s"
    "scheduler_in_thread_context t = scheduler_in_thread_context s" "scheduler_reschedule_pending t"
    "scheduler_idle_task t = scheduler_idle_task s"
proof -
  have "p \<noteq> 0" using assms(2) wf_facts(3) [OF assms(1)] by auto
  then show f: "scheduler_tasks t = (scheduler_tasks s)(p := (scheduler_tasks s p)\<lparr>task_state := SCHEDULER_TASK_EXITED\<rparr>)"
    "scheduler_last_task_ptr t = scheduler_last_task_ptr s" "scheduler_current_task_ptr t = scheduler_current_task_ptr s"
    "scheduler_in_thread_context t = scheduler_in_thread_context s" "scheduler_reschedule_pending t"
    "scheduler_idle_task t = scheduler_idle_task s"
    using assms(4) by (simp_all add: t_def scheduler_mark_task_corrupt_def)
  show "sched_wf b r t ps"
    by (rule wf_same [OF assms(1) sched_same_ops(2) [of s p m, folded t_def]])
      (use assms(1,3) in \<open>auto simp: sched_wf_def f\<close>)
qed

lemma corrupt_inv:
  assumes "sched_wf b r s ps" "sched_at InKernel s ps" "p \<in> set ps" "ready_task s p"
  shows "sched_wf b r (scheduler_mark_task_corrupt p m s) ps" "sched_at InKernel (scheduler_mark_task_corrupt p m s) ps"
proof -
  have "p \<noteq> scheduler_idle_task s" "state_of s p \<noteq> SCHEDULER_TASK_EXITED"
    using assms(3,4) wf_facts(4) [OF assms(1)] by (auto simp: ready_task_def)
  note c = corrupt_wf [OF assms(1,3) this, of m]
  show "sched_wf b r (scheduler_mark_task_corrupt p m s) ps" by (rule c(1))
  show "sched_at InKernel (scheduler_mark_task_corrupt p m s) ps" using assms(2) by (auto simp: c)
qed

lemma idle_inv:
  assumes "sched_wf b r s ps" "sched_at InKernel s ps" "\<not> (\<exists>p\<in>set ps. ready_task s p)"
  defines "t \<equiv> s\<lparr>scheduler_current_task_ptr := scheduler_idle_task s, scheduler_reschedule_pending := False\<rparr>"
  shows "sched_wf b r t ps" "sched_at InKernel t ps"
proof -
  have "sched_same s t" by (simp add: t_def sched_same_def)
  then show "sched_wf b r t ps"
    by (rule wf_same [OF assms(1)]) (use assms(1) in \<open>auto simp: sched_wf_def t_def\<close>)
  show "sched_at InKernel t ps" using assms(2,3) by (auto simp: t_def ready_task_def)
qed

text \<open>A thread gives the processor back.\<close>

lemma exit_inv:
  assumes "sched_wf b r s ps" "scheduler_current_task_ptr s = q" "q \<in> set ps" "q \<noteq> scheduler_idle_task s"
    and "\<forall>p\<in>set ps. p \<noteq> q \<longrightarrow> state_of s p \<noteq> SCHEDULER_TASK_RUNNING"
  shows "\<exists>s'. scheduler_exit_current_task r s = (Switches, s') \<and> sched_wf b r s' ps \<and>
    (\<forall>p\<in>set ps. state_of s' p \<noteq> SCHEDULER_TASK_RUNNING) \<and> state_of s' q = SCHEDULER_TASK_EXITED \<and>
    (\<forall>p. p \<noteq> q \<longrightarrow> scheduler_tasks s' p = scheduler_tasks s p) \<and> scheduler_last_task_ptr s' = scheduler_last_task_ptr s"
proof -
  have nq: "q \<noteq> 0" "\<not> is_idle (scheduler_tasks s q)" using assms(3,4) wf_facts(3,4) [OF assms(1)] by auto
  define s' where "s' = snd (scheduler_exit_current_task r s)"
  have e: "scheduler_exit_current_task r s = (Switches, s')"
    using nq by (simp add: scheduler_exit_current_task_def s'_def assms(2) Let_def)
  have f: "scheduler_tasks s' = (scheduler_tasks s)(q := (scheduler_tasks s q)\<lparr>task_state := SCHEDULER_TASK_EXITED,
      slice_ticks := 0, exit_count := exit_count (scheduler_tasks s q) + 1,
      cpu_context := scheduler_context_saved r (cpu_registers s)\<rparr>)" "scheduler_last_task_ptr s' = scheduler_last_task_ptr s"
    using nq by (simp_all add: s'_def scheduler_exit_current_task_def assms(2) Let_def scheduler_switch_to_kernel_def)
  have "sched_same s s'"
    using nq by (simp add: s'_def scheduler_exit_current_task_def assms(2) Let_def scheduler_switch_to_kernel_def sched_same_def)
  then have "sched_wf b r s' ps"
    by (rule wf_same [OF assms(1)])
      (use assms(1,4) in \<open>auto simp: sched_wf_def f scheduler_context_saved_def\<close>)
  then show ?thesis using e f assms(5) by simp
qed

lemma yield_inv:
  assumes "sched_wf b r s ps" "sched_at (InThread q) s ps"
  shows "\<exists>s'. scheduler_yield r s = (Switches, s') \<and> sched_wf b r s' ps \<and>
    (\<forall>p\<in>set ps. state_of s' p \<noteq> SCHEDULER_TASK_RUNNING) \<and>
    (\<forall>p. p \<noteq> q \<longrightarrow> scheduler_tasks s' p = scheduler_tasks s p) \<and> scheduler_last_task_ptr s' = scheduler_last_task_ptr s"
proof -
  have q: "scheduler_current_task_ptr s = q" "scheduler_in_thread_context s" "q \<in> set ps" "q \<noteq> scheduler_idle_task s"
    "\<forall>p\<in>set ps. state_of s p = SCHEDULER_TASK_RUNNING \<longleftrightarrow> p = q" using assms(2) by simp_all
  have nq: "q \<noteq> 0" "\<not> is_idle (scheduler_tasks s q)" "scheduler_ready s"
    using q(3,4) wf_facts(3,4) [OF assms(1)] assms(1) by (auto simp: sched_wf_def)
  show ?thesis
  proof (cases "scheduler_stack_guard_ok q s")
    case False
    let ?t = "scheduler_mark_task_corrupt q ''TERMOB: scheduler stack guard corrupted'' s"
    have "state_of s q = SCHEDULER_TASK_RUNNING" using q(3,5) by blast
    then have "state_of s q \<noteq> SCHEDULER_TASK_EXITED" by simp
    note c = corrupt_wf [OF assms(1) q(3,4) this, of "''TERMOB: scheduler stack guard corrupted''"]
    have "scheduler_yield r s = scheduler_exit_current_task r ?t"
      using False nq q(1,2) by (simp add: scheduler_yield_def)
    moreover have "\<exists>s'. scheduler_exit_current_task r ?t = (Switches, s') \<and> sched_wf b r s' ps \<and>
      (\<forall>p\<in>set ps. state_of s' p \<noteq> SCHEDULER_TASK_RUNNING) \<and> state_of s' q = SCHEDULER_TASK_EXITED \<and>
      (\<forall>p. p \<noteq> q \<longrightarrow> scheduler_tasks s' p = scheduler_tasks ?t p) \<and> scheduler_last_task_ptr s' = scheduler_last_task_ptr ?t"
      by (rule exit_inv [OF c(1)]) (use q c(2,4,7) in auto)
    ultimately show ?thesis by (auto simp: c(2,3))
  next
    case True
    define s' where "s' = snd (scheduler_yield r s)"
    have e: "scheduler_yield r s = (Switches, s')"
      using True nq q(1,2) by (simp add: scheduler_yield_def s'_def Let_def)
    have f: "scheduler_tasks s' = (scheduler_tasks s)(q := (scheduler_tasks s q)\<lparr>yield_count := yield_count (scheduler_tasks s q) + 1,
        task_state := SCHEDULER_TASK_READY, slice_ticks := 0,
        cpu_context := scheduler_context_saved r (cpu_registers s)\<rparr>)" "scheduler_last_task_ptr s' = scheduler_last_task_ptr s"
      using True nq q(1,2) by (simp_all add: s'_def scheduler_yield_def Let_def scheduler_switch_to_kernel_def)
    have "sched_same s s'"
      using True nq q(1,2) by (simp add: s'_def scheduler_yield_def Let_def scheduler_switch_to_kernel_def sched_same_def)
    then have "sched_wf b r s' ps"
      by (rule wf_same [OF assms(1)])
        (use assms(1) q(4) in \<open>auto simp: sched_wf_def f scheduler_context_saved_def\<close>)
    then show ?thesis using e f q(5) by auto
  qed
qed

lemma yield_resume_inv:
  assumes "sched_wf b r s ps" "sched_at (InThread q) s ps"
  shows "sched_wf b r (scheduler_yield_resume q s) ps" "sched_at (InThread q) (scheduler_yield_resume q s) ps"
    "\<And>p. p \<noteq> q \<Longrightarrow> scheduler_tasks (scheduler_yield_resume q s) p = scheduler_tasks s p"
    "scheduler_last_task_ptr (scheduler_yield_resume q s) = scheduler_last_task_ptr s"
proof -
  let ?t = "scheduler_yield_resume q s"
  have q: "state_of s q = SCHEDULER_TASK_RUNNING" "q \<noteq> scheduler_idle_task s" using assms(2) by auto
  then have f: "scheduler_tasks ?t = (scheduler_tasks s)(q := (scheduler_tasks s q)\<lparr>task_state := SCHEDULER_TASK_RUNNING\<rparr>)"
    "scheduler_last_task_ptr ?t = scheduler_last_task_ptr s" "scheduler_in_thread_context ?t"
    "scheduler_current_task_ptr ?t = q" "scheduler_idle_task ?t = scheduler_idle_task s"
    by (simp_all add: scheduler_yield_resume_def Let_def)
  show "sched_wf b r ?t ps"
    by (rule wf_same [OF assms(1) sched_same_ops(5)]) (use assms(1) q in \<open>auto simp: sched_wf_def f\<close>)
  show "sched_at (InThread q) ?t ps" using assms(2) by (auto simp: f)
  show "\<And>p. p \<noteq> q \<Longrightarrow> scheduler_tasks ?t p = scheduler_tasks s p"
    "scheduler_last_task_ptr ?t = scheduler_last_task_ptr s" by (simp_all add: f)
qed

section \<open>Creating a thread\<close>

lemma linked_snoc:
  assumes "linked nx ps" "p \<notin> set ps" "p \<noteq> 0"
  shows "linked (nx(last ps := p, p := 0)) (ps @ [p])"
proof -
  have ps: "ps \<noteq> []" "distinct ps" "0 \<notin> set ps" using assms(1) by (simp_all add: linked_def)
  have "last ps = ps ! (length ps - 1)" using ps(1) by (simp add: last_conv_nth)
  then have l: "ps ! i = last ps \<longleftrightarrow> i = length ps - 1" if "i < length ps" for i
    using that ps(1,2) by (simp add: nth_eq_iff_index_eq)
  have n: "ps ! i \<noteq> p" if "i < length ps" for i using that assms(2) by auto
  have lp: "last ps \<noteq> p" using assms(2) ps(1) by auto
  have "(nx(last ps := p, p := 0)) ((ps @ [p]) ! i) = (if Suc i < length (ps @ [p]) then (ps @ [p]) ! Suc i else 0)"
    if "i < length (ps @ [p])" for i
  proof (cases "i < length ps")
    case True
    have "nx (ps ! i) = (if Suc i < length ps then ps ! Suc i else 0)" using assms(1) True by (simp add: linked_def)
    then show ?thesis using True l [OF True] n [OF True] by (auto simp: nth_append)
  next
    case False
    then show ?thesis using that by (simp add: less_Suc_eq)
  qed
  then show ?thesis using ps assms(2,3) by (auto simp: linked_def)
qed

lemma stack_bytes_fit: "kcalloc_fits (1, scheduler_stack_bytes n)"
proof -
  have "unat (scheduler_align_up_u32 x 16) \<le> 0xFFFFFFF0" for x
  proof -
    have "scheduler_align_up_u32 x 16 = align_up_word x (2 ^ 4)"
      by (simp add: scheduler_align_up_u32_def align_up_word_def) (simp only: add.commute)
    then have "unat (scheduler_align_up_u32 x 16) = unat (x + mask 4) div 16 * 16"
      using unat_align_up [of x 4] by simp
    moreover have "unat (x + mask 4) div 16 \<le> 4294967295 div 16"
      using u32_less [of "x + mask 4"] by (intro div_le_mono) simp
    ultimately show ?thesis by simp
  qed
  then show ?thesis by (simp add: kcalloc_fits_def scheduler_stack_bytes_def Let_def)
qed

text \<open>The heap functions leave the statics of the scheduler alone.\<close>

lemma sched_fields_heap_more:
  assumes "heap_globals.more t = heap_globals.more s"
  shows "scheduler_tasks t = scheduler_tasks s" "scheduler_idle_task t = scheduler_idle_task s"
    "scheduler_task_list_head t = scheduler_task_list_head s" "scheduler_task_list_tail t = scheduler_task_list_tail s"
    "scheduler_current_task_ptr t = scheduler_current_task_ptr s" "scheduler_last_task_ptr t = scheduler_last_task_ptr s"
    "scheduler_next_task_id t = scheduler_next_task_id s"
    "scheduler_total_tasks t = scheduler_total_tasks s" "scheduler_ready t = scheduler_ready s"
    "scheduler_reschedule_pending t = scheduler_reschedule_pending s"
    "scheduler_in_thread_context t = scheduler_in_thread_context s"
  using assms by (cases s; cases t; simp)+

text \<open>
  A state with the same tasks on the list, whatever a new task holds, and a heap in which they are
  still live.
\<close>

definition sched_keeps :: "u32 list \<Rightarrow> 'a scheduler_globals_scheme \<Rightarrow> 'a scheduler_globals_scheme \<Rightarrow> bool" where
  "sched_keeps ps s t \<longleftrightarrow> (\<forall>p\<in>set ps. scheduler_tasks t p = scheduler_tasks s p) \<and>
     scheduler_idle_task t = scheduler_idle_task s \<and>
     scheduler_task_list_head t = scheduler_task_list_head s \<and> scheduler_task_list_tail t = scheduler_task_list_tail s \<and>
     scheduler_current_task_ptr t = scheduler_current_task_ptr s \<and> scheduler_last_task_ptr t = scheduler_last_task_ptr s \<and>
     scheduler_total_tasks t = scheduler_total_tasks s \<and> scheduler_ready t = scheduler_ready s \<and>
     scheduler_reschedule_pending t = scheduler_reschedule_pending s \<and>
     scheduler_in_thread_context t = scheduler_in_thread_context s \<and>
     heap_region t = heap_region s \<and> heap_inv t \<and>
     (\<forall>p\<in>set ps. heap_live s p \<noteq> None \<longrightarrow> heap_live t p \<noteq> None)"

lemma linked_cong: "(\<And>p. p \<in> set ps \<Longrightarrow> nx' p = nx p) \<Longrightarrow> linked nx' ps = linked nx ps"
  by (auto simp: linked_def)

lemma linked_unique:
  assumes "linked nx ps" "linked nx qs" "hd ps = hd qs"
  shows "ps = qs"
proof -
  have *: "i < length ps \<Longrightarrow> i < length qs \<and> ps ! i = qs ! i" if "linked nx ps" "linked nx qs" "hd ps = hd qs" for i ps qs
  proof (induction i)
    case 0
    then show ?case using that by (auto simp: linked_def hd_conv_nth)
  next
    case (Suc i)
    then have i: "i < length qs" "ps ! i = qs ! i" by auto
    have "nx (ps ! i) = ps ! Suc i" "ps ! Suc i \<noteq> 0"
      using that(1) Suc.prems linked_nth [OF that(1), of "Suc i"] by (simp_all add: linked_def)
    moreover have "nx (qs ! i) = (if Suc i < length qs then qs ! Suc i else 0)"
      using that(2) i(1) by (simp add: linked_def)
    ultimately show ?case using i(2) by (auto split: if_splits)
  qed
  have "length ps \<le> length qs"
    using * [OF assms, of "length ps - 1"] assms(1) by (simp add: linked_def) linarith
  moreover have "length qs \<le> length ps"
    using * [OF assms(2,1) assms(3) [symmetric], of "length qs - 1"] assms(2) by (simp add: linked_def) linarith
  ultimately show ?thesis using * [OF assms] by (intro nth_equalityI) auto
qed

lemma keeps_inv:
  assumes "sched_keeps ps s t" "sched_wf b r s ps" "sched_at c s ps"
  shows "sched_wf b r t ps" "sched_at c t ps"
proof -
  have k: "\<And>p. p \<in> set ps \<Longrightarrow> scheduler_tasks t p = scheduler_tasks s p" using assms(1) by (simp add: sched_keeps_def)
  have i: "scheduler_idle_task s \<in> set ps" by (rule wf_facts(1) [OF assms(2)])
  have h: "heap_start_ptr t = heap_start_ptr s" "heap_end_ptr t = heap_end_ptr s"
    using assms(1) by (simp_all add: sched_keeps_def heap_region_def)
  have "sched_list t ps"
    using assms(1,2) k linked_cong [of ps "nexts t" "nexts s"] by (simp add: sched_wf_def sched_list_def sched_keeps_def)
  then show "sched_wf b r t ps"
    using assms(1,2) k i h unfolding sched_wf_def sched_keeps_def by auto
  show "sched_at c t ps"
    using assms(1,3) k i by (cases c) (auto simp: sched_keeps_def ready_task_def)
qed

lemma keeps_refl: "sched_wf b r s ps \<Longrightarrow> sched_keeps ps s s"
  by (simp add: sched_keeps_def sched_wf_def)

lemma keeps_trans: "sched_keeps ps s t \<Longrightarrow> sched_keeps ps t u \<Longrightarrow> sched_keeps ps s u"
  by (auto simp: sched_keeps_def)

lemma keeps_kcalloc:
  assumes "heap_inv s" "kcalloc_fits (1, n)" "kcalloc 1 n s = Some (p, t)"
  shows "sched_keeps ps s t" "p \<noteq> 0 \<Longrightarrow> heap_live s p = None" "p \<noteq> 0 \<Longrightarrow> heap_live t p \<noteq> None"
    "p \<noteq> 0 \<Longrightarrow> n \<noteq> 0 \<Longrightarrow> heap_start_ptr s \<le> p \<and> p < heap_end_ptr s" "scheduler_tasks t = scheduler_tasks s"
    "\<And>q. heap_live s q \<noteq> None \<Longrightarrow> heap_live t q \<noteq> None" "heap_inv t"
proof -
  have k: "heap_inv t" "heap_region t = heap_region s" "heap_globals.more t = heap_globals.more s"
    "if p = 0 then heap_live t = heap_live s
     else heap_live s p = None \<and> (\<exists>k\<ge>unat (1 :: u32) * unat n. heap_live t = (heap_live s)(p \<mapsto> k))"
    using kcalloc_contract [OF assms(1,2)] assms(3) by auto
  note m = sched_fields_heap_more [OF k(3)]
  show l: "\<And>q. heap_live s q \<noteq> None \<Longrightarrow> heap_live t q \<noteq> None" using k(4) by (auto split: if_splits)
  then show "sched_keeps ps s t" using k m by (simp add: sched_keeps_def)
  show "p \<noteq> 0 \<Longrightarrow> heap_live s p = None" "p \<noteq> 0 \<Longrightarrow> heap_live t p \<noteq> None"
    "scheduler_tasks t = scheduler_tasks s" "heap_inv t" using k m by auto
  show "heap_start_ptr s \<le> p \<and> p < heap_end_ptr s" if nz: "p \<noteq> 0" "n \<noteq> 0"
  proof -
    obtain j where j: "heap_live t p = Some j" "unat n \<le> j" using k(4) nz by (auto split: if_splits)
    then obtain q where q: "unat p = q + 32" "(q, j, False) \<in> set (heap_blocks t)"
      using heap_live_Some [OF k(1)] by blast
    have "unat (heap_start_ptr t) \<le> q" "q + 32 + j \<le> unat (heap_end_ptr t)"
      using tiled_bounds [OF heap_inv_tiled [OF k(1)] q(2)] by auto
    moreover have "0 < j" using j(2) nz(2) unat_gt_0 [of n] by linarith
    ultimately show ?thesis using q(1) k(2) by (simp add: heap_region_def word_le_nat_alt word_less_nat_alt)
  qed
qed

lemma keeps_upd:
  "sched_wf b r s ps \<Longrightarrow> p \<notin> set ps \<Longrightarrow> sched_keeps ps s (upd_task p f s)"
  "sched_wf b r s ps \<Longrightarrow> sched_keeps ps s (scheduler_log_event m s)"
  "sched_wf b r s ps \<Longrightarrow> sched_keeps ps s (s\<lparr>mem := x\<rparr>)"
  "sched_wf b r s ps \<Longrightarrow> sched_keeps ps s (s\<lparr>scheduler_next_task_id := i\<rparr>)"
proof -
  assume w: "sched_wf b r s ps"
  have h: "heap_inv t = heap_inv s" "heap_live t = heap_live s" if "sched_same s t" for t :: "'a scheduler_globals_scheme"
    using sched_same_heap [OF that] by simp_all
  have u: "heap_inv (upd_task p f s) = heap_inv s" "heap_live (upd_task p f s) = heap_live s" for p f
    by (rule heap_inv_same; simp)+
  show "p \<notin> set ps \<Longrightarrow> sched_keeps ps s (upd_task p f s)"
    using w by (auto simp: sched_keeps_def sched_wf_def u heap_region_def)
  have l: "sched_same s (scheduler_log_event m s)" by (simp add: sched_same_def)
  show "sched_keeps ps s (scheduler_log_event m s)"
    using w by (simp add: sched_keeps_def sched_wf_def h [OF l] heap_region_def)
  have l: "sched_same s (s\<lparr>mem := x\<rparr>)" by (simp add: sched_same_def)
  show "sched_keeps ps s (s\<lparr>mem := x\<rparr>)"
    using w by (simp add: sched_keeps_def sched_wf_def h [OF l] heap_region_def)
  have l: "sched_same s (s\<lparr>scheduler_next_task_id := i\<rparr>)" by (simp add: sched_same_def)
  show "sched_keeps ps s (s\<lparr>scheduler_next_task_id := i\<rparr>)"
    using w by (simp add: sched_keeps_def sched_wf_def h [OF l] heap_region_def)
qed

text \<open>The append of a task that is ready to start.\<close>

lemma link_inv:
  assumes "sched_wf b r s ps" "sched_at c s ps" "p \<notin> set ps" "p \<noteq> 0"
    and "ready_task s p" "task_entry (scheduler_tasks s p) \<noteq> 0"
    and "ctx_eip (cpu_context (scheduler_tasks s p)) = b" "heap_live s p \<noteq> None"
  defines "t \<equiv> (scheduler_link_task p s)\<lparr>scheduler_total_tasks := scheduler_total_tasks s + 1,
    scheduler_reschedule_pending := True\<rparr>"
  shows "sched_wf b r t (ps @ [p])" "sched_at c t (ps @ [p])" "scheduler_last_task_ptr t = scheduler_last_task_ptr s"
    "\<And>q. state_of t q = state_of s q" "\<And>q. is_idle (scheduler_tasks t q) = is_idle (scheduler_tasks s q)"
proof -
  have l: "linked (nexts s) ps" "scheduler_task_list_head s \<noteq> 0" "scheduler_task_list_tail s = last ps" "ps \<noteq> []"
    "scheduler_task_list_head s = hd ps" "hd ps = scheduler_idle_task s"
    "scheduler_total_tasks s = word_of_nat (length ps)"
    using assms(1) wf_facts(2) [OF assms(1)] by (simp_all add: sched_wf_def sched_list_def linked_def)
  have lp: "last ps \<noteq> p" "p \<noteq> scheduler_idle_task s" using assms(3) l(4) wf_facts(1) [OF assms(1)] by auto
  have f: "scheduler_tasks t = (scheduler_tasks s)(last ps := (scheduler_tasks s (last ps))\<lparr>task_next := p\<rparr>,
      p := (scheduler_tasks s p)\<lparr>task_next := 0\<rparr>)" "scheduler_task_list_head t = hd ps" "scheduler_task_list_tail t = p"
    "scheduler_total_tasks t = scheduler_total_tasks s + 1" "scheduler_reschedule_pending t"
    "scheduler_current_task_ptr t = scheduler_current_task_ptr s" "scheduler_idle_task t = scheduler_idle_task s"
    "scheduler_ready t = scheduler_ready s" "scheduler_in_thread_context t = scheduler_in_thread_context s"
    "heap_start_ptr t = heap_start_ptr s" "heap_end_ptr t = heap_end_ptr s"
    using l lp by (simp_all add: t_def scheduler_link_task_def Let_def)
  show g: "scheduler_last_task_ptr t = scheduler_last_task_ptr s" "\<And>q. state_of t q = state_of s q"
    "\<And>q. is_idle (scheduler_tasks t q) = is_idle (scheduler_tasks s q)"
    using l lp by (simp_all add: t_def scheduler_link_task_def Let_def)
  have h: "heap_inv t = heap_inv s" "heap_live t = heap_live s"
    using l by (intro heap_inv_same; simp add: t_def scheduler_link_task_def Let_def)+
  have e: "task_entry (scheduler_tasks t q) = task_entry (scheduler_tasks s q)"
    "cpu_context (scheduler_tasks t q) = cpu_context (scheduler_tasks s q)" for q
    by (simp_all add: f)
  have "nexts t = (nexts s)(last ps := p, p := 0)" using lp by (auto simp: f fun_eq_iff)
  then have "sched_list t (ps @ [p])"
    using linked_snoc [OF l(1) assms(3,4)] l f assms(1,3,5) lp
    by (auto simp: sched_list_def sched_wf_def g ready_task_def)
  then show "sched_wf b r t (ps @ [p])"
    using assms(1,3-8) unfolding sched_wf_def g f h e by (auto simp: ready_task_def)
  show "sched_at c t (ps @ [p])"
    using assms(2,5) by (cases c) (auto simp: g f ready_task_def)
qed

lemma register_inv:
  fixes name :: string and ctx n stack :: u32
  assumes "sched_wf b r s ps" "sched_at c s ps" "p \<notin> set ps" "p \<noteq> 0" "entry \<noteq> 0" "heap_live s p \<noteq> None"
  defines "t \<equiv> scheduler_register_task b name entry ctx n p stack s"
  shows "sched_wf b r t (ps @ [p])" "sched_at c t (ps @ [p])" "scheduler_last_task_ptr t = scheduler_last_task_ptr s"
    "\<And>q. q \<in> set ps \<Longrightarrow> state_of t q = state_of s q"
proof -
  define s1 where "s1 = s\<lparr>mem := store32 stack SCHEDULER_STACK_GUARD_MAGIC (mem s)\<rparr>"
  define s2 where "s2 = upd_task p (\<lambda>t. t\<lparr>task_id := scheduler_next_task_id s1, task_name := name,
      task_entry := entry, task_context := ctx, task_state := SCHEDULER_TASK_READY,
      timeslice_ticks := SCHEDULER_DEFAULT_TIMESLICE_TICKS, slice_ticks := 0,
      total_ticks := 0, dispatch_count := 0, yield_count := 0, exit_count := 0,
      stack_size_bytes := n, is_idle := False, task_next := 0\<rparr>) s1"
  define s3 where "s3 = s2\<lparr>scheduler_next_task_id := scheduler_next_task_id s2 + 1\<rparr>"
  define s4 where "s4 = scheduler_prepare_task_context b p s3"
  define s5 where "s5 = (scheduler_link_task p s4)\<lparr>scheduler_total_tasks := scheduler_total_tasks s4 + 1,
      scheduler_reschedule_pending := True\<rparr>"
  have k1: "sched_keeps ps s s1" unfolding s1_def by (rule keeps_upd(3) [OF assms(1)])
  note w1 = keeps_inv [OF k1 assms(1,2)]
  have k2: "sched_keeps ps s1 s2" unfolding s2_def by (rule keeps_upd(1) [OF w1(1) assms(3)])
  note w2 = keeps_inv [OF k2 w1]
  have k3: "sched_keeps ps s2 s3" unfolding s3_def by (rule keeps_upd(4) [OF w2(1)])
  note w3 = keeps_inv [OF k3 w2]
  have k4: "sched_keeps ps s3 s4"
    unfolding s4_def scheduler_prepare_task_context_def Let_def by (rule keeps_upd(1) [OF w3(1) assms(3)])
  note w4 = keeps_inv [OF k4 w3]
  have k: "sched_keeps ps s s4" using keeps_trans [OF keeps_trans [OF k1 k2] keeps_trans [OF k3 k4]] .
  have tk: "ready_task s4 p" "task_entry (scheduler_tasks s4 p) = entry" "ctx_eip (cpu_context (scheduler_tasks s4 p)) = b"
    by (simp_all add: s4_def s3_def s2_def scheduler_prepare_task_context_def Let_def ready_task_def)
  have hl: "heap_live s4 = heap_live s"
    by (rule heap_inv_same) (simp_all add: s4_def s3_def s2_def s1_def scheduler_prepare_task_context_def Let_def)
  note l = link_inv [OF w4 assms(3,4) tk(1) _ tk(3), folded s5_def]
  have "scheduler_total_tasks (scheduler_link_task p s4) = scheduler_total_tasks s4"
    by (simp add: scheduler_link_task_def Let_def)
  then have t: "t = scheduler_log_event ''TERMOB: scheduler task registered'' s5"
    unfolding t_def scheduler_register_task_def Let_def s1_def [symmetric] s2_def [symmetric] s3_def [symmetric]
      s4_def [symmetric] s5_def by simp
  have w5: "sched_wf b r s5 (ps @ [p])" "sched_at c s5 (ps @ [p])" "scheduler_last_task_ptr s5 = scheduler_last_task_ptr s4"
    "\<And>q. state_of s5 q = state_of s4 q"
    using l assms(5,6) tk(2) hl by simp_all
  note w6 = keeps_inv [OF keeps_upd(2) [OF w5(1)] w5(1,2)]
  show "sched_wf b r t (ps @ [p])" "sched_at c t (ps @ [p])" unfolding t by (rule w6)+
  show "scheduler_last_task_ptr t = scheduler_last_task_ptr s" using w5(3) k by (simp add: t sched_keeps_def)
  show "state_of t q = state_of s q" if "q \<in> set ps" for q
    using w5(4) [of q] k that by (simp add: t sched_keeps_def)
qed

definition grows ::
  "u32 \<Rightarrow> u32 \<Rightarrow> sched_control \<Rightarrow> u32 list \<Rightarrow> 'a scheduler_globals_scheme \<Rightarrow> 'a scheduler_globals_scheme \<Rightarrow> bool" where
  "grows b r c ps s t \<longleftrightarrow> (\<exists>xs. sched_wf b r t (ps @ xs) \<and> sched_at c t (ps @ xs) \<and>
     scheduler_last_task_ptr t = scheduler_last_task_ptr s \<and> (\<forall>q\<in>set ps. state_of t q = state_of s q))"

lemma keeps_grows:
  assumes "sched_keeps ps s t" "sched_wf b r s ps" "sched_at c s ps"
  shows "grows b r c ps s t"
  unfolding grows_def using keeps_inv [OF assms] assms(1) by (intro exI [of _ "[]"]) (simp add: sched_keeps_def)

lemma create_inv:
  assumes "sched_wf b r s ps" "sched_at c s ps"
  shows "\<exists>p s'. scheduler_create_kernel_thread b name entry ctx n s = Some (p, s') \<and> grows b r c ps s s'"
proof (cases "\<not> scheduler_ready s \<or> name = None \<or> entry = 0")
  case True
  then show ?thesis
    using keeps_grows [OF keeps_refl [OF assms(1)] assms] by (auto simp: scheduler_create_kernel_thread_def)
next
  case False
  then obtain nm where entry: "entry \<noteq> 0" and nm: "name = Some nm" by auto
  let ?n = "scheduler_stack_bytes n"
  have hi: "heap_inv s" using assms(1) by (simp add: sched_wf_def)
  have f: "kcalloc_fits (1, 88)" by (simp add: kcalloc_fits_def)
  obtain p s1 where k1: "kcalloc 1 88 s = Some (p, s1)" using kcalloc_contract [OF hi f] by auto
  note c1 = keeps_kcalloc [OF hi f k1]
  note w1 = keeps_inv [OF c1(1) assms]
  show ?thesis
  proof (cases "p = 0")
    case True
    then have "scheduler_create_kernel_thread b name entry ctx n s =
        Some (0, scheduler_log_event ''TERMOB: scheduler task allocation failed'' s1)"
      using False k1 by (simp add: scheduler_create_kernel_thread_def Let_def nm)
    then show ?thesis
      using keeps_grows [OF keeps_trans [OF c1(1) keeps_upd(2) [OF w1(1)]] assms] by blast
  next
    case p: False
    have new: "p \<notin> set ps"
    proof
      assume "p \<in> set ps"
      moreover have "p \<noteq> scheduler_idle_task s" using c1(4) [OF p] assms(1) by (auto simp: sched_wf_def)
      ultimately show False using c1(2) [OF p] assms(1) by (auto simp: sched_wf_def)
    qed
    define s2 where "s2 = upd_task p (\<lambda>_. zero_task) s1"
    have k2: "sched_keeps ps s1 s2" unfolding s2_def by (rule keeps_upd(1) [OF w1(1) new])
    note w2 = keeps_inv [OF k2 w1]
    have h2: "heap_inv s2" "heap_live s2 p \<noteq> None"
      using w2(1) c1(3) [OF p] heap_inv_same(3) [of s2 s1] by (simp_all add: sched_wf_def s2_def)
    obtain stk s3 where k3: "kcalloc 1 ?n s2 = Some (stk, s3)"
      using kcalloc_contract [OF h2(1) stack_bytes_fit, of n] by auto
    note c3 = keeps_kcalloc [OF h2(1) stack_bytes_fit k3]
    note w3 = keeps_inv [OF c3(1) w2]
    define s4 where "s4 = upd_task p (\<lambda>t. t\<lparr>stack_base := stk\<rparr>) s3"
    have k4: "sched_keeps ps s3 s4" unfolding s4_def by (rule keeps_upd(1) [OF w3(1) new])
    note w4 = keeps_inv [OF k4 w3]
    have h4: "heap_inv s4" "heap_live s4 p \<noteq> None"
      using w4(1) c3(6) [OF h2(2)] heap_inv_same(3) [of s4 s3] by (simp_all add: sched_wf_def s4_def)
    have ks: "sched_keeps ps s s4" using keeps_trans [OF keeps_trans [OF c1(1) k2] keeps_trans [OF c3(1) k4]] .
    show ?thesis
    proof (cases "stk = 0")
      case True
      let ?l = "scheduler_log_event ''TERMOB: scheduler task stack allocation failed'' s4"
      note wl = keeps_inv [OF keeps_upd(2) [OF w4(1)] w4, of "''TERMOB: scheduler task stack allocation failed''"]
      have hl: "heap_inv ?l" "heap_live ?l = heap_live s4" using h4(1) heap_inv_same(1,3) [of ?l s4] by simp_all
      obtain k where "heap_live ?l p = Some k" using h4(2) hl(2) by auto
      then obtain s5 where s5: "kfree p ?l = Some s5" "heap_frame ?l s5" "heap_inv s5" "heap_live s5 = (heap_live ?l)(p := None)"
        using kfree_live_ptr [OF hl(1)] by blast
      have "heap_region s5 = heap_region ?l" using heap_frameD(2,3) [OF s5(2)] by (simp add: heap_region_def)
      then have "sched_keeps ps ?l s5"
        using s5(3,4) new sched_fields_heap_more [OF heap_frameD(8) [OF s5(2)]] by (auto simp: sched_keeps_def)
      then have "sched_keeps ps s s5"
        using keeps_trans [OF keeps_trans [OF ks keeps_upd(2) [OF w4(1)]]] by blast
      moreover have "scheduler_create_kernel_thread b name entry ctx n s = Some (0, s5)"
        using False p True k1 k3 s5(1) by (simp add: scheduler_create_kernel_thread_def Let_def s2_def s4_def nm)
      ultimately show ?thesis using keeps_grows [OF _ assms] by blast
    next
      case stk: False
      let ?t = "scheduler_register_task b (the name) entry ctx ?n p stk s4"
      note w5 = register_inv [OF w4 new p entry h4(2), where name = "the name" and ctx = ctx and n = ?n and stack = stk]
      have "grows b r c ps s ?t"
        unfolding grows_def using w5 ks by (intro exI [of _ "[p]"]) (simp add: sched_keeps_def)
      moreover have "scheduler_create_kernel_thread b name entry ctx n s = Some (p, ?t)"
        using False p stk k1 k3 by (simp add: scheduler_create_kernel_thread_def Let_def s2_def s4_def nm)
      ultimately show ?thesis by blast
    qed
  qed
qed

section \<open>Steps\<close>

text \<open>What a step does to the tasks that were there: \<open>e\<close> holds the task it dispatches, if any.\<close>

definition sched_effect ::
  "u32 list \<Rightarrow> u32 list \<Rightarrow> 'a scheduler_globals_scheme \<Rightarrow> u32 list \<Rightarrow> 'a scheduler_globals_scheme \<Rightarrow> bool" where
  "sched_effect e ps s ps' s' \<longleftrightarrow> (\<exists>xs. ps' = ps @ xs) \<and>
     (\<forall>p\<in>set ps. state_of s p = SCHEDULER_TASK_EXITED \<longrightarrow> state_of s' p = SCHEDULER_TASK_EXITED) \<and>
     (if e = []
      then scheduler_last_task_ptr s' = scheduler_last_task_ptr s \<and>
        (\<forall>p\<in>set ps. ready_task s p \<longrightarrow> state_of s' p = SCHEDULER_TASK_READY \<or> state_of s' p = SCHEDULER_TASK_EXITED)
      else ps' = ps \<and> (\<exists>l q. e = [q] \<and> l < length ps \<and> scheduler_last_task_ptr s = ps ! l \<and>
        scheduler_last_task_ptr s' = q \<and> find (ready_task s) (rotate (Suc l) ps) = Some q \<and>
        (\<forall>p\<in>set ps. p \<noteq> q \<longrightarrow> state_of s' p = state_of s p)))"

definition sched_good ::
  "u32 \<Rightarrow> u32 \<Rightarrow> u32 list \<Rightarrow> u32 list \<Rightarrow> 'a scheduler_globals_scheme \<Rightarrow> 'a sched_config \<Rightarrow> bool" where
  "sched_good b r e ps s x \<longleftrightarrow> (\<exists>ps'. sched_wf b r (snd x) ps' \<and> sched_at (fst x) (snd x) ps' \<and>
     sched_effect e ps s ps' (snd x))"

lemma goodI:
  assumes "sched_wf b r t ps" "sched_at c t ps" "scheduler_last_task_ptr t = scheduler_last_task_ptr s"
    and "\<And>p. p \<in> set ps \<Longrightarrow> state_of t p = state_of s p \<or> state_of t p = SCHEDULER_TASK_EXITED \<or>
      (state_of s p \<noteq> SCHEDULER_TASK_READY \<and> state_of s p \<noteq> SCHEDULER_TASK_EXITED)"
  shows "sched_good b r [] ps s (c, t)"
  unfolding sched_good_def sched_effect_def
  using assms(1-3) by (intro exI [of _ ps]) (auto simp: ready_task_def dest: assms(4))

lemma grows_good: "grows b r c ps s t \<Longrightarrow> sched_good b r [] ps s (c, t)"
  unfolding grows_def sched_good_def sched_effect_def by (auto simp: ready_task_def)

lemma dispatch_good:
  assumes "sched_wf b r s ps" "sched_at InKernel s ps" "scheduler_dispatch r s = (Returns, s')"
  shows "sched_good b r [] ps s (InKernel, s')"
proof -
  obtain l where l: "l < length ps" "scheduler_last_task_ptr s = ps ! l" by (rule wf_last [OF assms(1)])
  note d = dispatch_cases [OF assms(1,2) l]
  show ?thesis
  proof (cases "scheduler_reschedule_pending s")
    case False
    then show ?thesis using d assms by (intro goodI) auto
  next
    case pend: True
    show ?thesis
    proof (cases "find (ready_task s) (rotate (Suc l) ps)")
      case None
      then have "\<not> (\<exists>p\<in>set ps. ready_task s p)" by (auto simp: find_None_iff)
      from idle_inv [OF assms(1,2) this] show ?thesis
        using d pend None assms(3) by (intro goodI) auto
    next
      case (Some p)
      note p = robin_ready [OF Some]
      have np: "p \<noteq> scheduler_idle_task s" "state_of s p \<noteq> SCHEDULER_TASK_EXITED"
        using p(1,2) wf_facts(4) [OF assms(1)] by (auto simp: ready_task_def)
      have s': "s' = scheduler_mark_task_corrupt p ''TERMOB: scheduler stack guard corrupted'' s"
        using d pend Some assms(3) by (auto split: if_splits)
      note c = corrupt_wf [OF assms(1) p(1) np, of "''TERMOB: scheduler stack guard corrupted''"]
      show ?thesis
        unfolding s' by (intro goodI corrupt_inv [OF assms(1,2) p(1,2)]) (auto simp: c)
    qed
  qed
qed

lemma dispatch_enters:
  assumes "sched_wf b r s ps" "sched_at InKernel s ps" "scheduler_dispatch r s = (Switches, s')"
  obtains l p where "l < length ps" "scheduler_last_task_ptr s = ps ! l" "find (ready_task s) (rotate (Suc l) ps) = Some p"
    "s' = scheduler_dispatch_enter r p s" "p \<in> set ps" "ready_task s p" "scheduler_current_task_ptr s' = p"
    "scheduler_last_task_ptr s' = p" "\<And>q. q \<noteq> p \<Longrightarrow> scheduler_tasks s' q = scheduler_tasks s q"
proof -
  obtain l where l: "l < length ps" "scheduler_last_task_ptr s = ps ! l" by (rule wf_last [OF assms(1)])
  from dispatch_cases [OF assms(1,2) l] assms(3) obtain p where
    p: "find (ready_task s) (rotate (Suc l) ps) = Some p" "s' = scheduler_dispatch_enter r p s"
    by (auto split: if_splits option.splits)
  show ?thesis
    using l p robin_ready(1,2) [OF p(1)] that by (simp add: sched_op_defs)
qed

lemma enter_good:
  assumes "l < length ps" "scheduler_last_task_ptr s = ps ! l" "find (ready_task s) (rotate (Suc l) ps) = Some p"
    and "sched_wf b r t ps" "sched_at (InThread p) t ps" "scheduler_last_task_ptr t = p"
    and "\<And>q. q \<noteq> p \<Longrightarrow> scheduler_tasks t q = scheduler_tasks s q"
  shows "sched_good b r [p] ps s (InThread p, t)"
proof -
  have "ready_task s p" using robin_ready(2) [OF assms(3)] .
  then have "state_of s p \<noteq> SCHEDULER_TASK_EXITED" by (simp add: ready_task_def)
  then have "state_of t q = SCHEDULER_TASK_EXITED" if "state_of s q = SCHEDULER_TASK_EXITED" for q
    using that assms(7) [of q] by (cases "q = p") auto
  then show ?thesis
    unfolding sched_good_def sched_effect_def using assms by (intro exI [of _ ps]) auto
qed

lemma leave_good:
  assumes "sched_wf b r s ps" "sched_at (InThread q) s ps"
    and "sched_wf b r s' ps" "\<forall>p\<in>set ps. state_of s' p \<noteq> SCHEDULER_TASK_RUNNING"
    and "\<forall>p. p \<noteq> q \<longrightarrow> scheduler_tasks s' p = scheduler_tasks s p" "scheduler_last_task_ptr s' = scheduler_last_task_ptr s"
  shows "sched_good b r [] ps s (InKernel, scheduler_dispatch_resume s')"
proof -
  have q: "state_of s q = SCHEDULER_TASK_RUNNING" using assms(2) by auto
  have f: "scheduler_tasks (scheduler_dispatch_resume s') = scheduler_tasks s'"
    "scheduler_last_task_ptr (scheduler_dispatch_resume s') = scheduler_last_task_ptr s'"
    by (simp_all add: scheduler_dispatch_resume_def Let_def)
  show ?thesis
    by (intro goodI resume_inv [OF assms(3,4)]) (metis assms(5,6) f q scheduler_task_state.distinct)+
qed

lemma step_good:
  assumes "sched_step b r (c, s) e (c', s')" "sched_wf b r s ps" "sched_at c s ps"
  shows "sched_good b r e ps s (c', s')"
  using assms(1)
proof (cases rule: sched_step_cases)
  case tick
  have "state_of (scheduler_handle_tick s) p = state_of s p"
    "scheduler_last_task_ptr (scheduler_handle_tick s) = scheduler_last_task_ptr s" for p
    by (simp_all add: scheduler_handle_tick_def Let_def)
  then have "sched_good b r [] ps s (c, scheduler_handle_tick s)"
    by (intro goodI tick_inv [OF assms(2,3)]) simp_all
  then show ?thesis using tick by simp
next
  case (create name entry ctx request p)
  then show ?thesis
    using create_inv [OF assms(2,3), of name entry ctx request] grows_good by auto
next
  case dispatch_none
  then show ?thesis using dispatch_good [OF assms(2)] assms(3) by simp
next
  case (dispatch_new t ev)
  from dispatch_enters [OF assms(2) _ dispatch_new(4)] assms(3) dispatch_new(1) obtain l p where
    p: "l < length ps" "scheduler_last_task_ptr s = ps ! l" "find (ready_task s) (rotate (Suc l) ps) = Some p"
    "t = scheduler_dispatch_enter r p s" "p \<in> set ps" "ready_task s p" "scheduler_current_task_ptr t = p"
    "scheduler_last_task_ptr t = p" "\<And>q. q \<noteq> p \<Longrightarrow> scheduler_tasks t q = scheduler_tasks s q"
    by auto
  have st: "s' = t" using dispatch_new(6) by (auto simp: scheduler_task_bootstrap_def Let_def split: if_splits)
  have "sched_at InKernel s ps" using assms(3) dispatch_new(1) by simp
  note e = enter_inv [OF assms(2) this p(5,6)]
  show ?thesis
    using enter_good [OF p(1-3) e(1,2)] p(4,7-9) st dispatch_new(2,3) by (simp add: scheduler_current_task_def)
next
  case (dispatch_old t)
  from dispatch_enters [OF assms(2) _ dispatch_old(3)] assms(3) dispatch_old(1) obtain l q where
    q: "l < length ps" "scheduler_last_task_ptr s = ps ! l" "find (ready_task s) (rotate (Suc l) ps) = Some q"
    "t = scheduler_dispatch_enter r q s" "q \<in> set ps" "ready_task s q" "scheduler_current_task_ptr t = q"
    "scheduler_last_task_ptr t = q" "\<And>p. p \<noteq> q \<Longrightarrow> scheduler_tasks t p = scheduler_tasks s p"
    by auto
  have "sched_at InKernel s ps" using assms(3) dispatch_old(1) by simp
  note e = enter_inv [OF assms(2) this q(5,6), folded q(4)]
  have pq: "scheduler_current_task t = q" using q(7) by (simp add: scheduler_current_task_def)
  note y = yield_resume_inv [OF e(1,2)]
  show ?thesis
    using enter_good [OF q(1-3) y(1,2)] y(3,4) q(8,9) pq dispatch_old(2,5,6) by simp
next
  case (yield_back p)
  then show ?thesis using yield_inv [OF assms(2)] assms(3) by fastforce
next
  case (yield t p)
  then obtain s1 where "scheduler_yield r s = (Switches, s1)" "sched_wf b r s1 ps"
    "\<forall>p\<in>set ps. state_of s1 p \<noteq> SCHEDULER_TASK_RUNNING"
    "\<forall>q. q \<noteq> p \<longrightarrow> scheduler_tasks s1 q = scheduler_tasks s q" "scheduler_last_task_ptr s1 = scheduler_last_task_ptr s"
    using yield_inv [OF assms(2), of p] assms(3) by auto
  then show ?thesis using leave_good [OF assms(2), of p s1] assms(3) yield by simp
next
  case (exit t p)
  then have at: "sched_at (InThread p) s ps" using assms(3) by simp
  then obtain s1 where "scheduler_exit_current_task r s = (Switches, s1)" "sched_wf b r s1 ps"
    "\<forall>p\<in>set ps. state_of s1 p \<noteq> SCHEDULER_TASK_RUNNING"
    "\<forall>q. q \<noteq> p \<longrightarrow> scheduler_tasks s1 q = scheduler_tasks s q" "scheduler_last_task_ptr s1 = scheduler_last_task_ptr s"
    using exit_inv [OF assms(2), of p] by auto
  then show ?thesis using leave_good [OF assms(2) at, of s1] exit by simp
next
  case (work p x m)
  have "sched_good b r [] ps s (c, s\<lparr>mem := m, cpu_registers := x\<rparr>)"
    by (intro goodI work_inv [OF assms(2,3)]) simp_all
  then show ?thesis using work by simp
qed

lemma run_good:
  assumes "sched_run b r x es y" "sched_wf b r (snd x) ps" "sched_at (fst x) (snd x) ps"
  shows "\<exists>xs. sched_wf b r (snd y) (ps @ xs) \<and> sched_at (fst y) (snd y) (ps @ xs)"
  using assms
proof (induction rule: sched_run.induct)
  case (refl x)
  then show ?case by (intro exI [of _ "[]"]) simp
next
  case (step x es y e z)
  then obtain xs where "sched_wf b r (snd y) (ps @ xs)" "sched_at (fst y) (snd y) (ps @ xs)" by blast
  from step_good [of b r "fst y" "snd y" e "fst z" "snd z", OF _ this] step.hyps(2) show ?case
    by (auto simp: sched_good_def sched_effect_def)
qed

text \<open>The scheduler as \<^verbatim>\<open>scheduler_init\<close> leaves it.\<close>

definition sched_boot_ok :: "'a scheduler_globals_scheme \<Rightarrow> bool" where
  "sched_boot_ok s \<longleftrightarrow> heap_inv s \<and> scheduler_idle_task s \<noteq> 0 \<and>
     (scheduler_idle_task s < heap_start_ptr s \<or> heap_end_ptr s \<le> scheduler_idle_task s)"

lemma init_inv:
  assumes "sched_boot_ok s"
  shows "sched_wf b r (scheduler_init s) [scheduler_idle_task s]" "sched_at InKernel (scheduler_init s) [scheduler_idle_task s]"
proof -
  let ?t = "scheduler_init s"
  have h: "heap_inv ?t = heap_inv s"
    by (rule heap_inv_same) (simp_all add: scheduler_init_def Let_def scheduler_link_task_def)
  have "sched_list ?t [scheduler_idle_task s]"
    using assms by (simp add: scheduler_init_def Let_def scheduler_link_task_def sched_list_def linked_def
        sched_boot_ok_def idle_task_at_init_def)
  then show "sched_wf b r ?t [scheduler_idle_task s]"
    using assms h by (simp add: sched_wf_def sched_boot_ok_def)
      (simp add: scheduler_init_def Let_def scheduler_link_task_def idle_task_at_init_def)
  show "sched_at InKernel ?t [scheduler_idle_task s]"
    by (simp add: scheduler_init_def Let_def scheduler_link_task_def idle_task_at_init_def)
qed

lemma boot_run_good:
  assumes "sched_boot_ok s0" "sched_run b r (InKernel, scheduler_init s0) es (c, s)"
  obtains ps where "sched_wf b r s ps" "sched_at c s ps"
  using run_good [OF assms(2), of "[scheduler_idle_task s0]"] init_inv [OF assms(1)] by (auto simp del: sched_at.simps)

section \<open>Bypassing a ready task\<close>

text \<open>\<open>d\<close> tasks lie between the last one that ran and \<open>p\<close>, going round.\<close>

definition at_distance :: "u32 list \<Rightarrow> u32 \<Rightarrow> u32 \<Rightarrow> nat \<Rightarrow> bool" where
  "at_distance ps lst p d \<longleftrightarrow> d < length ps \<and> (\<exists>l<length ps. lst = ps ! l \<and> p = ps ! ((Suc l + d) mod length ps))"

lemma at_distance_ex:
  assumes "lst \<in> set ps" "p \<in> set ps"
  shows "\<exists>d. at_distance ps lst p d"
proof -
  obtain l where l: "l < length ps" "lst = ps ! l" using assms(1) by (auto simp: in_set_conv_nth)
  have "p \<in> set (rotate (Suc l) ps)" using assms(2) by simp
  then obtain d where "d < length ps" "p = rotate (Suc l) ps ! d" by (metis in_set_conv_nth length_rotate)
  then show ?thesis
    using l nth_rotate [of d ps "Suc l"] unfolding at_distance_def by blast
qed

lemma at_distance_pick:
  assumes "at_distance ps lst p d" "distinct ps" "l < length ps" "lst = ps ! l"
    and "find rdy (rotate (Suc l) ps) = Some q" "rdy p" "p \<noteq> q"
  shows "\<exists>d'. d' < d \<and> at_distance ps q p d'"
proof -
  let ?n = "length ps"
  have d: "d < ?n" "p = ps ! ((Suc l + d) mod ?n)"
    using assms(1-4) by (auto simp: at_distance_def nth_eq_iff_index_eq)
  obtain k where k: "k < ?n" "q = ps ! ((Suc l + k) mod ?n)" "\<And>j. j < k \<Longrightarrow> \<not> rdy (ps ! ((Suc l + j) mod ?n))"
  proof -
    from assms(5) obtain k where k: "k < ?n" "q = rotate (Suc l) ps ! k" "\<And>j. j < k \<Longrightarrow> \<not> rdy (rotate (Suc l) ps ! j)"
      by (auto simp: find_Some_iff simp del: rotate_Suc)
    then show ?thesis
      using nth_rotate [of _ ps "Suc l"] by (intro that [of k]) (auto simp del: rotate_Suc)
  qed
  have "k \<noteq> d" using assms(7) d(2) k(2) by auto
  moreover have "\<not> d < k" using k(3) [of d] d(2) assms(6) by auto
  ultimately have kd: "k < d" by simp
  have "(Suc ((Suc l + k) mod ?n) + (d - Suc k)) mod ?n = (Suc l + d) mod ?n"
  proof -
    have "(Suc ((Suc l + k) mod ?n) + (d - Suc k)) mod ?n = (Suc (Suc l + k) + (d - Suc k)) mod ?n"
      by (metis mod_Suc_eq mod_add_left_eq)
    then show ?thesis using kd by simp
  qed
  moreover have "(Suc l + k) mod ?n < ?n" using assms(3) by (intro mod_less_divisor) auto
  ultimately have "at_distance ps q p (d - Suc k)"
    unfolding at_distance_def using d k(2) by (intro conjI exI [of _ "(Suc l + k) mod ?n"]) auto
  then show ?thesis using kd by (intro exI [of _ "d - Suc k"]) simp
qed

lemma at_distance_append:
  assumes "at_distance ps lst p d"
  shows "\<exists>d'. d' \<le> d + length xs \<and> at_distance (ps @ xs) lst p d'"
proof -
  let ?n = "length ps"
  obtain l where l: "l < ?n" "lst = ps ! l" "p = ps ! ((Suc l + d) mod ?n)" and d: "d < ?n"
    using assms by (auto simp: at_distance_def)
  have "(Suc l + d) mod ?n < ?n" using l(1) by (intro mod_less_divisor) auto
  then have a: "lst = (ps @ xs) ! l" "p = (ps @ xs) ! ((Suc l + d) mod ?n)"
    using l by (simp_all add: nth_append)
  show ?thesis
  proof (cases "Suc l + d < ?n")
    case True
    then show ?thesis
      unfolding at_distance_def using a l(1) d by (intro exI [of _ d]) (auto intro!: exI [of _ l])
  next
    case False
    then have m: "(Suc l + d) mod ?n = Suc l + d - ?n" using l(1) d by (simp add: mod_if)
    have "(Suc l + (d + length xs)) mod length (ps @ xs) = Suc l + d - ?n"
      using False l(1) d by (simp add: mod_if)
    then show ?thesis
      unfolding at_distance_def using a l(1) d m by (intro exI [of _ "d + length xs"]) (auto intro!: exI [of _ l])
  qed
qed

text \<open>A task that is not dispatched stays ready, or ends because its stack is corrupt; while it is ready, every dispatch brings it nearer.\<close>

lemma run_bypass:
  assumes "sched_run b r x es y" "sched_wf b r (snd x) ps" "sched_at (fst x) (snd x) ps"
    and "p \<in> set ps" "ready_task (snd x) p" "p \<notin> set es"
  shows "\<exists>ps'. sched_wf b r (snd y) ps' \<and> sched_at (fst y) (snd y) ps' \<and> p \<in> set ps' \<and>
    (state_of (snd y) p = SCHEDULER_TASK_EXITED \<or>
     state_of (snd y) p = SCHEDULER_TASK_READY \<and> ready_task (snd y) p \<and>
     (\<exists>d. at_distance ps' (scheduler_last_task_ptr (snd y)) p d \<and> d + length es < length ps'))"
  using assms
proof (induction rule: sched_run.induct)
  case (refl x)
  obtain d where "at_distance ps (scheduler_last_task_ptr (snd x)) p d"
    using at_distance_ex [OF _ refl(3)] refl(1) by (auto simp: sched_wf_def)
  then show ?case using refl by (intro exI [of _ ps]) (auto simp: ready_task_def at_distance_def)
next
  case (step x es y e z)
  let ?s = "snd y" and ?t = "snd z"
  from step obtain ps1 where w: "sched_wf b r ?s ps1" "sched_at (fst y) ?s ps1" "p \<in> set ps1"
    and st: "state_of ?s p = SCHEDULER_TASK_EXITED \<or> state_of ?s p = SCHEDULER_TASK_READY \<and> ready_task ?s p \<and>
     (\<exists>d. at_distance ps1 (scheduler_last_task_ptr ?s) p d \<and> d + length es < length ps1)" by auto
  from step_good [of b r "fst y" ?s e "fst z" ?t, OF _ w(1,2)] step.hyps(2) obtain ps2 where
    w2: "sched_wf b r ?t ps2" "sched_at (fst z) ?t ps2" and ef: "sched_effect e ps1 ?s ps2 ?t"
    by (auto simp: sched_good_def)
  obtain xs where xs: "ps2 = ps1 @ xs" using ef by (auto simp: sched_effect_def)
  have p2: "p \<in> set ps2" using w(3) xs by simp
  have ni: "\<not> is_idle (scheduler_tasks ?s p) \<Longrightarrow> \<not> is_idle (scheduler_tasks ?t p)"
    using wf_facts(4) [OF w(1) w(3)] wf_facts(4) [OF w2(1) p2] w(1) w2(1) xs
    by (auto simp: sched_wf_def sched_list_def linked_def)
  have "state_of ?t p = SCHEDULER_TASK_EXITED \<or> state_of ?t p = SCHEDULER_TASK_READY \<and> ready_task ?t p \<and>
     (\<exists>d. at_distance ps2 (scheduler_last_task_ptr ?t) p d \<and> d + length (es @ e) < length ps2)"
  proof (cases "state_of ?s p = SCHEDULER_TASK_EXITED")
    case True
    then show ?thesis using ef w(3) by (simp add: sched_effect_def)
  next
    case False
    then obtain d where rd: "state_of ?s p = SCHEDULER_TASK_READY" "ready_task ?s p"
      and d: "at_distance ps1 (scheduler_last_task_ptr ?s) p d" "d + length es < length ps1" using st by blast
    show ?thesis
    proof (cases "e = []")
      case True
      then have l: "scheduler_last_task_ptr ?t = scheduler_last_task_ptr ?s"
        "state_of ?t p = SCHEDULER_TASK_READY \<or> state_of ?t p = SCHEDULER_TASK_EXITED"
        using ef w(3) rd(2) by (auto simp: sched_effect_def)
      obtain d' where "d' \<le> d + length xs" "at_distance ps2 (scheduler_last_task_ptr ?s) p d'"
        using at_distance_append [OF d(1), of xs] xs by blast
      then show ?thesis using l True d(2) xs ni rd(2) by (auto simp: ready_task_def)
    next
      case e: False
      then obtain l q where q: "e = [q]" "ps2 = ps1" "l < length ps1" "scheduler_last_task_ptr ?s = ps1 ! l"
        "scheduler_last_task_ptr ?t = q" "find (ready_task ?s) (rotate (Suc l) ps1) = Some q"
        "\<forall>p\<in>set ps1. p \<noteq> q \<longrightarrow> state_of ?t p = state_of ?s p"
        using ef by (auto simp: sched_effect_def simp del: rotate_Suc)
      have pq: "p \<noteq> q" using step.prems(5) q(1) by auto
      have "distinct ps1" using w(1) by (simp add: sched_wf_def sched_list_def linked_def)
      from at_distance_pick [OF d(1) this q(3,4,6) rd(2) pq] obtain d' where
        "d' < d" "at_distance ps1 q p d'" by blast
      moreover have "state_of ?t p = SCHEDULER_TASK_READY" using q(7) w(3) pq rd(1) by simp
      ultimately show ?thesis using q d(2) ni rd(2) by (auto simp: ready_task_def)
    qed
  qed
  then show ?case using w2 p2 by blast
qed

section \<open>A scheduler at boot\<close>

definition boot_scheduler :: scheduler_globals where
  "boot_scheduler = heap_init 0x150000 (block_globals.extend
     (paging_globals.extend zeroed_paging (block_globals.fields False 0 0 zero_block_nodes))
     (scheduler_globals.fields (\<lambda>_. zero_task) 0x120000 zero_context 0 0 0 0 0 0 0 0 0 False False False zero_context))"

lemma boot_scheduler_ok: "sched_boot_ok boot_scheduler"
proof -
  have "scheduler_idle_task boot_scheduler = 0x120000" "heap_start_ptr boot_scheduler = 0x150000"
    unfolding boot_scheduler_def
    by (simp_all add: sched_fields_heap_more [OF heap_init_fields(1)] heap_init_fields(2) heap_align_up_def
        block_globals.defs paging_globals.defs scheduler_globals.defs)
  moreover have "heap_inv boot_scheduler" unfolding boot_scheduler_def by (rule heap_init_inv) simp_all
  ultimately show ?thesis by (simp add: sched_boot_ok_def)
qed

text \<open>A first thread is created: both requests fit into the only block of the heap.\<close>

lemma boot_create:
  "\<exists>p s. scheduler_create_kernel_thread 0x101000 (Some ''worker'') 0x103000 0 4096 (scheduler_init boot_scheduler) = Some (p, s) \<and>
     (\<exists>ps. sched_list s ps \<and> p \<in> set ps) \<and> ready_task s p"
proof -
  let ?s = "scheduler_init boot_scheduler"
  have heap: "heap_inv ?s" "heap_blocks ?s = [(0x150000, 0xFFFE0, True)]"
  proof -
    have e: "heap_inv ?s = heap_inv boot_scheduler" "heap_blocks ?s = heap_blocks boot_scheduler"
      by (rule heap_inv_same; simp add: scheduler_init_def Let_def scheduler_link_task_def)+
    have "heap_inv boot_scheduler" "heap_blocks boot_scheduler = [(0x150000, 0xFFFE0, True)]"
      unfolding boot_scheduler_def using heap_init_inv [of "0x150000"] by (simp_all add: round16_def)
    then show "heap_inv ?s" "heap_blocks ?s = [(0x150000, 0xFFFE0, True)]" using e by simp_all
  qed
  have r: "scheduler_ready ?s" by (simp add: scheduler_init_def Let_def scheduler_link_task_def)
  obtain p s1 where k1: "kcalloc 1 88 ?s = Some (p, s1)" "p \<noteq> 0" "heap_inv s1"
    "heap_blocks s1 = snd (the (spec_alloc 96 [(0x150000, 0xFFFE0, True)]))"
    using kcalloc_succeeds [OF heap(1), of "0x150000" "0xFFFE0" 1 88] by (auto simp: heap(2) round16_def)
  define s2 where "s2 = upd_task p (\<lambda>_. zero_task) s1"
  have h2: "heap_inv s2" "heap_blocks s2 = [(0x150000, 96, False), (0x150080, 0xFFF60, True)]"
    using k1(3,4) heap_inv_same(1,2) [of s2 s1] by (simp_all add: s2_def)
  have n: "scheduler_stack_bytes 4096 = 4096" by (simp add: scheduler_stack_bytes_def scheduler_align_up_u32_def)
  obtain stk s3 where k3: "kcalloc 1 4096 s2 = Some (stk, s3)" "stk \<noteq> 0"
    using kcalloc_succeeds [OF h2(1), of "0x150080" "0xFFF60" 1 4096] by (auto simp: h2(2) round16_def)
  define s4 where "s4 = upd_task p (\<lambda>t. t\<lparr>stack_base := stk\<rparr>) s3"
  let ?t = "scheduler_register_task 0x101000 ''worker'' 0x103000 0 4096 p stk s4"
  have e: "scheduler_create_kernel_thread 0x101000 (Some ''worker'') 0x103000 0 4096 ?s = Some (p, ?t)"
    using r k1 k3 n by (simp add: scheduler_create_kernel_thread_def Let_def s2_def s4_def)
  have g: "grows 0x101000 0x102000 InKernel [scheduler_idle_task boot_scheduler] ?s ?t"
    using create_inv [OF init_inv(1) [OF boot_scheduler_ok, of "0x101000" "0x102000"] init_inv(2) [OF boot_scheduler_ok],
        where name = "Some ''worker''" and entry = "0x103000" and ctx = 0 and n = 4096] e by simp
  have rt: "ready_task ?t p" "scheduler_task_list_tail ?t = p"
    by (simp_all add: scheduler_register_task_def Let_def scheduler_prepare_task_context_def scheduler_link_task_def ready_task_def)
  obtain ps where "sched_list ?t ps" using g by (auto simp: grows_def sched_wf_def)
  then have "sched_list ?t ps \<and> p \<in> set ps" using rt(2) by (auto simp: sched_list_def linked_def)
  then show ?thesis using e rt(1) by blast
qed

section \<open>Properties\<close>

text \<open>
  C11. One task at a time. From \<^verbatim>\<open>scheduler_init\<close> on, whatever threads are created, yield, end or corrupt
  their stack and whenever the timer interrupts: the task list is well formed, a task is marked
  running exactly when it holds the processor, a thread that yields or ends always gives control
  back to the kernel, and the kernel never idles with the flag clear while a task is ready.
\<close>

theorem scheduler_runs_one_task:
  assumes "sched_boot_ok s0" "sched_run bootstrap resume (InKernel, scheduler_init s0) es (c, s)"
  shows "\<exists>ps. sched_list s ps \<and> (\<forall>p\<in>set ps. task_state (scheduler_tasks s p) = SCHEDULER_TASK_RUNNING \<longleftrightarrow> c = InThread p) \<and>
    (c = InKernel \<longrightarrow> \<not> scheduler_is_running_in_task s \<and>
       (scheduler_has_ready_non_idle_task s \<longrightarrow> scheduler_reschedule_pending s)) \<and>
    (\<forall>p. c = InThread p \<longrightarrow> scheduler_current_task s = p \<and>
       fst (scheduler_yield resume s) = Switches \<and> fst (scheduler_exit_current_task resume s) = Switches)"
proof -
  obtain ps where w: "sched_wf bootstrap resume s ps" "sched_at c s ps" by (rule boot_run_good [OF assms(1,2)])
  have l: "sched_list s ps" using w(1) by (simp add: sched_wf_def)
  show ?thesis
  proof (cases c)
    case InKernel
    then show ?thesis using w l has_ready [OF l] by (intro exI [of _ ps]) (auto simp: scheduler_is_running_in_task_def)
  next
    case (InThread q)
    then have at: "sched_at (InThread q) s ps" using w(2) by simp
    then have e: "fst (scheduler_exit_current_task resume s) = Switches"
      using exit_inv [OF w(1), of q] by auto
    show ?thesis
      using InThread at l e yield_inv [OF w(1) at] by (intro exI [of _ ps]) (auto simp: scheduler_current_task_def)
  qed
qed

theorem scheduler_runs_one_task_witness:
  "\<exists>ps. sched_list (scheduler_handle_tick (scheduler_init boot_scheduler)) ps"
proof -
  have "sched_run 0x101000 0x102000 (InKernel, scheduler_init boot_scheduler) ([] @ [])
      (InKernel, scheduler_handle_tick (scheduler_init boot_scheduler))"
    by (rule sched_run.step [OF sched_run.refl sched_step.tick])
  from scheduler_runs_one_task [OF boot_scheduler_ok this] show ?thesis by blast
qed

text \<open>
  C12. Dispatch is round robin: with the tasks in list order and the last one that ran at position \<open>l\<close>,
  \<^verbatim>\<open>scheduler_dispatch\<close> takes the first ready task in the list rotated to start behind \<open>l\<close>. It makes that
  task the current and running one and loads its context, or ends it when its stack guard is
  overwritten; only when no task but the idle one is ready does it clear the flag.
\<close>

theorem scheduler_dispatch_round_robin:
  assumes "sched_boot_ok s0" "sched_run bootstrap resume (InKernel, scheduler_init s0) es (InKernel, s)"
  shows "\<exists>ps l. sched_list s ps \<and> l < length ps \<and> scheduler_last_task_ptr s = ps ! l \<and>
    scheduler_dispatch resume s =
      (case find (ready_task s) (rotate (Suc l) ps) of
         None \<Rightarrow> (Returns, s\<lparr>scheduler_reschedule_pending := False\<rparr>)
       | Some p \<Rightarrow> if scheduler_stack_guard_ok p s then (Switches, scheduler_dispatch_enter resume p s)
                   else (Returns, scheduler_mark_task_corrupt p ''TERMOB: scheduler stack guard corrupted'' s))"
proof -
  obtain ps where w: "sched_wf bootstrap resume s ps" "sched_at InKernel s ps" by (rule boot_run_good [OF assms(1,2)])
  obtain l where l: "l < length ps" "scheduler_last_task_ptr s = ps ! l" by (rule wf_last [OF w(1)])
  have c: "scheduler_current_task_ptr s = scheduler_idle_task s" using w(2) by simp
  have e: "s\<lparr>scheduler_current_task_ptr := scheduler_idle_task s, scheduler_reschedule_pending := False\<rparr> =
      s\<lparr>scheduler_reschedule_pending := False\<rparr>" unfolding c [symmetric] by simp
  have n: "find (ready_task s) (rotate (Suc l) ps) = None" "s\<lparr>scheduler_reschedule_pending := False\<rparr> = s"
    if "\<not> scheduler_reschedule_pending s"
  proof -
    show "find (ready_task s) (rotate (Suc l) ps) = None" using w(2) that by (auto simp: find_None_iff)
    show "s\<lparr>scheduler_reschedule_pending := False\<rparr> = s" using that by (cases s) simp
  qed
  show ?thesis
    using dispatch_cases [OF w l] l w(1) n unfolding e
    by (intro exI [of _ ps] exI [of _ l]) (auto simp: sched_wf_def simp del: rotate_Suc)
qed

theorem scheduler_dispatch_round_robin_witness:
  "\<exists>ps l. sched_list (scheduler_init boot_scheduler) ps \<and> scheduler_last_task_ptr (scheduler_init boot_scheduler) = ps ! l"
  using scheduler_dispatch_round_robin [OF boot_scheduler_ok sched_run.refl [of "0x101000" "0x102000"]] by blast

text \<open>
  C13. No ready task starves: a task that is ready, and still ready after any number of steps without
  having been dispatched, has been passed over by fewer dispatches than there are tasks.
\<close>

theorem scheduler_bounded_bypass:
  assumes "sched_boot_ok s0" "sched_run bootstrap resume (InKernel, scheduler_init s0) es0 (c, s)"
    and "sched_list s ps" "p \<in> set ps" "ready_task s p"
    and "sched_run bootstrap resume (c, s) es (c', s')" "p \<notin> set es" "task_state (scheduler_tasks s' p) = SCHEDULER_TASK_READY"
  shows "length es < unat (scheduler_task_count s')"
proof -
  obtain qs where w: "sched_wf bootstrap resume s qs" "sched_at c s qs" by (rule boot_run_good [OF assms(1,2)])
  have l: "linked (nexts s) qs" "linked (nexts s) ps" "scheduler_task_list_head s = hd qs" "scheduler_task_list_head s = hd ps"
    using w(1) assms(3) unfolding sched_wf_def sched_list_def by blast+
  have qs: "qs = ps" by (rule linked_unique [OF l(1,2)]) (simp only: l(3,4) [symmetric])
  have w': "sched_wf bootstrap resume (snd (c, s)) ps" "sched_at (fst (c, s)) (snd (c, s)) ps" "ready_task (snd (c, s)) p"
    using w assms(5) unfolding qs by (simp_all del: sched_at.simps)
  from run_bypass [OF assms(6) w'(1,2) assms(4) w'(3) assms(7)] obtain ps' where
    ps': "sched_wf bootstrap resume s' ps'" "state_of s' p = SCHEDULER_TASK_EXITED \<or> (\<exists>d. d + length es < length ps')"
    unfolding fst_conv snd_conv by blast
  then have "length es < length ps'" using assms(8) by auto
  then show ?thesis using ps'(1) sched_list_total [of s' ps'] by (simp add: sched_wf_def scheduler_task_count_def)
qed

theorem scheduler_bounded_bypass_witness:
  "\<exists>p s. scheduler_create_kernel_thread 0x101000 (Some ''worker'') 0x103000 0 4096 (scheduler_init boot_scheduler) = Some (p, s) \<and>
     0 < unat (scheduler_task_count (scheduler_handle_tick s))"
proof -
  obtain p s ps where c: "scheduler_create_kernel_thread 0x101000 (Some ''worker'') 0x103000 0 4096 (scheduler_init boot_scheduler) = Some (p, s)"
    "sched_list s ps" "p \<in> set ps" "ready_task s p" using boot_create by blast
  let ?x = "(InKernel, scheduler_init boot_scheduler)"
  have 1: "sched_run 0x101000 0x102000 ?x ([] @ []) (InKernel, s)"
    by (rule sched_run.step [OF sched_run.refl sched_step.create [OF c(1)]])
  have 2: "sched_run 0x101000 0x102000 (InKernel, s) ([] @ []) (InKernel, scheduler_handle_tick s)"
    by (rule sched_run.step [OF sched_run.refl sched_step.tick])
  have "task_state (scheduler_tasks (scheduler_handle_tick s) p) = SCHEDULER_TASK_READY"
    using c(4) by (auto simp: scheduler_handle_tick_def Let_def ready_task_def)
  from scheduler_bounded_bypass [OF boot_scheduler_ok 1 c(2-4) 2 _ this] c(1) show ?thesis by simp
qed

end
