(* ===== verification/Ports.thy ===== *)
theory Ports
  imports Scheduler
begin

text \<open>
  Input and output through ports, the way the drivers use them. The state records every access, the
  latest first. The devices are not part of the program: they are the parameter \<open>hw\<close>, which gives
  the value of a read as a function of all accesses so far, the timer interrupts that arrive while
  a loop polls, and what the devices have written to memory by then.
\<close>

datatype io_event =
    Out8 u16 u8 | Out16 u16 u16 | Out32 u16 u32
  | In8 u16 u8 | In16 u16 u16 | In32 u16 u32
  | Poll

record hardware =
  hw_in8 :: "io_event list \<Rightarrow> u16 \<Rightarrow> u8"
  hw_in16 :: "io_event list \<Rightarrow> u16 \<Rightarrow> u16"
  hw_in32 :: "io_event list \<Rightarrow> u16 \<Rightarrow> u32"
  hw_ticks :: "io_event list \<Rightarrow> nat"
  hw_dma :: "io_event list \<Rightarrow> (u32 \<Rightarrow> u8) \<Rightarrow> u32 \<Rightarrow> u8"

record io_globals = scheduler_globals +
  io_trace :: "io_event list"

definition outb :: "u16 \<Rightarrow> u8 \<Rightarrow> 'a io_globals_scheme \<Rightarrow> 'a io_globals_scheme" where
  "outb port value s = s\<lparr>io_trace := Out8 port value # io_trace s\<rparr>"

definition outw :: "u16 \<Rightarrow> u16 \<Rightarrow> 'a io_globals_scheme \<Rightarrow> 'a io_globals_scheme" where
  "outw port value s = s\<lparr>io_trace := Out16 port value # io_trace s\<rparr>"

definition outl :: "u16 \<Rightarrow> u32 \<Rightarrow> 'a io_globals_scheme \<Rightarrow> 'a io_globals_scheme" where
  "outl port value s = s\<lparr>io_trace := Out32 port value # io_trace s\<rparr>"

definition inb :: "hardware \<Rightarrow> u16 \<Rightarrow> 'a io_globals_scheme \<Rightarrow> u8 \<times> 'a io_globals_scheme" where
  "inb hw port s =
     (let value = hw_in8 hw (io_trace s) port in (value, s\<lparr>io_trace := In8 port value # io_trace s\<rparr>))"

definition inw :: "hardware \<Rightarrow> u16 \<Rightarrow> 'a io_globals_scheme \<Rightarrow> u16 \<times> 'a io_globals_scheme" where
  "inw hw port s =
     (let value = hw_in16 hw (io_trace s) port in (value, s\<lparr>io_trace := In16 port value # io_trace s\<rparr>))"

definition inl :: "hardware \<Rightarrow> u16 \<Rightarrow> 'a io_globals_scheme \<Rightarrow> u32 \<times> 'a io_globals_scheme" where
  "inl hw port s =
     (let value = hw_in32 hw (io_trace s) port in (value, s\<lparr>io_trace := In32 port value # io_trace s\<rparr>))"

lemmas port_defs = outb_def outw_def outl_def inb_def inw_def inl_def

text \<open>The last byte written to a port.\<close>

fun last_out8 :: "u16 \<Rightarrow> io_event list \<Rightarrow> u8 option" where
  "last_out8 p [] = None"
| "last_out8 p (e # es) =
     (case e of Out8 q v \<Rightarrow> if q = p then Some v else last_out8 p es | _ \<Rightarrow> last_out8 p es)"

end
