(* ===== verification/Timer.thy ===== *)
theory Timer
  imports Ports
begin

unbundle bit_operations_syntax

text \<open>
  The interrupt controller (\<^verbatim>\<open>core/pic.c\<close>), the timer (\<^verbatim>\<open>core/timer.c\<close>) and the handler of the timer
  interrupt (\<^verbatim>\<open>core/irq.c\<close>).
\<close>

section \<open>The interrupt controller\<close>

abbreviation (input) PIC1_COMMAND :: u16 where "PIC1_COMMAND \<equiv> 0x20"
abbreviation (input) PIC1_DATA :: u16 where "PIC1_DATA \<equiv> 0x21"
abbreviation (input) PIC2_COMMAND :: u16 where "PIC2_COMMAND \<equiv> 0xA0"
abbreviation (input) PIC2_DATA :: u16 where "PIC2_DATA \<equiv> 0xA1"
abbreviation (input) PIC_EOI :: u8 where "PIC_EOI \<equiv> 0x20"

definition pic_outb :: "u16 \<Rightarrow> u8 \<Rightarrow> 'a io_globals_scheme \<Rightarrow> 'a io_globals_scheme" where
  "pic_outb port value = outb port value"

definition pic_inb :: "hardware \<Rightarrow> u16 \<Rightarrow> 'a io_globals_scheme \<Rightarrow> u8 \<times> 'a io_globals_scheme" where
  "pic_inb hw port = inb hw port"

definition pic_io_wait :: "'a io_globals_scheme \<Rightarrow> 'a io_globals_scheme" where
  "pic_io_wait = outb 0x80 0"

definition pic_data_port_for_irq :: "u8 \<Rightarrow> u16" where
  "pic_data_port_for_irq irq = (if irq < 8 then PIC1_DATA else PIC2_DATA)"

definition pic_send_eoi :: "u8 \<Rightarrow> 'a io_globals_scheme \<Rightarrow> 'a io_globals_scheme" where
  "pic_send_eoi irq s =
     pic_outb PIC1_COMMAND PIC_EOI (if irq \<ge> 8 then pic_outb PIC2_COMMAND PIC_EOI s else s)"

definition pic_init :: "hardware \<Rightarrow> 'a io_globals_scheme \<Rightarrow> 'a io_globals_scheme" where
  "pic_init hw s =
     (let (master_mask, s) = pic_inb hw PIC1_DATA s;
          (slave_mask, s) = pic_inb hw PIC2_DATA s
      in steps
           [pic_outb PIC1_COMMAND 0x11, pic_io_wait, pic_outb PIC2_COMMAND 0x11, pic_io_wait,
            pic_outb PIC1_DATA 0x20, pic_io_wait, pic_outb PIC2_DATA 0x28, pic_io_wait,
            pic_outb PIC1_DATA 0x04, pic_io_wait, pic_outb PIC2_DATA 0x02, pic_io_wait,
            pic_outb PIC1_DATA 0x01, pic_io_wait, pic_outb PIC2_DATA 0x01, pic_io_wait,
            pic_outb PIC1_DATA 0xFC, pic_outb PIC2_DATA 0xFF] s)"

definition pic_set_irq_mask :: "hardware \<Rightarrow> u8 \<Rightarrow> 'a io_globals_scheme \<Rightarrow> 'a io_globals_scheme" where
  "pic_set_irq_mask hw irq s =
     (let port = pic_data_port_for_irq irq;
          b = push_bit (unat (irq AND 7)) 1;
          (mask, s) = pic_inb hw port s
      in pic_outb port (mask OR b) s)"

definition pic_clear_irq_mask :: "hardware \<Rightarrow> u8 \<Rightarrow> 'a io_globals_scheme \<Rightarrow> 'a io_globals_scheme" where
  "pic_clear_irq_mask hw irq s =
     (let port = pic_data_port_for_irq irq;
          b = push_bit (unat (irq AND 7)) 1;
          (mask, s) = pic_inb hw port s
      in pic_outb port (mask AND NOT b) s)"

section \<open>The timer\<close>

abbreviation (input) PIT_CHANNEL0_DATA :: u16 where "PIT_CHANNEL0_DATA \<equiv> 0x40"
abbreviation (input) PIT_COMMAND :: u16 where "PIT_COMMAND \<equiv> 0x43"
abbreviation (input) PIT_BASE_HZ :: u32 where "PIT_BASE_HZ \<equiv> 1193182"
abbreviation (input) TIMER_FREQUENCY_HZ :: u32 where "TIMER_FREQUENCY_HZ \<equiv> 100"

record timer_globals = io_globals +
  timer_ticks :: u32

definition timer_outb :: "u16 \<Rightarrow> u8 \<Rightarrow> 'a timer_globals_scheme \<Rightarrow> 'a timer_globals_scheme" where
  "timer_outb port value = outb port value"

definition timer_init :: "'a timer_globals_scheme \<Rightarrow> 'a timer_globals_scheme" where
  "timer_init s =
     (let divisor = ucast (PIT_BASE_HZ div TIMER_FREQUENCY_HZ) :: u16;
          s = s\<lparr>timer_ticks := 0\<rparr>;
          s = timer_outb PIT_COMMAND 0x36 s;
          s = timer_outb PIT_CHANNEL0_DATA (ucast (divisor AND 0xFF)) s
      in timer_outb PIT_CHANNEL0_DATA (ucast (drop_bit 8 divisor AND 0xFF)) s)"

definition timer_handle_tick :: "'a timer_globals_scheme \<Rightarrow> 'a timer_globals_scheme" where
  "timer_handle_tick s = scheduler_handle_tick (s\<lparr>timer_ticks := timer_ticks s + 1\<rparr>)"

definition timer_get_ticks :: "'a timer_globals_scheme \<Rightarrow> u32" where
  "timer_get_ticks s = timer_ticks s"

definition timer_get_frequency_hz :: u32 where
  "timer_get_frequency_hz = TIMER_FREQUENCY_HZ"

definition irq0_handler_c :: "'a timer_globals_scheme \<Rightarrow> 'a timer_globals_scheme" where
  "irq0_handler_c s = pic_send_eoi 0 (timer_handle_tick s)"

text \<open>
  One turn of a loop that polls the tick counter or a word of memory: the timer interrupts that are
  pending run, if interrupts are enabled, and the devices have written to memory.
\<close>

definition interrupts_enabled :: "'a scheduler_globals_scheme \<Rightarrow> bool" where
  "interrupts_enabled s = (ctx_eflags (cpu_registers s) AND 0x200 \<noteq> 0)"

definition poll :: "hardware \<Rightarrow> 'a timer_globals_scheme \<Rightarrow> 'a timer_globals_scheme" where
  "poll hw s =
     (let n = (if interrupts_enabled s then hw_ticks hw (io_trace s) else 0);
          s = s\<lparr>mem := hw_dma hw (io_trace s) (mem s), io_trace := Poll # io_trace s\<rparr>
      in (irq0_handler_c ^^ n) s)"

section \<open>Lemmas\<close>

lemma pit_divisor: "ucast (PIT_BASE_HZ div TIMER_FREQUENCY_HZ) = (11931 :: u16)"
  by simp

lemma scheduler_handle_tick_timer [simp]: "timer_ticks (scheduler_handle_tick s) = timer_ticks s"
  by (simp add: scheduler_handle_tick_def Let_def upd_task_def)

lemma irq0_ticks [simp]: "timer_ticks (irq0_handler_c s) = timer_ticks s + 1"
  by (simp add: irq0_handler_c_def timer_handle_tick_def pic_send_eoi_def pic_outb_def outb_def)

end
