(* ===== verification/Sound.thy ===== *)
theory Sound
  imports Timer
begin

unbundle bit_operations_syntax

text \<open>
  The PC speaker (\<^verbatim>\<open>drivers/sound.c\<close>). The delays are loops that end when the timer has advanced, or,
  with interrupts off, when the counter of the timer chip has wrapped often enough. They are
  partial: \<open>None\<close> is a delay that never ends.
\<close>

abbreviation (input) SPEAKER_PORT :: u16 where "SPEAKER_PORT \<equiv> 0x61"
abbreviation (input) PIT_CHANNEL2_DATA :: u16 where "PIT_CHANNEL2_DATA \<equiv> 0x42"
abbreviation (input) SOUND_MIN_FREQUENCY_HZ :: u32 where "SOUND_MIN_FREQUENCY_HZ \<equiv> 37"
abbreviation (input) SOUND_MAX_FREQUENCY_HZ :: u32 where "SOUND_MAX_FREQUENCY_HZ \<equiv> 20000"

record sound_globals = timer_globals +
  sound_ready :: bool

definition sound_outb :: "u16 \<Rightarrow> u8 \<Rightarrow> 'a sound_globals_scheme \<Rightarrow> 'a sound_globals_scheme" where
  "sound_outb port value = outb port value"

definition sound_inb :: "hardware \<Rightarrow> u16 \<Rightarrow> 'a sound_globals_scheme \<Rightarrow> u8 \<times> 'a sound_globals_scheme" where
  "sound_inb hw port = inb hw port"

definition sound_interrupts_enabled :: "'a sound_globals_scheme \<Rightarrow> bool" where
  "sound_interrupts_enabled s = (ctx_eflags (cpu_registers s) AND 0x00000200 \<noteq> 0)"

definition sound_write_u32 :: "u32 \<Rightarrow> 'a sound_globals_scheme \<Rightarrow> 'a sound_globals_scheme" where
  "sound_write_u32 value s = console_write_u32 value s"

section \<open>Delays\<close>

definition ms_to_ticks :: "u32 \<Rightarrow> u32" where
  "ms_to_ticks duration_ms =
     (let wait_ticks = (duration_ms * timer_get_frequency_hz + 999) div 1000
      in if wait_ticks = 0 then 1 else wait_ticks)"

partial_function (option) sound_wait_loop ::
  "hardware \<Rightarrow> u32 \<Rightarrow> u32 \<Rightarrow> 'a sound_globals_scheme \<Rightarrow> 'a sound_globals_scheme option" where
  "sound_wait_loop hw start_ticks wait_ticks s =
     (if timer_get_ticks s - start_ticks < wait_ticks
      then sound_wait_loop hw start_ticks wait_ticks (poll hw s) else Some s)"

definition sound_wait_ms :: "hardware \<Rightarrow> u32 \<Rightarrow> 'a sound_globals_scheme \<Rightarrow> 'a sound_globals_scheme option" where
  "sound_wait_ms hw duration_ms s = sound_wait_loop hw (timer_get_ticks s) (ms_to_ticks duration_ms) s"

definition sound_read_pit_channel0_count ::
  "hardware \<Rightarrow> 'a sound_globals_scheme \<Rightarrow> u16 \<times> 'a sound_globals_scheme" where
  "sound_read_pit_channel0_count hw s =
     (let s = sound_outb PIT_COMMAND 0x00 s;
          (low, s) = sound_inb hw PIT_CHANNEL0_DATA s;
          (high, s) = sound_inb hw PIT_CHANNEL0_DATA s
      in (push_bit 8 (ucast high :: u16) OR ucast low, s))"

partial_function (option) sound_noirq_loop ::
  "hardware \<Rightarrow> u32 \<Rightarrow> u16 \<Rightarrow> 'a sound_globals_scheme \<Rightarrow> 'a sound_globals_scheme option" where
  "sound_noirq_loop hw wait_periods previous_count s =
     (if wait_periods > 0
      then let (current_count, s) = sound_read_pit_channel0_count hw s
           in sound_noirq_loop hw (if current_count > previous_count then wait_periods - 1 else wait_periods)
                current_count s
      else Some s)"

definition sound_wait_noirq_ms :: "hardware \<Rightarrow> u32 \<Rightarrow> 'a sound_globals_scheme \<Rightarrow> 'a sound_globals_scheme option" where
  "sound_wait_noirq_ms hw duration_ms s =
     (if duration_ms = 0 then Some s
      else let (previous_count, s) = sound_read_pit_channel0_count hw s
           in sound_noirq_loop hw (ms_to_ticks duration_ms) previous_count s)"

section \<open>Tones\<close>

definition sound_play_tone :: "hardware \<Rightarrow> u32 \<Rightarrow> 'a sound_globals_scheme \<Rightarrow> 'a sound_globals_scheme" where
  "sound_play_tone hw frequency_hz s =
     (if \<not> sound_ready s then s
      else if frequency_hz < SOUND_MIN_FREQUENCY_HZ \<or> frequency_hz > SOUND_MAX_FREQUENCY_HZ then s
      else
        let divisor = ucast (PIT_BASE_HZ div frequency_hz) :: u16;
            s = sound_outb PIT_COMMAND 0xB6 s;
            s = sound_outb PIT_CHANNEL2_DATA (ucast (divisor AND 0xFF)) s;
            s = sound_outb PIT_CHANNEL2_DATA (ucast (drop_bit 8 divisor AND 0xFF)) s;
            (speaker_state, s) = sound_inb hw SPEAKER_PORT s
        in if speaker_state AND 0x03 \<noteq> 0x03 then sound_outb SPEAKER_PORT (speaker_state OR 0x03) s else s)"

definition sound_stop :: "hardware \<Rightarrow> 'a sound_globals_scheme \<Rightarrow> 'a sound_globals_scheme" where
  "sound_stop hw s =
     (let (speaker_state, s) = sound_inb hw SPEAKER_PORT s
      in sound_outb SPEAKER_PORT (speaker_state AND 0xFC) s)"

definition sound_beep :: "hardware \<Rightarrow> u32 \<Rightarrow> u32 \<Rightarrow> 'a sound_globals_scheme \<Rightarrow> 'a sound_globals_scheme option" where
  "sound_beep hw frequency_hz duration_ms s =
     (if \<not> sound_ready s then Some s
      else do {
        s \<leftarrow> sound_wait_ms hw duration_ms (sound_play_tone hw frequency_hz s);
        Some (sound_stop hw s)
      })"

definition sound_play_note ::
  "hardware \<Rightarrow> u32 \<Rightarrow> u32 \<Rightarrow> u32 \<Rightarrow> 'a sound_globals_scheme \<Rightarrow> 'a sound_globals_scheme option" where
  "sound_play_note hw frequency_hz duration_ms gap_ms s = do {
     s \<leftarrow> (if frequency_hz = 0 then sound_wait_ms hw duration_ms (sound_stop hw s)
           else sound_beep hw frequency_hz duration_ms s);
     if gap_ms \<noteq> 0 then sound_wait_ms hw gap_ms s else Some s
   }"

definition sound_play_note_noirq ::
  "hardware \<Rightarrow> u32 \<Rightarrow> u32 \<Rightarrow> u32 \<Rightarrow> 'a sound_globals_scheme \<Rightarrow> 'a sound_globals_scheme option" where
  "sound_play_note_noirq hw frequency_hz duration_ms gap_ms s = do {
     s \<leftarrow> (if frequency_hz = 0 then sound_wait_noirq_ms hw duration_ms (sound_stop hw s)
           else do {
             s \<leftarrow> sound_wait_noirq_ms hw duration_ms (sound_play_tone hw frequency_hz s);
             Some (sound_stop hw s)
           });
     if gap_ms \<noteq> 0 then sound_wait_noirq_ms hw gap_ms s else Some s
   }"

definition sound_play_panic_note ::
  "hardware \<Rightarrow> u32 \<Rightarrow> u32 \<Rightarrow> u32 \<Rightarrow> 'a sound_globals_scheme \<Rightarrow> 'a sound_globals_scheme option" where
  "sound_play_panic_note hw frequency_hz duration_ms gap_ms s =
     (if sound_interrupts_enabled s then sound_play_note hw frequency_hz duration_ms gap_ms s
      else sound_play_note_noirq hw frequency_hz duration_ms gap_ms s)"

definition sound_init :: "hardware \<Rightarrow> 'a sound_globals_scheme \<Rightarrow> 'a sound_globals_scheme" where
  "sound_init hw s = sound_stop hw (s\<lparr>sound_ready := True\<rparr>)"

definition sound_is_initialized :: "'a sound_globals_scheme \<Rightarrow> bool" where
  "sound_is_initialized s = sound_ready s"

text \<open>The calls of a melody one after the other.\<close>

fun play_all ::
  "(u32 \<Rightarrow> u32 \<Rightarrow> u32 \<Rightarrow> 's \<Rightarrow> 's option) \<Rightarrow> (u32 \<times> u32 \<times> u32) list \<Rightarrow> 's \<Rightarrow> 's option" where
  "play_all play [] s = Some s"
| "play_all play ((frequency_hz, duration_ms, gap_ms) # notes) s =
     do { s \<leftarrow> play frequency_hz duration_ms gap_ms s; play_all play notes s }"

definition sound_play_melody :: "hardware \<Rightarrow> 'a sound_globals_scheme \<Rightarrow> 'a sound_globals_scheme option" where
  "sound_play_melody hw s =
     (if \<not> sound_ready s then Some s
      else play_all (sound_play_note hw)
        [(659, 180, 30), (784, 180, 30), (988, 220, 35), (784, 180, 30),
         (1047, 260, 40), (0, 70, 0), (988, 220, 30), (784, 260, 0)] s)"

definition sound_panic_alert :: "hardware \<Rightarrow> 'a sound_globals_scheme \<Rightarrow> 'a sound_globals_scheme option" where
  "sound_panic_alert hw s =
     (if \<not> sound_ready s then Some s
      else play_all (sound_play_panic_note hw)
        [(988, 400, 100), (784, 350, 100), (659, 350, 100), (523, 500, 150), (659, 350, 100), (784, 500, 0),
         (988, 400, 100), (784, 350, 100), (659, 350, 100), (523, 400, 100), (784, 100, 0)] s)"

definition sound_dump_to_terminal :: "'a sound_globals_scheme \<Rightarrow> 'a sound_globals_scheme" where
  "sound_dump_to_terminal s = steps
     [terminal_writeline ''Sound subsystem:'',
      terminal_write ''  State      : '',
      terminal_writeline (if sound_ready s then ''PC speaker online'' else ''Offline''),
      terminal_writeline ''  Backend    : PIT channel 2 + speaker port 0x61'',
      terminal_writeline ''  Quality    : PC speaker only (monophonic)'',
      terminal_write ''  Test beep  : '',
      sound_write_u32 880,
      terminal_writeline '' Hz / 350 ms via `beep`'',
      terminal_writeline ''  Melody     : test theme via `melody`'',
      terminal_writeline ''  Host test  : `make run-audio` or `make audio-proof`'',
      terminal_writeline ''  Upgrade    : use `audio` to inspect PCI audio hardware''] s"

end
