(* ===== verification/Panic.thy ===== *)
theory Panic
  imports Sound
begin

unbundle bit_operations_syntax

text \<open>
  The panic screens (\<^verbatim>\<open>core/panic.c\<close>), the handler of processor exceptions (\<^verbatim>\<open>core/fault.c\<close>) and the
  interrupt descriptor table (\<^verbatim>\<open>core/idt.c\<close>). A panic never returns: its result is the state in which
  the processor halts for good, with interrupts disabled. It is partial because the alert tune has
  delays.
\<close>

abbreviation (input) TERMOB_KERNEL_NAME :: string where "TERMOB_KERNEL_NAME \<equiv> ''TERMOB Kernel''"
abbreviation (input) TERMOB_KERNEL_VERSION :: string where "TERMOB_KERNEL_VERSION \<equiv> ''0.1.0-dev''"
abbreviation (input) TERMOB_KERNEL_ARCH :: string where "TERMOB_KERNEL_ARCH \<equiv> ''i386''"
abbreviation (input) TERMOB_KERNEL_PROFILE :: string where "TERMOB_KERNEL_PROFILE \<equiv> ''Monolithic''"
abbreviation (input) TERMOB_KERNEL_SUPPORT_EMAIL :: string where
  "TERMOB_KERNEL_SUPPORT_EMAIL \<equiv> ''privitera.tommaso2013@gmail.com''"
abbreviation (input) PANIC_LABEL_WIDTH :: nat where "PANIC_LABEL_WIDTH \<equiv> 10"

record interrupt_frame =
  if_gs :: u32
  if_fs :: u32
  if_es :: u32
  if_ds :: u32
  if_edi :: u32
  if_esi :: u32
  if_ebp :: u32
  if_esp :: u32
  if_ebx :: u32
  if_edx :: u32
  if_ecx :: u32
  if_eax :: u32
  if_vector :: u32
  if_error_code :: u32
  if_eip :: u32
  if_cs :: u32
  if_eflags :: u32

section \<open>Writing to screen, serial port and log\<close>

definition panic_write_all :: "string \<Rightarrow> 'a sound_globals_scheme \<Rightarrow> 'a sound_globals_scheme" where
  "panic_write_all txt = steps [terminal_write txt, serial_write txt, klog_write txt]"

definition hex32_text :: "u32 \<Rightarrow> string" where
  "hex32_text value =
     ''0x'' @ map (\<lambda>shift. hex_digits ! unat (drop_bit shift value AND 0x0F)) [28, 24, 20, 16, 12, 8, 4, 0]"

definition panic_write_hex32_all :: "u32 \<Rightarrow> 'a sound_globals_scheme \<Rightarrow> 'a sound_globals_scheme" where
  "panic_write_hex32_all value =
     steps [terminal_write (hex32_text value), serial_write (hex32_text value), klog_write (hex32_text value)]"

definition panic_write_u32_all :: "u32 \<Rightarrow> 'a sound_globals_scheme \<Rightarrow> 'a sound_globals_scheme" where
  "panic_write_u32_all value s =
     (if value = 0 then steps [terminal_putchar CHR ''0'', serial_write_char CHR ''0'', klog_write ''0''] s
      else fold (\<lambda>digit. steps [terminal_putchar digit, serial_write_char digit, klog_write [digit]])
             (rev (u32_digits 10 value)) s)"

definition panic_writeline_all :: "string \<Rightarrow> 'a sound_globals_scheme \<Rightarrow> 'a sound_globals_scheme" where
  "panic_writeline_all txt = steps [terminal_writeline txt, serial_writeline txt, klog_writeline txt]"

definition panic_newline_all :: "'a sound_globals_scheme \<Rightarrow> 'a sound_globals_scheme" where
  "panic_newline_all = steps [terminal_putchar NEWLINE, serial_write_char NEWLINE, klog_write [NEWLINE]]"

primrec panic_write_spaces_all :: "nat \<Rightarrow> 'a sound_globals_scheme \<Rightarrow> 'a sound_globals_scheme" where
  "panic_write_spaces_all 0 s = s"
| "panic_write_spaces_all (Suc count) s = panic_write_spaces_all count (panic_write_all '' '' s)"

definition panic_write_label_prefix :: "string \<Rightarrow> 'a sound_globals_scheme \<Rightarrow> 'a sound_globals_scheme" where
  "panic_write_label_prefix label =
     steps [panic_write_all ''  '', panic_write_all label,
       \<lambda>s. if kstrlen label < PANIC_LABEL_WIDTH then panic_write_spaces_all (PANIC_LABEL_WIDTH - kstrlen label) s else s,
       panic_write_all '': '']"

definition panic_write_label_line_hex :: "string \<Rightarrow> u32 \<Rightarrow> 'a sound_globals_scheme \<Rightarrow> 'a sound_globals_scheme" where
  "panic_write_label_line_hex label value =
     steps [panic_write_label_prefix label, panic_write_hex32_all value, panic_newline_all]"

definition panic_write_label_line_text :: "string \<Rightarrow> string \<Rightarrow> 'a sound_globals_scheme \<Rightarrow> 'a sound_globals_scheme" where
  "panic_write_label_line_text label value =
     steps [panic_write_label_prefix label, panic_writeline_all value]"

definition panic_write_section_title :: "string \<Rightarrow> 'a sound_globals_scheme \<Rightarrow> 'a sound_globals_scheme" where
  "panic_write_section_title title =
     steps [panic_newline_all, panic_write_all ''[ '', panic_write_all title, panic_writeline_all '' ]'']"

definition panic_write_action_hint :: "'a sound_globals_scheme \<Rightarrow> 'a sound_globals_scheme" where
  "panic_write_action_hint = steps
     [panic_write_section_title ''ACTION'',
      panic_writeline_all ''  Machine halted.'',
      panic_writeline_all ''  Collect this screen and COM1 output before reboot.'']"

section \<open>The screen\<close>

definition panic_draw_terminal_banner :: "'a sound_globals_scheme \<Rightarrow> 'a sound_globals_scheme" where
  "panic_draw_terminal_banner = steps
     [terminal_fill_rect 0 2 VGA_WIDTH 6 (terminal_make_color VGA_COLOR_LIGHT_GREY VGA_COLOR_BLACK),
      terminal_draw_box 2 2 18 6 (terminal_make_color VGA_COLOR_LIGHT_RED VGA_COLOR_BLACK),
      terminal_draw_box 22 2 56 6 (terminal_make_color VGA_COLOR_LIGHT_RED VGA_COLOR_BLACK),
      terminal_setcolor VGA_COLOR_YELLOW VGA_COLOR_BLACK,
      terminal_writeat ''    .--------.'' 4 3,
      terminal_writeat ''    |  !!  !!|'' 4 4,
      terminal_writeat ''    |  PANIC |'' 4 5,
      terminal_writeat (''    '' @ [CHR 0x27] @ ''--------'' @ [CHR 0x27]) 4 6,
      terminal_setcolor VGA_COLOR_WHITE VGA_COLOR_BLACK,
      terminal_writeat ''STATE  : halted in panic context'' 24 3,
      terminal_writeat (''KERNEL : '' @ TERMOB_KERNEL_NAME @ '' '' @ TERMOB_KERNEL_VERSION) 24 4,
      terminal_writeat (''TARGET : '' @ TERMOB_KERNEL_ARCH @ '' / '' @ TERMOB_KERNEL_PROFILE) 24 5,
      terminal_writeat ''OUTPUT : VGA + COM1 + klog mirror active'' 24 6]"

text \<open>The interrupt flag of the processor.\<close>

definition cpu_cli :: "'a scheduler_globals_scheme \<Rightarrow> 'a scheduler_globals_scheme" where
  "cpu_cli s = s\<lparr>cpu_registers := (cpu_registers s)\<lparr>ctx_eflags := ctx_eflags (cpu_registers s) AND NOT 0x200\<rparr>\<rparr>"

definition cpu_sti :: "'a scheduler_globals_scheme \<Rightarrow> 'a scheduler_globals_scheme" where
  "cpu_sti s = s\<lparr>cpu_registers := (cpu_registers s)\<lparr>ctx_eflags := ctx_eflags (cpu_registers s) OR 0x200\<rparr>\<rparr>"

definition panic_prepare_screen :: "hardware \<Rightarrow> 'a sound_globals_scheme \<Rightarrow> 'a sound_globals_scheme option" where
  "panic_prepare_screen hw s =
     (let header_color = terminal_make_color VGA_COLOR_WHITE VGA_COLOR_RED;
          footer_color = terminal_make_color VGA_COLOR_LIGHT_GREY VGA_COLOR_DARK_GREY;
          s = steps
            [terminal_initialize VGA_COLOR_LIGHT_GREY VGA_COLOR_BLACK,
             terminal_fill_rect 0 0 VGA_WIDTH 2 header_color,
             terminal_fill_rect 0 23 VGA_WIDTH 2 footer_color,
             terminal_setcolor VGA_COLOR_WHITE VGA_COLOR_RED,
             terminal_writecenter ''TERMOB KERNEL PANIC'' 0,
             terminal_setcolor VGA_COLOR_YELLOW VGA_COLOR_RED,
             terminal_writecenter ''fatal kernel error | execution stopped safely'' 1,
             panic_draw_terminal_banner,
             terminal_setcolor VGA_COLOR_LIGHT_GREY VGA_COLOR_DARK_GREY,
             terminal_writeat ''System halted | inspect registers and COM1 log before reboot'' 1 23,
             terminal_writeat (''Support: '' @ TERMOB_KERNEL_SUPPORT_EMAIL) 1 24,
             terminal_setcolor VGA_COLOR_LIGHT_GREY VGA_COLOR_BLACK,
             terminal_set_region 9 22,
             terminal_set_cursor 0 9] s
      in map_option cpu_cli (sound_panic_alert hw s))"

definition panic_write_frame_registers :: "interrupt_frame \<Rightarrow> 'a sound_globals_scheme \<Rightarrow> 'a sound_globals_scheme" where
  "panic_write_frame_registers frame = steps
     [panic_writeline_all ''Registers:'',
      panic_write_label_line_hex ''EIP'' (if_eip frame),
      panic_write_label_line_hex ''CS'' (if_cs frame),
      panic_write_label_line_hex ''EFLAGS'' (if_eflags frame),
      panic_write_label_line_hex ''EAX'' (if_eax frame),
      panic_write_label_line_hex ''EBX'' (if_ebx frame),
      panic_write_label_line_hex ''ECX'' (if_ecx frame),
      panic_write_label_line_hex ''EDX'' (if_edx frame),
      panic_write_label_line_hex ''ESI'' (if_esi frame),
      panic_write_label_line_hex ''EDI'' (if_edi frame),
      panic_write_label_line_hex ''EBP'' (if_ebp frame),
      panic_write_label_line_hex ''ESP'' (if_esp frame)]"

definition panic_write_page_fault_details :: "u32 \<Rightarrow> 'a sound_globals_scheme \<Rightarrow> 'a sound_globals_scheme" where
  "panic_write_page_fault_details error_code = steps
     [panic_writeline_all ''Page fault details:'',
      panic_write_label_line_text ''Cause'' (if error_code AND 0x01 \<noteq> 0 then ''protection violation'' else ''non-present page''),
      panic_write_label_line_text ''Access'' (if error_code AND 0x02 \<noteq> 0 then ''write'' else ''read''),
      panic_write_label_line_text ''Mode'' (if error_code AND 0x04 \<noteq> 0 then ''user'' else ''supervisor''),
      panic_write_label_line_text ''Reserved'' (if error_code AND 0x08 \<noteq> 0 then ''set'' else ''clear''),
      panic_write_label_line_text ''Fetch'' (if error_code AND 0x10 \<noteq> 0 then ''instruction fetch'' else ''data access'')]"

text \<open>The summary every panic begins with.\<close>

definition panic_write_summary :: "string \<Rightarrow> 'a sound_globals_scheme \<Rightarrow> 'a sound_globals_scheme" where
  "panic_write_summary reason = steps
     [panic_write_section_title ''SUMMARY'',
      panic_write_label_line_text ''Kernel'' TERMOB_KERNEL_NAME,
      panic_write_label_line_text ''Version'' TERMOB_KERNEL_VERSION,
      panic_write_label_line_text ''Support'' TERMOB_KERNEL_SUPPORT_EMAIL,
      panic_write_label_line_text ''Reason'' reason]"

definition kernel_panic_simple ::
  "hardware \<Rightarrow> string \<Rightarrow> string option \<Rightarrow> 'a sound_globals_scheme \<Rightarrow> 'a sound_globals_scheme option" where
  "kernel_panic_simple hw reason detail s = do {
     s \<leftarrow> panic_prepare_screen hw s;
     Some (steps
       [panic_write_summary reason,
        \<lambda>s. (case detail of None \<Rightarrow> s | Some d \<Rightarrow> if kstrlen d \<noteq> 0 then panic_write_label_line_text ''Detail'' d s else s),
        panic_write_action_hint] s)
   }"

definition kernel_panic_assertion ::
  "hardware \<Rightarrow> string \<Rightarrow> string \<Rightarrow> u32 \<Rightarrow> 'a sound_globals_scheme \<Rightarrow> 'a sound_globals_scheme option" where
  "kernel_panic_assertion hw expression file line s = do {
     s \<leftarrow> panic_prepare_screen hw s;
     Some (steps
       [panic_write_summary ''Assertion failed'',
        panic_write_section_title ''CONTEXT'',
        panic_write_label_line_text ''Expression'' expression,
        panic_write_label_prefix ''Location'',
        panic_write_all file,
        panic_write_all '':'',
        panic_write_u32_all line,
        panic_newline_all,
        panic_write_action_hint] s)
   }"

definition kernel_panic_exception ::
  "hardware \<Rightarrow> string \<Rightarrow> interrupt_frame \<Rightarrow> 'a sound_globals_scheme \<Rightarrow> 'a sound_globals_scheme option" where
  "kernel_panic_exception hw exception_name frame s = do {
     s \<leftarrow> panic_prepare_screen hw s;
     Some (steps
       [panic_write_summary ''CPU Exception'',
        panic_write_label_line_text ''Exception'' exception_name,
        panic_write_label_line_hex ''Vector'' (if_vector frame),
        panic_write_label_line_hex ''ErrorCode'' (if_error_code frame),
        panic_write_section_title ''REGISTERS'',
        panic_write_frame_registers frame,
        panic_write_action_hint] s)
   }"

definition kernel_panic_page_fault ::
  "hardware \<Rightarrow> interrupt_frame \<Rightarrow> u32 \<Rightarrow> 'a sound_globals_scheme \<Rightarrow> 'a sound_globals_scheme option" where
  "kernel_panic_page_fault hw frame fault_address s = do {
     s \<leftarrow> panic_prepare_screen hw s;
     Some (steps
       [panic_write_summary ''CPU Exception'',
        panic_write_label_line_text ''Exception'' ''Page Fault'',
        panic_write_label_line_hex ''CR2'' fault_address,
        panic_write_label_line_hex ''ErrorCode'' (if_error_code frame),
        panic_write_section_title ''PAGE FAULT'',
        panic_write_page_fault_details (if_error_code frame),
        panic_write_section_title ''REGISTERS'',
        panic_write_frame_registers frame,
        panic_write_action_hint] s)
   }"

section \<open>Exceptions\<close>

definition fault_names :: "string list" where
  "fault_names =
     [''Divide Error'', ''Debug'', ''Non-Maskable Interrupt'', ''Breakpoint'', ''Overflow'', ''BOUND Range Exceeded'',
      ''Invalid Opcode'', ''Device Not Available'', ''Double Fault'', ''Coprocessor Segment Overrun'', ''Invalid TSS'',
      ''Segment Not Present'', ''Stack-Segment Fault'', ''General Protection Fault'', ''Page Fault'', ''Reserved'',
      ''x87 Floating-Point Exception'', ''Alignment Check'', ''Machine Check'', ''SIMD Floating-Point Exception'',
      ''Virtualization Exception'', ''Control Protection Exception'', ''Reserved'', ''Reserved'', ''Reserved'',
      ''Reserved'', ''Reserved'', ''Reserved'', ''Hypervisor Injection Exception'', ''VMM Communication Exception'',
      ''Security Exception'', ''Reserved'']"

text \<open>\<open>cr2\<close> is the register in which the processor leaves the address of a page fault.\<close>

definition isr_fault_handler_c ::
  "hardware \<Rightarrow> u32 \<Rightarrow> interrupt_frame \<Rightarrow> 'a sound_globals_scheme \<Rightarrow> 'a sound_globals_scheme option" where
  "isr_fault_handler_c hw cr2 frame s =
     (if if_vector frame = 14 then kernel_panic_page_fault hw frame cr2 s
      else kernel_panic_exception hw
        (if if_vector frame < 32 then fault_names ! unat (if_vector frame) else ''Unknown Exception'') frame s)"

section \<open>The interrupt descriptor table\<close>

record idt_entry =
  ie_offset_low :: u16
  ie_selector :: u16
  ie_zero :: u8
  ie_type_attr :: u8
  ie_offset_high :: u16

record idt_globals = sound_globals +
  idt :: "idt_entry list"
  idt_descriptor_limit :: u16
  idt_descriptor_base :: u32
  cpu_idtr :: "(u16 \<times> u32) option"

definition zero_gate :: idt_entry where
  "zero_gate = \<lparr>ie_offset_low = 0, ie_selector = 0, ie_zero = 0, ie_type_attr = 0, ie_offset_high = 0\<rparr>"

text \<open>
  \<open>cs\<close> is the code selector of the processor and \<open>file\<close> the name of the source file that an
  assertion reports. \<open>Inl\<close> is the state a failed assertion halts in.
\<close>

definition idt_set_gate ::
  "hardware \<Rightarrow> string \<Rightarrow> u16 \<Rightarrow> u8 \<Rightarrow> u32 \<Rightarrow> 'a idt_globals_scheme \<Rightarrow> ('a idt_globals_scheme option + 'a idt_globals_scheme)" where
  "idt_set_gate hw file cs vector handler s =
     (if handler = 0 then Inl (kernel_panic_assertion hw ''handler != 0U'' file 97 s)
      else Inr (s\<lparr>idt := (idt s)[unat vector :=
             \<lparr>ie_offset_low = ucast (handler AND 0xFFFF), ie_selector = cs, ie_zero = 0, ie_type_attr = 0x8E,
              ie_offset_high = ucast (drop_bit 16 handler AND 0xFFFF)\<rparr>]\<rparr>))"

text \<open>The loop that installs the handlers of the 32 exceptions, whose addresses are \<open>handlers\<close>.\<close>

fun idt_set_gates ::
  "hardware \<Rightarrow> string \<Rightarrow> u16 \<Rightarrow> nat \<Rightarrow> u32 list \<Rightarrow> 'a idt_globals_scheme \<Rightarrow> ('a idt_globals_scheme option + 'a idt_globals_scheme)" where
  "idt_set_gates hw file cs vector [] s = Inr s"
| "idt_set_gates hw file cs vector (h # hs) s =
     (case idt_set_gate hw file cs (word_of_nat vector) h s of
        Inl p \<Rightarrow> Inl p | Inr s \<Rightarrow> idt_set_gates hw file cs (vector + 1) hs s)"

definition idt_load :: "'a idt_globals_scheme \<Rightarrow> 'a idt_globals_scheme" where
  "idt_load s = s\<lparr>cpu_idtr := Some (idt_descriptor_limit s, idt_descriptor_base s)\<rparr>"

definition idt_init ::
  "hardware \<Rightarrow> string \<Rightarrow> u16 \<Rightarrow> u32 list \<Rightarrow> u32 \<Rightarrow> 'a idt_globals_scheme \<Rightarrow>
     ('a idt_globals_scheme option + 'a idt_globals_scheme)" where
  "idt_init hw file cs handlers idt_address s =
     (let s = fold (\<lambda>i s. s\<lparr>idt := (idt s)[i := zero_gate]\<rparr>) [0..<256] s
      in case idt_set_gates hw file cs 0 handlers s of
           Inl p \<Rightarrow> Inl p
         | Inr s \<Rightarrow> Inr (idt_load (s\<lparr>idt_descriptor_limit := 8 * 256 - 1, idt_descriptor_base := idt_address\<rparr>)))"

end
