(* ===== verification/Driver.thy ===== *)
theory Driver
  imports Panic
begin

unbundle bit_operations_syntax

text \<open>
  The driver model (\<^verbatim>\<open>core/driver.c\<close>), its interface for the rest of the kernel (\<^verbatim>\<open>core/device.c\<close>) and
  the example driver (\<^verbatim>\<open>drivers/dummy_pci.c\<close>). The three linked lists are HOL lists of nodes, each with
  the address \<^verbatim>\<open>kmalloc\<close> gave it; a pointer to a bus, device or driver in a node is that address.

  A probe function may do anything to the state, and may register further devices. Drivers hold the
  address of their probe function, and what a call of an address does is the parameter
  \<open>call_probe\<close>, applied to the position of the device; the kernel's own probes are put in its place in
  \<^verbatim>\<open>Virtio\<close>. The loops over the lists see what a probe appends, so they are partial.
\<close>

section \<open>State\<close>

datatype termob_bus_type = TERMOB_BUS_NONE | TERMOB_BUS_PCI | TERMOB_BUS_VIRTIO

record termob_bus =
  bus_name :: "string option"
  bus_kind :: termob_bus_type
  bus_data :: u32

record termob_device =
  dev_name :: "string option"
  dev_bus_type :: termob_bus_type
  dev_bus_ref :: u32
  dev_driver :: u32
  dev_bound_driver_name :: "string option"
  dev_driver_data :: u32
  dev_data :: u32
  dev_vendor_id :: u16
  dev_device_id :: u16
  dev_class_code :: u8
  dev_subclass :: u8
  dev_prog_if :: u8
  dev_revision :: u8
  dev_bus :: u8
  dev_slot :: u8
  dev_function :: u8

record termob_driver =
  drv_name :: "string option"
  drv_bus_type :: termob_bus_type
  drv_match :: "(termob_device \<Rightarrow> bool) option"
  drv_probe :: u32
  drv_remove :: u32
  drv_data :: u32

record driver_bus_node =
  bus_address :: u32
  bus_of :: termob_bus

record driver_device_node =
  dev_address :: u32
  device_of :: termob_device

record driver_driver_node =
  drv_address :: u32
  driver_of :: termob_driver

record driver_globals = idt_globals +
  driver_model_ready :: bool
  driver_bus_list :: "driver_bus_node list"
  driver_device_list :: "driver_device_node list"
  driver_driver_list :: "driver_driver_node list"
  driver_bus_count_value :: nat
  driver_device_count_value :: nat
  driver_driver_count_value :: nat
  driver_bound_count_value :: nat

abbreviation (input) DRIVER_BUS_NODE_SIZE :: u32 where "DRIVER_BUS_NODE_SIZE \<equiv> 16"
abbreviation (input) DRIVER_DEVICE_NODE_SIZE :: u32 where "DRIVER_DEVICE_NODE_SIZE \<equiv> 44"
abbreviation (input) DRIVER_DRIVER_NODE_SIZE :: u32 where "DRIVER_DRIVER_NODE_SIZE \<equiv> 28"

section \<open>The log line of a binding\<close>

definition driver_log_append_char :: "nat \<Rightarrow> char \<Rightarrow> string \<Rightarrow> string" where
  "driver_log_append_char capacity c txt = (if length txt + 1 \<ge> capacity then txt else txt @ [c])"

fun driver_log_append_loop :: "nat \<Rightarrow> string \<Rightarrow> string \<Rightarrow> string" where
  "driver_log_append_loop capacity [] txt = txt"
| "driver_log_append_loop capacity (c # cs) txt =
     (if c = NUL then txt else driver_log_append_loop capacity cs (driver_log_append_char capacity c txt))"

definition driver_log_append_text :: "nat \<Rightarrow> string option \<Rightarrow> string \<Rightarrow> string" where
  "driver_log_append_text capacity value txt =
     (case value of None \<Rightarrow> txt | Some v \<Rightarrow> driver_log_append_loop capacity v txt)"

definition driver_log_append_hex8 :: "nat \<Rightarrow> u8 \<Rightarrow> string \<Rightarrow> string" where
  "driver_log_append_hex8 capacity value txt =
     driver_log_append_char capacity (hex_digits ! unat (value AND 0x0F))
       (driver_log_append_char capacity (hex_digits ! unat (drop_bit 4 value AND 0x0F)) txt)"

definition driver_bound_line :: "termob_driver \<Rightarrow> termob_device \<Rightarrow> string" where
  "driver_bound_line drv device =
     (let line = driver_log_append_text 128 (Some ''[DRIVER] bound '') [];
          line = driver_log_append_text 128 (drv_name drv) line;
          line = driver_log_append_text 128 (Some '' -> '') line
      in if dev_name device \<noteq> None then driver_log_append_text 128 (dev_name device) line
         else if dev_bus_type device = TERMOB_BUS_PCI
         then steps [driver_log_append_text 128 (Some ''pci-''), driver_log_append_hex8 128 (dev_bus device),
                driver_log_append_char 128 CHR '':'', driver_log_append_hex8 128 (dev_slot device),
                driver_log_append_char 128 CHR ''.'', driver_log_append_hex8 128 (dev_function device)] line
         else driver_log_append_text 128 (Some ''unnamed-device'') line)"

definition driver_log_bound ::
  "termob_driver \<Rightarrow> termob_device \<Rightarrow> 'a log_globals_scheme \<Rightarrow> 'a log_globals_scheme" where
  "driver_log_bound drv device s =
     serial_writeline (driver_bound_line drv device) (klog_writeline (driver_bound_line drv device) s)"

section \<open>Matching and binding\<close>

definition driver_bus_node_by_type ::
  "termob_bus_type \<Rightarrow> 'a driver_globals_scheme \<Rightarrow> driver_bus_node option" where
  "driver_bus_node_by_type bus_type s = find (\<lambda>node. bus_kind (bus_of node) = bus_type) (driver_bus_list s)"

definition driver_device_matches :: "termob_driver \<Rightarrow> termob_device \<Rightarrow> bool" where
  "driver_device_matches drv device =
     (if drv_bus_type drv \<noteq> dev_bus_type device then False
      else case drv_match drv of None \<Rightarrow> True | Some match \<Rightarrow> match device)"

definition upd_device ::
  "nat \<Rightarrow> (termob_device \<Rightarrow> termob_device) \<Rightarrow> 'a driver_globals_scheme \<Rightarrow> 'a driver_globals_scheme" where
  "upd_device i f s =
     s\<lparr>driver_device_list := (driver_device_list s)
         [i := (driver_device_list s ! i)\<lparr>device_of := f (device_of (driver_device_list s ! i))\<rparr>]\<rparr>"

definition driver_try_bind ::
  "(u32 \<Rightarrow> nat \<Rightarrow> 'a driver_globals_scheme \<Rightarrow> 'a driver_globals_scheme option) \<Rightarrow>
   nat \<Rightarrow> driver_driver_node \<Rightarrow> 'a driver_globals_scheme \<Rightarrow> 'a driver_globals_scheme option" where
  "driver_try_bind call_probe device_index driver_node s =
     (let device = device_of (driver_device_list s ! device_index);
          drv = driver_of driver_node
      in if dev_driver device \<noteq> 0 then Some s
         else if \<not> driver_device_matches drv device then Some s
         else
           let s = upd_device device_index
                     (\<lambda>d. d\<lparr>dev_driver := drv_address driver_node, dev_bound_driver_name := drv_name drv\<rparr>) s;
               s = s\<lparr>driver_bound_count_value := driver_bound_count_value s + 1\<rparr>;
               s = driver_log_bound drv (device_of (driver_device_list s ! device_index)) s
           in if drv_probe drv \<noteq> 0 then call_probe (drv_probe drv) device_index s else Some s)"

section \<open>Registration\<close>

definition driver_register_bus ::
  "termob_bus option \<Rightarrow> 'a driver_globals_scheme \<Rightarrow> (bool \<times> 'a driver_globals_scheme) option" where
  "driver_register_bus bus s =
     (case bus of
        None \<Rightarrow> Some (False, s)
      | Some b \<Rightarrow>
          if \<not> driver_model_ready s \<or> bus_name b = None then Some (False, s)
          else if driver_bus_node_by_type (bus_kind b) s \<noteq> None then Some (True, s)
          else do {
            (node, s) \<leftarrow> kmalloc DRIVER_BUS_NODE_SIZE s;
            Some (if node = 0 then (False, s)
                  else (True, s\<lparr>driver_bus_list := driver_bus_list s @ [\<lparr>bus_address = node, bus_of = b\<rparr>],
                               driver_bus_count_value := driver_bus_count_value s + 1\<rparr>))
          })"

definition driver_register_builtin_buses ::
  "'a driver_globals_scheme \<Rightarrow> (bool \<times> 'a driver_globals_scheme) option" where
  "driver_register_builtin_buses s = do {
     (ok, s) \<leftarrow> driver_register_bus (Some \<lparr>bus_name = Some ''PCI'', bus_kind = TERMOB_BUS_PCI, bus_data = 0\<rparr>) s;
     if \<not> ok then Some (False, s)
     else driver_register_bus (Some \<lparr>bus_name = Some ''VIRTIO'', bus_kind = TERMOB_BUS_VIRTIO, bus_data = 0\<rparr>) s
   }"

definition driver_model_init :: "'a driver_globals_scheme \<Rightarrow> 'a driver_globals_scheme option" where
  "driver_model_init s =
     (let s = s\<lparr>driver_model_ready := False, driver_bus_list := [], driver_device_list := [],
                driver_driver_list := [], driver_bus_count_value := 0, driver_device_count_value := 0,
                driver_driver_count_value := 0, driver_bound_count_value := 0\<rparr>
      in if \<not> heap_is_initialized s then Some s
         else do {
           (ok, s) \<leftarrow> driver_register_builtin_buses (s\<lparr>driver_model_ready := True\<rparr>);
           Some (if \<not> ok then s\<lparr>driver_model_ready := False\<rparr> else s)
         })"

definition driver_model_is_initialized :: "'a driver_globals_scheme \<Rightarrow> bool" where
  "driver_model_is_initialized s = driver_model_ready s"

definition driver_bus_by_type :: "termob_bus_type \<Rightarrow> 'a driver_globals_scheme \<Rightarrow> u32" where
  "driver_bus_by_type bus_type s =
     (case driver_bus_node_by_type bus_type s of None \<Rightarrow> 0 | Some node \<Rightarrow> bus_address node)"

definition driver_bus_count :: "'a driver_globals_scheme \<Rightarrow> nat" where
  "driver_bus_count s = driver_bus_count_value s"

text \<open>The walk of the three functions that copy out the entry at an index.\<close>

fun node_walk :: "'n list \<Rightarrow> nat \<Rightarrow> nat \<Rightarrow> 'n option" where
  "node_walk [] cursor index = None"
| "node_walk (node # nodes) cursor index =
     (if cursor = index then Some node else node_walk nodes (cursor + 1) index)"

definition driver_bus_at :: "nat \<Rightarrow> 'a driver_globals_scheme \<Rightarrow> termob_bus option" where
  "driver_bus_at index s =
     (if \<not> driver_model_ready s then None else map_option bus_of (node_walk (driver_bus_list s) 0 index))"

partial_function (option) driver_bind_drivers ::
  "(u32 \<Rightarrow> nat \<Rightarrow> 'a driver_globals_scheme \<Rightarrow> 'a driver_globals_scheme option) \<Rightarrow>
   nat \<Rightarrow> nat \<Rightarrow> 'a driver_globals_scheme \<Rightarrow> 'a driver_globals_scheme option" where
  "driver_bind_drivers call_probe device_index driver_index s =
     (if driver_index < length (driver_driver_list s)
      then do {
        s \<leftarrow> driver_try_bind call_probe device_index (driver_driver_list s ! driver_index) s;
        driver_bind_drivers call_probe device_index (driver_index + 1) s
      }
      else Some s)"

definition driver_register_device ::
  "(u32 \<Rightarrow> nat \<Rightarrow> 'a driver_globals_scheme \<Rightarrow> 'a driver_globals_scheme option) \<Rightarrow>
   termob_device option \<Rightarrow> 'a driver_globals_scheme \<Rightarrow> (bool \<times> 'a driver_globals_scheme) option" where
  "driver_register_device call_probe device s =
     (case device of
        None \<Rightarrow> Some (False, s)
      | Some d \<Rightarrow>
          if \<not> driver_model_ready s \<or> dev_name d = None then Some (False, s)
          else do {
            (node, s) \<leftarrow> kmalloc DRIVER_DEVICE_NODE_SIZE s;
            if node = 0 then Some (False, s)
            else do {
              let d = d\<lparr>dev_driver := 0, dev_bound_driver_name := None\<rparr>;
              let d = (if dev_bus_ref d = 0 then d\<lparr>dev_bus_ref := driver_bus_by_type (dev_bus_type d) s\<rparr> else d);
              let device_index = length (driver_device_list s);
              let s = s\<lparr>driver_device_list := driver_device_list s @ [\<lparr>dev_address = node, device_of = d\<rparr>],
                        driver_device_count_value := driver_device_count_value s + 1\<rparr>;
              s \<leftarrow> driver_bind_drivers call_probe device_index 0 s;
              Some (True, s)
            }
          })"

partial_function (option) driver_bind_devices ::
  "(u32 \<Rightarrow> nat \<Rightarrow> 'a driver_globals_scheme \<Rightarrow> 'a driver_globals_scheme option) \<Rightarrow>
   nat \<Rightarrow> driver_driver_node \<Rightarrow> 'a driver_globals_scheme \<Rightarrow> 'a driver_globals_scheme option" where
  "driver_bind_devices call_probe device_index driver_node s =
     (if device_index < length (driver_device_list s)
      then do {
        s \<leftarrow> driver_try_bind call_probe device_index driver_node s;
        driver_bind_devices call_probe (device_index + 1) driver_node s
      }
      else Some s)"

definition driver_register_driver ::
  "(u32 \<Rightarrow> nat \<Rightarrow> 'a driver_globals_scheme \<Rightarrow> 'a driver_globals_scheme option) \<Rightarrow>
   termob_driver option \<Rightarrow> 'a driver_globals_scheme \<Rightarrow> (bool \<times> 'a driver_globals_scheme) option" where
  "driver_register_driver call_probe drv s =
     (case drv of
        None \<Rightarrow> Some (False, s)
      | Some d \<Rightarrow>
          if \<not> driver_model_ready s \<or> drv_name d = None then Some (False, s)
          else do {
            (node, s) \<leftarrow> kmalloc DRIVER_DRIVER_NODE_SIZE s;
            if node = 0 then Some (False, s)
            else do {
              let new_node = \<lparr>drv_address = node, driver_of = d\<rparr>;
              let s = s\<lparr>driver_driver_list := driver_driver_list s @ [new_node],
                        driver_driver_count_value := driver_driver_count_value s + 1\<rparr>;
              s \<leftarrow> driver_bind_devices call_probe 0 new_node s;
              Some (True, s)
            }
          })"

definition driver_device_count :: "'a driver_globals_scheme \<Rightarrow> nat" where
  "driver_device_count s = driver_device_count_value s"

definition driver_bound_count :: "'a driver_globals_scheme \<Rightarrow> nat" where
  "driver_bound_count s = driver_bound_count_value s"

definition driver_driver_count :: "'a driver_globals_scheme \<Rightarrow> nat" where
  "driver_driver_count s = driver_driver_count_value s"

definition driver_device_at :: "nat \<Rightarrow> 'a driver_globals_scheme \<Rightarrow> termob_device option" where
  "driver_device_at index s =
     (if \<not> driver_model_ready s then None else map_option device_of (node_walk (driver_device_list s) 0 index))"

definition driver_driver_at :: "nat \<Rightarrow> 'a driver_globals_scheme \<Rightarrow> termob_driver option" where
  "driver_driver_at index s =
     (if \<not> driver_model_ready s then None else map_option driver_of (node_walk (driver_driver_list s) 0 index))"

definition driver_bus_type_name :: "termob_bus_type \<Rightarrow> 'a driver_globals_scheme \<Rightarrow> string" where
  "driver_bus_type_name bus_type s =
     (case driver_bus_node_by_type bus_type s of
        Some node \<Rightarrow> the (bus_name (bus_of node))
      | None \<Rightarrow> (case bus_type of TERMOB_BUS_PCI \<Rightarrow> ''PCI'' | TERMOB_BUS_VIRTIO \<Rightarrow> ''VIRTIO'' | TERMOB_BUS_NONE \<Rightarrow> ''NONE''))"

section \<open>The interface \<^verbatim>\<open>device.c\<close>\<close>

definition device_write_u32 :: "u32 \<Rightarrow> 'a terminal_globals_scheme \<Rightarrow> 'a terminal_globals_scheme" where
  "device_write_u32 value s = console_write_u32 value s"

definition device_write_hex8 :: "u8 \<Rightarrow> 'a terminal_globals_scheme \<Rightarrow> 'a terminal_globals_scheme" where
  "device_write_hex8 value s = console_write_hex8 value s"

definition device_write_hex16 :: "u16 \<Rightarrow> 'a terminal_globals_scheme \<Rightarrow> 'a terminal_globals_scheme" where
  "device_write_hex16 value s = console_write_hex16 value s"

definition device_model_init :: "'a driver_globals_scheme \<Rightarrow> 'a driver_globals_scheme option" where
  "device_model_init s = driver_model_init s"

definition device_model_is_initialized :: "'a driver_globals_scheme \<Rightarrow> bool" where
  "device_model_is_initialized s = driver_model_is_initialized s"

definition device_register ::
  "(u32 \<Rightarrow> nat \<Rightarrow> 'a driver_globals_scheme \<Rightarrow> 'a driver_globals_scheme option) \<Rightarrow>
   termob_device option \<Rightarrow> 'a driver_globals_scheme \<Rightarrow> (bool \<times> 'a driver_globals_scheme) option" where
  "device_register call_probe device s = driver_register_device call_probe device s"

definition device_register_driver ::
  "(u32 \<Rightarrow> nat \<Rightarrow> 'a driver_globals_scheme \<Rightarrow> 'a driver_globals_scheme option) \<Rightarrow>
   termob_driver option \<Rightarrow> 'a driver_globals_scheme \<Rightarrow> (bool \<times> 'a driver_globals_scheme) option" where
  "device_register_driver call_probe drv s = driver_register_driver call_probe drv s"

definition device_count :: "'a driver_globals_scheme \<Rightarrow> nat" where
  "device_count s = driver_device_count s"

definition device_bound_count :: "'a driver_globals_scheme \<Rightarrow> nat" where
  "device_bound_count s = driver_bound_count s"

definition driver_count :: "'a driver_globals_scheme \<Rightarrow> nat" where
  "driver_count s = driver_driver_count s"

definition device_at :: "nat \<Rightarrow> 'a driver_globals_scheme \<Rightarrow> termob_device option" where
  "device_at index s = driver_device_at index s"

definition driver_at :: "nat \<Rightarrow> 'a driver_globals_scheme \<Rightarrow> termob_driver option" where
  "driver_at index s = driver_driver_at index s"

definition device_bus_type_name :: "termob_bus_type \<Rightarrow> 'a driver_globals_scheme \<Rightarrow> string" where
  "device_bus_type_name bus_type s = driver_bus_type_name bus_type s"

text \<open>
  The loops of the dumps call an accessor with rising indices until it fails; reporting does not
  change the lists, so they are folds over what the accessor enumerates.
\<close>

definition all_at :: "(nat \<Rightarrow> 's \<Rightarrow> 'e option) \<Rightarrow> nat \<Rightarrow> 's \<Rightarrow> 'e list" where
  "all_at get n s = map the (takeWhile (\<lambda>x. x \<noteq> None) (map (\<lambda>i. get i s) [0..<n]))"

definition all_devices :: "'a driver_globals_scheme \<Rightarrow> termob_device list" where
  "all_devices s = all_at device_at (length (driver_device_list s)) s"

definition driver_name_at :: "u32 \<Rightarrow> 'a driver_globals_scheme \<Rightarrow> string" where
  "driver_name_at p s =
     (case find (\<lambda>n. drv_address n = p) (driver_driver_list s) of
        Some n \<Rightarrow> (case drv_name (driver_of n) of Some name \<Rightarrow> name | None \<Rightarrow> []) | None \<Rightarrow> [])"

definition device_dump_bound :: "termob_device \<Rightarrow> 'a driver_globals_scheme \<Rightarrow> 'a driver_globals_scheme" where
  "device_dump_bound device s =
     (if dev_driver device = 0 then s
      else steps
        [terminal_write ''  '',
         \<lambda>s. terminal_write (driver_name_at (dev_driver device) s) s,
         terminal_write '' <- '',
         terminal_write (case dev_name device of Some n \<Rightarrow> n | None \<Rightarrow> ''unnamed-device''),
         \<lambda>s. if dev_bus_type device = TERMOB_BUS_PCI
             then steps
               [terminal_write '' '', device_write_hex8 (dev_bus device), terminal_putchar CHR '':'',
                device_write_hex8 (dev_slot device), terminal_putchar CHR ''.'', device_write_hex8 (dev_function device),
                terminal_write '' '', device_write_hex16 (dev_vendor_id device), terminal_putchar CHR '':'',
                device_write_hex16 (dev_device_id device)] s
             else s,
         terminal_putchar NEWLINE] s)"

definition device_dump_to_terminal :: "'a driver_globals_scheme \<Rightarrow> 'a driver_globals_scheme" where
  "device_dump_to_terminal s =
     (let s = steps
        [terminal_writeline ''Driver model:'',
         terminal_write ''  State      : '',
         \<lambda>s. terminal_writeline (if driver_model_is_initialized s then ''Ready'' else ''Offline'') s,
         terminal_write ''  Buses      : '',
         \<lambda>s. device_write_u32 (word_of_nat (driver_bus_count s)) s,
         terminal_writeline '' registered'',
         terminal_write ''  Devices    : '',
         \<lambda>s. device_write_u32 (word_of_nat (device_count s)) s,
         terminal_writeline '' total'',
         terminal_write ''  Bound      : '',
         \<lambda>s. device_write_u32 (word_of_nat (device_bound_count s)) s,
         terminal_writeline '' devices'',
         terminal_write ''  Drivers    : '',
         \<lambda>s. device_write_u32 (word_of_nat (driver_count s)) s,
         terminal_writeline '' registered'',
         \<lambda>s. if driver_bus_count s \<noteq> 0
             then fold (\<lambda>bus. steps
                    [terminal_write ''  '', terminal_write (the (bus_name bus)), terminal_write '' ['',
                     \<lambda>s. terminal_write (driver_bus_type_name (bus_kind bus) s) s, terminal_writeline '']''])
                  (all_at driver_bus_at (length (driver_bus_list s)) s) (terminal_writeline ''Registered buses:'' s)
             else s,
         \<lambda>s. if driver_count s = 0
             then steps [terminal_writeline ''Registered drivers:'', terminal_writeline ''  No drivers registered yet''] s
             else fold (\<lambda>drv. steps
                    [terminal_write ''  '', terminal_write (the (drv_name drv)), terminal_write '' ['',
                     \<lambda>s. terminal_write (device_bus_type_name (drv_bus_type drv) s) s, terminal_writeline '']''])
                  (all_at driver_at (length (driver_driver_list s)) s) (terminal_writeline ''Registered drivers:'' s)] s
      in if device_bound_count s = 0
         then steps [terminal_writeline ''Bound devices:'', terminal_writeline ''  No devices currently bound''] s
         else fold device_dump_bound (all_devices s) (terminal_writeline ''Bound devices:'' s))"

section \<open>The example driver\<close>

abbreviation (input) DUMMY_PCI_VENDOR_ID :: u16 where "DUMMY_PCI_VENDOR_ID \<equiv> 0xCAFE"
abbreviation (input) DUMMY_PCI_DEVICE_ID :: u16 where "DUMMY_PCI_DEVICE_ID \<equiv> 0x0001"

definition dummy_pci_match :: "termob_device \<Rightarrow> bool" where
  "dummy_pci_match device =
     (if dev_bus_type device \<noteq> TERMOB_BUS_PCI then False
      else dev_vendor_id device = DUMMY_PCI_VENDOR_ID \<and> dev_device_id device = DUMMY_PCI_DEVICE_ID)"

definition dummy_pci_probe :: "nat \<Rightarrow> 'a driver_globals_scheme \<Rightarrow> 'a driver_globals_scheme" where
  "dummy_pci_probe device s = steps
     [upd_device device (\<lambda>d. d\<lparr>dev_driver_data := 1\<rparr>),
      klog_writeline ''TERMOB: dummy pci example probed'',
      serial_writeline ''TERMOB: dummy pci example probed''] s"

definition dummy_pci_remove :: "nat \<Rightarrow> 'a driver_globals_scheme \<Rightarrow> 'a driver_globals_scheme" where
  "dummy_pci_remove device = upd_device device (\<lambda>d. d\<lparr>dev_driver_data := 0\<rparr>)"

text \<open>\<open>probe\<close> and \<open>remove\<close> are the addresses of the two functions.\<close>

definition dummy_pci_register_example_driver ::
  "(u32 \<Rightarrow> nat \<Rightarrow> 'a driver_globals_scheme \<Rightarrow> 'a driver_globals_scheme option) \<Rightarrow> u32 \<Rightarrow> u32 \<Rightarrow>
   'a driver_globals_scheme \<Rightarrow> 'a driver_globals_scheme option" where
  "dummy_pci_register_example_driver call_probe probe remove s =
     map_option snd (driver_register_driver call_probe
       (Some \<lparr>drv_name = Some ''dummy-pci'', drv_bus_type = TERMOB_BUS_PCI, drv_match = Some dummy_pci_match,
              drv_probe = probe, drv_remove = remove, drv_data = 0\<rparr>) s)"

definition dummy_pci_register_example_device ::
  "(u32 \<Rightarrow> nat \<Rightarrow> 'a driver_globals_scheme \<Rightarrow> 'a driver_globals_scheme option) \<Rightarrow>
   'a driver_globals_scheme \<Rightarrow> 'a driver_globals_scheme option" where
  "dummy_pci_register_example_device call_probe s =
     map_option snd (driver_register_device call_probe
       (Some \<lparr>dev_name = Some ''dummy-pci-device0'', dev_bus_type = TERMOB_BUS_PCI,
              dev_bus_ref = driver_bus_by_type TERMOB_BUS_PCI s, dev_driver = 0, dev_bound_driver_name = None,
              dev_driver_data = 0, dev_data = 0, dev_vendor_id = DUMMY_PCI_VENDOR_ID, dev_device_id = DUMMY_PCI_DEVICE_ID,
              dev_class_code = 0xFF, dev_subclass = 0, dev_prog_if = 0, dev_revision = 1,
              dev_bus = 0, dev_slot = 0, dev_function = 0\<rparr>) s)"

end
