(* ===== verification/Pci.thy ===== *)
theory Pci
  imports Driver
begin

unbundle bit_operations_syntax

text \<open>
  The PCI bus (\<^verbatim>\<open>core/pci.c\<close>): configuration accesses through the two configuration ports, and the scan
  that registers a device for every function that answers.
\<close>

abbreviation (input) PCI_CONFIG_ADDRESS_PORT :: u16 where "PCI_CONFIG_ADDRESS_PORT \<equiv> 0xCF8"
abbreviation (input) PCI_CONFIG_DATA_PORT :: u16 where "PCI_CONFIG_DATA_PORT \<equiv> 0xCFC"

record pci_globals = driver_globals +
  pci_ready :: bool
  pci_device_count_value :: nat

definition pci_outl :: "u16 \<Rightarrow> u32 \<Rightarrow> 'a io_globals_scheme \<Rightarrow> 'a io_globals_scheme" where
  "pci_outl port value = outl port value"

definition pci_inl :: "hardware \<Rightarrow> u16 \<Rightarrow> 'a io_globals_scheme \<Rightarrow> u32 \<times> 'a io_globals_scheme" where
  "pci_inl hw port = inl hw port"

definition pci_address :: "u8 \<Rightarrow> u8 \<Rightarrow> u8 \<Rightarrow> u8 \<Rightarrow> u32" where
  "pci_address bus slot fn offset =
     0x80000000 OR push_bit 16 (ucast bus) OR push_bit 11 (ucast slot) OR push_bit 8 (ucast fn) OR (ucast offset AND 0xFC)"

definition pci_config_write32_internal ::
  "u8 \<Rightarrow> u8 \<Rightarrow> u8 \<Rightarrow> u8 \<Rightarrow> u32 \<Rightarrow> 'a io_globals_scheme \<Rightarrow> 'a io_globals_scheme" where
  "pci_config_write32_internal bus slot fn offset value s =
     pci_outl PCI_CONFIG_DATA_PORT value (pci_outl PCI_CONFIG_ADDRESS_PORT (pci_address bus slot fn offset) s)"

definition pci_config_read32 ::
  "hardware \<Rightarrow> u8 \<Rightarrow> u8 \<Rightarrow> u8 \<Rightarrow> u8 \<Rightarrow> 'a io_globals_scheme \<Rightarrow> u32 \<times> 'a io_globals_scheme" where
  "pci_config_read32 hw bus slot fn offset s =
     pci_inl hw PCI_CONFIG_DATA_PORT (pci_outl PCI_CONFIG_ADDRESS_PORT (pci_address bus slot fn offset) s)"

definition pci_config_read16 ::
  "hardware \<Rightarrow> u8 \<Rightarrow> u8 \<Rightarrow> u8 \<Rightarrow> u8 \<Rightarrow> 'a io_globals_scheme \<Rightarrow> u16 \<times> 'a io_globals_scheme" where
  "pci_config_read16 hw bus slot fn offset s =
     (let (value, s) = pci_config_read32 hw bus slot fn offset s;
          shift = (ucast offset AND 0x02 :: u32) * 8
      in (ucast (drop_bit (unat shift) value AND 0xFFFF), s))"

definition pci_config_read8 ::
  "hardware \<Rightarrow> u8 \<Rightarrow> u8 \<Rightarrow> u8 \<Rightarrow> u8 \<Rightarrow> 'a io_globals_scheme \<Rightarrow> u8 \<times> 'a io_globals_scheme" where
  "pci_config_read8 hw bus slot fn offset s =
     (let (value, s) = pci_config_read32 hw bus slot fn offset s;
          shift = (ucast offset AND 0x03 :: u32) * 8
      in (ucast (drop_bit (unat shift) value AND 0xFF), s))"

definition pci_config_write32 ::
  "u8 \<Rightarrow> u8 \<Rightarrow> u8 \<Rightarrow> u8 \<Rightarrow> u32 \<Rightarrow> 'a io_globals_scheme \<Rightarrow> 'a io_globals_scheme" where
  "pci_config_write32 bus slot fn offset value s = pci_config_write32_internal bus slot fn offset value s"

definition pci_config_write16 ::
  "hardware \<Rightarrow> u8 \<Rightarrow> u8 \<Rightarrow> u8 \<Rightarrow> u8 \<Rightarrow> u16 \<Rightarrow> 'a io_globals_scheme \<Rightarrow> 'a io_globals_scheme" where
  "pci_config_write16 hw bus slot fn offset value s =
     (let aligned_offset = ucast (ucast offset AND 0xFC :: u32) :: u8;
          (current_value, s) = pci_config_read32 hw bus slot fn aligned_offset s;
          shift = (ucast offset AND 0x02 :: u32) * 8;
          mask = push_bit (unat shift) (0xFFFF :: u32);
          current_value = (current_value AND NOT mask) OR push_bit (unat shift) (ucast value)
      in pci_config_write32_internal bus slot fn aligned_offset current_value s)"

definition pci_write_u32 :: "u32 \<Rightarrow> 'a terminal_globals_scheme \<Rightarrow> 'a terminal_globals_scheme" where
  "pci_write_u32 value s = console_write_u32 value s"

definition pci_write_hex8 :: "u8 \<Rightarrow> 'a terminal_globals_scheme \<Rightarrow> 'a terminal_globals_scheme" where
  "pci_write_hex8 value s = console_write_hex8 value s"

definition pci_write_hex16 :: "u16 \<Rightarrow> 'a terminal_globals_scheme \<Rightarrow> 'a terminal_globals_scheme" where
  "pci_write_hex16 value s = console_write_hex16 value s"

section \<open>Names\<close>

text \<open>A string and its terminator are stored byte by byte.\<close>

definition store_text :: "u32 \<Rightarrow> string \<Rightarrow> (u32 \<Rightarrow> u8) \<Rightarrow> u32 \<Rightarrow> u8" where
  "store_text a txt m = fold (\<lambda>(i, c) m. m(a + word_of_nat i := of_char c)) (enumerate 0 (txt @ [NUL])) m"

definition pci_position_text :: "u8 \<Rightarrow> u8 \<Rightarrow> u8 \<Rightarrow> string" where
  "pci_position_text bus slot fn =
     [hex_digits ! unat (drop_bit 4 bus AND 0x0F), hex_digits ! unat (bus AND 0x0F), CHR '':'',
      hex_digits ! unat (drop_bit 4 slot AND 0x0F), hex_digits ! unat (slot AND 0x0F), CHR ''.'',
      hex_digits ! unat (fn AND 0x07)]"

definition pci_build_device_name ::
  "u8 \<Rightarrow> u8 \<Rightarrow> u8 \<Rightarrow> 'a heap_globals_scheme \<Rightarrow> (string option \<times> 'a heap_globals_scheme) option" where
  "pci_build_device_name bus slot fn s = do {
     (name, s) \<leftarrow> kmalloc 12 s;
     Some (if name = 0 then (None, s)
           else let txt = ''pci-'' @ pci_position_text bus slot fn
                in (Some txt, s\<lparr>mem := store_text name txt (mem s)\<rparr>))
   }"

section \<open>The scan\<close>

definition pci_register_function ::
  "(u32 \<Rightarrow> nat \<Rightarrow> 'a pci_globals_scheme \<Rightarrow> 'a pci_globals_scheme option) \<Rightarrow> hardware \<Rightarrow>
   u8 \<Rightarrow> u8 \<Rightarrow> u8 \<Rightarrow> 'a pci_globals_scheme \<Rightarrow> 'a pci_globals_scheme option" where
  "pci_register_function call_probe hw bus slot fn s =
     (let (vendor_id, s) = pci_config_read16 hw bus slot fn 0x00 s
      in if vendor_id = 0xFFFF then Some s
         else do {
           (name, s) \<leftarrow> pci_build_device_name bus slot fn s;
           let name = (case name of None \<Rightarrow> ''pci-device'' | Some n \<Rightarrow> n);
           let bus_ref = driver_bus_by_type TERMOB_BUS_PCI s;
           let (device_id, s) = pci_config_read16 hw bus slot fn 0x02 s;
           let (revision, s) = pci_config_read8 hw bus slot fn 0x08 s;
           let (prog_if, s) = pci_config_read8 hw bus slot fn 0x09 s;
           let (subclass, s) = pci_config_read8 hw bus slot fn 0x0A s;
           let (class_code, s) = pci_config_read8 hw bus slot fn 0x0B s;
           (ok, s) \<leftarrow> device_register call_probe
             (Some \<lparr>dev_name = Some name, dev_bus_type = TERMOB_BUS_PCI, dev_bus_ref = bus_ref, dev_driver = 0,
                    dev_bound_driver_name = None, dev_driver_data = 0, dev_data = 0, dev_vendor_id = vendor_id,
                    dev_device_id = device_id, dev_class_code = class_code, dev_subclass = subclass,
                    dev_prog_if = prog_if, dev_revision = revision, dev_bus = bus, dev_slot = slot, dev_function = fn\<rparr>) s;
           Some (if ok then s\<lparr>pci_device_count_value := pci_device_count_value s + 1\<rparr> else s)
         })"

text \<open>Calls of one function for a list of arguments, as in the loops of the scan.\<close>

fun for_all :: "('x \<Rightarrow> 's \<Rightarrow> 's option) \<Rightarrow> 'x list \<Rightarrow> 's \<Rightarrow> 's option" where
  "for_all f [] s = Some s"
| "for_all f (x # xs) s = do { s \<leftarrow> f x s; for_all f xs s }"

definition pci_scan_slot ::
  "(u32 \<Rightarrow> nat \<Rightarrow> 'a pci_globals_scheme \<Rightarrow> 'a pci_globals_scheme option) \<Rightarrow> hardware \<Rightarrow>
   u8 \<Rightarrow> u8 \<Rightarrow> 'a pci_globals_scheme \<Rightarrow> 'a pci_globals_scheme option" where
  "pci_scan_slot call_probe hw bus slot s =
     (let (vendor_id, s) = pci_config_read16 hw bus slot 0 0x00 s
      in if vendor_id = 0xFFFF then Some s
         else do {
           s \<leftarrow> pci_register_function call_probe hw bus slot 0 s;
           let (header_type, s) = pci_config_read8 hw bus slot 0 0x0E s;
           if header_type AND 0x80 = 0 then Some s
           else for_all (\<lambda>fn. pci_register_function call_probe hw bus slot (word_of_nat fn)) [1..<8] s
         })"

definition pci_init ::
  "(u32 \<Rightarrow> nat \<Rightarrow> 'a pci_globals_scheme \<Rightarrow> 'a pci_globals_scheme option) \<Rightarrow> hardware \<Rightarrow>
   'a pci_globals_scheme \<Rightarrow> 'a pci_globals_scheme option" where
  "pci_init call_probe hw s =
     for_all (\<lambda>bus. for_all (\<lambda>slot. pci_scan_slot call_probe hw (word_of_nat bus) (word_of_nat slot)) [0..<32]) [0..<256]
       (s\<lparr>pci_ready := True, pci_device_count_value := 0\<rparr>)"

definition pci_is_initialized :: "'a pci_globals_scheme \<Rightarrow> bool" where
  "pci_is_initialized s = pci_ready s"

definition pci_device_count :: "'a pci_globals_scheme \<Rightarrow> nat" where
  "pci_device_count s = pci_device_count_value s"

definition pci_class_name :: "u8 \<Rightarrow> u8 \<Rightarrow> string" where
  "pci_class_name class_code subclass =
     (if class_code = 0x01
      then if subclass = 0x01 then ''IDE controller''
           else if subclass = 0x06 then ''SATA controller''
           else if subclass = 0x08 then ''NVM controller''
           else ''Mass storage controller''
      else if class_code = 0x02
      then if subclass = 0x00 then ''Ethernet controller'' else ''Network controller''
      else if class_code = 0x03
      then if subclass = 0x00 then ''VGA compatible controller'' else ''Display controller''
      else if class_code = 0x04 then ''Multimedia controller''
      else if class_code = 0x06
      then if subclass = 0x00 then ''Host bridge''
           else if subclass = 0x01 then ''ISA bridge''
           else if subclass = 0x04 then ''PCI bridge''
           else ''Bridge device''
      else if class_code = 0x0C
      then if subclass = 0x03 then ''USB controller'' else ''Serial bus controller''
      else ''Unclassified device'')"

definition pci_dump_device :: "termob_device \<Rightarrow> 'a pci_globals_scheme \<Rightarrow> 'a pci_globals_scheme" where
  "pci_dump_device device s =
     (if dev_bus_type device \<noteq> TERMOB_BUS_PCI then s
      else steps
        [terminal_write ''  '', pci_write_hex8 (dev_bus device), terminal_putchar CHR '':'',
         pci_write_hex8 (dev_slot device), terminal_putchar CHR ''.'', pci_write_hex8 (dev_function device),
         terminal_write ''  '', pci_write_hex16 (dev_vendor_id device), terminal_putchar CHR '':'',
         pci_write_hex16 (dev_device_id device), terminal_write ''  '',
         terminal_write (pci_class_name (dev_class_code device) (dev_subclass device)),
         \<lambda>s. (case dev_bound_driver_name device of None \<Rightarrow> s | Some n \<Rightarrow> terminal_write n (terminal_write ''  -> '' s)),
         terminal_putchar NEWLINE] s)"

definition pci_dump_to_terminal :: "'a pci_globals_scheme \<Rightarrow> 'a pci_globals_scheme" where
  "pci_dump_to_terminal s =
     (let s = steps
        [terminal_writeline ''PCI devices:'', terminal_write ''  Count      : '',
         \<lambda>s. pci_write_u32 (word_of_nat (pci_device_count_value s)) s, terminal_writeline '' devices''] s
      in if \<not> pci_ready s then terminal_writeline ''  PCI enumeration offline'' s
         else if pci_device_count_value s = 0 then terminal_writeline ''  No PCI devices detected'' s
         else fold pci_dump_device (all_devices s) s)"

end
