(* ===== verification/Virtio.thy ===== *)
theory Virtio
  imports Pci
begin

unbundle bit_operations_syntax

text \<open>
  The virtio transport and block driver (\<^verbatim>\<open>drivers/virtio.c\<close>). The two structures it allocates are kept
  in typed stores by address; the virtqueue and the request are bytes of memory, as the device sees
  them. The device itself is the parameter \<open>hw\<close>: it answers port reads, and while the driver polls
  it may write to memory.

  The block layer calls the driver through a function of sector number and count; \<open>block_read\<close> is
  what it sees of the driver (see \<^verbatim>\<open>Block\<close>).
\<close>

abbreviation (input) VIRTIO_PCI_VENDOR_ID :: u16 where "VIRTIO_PCI_VENDOR_ID \<equiv> 0x1AF4"
abbreviation (input) VIRTIO_PCI_BLOCK_DEVICE_ID :: u16 where "VIRTIO_PCI_BLOCK_DEVICE_ID \<equiv> 0x1001"
abbreviation (input) VIRTIO_PCI_MODERN_BLOCK_DEVICE_ID :: u16 where "VIRTIO_PCI_MODERN_BLOCK_DEVICE_ID \<equiv> 0x1042"
abbreviation (input) PCI_COMMAND_REGISTER :: u8 where "PCI_COMMAND_REGISTER \<equiv> 0x04"
abbreviation (input) PCI_BAR0_REGISTER :: u8 where "PCI_BAR0_REGISTER \<equiv> 0x10"
abbreviation (input) VIRTIO_PCI_GUEST_FEATURES :: u16 where "VIRTIO_PCI_GUEST_FEATURES \<equiv> 0x04"
abbreviation (input) VIRTIO_PCI_QUEUE_PFN :: u16 where "VIRTIO_PCI_QUEUE_PFN \<equiv> 0x08"
abbreviation (input) VIRTIO_PCI_QUEUE_NUM :: u16 where "VIRTIO_PCI_QUEUE_NUM \<equiv> 0x0C"
abbreviation (input) VIRTIO_PCI_QUEUE_SEL :: u16 where "VIRTIO_PCI_QUEUE_SEL \<equiv> 0x0E"
abbreviation (input) VIRTIO_PCI_QUEUE_NOTIFY :: u16 where "VIRTIO_PCI_QUEUE_NOTIFY \<equiv> 0x10"
abbreviation (input) VIRTIO_PCI_STATUS :: u16 where "VIRTIO_PCI_STATUS \<equiv> 0x12"
abbreviation (input) VIRTIO_PCI_ISR :: u16 where "VIRTIO_PCI_ISR \<equiv> 0x13"
abbreviation (input) VIRTIO_PCI_CONFIG :: u16 where "VIRTIO_PCI_CONFIG \<equiv> 0x14"
abbreviation (input) VIRTIO_STATUS_FAILED :: u8 where "VIRTIO_STATUS_FAILED \<equiv> 0x80"
abbreviation (input) TERMOB_VIRTIO_BLK_SECTOR_SIZE :: u32 where "TERMOB_VIRTIO_BLK_SECTOR_SIZE \<equiv> 512"

text \<open>\<^verbatim>\<open>sizeof\<close> of the two structures on i386, and the addresses of the probe functions.\<close>

abbreviation (input) VIRTIO_DEVICE_INFO_SIZE :: u32 where "VIRTIO_DEVICE_INFO_SIZE \<equiv> 8"
abbreviation (input) VIRTIO_BLK_STATE_SIZE :: u32 where "VIRTIO_BLK_STATE_SIZE \<equiv> 60"
abbreviation (input) VIRTIO_PCI_PROBE :: u32 where "VIRTIO_PCI_PROBE \<equiv> 1"
abbreviation (input) VIRTIO_BLK_PROBE :: u32 where "VIRTIO_BLK_PROBE \<equiv> 2"

record virtio_device_info =
  vi_vendor_id :: u16
  vi_device_id :: u16
  vi_bus :: u8
  vi_slot :: u8
  vi_function :: u8

record virtio_blk_state =
  vb_transport :: u32
  vb_capacity_sectors :: u32
  vb_block_size_bytes :: u32
  vb_io_base :: u16
  vb_queue_size :: u16
  vb_last_used_index :: u16
  vb_queue_memory :: u32
  vb_queue_memory_bytes :: u32
  vb_desc_table :: u32
  vb_avail_ring :: u32
  vb_used_ring :: u32
  vb_request_header :: u32
  vb_request_status :: u32
  vb_block_registered :: bool
  vb_legacy_transport :: bool
  vb_ready :: bool

record virtio_globals = pci_globals +
  virtio_infos :: "u32 \<Rightarrow> virtio_device_info"
  virtio_blks :: "u32 \<Rightarrow> virtio_blk_state"
  virtio_ready :: bool
  virtio_transport_bound_count_value :: nat
  virtio_logical_device_count_value :: nat
  virtio_blk_bound_count_value :: nat

definition upd_blk ::
  "u32 \<Rightarrow> (virtio_blk_state \<Rightarrow> virtio_blk_state) \<Rightarrow> 'a virtio_globals_scheme \<Rightarrow> 'a virtio_globals_scheme" where
  "upd_blk p f s = s\<lparr>virtio_blks := (virtio_blks s)(p := f (virtio_blks s p))\<rparr>"

section \<open>Helpers\<close>

definition virtio_write_u32 :: "u32 \<Rightarrow> 'a terminal_globals_scheme \<Rightarrow> 'a terminal_globals_scheme" where
  "virtio_write_u32 value s = console_write_u32 value s"

definition virtio_write_hex8 :: "u8 \<Rightarrow> 'a terminal_globals_scheme \<Rightarrow> 'a terminal_globals_scheme" where
  "virtio_write_hex8 value s = console_write_hex8 value s"

definition virtio_write_hex16 :: "u16 \<Rightarrow> 'a terminal_globals_scheme \<Rightarrow> 'a terminal_globals_scheme" where
  "virtio_write_hex16 value s = console_write_hex16 value s"

definition virtio_inb :: "hardware \<Rightarrow> u16 \<Rightarrow> 'a io_globals_scheme \<Rightarrow> u8 \<times> 'a io_globals_scheme" where
  "virtio_inb hw port = inb hw port"

definition virtio_inw :: "hardware \<Rightarrow> u16 \<Rightarrow> 'a io_globals_scheme \<Rightarrow> u16 \<times> 'a io_globals_scheme" where
  "virtio_inw hw port = inw hw port"

definition virtio_inl :: "hardware \<Rightarrow> u16 \<Rightarrow> 'a io_globals_scheme \<Rightarrow> u32 \<times> 'a io_globals_scheme" where
  "virtio_inl hw port = inl hw port"

definition virtio_outb :: "u16 \<Rightarrow> u8 \<Rightarrow> 'a io_globals_scheme \<Rightarrow> 'a io_globals_scheme" where
  "virtio_outb port value = outb port value"

definition virtio_outw :: "u16 \<Rightarrow> u16 \<Rightarrow> 'a io_globals_scheme \<Rightarrow> 'a io_globals_scheme" where
  "virtio_outw port value = outw port value"

definition virtio_outl :: "u16 \<Rightarrow> u32 \<Rightarrow> 'a io_globals_scheme \<Rightarrow> 'a io_globals_scheme" where
  "virtio_outl port value = outl port value"

definition virtio_align_up_u32 :: "u32 \<Rightarrow> u32 \<Rightarrow> u32" where
  "virtio_align_up_u32 value alignment = (value + (alignment - 1)) AND NOT (alignment - 1)"

definition virtio_log_event :: "string \<Rightarrow> 'a log_globals_scheme \<Rightarrow> 'a log_globals_scheme" where
  "virtio_log_event message s = serial_writeline message (klog_writeline message s)"

definition virtio_pci_bar0_io_base ::
  "hardware \<Rightarrow> u32 \<Rightarrow> 'a virtio_globals_scheme \<Rightarrow> u16 \<times> 'a virtio_globals_scheme" where
  "virtio_pci_bar0_io_base hw transport s =
     (if transport = 0 then (0, s)
      else
        let info = virtio_infos s transport;
            (bar_value, s) = pci_config_read32 hw (vi_bus info) (vi_slot info) (vi_function info) PCI_BAR0_REGISTER s
        in if bar_value AND 0x01 = 0 then (0, s) else (ucast (bar_value AND 0xFFF0), s))"

definition virtio_pci_enable_io_busmaster ::
  "hardware \<Rightarrow> u32 \<Rightarrow> 'a virtio_globals_scheme \<Rightarrow> 'a virtio_globals_scheme" where
  "virtio_pci_enable_io_busmaster hw transport s =
     (if transport = 0 then s
      else
        let info = virtio_infos s transport;
            (command, s) = pci_config_read16 hw (vi_bus info) (vi_slot info) (vi_function info) PCI_COMMAND_REGISTER s
        in pci_config_write16 hw (vi_bus info) (vi_slot info) (vi_function info) PCI_COMMAND_REGISTER
             (command OR (0x0001 OR 0x0004)) s)"

definition virtio_blk_queue_bytes :: "u16 \<Rightarrow> u32" where
  "virtio_blk_queue_bytes queue_size =
     (let desc_bytes = 16 * ucast queue_size;
          avail_bytes = 4 + ucast queue_size * 2;
          used_offset = virtio_align_up_u32 (desc_bytes + avail_bytes) 4096;
          used_bytes = 4 + ucast queue_size * 8
      in used_offset + used_bytes)"

definition virtio_avail_ring_entries :: "virtio_blk_state \<Rightarrow> u32" where
  "virtio_avail_ring_entries state = vb_avail_ring state + 4"

section \<open>Device identities\<close>

definition virtio_is_supported_device_id :: "u16 \<Rightarrow> bool" where
  "virtio_is_supported_device_id device_id =
     (if device_id \<ge> 0x1000 \<and> device_id \<le> 0x103F then True
      else if device_id \<ge> 0x1040 \<and> device_id \<le> 0x107F then True else False)"

definition virtio_is_block_device_id :: "u16 \<Rightarrow> bool" where
  "virtio_is_block_device_id device_id =
     (device_id = VIRTIO_PCI_BLOCK_DEVICE_ID \<or> device_id = VIRTIO_PCI_MODERN_BLOCK_DEVICE_ID)"

definition virtio_is_modern_device_id :: "u16 \<Rightarrow> bool" where
  "virtio_is_modern_device_id device_id = (device_id \<ge> 0x1040 \<and> device_id \<le> 0x107F)"

definition virtio_pci_match :: "termob_device \<Rightarrow> bool" where
  "virtio_pci_match device =
     (if dev_bus_type device \<noteq> TERMOB_BUS_PCI then False
      else if dev_vendor_id device \<noteq> VIRTIO_PCI_VENDOR_ID then False
      else virtio_is_supported_device_id (dev_device_id device))"

definition virtio_logical_match :: "termob_device \<Rightarrow> bool" where
  "virtio_logical_match device =
     (if dev_bus_type device \<noteq> TERMOB_BUS_VIRTIO then False
      else dev_vendor_id device = VIRTIO_PCI_VENDOR_ID \<and> virtio_is_supported_device_id (dev_device_id device))"

definition virtio_blk_match :: "termob_device \<Rightarrow> bool" where
  "virtio_blk_match device =
     (if \<not> virtio_logical_match device then False else virtio_is_block_device_id (dev_device_id device))"

definition virtio_device_type_name :: "u16 \<Rightarrow> string" where
  "virtio_device_type_name device_id =
     (if device_id = 0x1000 \<or> device_id = 0x1041 then ''virtio-net''
      else if device_id = 0x1001 \<or> device_id = 0x1042 then ''virtio-block''
      else if device_id = 0x1043 then ''virtio-console''
      else if device_id = 0x1044 then ''virtio-rng''
      else if device_id = 0x1045 then ''virtio-balloon''
      else if device_id = 0x1048 then ''virtio-scsi''
      else if device_id = 0x1049 then ''virtio-9p''
      else if device_id = 0x1050 then ''virtio-gpu''
      else if device_id = 0x1052 then ''virtio-input''
      else if device_id = 0x1053 then ''virtio-vsock''
      else if device_id \<ge> 0x1000 \<and> device_id \<le> 0x103F then ''virtio-legacy''
      else if device_id \<ge> 0x1040 \<and> device_id \<le> 0x107F then ''virtio-pci''
      else ''not-virtio'')"

section \<open>The queue\<close>

text \<open>The loop that clears the memory of the queue.\<close>

definition clear_bytes :: "u32 \<Rightarrow> u32 \<Rightarrow> 'a heap_globals_scheme \<Rightarrow> 'a heap_globals_scheme" where
  "clear_bytes p n s =
     fold (\<lambda>index s. s\<lparr>mem := (mem s)(p + word_of_nat index := 0)\<rparr>) [0..<unat n] s"

text \<open>The part of the setup after the queue memory is allocated.\<close>

definition virtio_blk_start_queue ::
  "hardware \<Rightarrow> u32 \<Rightarrow> u16 \<Rightarrow> u32 \<Rightarrow> 'a virtio_globals_scheme \<Rightarrow> 'a virtio_globals_scheme" where
  "virtio_blk_start_queue hw state queue_size queue_bytes s =
     (let io_base = vb_io_base (virtio_blks s state);
          aligned_base = virtio_align_up_u32 (vb_queue_memory (virtio_blks s state)) 4096;
          desc_bytes = 16 * ucast queue_size;
          avail_bytes = 4 + ucast queue_size * 2;
          used_offset = virtio_align_up_u32 (desc_bytes + avail_bytes) 4096;
          s = upd_blk state (\<lambda>b. b\<lparr>vb_queue_memory_bytes := queue_bytes, vb_queue_size := queue_size,
                vb_last_used_index := 0, vb_desc_table := aligned_base, vb_avail_ring := aligned_base + desc_bytes,
                vb_used_ring := aligned_base + used_offset\<rparr>) s;
          s = clear_bytes aligned_base queue_bytes s;
          s = virtio_outl (io_base + VIRTIO_PCI_QUEUE_PFN) (drop_bit 12 aligned_base) s;
          (capacity_low, s) = virtio_inl hw (io_base + VIRTIO_PCI_CONFIG) s;
          (capacity_high, s) = virtio_inl hw (io_base + VIRTIO_PCI_CONFIG + 4) s;
          s = upd_blk state (\<lambda>b. b\<lparr>vb_capacity_sectors := (if capacity_high = 0 then capacity_low else 0),
                vb_block_size_bytes := TERMOB_VIRTIO_BLK_SECTOR_SIZE, vb_legacy_transport := True\<rparr>) s
      in virtio_outb (io_base + VIRTIO_PCI_STATUS) (0x01 OR 0x02 OR 0x04) s)"

definition virtio_blk_setup_queue ::
  "hardware \<Rightarrow> u32 \<Rightarrow> 'a virtio_globals_scheme \<Rightarrow> (bool \<times> 'a virtio_globals_scheme) option" where
  "virtio_blk_setup_queue hw state s =
     (let transport = vb_transport (virtio_blks s state)
      in if state = 0 \<or> transport = 0 then Some (False, s)
         else if virtio_is_modern_device_id (vi_device_id (virtio_infos s transport))
         then Some (False, virtio_log_event ''TERMOB: virtio-blk modern pci transport not implemented yet'' s)
         else
           let s = virtio_pci_enable_io_busmaster hw transport s;
               (io_base, s) = virtio_pci_bar0_io_base hw transport s;
               s = upd_blk state (\<lambda>b. b\<lparr>vb_io_base := io_base\<rparr>) s
           in if io_base = 0 then Some (False, virtio_log_event ''TERMOB: virtio-blk legacy io base unavailable'' s)
              else
                let s = virtio_outb (io_base + VIRTIO_PCI_STATUS) 0 s;
                    s = virtio_outb (io_base + VIRTIO_PCI_STATUS) (0x01 OR 0x02) s;
                    s = virtio_outl (io_base + VIRTIO_PCI_GUEST_FEATURES) 0 s;
                    s = virtio_outw (io_base + VIRTIO_PCI_QUEUE_SEL) 0 s;
                    (queue_size, s) = virtio_inw hw (io_base + VIRTIO_PCI_QUEUE_NUM) s
                in if queue_size = 0
                   then Some (False, virtio_outb (io_base + VIRTIO_PCI_STATUS) VIRTIO_STATUS_FAILED
                                (virtio_log_event ''TERMOB: virtio-blk queue 0 unavailable'' s))
                   else do {
                     let queue_bytes = virtio_blk_queue_bytes queue_size;
                     (queue_memory, s) \<leftarrow> kmalloc (queue_bytes + 4096) s;
                     let s = upd_blk state (\<lambda>b. b\<lparr>vb_queue_memory := queue_memory\<rparr>) s;
                     Some (if queue_memory = 0
                           then (False, virtio_outb (io_base + VIRTIO_PCI_STATUS) VIRTIO_STATUS_FAILED
                                   (virtio_log_event ''TERMOB: virtio-blk queue allocation failed'' s))
                           else (True, virtio_blk_start_queue hw state queue_size queue_bytes s))
                   })"

section \<open>Reading a sector\<close>

definition load16 :: "(u32 \<Rightarrow> u8) \<Rightarrow> u32 \<Rightarrow> u16" where
  "load16 m a = le16 (m a) (m (a + 1))"

definition store16 :: "u32 \<Rightarrow> u16 \<Rightarrow> (u32 \<Rightarrow> u8) \<Rightarrow> u32 \<Rightarrow> u8" where
  "store16 a v m = m(a := ucast v, a + 1 := ucast (drop_bit 8 v))"

text \<open>A descriptor: a 64-bit address, whose upper half is 0 here, a length, flags and the next index.\<close>

definition store_desc :: "u32 \<Rightarrow> u32 \<Rightarrow> u32 \<Rightarrow> u16 \<Rightarrow> u16 \<Rightarrow> (u32 \<Rightarrow> u8) \<Rightarrow> u32 \<Rightarrow> u8" where
  "store_desc d address len flags nxt =
     steps [store32 d address, store32 (d + 4) 0, store32 (d + 8) len, store16 (d + 12) flags, store16 (d + 14) nxt]"

definition virtio_blk_build_request ::
  "virtio_blk_state \<Rightarrow> u32 \<Rightarrow> u32 \<Rightarrow> u32 \<Rightarrow> (u32 \<Rightarrow> u8) \<Rightarrow> u32 \<Rightarrow> u8" where
  "virtio_blk_build_request state lba data_bytes buffer =
     steps
       [store32 (vb_request_header state) 0, store32 (vb_request_header state + 4) 0,
        store32 (vb_request_header state + 8) lba, store32 (vb_request_header state + 12) 0,
        \<lambda>m. m(vb_request_status state := 0xFF),
        store_desc (vb_desc_table state) (vb_request_header state) 16 1 1,
        store_desc (vb_desc_table state + 16) buffer data_bytes (1 OR 2) 2,
        store_desc (vb_desc_table state + 32) (vb_request_status state) 1 2 0]"

definition virtio_blk_publish :: "virtio_blk_state \<Rightarrow> (u32 \<Rightarrow> u8) \<Rightarrow> u32 \<Rightarrow> u8" where
  "virtio_blk_publish state m =
     (let index = load16 m (vb_avail_ring state + 2);
          m = store16 (virtio_avail_ring_entries state + 2 * ucast (index mod vb_queue_size state)) 0 m
      in store16 (vb_avail_ring state + 2) (load16 m (vb_avail_ring state + 2) + 1) m)"

text \<open>The loop that waits for the device; \<open>False\<close> is the time-out.\<close>

partial_function (option) virtio_blk_wait ::
  "hardware \<Rightarrow> virtio_blk_state \<Rightarrow> u32 \<Rightarrow> 'a virtio_globals_scheme \<Rightarrow> (bool \<times> 'a virtio_globals_scheme) option" where
  "virtio_blk_wait hw state start_ticks s =
     (if load16 (mem s) (vb_used_ring state + 2) - vb_last_used_index state = 0
      then if timer_get_ticks s - start_ticks > timer_get_frequency_hz then Some (False, s)
           else virtio_blk_wait hw state start_ticks (poll hw s)
      else Some (True, s))"

definition virtio_blk_block_read ::
  "hardware \<Rightarrow> u32 \<Rightarrow> u32 \<Rightarrow> u32 \<Rightarrow> u32 \<Rightarrow> 'a virtio_globals_scheme \<Rightarrow> (bool \<times> 'a virtio_globals_scheme) option" where
  "virtio_blk_block_read hw private_data lba sector_count buffer s =
     (let state = virtio_blks s private_data
      in if private_data = 0 \<or> \<not> vb_ready state \<or> \<not> vb_legacy_transport state \<or> buffer = 0 then Some (False, s)
         else if sector_count = 0 \<or> sector_count > 1 then Some (False, s)
         else if vb_capacity_sectors state \<noteq> 0 \<and> lba \<ge> vb_capacity_sectors state then Some (False, s)
         else if vb_request_header state = 0 \<or> vb_request_status state = 0 then Some (False, s)
         else do {
           let data_bytes = sector_count * vb_block_size_bytes state;
           let s = s\<lparr>mem := virtio_blk_publish state (virtio_blk_build_request state lba data_bytes buffer (mem s))\<rparr>;
           let s = virtio_outw (vb_io_base state + VIRTIO_PCI_QUEUE_NOTIFY) 0 s;
           (answered, s) \<leftarrow> virtio_blk_wait hw state (timer_get_ticks s) s;
           if \<not> answered then Some (False, s)
           else do {
             let s = upd_blk private_data (\<lambda>b. b\<lparr>vb_last_used_index := load16 (mem s) (vb_used_ring state + 2)\<rparr>) s;
             let (isr, s) = virtio_inb hw (vb_io_base state + VIRTIO_PCI_ISR) s;
             Some (mem s (vb_request_status state) = 0, s)
           }
         })"

section \<open>Probing\<close>

definition virtio_copy_text :: "u32 \<Rightarrow> nat \<Rightarrow> string \<Rightarrow> (u32 \<Rightarrow> u8) \<Rightarrow> u32 \<Rightarrow> u8" where
  "virtio_copy_text dst capacity src m = (if dst = 0 \<or> capacity = 0 then m else store_text dst (take (capacity - 1) src) m)"

definition virtio_child_text :: "u16 \<Rightarrow> u8 \<Rightarrow> u8 \<Rightarrow> u8 \<Rightarrow> string" where
  "virtio_child_text device_id bus slot fn = virtio_device_type_name device_id @ ''@'' @ pci_position_text bus slot fn"

definition virtio_build_child_name ::
  "u16 \<Rightarrow> u8 \<Rightarrow> u8 \<Rightarrow> u8 \<Rightarrow> 'a heap_globals_scheme \<Rightarrow> (string option \<times> 'a heap_globals_scheme) option" where
  "virtio_build_child_name device_id bus slot fn s =
     (let prefix_length = length (virtio_device_type_name device_id)
      in do {
        (name, s) \<leftarrow> kmalloc (word_of_nat prefix_length + 8) s;
        Some (if name = 0 then (None, s)
              else
                let txt = virtio_child_text device_id bus slot fn;
                    m = virtio_copy_text name (prefix_length + 8) (virtio_device_type_name device_id) (mem s)
                in (Some txt, s\<lparr>mem := store_text (name + word_of_nat prefix_length) (drop prefix_length txt) m\<rparr>))
      })"

definition virtio_register_logical_device ::
  "(u32 \<Rightarrow> nat \<Rightarrow> 'a virtio_globals_scheme \<Rightarrow> 'a virtio_globals_scheme option) \<Rightarrow>
   termob_device \<Rightarrow> 'a virtio_globals_scheme \<Rightarrow> 'a virtio_globals_scheme option" where
  "virtio_register_logical_device call_probe pci_device s = do {
     (info, s) \<leftarrow> kmalloc VIRTIO_DEVICE_INFO_SIZE s;
     if info = 0 then Some (virtio_log_event ''TERMOB: virtio child registration skipped (no heap)'' s)
     else do {
       let s = s\<lparr>virtio_infos := (virtio_infos s)(info :=
                 \<lparr>vi_vendor_id = dev_vendor_id pci_device, vi_device_id = dev_device_id pci_device,
                  vi_bus = dev_bus pci_device, vi_slot = dev_slot pci_device, vi_function = dev_function pci_device\<rparr>)\<rparr>;
       (name, s) \<leftarrow> virtio_build_child_name (dev_device_id pci_device) (dev_bus pci_device) (dev_slot pci_device)
                     (dev_function pci_device) s;
       let name = (case name of None \<Rightarrow> ''virtio-device'' | Some n \<Rightarrow> n);
       (ok, s) \<leftarrow> driver_register_device call_probe
         (Some \<lparr>dev_name = Some name, dev_bus_type = TERMOB_BUS_VIRTIO, dev_bus_ref = driver_bus_by_type TERMOB_BUS_VIRTIO s,
                dev_driver = 0, dev_bound_driver_name = None, dev_driver_data = 0, dev_data = info,
                dev_vendor_id = dev_vendor_id pci_device, dev_device_id = dev_device_id pci_device,
                dev_class_code = dev_class_code pci_device, dev_subclass = dev_subclass pci_device,
                dev_prog_if = dev_prog_if pci_device, dev_revision = dev_revision pci_device,
                dev_bus = dev_bus pci_device, dev_slot = dev_slot pci_device, dev_function = dev_function pci_device\<rparr>) s;
       Some (if ok
             then virtio_log_event ''TERMOB: virtio logical device registered''
                    (s\<lparr>virtio_logical_device_count_value := virtio_logical_device_count_value s + 1\<rparr>)
             else s)
     }
   }"

definition virtio_pci_probe ::
  "(u32 \<Rightarrow> nat \<Rightarrow> 'a virtio_globals_scheme \<Rightarrow> 'a virtio_globals_scheme option) \<Rightarrow>
   nat \<Rightarrow> 'a virtio_globals_scheme \<Rightarrow> 'a virtio_globals_scheme option" where
  "virtio_pci_probe call_probe device s =
     (let s = s\<lparr>virtio_transport_bound_count_value := virtio_transport_bound_count_value s + 1\<rparr>;
          s = virtio_log_event ''TERMOB: virtio-pci device bound'' s
      in virtio_register_logical_device call_probe (device_of (driver_device_list s ! device)) s)"

definition virtio_blk_at_probe :: "u32 \<Rightarrow> virtio_blk_state" where
  "virtio_blk_at_probe transport =
     \<lparr>vb_transport = transport, vb_capacity_sectors = 0, vb_block_size_bytes = 512, vb_io_base = 0, vb_queue_size = 0,
      vb_last_used_index = 0, vb_queue_memory = 0, vb_queue_memory_bytes = 0, vb_desc_table = 0, vb_avail_ring = 0,
      vb_used_ring = 0, vb_request_header = 0, vb_request_status = 0, vb_block_registered = False,
      vb_legacy_transport = False, vb_ready = True\<rparr>"

definition virtio_blk_probe ::
  "hardware \<Rightarrow> (u32 \<Rightarrow> u32 \<Rightarrow> u32 \<Rightarrow> u8 list option) \<Rightarrow> nat \<Rightarrow> 'a virtio_globals_scheme \<Rightarrow> 'a virtio_globals_scheme option" where
  "virtio_blk_probe hw block_read device s = do {
     (state, s) \<leftarrow> kmalloc VIRTIO_BLK_STATE_SIZE s;
     if state = 0 then Some (virtio_log_event ''TERMOB: virtio-blk probe failed (no heap)'' s)
     else do {
       let s = upd_blk state (\<lambda>_. virtio_blk_at_probe (dev_data (device_of (driver_device_list s ! device)))) s;
       (header, s) \<leftarrow> kmalloc 16 s;
       (status, s) \<leftarrow> kmalloc 1 s;
       let s = upd_blk state (\<lambda>b. b\<lparr>vb_request_header := header, vb_request_status := status\<rparr>) s;
       let s = (if header = 0 \<or> status = 0
                then virtio_log_event ''TERMOB: virtio-blk request allocation failed''
                       (upd_blk state (\<lambda>b. b\<lparr>vb_ready := False\<rparr>) s)
                else s);
       s \<leftarrow> (if vb_ready (virtio_blks s state)
             then do {
               (ok, s) \<leftarrow> virtio_blk_setup_queue hw state s;
               Some (if ok then s else upd_blk state (\<lambda>b. b\<lparr>vb_ready := False\<rparr>) s)
             }
             else Some s);
       let s = upd_device device (\<lambda>d. d\<lparr>dev_driver_data := state\<rparr>) s;
       let s = s\<lparr>virtio_blk_bound_count_value := virtio_blk_bound_count_value s + 1\<rparr>;
       let s = virtio_log_event (if vb_ready (virtio_blks s state) then ''TERMOB: virtio-blk device ready''
                                 else ''TERMOB: virtio-blk device registered without read path'') s;
       (ok, s) \<leftarrow> block_register_device
         (Some \<lparr>bd_name = dev_name (device_of (driver_device_list s ! device)), bd_driver_name = Some ''virtio-blk'',
                bd_sector_size_bytes = vb_block_size_bytes (virtio_blks s state),
                bd_sector_count = vb_capacity_sectors (virtio_blks s state),
                bd_read = Some block_read, bd_private_data = state\<rparr>) s;
       Some (if ok
             then virtio_log_event ''TERMOB: virtio-blk block device registered''
                    (upd_blk state (\<lambda>b. b\<lparr>vb_block_registered := True\<rparr>) s)
             else s)
     }
   }"

definition virtio_pci_driver :: termob_driver where
  "virtio_pci_driver =
     \<lparr>drv_name = Some ''virtio-pci'', drv_bus_type = TERMOB_BUS_PCI, drv_match = Some virtio_pci_match,
      drv_probe = VIRTIO_PCI_PROBE, drv_remove = 0, drv_data = 0\<rparr>"

definition virtio_blk_driver :: termob_driver where
  "virtio_blk_driver =
     \<lparr>drv_name = Some ''virtio-blk'', drv_bus_type = TERMOB_BUS_VIRTIO, drv_match = Some virtio_blk_match,
      drv_probe = VIRTIO_BLK_PROBE, drv_remove = 0, drv_data = 0\<rparr>"

definition virtio_init ::
  "(u32 \<Rightarrow> nat \<Rightarrow> 'a virtio_globals_scheme \<Rightarrow> 'a virtio_globals_scheme option) \<Rightarrow>
   'a virtio_globals_scheme \<Rightarrow> 'a virtio_globals_scheme option" where
  "virtio_init call_probe s =
     (if virtio_ready s then Some s
      else do {
        let s = s\<lparr>virtio_transport_bound_count_value := 0, virtio_logical_device_count_value := 0,
                  virtio_blk_bound_count_value := 0\<rparr>;
        (ok, s) \<leftarrow> device_register_driver call_probe (Some virtio_pci_driver) s;
        if \<not> ok then Some (s\<lparr>virtio_ready := False\<rparr>)
        else do {
          (ok, s) \<leftarrow> device_register_driver call_probe (Some virtio_blk_driver) s;
          Some (s\<lparr>virtio_ready := ok\<rparr>)
        }
      })"

definition virtio_is_initialized :: "'a virtio_globals_scheme \<Rightarrow> bool" where
  "virtio_is_initialized s = virtio_ready s"

definition virtio_bound_device_count :: "'a virtio_globals_scheme \<Rightarrow> nat" where
  "virtio_bound_device_count s = virtio_transport_bound_count_value s"

definition virtio_logical_device_count :: "'a virtio_globals_scheme \<Rightarrow> nat" where
  "virtio_logical_device_count s = virtio_logical_device_count_value s"

definition virtio_blk_bound_device_count :: "'a virtio_globals_scheme \<Rightarrow> nat" where
  "virtio_blk_bound_device_count s = virtio_blk_bound_count_value s"

text \<open>\<open>buffer\<close> is the address of the caller's buffer.\<close>

definition virtio_blk_read_first_sector ::
  "hardware \<Rightarrow> u32 \<Rightarrow> u32 \<Rightarrow> 'a virtio_globals_scheme \<Rightarrow> (bool \<times> 'a virtio_globals_scheme) option" where
  "virtio_blk_read_first_sector hw buffer buffer_size s =
     (if buffer = 0 \<or> buffer_size < TERMOB_VIRTIO_BLK_SECTOR_SIZE then Some (False, s)
      else case find (\<lambda>d. virtio_blk_match d \<and> dev_driver_data d \<noteq> 0 \<and> vb_ready (virtio_blks s (dev_driver_data d)))
                  (all_devices s) of
             None \<Rightarrow> Some (False, s)
           | Some d \<Rightarrow> virtio_blk_block_read hw (dev_driver_data d) 0 1 buffer s)"

section \<open>Reports\<close>

definition write_bound_name :: "termob_device \<Rightarrow> 'a terminal_globals_scheme \<Rightarrow> 'a terminal_globals_scheme" where
  "write_bound_name device s =
     (case dev_bound_driver_name device of None \<Rightarrow> s | Some n \<Rightarrow> terminal_write n (terminal_write ''  -> '' s))"

definition write_position :: "u8 \<Rightarrow> u8 \<Rightarrow> u8 \<Rightarrow> 'a terminal_globals_scheme \<Rightarrow> 'a terminal_globals_scheme" where
  "write_position bus slot fn = steps
     [virtio_write_hex8 bus, terminal_putchar CHR '':'', virtio_write_hex8 slot, terminal_putchar CHR ''.'', virtio_write_hex8 fn]"

definition virtio_dump_transport :: "termob_device \<Rightarrow> 'a virtio_globals_scheme \<Rightarrow> 'a virtio_globals_scheme" where
  "virtio_dump_transport device s =
     (if \<not> virtio_pci_match device then s
      else steps
        [terminal_write ''  '', write_position (dev_bus device) (dev_slot device) (dev_function device),
         terminal_write ''  '', terminal_write (virtio_device_type_name (dev_device_id device)), terminal_write ''  '',
         virtio_write_hex16 (dev_vendor_id device), terminal_putchar CHR '':'', virtio_write_hex16 (dev_device_id device),
         write_bound_name device, terminal_putchar NEWLINE] s)"

definition virtio_dump_logical :: "termob_device \<Rightarrow> 'a virtio_globals_scheme \<Rightarrow> 'a virtio_globals_scheme" where
  "virtio_dump_logical device s =
     (if \<not> virtio_logical_match device then s
      else steps
        [terminal_write ''  '', terminal_write (case dev_name device of Some n \<Rightarrow> n | None \<Rightarrow> ''virtio-device''),
         terminal_write ''  '',
         terminal_write (if virtio_is_modern_device_id (dev_device_id device) then ''modern'' else ''legacy''),
         write_bound_name device, terminal_putchar NEWLINE] s)"

definition virtio_dump_to_terminal :: "'a virtio_globals_scheme \<Rightarrow> 'a virtio_globals_scheme" where
  "virtio_dump_to_terminal s =
     (let count = (\<lambda>n s. terminal_writeline '' devices'' (virtio_write_u32 (word_of_nat n) s));
          s = steps
        [terminal_writeline ''Virtio subsystem:'',
         terminal_write ''  Driver     : '',
         \<lambda>s. terminal_writeline (if virtio_ready s then ''Registered'' else ''Offline'') s,
         terminal_write ''  PCI bound  : '',
         \<lambda>s. count (virtio_transport_bound_count_value s) s,
         terminal_write ''  Logical    : '',
         \<lambda>s. count (virtio_logical_device_count_value s) s,
         terminal_write ''  VBLK bound : '',
         \<lambda>s. count (virtio_blk_bound_count_value s) s,
         terminal_write ''  Block devs : '',
         \<lambda>s. virtio_write_u32 (word_of_nat (block_device_count s)) s,
         terminal_writeline '' registered''] s;
          pci_devices = length (filter virtio_pci_match (all_devices s));
          logical_devices = length (filter virtio_logical_match (all_devices s));
          s = steps
        [terminal_write ''  PCI seen   : '', count pci_devices, terminal_write ''  Bus seen   : '', count logical_devices] s
      in if pci_devices = 0 \<and> logical_devices = 0 then terminal_writeline ''  No virtio devices detected'' s
         else
           let s = fold virtio_dump_transport (all_devices s) (terminal_writeline ''Transport devices:'' s)
           in fold virtio_dump_logical (all_devices s) (terminal_writeline ''Logical devices:'' s))"

definition virtio_blk_dump_device :: "termob_device \<Rightarrow> 'a virtio_globals_scheme \<Rightarrow> 'a virtio_globals_scheme" where
  "virtio_blk_dump_device device s =
     (if \<not> virtio_blk_match device then s
      else
        let p = dev_driver_data device;
            state = virtio_blks s p;
            s = steps
          [terminal_write ''  '', terminal_write (case dev_name device of Some n \<Rightarrow> n | None \<Rightarrow> ''virtio-block''),
           terminal_write ''  '',
           terminal_write (if virtio_is_modern_device_id (dev_device_id device) then ''modern'' else ''legacy''),
           terminal_write ''  blk '', virtio_write_u32 (if p \<noteq> 0 then vb_block_size_bytes state else 512),
           terminal_write ''B'', terminal_write ''  read '',
           terminal_write (if p \<noteq> 0 \<and> vb_ready state then ''on'' else ''off'')] s
        in if p \<noteq> 0 \<and> vb_transport state \<noteq> 0
           then
             let info = virtio_infos s (vb_transport state)
             in steps
               [terminal_write ''  pci '', write_position (vi_bus info) (vi_slot info) (vi_function info),
                \<lambda>s. if vb_legacy_transport state then virtio_write_hex16 (vb_io_base state) (terminal_write ''  io '' s) else s,
                terminal_write ''  block '',
                terminal_writeline (if vb_block_registered state then ''registered'' else ''pending'')] s
           else terminal_write (''  block pending'' @ [NEWLINE]) s)"

definition virtio_blk_dump_to_terminal :: "'a virtio_globals_scheme \<Rightarrow> 'a virtio_globals_scheme" where
  "virtio_blk_dump_to_terminal s =
     (let s = steps
        [terminal_writeline ''Virtio block devices:'',
         terminal_write ''  Driver     : '',
         \<lambda>s. terminal_writeline (if virtio_ready s then ''Registered'' else ''Offline'') s,
         terminal_write ''  Bound      : '',
         \<lambda>s. virtio_write_u32 (word_of_nat (virtio_blk_bound_count_value s)) s,
         terminal_writeline '' devices''] s
      in if virtio_blk_bound_count_value s = 0
         then steps
           [terminal_writeline ''  No virtio block devices ready'',
            terminal_writeline ''  Tip        : run QEMU with -drive ... -device virtio-blk-pci,...''] s
         else fold virtio_blk_dump_device (all_devices s) s)"

end
