(* ===== verification/Audio.thy ===== *)
theory Audio
  imports Virtio "HOL-Library.Signed_Division"
begin

unbundle bit_operations_syntax

text \<open>
  The driver for PCI audio controllers and the AC'97 test tone (\<^verbatim>\<open>drivers/audio.c\<close>), and the calls
  through the probe pointers of the kernel's drivers.
\<close>

abbreviation (input) PCI_VENDOR_INTEL :: u16 where "PCI_VENDOR_INTEL \<equiv> 0x8086"
abbreviation (input) PCI_VENDOR_ENSONIQ :: u16 where "PCI_VENDOR_ENSONIQ \<equiv> 0x1274"
abbreviation (input) PCI_VENDOR_VIRTIO :: u16 where "PCI_VENDOR_VIRTIO \<equiv> 0x1AF4"
abbreviation (input) PCI_CLASS_MULTIMEDIA :: u8 where "PCI_CLASS_MULTIMEDIA \<equiv> 0x04"
abbreviation (input) PCI_SUBCLASS_AUDIO_CONTROLLER :: u8 where "PCI_SUBCLASS_AUDIO_CONTROLLER \<equiv> 0x01"
abbreviation (input) PCI_SUBCLASS_HDA_CONTROLLER :: u8 where "PCI_SUBCLASS_HDA_CONTROLLER \<equiv> 0x03"
abbreviation (input) PCI_IRQ_LINE_REGISTER :: u8 where "PCI_IRQ_LINE_REGISTER \<equiv> 0x3C"
abbreviation (input) PCI_BAR1_REGISTER :: u8 where "PCI_BAR1_REGISTER \<equiv> 0x14"
abbreviation (input) AC97_MASTER_VOLUME :: u16 where "AC97_MASTER_VOLUME \<equiv> 0x02"
abbreviation (input) AC97_PCM_OUT_VOLUME :: u16 where "AC97_PCM_OUT_VOLUME \<equiv> 0x18"
abbreviation (input) AC97_POWERDOWN_STATUS :: u16 where "AC97_POWERDOWN_STATUS \<equiv> 0x26"
abbreviation (input) AC97_EXTENDED_AUDIO_ID :: u16 where "AC97_EXTENDED_AUDIO_ID \<equiv> 0x28"
abbreviation (input) AC97_EXTENDED_AUDIO_STATUS :: u16 where "AC97_EXTENDED_AUDIO_STATUS \<equiv> 0x2A"
abbreviation (input) AC97_PCM_FRONT_DAC_RATE :: u16 where "AC97_PCM_FRONT_DAC_RATE \<equiv> 0x2C"
abbreviation (input) AC97_PO_BDBAR :: u16 where "AC97_PO_BDBAR \<equiv> 0x10"
abbreviation (input) AC97_PO_CIV :: u16 where "AC97_PO_CIV \<equiv> 0x14"
abbreviation (input) AC97_PO_LVI :: u16 where "AC97_PO_LVI \<equiv> 0x15"
abbreviation (input) AC97_PO_SR :: u16 where "AC97_PO_SR \<equiv> 0x16"
abbreviation (input) AC97_PO_PICB :: u16 where "AC97_PO_PICB \<equiv> 0x18"
abbreviation (input) AC97_PO_PIV :: u16 where "AC97_PO_PIV \<equiv> 0x1A"
abbreviation (input) AC97_PO_CR :: u16 where "AC97_PO_CR \<equiv> 0x1B"
abbreviation (input) AC97_GLOB_CNT :: u16 where "AC97_GLOB_CNT \<equiv> 0x2C"
abbreviation (input) AC97_GLOB_STA :: u16 where "AC97_GLOB_STA \<equiv> 0x30"
abbreviation (input) AC97_PCM_BASE_RATE_HZ :: u32 where "AC97_PCM_BASE_RATE_HZ \<equiv> 48000"
abbreviation (input) AC97_PCM_TONE_HZ :: u32 where "AC97_PCM_TONE_HZ \<equiv> 440"
abbreviation (input) AC97_PCM_TONE_MS :: u32 where "AC97_PCM_TONE_MS \<equiv> 300"
abbreviation (input) AUDIO_PCI_PROBE :: u32 where "AUDIO_PCI_PROBE \<equiv> 3"

record audio_ac97_state =
  ac_detected :: bool
  ac_controller_ready :: bool
  ac_pcm_ready :: bool
  ac_vendor_id :: u16
  ac_device_id :: u16
  ac_bus :: u8
  ac_slot :: u8
  ac_function :: u8
  ac_irq_line :: u8
  ac_pci_command :: u16
  ac_mixer_base :: u16
  ac_busmaster_base :: u16
  ac_reset_register :: u16
  ac_master_volume :: u16
  ac_pcm_out_volume :: u16
  ac_powerdown_status :: u16
  ac_extended_audio_id :: u16
  ac_extended_audio_status :: u16
  ac_pcm_front_dac_rate :: u16
  ac_global_control :: u32
  ac_global_status :: u32
  ac_po_bdbar :: u32
  ac_po_status :: u16
  ac_po_picb :: u16
  ac_po_civ :: u8
  ac_po_lvi :: u8
  ac_po_piv :: u8
  ac_po_control :: u8
  ac_playback_rate_hz :: u32
  ac_playback_duration_ms :: u32
  ac_pcm_out_bdl :: u32
  ac_pcm_out_buffer :: u32
  ac_pcm_out_samples :: u32
  ac_pcm_out_buffer_bytes :: u32

record audio_globals = virtio_globals +
  audio_ready :: bool
  audio_bound_device_count_value :: nat
  audio_ac97 :: audio_ac97_state

definition upd_ac97 ::
  "(audio_ac97_state \<Rightarrow> audio_ac97_state) \<Rightarrow> 'a audio_globals_scheme \<Rightarrow> 'a audio_globals_scheme" where
  "upd_ac97 f s = s\<lparr>audio_ac97 := f (audio_ac97 s)\<rparr>"

section \<open>Helpers\<close>

definition audio_write_u32 :: "u32 \<Rightarrow> 'a terminal_globals_scheme \<Rightarrow> 'a terminal_globals_scheme" where
  "audio_write_u32 value s = console_write_u32 value s"

definition audio_write_hex8 :: "u8 \<Rightarrow> 'a terminal_globals_scheme \<Rightarrow> 'a terminal_globals_scheme" where
  "audio_write_hex8 value s = console_write_hex8 value s"

definition audio_write_hex16 :: "u16 \<Rightarrow> 'a terminal_globals_scheme \<Rightarrow> 'a terminal_globals_scheme" where
  "audio_write_hex16 value s = console_write_hex16 value s"

definition audio_write_hex32 :: "u32 \<Rightarrow> 'a terminal_globals_scheme \<Rightarrow> 'a terminal_globals_scheme" where
  "audio_write_hex32 value s =
     audio_write_hex16 (ucast (value AND 0xFFFF)) (audio_write_hex16 (ucast (drop_bit 16 value AND 0xFFFF)) s)"

definition audio_inw :: "hardware \<Rightarrow> u16 \<Rightarrow> 'a io_globals_scheme \<Rightarrow> u16 \<times> 'a io_globals_scheme" where
  "audio_inw hw port = inw hw port"

definition audio_inb :: "hardware \<Rightarrow> u16 \<Rightarrow> 'a io_globals_scheme \<Rightarrow> u8 \<times> 'a io_globals_scheme" where
  "audio_inb hw port = inb hw port"

definition audio_inl :: "hardware \<Rightarrow> u16 \<Rightarrow> 'a io_globals_scheme \<Rightarrow> u32 \<times> 'a io_globals_scheme" where
  "audio_inl hw port = inl hw port"

definition audio_outw :: "u16 \<Rightarrow> u16 \<Rightarrow> 'a io_globals_scheme \<Rightarrow> 'a io_globals_scheme" where
  "audio_outw port value = outw port value"

definition audio_outb :: "u16 \<Rightarrow> u8 \<Rightarrow> 'a io_globals_scheme \<Rightarrow> 'a io_globals_scheme" where
  "audio_outb port value = outb port value"

definition audio_outl :: "u16 \<Rightarrow> u32 \<Rightarrow> 'a io_globals_scheme \<Rightarrow> 'a io_globals_scheme" where
  "audio_outl port value = outl port value"

definition audio_is_known_ac97_device :: "u16 \<Rightarrow> u16 \<Rightarrow> bool" where
  "audio_is_known_ac97_device vendor_id device_id =
     (if vendor_id = PCI_VENDOR_INTEL then device_id = 0x2415 \<or> device_id = 0x2425 else False)"

definition audio_bar_is_io :: "u32 \<Rightarrow> bool" where
  "audio_bar_is_io bar_value = (bar_value AND 0x01 \<noteq> 0)"

definition audio_bar_io_base :: "u32 \<Rightarrow> u16" where
  "audio_bar_io_base bar_value = (if \<not> audio_bar_is_io bar_value then 0 else ucast (bar_value AND 0xFFF0))"

definition audio_log_event :: "string \<Rightarrow> 'a log_globals_scheme \<Rightarrow> 'a log_globals_scheme" where
  "audio_log_event message s = serial_writeline message (klog_writeline message s)"

definition audio_duration_to_wait_ticks :: "u32 \<Rightarrow> u32" where
  "audio_duration_to_wait_ticks duration_ms =
     (let ticks = (duration_ms * timer_get_frequency_hz + 999) div 1000 in if ticks = 0 then 1 else ticks)"

partial_function (option) audio_wait_loop ::
  "hardware \<Rightarrow> u32 \<Rightarrow> u32 \<Rightarrow> 'a audio_globals_scheme \<Rightarrow> 'a audio_globals_scheme option" where
  "audio_wait_loop hw start_ticks wait_ticks s =
     (if timer_get_ticks s - start_ticks < wait_ticks then audio_wait_loop hw start_ticks wait_ticks (poll hw s)
      else Some s)"

definition audio_wait_ticks :: "hardware \<Rightarrow> u32 \<Rightarrow> 'a audio_globals_scheme \<Rightarrow> 'a audio_globals_scheme option" where
  "audio_wait_ticks hw wait_ticks s = audio_wait_loop hw (timer_get_ticks s) wait_ticks s"

section \<open>The AC'97 controller\<close>

definition audio_ac97_refresh_busmaster_state :: "hardware \<Rightarrow> 'a audio_globals_scheme \<Rightarrow> 'a audio_globals_scheme" where
  "audio_ac97_refresh_busmaster_state hw s =
     (if \<not> ac_controller_ready (audio_ac97 s) then s
      else
        let base = ac_busmaster_base (audio_ac97 s);
            (po_bdbar, s) = audio_inl hw (base + AC97_PO_BDBAR) s;
            (po_civ, s) = audio_inb hw (base + AC97_PO_CIV) s;
            (po_lvi, s) = audio_inb hw (base + AC97_PO_LVI) s;
            (po_status, s) = audio_inw hw (base + AC97_PO_SR) s;
            (po_picb, s) = audio_inw hw (base + AC97_PO_PICB) s;
            (po_piv, s) = audio_inb hw (base + AC97_PO_PIV) s;
            (po_control, s) = audio_inb hw (base + AC97_PO_CR) s;
            (global_control, s) = audio_inl hw (base + AC97_GLOB_CNT) s;
            (global_status, s) = audio_inl hw (base + AC97_GLOB_STA) s
        in upd_ac97 (\<lambda>a. a\<lparr>ac_po_bdbar := po_bdbar, ac_po_civ := po_civ, ac_po_lvi := po_lvi,
             ac_po_status := po_status, ac_po_picb := po_picb, ac_po_piv := po_piv, ac_po_control := po_control,
             ac_global_control := global_control, ac_global_status := global_status\<rparr>) s)"

text \<open>The sample of one frame of the tone; the quotient truncates as in C.\<close>

definition triangle_sample :: "u32 \<Rightarrow> u32 \<Rightarrow> u32 \<Rightarrow> int" where
  "triangle_sample period_frames half_period frame_index =
     (let position = frame_index mod period_frames;
          slope = signed_divide (sint (position * 48000)) (sint period_frames);
          sample = (if position < half_period then - 12000 + slope else 36000 - slope);
          sample = (if sample > 12000 then 12000 else sample)
      in if sample < - 12000 then - 12000 else sample)"

definition audio_ac97_generate_triangle_tone ::
  "u32 \<Rightarrow> u32 \<Rightarrow> u32 \<Rightarrow> u32 \<Rightarrow> (u32 \<Rightarrow> u8) \<Rightarrow> u32 \<Rightarrow> u8" where
  "audio_ac97_generate_triangle_tone buffer frame_count sample_rate_hz tone_hz m =
     (if buffer = 0 \<or> frame_count = 0 \<or> sample_rate_hz = 0 \<or> tone_hz = 0 then m
      else
        let period_frames = sample_rate_hz div tone_hz;
            period_frames = (if period_frames < 2 then 2 else period_frames);
            half_period = period_frames div 2;
            half_period = (if half_period = 0 then 1 else half_period)
        in fold (\<lambda>i m.
             let frame_index = word_of_nat i;
                 sample = word_of_int (triangle_sample period_frames half_period frame_index) :: u16
             in store16 (buffer + 2 * (frame_index * 2 + 1)) sample (store16 (buffer + 2 * (frame_index * 2)) sample m))
             [0..<unat frame_count] m)"

definition audio_ac97_prepare_pcm_buffer ::
  "'a audio_globals_scheme \<Rightarrow> (bool \<times> 'a audio_globals_scheme) option" where
  "audio_ac97_prepare_pcm_buffer s =
     (if ac_pcm_out_bdl (audio_ac97 s) \<noteq> 0 \<and> ac_pcm_out_buffer (audio_ac97 s) \<noteq> 0 then Some (True, s)
      else
        let frame_count = (AC97_PCM_BASE_RATE_HZ * AC97_PCM_TONE_MS) div 1000
        in if frame_count = 0 then Some (False, s)
           else do {
             let sample_count = frame_count * 2;
             let buffer_bytes = frame_count * 2 * 2;
             (bdl, s) \<leftarrow> kcalloc 32 8 s;
             let s = upd_ac97 (\<lambda>a. a\<lparr>ac_pcm_out_bdl := bdl\<rparr>) s;
             (buffer, s) \<leftarrow> kmalloc buffer_bytes s;
             let s = upd_ac97 (\<lambda>a. a\<lparr>ac_pcm_out_buffer := buffer\<rparr>) s;
             Some (if bdl = 0 \<or> buffer = 0 then (False, s)
                   else
                     let s = upd_ac97 (\<lambda>a. a\<lparr>ac_pcm_out_samples := sample_count, ac_pcm_out_buffer_bytes := buffer_bytes,
                               ac_playback_rate_hz := AC97_PCM_BASE_RATE_HZ,
                               ac_playback_duration_ms := AC97_PCM_TONE_MS\<rparr>) s;
                         m = audio_ac97_generate_triangle_tone buffer frame_count AC97_PCM_BASE_RATE_HZ AC97_PCM_TONE_HZ (mem s);
                         m = store32 (bdl + 4) (0x80000000 OR 0x40000000 OR (sample_count AND 0xFFFF)) (store32 bdl buffer m)
                     in (True, s\<lparr>mem := m\<rparr>))
           })"

definition audio_ac97_select_sample_rate :: "hardware \<Rightarrow> 'a audio_globals_scheme \<Rightarrow> 'a audio_globals_scheme" where
  "audio_ac97_select_sample_rate hw s =
     (let base = ac_mixer_base (audio_ac97 s);
          rate = (\<lambda>s. upd_ac97 (\<lambda>a. a\<lparr>ac_playback_rate_hz := AC97_PCM_BASE_RATE_HZ\<rparr>)
                       (audio_outw (base + AC97_PCM_FRONT_DAC_RATE) (ucast AC97_PCM_BASE_RATE_HZ) s))
      in if ac_extended_audio_id (audio_ac97 s) AND 0x0001 = 0 then rate s
         else
           let (ext_status, s) = audio_inw hw (base + AC97_EXTENDED_AUDIO_STATUS) s
           in rate (audio_outw (base + AC97_EXTENDED_AUDIO_STATUS) (ext_status OR 0x0001) s))"

definition audio_ac97_reset_pcm_out :: "hardware \<Rightarrow> 'a audio_globals_scheme \<Rightarrow> 'a audio_globals_scheme option" where
  "audio_ac97_reset_pcm_out hw s =
     (if \<not> ac_controller_ready (audio_ac97 s) then Some s
      else
        let base = ac_busmaster_base (audio_ac97 s);
            s = audio_outb (base + AC97_PO_CR) 0 s;
            s = audio_outb (base + AC97_PO_CR) 0x02 s
        in do {
          s \<leftarrow> audio_wait_ticks hw 1 s;
          Some (audio_outw (base + AC97_PO_SR) (0x10 OR 0x08 OR 0x04) (audio_outb (base + AC97_PO_CR) 0 s))
        })"

definition audio_ac97_start_pcm_out :: "'a audio_globals_scheme \<Rightarrow> 'a audio_globals_scheme" where
  "audio_ac97_start_pcm_out s =
     (let base = ac_busmaster_base (audio_ac97 s)
      in steps [audio_outl (base + AC97_PO_BDBAR) (ac_pcm_out_bdl (audio_ac97 s)),
                audio_outb (base + AC97_PO_LVI) 0, audio_outb (base + AC97_PO_CR) (0x10 OR 0x01)] s)"

partial_function (option) audio_ac97_completion_loop ::
  "hardware \<Rightarrow> u32 \<Rightarrow> 'a audio_globals_scheme \<Rightarrow> 'a audio_globals_scheme option" where
  "audio_ac97_completion_loop hw guard_start s =
     (if timer_get_ticks s - guard_start < audio_duration_to_wait_ticks 120
      then let (status_bits, s) = audio_inw hw (ac_busmaster_base (audio_ac97 s) + AC97_PO_SR) s
           in if status_bits AND (0x08 OR 0x04 OR 0x01) \<noteq> 0 then Some s
              else audio_ac97_completion_loop hw guard_start (poll hw s)
      else Some s)"

definition audio_ac97_wait_for_completion :: "hardware \<Rightarrow> 'a audio_globals_scheme \<Rightarrow> 'a audio_globals_scheme option" where
  "audio_ac97_wait_for_completion hw s = do {
     s \<leftarrow> audio_wait_ticks hw (audio_duration_to_wait_ticks (ac_playback_duration_ms (audio_ac97 s) + 60)) s;
     audio_ac97_completion_loop hw (timer_get_ticks s) s
   }"

definition audio_ac97_refresh_state :: "hardware \<Rightarrow> 'a audio_globals_scheme \<Rightarrow> 'a audio_globals_scheme" where
  "audio_ac97_refresh_state hw s =
     (if \<not> ac_controller_ready (audio_ac97 s) then s
      else
        let base = ac_mixer_base (audio_ac97 s);
            (reset_register, s) = audio_inw hw base s;
            (master_volume, s) = audio_inw hw (base + AC97_MASTER_VOLUME) s;
            (pcm_out_volume, s) = audio_inw hw (base + AC97_PCM_OUT_VOLUME) s;
            (powerdown_status, s) = audio_inw hw (base + AC97_POWERDOWN_STATUS) s;
            (extended_audio_id, s) = audio_inw hw (base + AC97_EXTENDED_AUDIO_ID) s;
            (extended_audio_status, s) = audio_inw hw (base + AC97_EXTENDED_AUDIO_STATUS) s;
            (pcm_front_dac_rate, s) = audio_inw hw (base + AC97_PCM_FRONT_DAC_RATE) s
        in audio_ac97_refresh_busmaster_state hw (upd_ac97 (\<lambda>a. a\<lparr>ac_reset_register := reset_register,
             ac_master_volume := master_volume, ac_pcm_out_volume := pcm_out_volume,
             ac_powerdown_status := powerdown_status, ac_extended_audio_id := extended_audio_id,
             ac_extended_audio_status := extended_audio_status, ac_pcm_front_dac_rate := pcm_front_dac_rate\<rparr>) s))"

section \<open>Probing\<close>

definition audio_ac97_start_controller ::
  "hardware \<Rightarrow> 'a audio_globals_scheme \<Rightarrow> 'a audio_globals_scheme option" where
  "audio_ac97_start_controller hw s = do {
     let s = audio_ac97_refresh_state hw (upd_ac97 (\<lambda>a. a\<lparr>ac_controller_ready := True\<rparr>) s);
     let s = audio_outw (ac_mixer_base (audio_ac97 s) + AC97_MASTER_VOLUME) 0 s;
     let s = audio_outw (ac_mixer_base (audio_ac97 s) + AC97_PCM_OUT_VOLUME) 0 s;
     (ok, s) \<leftarrow> audio_ac97_prepare_pcm_buffer (audio_ac97_select_sample_rate hw s);
     Some (audio_log_event ''TERMOB: ac97 controller ready''
             (audio_ac97_refresh_state hw (upd_ac97 (\<lambda>a. a\<lparr>ac_pcm_ready := ok\<rparr>) s)))
   }"

definition audio_ac97_try_init ::
  "hardware \<Rightarrow> termob_device \<Rightarrow> 'a audio_globals_scheme \<Rightarrow> 'a audio_globals_scheme option" where
  "audio_ac97_try_init hw device s =
     (if ac_detected (audio_ac97 s) then Some s
      else if \<not> audio_is_known_ac97_device (dev_vendor_id device) (dev_device_id device) then Some s
      else
        let bus = dev_bus device; slot = dev_slot device; fn = dev_function device;
            (irq_line, s) = pci_config_read8 hw bus slot fn PCI_IRQ_LINE_REGISTER s;
            (command_value, s) = pci_config_read16 hw bus slot fn PCI_COMMAND_REGISTER s;
            s = pci_config_write16 hw bus slot fn PCI_COMMAND_REGISTER (command_value OR (0x0001 OR 0x0004)) s;
            (pci_command, s) = pci_config_read16 hw bus slot fn PCI_COMMAND_REGISTER s;
            (bar0_value, s) = pci_config_read32 hw bus slot fn PCI_BAR0_REGISTER s;
            (bar1_value, s) = pci_config_read32 hw bus slot fn PCI_BAR1_REGISTER s;
            s = upd_ac97 (\<lambda>a. a\<lparr>ac_detected := True, ac_vendor_id := dev_vendor_id device,
                  ac_device_id := dev_device_id device, ac_bus := bus, ac_slot := slot, ac_function := fn,
                  ac_irq_line := irq_line, ac_pci_command := pci_command, ac_mixer_base := audio_bar_io_base bar0_value,
                  ac_busmaster_base := audio_bar_io_base bar1_value\<rparr>) s
        in if audio_bar_io_base bar0_value = 0 \<or> audio_bar_io_base bar1_value = 0
           then Some (audio_log_event ''TERMOB: ac97 controller detected but io bars are unavailable'' s)
           else audio_ac97_start_controller hw s)"

definition audio_pci_match :: "termob_device \<Rightarrow> bool" where
  "audio_pci_match device =
     (if dev_bus_type device \<noteq> TERMOB_BUS_PCI then False
      else if dev_class_code device \<noteq> PCI_CLASS_MULTIMEDIA then False
      else if dev_subclass device = PCI_SUBCLASS_AUDIO_CONTROLLER \<or> dev_subclass device = PCI_SUBCLASS_HDA_CONTROLLER
      then True else False)"

definition audio_pci_probe ::
  "hardware \<Rightarrow> nat \<Rightarrow> 'a audio_globals_scheme \<Rightarrow> 'a audio_globals_scheme option" where
  "audio_pci_probe hw device s =
     (let s = s\<lparr>audio_bound_device_count_value := audio_bound_device_count_value s + 1\<rparr>;
          s = klog_writeline ''TERMOB: pci audio device bound'' s;
          s = serial_writeline ''TERMOB: pci audio device bound'' s
      in audio_ac97_try_init hw (device_of (driver_device_list s ! device)) s)"

definition audio_device_name :: "u16 \<Rightarrow> u16 \<Rightarrow> u8 \<Rightarrow> string" where
  "audio_device_name vendor_id device_id subclass =
     (if vendor_id = PCI_VENDOR_INTEL \<and> (device_id = 0x2415 \<or> device_id = 0x2425) then ''Intel AC'97''
      else if vendor_id = PCI_VENDOR_INTEL \<and> (device_id = 0x2668 \<or> device_id = 0x27D8 \<or> device_id = 0x293E)
      then ''Intel HD Audio''
      else if vendor_id = PCI_VENDOR_ENSONIQ \<and> device_id = 0x1371 then ''Ensoniq ES1370''
      else if vendor_id = PCI_VENDOR_VIRTIO then if device_id = 0x1054 then ''virtio-snd'' else ''virtio audio''
      else if subclass = PCI_SUBCLASS_HDA_CONTROLLER then ''HD Audio controller''
      else ''PCI audio controller'')"

definition audio_pci_driver :: termob_driver where
  "audio_pci_driver =
     \<lparr>drv_name = Some ''audio-pci'', drv_bus_type = TERMOB_BUS_PCI, drv_match = Some audio_pci_match,
      drv_probe = AUDIO_PCI_PROBE, drv_remove = 0, drv_data = 0\<rparr>"

definition audio_ac97_at_init :: audio_ac97_state where
  "audio_ac97_at_init =
     \<lparr>ac_detected = False, ac_controller_ready = False, ac_pcm_ready = False, ac_vendor_id = 0, ac_device_id = 0,
      ac_bus = 0, ac_slot = 0, ac_function = 0, ac_irq_line = 0, ac_pci_command = 0, ac_mixer_base = 0,
      ac_busmaster_base = 0, ac_reset_register = 0, ac_master_volume = 0, ac_pcm_out_volume = 0,
      ac_powerdown_status = 0, ac_extended_audio_id = 0, ac_extended_audio_status = 0, ac_pcm_front_dac_rate = 0,
      ac_global_control = 0, ac_global_status = 0, ac_po_bdbar = 0, ac_po_status = 0, ac_po_picb = 0, ac_po_civ = 0,
      ac_po_lvi = 0, ac_po_piv = 0, ac_po_control = 0, ac_playback_rate_hz = 0, ac_playback_duration_ms = 0,
      ac_pcm_out_bdl = 0, ac_pcm_out_buffer = 0, ac_pcm_out_samples = 0, ac_pcm_out_buffer_bytes = 0\<rparr>"

definition audio_init ::
  "(u32 \<Rightarrow> nat \<Rightarrow> 'a audio_globals_scheme \<Rightarrow> 'a audio_globals_scheme option) \<Rightarrow>
   'a audio_globals_scheme \<Rightarrow> 'a audio_globals_scheme option" where
  "audio_init call_probe s =
     (if audio_ready s then Some s
      else do {
        (ok, s) \<leftarrow> device_register_driver call_probe (Some audio_pci_driver)
                     (s\<lparr>audio_bound_device_count_value := 0, audio_ac97 := audio_ac97_at_init\<rparr>);
        Some (s\<lparr>audio_ready := ok\<rparr>)
      })"

definition audio_is_initialized :: "'a audio_globals_scheme \<Rightarrow> bool" where
  "audio_is_initialized s = audio_ready s"

definition audio_bound_device_count :: "'a audio_globals_scheme \<Rightarrow> nat" where
  "audio_bound_device_count s = audio_bound_device_count_value s"

definition audio_ac97_is_ready :: "'a audio_globals_scheme \<Rightarrow> bool" where
  "audio_ac97_is_ready s = ac_controller_ready (audio_ac97 s)"

section \<open>The test tone\<close>

definition audio_ac97_play_test_tone ::
  "hardware \<Rightarrow> 'a audio_globals_scheme \<Rightarrow> (bool \<times> 'a audio_globals_scheme) option" where
  "audio_ac97_play_test_tone hw s =
     (if \<not> ac_controller_ready (audio_ac97 s) then Some (False, s)
      else do {
        (ok, s) \<leftarrow> (if ac_pcm_ready (audio_ac97 s) then Some (True, s)
                    else do {
                      (ok, s) \<leftarrow> audio_ac97_prepare_pcm_buffer s;
                      Some (ok, upd_ac97 (\<lambda>a. a\<lparr>ac_pcm_ready := ok\<rparr>) s)
                    });
        if \<not> ok then Some (False, audio_log_event ''TERMOB: ac97 pcm buffer allocation failed'' s)
        else do {
          let a = audio_ac97 s;
          let s = s\<lparr>mem := audio_ac97_generate_triangle_tone (ac_pcm_out_buffer a) (ac_pcm_out_samples a div 2)
                             (ac_playback_rate_hz a) AC97_PCM_TONE_HZ (mem s)\<rparr>;
          s \<leftarrow> audio_ac97_reset_pcm_out hw (audio_ac97_select_sample_rate hw s);
          s \<leftarrow> audio_ac97_wait_for_completion hw (audio_ac97_start_pcm_out s);
          s \<leftarrow> audio_ac97_reset_pcm_out hw s;
          Some (True, audio_log_event ''TERMOB: ac97 pcm test tone played'' (audio_ac97_refresh_state hw s))
        }
      })"

section \<open>Reports\<close>

definition audio_dump_device :: "termob_device \<Rightarrow> 'a audio_globals_scheme \<Rightarrow> 'a audio_globals_scheme" where
  "audio_dump_device device s =
     (if \<not> audio_pci_match device then s
      else steps
        [terminal_write ''  '', audio_write_hex8 (dev_bus device), terminal_putchar CHR '':'',
         audio_write_hex8 (dev_slot device), terminal_putchar CHR ''.'', audio_write_hex8 (dev_function device),
         terminal_write ''  '',
         terminal_write (audio_device_name (dev_vendor_id device) (dev_device_id device) (dev_subclass device)),
         terminal_write ''  '', audio_write_hex16 (dev_vendor_id device), terminal_putchar CHR '':'',
         audio_write_hex16 (dev_device_id device), write_bound_name device, terminal_putchar NEWLINE] s)"

definition audio_dump_to_terminal :: "'a audio_globals_scheme \<Rightarrow> 'a audio_globals_scheme" where
  "audio_dump_to_terminal s =
     (let detected_devices = length (filter audio_pci_match (all_devices s));
          s = steps
        [terminal_writeline ''Audio subsystem:'',
         terminal_write ''  PCI driver : '',
         \<lambda>s. terminal_writeline (if audio_ready s then ''Registered'' else ''Offline'') s,
         terminal_write ''  Speaker    : '',
         \<lambda>s. terminal_writeline (if sound_is_initialized s then ''PC speaker online'' else ''offline'') s,
         terminal_write ''  AC97       : '',
         \<lambda>s. terminal_writeline (if ac_controller_ready (audio_ac97 s) then ''controller ready''
                else if ac_detected (audio_ac97 s) then ''detected, io not ready'' else ''not detected'') s,
         terminal_write ''  PCM DMA    : '',
         \<lambda>s. terminal_writeline (if ac_pcm_ready (audio_ac97 s) then ''test tone armed'' else ''offline'') s,
         terminal_write ''  PCI bound  : '',
         \<lambda>s. audio_write_u32 (word_of_nat (audio_bound_device_count_value s)) s,
         terminal_writeline '' devices'',
         terminal_write ''  PCI seen   : '',
         audio_write_u32 (word_of_nat detected_devices),
         terminal_writeline '' devices'',
         terminal_writeline ''  Quality    : PC speaker live + AC'97 PCM test tone'',
         terminal_writeline ''  Test cmd   : ac97tone''] s
      in if detected_devices = 0 then terminal_writeline ''  No PCI audio controller detected'' s
         else fold audio_dump_device (all_devices s) (terminal_writeline ''Detected PCI audio hardware:'' s))"

text \<open>A line with a label, a value and the end of the line.\<close>

definition audio_line :: "string \<Rightarrow> ('s terminal_globals_scheme \<Rightarrow> 's terminal_globals_scheme) \<Rightarrow>
    's terminal_globals_scheme \<Rightarrow> 's terminal_globals_scheme" where
  "audio_line label value = steps [terminal_write label, value, terminal_putchar NEWLINE]"

definition audio_dump_ac97_to_terminal :: "hardware \<Rightarrow> 'a audio_globals_scheme \<Rightarrow> 'a audio_globals_scheme" where
  "audio_dump_ac97_to_terminal hw s =
     (let s = terminal_writeline ''AC'97 controller:'' s
      in if \<not> ac_detected (audio_ac97 s)
         then steps
           [terminal_writeline ''  State      : No supported AC'97 controller detected'',
            terminal_writeline ''  Tip        : start the kernel with make run-ac97''] s
         else
           let a = audio_ac97 s;
               s = steps
             [terminal_write ''  Controller : '',
              terminal_writeline (audio_device_name (ac_vendor_id a) (ac_device_id a) PCI_SUBCLASS_AUDIO_CONTROLLER),
              terminal_write ''  PCI        : '', audio_write_hex8 (ac_bus a), terminal_putchar CHR '':'',
              audio_write_hex8 (ac_slot a), terminal_putchar CHR ''.'', audio_write_hex8 (ac_function a),
              terminal_write ''  '', audio_write_hex16 (ac_vendor_id a), terminal_putchar CHR '':'',
              audio_write_hex16 (ac_device_id a), terminal_putchar NEWLINE,
              terminal_write ''  State      : '',
              terminal_writeline (if ac_controller_ready a then ''Ready'' else ''Detected, not ready''),
              audio_line ''  IRQ line   : '' (audio_write_u32 (ucast (ac_irq_line a))),
              audio_line ''  PCI cmd    : '' (audio_write_hex16 (ac_pci_command a)),
              audio_line ''  Mixer BAR  : '' (audio_write_hex16 (ac_mixer_base a)),
              audio_line ''  BM BAR     : '' (audio_write_hex16 (ac_busmaster_base a))] s
           in if \<not> ac_controller_ready a then s
              else
                let s = audio_ac97_refresh_state hw s;
                    a = audio_ac97 s
                in steps
                  [audio_line ''  Codec rst  : '' (audio_write_hex16 (ac_reset_register a)),
                   audio_line ''  Master vol : '' (audio_write_hex16 (ac_master_volume a)),
                   audio_line ''  PCM vol    : '' (audio_write_hex16 (ac_pcm_out_volume a)),
                   audio_line ''  Power      : '' (audio_write_hex16 (ac_powerdown_status a)),
                   audio_line ''  Ext ID     : '' (audio_write_hex16 (ac_extended_audio_id a)),
                   audio_line ''  Ext stat   : '' (audio_write_hex16 (ac_extended_audio_status a)),
                   terminal_write ''  DAC rate   : '', audio_write_u32 (ucast (ac_pcm_front_dac_rate a)),
                   terminal_writeline '' Hz'',
                   audio_line ''  GLOB CNT   : '' (audio_write_hex32 (ac_global_control a)),
                   audio_line ''  GLOB STA   : '' (audio_write_hex32 (ac_global_status a)),
                   audio_line ''  PO BDBAR   : '' (audio_write_hex32 (ac_po_bdbar a)),
                   terminal_write ''  PO CIV/LVI : '', audio_write_hex8 (ac_po_civ a), terminal_write '' / '',
                   audio_write_hex8 (ac_po_lvi a), terminal_putchar NEWLINE,
                   audio_line ''  PO PICB    : '' (audio_write_u32 (ucast (ac_po_picb a))),
                   terminal_write ''  PO PIV/CR  : '', audio_write_hex8 (ac_po_piv a), terminal_write '' / '',
                   audio_write_hex8 (ac_po_control a), terminal_putchar NEWLINE,
                   audio_line ''  PO SR      : '' (audio_write_hex16 (ac_po_status a)),
                   terminal_write ''  PCM tone   : '',
                   terminal_writeline (if ac_pcm_ready a then ''ready via ac97tone'' else ''buffer offline'')] s)"

section \<open>The probes of the kernel\<close>

text \<open>
  A call through the probe pointer of a registered driver. The PCI probe of virtio registers a child
  device, which calls further probes; \<open>depth\<close> bounds the nesting. A child is on the virtio bus, whose
  only driver registers no device, so a depth of one is never exceeded.
\<close>

fun kernel_probe ::
  "nat \<Rightarrow> hardware \<Rightarrow> (u32 \<Rightarrow> u32 \<Rightarrow> u32 \<Rightarrow> u8 list option) \<Rightarrow> u32 \<Rightarrow> nat \<Rightarrow>
   'a audio_globals_scheme \<Rightarrow> 'a audio_globals_scheme option" where
  "kernel_probe depth hw block_read probe device s =
     (if probe = VIRTIO_PCI_PROBE
      then (case depth of 0 \<Rightarrow> None
            | Suc depth \<Rightarrow> virtio_pci_probe (kernel_probe depth hw block_read) device s)
      else if probe = VIRTIO_BLK_PROBE then virtio_blk_probe hw block_read device s
      else if probe = AUDIO_PCI_PROBE then audio_pci_probe hw device s
      else None)"

declare kernel_probe.simps [simp del]

end
