(* ===== verification/Mouse.thy ===== *)
theory Mouse
  imports Audio
begin

unbundle bit_operations_syntax

text \<open>
  The PS/2 mouse (\<^verbatim>\<open>drivers/mouse.c\<close>): the dialogue with the controller that sets it up, the interrupt
  handler that queues bytes, and the main loop's side that assembles packets and scrolls the terminal.
\<close>

abbreviation (input) MOUSE_DATA_PORT :: u16 where "MOUSE_DATA_PORT \<equiv> 0x60"
abbreviation (input) MOUSE_STATUS_PORT :: u16 where "MOUSE_STATUS_PORT \<equiv> 0x64"
abbreviation (input) MOUSE_COMMAND_PORT :: u16 where "MOUSE_COMMAND_PORT \<equiv> 0x64"
abbreviation (input) MOUSE_STATUS_OUTPUT_FULL :: u8 where "MOUSE_STATUS_OUTPUT_FULL \<equiv> 0x01"
abbreviation (input) MOUSE_STATUS_INPUT_FULL :: u8 where "MOUSE_STATUS_INPUT_FULL \<equiv> 0x02"
abbreviation (input) MOUSE_STATUS_AUX_DATA :: u8 where "MOUSE_STATUS_AUX_DATA \<equiv> 0x20"
abbreviation (input) MOUSE_QUEUE_SIZE :: u32 where "MOUSE_QUEUE_SIZE \<equiv> 128"
abbreviation (input) MOUSE_WAIT_TIMEOUT :: nat where "MOUSE_WAIT_TIMEOUT \<equiv> 100000"
abbreviation (input) MOUSE_ACK :: u8 where "MOUSE_ACK \<equiv> 0xFA"

record mouse_globals = audio_globals +
  mouse_queue_head :: u32
  mouse_queue_tail :: u32
  mouse_queue_dropped :: u32
  mouse_queue :: "u8 list"
  mouse_packet :: "u8 list"
  mouse_packet_index :: u8
  mouse_packet_size :: u8
  mouse_ready :: bool
  mouse_wheel_ready :: bool
  mouse_buttons :: u8
  mouse_last_wheel_delta :: u8
  mouse_irq_events :: u32
  mouse_packets_seen :: u32
  mouse_scroll_up_events :: u32
  mouse_scroll_down_events :: u32
  mouse_sync_losses :: u32

definition mouse_inb :: "hardware \<Rightarrow> u16 \<Rightarrow> 'a mouse_globals_scheme \<Rightarrow> u8 \<times> 'a mouse_globals_scheme" where
  "mouse_inb hw port = inb hw port"

definition mouse_outb :: "u16 \<Rightarrow> u8 \<Rightarrow> 'a mouse_globals_scheme \<Rightarrow> 'a mouse_globals_scheme" where
  "mouse_outb port value = outb port value"

definition mouse_log_event :: "string \<Rightarrow> 'a mouse_globals_scheme \<Rightarrow> 'a mouse_globals_scheme" where
  "mouse_log_event message s = serial_writeline message (klog_writeline message s)"

section \<open>The dialogue with the controller\<close>

primrec mouse_input_loop :: "hardware \<Rightarrow> nat \<Rightarrow> 'a mouse_globals_scheme \<Rightarrow> bool \<times> 'a mouse_globals_scheme" where
  "mouse_input_loop hw 0 s = (False, s)"
| "mouse_input_loop hw (Suc timeout) s =
     (let (status, s) = mouse_inb hw MOUSE_STATUS_PORT s
      in if status AND MOUSE_STATUS_INPUT_FULL = 0 then (True, s) else mouse_input_loop hw timeout s)"

definition mouse_wait_input_ready :: "hardware \<Rightarrow> 'a mouse_globals_scheme \<Rightarrow> bool \<times> 'a mouse_globals_scheme" where
  "mouse_wait_input_ready hw s = mouse_input_loop hw MOUSE_WAIT_TIMEOUT s"

primrec mouse_output_loop :: "hardware \<Rightarrow> nat \<Rightarrow> 'a mouse_globals_scheme \<Rightarrow> bool \<times> 'a mouse_globals_scheme" where
  "mouse_output_loop hw 0 s = (False, s)"
| "mouse_output_loop hw (Suc timeout) s =
     (let (status, s) = mouse_inb hw MOUSE_STATUS_PORT s
      in if status AND MOUSE_STATUS_OUTPUT_FULL \<noteq> 0 then (True, s) else mouse_output_loop hw timeout s)"

definition mouse_wait_output_ready :: "hardware \<Rightarrow> 'a mouse_globals_scheme \<Rightarrow> bool \<times> 'a mouse_globals_scheme" where
  "mouse_wait_output_ready hw s = mouse_output_loop hw MOUSE_WAIT_TIMEOUT s"

definition mouse_write_controller :: "hardware \<Rightarrow> u8 \<Rightarrow> 'a mouse_globals_scheme \<Rightarrow> bool \<times> 'a mouse_globals_scheme" where
  "mouse_write_controller hw command s =
     (let (ok, s) = mouse_wait_input_ready hw s
      in if \<not> ok then (False, s) else (True, mouse_outb MOUSE_COMMAND_PORT command s))"

definition mouse_write_data :: "hardware \<Rightarrow> u8 \<Rightarrow> 'a mouse_globals_scheme \<Rightarrow> bool \<times> 'a mouse_globals_scheme" where
  "mouse_write_data hw value s =
     (let (ok, s) = mouse_wait_input_ready hw s
      in if \<not> ok then (False, s) else (True, mouse_outb MOUSE_DATA_PORT value s))"

definition mouse_read_data :: "hardware \<Rightarrow> 'a mouse_globals_scheme \<Rightarrow> u8 option \<times> 'a mouse_globals_scheme" where
  "mouse_read_data hw s =
     (let (ok, s) = mouse_wait_output_ready hw s
      in if \<not> ok then (None, s) else let (value, s) = mouse_inb hw MOUSE_DATA_PORT s in (Some value, s))"

text \<open>Conditions joined by \<^verbatim>\<open>&&\<close>: the second is evaluated only when the first holds.\<close>

definition and_then :: "('s \<Rightarrow> bool \<times> 's) \<Rightarrow> ('s \<Rightarrow> bool \<times> 's) \<Rightarrow> 's \<Rightarrow> bool \<times> 's" where
  "and_then f g s = (let (ok, s) = f s in if ok then g s else (False, s))"

definition mouse_write_device_command :: "hardware \<Rightarrow> u8 \<Rightarrow> 'a mouse_globals_scheme \<Rightarrow> bool \<times> 'a mouse_globals_scheme" where
  "mouse_write_device_command hw command = and_then (mouse_write_controller hw 0xD4) (mouse_write_data hw command)"

definition mouse_expect_ack :: "hardware \<Rightarrow> 'a mouse_globals_scheme \<Rightarrow> bool \<times> 'a mouse_globals_scheme" where
  "mouse_expect_ack hw s =
     (case mouse_read_data hw s of (None, s) \<Rightarrow> (False, s) | (Some response, s) \<Rightarrow> (response = MOUSE_ACK, s))"

definition mouse_send_device_command :: "hardware \<Rightarrow> u8 \<Rightarrow> 'a mouse_globals_scheme \<Rightarrow> bool \<times> 'a mouse_globals_scheme" where
  "mouse_send_device_command hw command = and_then (mouse_write_device_command hw command) (mouse_expect_ack hw)"

definition mouse_send_set_sample_rate :: "hardware \<Rightarrow> u8 \<Rightarrow> 'a mouse_globals_scheme \<Rightarrow> bool \<times> 'a mouse_globals_scheme" where
  "mouse_send_set_sample_rate hw rate =
     and_then (mouse_send_device_command hw 0xF3) (and_then (mouse_write_device_command hw rate) (mouse_expect_ack hw))"

definition mouse_identify :: "hardware \<Rightarrow> 'a mouse_globals_scheme \<Rightarrow> u8 option \<times> 'a mouse_globals_scheme" where
  "mouse_identify hw s =
     (let (ok, s) = and_then (mouse_write_device_command hw 0xF2) (mouse_expect_ack hw) s
      in if \<not> ok then (None, s) else mouse_read_data hw s)"

section \<open>Packets\<close>

definition mouse_enqueue_byte :: "u8 \<Rightarrow> 'a mouse_globals_scheme \<Rightarrow> 'a mouse_globals_scheme" where
  "mouse_enqueue_byte value s =
     (let head = mouse_queue_head s;
          next_head = (head + 1) mod MOUSE_QUEUE_SIZE
      in if next_head = mouse_queue_tail s then s\<lparr>mouse_queue_dropped := mouse_queue_dropped s + 1\<rparr>
         else s\<lparr>mouse_queue := (mouse_queue s)[unat head := value], mouse_queue_head := next_head\<rparr>)"

text \<open>The signed bytes of the source are words read with \<open>sint\<close>; negating the least one gives it back.\<close>

definition mouse_process_packet :: "'a mouse_globals_scheme \<Rightarrow> 'a mouse_globals_scheme" where
  "mouse_process_packet s =
     (let s = s\<lparr>mouse_packets_seen := mouse_packets_seen s + 1, mouse_buttons := mouse_packet s ! 0 AND 0x07\<rparr>
      in if \<not> mouse_wheel_ready s \<or> mouse_packet_size s < 4 then s
         else
           let wheel_delta = mouse_packet s ! 3
           in if sint wheel_delta > 0
              then
                let s = s\<lparr>mouse_scroll_up_events := mouse_scroll_up_events s + word_of_int (sint wheel_delta)\<rparr>;
                    s = (terminal_scrollback_line_up ^^ nat (sint wheel_delta)) s
                in s\<lparr>mouse_last_wheel_delta := mouse_packet s ! 3\<rparr>
              else if sint wheel_delta < 0
              then
                let steps = - wheel_delta;
                    s = s\<lparr>mouse_scroll_down_events := mouse_scroll_down_events s + word_of_int (sint steps)\<rparr>;
                    s = (terminal_scrollback_line_down ^^ nat (sint steps)) s
                in s\<lparr>mouse_last_wheel_delta := mouse_packet s ! 3\<rparr>
              else s\<lparr>mouse_last_wheel_delta := 0\<rparr>)"

section \<open>Initialisation\<close>

definition mouse_negotiate_wheel :: "hardware \<Rightarrow> 'a mouse_globals_scheme \<Rightarrow> 'a mouse_globals_scheme" where
  "mouse_negotiate_wheel hw s =
     (let (ok, s) = and_then (mouse_send_set_sample_rate hw 200)
                      (and_then (mouse_send_set_sample_rate hw 100) (mouse_send_set_sample_rate hw 80)) s
      in if \<not> ok then s
         else case mouse_identify hw s of
                (None, s) \<Rightarrow> s
              | (Some device_id, s) \<Rightarrow>
                  if device_id = 0x03 \<or> device_id = 0x04 then s\<lparr>mouse_wheel_ready := True, mouse_packet_size := 4\<rparr>
                  else if device_id = 0x00 then s\<lparr>mouse_packet_size := 3\<rparr> else s)"

text \<open>The part after the configuration byte is read.\<close>

definition mouse_configure :: "hardware \<Rightarrow> u8 \<Rightarrow> 'a mouse_globals_scheme \<Rightarrow> 'a mouse_globals_scheme" where
  "mouse_configure hw config s =
     (let config = (config OR 0x02) AND NOT 0x20;
          (ok, s) = and_then (mouse_write_controller hw 0x60) (mouse_write_data hw config) s
      in if \<not> ok then mouse_log_event ''TERMOB: ps/2 mouse config write failed'' s
         else
           let (ok, s) = mouse_send_device_command hw 0xF6 s
           in if \<not> ok then mouse_log_event ''TERMOB: ps/2 mouse defaults command failed'' s
              else
                let (ok, s) = mouse_send_device_command hw 0xF4 (mouse_negotiate_wheel hw s)
                in if \<not> ok then mouse_log_event ''TERMOB: ps/2 mouse data reporting enable failed'' s
                   else
                     let s = pic_clear_irq_mask hw 12 (pic_clear_irq_mask hw 2 s);
                         s = s\<lparr>mouse_ready := True\<rparr>
                     in mouse_log_event (if mouse_wheel_ready s then ''TERMOB: ps/2 mouse wheel online''
                                         else ''TERMOB: ps/2 mouse online'') s)"

definition mouse_init :: "hardware \<Rightarrow> 'a mouse_globals_scheme \<Rightarrow> 'a mouse_globals_scheme" where
  "mouse_init hw s =
     (let s = s\<lparr>mouse_queue_head := 0, mouse_queue_tail := 0, mouse_queue_dropped := 0, mouse_packet_index := 0,
                mouse_packet_size := 3, mouse_ready := False, mouse_wheel_ready := False, mouse_buttons := 0,
                mouse_last_wheel_delta := 0, mouse_irq_events := 0, mouse_packets_seen := 0,
                mouse_scroll_up_events := 0, mouse_scroll_down_events := 0, mouse_sync_losses := 0\<rparr>;
          (ok, s) = mouse_write_controller hw 0xA8 s
      in if \<not> ok then mouse_log_event ''TERMOB: ps/2 mouse enable failed'' s
         else
           let (ok, s) = mouse_write_controller hw 0x20 s
           in if \<not> ok then mouse_log_event ''TERMOB: ps/2 mouse config read failed'' s
              else case mouse_read_data hw s of
                     (None, s) \<Rightarrow> mouse_log_event ''TERMOB: ps/2 mouse config read failed'' s
                   | (Some config, s) \<Rightarrow> mouse_configure hw config s)"

definition mouse_is_initialized :: "'a mouse_globals_scheme \<Rightarrow> bool" where
  "mouse_is_initialized s = mouse_ready s"

definition mouse_has_wheel :: "'a mouse_globals_scheme \<Rightarrow> bool" where
  "mouse_has_wheel s = mouse_wheel_ready s"

section \<open>Interrupts and the main loop\<close>

definition mouse_handle_irq :: "hardware \<Rightarrow> 'a mouse_globals_scheme \<Rightarrow> 'a mouse_globals_scheme" where
  "mouse_handle_irq hw s =
     (let (status, s) = mouse_inb hw MOUSE_STATUS_PORT s
      in if status AND MOUSE_STATUS_OUTPUT_FULL = 0 \<or> status AND MOUSE_STATUS_AUX_DATA = 0 then s
         else
           let s = s\<lparr>mouse_irq_events := mouse_irq_events s + 1\<rparr>;
               (value, s) = mouse_inb hw MOUSE_DATA_PORT s
           in mouse_enqueue_byte value s)"

definition irq12_handler_c :: "hardware \<Rightarrow> 'a mouse_globals_scheme \<Rightarrow> 'a mouse_globals_scheme" where
  "irq12_handler_c hw s = pic_send_eoi 12 (mouse_handle_irq hw s)"

text \<open>What the main loop does with one byte it has taken from the queue.\<close>

definition mouse_accept_byte :: "u8 \<Rightarrow> 'a mouse_globals_scheme \<Rightarrow> 'a mouse_globals_scheme" where
  "mouse_accept_byte value s =
     (if mouse_packet_index s = 0 \<and> value AND 0x08 = 0 then s\<lparr>mouse_sync_losses := mouse_sync_losses s + 1\<rparr>
      else
        let s = s\<lparr>mouse_packet := (mouse_packet s)[unat (mouse_packet_index s) := value],
                  mouse_packet_index := mouse_packet_index s + 1\<rparr>
        in if mouse_packet_index s \<ge> mouse_packet_size s then mouse_process_packet (s\<lparr>mouse_packet_index := 0\<rparr>) else s)"

definition mouse_take_byte :: "'a mouse_globals_scheme \<Rightarrow> u8 \<times> 'a mouse_globals_scheme" where
  "mouse_take_byte s =
     (mouse_queue s ! unat (mouse_queue_tail s),
      s\<lparr>mouse_queue_tail := (mouse_queue_tail s + 1) mod MOUSE_QUEUE_SIZE\<rparr>)"

text \<open>The body of the loop, which interrupts may separate from the next turn.\<close>

definition mouse_drain_step :: "'a mouse_globals_scheme \<Rightarrow> 'a mouse_globals_scheme" where
  "mouse_drain_step s = (let (value, s) = mouse_take_byte s in mouse_accept_byte value s)"

partial_function (option) mouse_drain_pending ::
  "'a mouse_globals_scheme \<Rightarrow> 'a mouse_globals_scheme option" where
  "mouse_drain_pending s =
     (if mouse_queue_tail s = mouse_queue_head s then Some s else mouse_drain_pending (mouse_drain_step s))"

section \<open>Reports\<close>

text \<open>The blocks that print a number; only the first has no case for zero.\<close>

definition mouse_write_digits :: "u32 \<Rightarrow> 'a terminal_globals_scheme \<Rightarrow> 'a terminal_globals_scheme" where
  "mouse_write_digits value s = fold terminal_putchar (rev (u32_digits 10 value)) s"

definition mouse_write_count :: "u32 \<Rightarrow> 'a terminal_globals_scheme \<Rightarrow> 'a terminal_globals_scheme" where
  "mouse_write_count value s = (if value = 0 then terminal_write ''0'' s else mouse_write_digits value s)"

definition mouse_dump_to_terminal :: "'a mouse_globals_scheme \<Rightarrow> 'a mouse_globals_scheme" where
  "mouse_dump_to_terminal s = steps
     [terminal_writeline ''PS/2 mouse:'',
      terminal_write ''  State      : '',
      terminal_writeline (if mouse_ready s then ''Ready'' else ''Offline''),
      terminal_write ''  Wheel      : '',
      terminal_writeline (if mouse_wheel_ready s then ''Enabled'' else ''Unavailable''),
      terminal_write ''  Packet     : '',
      if mouse_ready s then mouse_write_digits (ucast (mouse_packet_size s)) else terminal_write ''0'',
      terminal_writeline '' bytes'',
      terminal_write ''  IRQ events : '', mouse_write_count (mouse_irq_events s), terminal_putchar NEWLINE,
      terminal_write ''  Packets    : '', mouse_write_count (mouse_packets_seen s), terminal_putchar NEWLINE,
      terminal_write ''  Scroll up  : '', mouse_write_count (mouse_scroll_up_events s),
      terminal_write ''  down '', mouse_write_count (mouse_scroll_down_events s), terminal_putchar NEWLINE,
      terminal_write ''  Buttons    : '',
      terminal_putchar (if mouse_buttons s AND 0x01 \<noteq> 0 then CHR ''L'' else CHR ''-''),
      terminal_putchar (if mouse_buttons s AND 0x02 \<noteq> 0 then CHR ''R'' else CHR ''-''),
      terminal_putchar (if mouse_buttons s AND 0x04 \<noteq> 0 then CHR ''M'' else CHR ''-''),
      terminal_putchar NEWLINE,
      terminal_write ''  Queue drop : '', mouse_write_count (mouse_queue_dropped s),
      terminal_write ''  sync loss '', mouse_write_count (mouse_sync_losses s), terminal_putchar NEWLINE] s"

definition mouse_irq_count :: "'a mouse_globals_scheme \<Rightarrow> u32" where
  "mouse_irq_count s = mouse_irq_events s"

definition mouse_packet_count :: "'a mouse_globals_scheme \<Rightarrow> u32" where
  "mouse_packet_count s = mouse_packets_seen s"

definition mouse_scroll_up_count :: "'a mouse_globals_scheme \<Rightarrow> u32" where
  "mouse_scroll_up_count s = mouse_scroll_up_events s"

definition mouse_scroll_down_count :: "'a mouse_globals_scheme \<Rightarrow> u32" where
  "mouse_scroll_down_count s = mouse_scroll_down_events s"

end
