(* ===== verification/Kernel_Ui.thy ===== *)
theory Kernel_Ui
  imports Mouse
begin

unbundle bit_operations_syntax

text \<open>
  The screen of the running kernel and its two background threads (the first part of
  \<^verbatim>\<open>core/kernel.c\<close>). The text of the footer is built in a buffer of one screen line; a buffer with its
  index is the list of the characters before the index.
\<close>

abbreviation (input) TERMOB_SHELL_TOP :: nat where "TERMOB_SHELL_TOP \<equiv> 8"
abbreviation (input) TERMOB_SHELL_BOTTOM :: nat where "TERMOB_SHELL_BOTTOM \<equiv> 22"
abbreviation (input) TERMOB_BOOT_STAGE_ROW :: nat where "TERMOB_BOOT_STAGE_ROW \<equiv> 10"

text \<open>\<open>kernel_housekeeping_local\<close> and \<open>kernel_telemetry_local\<close> are the variables \<^verbatim>\<open>local_runs\<close> on the stacks of the threads.\<close>

record kernel_globals = mouse_globals +
  kernel_ui_last_monitor_slot :: u32
  kernel_housekeeping_runs :: u32
  kernel_telemetry_runs :: u32
  kernel_housekeeping_local :: u32
  kernel_telemetry_local :: u32

section \<open>The threads\<close>

text \<open>One turn of the loop of each thread, up to the switch in \<^verbatim>\<open>scheduler_yield\<close>.\<close>

definition kernel_housekeeping_task ::
  "u32 \<Rightarrow> 'a kernel_globals_scheme \<Rightarrow> sched_outcome \<times> 'a kernel_globals_scheme" where
  "kernel_housekeeping_task resume s =
     (let s = s\<lparr>kernel_housekeeping_local := kernel_housekeeping_local s + 1\<rparr>
      in scheduler_yield resume (s\<lparr>kernel_housekeeping_runs := kernel_housekeeping_local s\<rparr>))"

definition kernel_telemetry_task ::
  "u32 \<Rightarrow> 'a kernel_globals_scheme \<Rightarrow> sched_outcome \<times> 'a kernel_globals_scheme" where
  "kernel_telemetry_task resume s =
     (let s = s\<lparr>kernel_telemetry_local := kernel_telemetry_local s + 1\<rparr>
      in scheduler_yield resume (s\<lparr>kernel_telemetry_runs := kernel_telemetry_local s\<rparr>))"

definition kernel_housekeeping_run_count :: "'a kernel_globals_scheme \<Rightarrow> u32" where
  "kernel_housekeeping_run_count s = kernel_housekeeping_runs s"

definition kernel_telemetry_run_count :: "'a kernel_globals_scheme \<Rightarrow> u32" where
  "kernel_telemetry_run_count s = kernel_telemetry_runs s"

section \<open>The boot screen\<close>

definition kernel_ui_draw_boot_banner :: "'a terminal_globals_scheme \<Rightarrow> 'a terminal_globals_scheme" where
  "kernel_ui_draw_boot_banner =
     (let header_color = terminal_make_color VGA_COLOR_WHITE VGA_COLOR_BLUE;
          footer_color = terminal_make_color VGA_COLOR_LIGHT_GREY VGA_COLOR_DARK_GREY;
          body_color = terminal_make_color VGA_COLOR_LIGHT_GREY VGA_COLOR_BLACK
      in steps
        [terminal_initialize VGA_COLOR_LIGHT_GREY VGA_COLOR_BLACK,
         terminal_draw_hline 0 CHR '' '' header_color,
         terminal_draw_hline 24 CHR '' '' footer_color,
         terminal_fill_rect 0 1 VGA_WIDTH 23 body_color,
         terminal_draw_box 1 1 (VGA_WIDTH - 2) 7 (terminal_make_color VGA_COLOR_BLUE VGA_COLOR_BLACK),
         terminal_draw_box 1 9 (VGA_WIDTH - 2) 13 (terminal_make_color VGA_COLOR_DARK_GREY VGA_COLOR_BLACK),
         terminal_setcolor VGA_COLOR_WHITE VGA_COLOR_BLUE,
         terminal_writeat (TERMOB_KERNEL_NAME @ '' '' @ TERMOB_KERNEL_VERSION) 1 0,
         terminal_setcolor VGA_COLOR_LIGHT_CYAN VGA_COLOR_BLUE,
         terminal_writeat ''bootstrap console'' 62 0,
         terminal_setcolor VGA_COLOR_LIGHT_CYAN VGA_COLOR_BLACK,
         terminal_writeat ''   _______  _______  _______ '' 4 2,
         terminal_writeat (''  |_   _'' @ [CHR 0x5C] @ '' '' @ [CHR 0x5C] @ ''/ /_   _||  _  _|'') 4 3,
         terminal_writeat (''    | |  '' @ [CHR 0x5C] @ ''  /  | |  | |_) | '') 4 4,
         terminal_writeat ''    |_|  /_/   |_|  |____/  '' 4 5,
         terminal_setcolor VGA_COLOR_WHITE VGA_COLOR_BLACK,
         terminal_writeat ''monolithic i386 kernel | grub multiboot2 | vga text mode'' 35 3,
         terminal_writeat ''bringing core subsystems online before shell handoff'' 35 4,
         terminal_writeat ''serial logging stays active on COM1 during boot'' 35 5,
         terminal_setcolor VGA_COLOR_LIGHT_GREY VGA_COLOR_BLACK,
         terminal_writeat ''Boot stages'' 3 9,
         terminal_setcolor VGA_COLOR_LIGHT_GREY VGA_COLOR_DARK_GREY,
         terminal_writeat ''Booting... watch stage updates below | serial mirror active'' 1 24])"

definition kernel_ui_boot_stage ::
  "nat \<Rightarrow> string \<Rightarrow> string \<Rightarrow> bool \<Rightarrow> 'a terminal_globals_scheme \<Rightarrow> 'a terminal_globals_scheme" where
  "kernel_ui_boot_stage slot stage detail ok s =
     (let row = TERMOB_BOOT_STAGE_ROW + slot
      in if row \<ge> 22 then s
         else steps
           [terminal_fill_rect 3 row (VGA_WIDTH - 6) 1 (terminal_make_color VGA_COLOR_LIGHT_GREY VGA_COLOR_BLACK),
            terminal_setcolor (if ok then VGA_COLOR_LIGHT_GREEN else VGA_COLOR_LIGHT_RED) VGA_COLOR_BLACK,
            terminal_writeat (if ok then ''[ok]'' else ''[!!]'') 4 row,
            terminal_setcolor VGA_COLOR_LIGHT_CYAN VGA_COLOR_BLACK,
            terminal_writeat stage 10 row,
            terminal_setcolor VGA_COLOR_DARK_GREY VGA_COLOR_BLACK,
            terminal_writeat '':'' 30 row,
            terminal_setcolor VGA_COLOR_LIGHT_GREY VGA_COLOR_BLACK,
            terminal_writeat detail 32 row] s)"

section \<open>The shell screen\<close>

definition kernel_ui_draw_header :: "'a terminal_globals_scheme \<Rightarrow> 'a terminal_globals_scheme" where
  "kernel_ui_draw_header =
     (let header_color = terminal_make_color VGA_COLOR_WHITE VGA_COLOR_BLUE;
          panel_color = terminal_make_color VGA_COLOR_LIGHT_GREY VGA_COLOR_BLACK;
          footer_color = terminal_make_color VGA_COLOR_LIGHT_GREY VGA_COLOR_DARK_GREY
      in steps
        [terminal_initialize VGA_COLOR_LIGHT_GREY VGA_COLOR_BLACK,
         terminal_draw_hline 0 CHR '' '' header_color,
         terminal_fill_rect 0 1 VGA_WIDTH 7 panel_color,
         terminal_draw_box 1 1 (VGA_WIDTH - 2) 6 (terminal_make_color VGA_COLOR_BLUE VGA_COLOR_BLACK),
         terminal_draw_hline 7 CHR '' '' footer_color,
         terminal_draw_hline 24 CHR '' '' footer_color,
         terminal_setcolor VGA_COLOR_WHITE VGA_COLOR_BLUE,
         terminal_writeat (TERMOB_KERNEL_NAME @ '' '' @ TERMOB_KERNEL_VERSION) 1 0,
         terminal_setcolor VGA_COLOR_LIGHT_CYAN VGA_COLOR_BLUE,
         terminal_writeat ''tty0 | runtime console'' 57 0,
         terminal_setcolor VGA_COLOR_LIGHT_CYAN VGA_COLOR_BLACK,
         terminal_writeat ''   .----------------------.'' 3 2,
         terminal_writeat ''   |   TERMOB CONSOLE     |'' 3 3,
         terminal_writeat ''   |   i386 / GRUB / VGA  |'' 3 4,
         terminal_writeat (''   '' @ [CHR 0x27] @ ''----------------------'' @ [CHR 0x27]) 3 5,
         terminal_setcolor VGA_COLOR_WHITE VGA_COLOR_BLACK,
         terminal_writeat (''profile : '' @ TERMOB_KERNEL_PROFILE @ '' '' @ TERMOB_KERNEL_ARCH) 32 2,
         terminal_writeat ''memory  : multiboot2  pmm  heap  paging'' 32 3,
         terminal_writeat ''io      : pci  virtio-blk  audio-pci  speaker  ps/2 mouse'' 32 4,
         terminal_writeat ''shell   : help  dashboard  status  sched'' 32 5,
         terminal_setcolor VGA_COLOR_LIGHT_GREY VGA_COLOR_DARK_GREY,
         terminal_writeat ''shell ready | try: help  dashboard  status  heapinfo  lspci'' 1 7])"

definition kernel_ui_append_char :: "char \<Rightarrow> string \<Rightarrow> string" where
  "kernel_ui_append_char c line = (if length line \<ge> VGA_WIDTH - 1 then line else line @ [c])"

definition kernel_ui_append_text :: "string \<Rightarrow> string \<Rightarrow> string" where
  "kernel_ui_append_text value line = fold kernel_ui_append_char (c_string value) line"

definition kernel_ui_append_u32 :: "u32 \<Rightarrow> string \<Rightarrow> string" where
  "kernel_ui_append_u32 value line =
     (if value = 0 then kernel_ui_append_char CHR ''0'' line
      else fold kernel_ui_append_char (rev (u32_digits 10 value)) line)"

definition kernel_ui_append_uptime :: "'a timer_globals_scheme \<Rightarrow> string \<Rightarrow> string" where
  "kernel_ui_append_uptime s line =
     (let ticks = timer_get_ticks s;
          seconds = ticks div timer_get_frequency_hz;
          milliseconds = ((ticks mod timer_get_frequency_hz) * 1000) div timer_get_frequency_hz
      in steps
        [kernel_ui_append_u32 seconds, kernel_ui_append_char CHR ''.'',
         \<lambda>l. if milliseconds < 100 then kernel_ui_append_char CHR ''0'' l else l,
         \<lambda>l. if milliseconds < 10 then kernel_ui_append_char CHR ''0'' l else l,
         kernel_ui_append_u32 milliseconds, kernel_ui_append_char CHR ''s''] line)"

definition kernel_ui_footer_line :: "'a mouse_globals_scheme \<Rightarrow> string" where
  "kernel_ui_footer_line s = steps
     [kernel_ui_append_text ''up '', kernel_ui_append_uptime s,
      kernel_ui_append_text '' | heap '', kernel_ui_append_u32 (heap_bytes_used s div 1024),
      kernel_ui_append_char CHR ''/'', kernel_ui_append_u32 (heap_bytes_total s div 1024),
      kernel_ui_append_text ''K | free '', kernel_ui_append_u32 (pmm_free_frames s),
      kernel_ui_append_text '' fr | pci '', kernel_ui_append_u32 (word_of_nat (pci_device_count s)),
      kernel_ui_append_text '' | snd '', kernel_ui_append_text (if sound_is_initialized s then ''on'' else ''off''),
      kernel_ui_append_text '' | mouse '', kernel_ui_append_text (if mouse_is_initialized s then ''on'' else ''off''),
      kernel_ui_append_text '' | tsk '', kernel_ui_append_u32 (scheduler_task_count s)] []"

definition kernel_ui_draw_footer :: "'a mouse_globals_scheme \<Rightarrow> 'a mouse_globals_scheme" where
  "kernel_ui_draw_footer s =
     (let bar_color = terminal_make_color VGA_COLOR_LIGHT_GREY VGA_COLOR_DARK_GREY;
          current_row = terminal_get_row s;
          current_column = terminal_get_column s
      in steps
        [terminal_draw_hline 24 CHR '' '' bar_color,
         terminal_setcolor VGA_COLOR_LIGHT_GREY VGA_COLOR_DARK_GREY,
         terminal_writeat (kernel_ui_footer_line s) 1 24,
         terminal_setcolor VGA_COLOR_LIGHT_GREY VGA_COLOR_BLACK,
         terminal_set_cursor current_column current_row] s)"

definition kernel_ui_refresh_footer_if_needed :: "'a kernel_globals_scheme \<Rightarrow> 'a kernel_globals_scheme" where
  "kernel_ui_refresh_footer_if_needed s =
     (let slot = timer_get_ticks s div 20
      in if slot = kernel_ui_last_monitor_slot s then s
         else kernel_ui_draw_footer (s\<lparr>kernel_ui_last_monitor_slot := slot\<rparr>))"

definition kernel_enter_shell :: "'a kernel_globals_scheme \<Rightarrow> 'a kernel_globals_scheme" where
  "kernel_enter_shell = steps
     [terminal_set_region TERMOB_SHELL_TOP TERMOB_SHELL_BOTTOM,
      terminal_set_cursor 1 TERMOB_SHELL_TOP,
      terminal_prompt,
      \<lambda>s. s\<lparr>kernel_ui_last_monitor_slot := - 1\<rparr>,
      kernel_ui_refresh_footer_if_needed]"

definition kernel_draw_ui :: "'a kernel_globals_scheme \<Rightarrow> 'a kernel_globals_scheme" where
  "kernel_draw_ui = steps
     [kernel_ui_draw_header,
      kernel_ui_draw_footer,
      terminal_set_region TERMOB_SHELL_TOP TERMOB_SHELL_BOTTOM,
      terminal_set_cursor 1 TERMOB_SHELL_TOP,
      terminal_prompt,
      \<lambda>s. s\<lparr>kernel_ui_last_monitor_slot := - 1\<rparr>,
      kernel_ui_refresh_footer_if_needed]"

end
