(* ===== verification/Keyboard_Edit.thy ===== *)
theory Keyboard_Edit
  imports Kernel_Ui
begin

unbundle bit_operations_syntax

text \<open>
  The helpers of the shell (\<^verbatim>\<open>drivers/keyboard.c\<close>): reading numbers from a command line, panels, and
  the line editor. A C string is the list of its characters without the terminator, and a pointer
  into it the rest from there on; the input line and the clipboard are arrays, kept whole.
\<close>

abbreviation (input) KEYBOARD_MAX_INPUT :: nat where "KEYBOARD_MAX_INPUT \<equiv> 256"
abbreviation (input) KEYBOARD_SCANCODE_QUEUE_SIZE :: u32 where "KEYBOARD_SCANCODE_QUEUE_SIZE \<equiv> 128"
abbreviation (input) KEYBOARD_HELP_BOX_WIDTH :: nat where "KEYBOARD_HELP_BOX_WIDTH \<equiv> 78"
abbreviation (input) KEYBOARD_HELP_LABEL_WIDTH :: nat where "KEYBOARD_HELP_LABEL_WIDTH \<equiv> 16"

record keyboard_globals = kernel_globals +
  keyboard_input_buffer :: string
  keyboard_clipboard_buffer :: string
  keyboard_buffer_index :: nat
  keyboard_cursor_index :: nat
  keyboard_clipboard_length :: nat
  keyboard_last_pressed_scancode :: u8
  keyboard_control_down :: bool
  keyboard_left_shift_down :: bool
  keyboard_right_shift_down :: bool
  keyboard_caps_lock_on :: bool
  keyboard_extended_prefix_pending :: bool
  keyboard_scancode_queue :: "u8 list"
  keyboard_scancode_head :: u32
  keyboard_scancode_tail :: u32
  keyboard_scancode_dropped :: u32
  keyboard_prompt_row :: nat
  keyboard_prompt_column :: nat

definition keyboard_inb :: "hardware \<Rightarrow> u16 \<Rightarrow> 'a keyboard_globals_scheme \<Rightarrow> u8 \<times> 'a keyboard_globals_scheme" where
  "keyboard_inb hw port = inb hw port"

definition keyboard_outb :: "u16 \<Rightarrow> u8 \<Rightarrow> 'a keyboard_globals_scheme \<Rightarrow> 'a keyboard_globals_scheme" where
  "keyboard_outb port value = outb port value"

section \<open>Command lines\<close>

fun keyboard_streq :: "string \<Rightarrow> string \<Rightarrow> bool" where
  "keyboard_streq (a # as) (b # bs) = (if a \<noteq> b then False else keyboard_streq as bs)"
| "keyboard_streq [] [] = True"
| "keyboard_streq _ _ = False"

fun keyboard_startswith :: "string \<Rightarrow> string \<Rightarrow> bool" where
  "keyboard_startswith s [] = True"
| "keyboard_startswith [] (p # ps) = False"
| "keyboard_startswith (c # cs) (p # ps) = (if c \<noteq> p then False else keyboard_startswith cs ps)"

definition keyboard_is_space :: "char \<Rightarrow> bool" where
  "keyboard_is_space c = (c = CHR '' '' \<or> c = CHR 0x09)"

fun keyboard_skip_spaces :: "string \<Rightarrow> string" where
  "keyboard_skip_spaces [] = []"
| "keyboard_skip_spaces (c # cs) = (if keyboard_is_space c then keyboard_skip_spaces cs else c # cs)"

text \<open>Positions in a string that move backwards.\<close>

fun keyboard_skip_spaces_backwards :: "string \<Rightarrow> nat \<Rightarrow> nat" where
  "keyboard_skip_spaces_backwards start 0 = 0"
| "keyboard_skip_spaces_backwards start (Suc e) =
     (if keyboard_is_space (start ! e) then keyboard_skip_spaces_backwards start e else Suc e)"

fun keyboard_find_token_start_backwards :: "string \<Rightarrow> nat \<Rightarrow> nat" where
  "keyboard_find_token_start_backwards start 0 = 0"
| "keyboard_find_token_start_backwards start (Suc e) =
     (if \<not> keyboard_is_space (start ! e) then keyboard_find_token_start_backwards start e else Suc e)"

definition keyboard_hex_value :: "char \<Rightarrow> nat option" where
  "keyboard_hex_value c =
     (let v = of_char c :: nat
      in if 48 \<le> v \<and> v \<le> 57 then Some (v - 48)
         else if 97 \<le> v \<and> v \<le> 102 then Some (10 + (v - 97))
         else if 65 \<le> v \<and> v \<le> 70 then Some (10 + (v - 65))
         else None)"

fun keyboard_parse_digits :: "nat \<Rightarrow> string \<Rightarrow> u32 \<Rightarrow> bool \<Rightarrow> (u32 \<times> string) option" where
  "keyboard_parse_digits base [] value digit_seen = (if \<not> digit_seen then None else Some (value, []))"
| "keyboard_parse_digits base (c # cs) value digit_seen =
     (if keyboard_is_space c then if \<not> digit_seen then None else Some (value, c # cs)
      else case keyboard_hex_value c of
             None \<Rightarrow> None
           | Some digit \<Rightarrow>
               if digit \<ge> base then None
               else keyboard_parse_digits base cs (value * word_of_nat base + word_of_nat digit) True)"

definition keyboard_parse_u32_token :: "string \<Rightarrow> (u32 \<times> string) option" where
  "keyboard_parse_u32_token txt =
     (case keyboard_skip_spaces txt of
        [] \<Rightarrow> None
      | c # cs \<Rightarrow>
          if c = CHR ''0'' \<and> cs \<noteq> [] \<and> (hd cs = CHR ''x'' \<or> hd cs = CHR ''X'')
          then keyboard_parse_digits 16 (tl cs) 0 False
          else keyboard_parse_digits 10 (c # cs) 0 False)"

definition keyboard_strlen :: "string \<Rightarrow> nat" where
  "keyboard_strlen txt = kstrlen txt"

definition keyboard_parse_u32_span :: "string \<Rightarrow> nat \<Rightarrow> nat \<Rightarrow> u32 option" where
  "keyboard_parse_u32_span txt start e =
     (if e \<le> start then None
      else if e - start \<ge> 32 then None
      else case keyboard_parse_u32_token (take (e - start) (drop start txt)) of
             None \<Rightarrow> None
           | Some (value, next_text) \<Rightarrow> if keyboard_skip_spaces next_text = [] then Some value else None)"

section \<open>Lines in a buffer\<close>

definition keyboard_buffer_append_char :: "nat \<Rightarrow> char \<Rightarrow> string \<Rightarrow> string" where
  "keyboard_buffer_append_char capacity c line = (if length line + 1 \<ge> capacity then line else line @ [c])"

definition keyboard_buffer_append_text :: "nat \<Rightarrow> string \<Rightarrow> string \<Rightarrow> string" where
  "keyboard_buffer_append_text capacity txt line = fold (keyboard_buffer_append_char capacity) (c_string txt) line"

definition keyboard_buffer_append_u32 :: "nat \<Rightarrow> u32 \<Rightarrow> string \<Rightarrow> string" where
  "keyboard_buffer_append_u32 capacity value line =
     (if value = 0 then keyboard_buffer_append_char capacity CHR ''0'' line
      else fold (keyboard_buffer_append_char capacity) (rev (u32_digits 10 value)) line)"

definition keyboard_buffer_append_hex32 :: "nat \<Rightarrow> u32 \<Rightarrow> string \<Rightarrow> string" where
  "keyboard_buffer_append_hex32 capacity value line =
     fold (\<lambda>shift. keyboard_buffer_append_char capacity (hex_digits ! unat (drop_bit shift value AND 0x0F)))
       [28, 24, 20, 16, 12, 8, 4, 0] (keyboard_buffer_append_text capacity ''0x'' line)"

definition keyboard_buffer_append_uptime :: "nat \<Rightarrow> 'a timer_globals_scheme \<Rightarrow> string \<Rightarrow> string" where
  "keyboard_buffer_append_uptime capacity s line =
     (let ticks = timer_get_ticks s;
          frequency = timer_get_frequency_hz;
          seconds = ticks div frequency;
          milliseconds = ((ticks mod frequency) * 1000) div frequency
      in steps
        [keyboard_buffer_append_u32 capacity seconds, keyboard_buffer_append_char capacity CHR ''.'',
         \<lambda>l. if milliseconds < 100 then keyboard_buffer_append_char capacity CHR ''0'' l else l,
         \<lambda>l. if milliseconds < 10 then keyboard_buffer_append_char capacity CHR ''0'' l else l,
         keyboard_buffer_append_u32 capacity milliseconds, keyboard_buffer_append_text capacity '' s''] line)"

section \<open>Panels\<close>

primrec keyboard_write_spaces :: "nat \<Rightarrow> 'a terminal_globals_scheme \<Rightarrow> 'a terminal_globals_scheme" where
  "keyboard_write_spaces 0 s = s"
| "keyboard_write_spaces (Suc count) s = keyboard_write_spaces count (terminal_putchar CHR '' '' s)"

definition keyboard_panel_border :: "'a terminal_globals_scheme \<Rightarrow> 'a terminal_globals_scheme" where
  "keyboard_panel_border = steps
     [terminal_setcolor VGA_COLOR_DARK_GREY VGA_COLOR_BLACK,
      terminal_putchar CHR ''+'',
      fold terminal_putchar (replicate (KEYBOARD_HELP_BOX_WIDTH - 2) CHR ''-''),
      terminal_writeline ''+'']"

definition keyboard_panel_title_row :: "string \<Rightarrow> 'a terminal_globals_scheme \<Rightarrow> 'a terminal_globals_scheme" where
  "keyboard_panel_title_row title =
     (let inner_width = KEYBOARD_HELP_BOX_WIDTH - 2;
          content_length = min (keyboard_strlen title) inner_width;
          padding_left = (inner_width - content_length) div 2;
          padding_right = inner_width - content_length - padding_left
      in steps
        [terminal_setcolor VGA_COLOR_DARK_GREY VGA_COLOR_BLACK,
         terminal_putchar CHR ''|'',
         keyboard_write_spaces padding_left,
         terminal_setcolor VGA_COLOR_WHITE VGA_COLOR_BLACK,
         terminal_write title,
         terminal_setcolor VGA_COLOR_DARK_GREY VGA_COLOR_BLACK,
         keyboard_write_spaces padding_right,
         terminal_writeline ''|''])"

definition keyboard_write_limited_text ::
  "string \<Rightarrow> nat \<Rightarrow> 'a terminal_globals_scheme \<Rightarrow> nat \<times> 'a terminal_globals_scheme" where
  "keyboard_write_limited_text txt max_chars s =
     (let shown = take max_chars (c_string txt) in (length shown, fold terminal_putchar shown s))"

definition keyboard_panel_row :: "string \<Rightarrow> string \<Rightarrow> 'a terminal_globals_scheme \<Rightarrow> 'a terminal_globals_scheme" where
  "keyboard_panel_row label txt s =
     (let label_length = keyboard_strlen label;
          s = steps
        [terminal_setcolor VGA_COLOR_DARK_GREY VGA_COLOR_BLACK,
         terminal_write ''| '',
         \<lambda>s. if label_length \<noteq> 0 then terminal_write label (terminal_setcolor VGA_COLOR_LIGHT_CYAN VGA_COLOR_BLACK s) else s,
         \<lambda>s. if label_length < KEYBOARD_HELP_LABEL_WIDTH
             then keyboard_write_spaces (KEYBOARD_HELP_LABEL_WIDTH - label_length)
                    (terminal_setcolor VGA_COLOR_DARK_GREY VGA_COLOR_BLACK s)
             else s,
         terminal_setcolor VGA_COLOR_DARK_GREY VGA_COLOR_BLACK,
         terminal_write '' | '',
         terminal_setcolor VGA_COLOR_LIGHT_GREY VGA_COLOR_BLACK] s;
          text_width = KEYBOARD_HELP_BOX_WIDTH - (2 + KEYBOARD_HELP_LABEL_WIDTH + 3 + 1);
          (used_width, s) = keyboard_write_limited_text txt text_width s;
          used_width = used_width + (2 + KEYBOARD_HELP_LABEL_WIDTH + 3)
      in steps
        [\<lambda>s. if used_width < KEYBOARD_HELP_BOX_WIDTH - 1
             then keyboard_write_spaces ((KEYBOARD_HELP_BOX_WIDTH - 1) - used_width)
                    (terminal_setcolor VGA_COLOR_DARK_GREY VGA_COLOR_BLACK s)
             else s,
         terminal_setcolor VGA_COLOR_DARK_GREY VGA_COLOR_BLACK,
         terminal_writeline ''|''] s)"

definition keyboard_panel_blank_row :: "'a terminal_globals_scheme \<Rightarrow> 'a terminal_globals_scheme" where
  "keyboard_panel_blank_row = keyboard_panel_row [] []"

section \<open>The prompt\<close>

definition keyboard_shell_capture_prompt_anchor :: "'a keyboard_globals_scheme \<Rightarrow> 'a keyboard_globals_scheme" where
  "keyboard_shell_capture_prompt_anchor s =
     s\<lparr>keyboard_prompt_row := terminal_get_row s, keyboard_prompt_column := terminal_get_column s\<rparr>"

definition keyboard_shell_input_capacity :: "'a keyboard_globals_scheme \<Rightarrow> nat" where
  "keyboard_shell_input_capacity s =
     (if keyboard_prompt_column s \<ge> VGA_WIDTH - 1 then 0 else (VGA_WIDTH - keyboard_prompt_column s) - 1)"

definition keyboard_shell_redraw_input :: "'a keyboard_globals_scheme \<Rightarrow> 'a keyboard_globals_scheme" where
  "keyboard_shell_redraw_input s =
     (let capacity = keyboard_shell_input_capacity s
      in steps
        [terminal_setcolor VGA_COLOR_LIGHT_GREY VGA_COLOR_BLACK,
         terminal_fill_rect (keyboard_prompt_column s) (keyboard_prompt_row s) capacity 1
           (terminal_make_color VGA_COLOR_LIGHT_GREY VGA_COLOR_BLACK),
         terminal_writeat (keyboard_input_buffer s) (keyboard_prompt_column s) (keyboard_prompt_row s),
         terminal_set_cursor (keyboard_prompt_column s + keyboard_cursor_index s) (keyboard_prompt_row s)] s)"

definition keyboard_shell_prompt_fresh :: "'a keyboard_globals_scheme \<Rightarrow> 'a keyboard_globals_scheme" where
  "keyboard_shell_prompt_fresh s = keyboard_shell_capture_prompt_anchor (terminal_prompt s)"

definition keyboard_shell_print_usage :: "string \<Rightarrow> 'a terminal_globals_scheme \<Rightarrow> 'a terminal_globals_scheme" where
  "keyboard_shell_print_usage usage = steps
     [terminal_setcolor VGA_COLOR_LIGHT_RED VGA_COLOR_BLACK, terminal_write ''usage'',
      terminal_setcolor VGA_COLOR_DARK_GREY VGA_COLOR_BLACK, terminal_write '' : '',
      terminal_setcolor VGA_COLOR_LIGHT_GREY VGA_COLOR_BLACK, terminal_writeline usage]"

definition keyboard_shell_usage_and_prompt :: "string \<Rightarrow> 'a keyboard_globals_scheme \<Rightarrow> 'a keyboard_globals_scheme" where
  "keyboard_shell_usage_and_prompt usage s = keyboard_shell_prompt_fresh (keyboard_shell_print_usage usage s)"

definition keyboard_shell_print_error :: "string \<Rightarrow> 'a terminal_globals_scheme \<Rightarrow> 'a terminal_globals_scheme" where
  "keyboard_shell_print_error message = steps
     [terminal_setcolor VGA_COLOR_LIGHT_RED VGA_COLOR_BLACK, terminal_write ''error'',
      terminal_setcolor VGA_COLOR_DARK_GREY VGA_COLOR_BLACK, terminal_write '' : '',
      terminal_setcolor VGA_COLOR_LIGHT_GREY VGA_COLOR_BLACK, terminal_writeline message]"

definition keyboard_shell_print_unknown_command :: "string \<Rightarrow> 'a terminal_globals_scheme \<Rightarrow> 'a terminal_globals_scheme" where
  "keyboard_shell_print_unknown_command command = steps
     [terminal_setcolor VGA_COLOR_LIGHT_RED VGA_COLOR_BLACK, terminal_write ''error'',
      terminal_setcolor VGA_COLOR_DARK_GREY VGA_COLOR_BLACK, terminal_write '' : '',
      terminal_setcolor VGA_COLOR_LIGHT_GREY VGA_COLOR_BLACK, terminal_write ''unknown command'',
      \<lambda>s. if keyboard_strlen command \<noteq> 0
          then steps [terminal_write ('' '' @ [CHR 0x27]), terminal_write command, terminal_write [CHR 0x27]] s else s,
      terminal_putchar NEWLINE,
      terminal_setcolor VGA_COLOR_DARK_GREY VGA_COLOR_BLACK, terminal_write ''hint'',
      terminal_setcolor VGA_COLOR_DARK_GREY VGA_COLOR_BLACK, terminal_write ''  : '',
      terminal_setcolor VGA_COLOR_LIGHT_GREY VGA_COLOR_BLACK, terminal_writeline ''type help to list commands'']"

section \<open>Keys\<close>

definition keyboard_scancode_table :: "char list" where
  "keyboard_scancode_table =
     [NUL, CHR 0x1B] @ ''1234567890-='' @ [CHR 0x08, CHR 0x09] @ ''qwertyuiop[]'' @ [NEWLINE, NUL] @
     ''asdfghjkl;'' @ [CHR 0x27, CHR 0x60, NUL, CHR 0x5C] @ ''zxcvbnm,./'' @ [NUL] @ ''*'' @ [NUL] @ '' '' @
     replicate 70 NUL"

definition keyboard_shift_scancode_table :: "char list" where
  "keyboard_shift_scancode_table =
     [NUL, CHR 0x1B] @ ''!'' @ [CHR 0x22] @ ''#$%&/()=?^'' @ [CHR 0x08, CHR 0x09] @ ''qwertyuiop{}'' @ [NEWLINE, NUL] @
     ''asdfghjkl:@~'' @ [NUL] @ ''|zxcvbnm;:?'' @ [NUL] @ ''*'' @ [NUL] @ '' '' @
     replicate 70 NUL"

definition keyboard_shift_is_active :: "'a keyboard_globals_scheme \<Rightarrow> bool" where
  "keyboard_shift_is_active s = (keyboard_left_shift_down s \<or> keyboard_right_shift_down s)"

definition keyboard_is_alpha :: "char \<Rightarrow> bool" where
  "keyboard_is_alpha c = (97 \<le> (of_char c :: nat) \<and> (of_char c :: nat) \<le> 122)"

definition keyboard_uppercase_char :: "char \<Rightarrow> char" where
  "keyboard_uppercase_char c = (if \<not> keyboard_is_alpha c then c else char_of ((of_char c :: nat) - 32))"

definition keyboard_translate_scancode :: "u8 \<Rightarrow> 'a keyboard_globals_scheme \<Rightarrow> char" where
  "keyboard_translate_scancode scancode s =
     (if scancode \<ge> 128 then NUL
      else
        let shift_active = keyboard_shift_is_active s;
            c = (if shift_active then keyboard_shift_scancode_table ! unat scancode
                 else keyboard_scancode_table ! unat scancode)
        in if c = NUL then NUL
           else if keyboard_is_alpha c
           then if keyboard_caps_lock_on s \<noteq> shift_active then keyboard_uppercase_char c else c
           else c)"

definition keyboard_memory_type_name :: "u32 \<Rightarrow> string" where
  "keyboard_memory_type_name type =
     (if type = 1 then ''available'' else if type = 2 then ''reserved'' else if type = 3 then ''acpi''
      else if type = 4 then ''nvs'' else if type = 5 then ''badram'' else ''unknown'')"

section \<open>The line editor\<close>

definition keyboard_copy_input_to_clipboard :: "'a keyboard_globals_scheme \<Rightarrow> 'a keyboard_globals_scheme" where
  "keyboard_copy_input_to_clipboard s =
     (let s = s\<lparr>keyboard_clipboard_length := keyboard_buffer_index s\<rparr>;
          clipboard = fold (\<lambda>i b. b[i := keyboard_input_buffer s ! i]) [0..<keyboard_buffer_index s]
                        (keyboard_clipboard_buffer s)
      in s\<lparr>keyboard_clipboard_buffer := clipboard[keyboard_clipboard_length s := NUL]\<rparr>)"

definition keyboard_reset_input_buffer :: "'a keyboard_globals_scheme \<Rightarrow> 'a keyboard_globals_scheme" where
  "keyboard_reset_input_buffer s =
     s\<lparr>keyboard_buffer_index := 0, keyboard_cursor_index := 0,
       keyboard_input_buffer := (keyboard_input_buffer s)[0 := NUL]\<rparr>"

definition keyboard_clear_input_line :: "'a keyboard_globals_scheme \<Rightarrow> 'a keyboard_globals_scheme" where
  "keyboard_clear_input_line s = keyboard_shell_redraw_input (keyboard_reset_input_buffer s)"

definition keyboard_move_cursor_left :: "'a keyboard_globals_scheme \<Rightarrow> 'a keyboard_globals_scheme" where
  "keyboard_move_cursor_left s =
     (if keyboard_cursor_index s > 0
      then keyboard_shell_redraw_input (s\<lparr>keyboard_cursor_index := keyboard_cursor_index s - 1\<rparr>) else s)"

definition keyboard_move_cursor_right :: "'a keyboard_globals_scheme \<Rightarrow> 'a keyboard_globals_scheme" where
  "keyboard_move_cursor_right s =
     (if keyboard_cursor_index s < keyboard_buffer_index s
      then keyboard_shell_redraw_input (s\<lparr>keyboard_cursor_index := keyboard_cursor_index s + 1\<rparr>) else s)"

text \<open>The loops that close and open a gap in the line.\<close>

definition shift_left :: "nat \<Rightarrow> nat \<Rightarrow> string \<Rightarrow> string" where
  "shift_left from till b = fold (\<lambda>index b. b[index := b ! (index + 1)]) [from..<till] b"

definition shift_right :: "nat \<Rightarrow> nat \<Rightarrow> string \<Rightarrow> string" where
  "shift_right cursor till b = fold (\<lambda>index b. b[index := b ! (index - 1)]) (rev [Suc cursor..<Suc till]) b"

definition keyboard_delete_character_before_cursor :: "'a keyboard_globals_scheme \<Rightarrow> 'a keyboard_globals_scheme" where
  "keyboard_delete_character_before_cursor s =
     (if keyboard_cursor_index s = 0 \<or> keyboard_buffer_index s = 0 then s
      else keyboard_shell_redraw_input
        (s\<lparr>keyboard_input_buffer := shift_left (keyboard_cursor_index s - 1) (keyboard_buffer_index s) (keyboard_input_buffer s),
           keyboard_cursor_index := keyboard_cursor_index s - 1, keyboard_buffer_index := keyboard_buffer_index s - 1\<rparr>))"

definition keyboard_delete_character_at_cursor :: "'a keyboard_globals_scheme \<Rightarrow> 'a keyboard_globals_scheme" where
  "keyboard_delete_character_at_cursor s =
     (if keyboard_cursor_index s \<ge> keyboard_buffer_index s \<or> keyboard_buffer_index s = 0 then s
      else keyboard_shell_redraw_input
        (s\<lparr>keyboard_input_buffer := shift_left (keyboard_cursor_index s) (keyboard_buffer_index s) (keyboard_input_buffer s),
           keyboard_buffer_index := keyboard_buffer_index s - 1\<rparr>))"

definition keyboard_insert_character :: "char \<Rightarrow> 'a keyboard_globals_scheme \<Rightarrow> 'a keyboard_globals_scheme" where
  "keyboard_insert_character c s =
     (if keyboard_buffer_index s \<ge> KEYBOARD_MAX_INPUT - 1 then s
      else if keyboard_buffer_index s \<ge> keyboard_shell_input_capacity s then s
      else
        let b = shift_right (keyboard_cursor_index s) (keyboard_buffer_index s) (keyboard_input_buffer s);
            b = b[keyboard_cursor_index s := c]
        in keyboard_shell_redraw_input
             (s\<lparr>keyboard_buffer_index := keyboard_buffer_index s + 1, keyboard_cursor_index := keyboard_cursor_index s + 1,
                keyboard_input_buffer := b[keyboard_buffer_index s + 1 := NUL]\<rparr>))"

definition keyboard_paste_clipboard :: "'a keyboard_globals_scheme \<Rightarrow> 'a keyboard_globals_scheme" where
  "keyboard_paste_clipboard s =
     fold (\<lambda>i s. keyboard_insert_character (keyboard_clipboard_buffer s ! i) s) [0..<keyboard_clipboard_length s] s"

definition keyboard_log_event :: "string \<Rightarrow> 'a log_globals_scheme \<Rightarrow> 'a log_globals_scheme" where
  "keyboard_log_event message s = serial_writeline message (klog_writeline message s)"

definition keyboard_write_u32 :: "u32 \<Rightarrow> 'a terminal_globals_scheme \<Rightarrow> 'a terminal_globals_scheme" where
  "keyboard_write_u32 value s = console_write_u32 value s"

definition keyboard_write_hex32 :: "u32 \<Rightarrow> 'a terminal_globals_scheme \<Rightarrow> 'a terminal_globals_scheme" where
  "keyboard_write_hex32 value s =
     fold (\<lambda>shift. terminal_putchar (hex_digits ! unat (drop_bit shift value AND 0x0F)))
       [28, 24, 20, 16, 12, 8, 4, 0] (terminal_write ''0x'' s)"

definition keyboard_write_hex8 :: "u8 \<Rightarrow> 'a terminal_globals_scheme \<Rightarrow> 'a terminal_globals_scheme" where
  "keyboard_write_hex8 value s = console_write_hex8 value s"

lemma scancode_tables_size: "length keyboard_scancode_table = 128" "length keyboard_shift_scancode_table = 128"
  by (simp_all add: keyboard_scancode_table_def keyboard_shift_scancode_table_def)

end
