(* ===== verification/Keyboard_Disk.thy ===== *)
theory Keyboard_Disk
  imports Keyboard_Edit Fat_File
begin

unbundle bit_operations_syntax

text \<open>
  The shell's commands that inspect disks (\<^verbatim>\<open>drivers/keyboard.c\<close>): previews of sectors, checks of boot
  sectors, its own reader of FAT entries, and the commands on a mounted file system.
\<close>

abbreviation (input) KEYBOARD_BLOCK_PREVIEW_MAX_SECTORS :: u32 where "KEYBOARD_BLOCK_PREVIEW_MAX_SECTORS \<equiv> 4"
abbreviation (input) KEYBOARD_BLOCK_SCAN_MAX_SECTORS :: u32 where "KEYBOARD_BLOCK_SCAN_MAX_SECTORS \<equiv> 256"
abbreviation (input) KEYBOARD_FAT_CAT_CHUNK_BYTES :: nat where "KEYBOARD_FAT_CAT_CHUNK_BYTES \<equiv> 256"
abbreviation (input) KEYBOARD_FAT_CAT_MAX_BYTES :: nat where "KEYBOARD_FAT_CAT_MAX_BYTES \<equiv> 4096"
abbreviation (input) KEYBOARD_FAT_READ_MAX_BYTES :: u32 where "KEYBOARD_FAT_READ_MAX_BYTES \<equiv> 1024"

text \<open>A label, a number and the end of the line, or a text after the number.\<close>

definition number_line :: "string \<Rightarrow> u32 \<Rightarrow> 'a terminal_globals_scheme \<Rightarrow> 'a terminal_globals_scheme" where
  "number_line label value = steps [terminal_write label, keyboard_write_u32 value, terminal_putchar NEWLINE]"

definition number_unit_line :: "string \<Rightarrow> u32 \<Rightarrow> string \<Rightarrow> 'a terminal_globals_scheme \<Rightarrow> 'a terminal_globals_scheme" where
  "number_unit_line label value unit_text = steps [terminal_write label, keyboard_write_u32 value, terminal_writeline unit_text]"

definition text_line :: "string \<Rightarrow> string \<Rightarrow> 'a terminal_globals_scheme \<Rightarrow> 'a terminal_globals_scheme" where
  "text_line label txt = steps [terminal_write label, terminal_writeline txt]"

section \<open>Bytes of a sector\<close>

definition keyboard_read_le16 :: "u8 list \<Rightarrow> nat \<Rightarrow> u16" where
  "keyboard_read_le16 buffer offset = le16 (byte_at buffer offset) (byte_at buffer (offset + 1))"

definition keyboard_read_le32 :: "u8 list \<Rightarrow> nat \<Rightarrow> u32" where
  "keyboard_read_le32 buffer offset =
     ucast (byte_at buffer offset) OR push_bit 8 (ucast (byte_at buffer (offset + 1))) OR
     push_bit 16 (ucast (byte_at buffer (offset + 2))) OR push_bit 24 (ucast (byte_at buffer (offset + 3)))"

definition keyboard_is_power_of_two_u32 :: "u32 \<Rightarrow> bool" where
  "keyboard_is_power_of_two_u32 value = (value \<noteq> 0 \<and> value AND (value - 1) = 0)"

definition keyboard_bytes_equal :: "u8 list \<Rightarrow> nat \<Rightarrow> string \<Rightarrow> nat \<Rightarrow> bool" where
  "keyboard_bytes_equal buffer offset txt text_length =
     (\<forall>index\<in>set [0..<text_length]. byte_at buffer (offset + index) = of_char (txt ! index))"

definition has_boot_magic :: "u8 list \<Rightarrow> bool" where
  "has_boot_magic sector = (byte_at sector 510 = 0x55 \<and> byte_at sector 511 = 0xAA)"

definition keyboard_detect_sector_signature :: "u8 list \<Rightarrow> string option" where
  "keyboard_detect_sector_signature sector =
     (if byte_at sector 0 = 0x7F \<and> byte_at sector 1 = of_char CHR ''E'' \<and> byte_at sector 2 = of_char CHR ''L'' \<and>
         byte_at sector 3 = of_char CHR ''F'' then Some ''ELF executable''
      else if keyboard_bytes_equal sector 54 ''FAT12   '' 8 then Some ''FAT12 boot sector''
      else if keyboard_bytes_equal sector 54 ''FAT16   '' 8 then Some ''FAT16 boot sector''
      else if keyboard_bytes_equal sector 82 ''FAT32   '' 8 then Some ''FAT32 boot sector''
      else if keyboard_bytes_equal sector 3 ''NTFS    '' 8 then Some ''NTFS boot sector''
      else None)"

section \<open>The shell's view of a FAT boot sector\<close>

datatype keyboard_fat_type = KEYBOARD_FAT_NONE | KEYBOARD_FAT_12 | KEYBOARD_FAT_16 | KEYBOARD_FAT_32

record keyboard_fat_info =
  fi_type :: keyboard_fat_type
  fi_bytes_per_sector :: u32
  fi_sectors_per_cluster :: u32
  fi_reserved_sectors :: u32
  fi_fat_count :: u32
  fi_root_entry_count :: u32
  fi_total_sectors :: u32
  fi_sectors_per_fat :: u32
  fi_root_dir_sectors :: u32
  fi_fat_start_sector :: u32
  fi_root_dir_start_sector :: u32
  fi_data_start_sector :: u32
  fi_data_sectors :: u32
  fi_cluster_count :: u32
  fi_root_cluster :: u32
  fi_fsinfo_sector :: u32
  fi_backup_boot_sector :: u32
  fi_boot_magic_present :: bool

fun keyboard_fat_type_name :: "keyboard_fat_type \<Rightarrow> string" where
  "keyboard_fat_type_name KEYBOARD_FAT_12 = ''FAT12''"
| "keyboard_fat_type_name KEYBOARD_FAT_16 = ''FAT16''"
| "keyboard_fat_type_name KEYBOARD_FAT_32 = ''FAT32''"
| "keyboard_fat_type_name KEYBOARD_FAT_NONE = ''unknown''"

text \<open>The type, from the labels in the sector or from the number of clusters.\<close>

definition keyboard_fat_type_of :: "u8 list \<Rightarrow> u32 \<Rightarrow> u32 \<Rightarrow> u32 \<Rightarrow> u32 \<Rightarrow> keyboard_fat_type" where
  "keyboard_fat_type_of sector root_entry_count sectors_per_fat16 sectors_per_fat32 cluster_count =
     (if keyboard_bytes_equal sector 82 ''FAT32   '' 8 \<or>
         root_entry_count = 0 \<and> sectors_per_fat16 = 0 \<and> sectors_per_fat32 \<noteq> 0 then KEYBOARD_FAT_32
      else if keyboard_bytes_equal sector 54 ''FAT12   '' 8 then KEYBOARD_FAT_12
      else if keyboard_bytes_equal sector 54 ''FAT16   '' 8 then KEYBOARD_FAT_16
      else if cluster_count \<noteq> 0
      then if cluster_count < 4085 then KEYBOARD_FAT_12
           else if cluster_count < 65525 then KEYBOARD_FAT_16 else KEYBOARD_FAT_32
      else KEYBOARD_FAT_NONE)"

definition keyboard_parse_fat_info :: "u8 list \<Rightarrow> keyboard_fat_info option" where
  "keyboard_parse_fat_info sector =
     (let bytes_per_sector = ucast (keyboard_read_le16 sector 11);
          sectors_per_cluster = ucast (byte_at sector 13);
          reserved_sectors = ucast (keyboard_read_le16 sector 14);
          fat_count = ucast (byte_at sector 16);
          root_entry_count = ucast (keyboard_read_le16 sector 17);
          total_sectors16 = ucast (keyboard_read_le16 sector 19);
          total_sectors = (if total_sectors16 = 0 then keyboard_read_le32 sector 32 else total_sectors16);
          sectors_per_fat16 = ucast (keyboard_read_le16 sector 22);
          sectors_per_fat32 = keyboard_read_le32 sector 36;
          sectors_per_fat = (if sectors_per_fat16 \<noteq> 0 then sectors_per_fat16 else sectors_per_fat32)
      in if bytes_per_sector = 0 then None
         else
           let root_dir_sectors = (root_entry_count * 32 + (bytes_per_sector - 1)) div bytes_per_sector;
               root_dir_start_sector = reserved_sectors + fat_count * sectors_per_fat;
               data_start_sector = root_dir_start_sector + root_dir_sectors;
               data_sectors = (if total_sectors > data_start_sector then total_sectors - data_start_sector else 0);
               cluster_count = (if sectors_per_cluster \<noteq> 0 then data_sectors div sectors_per_cluster else 0);
               type = keyboard_fat_type_of sector root_entry_count sectors_per_fat16 sectors_per_fat32 cluster_count
           in if type = KEYBOARD_FAT_NONE then None
              else Some
                \<lparr>fi_type = type, fi_bytes_per_sector = bytes_per_sector, fi_sectors_per_cluster = sectors_per_cluster,
                 fi_reserved_sectors = reserved_sectors, fi_fat_count = fat_count, fi_root_entry_count = root_entry_count,
                 fi_total_sectors = total_sectors, fi_sectors_per_fat = sectors_per_fat,
                 fi_root_dir_sectors = root_dir_sectors, fi_fat_start_sector = reserved_sectors,
                 fi_root_dir_start_sector = root_dir_start_sector, fi_data_start_sector = data_start_sector,
                 fi_data_sectors = data_sectors, fi_cluster_count = cluster_count,
                 fi_root_cluster = keyboard_read_le32 sector 44,
                 fi_fsinfo_sector = ucast (keyboard_read_le16 sector 48),
                 fi_backup_boot_sector = ucast (keyboard_read_le16 sector 50),
                 fi_boot_magic_present = has_boot_magic sector\<rparr>)"

definition keyboard_read_block_sector_512 ::
  "u32 \<Rightarrow> u32 \<Rightarrow> string \<Rightarrow> 'a block_globals_scheme \<Rightarrow> u8 list option \<times> 'a block_globals_scheme" where
  "keyboard_read_block_sector_512 device_index lba command_name s =
     (case block_device_at (unat device_index) s of
        None \<Rightarrow> (None, terminal_writeline ''Block device not found'' s)
      | Some block_device \<Rightarrow>
          if bd_sector_size_bytes block_device \<noteq> 512
          then (None, terminal_writeline command_name (terminal_write ''Only 512-byte sectors are supported by '' s))
          else if bd_sector_count block_device \<noteq> 0 \<and> lba \<ge> bd_sector_count block_device
          then (None, terminal_writeline ''Requested LBA is outside the device range'' s)
          else case block_read_device (unat device_index) lba 1 (Some (replicate 512 0)) s of
                 None \<Rightarrow> (None, terminal_writeline ''Block read failed'' s)
               | Some sector \<Rightarrow> (Some sector, s))"

section \<open>Previews\<close>

definition printable_or_dot :: "u8 \<Rightarrow> char" where
  "printable_or_dot c = (if c \<ge> 32 \<and> c \<le> 126 then char_of (unat c) else CHR ''.'')"

text \<open>One line of a dump: the offset, sixteen bytes in hexadecimal, the same bytes as characters.\<close>

definition dump_line :: "u8 list \<Rightarrow> nat \<Rightarrow> u32 \<Rightarrow> nat \<Rightarrow> 'a terminal_globals_scheme \<Rightarrow> 'a terminal_globals_scheme" where
  "dump_line buffer bytes shown_offset offset = steps
     [keyboard_write_hex32 shown_offset, terminal_write '': '',
      fold (\<lambda>index s. terminal_putchar CHR '' ''
              (if offset + index < bytes then keyboard_write_hex8 (byte_at buffer (offset + index)) s
               else terminal_write ''  '' s)) [0..<16],
      terminal_write '' |'',
      fold (\<lambda>index. terminal_putchar (printable_or_dot (byte_at buffer (offset + index))))
        [0..<min 16 (bytes - offset)],
      terminal_writeline ''|'']"

definition line_offsets :: "nat \<Rightarrow> nat list" where
  "line_offsets bytes = map (\<lambda>k. k * 16) [0..<(bytes + 15) div 16]"

definition keyboard_dump_sector_preview :: "u8 list \<Rightarrow> nat \<Rightarrow> 'a terminal_globals_scheme \<Rightarrow> 'a terminal_globals_scheme" where
  "keyboard_dump_sector_preview buffer bytes s =
     fold (\<lambda>offset. dump_line buffer bytes (word_of_nat offset) offset) (line_offsets bytes) s"

definition keyboard_report_sector_signature :: "u8 list \<Rightarrow> 'a terminal_globals_scheme \<Rightarrow> 'a terminal_globals_scheme" where
  "keyboard_report_sector_signature sector = steps
     [terminal_writeline ''Sector signatures:'',
      terminal_writeline (if has_boot_magic sector then ''  Boot signature  : 0x55AA present''
                          else ''  Boot signature  : not present''),
      case keyboard_detect_sector_signature sector of
        Some signature \<Rightarrow> text_line ''  Filesystem      : '' signature
      | None \<Rightarrow> terminal_writeline ''  Filesystem      : unknown'']"

definition keyboard_block_read_preview ::
  "u32 \<Rightarrow> u32 \<Rightarrow> u32 \<Rightarrow> 'a block_globals_scheme \<Rightarrow> bool \<times> 'a block_globals_scheme" where
  "keyboard_block_read_preview device_index lba sector_count s =
     (case block_device_at (unat device_index) s of
        None \<Rightarrow> (False, terminal_writeline ''Block device not found'' s)
      | Some block_device \<Rightarrow>
          if bd_sector_size_bytes block_device \<noteq> 512
          then (False, terminal_writeline ''Only 512-byte sectors are supported by blkread'' s)
          else if sector_count = 0 \<or> sector_count > KEYBOARD_BLOCK_PREVIEW_MAX_SECTORS
          then (False, terminal_writeline ''Sector count must be between 1 and 4'' s)
          else if bd_sector_count block_device \<noteq> 0 \<and>
                  (lba \<ge> bd_sector_count block_device \<or> sector_count > bd_sector_count block_device - lba)
          then (False, terminal_writeline ''Requested LBA is outside the device range'' s)
          else
            let s = steps
              [terminal_write ''Reading block device #'', keyboard_write_u32 device_index, terminal_write ''  lba '',
               keyboard_write_u32 lba, terminal_write ''  count '', keyboard_write_u32 sector_count, terminal_writeline '' ...''] s
            in case block_read_device (unat device_index) lba sector_count (Some (replicate 2048 0)) s of
                 None \<Rightarrow> (False, terminal_writeline ''Block read failed'' (keyboard_log_event ''TERMOB: blkread failed'' s))
               | Some sector_buffer \<Rightarrow>
                   let s = keyboard_log_event ''TERMOB: blkread ok'' s;
                       preview_bytes = sector_count * bd_sector_size_bytes block_device;
                       preview_bytes = (if preview_bytes > 128 then 128 else preview_bytes)
                   in (True, keyboard_dump_sector_preview sector_buffer (unat preview_bytes) s))"

text \<open>The checks that the next commands begin with.\<close>

definition keyboard_check_lba ::
  "u32 \<Rightarrow> u32 \<Rightarrow> string \<Rightarrow> 'a block_globals_scheme \<Rightarrow> bool \<times> 'a block_globals_scheme" where
  "keyboard_check_lba device_index lba size_message s =
     (case block_device_at (unat device_index) s of
        None \<Rightarrow> (False, terminal_writeline ''Block device not found'' s)
      | Some block_device \<Rightarrow>
          if bd_sector_size_bytes block_device \<noteq> 512 then (False, terminal_writeline size_message s)
          else if bd_sector_count block_device \<noteq> 0 \<and> lba \<ge> bd_sector_count block_device
          then (False, terminal_writeline ''Requested LBA is outside the device range'' s)
          else (True, s))"

definition announce :: "string \<Rightarrow> u32 \<Rightarrow> u32 \<Rightarrow> 'a terminal_globals_scheme \<Rightarrow> 'a terminal_globals_scheme" where
  "announce what device_index lba = steps
     [terminal_write what, keyboard_write_u32 device_index, terminal_write ''  lba '', keyboard_write_u32 lba,
      terminal_writeline '' ...'']"

definition keyboard_block_signature_preview :: "u32 \<Rightarrow> u32 \<Rightarrow> 'a block_globals_scheme \<Rightarrow> 'a block_globals_scheme" where
  "keyboard_block_signature_preview device_index lba s =
     (case keyboard_check_lba device_index lba ''Only 512-byte sectors are supported by blksig'' s of
        (False, s) \<Rightarrow> s
      | (True, s) \<Rightarrow>
          let s = announce ''Inspecting signatures on block device #'' device_index lba s
          in case block_read_device (unat device_index) lba 1 (Some (replicate 512 0)) s of
               None \<Rightarrow> terminal_writeline ''Block read failed'' (keyboard_log_event ''TERMOB: blksig failed'' s)
             | Some sector \<Rightarrow> keyboard_report_sector_signature sector (keyboard_log_event ''TERMOB: blksig ok'' s))"

text \<open>The scan; the count is over when the sector number reaches the end, which may have wrapped around.\<close>

primrec keyboard_find_loop ::
  "nat \<Rightarrow> u32 \<Rightarrow> u32 \<Rightarrow> u32 \<Rightarrow> u32 \<Rightarrow> 'a block_globals_scheme \<Rightarrow> (u32 option) \<times> 'a block_globals_scheme" where
  "keyboard_find_loop 0 device_index lba limit hits s = (Some hits, s)"
| "keyboard_find_loop (Suc n) device_index lba limit hits s =
     (if \<not> lba < limit then (Some hits, s)
      else case block_read_device (unat device_index) lba 1 (Some (replicate 512 0)) s of
             None \<Rightarrow> (None, steps [number_line ''Read failed at lba '' lba, keyboard_log_event ''TERMOB: blkfind failed''] s)
           | Some sector \<Rightarrow>
               let signature = keyboard_detect_sector_signature sector
               in if signature = None \<and> \<not> has_boot_magic sector
                  then keyboard_find_loop n device_index (lba + 1) limit hits s
                  else keyboard_find_loop n device_index (lba + 1) limit (hits + 1)
                    (steps
                      [terminal_write ''  LBA '', keyboard_write_u32 lba, terminal_write ''  : '',
                       terminal_write (case signature of Some t \<Rightarrow> t | None \<Rightarrow> ''boot signature only''),
                       \<lambda>s. if has_boot_magic sector \<and> signature \<noteq> None then terminal_write '' + 0x55AA'' s else s,
                       terminal_putchar NEWLINE] s))"

definition keyboard_block_find_signatures :: "u32 \<Rightarrow> u32 \<Rightarrow> u32 \<Rightarrow> 'a block_globals_scheme \<Rightarrow> 'a block_globals_scheme" where
  "keyboard_block_find_signatures device_index start_lba sector_count s =
     (case block_device_at (unat device_index) s of
        None \<Rightarrow> terminal_writeline ''Block device not found'' s
      | Some block_device \<Rightarrow>
          if bd_sector_size_bytes block_device \<noteq> 512
          then terminal_writeline ''Only 512-byte sectors are supported by blkfind'' s
          else if sector_count = 0 \<or> sector_count > KEYBOARD_BLOCK_SCAN_MAX_SECTORS
          then terminal_writeline ''Scan count must be between 1 and 256'' s
          else if bd_sector_count block_device \<noteq> 0 \<and>
                  (start_lba \<ge> bd_sector_count block_device \<or> sector_count > bd_sector_count block_device - start_lba)
          then terminal_writeline ''Requested LBA range is outside the device range'' s
          else
            let s = steps
              [terminal_write ''Scanning block device #'', keyboard_write_u32 device_index, terminal_write ''  lba '',
               keyboard_write_u32 start_lba, terminal_write ''..'', keyboard_write_u32 (start_lba + sector_count - 1),
               terminal_writeline '' ...''] s
            in case keyboard_find_loop (unat sector_count) device_index start_lba (start_lba + sector_count) 0 s of
                 (None, s) \<Rightarrow> s
               | (Some hits, s) \<Rightarrow>
                   keyboard_log_event ''TERMOB: blkfind done'' (number_line ''Matches found : '' hits s))"

definition boot_sector_plausible :: "u8 list \<Rightarrow> u32 \<Rightarrow> u32 \<Rightarrow> u32 \<Rightarrow> u32 \<Rightarrow> u32 \<Rightarrow> bool" where
  "boot_sector_plausible sector bytes_per_sector sectors_per_cluster reserved_sectors fat_count sectors_per_fat =
     ((bytes_per_sector = 512 \<or> bytes_per_sector = 1024 \<or> bytes_per_sector = 2048 \<or> bytes_per_sector = 4096) \<and>
      \<not> (\<not> keyboard_is_power_of_two_u32 sectors_per_cluster \<or> sectors_per_cluster > 128) \<and>
      \<not> (reserved_sectors = 0 \<or> fat_count = 0) \<and>
      \<not> (keyboard_detect_sector_signature sector \<noteq> None \<and>
         (keyboard_bytes_equal sector 54 ''FAT12   '' 8 \<or> keyboard_bytes_equal sector 54 ''FAT16   '' 8 \<or>
          keyboard_bytes_equal sector 82 ''FAT32   '' 8) \<and> sectors_per_fat = 0) \<and>
      has_boot_magic sector)"

definition keyboard_boot_sector_report :: "u8 list \<Rightarrow> 'a block_globals_scheme \<Rightarrow> 'a block_globals_scheme" where
  "keyboard_boot_sector_report sector =
     (let signature = keyboard_detect_sector_signature sector;
          bytes_per_sector = ucast (keyboard_read_le16 sector 11);
          sectors_per_cluster = ucast (byte_at sector 13);
          reserved_sectors = ucast (keyboard_read_le16 sector 14);
          fat_count = ucast (byte_at sector 16);
          sectors_per_fat = (if signature \<noteq> None \<and> keyboard_bytes_equal sector 82 ''FAT32   '' 8
                             then keyboard_read_le32 sector 36 else ucast (keyboard_read_le16 sector 22));
          total_sectors16 = ucast (keyboard_read_le16 sector 19);
          total_sectors = (if total_sectors16 = 0 then keyboard_read_le32 sector 32 else total_sectors16)
      in steps
        [terminal_writeline ''Boot sector report:'',
         text_line ''  Signature    : '' (case signature of Some t \<Rightarrow> t | None \<Rightarrow> ''unknown''),
         text_line ''  Boot magic   : '' (if has_boot_magic sector then ''0x55AA present'' else ''missing''),
         number_line ''  Bytes/sector : '' bytes_per_sector,
         number_unit_line ''  Cluster size : '' sectors_per_cluster '' sectors'',
         number_unit_line ''  Reserved     : '' reserved_sectors '' sectors'',
         number_line ''  FATs         : '' fat_count,
         number_line ''  Sectors/FAT  : '' sectors_per_fat,
         number_line ''  Total sectors: '' total_sectors,
         text_line ''  Verdict      : ''
           (if boot_sector_plausible sector bytes_per_sector sectors_per_cluster reserved_sectors fat_count sectors_per_fat
            then ''plausible boot sector'' else ''suspicious / corrupted''),
         keyboard_log_event ''TERMOB: bootchk ok''])"

definition keyboard_boot_sector_check :: "u32 \<Rightarrow> u32 \<Rightarrow> 'a block_globals_scheme \<Rightarrow> 'a block_globals_scheme" where
  "keyboard_boot_sector_check device_index lba s =
     (case keyboard_check_lba device_index lba ''Only 512-byte sectors are supported by bootchk'' s of
        (False, s) \<Rightarrow> s
      | (True, s) \<Rightarrow>
          let s = announce ''Checking boot sector on block device #'' device_index lba s
          in case block_read_device (unat device_index) lba 1 (Some (replicate 512 0)) s of
               None \<Rightarrow> terminal_writeline ''Block read failed'' (keyboard_log_event ''TERMOB: bootchk failed'' s)
             | Some sector \<Rightarrow> keyboard_boot_sector_report sector s)"

section \<open>FAT diagnostics\<close>

definition keyboard_fat_info_report :: "keyboard_fat_info \<Rightarrow> 'a block_globals_scheme \<Rightarrow> 'a block_globals_scheme" where
  "keyboard_fat_info_report info = steps
     [terminal_writeline ''FAT boot sector:'',
      text_line ''  Type         : '' (keyboard_fat_type_name (fi_type info)),
      text_line ''  Boot magic   : '' (if fi_boot_magic_present info then ''0x55AA present'' else ''missing''),
      number_line ''  Bytes/sector : '' (fi_bytes_per_sector info),
      number_unit_line ''  Cluster size : '' (fi_sectors_per_cluster info) '' sectors'',
      number_unit_line ''  Reserved     : '' (fi_reserved_sectors info) '' sectors'',
      number_line ''  FAT count    : '' (fi_fat_count info),
      number_line ''  Sectors/FAT  : '' (fi_sectors_per_fat info),
      number_line ''  Total sectors: '' (fi_total_sectors info),
      number_line ''  FAT start    : '' (fi_fat_start_sector info),
      terminal_write ''  Root dir     : '',
      \<lambda>s. if fi_type info = KEYBOARD_FAT_32
          then steps
            [terminal_write ''cluster '', keyboard_write_u32 (fi_root_cluster info), terminal_write ''  sector '',
             keyboard_write_u32 (fi_data_start_sector info +
               ((if fi_root_cluster info \<ge> 2 then fi_root_cluster info else 2) - 2) * fi_sectors_per_cluster info)] s
          else steps
            [terminal_write ''sector '', keyboard_write_u32 (fi_root_dir_start_sector info), terminal_write ''  span '',
             keyboard_write_u32 (fi_root_dir_sectors info)] s,
      terminal_putchar NEWLINE,
      number_line ''  Data start   : '' (fi_data_start_sector info),
      number_line ''  Clusters     : '' (fi_cluster_count info),
      \<lambda>s. if fi_type info = KEYBOARD_FAT_32
          then steps
            [terminal_write ''  FSInfo       : '', keyboard_write_u32 (fi_fsinfo_sector info),
             number_line ''  backup '' (fi_backup_boot_sector info)] s
          else number_line ''  Root entries : '' (fi_root_entry_count info) s,
      keyboard_log_event ''TERMOB: fatinfo ok'']"

definition keyboard_fat_info_dump :: "u32 \<Rightarrow> u32 \<Rightarrow> 'a block_globals_scheme \<Rightarrow> 'a block_globals_scheme" where
  "keyboard_fat_info_dump device_index lba s =
     (case keyboard_read_block_sector_512 device_index lba ''fatinfo''
             (announce ''Reading FAT info on block device #'' device_index lba s) of
        (None, s) \<Rightarrow> keyboard_log_event ''TERMOB: fatinfo failed'' s
      | (Some sector, s) \<Rightarrow>
          (case keyboard_parse_fat_info sector of
             None \<Rightarrow> steps [terminal_writeline ''No FAT boot sector detected'', keyboard_log_event ''TERMOB: fatinfo not-fat''] s
           | Some info \<Rightarrow> keyboard_fat_info_report info s))"

text \<open>The issues of a FAT layout, in the order in which they are reported.\<close>

definition keyboard_fat_issues :: "keyboard_fat_info \<Rightarrow> string list" where
  "keyboard_fat_issues info =
     (let bytes = fi_bytes_per_sector info; issue = (\<lambda>bad message. if bad then [message] else []) in
      issue (\<not> fi_boot_magic_present info) ''  Issue        : missing boot signature 0x55AA'' @
      issue (\<not> (bytes = 512 \<or> bytes = 1024 \<or> bytes = 2048 \<or> bytes = 4096)) ''  Issue        : invalid bytes-per-sector'' @
      issue (\<not> keyboard_is_power_of_two_u32 (fi_sectors_per_cluster info) \<or> fi_sectors_per_cluster info > 128)
        ''  Issue        : invalid sectors-per-cluster'' @
      issue (fi_reserved_sectors info = 0) ''  Issue        : reserved sectors is zero'' @
      issue (fi_fat_count info = 0) ''  Issue        : FAT count is zero'' @
      issue (fi_sectors_per_fat info = 0) ''  Issue        : sectors-per-FAT is zero'' @
      issue (fi_total_sectors info = 0) ''  Issue        : total sectors is zero'' @
      issue (fi_data_start_sector info \<ge> fi_total_sectors info) ''  Issue        : data region starts beyond disk size'' @
      issue (fi_cluster_count info = 0) ''  Issue        : cluster count is zero'' @
      (if fi_type info = KEYBOARD_FAT_32
       then issue (fi_root_entry_count info \<noteq> 0) ''  Issue        : FAT32 root entry count should be zero'' @
            issue (fi_root_cluster info < 2) ''  Issue        : FAT32 root cluster is invalid''
       else issue (fi_root_entry_count info = 0) ''  Issue        : FAT12/16 root entry count is zero''))"

definition keyboard_fat_check :: "u32 \<Rightarrow> u32 \<Rightarrow> 'a block_globals_scheme \<Rightarrow> 'a block_globals_scheme" where
  "keyboard_fat_check device_index lba s =
     (case keyboard_read_block_sector_512 device_index lba ''fatcheck''
             (announce ''Checking FAT layout on block device #'' device_index lba s) of
        (None, s) \<Rightarrow> keyboard_log_event ''TERMOB: fatcheck failed'' s
      | (Some sector, s) \<Rightarrow>
          (case keyboard_parse_fat_info sector of
             None \<Rightarrow> steps [terminal_writeline ''No FAT boot sector detected'', keyboard_log_event ''TERMOB: fatcheck not-fat''] s
           | Some info \<Rightarrow>
               let issues = keyboard_fat_issues info
               in steps
                 [terminal_writeline ''FAT consistency report:'',
                  fold terminal_writeline issues,
                  terminal_write ''  Verdict      : '',
                  \<lambda>s. if issues = [] then terminal_writeline ''FAT layout looks consistent'' s
                      else number_unit_line ''suspicious / corrupted (issues '' (word_of_nat (length issues)) '')'' s,
                  keyboard_log_event ''TERMOB: fatcheck ok''] s))"

fun keyboard_fat_offset :: "keyboard_fat_type \<Rightarrow> u32 \<Rightarrow> u32 option" where
  "keyboard_fat_offset KEYBOARD_FAT_12 cluster = Some (cluster + cluster div 2)"
| "keyboard_fat_offset KEYBOARD_FAT_16 cluster = Some (cluster * 2)"
| "keyboard_fat_offset KEYBOARD_FAT_32 cluster = Some (cluster * 4)"
| "keyboard_fat_offset KEYBOARD_FAT_NONE cluster = None"

fun keyboard_fat_value :: "keyboard_fat_type \<Rightarrow> u32 \<Rightarrow> u8 list \<Rightarrow> nat \<Rightarrow> u32" where
  "keyboard_fat_value KEYBOARD_FAT_12 cluster bytes offset =
     (let raw = keyboard_read_le16 bytes offset
      in if cluster AND 1 = 0 then ucast (raw AND 0x0FFF) else ucast (drop_bit 4 raw AND 0x0FFF))"
| "keyboard_fat_value KEYBOARD_FAT_16 cluster bytes offset = ucast (keyboard_read_le16 bytes offset)"
| "keyboard_fat_value KEYBOARD_FAT_32 cluster bytes offset = keyboard_read_le32 bytes offset AND 0x0FFFFFFF"
| "keyboard_fat_value KEYBOARD_FAT_NONE cluster bytes offset = 0"

text \<open>
  The buffer of an entry has 1024 bytes. A boot sector that claims larger sectors can give an offset
  beyond it; what C reads there is not specified, and here it is zero.
\<close>

definition keyboard_fat_entry_read ::
  "u32 \<Rightarrow> u32 \<Rightarrow> u32 \<Rightarrow> 'a block_globals_scheme \<Rightarrow> (keyboard_fat_info \<times> u32) option \<times> 'a block_globals_scheme" where
  "keyboard_fat_entry_read device_index boot_lba cluster s =
     (case keyboard_read_block_sector_512 device_index boot_lba ''fatentry'' s of
        (None, s) \<Rightarrow> (None, s)
      | (Some boot_sector, s) \<Rightarrow>
          (case keyboard_parse_fat_info boot_sector of
             None \<Rightarrow> (None, s)
           | Some info \<Rightarrow>
               (case keyboard_fat_offset (fi_type info) cluster of
                  None \<Rightarrow> (None, s)
                | Some fat_offset_bytes \<Rightarrow>
                    let fat_sector_delta = fat_offset_bytes div fi_bytes_per_sector info;
                        sector_offset = fat_offset_bytes mod fi_bytes_per_sector info;
                        sectors_to_read = (if fi_type info = KEYBOARD_FAT_12 \<and> sector_offset \<ge> 511 \<or>
                                              fi_type info = KEYBOARD_FAT_16 \<and> sector_offset \<ge> 511 \<or>
                                              fi_type info = KEYBOARD_FAT_32 \<and> sector_offset \<ge> 509 then 2 else 1)
                    in case block_read_device (unat device_index) (boot_lba + fi_fat_start_sector info + fat_sector_delta)
                              sectors_to_read (Some (replicate 1024 0)) s of
                         None \<Rightarrow> (None, s)
                       | Some entry_bytes \<Rightarrow>
                           (Some (info, keyboard_fat_value (fi_type info) cluster entry_bytes (unat sector_offset)), s))))"

fun keyboard_fat_entry_is_eoc :: "keyboard_fat_type \<Rightarrow> u32 \<Rightarrow> bool" where
  "keyboard_fat_entry_is_eoc KEYBOARD_FAT_12 value = (value \<ge> 0x0FF8)"
| "keyboard_fat_entry_is_eoc KEYBOARD_FAT_16 value = (value \<ge> 0xFFF8)"
| "keyboard_fat_entry_is_eoc KEYBOARD_FAT_32 value = (value \<ge> 0x0FFFFFF8)"
| "keyboard_fat_entry_is_eoc KEYBOARD_FAT_NONE value = False"

fun keyboard_fat_entry_is_bad :: "keyboard_fat_type \<Rightarrow> u32 \<Rightarrow> bool" where
  "keyboard_fat_entry_is_bad KEYBOARD_FAT_12 value = (value = 0x0FF7)"
| "keyboard_fat_entry_is_bad KEYBOARD_FAT_16 value = (value = 0xFFF7)"
| "keyboard_fat_entry_is_bad KEYBOARD_FAT_32 value = (value = 0x0FFFFFF7)"
| "keyboard_fat_entry_is_bad KEYBOARD_FAT_NONE value = False"

fun keyboard_fat_entry_is_reserved :: "keyboard_fat_type \<Rightarrow> u32 \<Rightarrow> bool" where
  "keyboard_fat_entry_is_reserved KEYBOARD_FAT_12 value = (value \<ge> 0x0FF0 \<and> value \<le> 0x0FF6)"
| "keyboard_fat_entry_is_reserved KEYBOARD_FAT_16 value = (value \<ge> 0xFFF0 \<and> value \<le> 0xFFF6)"
| "keyboard_fat_entry_is_reserved KEYBOARD_FAT_32 value = (value \<ge> 0x0FFFFFF0 \<and> value \<le> 0x0FFFFFF6)"
| "keyboard_fat_entry_is_reserved KEYBOARD_FAT_NONE value = False"

definition announce_fat :: "string \<Rightarrow> u32 \<Rightarrow> u32 \<Rightarrow> string \<Rightarrow> u32 \<Rightarrow> 'a terminal_globals_scheme \<Rightarrow> 'a terminal_globals_scheme" where
  "announce_fat what device_index boot_lba label cluster = steps
     [terminal_write what, keyboard_write_u32 device_index, terminal_write ''  boot '', keyboard_write_u32 boot_lba,
      terminal_write label, keyboard_write_u32 cluster, terminal_writeline '' ...'']"

definition keyboard_fat_entry_dump :: "u32 \<Rightarrow> u32 \<Rightarrow> u32 \<Rightarrow> 'a block_globals_scheme \<Rightarrow> 'a block_globals_scheme" where
  "keyboard_fat_entry_dump device_index boot_lba cluster s =
     (case keyboard_fat_entry_read device_index boot_lba cluster
             (announce_fat ''Reading FAT entry on block device #'' device_index boot_lba ''  cluster '' cluster s) of
        (None, s) \<Rightarrow> steps [terminal_writeline ''FAT entry unavailable'', keyboard_log_event ''TERMOB: fatentry failed''] s
      | (Some (info, entry_value), s) \<Rightarrow> steps
          [terminal_writeline ''FAT entry:'',
           text_line ''  Type         : '' (keyboard_fat_type_name (fi_type info)),
           number_line ''  Cluster      : '' cluster,
           terminal_write ''  Raw value    : '', keyboard_write_hex32 entry_value, terminal_putchar NEWLINE,
           terminal_write ''  Meaning      : '',
           \<lambda>s. if entry_value = 0 then terminal_writeline ''free cluster'' s
               else if keyboard_fat_entry_is_bad (fi_type info) entry_value then terminal_writeline ''bad cluster marker'' s
               else if keyboard_fat_entry_is_eoc (fi_type info) entry_value then terminal_writeline ''end of chain'' s
               else if keyboard_fat_entry_is_reserved (fi_type info) entry_value then terminal_writeline ''reserved marker'' s
               else number_line ''next cluster '' entry_value s,
           keyboard_log_event ''TERMOB: fatentry ok''] s)"

text \<open>The walk along a chain; \<open>visited\<close> holds the clusters seen so far, at most 64.\<close>

function keyboard_fat_chain_walk ::
  "u32 \<Rightarrow> u32 \<Rightarrow> u32 list \<Rightarrow> u32 \<Rightarrow> 'a block_globals_scheme \<Rightarrow> 'a block_globals_scheme" where
  "keyboard_fat_chain_walk device_index boot_lba visited cluster s =
     (if length visited \<ge> 64
      then steps [terminal_writeline ''Chain too long for preview'', keyboard_log_event ''TERMOB: fatchain truncated''] s
      else if cluster \<in> set visited
      then steps [number_line ''Loop detected at cluster '' cluster, keyboard_log_event ''TERMOB: fatchain loop''] s
      else case keyboard_fat_entry_read device_index boot_lba cluster s of
             (None, s) \<Rightarrow> steps [terminal_writeline ''FAT chain unavailable'', keyboard_log_event ''TERMOB: fatchain failed''] s
           | (Some (info, entry_value), s) \<Rightarrow>
               let s = steps [terminal_write ''  '', keyboard_write_u32 cluster, terminal_write '' -> ''] s
               in if entry_value = 0
                  then steps [terminal_writeline ''FREE'', keyboard_log_event ''TERMOB: fatchain free''] s
                  else if keyboard_fat_entry_is_bad (fi_type info) entry_value
                  then steps [terminal_writeline ''BAD'', keyboard_log_event ''TERMOB: fatchain bad''] s
                  else if keyboard_fat_entry_is_reserved (fi_type info) entry_value
                  then steps [terminal_writeline ''RESERVED'', keyboard_log_event ''TERMOB: fatchain reserved''] s
                  else if keyboard_fat_entry_is_eoc (fi_type info) entry_value
                  then steps [terminal_writeline ''EOC'', keyboard_log_event ''TERMOB: fatchain ok''] s
                  else keyboard_fat_chain_walk device_index boot_lba (visited @ [cluster]) entry_value
                         (terminal_putchar NEWLINE (keyboard_write_u32 entry_value s)))"
  by pat_completeness auto

termination
  by (relation "measure (\<lambda>(device_index, boot_lba, visited, cluster, s). 64 - length visited)") auto

declare keyboard_fat_chain_walk.simps [simp del]

definition keyboard_fat_chain_dump :: "u32 \<Rightarrow> u32 \<Rightarrow> u32 \<Rightarrow> 'a block_globals_scheme \<Rightarrow> 'a block_globals_scheme" where
  "keyboard_fat_chain_dump device_index boot_lba start_cluster s =
     (let s = announce_fat ''Walking FAT chain on block device #'' device_index boot_lba ''  start '' start_cluster s
      in if start_cluster < 2
         then steps [terminal_writeline ''Cluster must be >= 2'', keyboard_log_event ''TERMOB: fatchain failed''] s
         else keyboard_fat_chain_walk device_index boot_lba [] start_cluster s)"

section \<open>Commands on a mounted file system\<close>

record keyboard_fat_ls_context =
  ls_visible_entries :: u32
  ls_deleted_entries :: u32
  ls_lfn_entries :: u32
  ls_suspicious_entries :: u32

definition keyboard_write_name_padded :: "string \<Rightarrow> nat \<Rightarrow> 'a terminal_globals_scheme \<Rightarrow> 'a terminal_globals_scheme" where
  "keyboard_write_name_padded txt width s =
     (let len = keyboard_strlen txt
      in if len \<le> width
         then let s = terminal_write txt s in if len < width then keyboard_write_spaces (width - len) s else s
         else if width \<le> 1 then terminal_putchar CHR ''~'' s
         else terminal_putchar CHR ''~'' (fold terminal_putchar (take (width - 1) txt) s))"

definition keyboard_fat_ls_callback :: "(keyboard_fat_ls_context, 'a terminal_globals_scheme) dirent_callback" where
  "keyboard_fat_ls_callback fs dirent ctx s =
     (if de_kind dirent = TERMOB_FAT_DIRENT_DELETED
      then (True, ctx\<lparr>ls_deleted_entries := ls_deleted_entries ctx + 1\<rparr>, s)
      else
        let ctx = (if de_suspicious dirent then ctx\<lparr>ls_suspicious_entries := ls_suspicious_entries ctx + 1\<rparr> else ctx);
            ctx = (if de_has_long_name dirent then ctx\<lparr>ls_lfn_entries := ls_lfn_entries ctx + 1\<rparr> else ctx);
            ctx = ctx\<lparr>ls_visible_entries := ls_visible_entries ctx + 1\<rparr>;
            s = steps
          [terminal_write (case de_kind dirent of
               TERMOB_FAT_DIRENT_DIRECTORY \<Rightarrow> ''[D] '' | TERMOB_FAT_DIRENT_VOLUME_LABEL \<Rightarrow> ''[V] ''
             | TERMOB_FAT_DIRENT_RESERVED \<Rightarrow> ''[?] '' | _ \<Rightarrow> ''[F] ''),
           keyboard_write_name_padded (de_display_name dirent) 24,
           \<lambda>s. if de_kind dirent = TERMOB_FAT_DIRENT_FILE
               then steps [keyboard_write_spaces 1, keyboard_write_u32 (de_size_bytes dirent), terminal_write '' bytes''] s
               else if de_kind dirent = TERMOB_FAT_DIRENT_DIRECTORY then terminal_write '' <DIR>'' s else s,
           terminal_write ''  cluster='', keyboard_write_u32 (de_first_cluster dirent),
           \<lambda>s. if de_suspicious dirent then terminal_write ''  !'' s else s,
           terminal_putchar NEWLINE] s
        in (True, ctx, s))"

definition keyboard_fat_print_stat :: "termob_fat_fs \<Rightarrow> 'a terminal_globals_scheme \<Rightarrow> 'a terminal_globals_scheme" where
  "keyboard_fat_print_stat fs = steps
     [terminal_writeline ''FAT runtime mount:'',
      text_line ''  Type         : '' (fat_type_name (fs_fat_type fs)),
      terminal_write ''  Device       : #'', keyboard_write_u32 (word_of_nat (fs_device_index fs)),
      number_line ''  boot '' (fs_boot_lba fs),
      number_line ''  Bytes/sector : '' (fs_bytes_per_sector fs),
      number_unit_line ''  Cluster size : '' (fs_sectors_per_cluster fs) '' sectors'',
      number_unit_line ''  Reserved     : '' (fs_reserved_sectors fs) '' sectors'',
      number_line ''  FAT count    : '' (fs_fat_count fs),
      number_line ''  Sectors/FAT  : '' (fs_sectors_per_fat fs),
      number_line ''  Total sectors: '' (fs_total_sectors fs),
      number_line ''  First FAT    : '' (fs_first_fat_lba fs),
      number_line ''  First data   : '' (fs_first_data_lba fs),
      \<lambda>s. if fs_fat_type fs = TERMOB_FAT_TYPE_32 then number_line ''  Root cluster : '' (fs_root_cluster fs) s
          else steps
            [terminal_write ''  Root sector  : '', keyboard_write_u32 (fs_first_root_dir_lba fs),
             number_unit_line ''  span '' (fs_root_dir_sectors fs) '' sectors''] s,
      number_line ''  Clusters     : '' (fs_cluster_count fs)]"

text \<open>\<open>fs0\<close> stands for the uninitialised structure that the mount fills in.\<close>

definition fs0 :: termob_fat_fs where
  "fs0 = \<lparr>fs_device_index = 0, fs_boot_lba = 0, fs_bytes_per_sector = 0, fs_sectors_per_cluster = 0,
     fs_reserved_sectors = 0, fs_fat_count = 0, fs_sectors_per_fat = 0, fs_root_entry_count = 0, fs_total_sectors = 0,
     fs_first_fat_lba = 0, fs_first_data_lba = 0, fs_first_root_dir_lba = 0, fs_root_dir_sectors = 0,
     fs_root_cluster = 0, fs_cluster_count = 0, fs_fat_type = TERMOB_FAT_TYPE_NONE\<rparr>"

definition keyboard_fat_mount_from_shell ::
  "u32 \<Rightarrow> u32 \<Rightarrow> 'a block_globals_scheme \<Rightarrow> termob_fat_fs option \<times> 'a block_globals_scheme" where
  "keyboard_fat_mount_from_shell device_index boot_lba s =
     (case fat_mount fs0 (unat device_index) boot_lba s of
        (False, fs, s) \<Rightarrow> (None, terminal_writeline ''FAT mount failed'' s)
      | (True, fs, s) \<Rightarrow> (Some fs, s))"

definition ls_start :: keyboard_fat_ls_context where
  "ls_start = \<lparr>ls_visible_entries = 0, ls_deleted_entries = 0, ls_lfn_entries = 0, ls_suspicious_entries = 0\<rparr>"

definition ls_summary :: "bool \<Rightarrow> keyboard_fat_ls_context \<Rightarrow> 'a terminal_globals_scheme \<Rightarrow> 'a terminal_globals_scheme" where
  "ls_summary with_deleted ctx = steps
     [number_line ''Visible      : '' (ls_visible_entries ctx),
      \<lambda>s. if with_deleted then number_line ''Deleted skip : '' (ls_deleted_entries ctx) s else s,
      number_line ''Long names   : '' (ls_lfn_entries ctx),
      number_line ''Suspicious   : '' (ls_suspicious_entries ctx)]"

definition keyboard_fat_ls_root_command :: "u32 \<Rightarrow> u32 \<Rightarrow> 'a block_globals_scheme \<Rightarrow> 'a block_globals_scheme" where
  "keyboard_fat_ls_root_command device_index boot_lba s =
     (case keyboard_fat_mount_from_shell device_index boot_lba s of
        (None, s) \<Rightarrow> keyboard_log_event ''TERMOB: fatls mount failed'' s
      | (Some fs, s) \<Rightarrow>
          (case fat_list_root (Some fs) (Some keyboard_fat_ls_callback) ls_start (terminal_writeline ''FAT root directory:'' s) of
             (False, ctx, s) \<Rightarrow> steps [terminal_writeline ''Directory read failed'', keyboard_log_event ''TERMOB: fatls failed''] s
           | (True, ctx, s) \<Rightarrow> steps [ls_summary True ctx, keyboard_log_event ''TERMOB: fatls ok''] s))"

definition keyboard_fat_ls_directory_command :: "u32 \<Rightarrow> u32 \<Rightarrow> u32 \<Rightarrow> 'a block_globals_scheme \<Rightarrow> 'a block_globals_scheme" where
  "keyboard_fat_ls_directory_command device_index boot_lba start_cluster s =
     (case keyboard_fat_mount_from_shell device_index boot_lba s of
        (None, s) \<Rightarrow> keyboard_log_event ''TERMOB: fatlsdir mount failed'' s
      | (Some fs, s) \<Rightarrow>
          (case fat_list_directory (Some fs) start_cluster (Some keyboard_fat_ls_callback) ls_start
                  (number_unit_line ''FAT directory cluster '' start_cluster '':'' s) of
             (False, ctx, s) \<Rightarrow> steps [terminal_writeline ''Directory read failed'', keyboard_log_event ''TERMOB: fatlsdir failed''] s
           | (True, ctx, s) \<Rightarrow> steps [ls_summary True ctx, keyboard_log_event ''TERMOB: fatlsdir ok''] s))"

definition keyboard_fat_lookup_command :: "u32 \<Rightarrow> u32 \<Rightarrow> string \<Rightarrow> 'a block_globals_scheme \<Rightarrow> 'a block_globals_scheme" where
  "keyboard_fat_lookup_command device_index boot_lba path s =
     (case keyboard_fat_mount_from_shell device_index boot_lba s of
        (None, s) \<Rightarrow> keyboard_log_event ''TERMOB: fatlookup mount failed'' s
      | (Some fs, s) \<Rightarrow>
          let (status, result, s) = fat_lookup_path (Some fs) (Some path) lookup_start s
          in if status \<noteq> TERMOB_FAT_STATUS_OK
             then steps [text_line ''Path lookup failed: '' (fat_status_name status), keyboard_log_event ''TERMOB: fatlookup failed''] s
             else
               let s = steps [terminal_writeline ''FAT path lookup:'', text_line ''  Path       : '' path] s
               in if lr_is_root result
                  then steps [terminal_writeline ''  Target     : root directory'', keyboard_log_event ''TERMOB: fatlookup ok''] s
                  else
                    let d = the (lr_dirent result)
                    in steps
                      [text_line ''  Name       : '' (de_display_name d),
                       text_line ''  Short      : '' (de_short_name d),
                       text_line ''  Kind       : '' (fat_dirent_kind_name (de_kind d)),
                       number_line ''  Cluster    : '' (de_first_cluster d),
                       number_unit_line ''  Size       : '' (de_size_bytes d) '' bytes'',
                       text_line ''  Suspicious : '' (if de_suspicious d then ''yes'' else ''no''),
                       keyboard_log_event ''TERMOB: fatlookup ok''] s)"

definition keyboard_fat_ls_path_command :: "u32 \<Rightarrow> u32 \<Rightarrow> string \<Rightarrow> 'a block_globals_scheme \<Rightarrow> 'a block_globals_scheme" where
  "keyboard_fat_ls_path_command device_index boot_lba path s =
     (case keyboard_fat_mount_from_shell device_index boot_lba s of
        (None, s) \<Rightarrow> keyboard_log_event ''TERMOB: fatlspath mount failed'' s
      | (Some fs, s) \<Rightarrow>
          let (status, ctx, s) = fat_list_path (Some fs) (Some path) (Some keyboard_fat_ls_callback) ls_start
                                   (text_line ''FAT directory path '' path s)
          in if status \<noteq> TERMOB_FAT_STATUS_OK
             then steps [text_line ''Directory read failed: '' (fat_status_name status), keyboard_log_event ''TERMOB: fatlspath failed''] s
             else steps [ls_summary True ctx, keyboard_log_event ''TERMOB: fatlspath ok''] s)"

definition shown_as_text :: "u8 \<Rightarrow> bool" where
  "shown_as_text c = (c \<ge> 32 \<and> c \<le> 126 \<or> c = 0x0A \<or> c = 0x0D \<or> c = 0x09)"

definition keyboard_write_filtered_file_bytes ::
  "u8 list \<Rightarrow> nat \<Rightarrow> 'a terminal_globals_scheme \<Rightarrow> 'a terminal_globals_scheme" where
  "keyboard_write_filtered_file_bytes buffer len s =
     fold (\<lambda>c. terminal_putchar (if shown_as_text c then char_of (unat c) else CHR ''.'')) (take len buffer) s"

definition keyboard_dump_bytes_hex_ascii ::
  "u8 list \<Rightarrow> nat \<Rightarrow> u32 \<Rightarrow> 'a terminal_globals_scheme \<Rightarrow> 'a terminal_globals_scheme" where
  "keyboard_dump_bytes_hex_ascii buffer len base_offset s =
     fold (\<lambda>offset. dump_line buffer len (base_offset + word_of_nat offset) offset) (line_offsets len) s"

definition keyboard_chunk_looks_text :: "u8 list \<Rightarrow> nat \<Rightarrow> bool" where
  "keyboard_chunk_looks_text buffer len =
     (let others = filter (\<lambda>c. \<not> shown_as_text c) (take len buffer)
      in 0 \<notin> set others \<and> length others * 100 \<le> len * 10)"

text \<open>The loop of \<open>fatcat\<close>; its result is the bytes shown and whether they ended a line, or \<open>None\<close> after an error message.\<close>

function keyboard_fat_cat_loop ::
  "termob_fat_file \<Rightarrow> nat \<Rightarrow> bool \<Rightarrow> 'a block_globals_scheme \<Rightarrow>
     (termob_fat_file \<times> nat \<times> bool) option \<times> 'a block_globals_scheme" where
  "keyboard_fat_cat_loop file total_read ended_with_newline s =
     (if total_read \<ge> KEYBOARD_FAT_CAT_MAX_BYTES then (Some (file, total_read, ended_with_newline), s)
      else
        let chunk_limit = min (KEYBOARD_FAT_CAT_MAX_BYTES - total_read) KEYBOARD_FAT_CAT_CHUNK_BYTES;
            (status, file, chunk, chunk_read, s) = fat_read_file file (Some (replicate 256 0)) chunk_limit s;
            bytes = the chunk
        in if chunk_read > 0 \<and> \<not> keyboard_chunk_looks_text bytes chunk_read
           then (None, steps
             [\<lambda>s. if \<not> ended_with_newline \<and> total_read > 0 then terminal_putchar NEWLINE s else s,
              terminal_writeline ''fatcat refused binary-looking data'',
              keyboard_log_event ''TERMOB: fatcat rejected binary-looking file''] s)
           else
             let (total_read', ended_with_newline, s) =
                   (if chunk_read > 0
                    then (total_read + chunk_read, byte_at bytes (chunk_read - 1) = 0x0A,
                          keyboard_write_filtered_file_bytes bytes chunk_read s)
                    else (total_read, ended_with_newline, s))
             in if status \<noteq> TERMOB_FAT_STATUS_OK
                then (None, steps
                  [\<lambda>s. if \<not> ended_with_newline then terminal_putchar NEWLINE s else s,
                   text_line ''Read failed: '' (fat_status_name status),
                   keyboard_log_event ''TERMOB: fatcat read failed''] s)
                else if chunk_read = 0 then (Some (file, total_read', ended_with_newline), s)
                else keyboard_fat_cat_loop file total_read' ended_with_newline s)"
  by pat_completeness auto

termination
  by (relation "measure (\<lambda>(file, total_read, ended_with_newline, s). KEYBOARD_FAT_CAT_MAX_BYTES - total_read)")
     (auto split: if_splits)

declare keyboard_fat_cat_loop.simps [simp del]

definition name_for_display :: "termob_fat_dirent \<Rightarrow> string" where
  "name_for_display d = (if de_has_long_name d then de_display_name d else de_short_name d)"

definition keyboard_fat_cat_command :: "u32 \<Rightarrow> u32 \<Rightarrow> string \<Rightarrow> 'a block_globals_scheme \<Rightarrow> 'a block_globals_scheme" where
  "keyboard_fat_cat_command device_index boot_lba path s =
     (case keyboard_fat_mount_from_shell device_index boot_lba s of
        (None, s) \<Rightarrow> keyboard_log_event ''TERMOB: fatcat mount failed'' s
      | (Some fs, s) \<Rightarrow>
          (case fat_open_file (Some fs) (Some path) s of
             (TERMOB_FAT_STATUS_OK, Some file, s) \<Rightarrow>
               let s = steps
                 [text_line ''FAT file '' (name_for_display (ff_dirent file)),
                  text_line ''Path        : '' path,
                  number_unit_line ''Size        : '' (de_size_bytes (ff_dirent file)) '' bytes''] s
               in (case keyboard_fat_cat_loop file 0 False s of
                     (None, s) \<Rightarrow> s
                   | (Some (file, total_read, ended_with_newline), s) \<Rightarrow> steps
                       [\<lambda>s. if total_read = 0 then terminal_writeline ''<empty>'' s
                           else if \<not> ended_with_newline then terminal_putchar NEWLINE s else s,
                        \<lambda>s. if ff_position file < de_size_bytes (ff_dirent file)
                           then terminal_writeline ''[output truncated]'' s else s,
                        keyboard_log_event ''TERMOB: fatcat ok''] s)
           | (status, _, s) \<Rightarrow>
               steps [text_line ''File open failed: '' (fat_status_name status), keyboard_log_event ''TERMOB: fatcat open failed''] s))"

definition keyboard_fat_read_command ::
  "u32 \<Rightarrow> u32 \<Rightarrow> string \<Rightarrow> u32 \<Rightarrow> u32 \<Rightarrow> 'a block_globals_scheme \<Rightarrow> 'a block_globals_scheme" where
  "keyboard_fat_read_command device_index boot_lba path offset count s =
     (if count = 0 \<or> count > KEYBOARD_FAT_READ_MAX_BYTES
      then number_line ''Count must be between 1 and '' KEYBOARD_FAT_READ_MAX_BYTES s
      else case keyboard_fat_mount_from_shell device_index boot_lba s of
        (None, s) \<Rightarrow> keyboard_log_event ''TERMOB: fatread mount failed'' s
      | (Some fs, s) \<Rightarrow>
          let (status, lookup, s) = fat_lookup_path (Some fs) (Some path) lookup_start s
          in if status \<noteq> TERMOB_FAT_STATUS_OK
             then steps [text_line ''Path lookup failed: '' (fat_status_name status), keyboard_log_event ''TERMOB: fatread lookup failed''] s
             else
               let d = the (lr_dirent lookup)
               in if lr_is_root lookup \<or> de_kind d \<noteq> TERMOB_FAT_DIRENT_FILE
                  then steps [terminal_writeline ''Target is not a file'', keyboard_log_event ''TERMOB: fatread target not file''] s
                  else
                    let (status, buffer, read_bytes, s) =
                          fat_read_file_range (Some fs) (Some path) offset (Some (replicate 1024 0)) (unat count) s
                    in if status \<noteq> TERMOB_FAT_STATUS_OK
                       then steps [text_line ''Read failed: '' (fat_status_name status), keyboard_log_event ''TERMOB: fatread failed''] s
                       else steps
                         [text_line ''FAT read     : '' (name_for_display d),
                          text_line ''Path         : '' path,
                          number_line ''Offset       : '' offset,
                          number_line ''Bytes        : '' (word_of_nat read_bytes),
                          \<lambda>s. if read_bytes = 0 then terminal_writeline ''<eof>'' s
                              else keyboard_dump_bytes_hex_ascii (the buffer) read_bytes offset s,
                          keyboard_log_event ''TERMOB: fatread ok''] s)"

definition keyboard_fat_ls_target_command :: "u32 \<Rightarrow> u32 \<Rightarrow> string option \<Rightarrow> 'a block_globals_scheme \<Rightarrow> 'a block_globals_scheme" where
  "keyboard_fat_ls_target_command device_index boot_lba path s =
     (case keyboard_fat_mount_from_shell device_index boot_lba s of
        (None, s) \<Rightarrow> keyboard_log_event ''TERMOB: ls mount failed'' s
      | (Some fs, s) \<Rightarrow>
          let path = (case path of Some p \<Rightarrow> p | None \<Rightarrow> ''/'');
              (status, ctx, s) = fat_list_path (Some fs) (Some path) (Some keyboard_fat_ls_callback) ls_start
                                   (text_line ''Listing path : '' path s)
          in if status \<noteq> TERMOB_FAT_STATUS_OK
             then steps [text_line ''Directory read failed: '' (fat_status_name status), keyboard_log_event ''TERMOB: ls failed''] s
             else steps [ls_summary False ctx, keyboard_log_event ''TERMOB: ls ok''] s)"

end
