(* ===== verification/Keyboard_Shell.thy ===== *)
theory Keyboard_Shell
  imports Keyboard_Disk
begin

unbundle bit_operations_syntax

text \<open>
  The commands of the shell and their dispatch (\<^verbatim>\<open>drivers/keyboard.c\<close>). A command may return, halt the
  machine, or wait for ever for a device: its result is \<open>Some (Inr s)\<close>, \<open>Some (Inl s)\<close> with the state in
  which the processor stopped, or \<open>None\<close>. The handler of each branch includes the prompt that the
  branch ends with.
\<close>

type_synonym 's command_result = "('s + 's) option"

section \<open>Tables\<close>

record keyboard_help_entry =
  help_category :: string
  help_summary :: string

record keyboard_usage_entry =
  usage_command :: string
  usage_text :: string

definition keyboard_help_entries :: "keyboard_help_entry list" where
  "keyboard_help_entries = map (\<lambda>(c, t). \<lparr>help_category = c, help_summary = t\<rparr>)
     [(''General'', ''help  clear  echo <text>''),
      ('''', ''beep  melody''),
      (''System'', ''dashboard  sysview  sched  info''),
      ('''', ''status  perf  uname  version''),
      ('''', ''about  uptime  ticks''),
      (''Memory'', ''meminfo  heapinfo  heapcheck  heaptest''),
      ('''', ''pmminfo  paging  memmap''),
      (''Drivers'', ''lspci  drivers  virtio  vblk  lsblk''),
      ('''', ''mouse  audio  ac97  ac97tone''),
      (''Storage raw'', ''blkread0  blkread  blkreadn''),
      ('''', ''blksig  blkfind  bootchk''),
      (''FAT'', ''fatinfo  fatcheck  fatentry  fatchain''),
      ('''', ''fatstat  fatls  fatlsroot  fatlsdir''),
      ('''', ''ls  fatlookup  fatlspath''),
      ('''', ''fatcat  fatread''),
      (''Logs'', ''dmesg  logsize  clearlog''),
      (''Control'', ''halt  reboot  panic''),
      (''Keys'', ''Ctrl+C copy  Ctrl+V paste''),
      ('''', ''Ctrl+U clear  Ctrl+L redraw''),
      ('''', ''Left/Right move  Del delete''),
      ('''', ''PgUp/PgDn scroll shell'')]"

definition keyboard_usage_entries :: "keyboard_usage_entry list" where
  "keyboard_usage_entries = map (\<lambda>(c, t). \<lparr>usage_command = c, usage_text = t\<rparr>)
     [(''echo'', ''echo <text>''),
      (''blkread'', ''blkread <lba>  or  blkread <device> <lba>''),
      (''blkreadn'', ''blkreadn <device> <lba> <count>''),
      (''blksig'', ''blksig <device> <lba>''),
      (''blkfind'', ''blkfind <device> <lba> <count>''),
      (''bootchk'', ''bootchk <device> <lba>''),
      (''fatinfo'', ''fatinfo <device> <lba>''),
      (''fatcheck'', ''fatcheck <device> <lba>''),
      (''fatentry'', ''fatentry <device> <boot_lba> <cluster>''),
      (''fatchain'', ''fatchain <device> <boot_lba> <cluster>''),
      (''fatstat'', ''fatstat <device> <boot_lba>''),
      (''fatlsroot'', ''fatlsroot <device> <boot_lba>''),
      (''ls'', ''ls <device> <boot_lba> [</dir>]''),
      (''fatls'', ''fatls <device> <boot_lba>''),
      (''fatlsdir'', ''fatlsdir <device> <boot_lba> <cluster>''),
      (''fatlookup'', ''fatlookup <device> <boot_lba> </path>''),
      (''fatlspath'', ''fatlspath <device> <boot_lba> </dir>''),
      (''fatcat'', ''fatcat <device> <boot_lba> </file>''),
      (''fatread'', ''fatread <device> <boot_lba> </file> <offset> <count>'')]"

section \<open>The end of the machine\<close>

definition keyboard_write_uptime_value :: "'a timer_globals_scheme \<Rightarrow> 'a timer_globals_scheme" where
  "keyboard_write_uptime_value s =
     (let ticks = timer_get_ticks s;
          frequency = timer_get_frequency_hz;
          seconds = ticks div frequency;
          milliseconds = ((ticks mod frequency) * 1000) div frequency
      in steps
        [keyboard_write_u32 seconds, terminal_putchar CHR ''.'',
         \<lambda>s. if milliseconds < 100 then terminal_putchar CHR ''0'' s else s,
         \<lambda>s. if milliseconds < 10 then terminal_putchar CHR ''0'' s else s,
         keyboard_write_u32 milliseconds, terminal_write '' s''] s)"

text \<open>The state in which the processor halts, with interrupts disabled.\<close>

definition keyboard_halt_forever :: "'a keyboard_globals_scheme \<Rightarrow> 'a keyboard_globals_scheme" where
  "keyboard_halt_forever s = cpu_cli s"

primrec keyboard_reboot_wait :: "hardware \<Rightarrow> nat \<Rightarrow> 'a keyboard_globals_scheme \<Rightarrow> 'a keyboard_globals_scheme" where
  "keyboard_reboot_wait hw 0 s = s"
| "keyboard_reboot_wait hw (Suc timeout) s =
     (let (status, s) = keyboard_inb hw 0x64 s
      in if status AND 0x02 = 0 then s else keyboard_reboot_wait hw timeout s)"

definition keyboard_reboot_system :: "hardware \<Rightarrow> 'a keyboard_globals_scheme \<Rightarrow> 'a keyboard_globals_scheme" where
  "keyboard_reboot_system hw s =
     keyboard_halt_forever (keyboard_outb 0x64 0xFE (keyboard_reboot_wait hw 100000 (cpu_cli s)))"

section \<open>Panels of numbers\<close>

text \<open>A row whose text is assembled in the buffer \<^verbatim>\<open>line[80]\<close>, part by part.\<close>

definition text_part :: "string \<Rightarrow> 's \<Rightarrow> string \<Rightarrow> string" where
  "text_part txt s = keyboard_buffer_append_text 80 txt"

definition number_part :: "('s \<Rightarrow> u32) \<Rightarrow> 's \<Rightarrow> string \<Rightarrow> string" where
  "number_part f s = keyboard_buffer_append_u32 80 (f s)"

definition count_part :: "('s \<Rightarrow> nat) \<Rightarrow> 's \<Rightarrow> string \<Rightarrow> string" where
  "count_part f s = keyboard_buffer_append_u32 80 (word_of_nat (f s))"

definition hex_part :: "('s \<Rightarrow> u32) \<Rightarrow> 's \<Rightarrow> string \<Rightarrow> string" where
  "hex_part f s = keyboard_buffer_append_hex32 80 (f s)"

definition choice_part :: "('s \<Rightarrow> bool) \<Rightarrow> string \<Rightarrow> string \<Rightarrow> 's \<Rightarrow> string \<Rightarrow> string" where
  "choice_part f yes no s = keyboard_buffer_append_text 80 (if f s then yes else no)"

definition line_row ::
  "string \<Rightarrow> ('a terminal_globals_scheme \<Rightarrow> string \<Rightarrow> string) list \<Rightarrow> 'a terminal_globals_scheme \<Rightarrow> 'a terminal_globals_scheme" where
  "line_row label parts s = keyboard_panel_row label (fold (\<lambda>part. part s) parts []) s"

definition choice_row ::
  "string \<Rightarrow> ('a terminal_globals_scheme \<Rightarrow> bool) \<Rightarrow> string \<Rightarrow> string \<Rightarrow> 'a terminal_globals_scheme \<Rightarrow> 'a terminal_globals_scheme" where
  "choice_row label f yes no s = keyboard_panel_row label (if f s then yes else no) s"

definition panel_heading :: "string \<Rightarrow> 'a terminal_globals_scheme \<Rightarrow> 'a terminal_globals_scheme" where
  "panel_heading title = steps [keyboard_panel_border, keyboard_panel_title_row title, keyboard_panel_border]"

definition current_task_name :: "'a scheduler_globals_scheme \<Rightarrow> string" where
  "current_task_name s =
     (if scheduler_current_task s \<noteq> 0 then task_name (scheduler_tasks s (scheduler_current_task s)) else ''none'')"

definition keyboard_show_help :: "'a keyboard_globals_scheme \<Rightarrow> 'a keyboard_globals_scheme" where
  "keyboard_show_help = steps
     [panel_heading ''TERMOB SHELL COMMANDS'',
      fold (\<lambda>entry. keyboard_panel_row (help_category entry) (help_summary entry)) keyboard_help_entries,
      keyboard_panel_blank_row,
      keyboard_panel_row ''Discovery'' ''start with help, then status or meminfo'',
      keyboard_panel_row ''Note'' ''control commands act immediately'',
      keyboard_panel_border,
      terminal_setcolor VGA_COLOR_LIGHT_GREY VGA_COLOR_BLACK]"

definition keyboard_lookup_usage_hint :: "string \<Rightarrow> string option" where
  "keyboard_lookup_usage_hint command =
     map_option usage_text (find (\<lambda>entry. keyboard_streq command (usage_command entry)) keyboard_usage_entries)"

definition keyboard_show_dashboard :: "'a keyboard_globals_scheme \<Rightarrow> 'a keyboard_globals_scheme" where
  "keyboard_show_dashboard s =
     (let current_name = current_task_name s
      in steps
        [panel_heading ''TERMOB SYSTEM DASHBOARD'',
         keyboard_panel_row ''Kernel'' (TERMOB_KERNEL_NAME @ '' '' @ TERMOB_KERNEL_VERSION),
         line_row ''Profile'' [text_part TERMOB_KERNEL_ARCH, text_part ''  '', text_part TERMOB_KERNEL_PROFILE],
         line_row ''Runtime'' [keyboard_buffer_append_uptime 80, text_part ''  | ticks '', number_part timer_get_ticks],
         line_row ''Heap''
           [text_part ''heap '', number_part heap_bytes_used, text_part ''/'', number_part heap_bytes_total,
            text_part ''  freeblk '', number_part heap_free_block_count],
         line_row ''Memory''
           [text_part ''pmm free '', number_part pmm_free_frames, text_part ''  paging '', choice_part paging_is_enabled ''on'' ''off''],
         line_row ''Drivers''
           [text_part ''dev '', count_part device_count, text_part ''  drv '', count_part driver_count,
            text_part ''  pci '', count_part pci_device_count],
         line_row ''Storage''
           [text_part ''blk '', count_part block_device_count, text_part ''  virtio '', count_part virtio_logical_device_count],
         keyboard_panel_row ''FAT'' ''read-only tools ready: fatstat fatls fatcat'',
         line_row ''Audio''
           [text_part ''speaker '', choice_part sound_is_initialized ''on'' ''off'',
            text_part ''  ac97 '', choice_part audio_ac97_is_ready ''ready'' ''off''],
         line_row ''Mouse''
           [choice_part mouse_is_initialized ''ps/2 on'' ''ps/2 off'', text_part ''  wheel '', choice_part mouse_has_wheel ''yes'' ''no''],
         line_row ''Sched''
           [text_part ''tasks '', number_part scheduler_task_count, text_part ''  ready '', number_part scheduler_ready_task_count,
            text_part ''  slice '', number_part (\<lambda>s. scheduler_timeslice_ticks)],
         line_row ''Threads''
           [text_part ''house '', number_part kernel_housekeeping_run_count, text_part ''  tele '', number_part kernel_telemetry_run_count],
         keyboard_panel_row ''Current'' current_name,
         line_row ''Trace'' [text_part ''klog '', count_part klog_size, text_part '' bytes''],
         keyboard_panel_border] s)"

section \<open>Commands without arguments\<close>

definition keyboard_info_command :: "'a keyboard_globals_scheme \<Rightarrow> 'a keyboard_globals_scheme" where
  "keyboard_info_command = steps
     [terminal_writeline (''Architecture : '' @ TERMOB_KERNEL_ARCH),
      terminal_writeline (''Profile      : '' @ TERMOB_KERNEL_PROFILE),
      terminal_writeline ''Display Mode : VGA Text 80x25'',
      terminal_writeline ''Kernel State : Running'',
      number_unit_line ''Timer        : PIT '' timer_get_frequency_hz '' Hz'',
      terminal_writeline ''Monitor      : live footer runtime metrics enabled'',
      text_line ''Support      : '' TERMOB_KERNEL_SUPPORT_EMAIL]"

definition keyboard_perf_command :: "'a keyboard_globals_scheme \<Rightarrow> 'a keyboard_globals_scheme" where
  "keyboard_perf_command = steps
     [panel_heading ''PERFORMANCE SNAPSHOT'',
      line_row ''Uptime'' [keyboard_buffer_append_uptime 80],
      line_row ''Heap'' [text_part ''used '', number_part heap_bytes_used, text_part ''  free '', number_part heap_bytes_free],
      line_row ''PMM'' [text_part ''free '', number_part pmm_free_frames, text_part '' frames''],
      line_row ''Device'' [text_part ''total '', count_part device_count, text_part ''  pci '', count_part pci_device_count],
      line_row ''Input''
        [text_part ''drops '', number_part keyboard_scancode_dropped, text_part ''  mouse irq '', number_part mouse_irq_count],
      choice_row ''Sound'' sound_is_initialized ''PC speaker online'' ''offline'',
      keyboard_panel_border]"

definition keyboard_status_command :: "'a keyboard_globals_scheme \<Rightarrow> 'a keyboard_globals_scheme" where
  "keyboard_status_command = steps
     [panel_heading ''KERNEL RUNTIME STATUS'',
      keyboard_panel_row ''State'' ''running'',
      line_row ''Clock''
        [keyboard_buffer_append_uptime 80, text_part ''  | PIT '', number_part (\<lambda>s. timer_get_frequency_hz), text_part '' Hz''],
      line_row ''Trace'' [text_part ''ticks '', number_part timer_get_ticks, text_part ''  log '', count_part klog_size],
      choice_row ''Serial'' serial_is_enabled ''COM1 online'' ''offline'',
      line_row ''Heap'' [text_part ''used '', number_part heap_bytes_used, text_part ''  free '', number_part heap_bytes_free],
      line_row ''Memory''
        [text_part ''free '', number_part pmm_free_frames, text_part ''  paging '', choice_part paging_is_enabled ''on'' ''off''],
      line_row ''Model'' [text_part ''dev '', count_part device_count, text_part ''  drv '', count_part driver_count],
      line_row ''Bus''
        [text_part ''pci '', count_part pci_device_count, text_part ''  virtio '', count_part virtio_logical_device_count,
         text_part ''  vblk '', count_part virtio_blk_bound_device_count],
      line_row ''Store''
        [text_part ''blk '', count_part block_device_count, text_part ''  layer '', choice_part block_is_initialized ''on'' ''off''],
      line_row ''Input''
        [text_part ''kbd drops '', number_part keyboard_scancode_dropped, text_part ''  mouse '',
         \<lambda>s. text_part (if mouse_is_initialized s then if mouse_has_wheel s then ''wheel'' else ''ps/2'' else ''off'') s],
      line_row ''Sched''
        [text_part ''tasks '', number_part scheduler_task_count, text_part ''  current '', \<lambda>s. text_part (current_task_name s) s],
      line_row ''Threads''
        [text_part ''house '', number_part kernel_housekeeping_run_count, text_part ''  tele '', number_part kernel_telemetry_run_count],
      choice_row ''Sound'' sound_is_initialized ''PC speaker online'' ''offline'',
      keyboard_panel_border]"

definition keyboard_meminfo_command :: "'a keyboard_globals_scheme \<Rightarrow> 'a keyboard_globals_scheme" where
  "keyboard_meminfo_command = steps
     [panel_heading ''MEMORY OVERVIEW'',
      choice_row ''Heap'' heap_is_initialized ''ready'' ''offline'',
      line_row ''Layout'' [text_part ''base '', hex_part heap_start_address, text_part ''  limit '', hex_part heap_end_address],
      line_row ''Usage''
        [text_part ''total '', number_part heap_bytes_total, text_part ''  used '', number_part heap_bytes_used,
         text_part ''  free '', number_part heap_bytes_free],
      line_row ''Free list''
        [text_part ''free blocks '', number_part heap_free_block_count, text_part ''  largest '', number_part heap_largest_free_block],
      line_row ''Boot''
        [text_part ''map '', choice_part bootinfo_is_valid ''ready'' ''off'', text_part ''  pmm '', choice_part pmm_is_initialized ''ready'' ''off''],
      line_row ''Usable'' [number_part bootinfo_usable_memory_bytes, text_part '' bytes''],
      line_row ''Highest'' [text_part ''top '', hex_part bootinfo_highest_usable_address],
      line_row ''Frames''
        [text_part ''total '', number_part pmm_total_frames, text_part ''  free '', number_part pmm_free_frames,
         text_part ''  used '', number_part pmm_used_frames],
      line_row ''Bitmap'' [number_part pmm_bitmap_bytes, text_part '' bytes''],
      keyboard_panel_blank_row,
      choice_row ''Paging'' paging_is_enabled ''enabled'' ''offline'',
      line_row ''Dir'' [hex_part paging_directory_physical_address],
      line_row ''Mapped'' [number_part paging_identity_mapped_bytes, text_part '' bytes''],
      keyboard_panel_border]"

definition keyboard_heapinfo_command :: "'a keyboard_globals_scheme \<Rightarrow> 'a keyboard_globals_scheme" where
  "keyboard_heapinfo_command = steps
     [panel_heading ''HEAP DIAGNOSTICS'',
      choice_row ''Heap'' heap_is_initialized ''ready'' ''offline'',
      \<lambda>s. (let (clean, s) = heap_integrity_status s
           in keyboard_panel_row ''Integrity'' (if clean then ''clean'' else ''corrupt or suspect'') s),
      line_row ''Region'' [text_part ''base '', hex_part heap_start_address, text_part ''  limit '', hex_part heap_end_address],
      line_row ''Bytes''
        [text_part ''total '', number_part heap_bytes_total, text_part ''  used '', number_part heap_bytes_used,
         text_part ''  free '', number_part heap_bytes_free],
      line_row ''Blocks''
        [text_part ''total '', number_part heap_total_block_count, text_part ''  used '', number_part heap_used_block_count,
         text_part ''  free '', number_part heap_free_block_count],
      line_row ''Largest'' [text_part ''largest '', number_part heap_largest_free_block, text_part '' bytes''],
      line_row ''Errors'' [text_part ''count '', number_part heap_error_count, text_part ''  flags '', hex_part heap_error_flags],
      \<lambda>s. keyboard_panel_row ''Last'' (heap_last_error_message s) s,
      keyboard_panel_border]"

definition keyboard_paging_command :: "'a keyboard_globals_scheme \<Rightarrow> 'a keyboard_globals_scheme" where
  "keyboard_paging_command s = steps
     [terminal_writeline ''Paging subsystem:'',
      text_line ''  State      : '' (if paging_is_enabled s then ''Enabled'' else ''Offline''),
      terminal_write ''  Directory  : '', keyboard_write_hex32 (paging_directory_physical_address s), terminal_putchar NEWLINE,
      number_unit_line ''  Tables     : '' (paging_table_count s) '' tables'',
      number_unit_line ''  Page size  : '' paging_page_size_bytes '' bytes'',
      number_unit_line ''  Identity   : '' (paging_identity_mapped_bytes s) '' bytes''] s"

definition keyboard_pmminfo_command :: "'a keyboard_globals_scheme \<Rightarrow> 'a keyboard_globals_scheme" where
  "keyboard_pmminfo_command s = steps
     [terminal_writeline ''Physical frame allocator:'',
      text_line ''  State      : '' (if pmm_is_initialized s then ''Ready'' else ''Offline''),
      number_unit_line ''  Frame size : '' pmm_frame_size '' bytes'',
      number_unit_line ''  Total      : '' (pmm_total_frames s) '' frames'',
      number_unit_line ''  Free       : '' (pmm_free_frames s) '' frames'',
      number_unit_line ''  Used       : '' (pmm_used_frames s) '' frames'',
      number_unit_line ''  Bitmap     : '' (pmm_bitmap_bytes s) '' bytes''] s"

definition keyboard_heapcheck_command :: "'a keyboard_globals_scheme \<Rightarrow> 'a keyboard_globals_scheme" where
  "keyboard_heapcheck_command s =
     (let (ok, s) = heap_check_integrity (terminal_write ''Heap check   : '' s)
      in steps
        [terminal_writeline (if ok then ''ok'' else ''failed''),
         number_line ''Used blocks  : '' (heap_used_block_count s),
         number_line ''Free blocks  : '' (heap_free_block_count s),
         number_unit_line ''Largest free : '' (heap_largest_free_block s) '' bytes'',
         number_line ''Errors seen  : '' (heap_error_count s),
         text_line ''Last error   : '' (heap_last_error_message s)] s)"

definition keyboard_heaptest_command :: "'a keyboard_globals_scheme \<Rightarrow> 'a keyboard_globals_scheme option" where
  "keyboard_heaptest_command s = do {
     (ok, s) \<leftarrow> heap_run_self_test
       (terminal_write ''Heap selftest: '' (terminal_writeline ''Running heap self-test...'' s));
     Some (terminal_writeline (if ok then ''ok'' else ''failed'') s)
   }"

text \<open>The loop over the memory map ends at the first index without a range, which the count bounds.\<close>

primrec keyboard_memmap_loop :: "nat \<Rightarrow> nat \<Rightarrow> 'a keyboard_globals_scheme \<Rightarrow> 'a keyboard_globals_scheme" where
  "keyboard_memmap_loop 0 range_index s = s"
| "keyboard_memmap_loop (Suc n) range_index s =
     (case bootinfo_memory_range_at range_index s of
        None \<Rightarrow> s
      | Some r \<Rightarrow> keyboard_memmap_loop n (range_index + 1)
          (steps
            [keyboard_write_hex32 (br_base_addr r), terminal_write '' - '',
             keyboard_write_hex32 (br_base_addr r + br_length r), terminal_write ''  '',
             terminal_writeline (keyboard_memory_type_name (br_type r))] s))"

definition keyboard_memmap_command :: "'a keyboard_globals_scheme \<Rightarrow> 'a keyboard_globals_scheme" where
  "keyboard_memmap_command s =
     keyboard_memmap_loop (bootinfo_memory_range_count s) 0
       (number_line ''  Entries    : '' (word_of_nat (bootinfo_memory_range_count s))
         (terminal_writeline ''Multiboot2 memory map:'' s))"

definition keyboard_sound_command :: "'a keyboard_globals_scheme \<Rightarrow> 'a keyboard_globals_scheme" where
  "keyboard_sound_command = steps
     [panel_heading ''SOUND SUBSYSTEM'',
      choice_row ''State'' sound_is_initialized ''PC speaker online'' ''offline'',
      keyboard_panel_row ''Backend'' ''PIT channel 2 + speaker port 0x61'',
      keyboard_panel_row ''Quality'' ''PC speaker live + AC'97 PCM test tone'',
      keyboard_panel_row ''Beep'' ''880 Hz / 350 ms via beep'',
      keyboard_panel_row ''Melody'' ''test theme via melody'',
      keyboard_panel_row ''AC97'' ''run-ac97 + ac97tone for PCM path'',
      keyboard_panel_row ''Host'' ''SDL default via make run'',
      keyboard_panel_row ''Proof'' ''make audio-proof writes build/termob-speaker.wav'',
      keyboard_panel_border]"

definition keyboard_ac97tone_command :: "hardware \<Rightarrow> 'a keyboard_globals_scheme \<Rightarrow> 'a keyboard_globals_scheme option" where
  "keyboard_ac97tone_command hw s = do {
     (ok, s) \<leftarrow> audio_ac97_play_test_tone hw (terminal_writeline ''Playing AC'97 PCM test tone...'' s);
     Some (if \<not> ok then terminal_writeline ''AC'97 PCM test tone unavailable'' s else s)
   }"

definition keyboard_uname_command :: "'a keyboard_globals_scheme \<Rightarrow> 'a keyboard_globals_scheme" where
  "keyboard_uname_command = steps
     [terminal_write TERMOB_KERNEL_NAME, terminal_write '' '', terminal_write TERMOB_KERNEL_VERSION, terminal_write '' '',
      terminal_write TERMOB_KERNEL_ARCH, terminal_write '' '', terminal_writeline TERMOB_KERNEL_PROFILE]"

section \<open>Commands with arguments\<close>

text \<open>Two or three numbers, and then nothing, or a path.\<close>

definition two_numbers ::
  "string \<Rightarrow> string \<Rightarrow> (u32 \<Rightarrow> u32 \<Rightarrow> 'a keyboard_globals_scheme \<Rightarrow> 'a keyboard_globals_scheme) \<Rightarrow>
     'a keyboard_globals_scheme \<Rightarrow> 'a keyboard_globals_scheme" where
  "two_numbers args usage run s =
     (case keyboard_parse_u32_token args of
        None \<Rightarrow> keyboard_shell_usage_and_prompt usage s
      | Some (device_index, next_arg) \<Rightarrow>
          (case keyboard_parse_u32_token next_arg of
             None \<Rightarrow> keyboard_shell_usage_and_prompt usage s
           | Some (lba, next_arg) \<Rightarrow>
               if keyboard_skip_spaces next_arg \<noteq> [] then keyboard_shell_usage_and_prompt usage s
               else keyboard_shell_prompt_fresh (run device_index lba s)))"

definition three_numbers ::
  "string \<Rightarrow> string \<Rightarrow> (u32 \<Rightarrow> u32 \<Rightarrow> u32 \<Rightarrow> 'a keyboard_globals_scheme \<Rightarrow> 'a keyboard_globals_scheme) \<Rightarrow>
     'a keyboard_globals_scheme \<Rightarrow> 'a keyboard_globals_scheme" where
  "three_numbers args usage run s =
     (case keyboard_parse_u32_token args of
        None \<Rightarrow> keyboard_shell_usage_and_prompt usage s
      | Some (device_index, next_arg) \<Rightarrow>
          (case keyboard_parse_u32_token next_arg of
             None \<Rightarrow> keyboard_shell_usage_and_prompt usage s
           | Some (lba, next_arg) \<Rightarrow>
               (case keyboard_parse_u32_token next_arg of
                  None \<Rightarrow> keyboard_shell_usage_and_prompt usage s
                | Some (count, next_arg) \<Rightarrow>
                    if keyboard_skip_spaces next_arg \<noteq> [] then keyboard_shell_usage_and_prompt usage s
                    else keyboard_shell_prompt_fresh (run device_index lba count s))))"

definition numbers_and_path ::
  "string \<Rightarrow> string \<Rightarrow> (u32 \<Rightarrow> u32 \<Rightarrow> string \<Rightarrow> 'a keyboard_globals_scheme \<Rightarrow> 'a keyboard_globals_scheme) \<Rightarrow>
     'a keyboard_globals_scheme \<Rightarrow> 'a keyboard_globals_scheme" where
  "numbers_and_path args usage run s =
     (case keyboard_parse_u32_token args of
        None \<Rightarrow> keyboard_shell_usage_and_prompt usage s
      | Some (device_index, next_arg) \<Rightarrow>
          (case keyboard_parse_u32_token next_arg of
             None \<Rightarrow> keyboard_shell_usage_and_prompt usage s
           | Some (boot_lba, next_arg) \<Rightarrow>
               if keyboard_skip_spaces next_arg = [] then keyboard_shell_usage_and_prompt usage s
               else keyboard_shell_prompt_fresh (run device_index boot_lba (keyboard_skip_spaces next_arg) s)))"

definition keyboard_blkread_command :: "string \<Rightarrow> 'a keyboard_globals_scheme \<Rightarrow> 'a keyboard_globals_scheme" where
  "keyboard_blkread_command args s =
     (let usage = keyboard_shell_usage_and_prompt ''blkread <lba>  or  blkread <device> <lba>'' s
      in case keyboard_parse_u32_token args of
           None \<Rightarrow> usage
         | Some (first_value, next_arg) \<Rightarrow>
             (let next_arg = keyboard_skip_spaces next_arg
              in if next_arg = []
                 then keyboard_shell_prompt_fresh (snd (keyboard_block_read_preview 0 first_value 1 s))
                 else case keyboard_parse_u32_token next_arg of
                        None \<Rightarrow> usage
                      | Some (second_value, next_arg) \<Rightarrow>
                          if keyboard_skip_spaces next_arg \<noteq> [] then usage
                          else keyboard_shell_prompt_fresh
                                 (snd (keyboard_block_read_preview first_value second_value 1 s))))"

definition keyboard_fatstat_command :: "u32 \<Rightarrow> u32 \<Rightarrow> 'a keyboard_globals_scheme \<Rightarrow> 'a keyboard_globals_scheme" where
  "keyboard_fatstat_command device_index boot_lba s =
     (case keyboard_fat_mount_from_shell device_index boot_lba s of
        (None, s) \<Rightarrow> keyboard_log_event ''TERMOB: fatstat failed'' s
      | (Some fs, s) \<Rightarrow> keyboard_log_event ''TERMOB: fatstat ok'' (keyboard_fat_print_stat fs s))"

definition keyboard_ls_command :: "string \<Rightarrow> 'a keyboard_globals_scheme \<Rightarrow> 'a keyboard_globals_scheme" where
  "keyboard_ls_command args s =
     (let usage = keyboard_shell_usage_and_prompt ''ls <device> <boot_lba> [</dir>]'' s
      in case keyboard_parse_u32_token args of
           None \<Rightarrow> usage
         | Some (device_index, next_arg) \<Rightarrow>
             (case keyboard_parse_u32_token next_arg of
                None \<Rightarrow> usage
              | Some (boot_lba, next_arg) \<Rightarrow>
                  let next_arg = keyboard_skip_spaces next_arg
                  in keyboard_shell_prompt_fresh
                       (keyboard_fat_ls_target_command device_index boot_lba
                         (if next_arg = [] then Some ''/'' else Some next_arg) s)))"

text \<open>The last two words of the line are the offset and the count; the rest, from the slash on, is the path.\<close>

definition split_fatread :: "string \<Rightarrow> (u32 \<times> u32 \<times> nat) option" where
  "split_fatread rest = do {
     let e = keyboard_skip_spaces_backwards rest (keyboard_strlen rest);
     let count_start = keyboard_find_token_start_backwards rest e;
     count \<leftarrow> keyboard_parse_u32_span rest count_start e;
     let offset_end = keyboard_skip_spaces_backwards rest count_start;
     let offset_start = keyboard_find_token_start_backwards rest offset_end;
     offset \<leftarrow> keyboard_parse_u32_span rest offset_start offset_end;
     Some (offset, count, keyboard_skip_spaces_backwards rest offset_start)
   }"

definition keyboard_fatread_command :: "string \<Rightarrow> 'a keyboard_globals_scheme \<Rightarrow> 'a keyboard_globals_scheme" where
  "keyboard_fatread_command args s =
     (let usage = keyboard_shell_usage_and_prompt ''fatread <device> <boot_lba> </file> <offset> <count>'' s
      in case keyboard_parse_u32_token args of
           None \<Rightarrow> usage
         | Some (device_index, next_arg) \<Rightarrow>
             (case keyboard_parse_u32_token next_arg of
                None \<Rightarrow> usage
              | Some (boot_lba, next_arg) \<Rightarrow>
                  let rest = keyboard_skip_spaces next_arg
                  in if rest = [] \<or> hd rest \<noteq> CHR ''/'' then usage
                     else case split_fatread rest of
                            None \<Rightarrow> usage
                          | Some (offset, count, path_length) \<Rightarrow>
                              if path_length = 0 \<or> path_length \<ge> KEYBOARD_MAX_INPUT
                              then keyboard_shell_prompt_fresh (keyboard_shell_print_error ''path too long'' s)
                              else keyboard_shell_prompt_fresh
                                (keyboard_fat_read_command device_index boot_lba (take path_length rest) offset count s)))"

end
