(* ===== verification/Keyboard.thy ===== *)
theory Keyboard
  imports Keyboard_Shell
begin

unbundle bit_operations_syntax

text \<open>
  The dispatch of shell commands and the decoding of scancodes (the last part of \<^verbatim>\<open>drivers/keyboard.c\<close>),
  with the handler of the keyboard interrupt (\<^verbatim>\<open>core/irq.c\<close>). The interrupt fills a ring of scancodes; the
  main loop drains it and decodes them one by one.
\<close>

abbreviation (input) KEYBOARD_CTRL_SCANCODE :: u8 where "KEYBOARD_CTRL_SCANCODE \<equiv> 0x1D"
abbreviation (input) KEYBOARD_LEFT_SHIFT_SCANCODE :: u8 where "KEYBOARD_LEFT_SHIFT_SCANCODE \<equiv> 0x2A"
abbreviation (input) KEYBOARD_RIGHT_SHIFT_SCANCODE :: u8 where "KEYBOARD_RIGHT_SHIFT_SCANCODE \<equiv> 0x36"
abbreviation (input) KEYBOARD_CAPS_LOCK_SCANCODE :: u8 where "KEYBOARD_CAPS_LOCK_SCANCODE \<equiv> 0x3A"
abbreviation (input) KEYBOARD_EXTENDED_SCANCODE_PREFIX :: u8 where "KEYBOARD_EXTENDED_SCANCODE_PREFIX \<equiv> 0xE0"
abbreviation (input) KEYBOARD_LEFT_ARROW_SCANCODE :: u8 where "KEYBOARD_LEFT_ARROW_SCANCODE \<equiv> 0x4B"
abbreviation (input) KEYBOARD_RIGHT_ARROW_SCANCODE :: u8 where "KEYBOARD_RIGHT_ARROW_SCANCODE \<equiv> 0x4D"
abbreviation (input) KEYBOARD_PAGE_UP_SCANCODE :: u8 where "KEYBOARD_PAGE_UP_SCANCODE \<equiv> 0x49"
abbreviation (input) KEYBOARD_PAGE_DOWN_SCANCODE :: u8 where "KEYBOARD_PAGE_DOWN_SCANCODE \<equiv> 0x51"
abbreviation (input) KEYBOARD_DELETE_SCANCODE :: u8 where "KEYBOARD_DELETE_SCANCODE \<equiv> 0x53"
abbreviation (input) KEYBOARD_C_SCANCODE :: u8 where "KEYBOARD_C_SCANCODE \<equiv> 0x2E"
abbreviation (input) KEYBOARD_L_SCANCODE :: u8 where "KEYBOARD_L_SCANCODE \<equiv> 0x26"
abbreviation (input) KEYBOARD_U_SCANCODE :: u8 where "KEYBOARD_U_SCANCODE \<equiv> 0x16"
abbreviation (input) KEYBOARD_V_SCANCODE :: u8 where "KEYBOARD_V_SCANCODE \<equiv> 0x2F"

section \<open>The dispatch of commands\<close>

text \<open>How a branch ends: with the prompt, without it, or never.\<close>

definition returns :: "'s \<Rightarrow> 's command_result" where
  "returns s = Some (Inr s)"

definition then_prompt :: "'a keyboard_globals_scheme \<Rightarrow> 'a keyboard_globals_scheme command_result" where
  "then_prompt s = returns (keyboard_shell_prompt_fresh s)"

definition halts :: "'s \<Rightarrow> 's command_result" where
  "halts s = Some (Inl s)"

text \<open>The branches for lines with arguments, in the order of the source; \<open>None\<close> when no prefix fits.\<close>

definition keyboard_storage_command ::
  "string \<Rightarrow> 'a keyboard_globals_scheme \<Rightarrow> 'a keyboard_globals_scheme option" where
  "keyboard_storage_command cmd s =
     (if keyboard_startswith cmd ''blkread '' then Some (keyboard_blkread_command (drop 8 cmd) s)
      else if keyboard_startswith cmd ''blkreadn ''
      then Some (three_numbers (drop 9 cmd) ''blkreadn <device> <lba> <count>'' (\<lambda>d l n s. snd (keyboard_block_read_preview d l n s)) s)
      else if keyboard_startswith cmd ''blksig ''
      then Some (two_numbers (drop 7 cmd) ''blksig <device> <lba>'' keyboard_block_signature_preview s)
      else if keyboard_startswith cmd ''blkfind ''
      then Some (three_numbers (drop 8 cmd) ''blkfind <device> <lba> <count>'' keyboard_block_find_signatures s)
      else if keyboard_startswith cmd ''bootchk ''
      then Some (two_numbers (drop 8 cmd) ''bootchk <device> <lba>'' keyboard_boot_sector_check s)
      else if keyboard_startswith cmd ''fatinfo ''
      then Some (two_numbers (drop 8 cmd) ''fatinfo <device> <lba>'' keyboard_fat_info_dump s)
      else if keyboard_startswith cmd ''fatcheck ''
      then Some (two_numbers (drop 9 cmd) ''fatcheck <device> <lba>'' keyboard_fat_check s)
      else if keyboard_startswith cmd ''fatentry ''
      then Some (three_numbers (drop 9 cmd) ''fatentry <device> <boot_lba> <cluster>'' keyboard_fat_entry_dump s)
      else if keyboard_startswith cmd ''fatchain ''
      then Some (three_numbers (drop 9 cmd) ''fatchain <device> <boot_lba> <cluster>'' keyboard_fat_chain_dump s)
      else if keyboard_startswith cmd ''fatstat ''
      then Some (two_numbers (drop 8 cmd) ''fatstat <device> <boot_lba>'' keyboard_fatstat_command s)
      else if keyboard_startswith cmd ''fatlsroot ''
      then Some (two_numbers (drop 10 cmd) ''fatlsroot <device> <boot_lba>'' keyboard_fat_ls_root_command s)
      else if keyboard_startswith cmd ''ls '' then Some (keyboard_ls_command (drop 3 cmd) s)
      else if keyboard_startswith cmd ''fatls ''
      then Some (two_numbers (drop 6 cmd) ''fatls <device> <boot_lba>'' keyboard_fat_ls_root_command s)
      else if keyboard_startswith cmd ''fatlsdir ''
      then Some (three_numbers (drop 9 cmd) ''fatlsdir <device> <boot_lba> <cluster>'' keyboard_fat_ls_directory_command s)
      else if keyboard_startswith cmd ''fatlookup ''
      then Some (numbers_and_path (drop 10 cmd) ''fatlookup <device> <boot_lba> </path>'' keyboard_fat_lookup_command s)
      else if keyboard_startswith cmd ''fatlspath ''
      then Some (numbers_and_path (drop 10 cmd) ''fatlspath <device> <boot_lba> </dir>'' keyboard_fat_ls_path_command s)
      else if keyboard_startswith cmd ''fatcat ''
      then Some (numbers_and_path (drop 7 cmd) ''fatcat <device> <boot_lba> </file>'' keyboard_fat_cat_command s)
      else if keyboard_startswith cmd ''fatread '' then Some (keyboard_fatread_command (drop 8 cmd) s)
      else None)"

text \<open>The branches before those and after those.\<close>

definition keyboard_overview_command ::
  "string \<Rightarrow> 'a keyboard_globals_scheme \<Rightarrow> 'a keyboard_globals_scheme command_result option" where
  "keyboard_overview_command cmd s =
     (if keyboard_streq cmd ''help'' then Some (then_prompt (keyboard_show_help s))
      else if keyboard_streq cmd ''dashboard'' \<or> keyboard_streq cmd ''sysview'' then Some (then_prompt (keyboard_show_dashboard s))
      else if keyboard_streq cmd ''sched'' then Some (then_prompt (scheduler_dump_to_terminal s))
      else if keyboard_streq cmd ''clear''
      then Some (returns (steps [kernel_draw_ui, keyboard_reset_input_buffer, keyboard_shell_capture_prompt_anchor] s))
      else if keyboard_streq cmd ''info'' then Some (then_prompt (keyboard_info_command s))
      else if keyboard_streq cmd ''perf'' then Some (then_prompt (keyboard_perf_command s))
      else if keyboard_streq cmd ''status'' then Some (then_prompt (keyboard_status_command s))
      else if keyboard_streq cmd ''meminfo'' then Some (then_prompt (keyboard_meminfo_command s))
      else if keyboard_streq cmd ''heapinfo'' then Some (then_prompt (keyboard_heapinfo_command s))
      else if keyboard_streq cmd ''paging'' then Some (then_prompt (keyboard_paging_command s))
      else if keyboard_streq cmd ''pmminfo'' then Some (then_prompt (keyboard_pmminfo_command s))
      else if keyboard_streq cmd ''heapcheck'' then Some (then_prompt (keyboard_heapcheck_command s))
      else if keyboard_streq cmd ''heaptest'' then Some (Option.bind (keyboard_heaptest_command s) then_prompt)
      else if keyboard_streq cmd ''memmap'' then Some (then_prompt (keyboard_memmap_command s))
      else if keyboard_streq cmd ''lspci'' then Some (then_prompt (pci_dump_to_terminal s))
      else if keyboard_streq cmd ''drivers'' then Some (then_prompt (device_dump_to_terminal s))
      else if keyboard_streq cmd ''mouse'' then Some (then_prompt (mouse_dump_to_terminal s))
      else if keyboard_streq cmd ''virtio'' then Some (then_prompt (virtio_dump_to_terminal s))
      else if keyboard_streq cmd ''vblk'' then Some (then_prompt (virtio_blk_dump_to_terminal s))
      else if keyboard_streq cmd ''lsblk'' then Some (Option.bind (block_dump_to_terminal s) then_prompt)
      else if keyboard_streq cmd ''blkread0'' then Some (then_prompt (snd (keyboard_block_read_preview 0 0 1 s)))
      else None)"

definition keyboard_device_command ::
  "hardware \<Rightarrow> string \<Rightarrow> 'a keyboard_globals_scheme \<Rightarrow> 'a keyboard_globals_scheme command_result" where
  "keyboard_device_command hw cmd s =
     (if keyboard_streq cmd ''sound'' then then_prompt (keyboard_sound_command s)
      else if keyboard_streq cmd ''audio'' then then_prompt (audio_dump_to_terminal s)
      else if keyboard_streq cmd ''ac97'' then then_prompt (audio_dump_ac97_to_terminal hw s)
      else if keyboard_streq cmd ''ac97tone'' then Option.bind (keyboard_ac97tone_command hw s) then_prompt
      else if keyboard_streq cmd ''uname'' then then_prompt (keyboard_uname_command s)
      else if keyboard_streq cmd ''version''
      then then_prompt (terminal_writeline (TERMOB_KERNEL_NAME @ '' '' @ TERMOB_KERNEL_VERSION) s)
      else if keyboard_streq cmd ''about''
      then then_prompt (steps
        [terminal_writeline ''TERMOB OS Project'', terminal_writeline ''Custom monolithic kernel'',
         terminal_writeline ''Built from scratch in WSL''] s)
      else if keyboard_streq cmd ''uptime''
      then then_prompt (steps [terminal_write ''Uptime       : '', keyboard_write_uptime_value, terminal_putchar NEWLINE] s)
      else if keyboard_streq cmd ''ticks'' then then_prompt (number_line ''Timer ticks  : '' (timer_get_ticks s) s)
      else if keyboard_streq cmd ''logsize''
      then then_prompt (number_unit_line ''Kernel log   : '' (word_of_nat (klog_size s)) '' bytes'' s)
      else if keyboard_streq cmd ''dmesg'' then then_prompt (klog_dump_to_terminal s)
      else if keyboard_streq cmd ''clearlog''
      then then_prompt (steps
        [klog_clear, keyboard_log_event ''TERMOB: kernel log cleared'', terminal_writeline ''Kernel log cleared''] s)
      else if keyboard_streq cmd ''beep''
      then Option.bind (sound_beep hw 880 350 (terminal_writeline ''Playing test tone...'' s)) then_prompt
      else if keyboard_streq cmd ''melody''
      then Option.bind (sound_play_melody hw (terminal_writeline ''Playing kernel theme...'' s)) then_prompt
      else if keyboard_startswith cmd ''echo '' then then_prompt (terminal_writeline (drop 5 cmd) s)
      else if keyboard_streq cmd ''halt''
      then halts (steps
        [keyboard_log_event ''TERMOB: halt requested from shell'', terminal_writeline ''System halted.'', keyboard_halt_forever] s)
      else if keyboard_streq cmd ''reboot''
      then halts (steps
        [keyboard_log_event ''TERMOB: reboot requested from shell'', terminal_writeline ''Rebooting...'', keyboard_reboot_system hw] s)
      else if keyboard_streq cmd ''panic''
      then Option.bind (kernel_panic_simple hw ''Manual panic'' (Some ''panic command invoked from shell'')
             (keyboard_log_event ''TERMOB: panic requested from shell'' s)) halts
      else then_prompt (keyboard_shell_print_unknown_command cmd s))"

definition keyboard_process_command ::
  "hardware \<Rightarrow> string \<Rightarrow> 'a keyboard_globals_scheme \<Rightarrow> 'a keyboard_globals_scheme command_result" where
  "keyboard_process_command hw cmd s =
     (let s = terminal_writeline '''' s
      in if cmd = [] then then_prompt s
         else case keyboard_lookup_usage_hint cmd of
           Some usage_hint \<Rightarrow> returns (keyboard_shell_usage_and_prompt usage_hint s)
         | None \<Rightarrow>
             (case keyboard_overview_command cmd s of
                Some result \<Rightarrow> result
              | None \<Rightarrow>
                  (case keyboard_storage_command cmd s of
                     Some s \<Rightarrow> returns s
                   | None \<Rightarrow> keyboard_device_command hw cmd s)))"

section \<open>Scancodes\<close>

definition keyboard_init :: "'a keyboard_globals_scheme \<Rightarrow> 'a keyboard_globals_scheme" where
  "keyboard_init s =
     s\<lparr>keyboard_buffer_index := 0, keyboard_cursor_index := 0, keyboard_clipboard_length := 0,
       keyboard_last_pressed_scancode := 0, keyboard_control_down := False, keyboard_left_shift_down := False,
       keyboard_right_shift_down := False, keyboard_caps_lock_on := False, keyboard_extended_prefix_pending := False,
       keyboard_scancode_head := 0, keyboard_scancode_tail := 0, keyboard_scancode_dropped := 0,
       keyboard_prompt_row := terminal_get_row s, keyboard_prompt_column := terminal_get_column s,
       keyboard_input_buffer := (keyboard_input_buffer s)[0 := NUL],
       keyboard_clipboard_buffer := (keyboard_clipboard_buffer s)[0 := NUL]\<rparr>"

definition keyboard_has_pending_scancode :: "hardware \<Rightarrow> 'a keyboard_globals_scheme \<Rightarrow> bool \<times> 'a keyboard_globals_scheme" where
  "keyboard_has_pending_scancode hw s = (let (status, s) = keyboard_inb hw 0x64 s in (status AND 0x01 \<noteq> 0, s))"

definition keyboard_read_scancode :: "hardware \<Rightarrow> 'a keyboard_globals_scheme \<Rightarrow> u8 \<times> 'a keyboard_globals_scheme" where
  "keyboard_read_scancode hw s = keyboard_inb hw 0x60 s"

definition keyboard_enqueue_scancode :: "u8 \<Rightarrow> 'a keyboard_globals_scheme \<Rightarrow> 'a keyboard_globals_scheme" where
  "keyboard_enqueue_scancode scancode s =
     (let head = keyboard_scancode_head s;
          next_head = (head + 1) mod KEYBOARD_SCANCODE_QUEUE_SIZE
      in if next_head = keyboard_scancode_tail s
         then s\<lparr>keyboard_scancode_dropped := keyboard_scancode_dropped s + 1\<rparr>
         else s\<lparr>keyboard_scancode_queue := (keyboard_scancode_queue s)[unat head := scancode],
                keyboard_scancode_head := next_head\<rparr>)"

definition keyboard_process_extended_scancode :: "u8 \<Rightarrow> 'a keyboard_globals_scheme \<Rightarrow> 'a keyboard_globals_scheme" where
  "keyboard_process_extended_scancode scancode s =
     (if scancode AND 0x80 \<noteq> 0 then s
      else if scancode = KEYBOARD_PAGE_UP_SCANCODE then terminal_scrollback_page_up s
      else if scancode = KEYBOARD_PAGE_DOWN_SCANCODE
      then let s = terminal_scrollback_page_down s
           in if \<not> terminal_scrollback_is_active s then keyboard_shell_redraw_input s else s
      else if scancode = KEYBOARD_LEFT_ARROW_SCANCODE then keyboard_move_cursor_left s
      else if scancode = KEYBOARD_RIGHT_ARROW_SCANCODE then keyboard_move_cursor_right s
      else if scancode = KEYBOARD_DELETE_SCANCODE then keyboard_delete_character_at_cursor s
      else s)"

definition keyboard_release :: "u8 \<Rightarrow> 'a keyboard_globals_scheme \<Rightarrow> 'a keyboard_globals_scheme" where
  "keyboard_release released = steps
     [\<lambda>s. if released = KEYBOARD_CTRL_SCANCODE then s\<lparr>keyboard_control_down := False\<rparr> else s,
      \<lambda>s. if released = KEYBOARD_LEFT_SHIFT_SCANCODE then s\<lparr>keyboard_left_shift_down := False\<rparr> else s,
      \<lambda>s. if released = KEYBOARD_RIGHT_SHIFT_SCANCODE then s\<lparr>keyboard_right_shift_down := False\<rparr> else s,
      \<lambda>s. if released = keyboard_last_pressed_scancode s then s\<lparr>keyboard_last_pressed_scancode := 0\<rparr> else s]"

text \<open>What a key that stands for a character does; with Control held, four letters are commands of the editor.\<close>

definition keyboard_type_character ::
  "hardware \<Rightarrow> u8 \<Rightarrow> char \<Rightarrow> 'a keyboard_globals_scheme \<Rightarrow> 'a keyboard_globals_scheme command_result" where
  "keyboard_type_character hw scancode c s =
     (if keyboard_control_down s \<and> scancode = KEYBOARD_C_SCANCODE then returns (keyboard_copy_input_to_clipboard s)
      else if keyboard_control_down s \<and> scancode = KEYBOARD_V_SCANCODE then returns (keyboard_paste_clipboard s)
      else if keyboard_control_down s \<and> scancode = KEYBOARD_U_SCANCODE then returns (keyboard_clear_input_line s)
      else if keyboard_control_down s \<and> scancode = KEYBOARD_L_SCANCODE
      then returns (steps [kernel_draw_ui, keyboard_shell_capture_prompt_anchor, keyboard_shell_redraw_input] s)
      else if c = NEWLINE
      then let command_buffer = c_string (take (keyboard_buffer_index s + 1) (keyboard_input_buffer s))
           in keyboard_process_command hw command_buffer (keyboard_reset_input_buffer s)
      else if c = CHR 0x08 then returns (keyboard_delete_character_before_cursor s)
      else returns (keyboard_insert_character c s))"

definition keyboard_process_scancode ::
  "hardware \<Rightarrow> u8 \<Rightarrow> 'a keyboard_globals_scheme \<Rightarrow> 'a keyboard_globals_scheme command_result" where
  "keyboard_process_scancode hw scancode s =
     (if scancode = KEYBOARD_EXTENDED_SCANCODE_PREFIX then returns (s\<lparr>keyboard_extended_prefix_pending := True\<rparr>)
      else if keyboard_extended_prefix_pending s
      then returns (keyboard_process_extended_scancode scancode (s\<lparr>keyboard_extended_prefix_pending := False\<rparr>))
      else if scancode AND 0x80 \<noteq> 0 then returns (keyboard_release (scancode AND 0x7F) s)
      else if scancode = KEYBOARD_CTRL_SCANCODE
      then returns (s\<lparr>keyboard_last_pressed_scancode := scancode, keyboard_control_down := True\<rparr>)
      else if scancode = KEYBOARD_LEFT_SHIFT_SCANCODE
      then returns (s\<lparr>keyboard_last_pressed_scancode := scancode, keyboard_left_shift_down := True\<rparr>)
      else if scancode = KEYBOARD_RIGHT_SHIFT_SCANCODE
      then returns (s\<lparr>keyboard_last_pressed_scancode := scancode, keyboard_right_shift_down := True\<rparr>)
      else if scancode = keyboard_last_pressed_scancode s then returns s
      else
        let s = s\<lparr>keyboard_last_pressed_scancode := scancode\<rparr>
        in if scancode = KEYBOARD_CAPS_LOCK_SCANCODE
           then returns (s\<lparr>keyboard_caps_lock_on := \<not> keyboard_caps_lock_on s\<rparr>)
           else
             let s = (if terminal_scrollback_is_active s
                      then keyboard_shell_redraw_input (terminal_scrollback_follow s) else s);
                 c = keyboard_translate_scancode scancode s
             in if scancode \<ge> 128 then returns s
                else if c = NUL then returns s
                else keyboard_type_character hw scancode c s)"

definition keyboard_take_scancode :: "'a keyboard_globals_scheme \<Rightarrow> u8 \<times> 'a keyboard_globals_scheme" where
  "keyboard_take_scancode s =
     (keyboard_scancode_queue s ! unat (keyboard_scancode_tail s),
      s\<lparr>keyboard_scancode_tail := (keyboard_scancode_tail s + 1) mod KEYBOARD_SCANCODE_QUEUE_SIZE\<rparr>)"

partial_function (option) keyboard_drain_pending ::
  "hardware \<Rightarrow> 'a keyboard_globals_scheme \<Rightarrow> 'a keyboard_globals_scheme command_result" where
  "keyboard_drain_pending hw s =
     (if keyboard_scancode_tail s = keyboard_scancode_head s then Some (Inr s)
      else
        let (scancode, s) = keyboard_take_scancode s
        in Option.bind (keyboard_process_scancode hw scancode s)
             (\<lambda>r. case r of Inl s \<Rightarrow> Some (Inl s) | Inr s \<Rightarrow> keyboard_drain_pending hw s))"

section \<open>The interrupt\<close>

definition irq1_handler_c :: "hardware \<Rightarrow> 'a keyboard_globals_scheme \<Rightarrow> 'a keyboard_globals_scheme" where
  "irq1_handler_c hw s =
     (let (pending, s) = keyboard_has_pending_scancode hw s;
          s = (if pending then let (scancode, s) = keyboard_read_scancode hw s in keyboard_enqueue_scancode scancode s else s)
      in pic_send_eoi 1 s)"

end
