(* ===== verification/Kernel.thy ===== *)
theory Kernel
  imports Keyboard
begin

text \<open>
  The boot sequence and the main loop (\<^verbatim>\<open>kernel_main\<close> in \<^verbatim>\<open>core/kernel.c\<close>), which put all components
  together. The main loop is cut at its \<^verbatim>\<open>hlt\<close>: one turn is a function, and a step of the machine is a
  turn or one of the three interrupts, when interrupts are enabled.
\<close>

text \<open>
  What the linker and the machine contribute: the end of the image, the addresses of the stubs, of the
  tables and of the entry functions, the byte that the serial port echoes during its self-test, the
  code segment, and the block driver's read callback as the block layer sees it.
\<close>

record kernel_image =
  ki_kernel_end :: u32
  ki_serial_echo :: u8
  ki_idt_file :: string
  ki_code_segment :: u16
  ki_exception_stubs :: "u32 list"
  ki_idt_address :: u32
  ki_irq0_stub :: u32
  ki_irq1_stub :: u32
  ki_irq12_stub :: u32
  ki_bootstrap :: u32
  ki_resume :: u32
  ki_housekeeping_task :: u32
  ki_telemetry_task :: u32
  ki_block_read :: "u32 \<Rightarrow> u32 \<Rightarrow> u32 \<Rightarrow> u8 list option"

abbreviation (input) IRQ0_VECTOR :: u8 where "IRQ0_VECTOR \<equiv> 32"
abbreviation (input) IRQ1_VECTOR :: u8 where "IRQ1_VECTOR \<equiv> 33"
abbreviation (input) IRQ12_VECTOR :: u8 where "IRQ12_VECTOR \<equiv> 44"

text \<open>The probe functions that drivers registered, called through their addresses.\<close>

definition image_probe ::
  "kernel_image \<Rightarrow> hardware \<Rightarrow> u32 \<Rightarrow> nat \<Rightarrow> 'a audio_globals_scheme \<Rightarrow> 'a audio_globals_scheme option" where
  "image_probe img hw = kernel_probe 1 hw (ki_block_read img)"

text \<open>A boot stage whose text and mark depend on whether the component came up.\<close>

definition boot_stage ::
  "nat \<Rightarrow> string \<Rightarrow> ('a terminal_globals_scheme \<Rightarrow> bool) \<Rightarrow> string \<Rightarrow> string \<Rightarrow> 'a terminal_globals_scheme \<Rightarrow> 'a terminal_globals_scheme" where
  "boot_stage slot stage up yes no s = kernel_ui_boot_stage slot stage (if up s then yes else no) (up s) s"

section \<open>Boot\<close>

definition kernel_boot_memory ::
  "kernel_image \<Rightarrow> u32 \<Rightarrow> u32 \<Rightarrow> 'a keyboard_globals_scheme \<Rightarrow> 'a keyboard_globals_scheme option" where
  "kernel_boot_memory img multiboot_magic multiboot_info_addr s = do {
     s \<leftarrow> bootinfo_init multiboot_magic multiboot_info_addr
       (steps
         [serial_init (ki_serial_echo img),
          klog_init,
          kernel_ui_draw_boot_banner,
          kernel_ui_boot_stage 0 ''serial'' ''COM1 online'' True] s);
     s \<leftarrow> pmm_init (ki_kernel_end img)
       (steps
         [boot_stage 1 ''multiboot2'' bootinfo_is_valid ''memory map ready'' ''memory map unavailable'',
          heap_init (ki_kernel_end img),
          boot_stage 2 ''heap'' heap_is_initialized ''allocator ready'' ''allocator offline''] s);
     Some (steps
       [boot_stage 3 ''pmm'' pmm_is_initialized ''frame allocator ready'' ''frame allocator unavailable'',
        paging_init,
        boot_stage 4 ''paging'' paging_is_enabled ''bootstrap mapping active'' ''paging unavailable''] s)
   }"

definition kernel_boot_devices ::
  "kernel_image \<Rightarrow> hardware \<Rightarrow> 'a keyboard_globals_scheme \<Rightarrow> 'a keyboard_globals_scheme option" where
  "kernel_boot_devices img hw s = do {
     s \<leftarrow> device_model_init s;
     s \<leftarrow> virtio_init (image_probe img hw)
       (steps
         [boot_stage 5 ''device model'' device_model_is_initialized ''driver registry online'' ''driver registry unavailable'',
          block_init,
          boot_stage 6 ''block'' block_is_initialized ''block layer online'' ''block layer unavailable''] s);
     s \<leftarrow> audio_init (image_probe img hw)
       (boot_stage 7 ''virtio'' virtio_is_initialized ''transport and blk hooks ready'' ''transport unavailable'' s);
     s \<leftarrow> pci_init (image_probe img hw) hw
       (boot_stage 8 ''audio pci'' audio_is_initialized ''controller skeleton online'' ''controller skeleton unavailable'' s);
     Some (steps
       [boot_stage 9 ''pci'' pci_is_initialized ''enumeration ready'' ''enumeration unavailable'',
        sound_init hw,
        boot_stage 10 ''sound'' sound_is_initialized ''pc speaker ready'' ''pc speaker unavailable''] s)
   }"

definition kernel_boot_threads ::
  "kernel_image \<Rightarrow> 'a keyboard_globals_scheme \<Rightarrow> 'a keyboard_globals_scheme option" where
  "kernel_boot_threads img s = do {
     (_, s) \<leftarrow> scheduler_create_kernel_task (ki_bootstrap img) (Some ''housekeeping'') (ki_housekeeping_task img) 0
       (steps
         [scheduler_init,
          boot_stage 11 ''scheduler'' scheduler_is_initialized ''thread core online'' ''foundation unavailable''] s);
     (_, s) \<leftarrow> scheduler_create_kernel_task (ki_bootstrap img) (Some ''telemetry'') (ki_telemetry_task img) 0 s;
     Some s
   }"

definition kernel_boot_report :: "'a keyboard_globals_scheme \<Rightarrow> string list" where
  "kernel_boot_report s =
     [''TERMOB: serial online'',
      ''TERMOB: kernel boot start'',
      if bootinfo_is_valid s then ''TERMOB: multiboot2 memory map online'' else ''TERMOB: multiboot2 memory map unavailable'',
      ''TERMOB: heap online'',
      if pmm_is_initialized s then ''TERMOB: pmm online'' else ''TERMOB: pmm unavailable'',
      if paging_is_enabled s then ''TERMOB: paging online'' else ''TERMOB: paging unavailable'',
      if device_model_is_initialized s then ''TERMOB: device model online'' else ''TERMOB: device model unavailable'',
      if block_is_initialized s then ''TERMOB: block layer online'' else ''TERMOB: block layer unavailable'',
      if virtio_is_initialized s then ''TERMOB: virtio transport + blk online'' else ''TERMOB: virtio transport unavailable'',
      if audio_is_initialized s then ''TERMOB: audio pci skeleton online'' else ''TERMOB: audio pci skeleton unavailable'',
      if pci_is_initialized s then ''TERMOB: pci enumeration online'' else ''TERMOB: pci enumeration unavailable'',
      if sound_is_initialized s then ''TERMOB: pc speaker online'' else ''TERMOB: pc speaker unavailable'',
      if scheduler_is_initialized s then ''TERMOB: scheduler foundation online'' else ''TERMOB: scheduler unavailable'']"

text \<open>A step that may halt the machine, followed by another.\<close>

definition unless_halted :: "'s command_result \<Rightarrow> ('s \<Rightarrow> 's command_result) \<Rightarrow> 's command_result" where
  "unless_halted r f = Option.bind r (\<lambda>x. case x of Inl s \<Rightarrow> Some (Inl s) | Inr s \<Rightarrow> f s)"

definition as_result :: "('s option + 's) \<Rightarrow> 's command_result" where
  "as_result r = (case r of Inl p \<Rightarrow> map_option Inl p | Inr s \<Rightarrow> Some (Inr s))"

definition kernel_boot_interrupts ::
  "kernel_image \<Rightarrow> hardware \<Rightarrow> 'a keyboard_globals_scheme \<Rightarrow> 'a keyboard_globals_scheme command_result" where
  "kernel_boot_interrupts img hw s =
     (let gate = idt_set_gate hw (ki_idt_file img) (ki_code_segment img)
      in unless_halted (as_result (idt_init hw (ki_idt_file img) (ki_code_segment img)
                                     (ki_exception_stubs img) (ki_idt_address img) s))
           (\<lambda>s. unless_halted (as_result (gate IRQ0_VECTOR (ki_irq0_stub img) s))
           (\<lambda>s. unless_halted (as_result (gate IRQ1_VECTOR (ki_irq1_stub img) s))
           (\<lambda>s. unless_halted (as_result (gate IRQ12_VECTOR (ki_irq12_stub img) s))
           (\<lambda>s. returns (steps [pic_init hw, mouse_init hw, timer_init] s))))))"

text \<open>\<^verbatim>\<open>kernel_main\<close> up to its endless loop.\<close>

definition kernel_main ::
  "kernel_image \<Rightarrow> hardware \<Rightarrow> u32 \<Rightarrow> u32 \<Rightarrow> 'a keyboard_globals_scheme \<Rightarrow> 'a keyboard_globals_scheme command_result" where
  "kernel_main img hw multiboot_magic multiboot_info_addr s = do {
     s \<leftarrow> kernel_boot_memory img multiboot_magic multiboot_info_addr s;
     s \<leftarrow> kernel_boot_devices img hw s;
     s \<leftarrow> kernel_boot_threads img s;
     let s = steps
       [\<lambda>s. fold klog_writeline (kernel_boot_report s) s,
        \<lambda>s. fold serial_writeline (kernel_boot_report s) s,
        kernel_draw_ui,
        keyboard_init] s;
     unless_halted (kernel_boot_interrupts img hw s)
       (\<lambda>s. returns (steps
         [\<lambda>s. klog_writeline (if mouse_is_initialized s then ''TERMOB: ps/2 mouse online'' else ''TERMOB: ps/2 mouse unavailable'') s,
          \<lambda>s. serial_writeline (if mouse_is_initialized s then ''TERMOB: ps/2 mouse online'' else ''TERMOB: ps/2 mouse unavailable'') s,
          klog_writeline ''TERMOB: idt pic pit keyboard ready'',
          serial_writeline ''TERMOB: idt pic pit keyboard ready'',
          cpu_sti] s))
   }"

section \<open>The main loop\<close>

text \<open>The loop of a thread runs until control leaves it.\<close>

partial_function (option) kernel_thread_loop ::
  "('a keyboard_globals_scheme \<Rightarrow> sched_outcome \<times> 'a keyboard_globals_scheme) \<Rightarrow>
     'a keyboard_globals_scheme \<Rightarrow> 'a keyboard_globals_scheme command_result" where
  "kernel_thread_loop body s =
     (case body s of
        (Switches, s) \<Rightarrow> Some (Inr s)
      | (Halts, s) \<Rightarrow> Some (Inl s)
      | (Returns, s) \<Rightarrow> kernel_thread_loop body s)"

text \<open>
  From the switch into a thread to the switch back. A thread that was never run starts at its
  bootstrap, with \<^verbatim>\<open>local_runs\<close> zero; another continues after its call of \<^verbatim>\<open>scheduler_yield\<close>. Only the two
  threads that the kernel creates are known.
\<close>

definition kernel_run_entry ::
  "kernel_image \<Rightarrow> u32 \<Rightarrow> 'a keyboard_globals_scheme \<Rightarrow> 'a keyboard_globals_scheme command_result" where
  "kernel_run_entry img entry s =
     (if entry = ki_housekeeping_task img then kernel_thread_loop (kernel_housekeeping_task (ki_resume img)) s
      else if entry = ki_telemetry_task img then kernel_thread_loop (kernel_telemetry_task (ki_resume img)) s
      else None)"

definition kernel_run_thread ::
  "kernel_image \<Rightarrow> 'a keyboard_globals_scheme \<Rightarrow> 'a keyboard_globals_scheme command_result" where
  "kernel_run_thread img s =
     (let task = scheduler_current_task_ptr s;
          entry = task_entry (scheduler_tasks s task)
      in if ctx_eip (cpu_registers s) = ki_bootstrap img
         then (case scheduler_task_bootstrap (ki_resume img) s of
                 (Some (entry, _), _, s) \<Rightarrow>
                   kernel_run_entry img entry
                     (if entry = ki_housekeeping_task img then s\<lparr>kernel_housekeeping_local := 0\<rparr>
                      else s\<lparr>kernel_telemetry_local := 0\<rparr>)
               | (None, Switches, s) \<Rightarrow> Some (Inr s)
               | (None, _, s) \<Rightarrow> Some (Inl s))
         else kernel_run_entry img entry (scheduler_yield_resume task s))"

definition kernel_dispatch ::
  "kernel_image \<Rightarrow> 'a keyboard_globals_scheme \<Rightarrow> 'a keyboard_globals_scheme command_result" where
  "kernel_dispatch img s =
     (case scheduler_dispatch (ki_resume img) s of
        (Switches, s) \<Rightarrow> unless_halted (kernel_run_thread img s) (\<lambda>s. returns (scheduler_dispatch_resume s))
      | (_, s) \<Rightarrow> returns s)"

definition kernel_main_turn ::
  "kernel_image \<Rightarrow> hardware \<Rightarrow> 'a keyboard_globals_scheme \<Rightarrow> 'a keyboard_globals_scheme command_result" where
  "kernel_main_turn img hw s = do {
     s \<leftarrow> mouse_drain_pending s;
     unless_halted (keyboard_drain_pending hw s)
       (\<lambda>s. unless_halted (kernel_dispatch img s)
       (\<lambda>s. returns (kernel_ui_refresh_footer_if_needed s)))
   }"

text \<open>A step of the running kernel: a turn of the loop, or an interrupt that the processor accepts.\<close>

inductive kernel_step ::
  "kernel_image \<Rightarrow> hardware \<Rightarrow> 'a keyboard_globals_scheme \<Rightarrow> 'a keyboard_globals_scheme \<Rightarrow> bool"
  for img :: kernel_image and hw :: hardware where
  turn: "kernel_main_turn img hw s = Some (Inr t) \<Longrightarrow> kernel_step img hw s t"
| timer_irq: "interrupts_enabled s \<Longrightarrow> kernel_step img hw s (irq0_handler_c s)"
| keyboard_irq: "interrupts_enabled s \<Longrightarrow> kernel_step img hw s (irq1_handler_c hw s)"
| mouse_irq: "interrupts_enabled s \<Longrightarrow> kernel_step img hw s (irq12_handler_c hw s)"

inductive_cases kernel_stepE: "kernel_step img hw s t"

end
