(* ===== verification/Frames.thy ===== *)
theory Frames
  imports Kernel
begin

text \<open>
  What the operations of the terminal leave alone: everything outside the terminal. Records extend
  each other in one line, so this is one equation per operation on the extension of the terminal's
  variables; the fields of later components follow from it.
\<close>

section \<open>The state before boot\<close>

text \<open>
  The static variables have the values the C sources initialise them with, zero for most: the
  screen region ends at the last row, a mouse packet has three bytes and the monitor slot is the largest
  word. The tables are empty and interrupts are disabled.
  The address of the idle task stands for what the linker chose.
\<close>

definition zeroed_drivers :: pci_globals where
  "zeroed_drivers = driver_globals.extend (idt_globals.extend (sound_globals.extend (timer_globals.extend
     (io_globals.extend (scheduler_globals.extend (block_globals.extend
       (paging_globals.extend zeroed_paging (block_globals.fields False 0 0 zero_block_nodes))
       (scheduler_globals.fields (\<lambda>_. zero_task) 0x120000 zero_context 0 0 0 0 0 0 0 0 0 False False False zero_context))
       (io_globals.fields []))
       (timer_globals.fields 0))
       (sound_globals.fields False))
       (idt_globals.fields (replicate 256 zero_gate) 0 0 None))
       (driver_globals.fields False [] [] [] 0 0 0 0))
       (pci_globals.fields False 0)"

definition zeroed_kernel :: keyboard_globals where
  "zeroed_kernel = kernel_globals.extend (mouse_globals.extend (audio_globals.extend (virtio_globals.extend
     (pci_globals.extend zeroed_drivers
       (virtio_globals.fields
         (\<lambda>_. \<lparr>vi_vendor_id = 0, vi_device_id = 0, vi_bus = 0, vi_slot = 0, vi_function = 0\<rparr>)
         (\<lambda>_. \<lparr>vb_transport = 0, vb_capacity_sectors = 0, vb_block_size_bytes = 0, vb_io_base = 0, vb_queue_size = 0,
               vb_last_used_index = 0, vb_queue_memory = 0, vb_queue_memory_bytes = 0, vb_desc_table = 0,
               vb_avail_ring = 0, vb_used_ring = 0, vb_request_header = 0, vb_request_status = 0,
               vb_block_registered = False, vb_legacy_transport = False, vb_ready = False\<rparr>)
         False 0 0 0))
       (audio_globals.fields False 0 audio_ac97_at_init))
       (mouse_globals.fields 0 0 0 (replicate 128 0) (replicate 4 0) 0 3 False False 0 0 0 0 0 0 0))
       (kernel_globals.fields (- 1) 0 0 0 0))
       (keyboard_globals.fields (replicate 256 NUL) (replicate 256 NUL) 0 0 0 0 False False False False False
         (replicate 128 0) 0 0 0 0 0)"

lemmas zeroed_kernel_defs = zeroed_kernel_def zeroed_drivers_def zeroed_paging_defs block_globals.defs scheduler_globals.defs
  io_globals.defs timer_globals.defs sound_globals.defs idt_globals.defs driver_globals.defs pci_globals.defs
  virtio_globals.defs audio_globals.defs mouse_globals.defs kernel_globals.defs keyboard_globals.defs

section \<open>Iterated operations\<close>

lemma fold_keeps:
  assumes "\<And>x s. view (f x s) = view s"
  shows "view (fold f xs s) = view s"
  using assms by (induction xs arbitrary: s) simp_all

lemma funpow_keeps:
  assumes "\<And>s. view (f s) = view s"
  shows "view ((f ^^ n) s) = view s"
  using assms by (induction n) simp_all

lemma steps_keep:
  assumes "\<And>f s. f \<in> set fs \<Longrightarrow> view (f s) = view s"
  shows "view (steps fs s) = view s"
  using assms by (induction fs arbitrary: s) simp_all

section \<open>The terminal\<close>

abbreviation (input) rest_of :: "'a terminal_globals_scheme \<Rightarrow> 'a" where
  "rest_of \<equiv> terminal_globals.more"

lemma cell_set_more [simp]: "rest_of (buffer_set i v s) = rest_of s" "rest_of (line_set l x v s) = rest_of s"
  by (simp_all add: buffer_set_def line_set_def Let_def)

lemma fill_blank_more [simp]: "rest_of (terminal_scrollback_fill_blank_line l s) = rest_of s"
  by (simp add: terminal_scrollback_fill_blank_line_def fold_keeps)

lemma append_blank_more [simp]: "rest_of (snd (terminal_scrollback_append_blank_line s)) = rest_of s"
  by (simp add: terminal_scrollback_append_blank_line_def Let_def)

lemma reset_line_more [simp]: "rest_of (terminal_scrollback_reset_line y s) = rest_of s"
  by (simp add: terminal_scrollback_reset_line_def split_beta fold_keeps)

lemma reset_history_more [simp]: "rest_of (terminal_scrollback_reset_history s) = rest_of s"
  by (simp add: terminal_scrollback_reset_history_def Let_def fold_keeps)

lemma visible_top_more [simp]: "rest_of (snd (terminal_scrollback_visible_top_logical s)) = rest_of s"
  by (simp add: terminal_scrollback_visible_top_logical_def Let_def)

lemma sync_row_more [simp]: "rest_of (terminal_scrollback_sync_row t y s) = rest_of s"
  by (simp add: terminal_scrollback_sync_row_def Let_def fold_keeps)

lemma sync_region_more [simp]: "rest_of (terminal_scrollback_sync_region_from_history s) = rest_of s"
  by (simp add: terminal_scrollback_sync_region_from_history_def split_beta Let_def fold_keeps)

lemma sync_view_more [simp]: "rest_of (terminal_scrollback_sync_view_after_scroll s) = rest_of s"
  by (simp add: terminal_scrollback_sync_view_after_scroll_def Let_def)

lemma update_cell_more [simp]: "rest_of (terminal_scrollback_update_cell x y e s) = rest_of s"
  by (simp add: terminal_scrollback_update_cell_def split_beta Let_def)

lemma putentryat_more [simp]: "rest_of (terminal_putentryat c k x y s) = rest_of s"
  by (simp add: terminal_putentryat_def Let_def)

lemma fill_rect_more [simp]: "rest_of (terminal_fill_rect x y w h k s) = rest_of s"
  by (simp add: terminal_fill_rect_def fold_keeps)

lemma cursor_more [simp]:
  "rest_of (terminal_setcolor f b s) = rest_of s" "rest_of (terminal_set_cursor x y s) = rest_of s"
  by (simp_all add: terminal_setcolor_def terminal_set_cursor_def Let_def)

lemma initialize_more [simp]: "rest_of (terminal_initialize f b s) = rest_of s"
  by (simp add: terminal_initialize_def terminal_clear_def Let_def)

lemma region_more [simp]: "rest_of (terminal_set_region t b s) = rest_of s"
  by (simp add: terminal_set_region_def Let_def split_beta)

lemma scroll_more [simp]: "rest_of (terminal_scroll s) = rest_of s"
  by (simp add: terminal_scroll_def split_beta Let_def)

lemma putchar_more [simp]: "rest_of (terminal_putchar c s) = rest_of s"
  by (simp add: terminal_putchar_def Let_def)

lemma write_more [simp]: "rest_of (terminal_write t s) = rest_of s"
  by (induction t arbitrary: s) simp_all

lemma writeline_more [simp]: "rest_of (terminal_writeline t s) = rest_of s"
  by (simp add: terminal_writeline_def)

lemma writeat_loop_more [simp]: "rest_of (terminal_writeat_loop t i x y s) = rest_of s"
  by (induction t i x y s rule: terminal_writeat_loop.induct) simp_all

lemma writeat_more [simp]: "rest_of (terminal_writeat t x y s) = rest_of s"
  by (simp add: terminal_writeat_def)

lemma draw_more [simp]:
  "rest_of (terminal_draw_hline y c k s) = rest_of s" "rest_of (terminal_draw_box x y w h k s) = rest_of s"
  by (simp_all add: terminal_draw_hline_def terminal_draw_box_def Let_def fold_keeps)

lemma prompt_more [simp]: "rest_of (terminal_prompt s) = rest_of s"
  by (simp add: terminal_prompt_def Let_def)

lemma view_ops_more [simp]:
  "rest_of (terminal_scrollback_follow s) = rest_of s"
  "rest_of (terminal_scrollback_line_up s) = rest_of s" "rest_of (terminal_scrollback_line_down s) = rest_of s"
  "rest_of (terminal_scrollback_page_up s) = rest_of s" "rest_of (terminal_scrollback_page_down s) = rest_of s"
  by (simp_all add: terminal_scrollback_follow_def terminal_scrollback_line_up_def terminal_scrollback_line_down_def
      terminal_scrollback_page_up_def terminal_scrollback_page_down_def Let_def)

section \<open>Fields of later components\<close>

lemma mouse_fields_more:
  assumes "rest_of t = rest_of s"
  shows "mouse_queue_head t = mouse_queue_head s" "mouse_queue_tail t = mouse_queue_tail s"
    "mouse_queue_dropped t = mouse_queue_dropped s" "mouse_queue t = mouse_queue s"
    "mouse_packet t = mouse_packet s" "mouse_packet_index t = mouse_packet_index s" "mouse_packet_size t = mouse_packet_size s"
    "mouse_globals.more t = mouse_globals.more s"
  using assms by (cases s; cases t; simp)+

lemma keyboard_fields_more:
  assumes "rest_of t = rest_of s"
  shows "keyboard_input_buffer t = keyboard_input_buffer s" "keyboard_clipboard_buffer t = keyboard_clipboard_buffer s"
    "keyboard_buffer_index t = keyboard_buffer_index s" "keyboard_cursor_index t = keyboard_cursor_index s"
    "keyboard_clipboard_length t = keyboard_clipboard_length s"
    "keyboard_prompt_row t = keyboard_prompt_row s" "keyboard_prompt_column t = keyboard_prompt_column s"
  using assms by (cases s; cases t; simp)+

end
