(* ===== verification/Editor_Props.thy ===== *)
theory Editor_Props
  imports Frames
begin

text \<open>
  The line editor of the shell implements a text with a cursor: a list of characters before it, a list
  after it, and a clipboard. The array holds both lists and the terminator; keystrokes that do not
  fit are ignored.
\<close>

section \<open>Specification\<close>

type_synonym editor = "string \<times> string \<times> string"

datatype editor_op = Type char | Backspace | Delete | Go_Left | Go_Right | Clear | Copy | Paste

fun editor_spec :: "nat \<Rightarrow> editor_op \<Rightarrow> editor \<Rightarrow> editor" where
  "editor_spec n (Type x) (b, a, c) = (if length b + length a < n then (b @ [x], a, c) else (b, a, c))"
| "editor_spec n Backspace (b, a, c) = (butlast b, a, c)"
| "editor_spec n Delete (b, a, c) = (b, tl a, c)"
| "editor_spec n Go_Left (b, a, c) = (if b = [] then (b, a, c) else (butlast b, last b # a, c))"
| "editor_spec n Go_Right (b, a, c) = (if a = [] then (b, a, c) else (b @ [hd a], tl a, c))"
| "editor_spec n Clear (b, a, c) = ([], [], c)"
| "editor_spec n Copy (b, a, c) = (b, a, b @ a)"
| "editor_spec n Paste (b, a, c) = (b @ take (n - (length b + length a)) c, a, c)"

fun run_editor :: "editor_op \<Rightarrow> 'a keyboard_globals_scheme \<Rightarrow> 'a keyboard_globals_scheme" where
  "run_editor (Type x) s = keyboard_insert_character x s"
| "run_editor Backspace s = keyboard_delete_character_before_cursor s"
| "run_editor Delete s = keyboard_delete_character_at_cursor s"
| "run_editor Go_Left s = keyboard_move_cursor_left s"
| "run_editor Go_Right s = keyboard_move_cursor_right s"
| "run_editor Clear s = keyboard_clear_input_line s"
| "run_editor Copy s = keyboard_copy_input_to_clipboard s"
| "run_editor Paste s = keyboard_paste_clipboard s"

text \<open>The keys of the editor never carry the terminator.\<close>

definition types_text :: "editor_op \<Rightarrow> bool" where
  "types_text op = (op \<noteq> Type NUL)"

text \<open>How much fits: what is left of the screen line after the prompt, and the array without the terminator.\<close>

definition editor_room :: "'a keyboard_globals_scheme \<Rightarrow> nat" where
  "editor_room s = min 255 (keyboard_shell_input_capacity s)"

definition array_holds :: "string \<Rightarrow> string \<Rightarrow> bool" where
  "array_holds buffer t \<longleftrightarrow> length buffer = 256 \<and> NUL \<notin> set t \<and> (\<exists>rest. buffer = t @ NUL # rest)"

fun editor_rep :: "editor \<Rightarrow> 'a keyboard_globals_scheme \<Rightarrow> bool" where
  "editor_rep (b, a, c) s \<longleftrightarrow>
     array_holds (keyboard_input_buffer s) (b @ a) \<and> keyboard_cursor_index s = length b \<and>
     keyboard_buffer_index s = length b + length a \<and>
     array_holds (keyboard_clipboard_buffer s) c \<and> keyboard_clipboard_length s = length c"

section \<open>Moving characters in an array\<close>

lemma shift_left_nth:
  assumes "n < length b" "k \<le> n"
  shows "length (shift_left k n b) = length b \<and>
    (\<forall>i<length b. shift_left k n b ! i = (if k \<le> i \<and> i < n then b ! (i + 1) else b ! i))"
  using assms(2,1)
proof (induction n rule: dec_induct)
  case base
  then show ?case by (auto simp: shift_left_def)
next
  case (step n)
  then have "shift_left k (Suc n) b = (shift_left k n b)[n := shift_left k n b ! (n + 1)]" by (simp add: shift_left_def)
  then show ?case using step by (auto simp: nth_list_update)
qed

lemma shift_right_nth:
  assumes "n < length b" "c \<le> n"
  shows "length (shift_right c n b) = length b \<and>
    (\<forall>i<length b. shift_right c n b ! i = (if c < i \<and> i \<le> n then b ! (i - 1) else b ! i))"
  using assms(2,1)
proof (induction n arbitrary: b rule: dec_induct)
  case base
  then show ?case by (auto simp: shift_right_def)
next
  case (step n)
  have "shift_right c (Suc n) b = shift_right c n (b[Suc n := b ! n])"
    using step by (simp add: shift_right_def)
  then show ?case using step.IH [of "b[Suc n := b ! n]"] step.prems step.hyps
    by (auto simp: nth_list_update le_Suc_eq)
qed

lemma shift_left_close: "shift_left (length p) (length p + Suc (length q)) (p @ x # q @ NUL # r) = p @ q @ NUL # NUL # r"
proof (rule nth_equalityI)
  let ?b = "p @ x # q @ NUL # r"
  have l: "length p + Suc (length q) < length ?b" "length p \<le> length p + Suc (length q)" by simp_all
  show "length (shift_left (length p) (length p + Suc (length q)) ?b) = length (p @ q @ NUL # NUL # r)"
    using shift_left_nth [OF l] by simp
  fix i assume "i < length (shift_left (length p) (length p + Suc (length q)) ?b)"
  then have i: "i < length ?b" using shift_left_nth [OF l] by simp
  have "shift_left (length p) (length p + Suc (length q)) ?b ! i =
      (if length p \<le> i \<and> i < length p + Suc (length q) then ?b ! (i + 1) else ?b ! i)"
    using shift_left_nth [OF l] i by blast
  also have "\<dots> = (p @ q @ NUL # NUL # r) ! i"
    by (auto simp: nth_append nth_Cons' split: if_splits)
  finally show "shift_left (length p) (length p + Suc (length q)) ?b ! i = (p @ q @ NUL # NUL # r) ! i" .
qed

lemma shift_right_open: "(shift_right (length p) (length p + length q) (p @ q @ y # r))[length p := x] = p @ x # q @ r"
proof (rule nth_equalityI)
  let ?b = "p @ q @ y # r" and ?s = "shift_right (length p) (length p + length q) (p @ q @ y # r)"
  have l: "length p + length q < length ?b" "length p \<le> length p + length q" by simp_all
  show "length (?s[length p := x]) = length (p @ x # q @ r)" using shift_right_nth [OF l] by simp
  fix i assume "i < length (?s[length p := x])"
  then have i: "i < length ?b" using shift_right_nth [OF l] by simp
  have s: "?s ! i = (if length p < i \<and> i \<le> length p + length q then ?b ! (i - 1) else ?b ! i)"
    using shift_right_nth [OF l] i by blast
  have n: "length ?s = length ?b" using shift_right_nth [OF l] by blast
  consider "i < length p" | "i = length p" | "length p < i" "i \<le> length p + length q" | "length p + length q < i" by linarith
  then show "?s[length p := x] ! i = (p @ x # q @ r) ! i"
  proof cases
    case 3
    then show ?thesis by (auto simp: s nth_append nth_Cons')
  next
    case 4
    then show ?thesis by (auto simp: s nth_append nth_Cons')
  qed (use n in \<open>simp_all add: s nth_append\<close>)
qed

lemma copy_loop:
  assumes "n \<le> length src" "n \<le> length dst"
  shows "fold (\<lambda>i b. b[i := src ! i]) [0..<n] dst = take n src @ drop n dst"
  using assms
proof (induction n)
  case (Suc n)
  then have "drop n dst = dst ! n # drop (Suc n) dst" "take (Suc n) src = take n src @ [src ! n]"
    by (simp_all add: Cons_nth_drop_Suc take_Suc_conv_app_nth)
  then show ?case using Suc by (simp add: list_update_append)
qed simp

section \<open>Each keystroke\<close>

lemma redraw_more [simp]: "rest_of (keyboard_shell_redraw_input s) = rest_of s"
  by (simp add: keyboard_shell_redraw_input_def Let_def)

lemmas redraw_fields [simp] = keyboard_fields_more [OF redraw_more]

lemma rep_redraw [simp]: "editor_rep e (keyboard_shell_redraw_input s) = editor_rep e s"
  by (cases e) simp

lemma insert_prompt [simp]: "keyboard_prompt_column (keyboard_insert_character x s) = keyboard_prompt_column s"
  by (simp add: keyboard_insert_character_def Let_def)

lemma run_editor_prompt: "keyboard_prompt_column (run_editor op s) = keyboard_prompt_column s"
  by (cases op) (simp_all add: keyboard_delete_character_before_cursor_def keyboard_delete_character_at_cursor_def
      keyboard_move_cursor_left_def keyboard_move_cursor_right_def keyboard_clear_input_line_def
      keyboard_reset_input_buffer_def keyboard_copy_input_to_clipboard_def keyboard_paste_clipboard_def Let_def fold_keeps)

lemma run_editor_room: "editor_room (run_editor op s) = editor_room s"
  by (simp add: editor_room_def keyboard_shell_input_capacity_def run_editor_prompt)

lemma array_room: "array_holds u t \<Longrightarrow> length t \<le> 255"
  by (auto simp: array_holds_def)

lemma insert_step:
  assumes "editor_rep (b, a, c) s" "x \<noteq> NUL"
  shows "editor_rep (editor_spec (editor_room s) (Type x) (b, a, c)) (keyboard_insert_character x s)"
proof (cases "length b + length a < editor_room s")
  case False
  then show ?thesis using assms by (auto simp: keyboard_insert_character_def editor_room_def)
next
  case True
  obtain r where r: "keyboard_input_buffer s = b @ a @ NUL # r" "length (keyboard_input_buffer s) = 256"
    using assms(1) by (auto simp: array_holds_def)
  with True obtain y r' where y: "r = y # r'" by (cases r) (auto simp: editor_room_def)
  have o: "(shift_right (length b) (length b + length a) (keyboard_input_buffer s))[length b := x] = b @ x # a @ r"
    unfolding r(1) by (rule shift_right_open)
  have n: "(b @ x # a @ y # r')[length b + length a + 1 := NUL] = (b @ [x]) @ a @ NUL # r'"
    by (simp add: list_update_append)
  show ?thesis using True assms r o n
    by (auto simp: keyboard_insert_character_def Let_def editor_room_def array_holds_def y list_update_append)
qed

lemma delete_before_step:
  assumes "editor_rep (b, a, c) s"
  shows "editor_rep (butlast b, a, c) (keyboard_delete_character_before_cursor s)"
proof (cases b rule: rev_cases)
  case Nil
  then show ?thesis using assms by (simp add: keyboard_delete_character_before_cursor_def)
next
  case (snoc p x)
  obtain r where r: "keyboard_input_buffer s = p @ x # a @ NUL # r" using assms snoc by (auto simp: array_holds_def)
  have "shift_left (length p) (length p + Suc (length a)) (keyboard_input_buffer s) = p @ a @ NUL # NUL # r"
    unfolding r by (rule shift_left_close)
  then show ?thesis using assms snoc r
    by (auto simp: keyboard_delete_character_before_cursor_def array_holds_def)
qed

lemma delete_at_step:
  assumes "editor_rep (b, a, c) s"
  shows "editor_rep (b, tl a, c) (keyboard_delete_character_at_cursor s)"
proof (cases a)
  case Nil
  then show ?thesis using assms by (simp add: keyboard_delete_character_at_cursor_def)
next
  case (Cons x q)
  obtain r where r: "keyboard_input_buffer s = b @ x # q @ NUL # r" using assms Cons by (auto simp: array_holds_def)
  have "shift_left (length b) (length b + Suc (length q)) (keyboard_input_buffer s) = b @ q @ NUL # NUL # r"
    unfolding r by (rule shift_left_close)
  then show ?thesis using assms Cons r
    by (auto simp: keyboard_delete_character_at_cursor_def array_holds_def)
qed

lemma move_left_step:
  assumes "editor_rep (b, a, c) s"
  shows "editor_rep (if b = [] then (b, a, c) else (butlast b, last b # a, c)) (keyboard_move_cursor_left s)"
  using assms by (cases b rule: rev_cases) (auto simp: keyboard_move_cursor_left_def array_holds_def)

lemma move_right_step:
  assumes "editor_rep (b, a, c) s"
  shows "editor_rep (if a = [] then (b, a, c) else (b @ [hd a], tl a, c)) (keyboard_move_cursor_right s)"
  using assms by (cases a) (auto simp: keyboard_move_cursor_right_def array_holds_def)

lemma reset_step:
  assumes "editor_rep (b, a, c) s"
  shows "editor_rep ([], [], c) (keyboard_reset_input_buffer s)"
  using assms by (cases b; cases a) (auto simp: keyboard_reset_input_buffer_def array_holds_def)

lemma copy_step:
  assumes "editor_rep (b, a, c) s"
  shows "editor_rep (b, a, b @ a) (keyboard_copy_input_to_clipboard s)"
proof -
  let ?n = "length b + length a"
  have l: "length (keyboard_input_buffer s) = 256" "length (keyboard_clipboard_buffer s) = 256" "?n \<le> 255"
    using assms by (auto simp: array_holds_def)
  have t: "take ?n (keyboard_input_buffer s) = b @ a" using assms by (auto simp: array_holds_def)
  have "fold (\<lambda>i u. u[i := keyboard_input_buffer s ! i]) [0..<?n] (keyboard_clipboard_buffer s) =
      (b @ a) @ drop ?n (keyboard_clipboard_buffer s)"
    unfolding t [symmetric] using l by (intro copy_loop) simp_all
  moreover obtain y r where "drop ?n (keyboard_clipboard_buffer s) = y # r"
    using l by (cases "drop ?n (keyboard_clipboard_buffer s)") simp_all
  moreover have "?n + Suc (length r) = 256" using l calculation(2) [THEN arg_cong, of length] by simp
  ultimately show ?thesis using assms
    by (auto simp: keyboard_copy_input_to_clipboard_def Let_def array_holds_def list_update_append)
qed

lemma paste_loop:
  assumes "editor_rep (b, a, c) s" "k \<le> length c"
  shows "editor_rep (b @ take (min k (editor_room s - (length b + length a))) c, a, c)
    (fold (\<lambda>i s. keyboard_insert_character (keyboard_clipboard_buffer s ! i) s) [0..<k] s)"
  using assms(2)
proof (induction k)
  case 0
  then show ?case using assms(1) by simp
next
  case (Suc k)
  let ?t = "fold (\<lambda>i s. keyboard_insert_character (keyboard_clipboard_buffer s ! i) s) [0..<k] s"
    and ?m = "editor_room s - (length b + length a)"
  have r: "editor_rep (b @ take (min k ?m) c, a, c) ?t" using Suc by simp
  then have x: "keyboard_clipboard_buffer ?t ! k = c ! k" "c ! k \<noteq> NUL"
    using Suc.prems by (auto simp: array_holds_def nth_append in_set_conv_nth)
  have "keyboard_prompt_column ?t = keyboard_prompt_column s" by (rule fold_keeps) simp
  then have o: "editor_room ?t = editor_room s" by (simp add: editor_room_def keyboard_shell_input_capacity_def)
  have "editor_spec (editor_room ?t) (Type (c ! k)) (b @ take (min k ?m) c, a, c) = (b @ take (min (Suc k) ?m) c, a, c)"
  proof (cases "k < ?m")
    case True
    then have "min k ?m = k" "min (Suc k) ?m = Suc k" by simp_all
    then show ?thesis using Suc.prems True by (simp add: o take_Suc_conv_app_nth)
  next
    case False
    then have "min k ?m = ?m" "min (Suc k) ?m = ?m" by simp_all
    then show ?thesis using Suc.prems False by (simp add: o)
  qed
  then show ?case using insert_step [OF r x(2)] by (simp add: x(1) del: editor_rep.simps editor_spec.simps)
qed

lemma run_editor_step:
  assumes "editor_rep e s" "types_text op"
  shows "editor_rep (editor_spec (editor_room s) op e) (run_editor op s)"
proof -
  obtain b a c where e: "e = (b, a, c)" by (cases e)
  have r: "editor_rep (b, a, c) s" using assms(1) e by simp
  show ?thesis
  proof (cases op)
    case (Type x)
    then show ?thesis using insert_step [OF r] assms(2) by (simp add: e types_text_def)
  next
    case Paste
    have "keyboard_clipboard_length s = length c" using r by simp
    moreover have "take (min (length c) m) c = take m c" for m by (simp add: min_def)
    ultimately show ?thesis using paste_loop [OF r order.refl]
      by (simp add: e Paste keyboard_paste_clipboard_def del: editor_rep.simps)
  qed (use r delete_before_step [OF r] delete_at_step [OF r] move_left_step [OF r] move_right_step [OF r]
      reset_step [OF r] copy_step [OF r] in \<open>simp_all add: e keyboard_clear_input_line_def del: editor_rep.simps\<close>)
qed

section \<open>Properties\<close>

text \<open>
  C32. The line editor implements a text with a cursor and a clipboard. Whatever keys are pressed, in
  any order, the array, the two indices and the clipboard hold exactly what the specification says:
  insertion at the cursor up to the room on the line, deletion on both sides, movement that stops at
  the ends, copying of the whole line and pasting at the cursor.
\<close>

theorem line_editor_refines:
  assumes "editor_rep e s" "list_all types_text ops"
  shows "editor_rep (fold (editor_spec (editor_room s)) ops e) (fold run_editor ops s)"
  using assms
proof (induction ops arbitrary: e s)
  case (Cons op ops)
  then show ?case using run_editor_step [of e s op] Cons.IH [of "editor_spec (editor_room s) op e" "run_editor op s"]
    by (simp add: run_editor_room)
qed simp

theorem line_editor_refines_witness:
  "editor_rep ([], [], []) zeroed_kernel \<and>
   editor_rep (''sh'', ''elp'', ''help'')
     (fold run_editor [Type CHR ''h'', Type CHR ''l'', Go_Left, Type CHR ''e'', Go_Right, Type CHR ''p'', Copy, Clear,
        Paste, Go_Left, Go_Left, Go_Left, Go_Left, Type CHR ''s'', Delete, Type CHR ''h'', Type CHR ''x'', Backspace]
       zeroed_kernel)"
proof -
  have "replicate 256 NUL = NUL # replicate 255 NUL" using replicate_Suc [of 255 NUL] by (simp del: replicate_Suc)
  then have "array_holds (replicate 256 NUL) []" by (simp add: array_holds_def)
  then have r: "editor_rep ([], [], []) zeroed_kernel" by (simp add: zeroed_kernel_defs)
  have "editor_room zeroed_kernel = 79"
    by (simp add: editor_room_def keyboard_shell_input_capacity_def zeroed_kernel_defs)
  then show ?thesis
    using line_editor_refines [OF r, of "[Type CHR ''h'', Type CHR ''l'', Go_Left, Type CHR ''e'', Go_Right, Type CHR ''p'',
      Copy, Clear, Paste, Go_Left, Go_Left, Go_Left, Go_Left, Type CHR ''s'', Delete, Type CHR ''h'', Type CHR ''x'', Backspace]"] r
    by (simp add: types_text_def del: editor_rep.simps run_editor.simps)
qed

end
