(* ===== verification/Ring_Queue.thy ===== *)
theory Ring_Queue
  imports Kernel_Prelude
begin

text \<open>
  The ring of 128 slots between an interrupt handler and the main loop, which the keyboard and the
  mouse drivers both have. The interface fixes what the two operations do to the indices, the slots
  and the counter of lost entries; the lemmas show that a ring with such operations is a queue of
  at most 127 entries.
\<close>

definition ring_ok :: "u32 \<Rightarrow> u32 \<Rightarrow> u8 list \<Rightarrow> bool" where
  "ring_ok head tail slots \<longleftrightarrow> head < 128 \<and> tail < 128 \<and> length slots = 128"

definition ring_length :: "u32 \<Rightarrow> u32 \<Rightarrow> nat" where
  "ring_length head tail = (unat head + 128 - unat tail) mod 128"

definition ring_contents :: "u32 \<Rightarrow> u32 \<Rightarrow> u8 list \<Rightarrow> u8 list" where
  "ring_contents head tail slots = map (\<lambda>i. slots ! ((unat tail + i) mod 128)) [0..<ring_length head tail]"

lemma next_index: "h < 128 \<Longrightarrow> unat ((h + 1) mod 128 :: u32) = (unat h + 1) mod 128" "(h + 1) mod 128 < (128 :: u32)"
proof -
  assume "h < 128"
  then have "unat (h + 1) = unat h + 1" by (simp add: word_less_nat_alt unat_word_ariths)
  then show "unat ((h + 1) mod 128 :: u32) = (unat h + 1) mod 128" by (simp add: unat_mod)
next
  show "(h + 1) mod 128 < (128 :: u32)" by (simp add: word_mod_less_divisor)
qed

lemma ring_length_less: "ring_length h t < 128"
  by (simp add: ring_length_def)

lemma ring_length_zero: "h < 128 \<Longrightarrow> t < 128 \<Longrightarrow> ring_length h t = 0 \<longleftrightarrow> h = t"
  by (auto simp: ring_length_def word_less_nat_alt word_unat_eq_iff mod_if split: if_splits)

lemma mod_128_split: "(x :: nat) < 256 \<Longrightarrow> x mod 128 = (if x < 128 then x else x - 128)"
  by (simp add: mod_if)

lemma ring_length_next:
  assumes "h < 128" "t < 128" "(h + 1) mod 128 \<noteq> t"
  shows "ring_length ((h + 1) mod 128) t = ring_length h t + 1"
proof -
  have "unat h < 128" "unat t < 128" using assms by (simp_all add: word_less_nat_alt)
  moreover have "(unat h + 1) mod 128 \<noteq> unat t"
    unfolding next_index(1) [OF assms(1), symmetric] using assms(3) by (simp only: word_unat_eq_iff) simp
  ultimately show ?thesis unfolding ring_length_def next_index(1) [OF assms(1)] by (auto simp: mod_if split: if_splits)
qed

lemma ring_length_full:
  assumes "h < 128" "t < 128"
  shows "(h + 1) mod 128 = t \<longleftrightarrow> ring_length h t = 127"
proof -
  have "unat h < 128" "unat t < 128" using assms by (simp_all add: word_less_nat_alt)
  moreover have "(h + 1) mod 128 = t \<longleftrightarrow> (unat h + 1) mod 128 = unat t"
    using next_index(1) [OF assms(1)] by (metis word_unat_eq_iff)
  ultimately show ?thesis unfolding ring_length_def by (auto simp: mod_if split: if_splits)
qed

lemma ring_length_advance:
  assumes "h < 128" "t < 128" "h \<noteq> t"
  shows "ring_length h t = Suc (ring_length h ((t + 1) mod 128))"
proof -
  have "unat h < 128" "unat t < 128" "unat h \<noteq> unat t" using assms by (simp_all add: word_less_nat_alt word_unat_eq_iff)
  then show ?thesis unfolding ring_length_def next_index(1) [OF assms(2)] by (auto simp: mod_if split: if_splits)
qed

lemma ring_write_slot:
  assumes "ring_ok h t slots" "(h + 1) mod 128 \<noteq> t"
  shows "ring_contents ((h + 1) mod 128) t (slots[unat h := x]) = ring_contents h t slots @ [x]"
proof -
  have l: "unat h < 128" "unat t < 128" "length slots = 128" "h < 128" "t < 128"
    using assms(1) by (simp_all add: ring_ok_def word_less_nat_alt)
  have n: "ring_length ((h + 1) mod 128) t = ring_length h t + 1" by (rule ring_length_next [OF l(4,5) assms(2)])
  have e: "(unat t + ring_length h t) mod 128 = unat h" using l by (auto simp: ring_length_def mod_if split: if_splits)
  have "(unat t + i) mod 128 \<noteq> unat h" if "i < ring_length h t" for i
  proof -
    have "i < 128" "ring_length h t < 128" using that ring_length_less [of h t] by linarith+
    then show ?thesis using that l e by (auto simp: mod_if split: if_splits)
  qed
  then have "slots[unat h := x] ! ((unat t + i) mod 128) = slots ! ((unat t + i) mod 128)" if "i < ring_length h t" for i
    using that by (metis nth_list_update_neq)
  then show ?thesis using l e by (simp add: ring_contents_def n)
qed

lemma ring_read_slot:
  assumes "ring_ok h t slots" "h \<noteq> t"
  shows "ring_contents h t slots = slots ! unat t # ring_contents h ((t + 1) mod 128) slots"
proof -
  have l: "unat t < 128" "h < 128" "t < 128" using assms(1) by (simp_all add: ring_ok_def word_less_nat_alt)
  have m: "((unat t + 1) mod 128 + i) mod 128 = (unat t + Suc i) mod 128" for i by (simp add: mod_simps)
  show ?thesis
    unfolding ring_contents_def ring_length_advance [OF l(2,3) assms(2)] next_index(1) [OF l(3)] m
    using l by (simp add: map_upt_Suc del: upt_Suc)
qed

section \<open>The interface\<close>

locale ring_queue =
  fixes head tail :: "'s \<Rightarrow> u32" and slots :: "'s \<Rightarrow> u8 list" and dropped :: "'s \<Rightarrow> u32"
    and enqueue :: "u8 \<Rightarrow> 's \<Rightarrow> 's" and dequeue :: "'s \<Rightarrow> u8 \<times> 's"
  assumes enqueue_full: "(head s + 1) mod 128 = tail s \<Longrightarrow>
      head (enqueue x s) = head s \<and> tail (enqueue x s) = tail s \<and> slots (enqueue x s) = slots s \<and>
      dropped (enqueue x s) = dropped s + 1"
    and enqueue_room: "(head s + 1) mod 128 \<noteq> tail s \<Longrightarrow>
      head (enqueue x s) = (head s + 1) mod 128 \<and> tail (enqueue x s) = tail s \<and>
      slots (enqueue x s) = (slots s)[unat (head s) := x] \<and> dropped (enqueue x s) = dropped s"
    and dequeue_takes: "fst (dequeue s) = slots s ! unat (tail s) \<and> head (snd (dequeue s)) = head s \<and>
      tail (snd (dequeue s)) = (tail s + 1) mod 128 \<and> slots (snd (dequeue s)) = slots s \<and>
      dropped (snd (dequeue s)) = dropped s"
begin

lemma enqueue_contents:
  assumes "ring_ok (head s) (tail s) (slots s)"
  shows "ring_ok (head (enqueue x s)) (tail (enqueue x s)) (slots (enqueue x s)) \<and>
    ring_contents (head (enqueue x s)) (tail (enqueue x s)) (slots (enqueue x s)) =
      (if length (ring_contents (head s) (tail s) (slots s)) < 127
       then ring_contents (head s) (tail s) (slots s) @ [x] else ring_contents (head s) (tail s) (slots s)) \<and>
    dropped (enqueue x s) = (if length (ring_contents (head s) (tail s) (slots s)) < 127 then dropped s else dropped s + 1)"
proof -
  have l: "length (ring_contents (head s) (tail s) (slots s)) = ring_length (head s) (tail s)" by (simp add: ring_contents_def)
  have r: "head s < 128" "tail s < 128" using assms by (simp_all add: ring_ok_def)
  show ?thesis
  proof (cases "(head s + 1) mod 128 = tail s")
    case True
    then show ?thesis using enqueue_full [OF True, of x] assms l ring_length_full [OF r] by simp
  next
    case False
    then have "ring_length (head s) (tail s) < 127"
      using ring_length_full [OF r] ring_length_less [of "head s" "tail s"] by linarith
    then show ?thesis
      using enqueue_room [OF False, of x] ring_write_slot [OF assms False] assms l next_index(2)
      by (simp add: ring_ok_def)
  qed
qed

lemma enqueue_all:
  assumes "ring_ok (head s) (tail s) (slots s)"
  shows "ring_ok (head (fold enqueue xs s)) (tail (fold enqueue xs s)) (slots (fold enqueue xs s)) \<and>
    ring_contents (head (fold enqueue xs s)) (tail (fold enqueue xs s)) (slots (fold enqueue xs s)) =
      take 127 (ring_contents (head s) (tail s) (slots s) @ xs) \<and>
    dropped (fold enqueue xs s) =
      dropped s + word_of_nat (length (ring_contents (head s) (tail s) (slots s)) + length xs - 127)"
  using assms
proof (induction xs arbitrary: s)
  case Nil
  have "ring_length (head s) (tail s) \<le> 127" using ring_length_less [of "head s" "tail s"] by simp
  then show ?case using Nil by (simp add: ring_contents_def)
next
  case (Cons x xs)
  have "length (ring_contents (head s) (tail s) (slots s)) \<le> 127"
    using ring_length_less [of "head s" "tail s"] by (simp add: ring_contents_def)
  then show ?case using Cons.IH [of "enqueue x s"] enqueue_contents [OF Cons.prems, of x]
    by (auto simp: Suc_diff_le take_Cons')
qed

lemma dequeue_contents:
  assumes "ring_ok (head s) (tail s) (slots s)" "head s \<noteq> tail s"
  shows "ring_contents (head s) (tail s) (slots s) = fst (dequeue s) #
      ring_contents (head (snd (dequeue s))) (tail (snd (dequeue s))) (slots (snd (dequeue s)))"
    and "ring_ok (head (snd (dequeue s))) (tail (snd (dequeue s))) (slots (snd (dequeue s)))"
  using ring_read_slot [OF assms] dequeue_takes [of s] next_index(2) assms(1) by (simp_all add: ring_ok_def)

lemma empty_contents:
  assumes "ring_ok (head s) (tail s) (slots s)"
  shows "ring_contents (head s) (tail s) (slots s) = [] \<longleftrightarrow> head s = tail s"
  using assms ring_length_zero [of "head s" "tail s"] by (simp add: ring_contents_def ring_ok_def)

end

end
