(* ===== verification/Example_Machine.thy ===== *)
theory Example_Machine
  imports Frames
begin

text \<open>
  A concrete machine for the examples: the keyboard controller always holds the key A, no other device
  answers, and the timer ticks once in every turn of a polling loop.
\<close>

definition example_hw :: hardware where
  "example_hw = \<lparr>hw_in8 = (\<lambda>trace port. if port = 0x64 then 0x01 else if port = 0x60 then 0x1E else 0),
     hw_in16 = (\<lambda>trace port. 0xFFFF), hw_in32 = (\<lambda>trace port. 0xFFFFFFFF),
     hw_ticks = (\<lambda>trace. 1), hw_dma = (\<lambda>trace m. m)\<rparr>"

end
