(* ===== verification/Queue_Props.thy ===== *)
theory Queue_Props
  imports Editor_Props Ring_Queue Example_Machine "HOL-Library.Sublist"
begin

unbundle bit_operations_syntax

text \<open>
  The keyboard's and the mouse's queues between their interrupt handlers and the main loop: both
  implement the ring interface. From it: no scancode overtakes another, the loop that drains the
  mouse's bytes ends and sees each byte once, and interrupts only add to the queues.
\<close>

section \<open>The two rings\<close>

interpretation scancodes: ring_queue keyboard_scancode_head keyboard_scancode_tail keyboard_scancode_queue
  keyboard_scancode_dropped keyboard_enqueue_scancode keyboard_take_scancode
  by unfold_locales (simp_all add: keyboard_enqueue_scancode_def keyboard_take_scancode_def Let_def)

interpretation mouse_bytes: ring_queue mouse_queue_head mouse_queue_tail mouse_queue mouse_queue_dropped
  mouse_enqueue_byte mouse_take_byte
  by unfold_locales (simp_all add: mouse_enqueue_byte_def mouse_take_byte_def Let_def)

definition scancode_ring_ok :: "'a keyboard_globals_scheme \<Rightarrow> bool" where
  "scancode_ring_ok s = ring_ok (keyboard_scancode_head s) (keyboard_scancode_tail s) (keyboard_scancode_queue s)"

definition scancodes_pending :: "'a keyboard_globals_scheme \<Rightarrow> u8 list" where
  "scancodes_pending s = ring_contents (keyboard_scancode_head s) (keyboard_scancode_tail s) (keyboard_scancode_queue s)"

definition mouse_ring_ok :: "'a mouse_globals_scheme \<Rightarrow> bool" where
  "mouse_ring_ok s = ring_ok (mouse_queue_head s) (mouse_queue_tail s) (mouse_queue s)"

definition mouse_pending :: "'a mouse_globals_scheme \<Rightarrow> u8 list" where
  "mouse_pending s = ring_contents (mouse_queue_head s) (mouse_queue_tail s) (mouse_queue s)"

lemma scancode_take:
  assumes "scancode_ring_ok s" "scancodes_pending s = c # cs"
  shows "fst (keyboard_take_scancode s) = c \<and> scancodes_pending (snd (keyboard_take_scancode s)) = cs \<and>
    scancode_ring_ok (snd (keyboard_take_scancode s))"
proof -
  have r: "ring_ok (keyboard_scancode_head s) (keyboard_scancode_tail s) (keyboard_scancode_queue s)"
    using assms(1) by (simp add: scancode_ring_ok_def)
  have "keyboard_scancode_head s \<noteq> keyboard_scancode_tail s"
    using scancodes.empty_contents [OF r] assms(2) by (auto simp: scancodes_pending_def)
  then show ?thesis
    using scancodes.dequeue_contents [OF r] assms(2) by (simp add: scancodes_pending_def scancode_ring_ok_def)
qed

section \<open>Draining the mouse\<close>

lemma process_packet_queue [simp]:
  "mouse_queue_head (mouse_process_packet s) = mouse_queue_head s"
  "mouse_queue_tail (mouse_process_packet s) = mouse_queue_tail s"
  "mouse_queue (mouse_process_packet s) = mouse_queue s"
  by (simp_all add: mouse_process_packet_def Let_def mouse_fields_more [OF funpow_keeps [of rest_of]])

lemma accept_byte_queue [simp]:
  "mouse_queue_head (mouse_accept_byte v s) = mouse_queue_head s"
  "mouse_queue_tail (mouse_accept_byte v s) = mouse_queue_tail s"
  "mouse_queue (mouse_accept_byte v s) = mouse_queue s"
  by (simp_all add: mouse_accept_byte_def Let_def)

definition mouse_feed :: "u8 \<Rightarrow> 'a mouse_globals_scheme \<Rightarrow> 'a mouse_globals_scheme" where
  "mouse_feed value s = mouse_accept_byte value (snd (mouse_take_byte s))"

lemma mouse_drain_runs:
  assumes "mouse_ring_ok s" "mouse_pending s = bytes"
  shows "mouse_drain_pending s = Some (fold mouse_feed bytes s) \<and> mouse_pending (fold mouse_feed bytes s) = [] \<and>
    mouse_ring_ok (fold mouse_feed bytes s)"
  using assms
proof (induction bytes arbitrary: s)
  case Nil
  then have "mouse_queue_tail s = mouse_queue_head s"
    using mouse_bytes.empty_contents [of s] by (simp add: mouse_pending_def mouse_ring_ok_def)
  then show ?case using Nil by (simp add: mouse_drain_pending.simps)
next
  case (Cons b bytes)
  have r: "ring_ok (mouse_queue_head s) (mouse_queue_tail s) (mouse_queue s)" using Cons.prems by (simp add: mouse_ring_ok_def)
  have n: "mouse_queue_head s \<noteq> mouse_queue_tail s"
    using mouse_bytes.empty_contents [OF r] Cons.prems by (auto simp: mouse_pending_def)
  have b: "fst (mouse_take_byte s) = b" "mouse_pending (snd (mouse_take_byte s)) = bytes"
    "mouse_ring_ok (snd (mouse_take_byte s))"
    using mouse_bytes.dequeue_contents [OF r n] Cons.prems by (simp_all add: mouse_pending_def mouse_ring_ok_def)
  have "mouse_drain_step s = mouse_feed b s" using b(1) by (simp add: mouse_drain_step_def mouse_feed_def split_beta)
  moreover have "mouse_ring_ok (mouse_feed b s)" "mouse_pending (mouse_feed b s) = bytes"
    using b(2,3) by (simp_all add: mouse_feed_def mouse_ring_ok_def mouse_pending_def)
  ultimately show ?case using Cons.IH [of "mouse_feed b s"] n by (simp add: mouse_drain_pending.simps [of s])
qed

section \<open>Packets\<close>

lemma mouse_counts_more:
  assumes "rest_of t = rest_of s"
  shows "mouse_packets_seen t = mouse_packets_seen s" "mouse_buttons t = mouse_buttons s"
    "mouse_sync_losses t = mouse_sync_losses s"
  using assms by (cases s; cases t; simp)+

lemma process_packet_counts:
  "mouse_packets_seen (mouse_process_packet s) = mouse_packets_seen s + 1"
  "mouse_buttons (mouse_process_packet s) = mouse_packet s ! 0 AND 0x07"
  "mouse_sync_losses (mouse_process_packet s) = mouse_sync_losses s"
  "mouse_packet_index (mouse_process_packet s) = mouse_packet_index s"
  "mouse_packet_size (mouse_process_packet s) = mouse_packet_size s"
  "mouse_packet (mouse_process_packet s) = mouse_packet s"
  by (simp_all add: mouse_process_packet_def Let_def mouse_fields_more [OF funpow_keeps [of rest_of]]
      mouse_counts_more [OF funpow_keeps [of rest_of]])

text \<open>Between packets, with room for a packet of the size in use.\<close>

definition mouse_in_sync :: "'a mouse_globals_scheme \<Rightarrow> bool" where
  "mouse_in_sync s \<longleftrightarrow> mouse_packet_index s = 0 \<and> (mouse_packet_size s = 3 \<or> mouse_packet_size s = 4) \<and> length (mouse_packet s) = 4"

definition packet_of_size :: "u8 \<Rightarrow> u8 list \<Rightarrow> bool" where
  "packet_of_size n p \<longleftrightarrow> length p = unat n \<and> hd p AND 0x08 \<noteq> 0"

lemma skip_bytes:
  assumes "mouse_in_sync s" "list_all (\<lambda>b. b AND 0x08 = 0) noise"
  shows "mouse_in_sync (fold mouse_accept_byte noise s) \<and>
    mouse_sync_losses (fold mouse_accept_byte noise s) = mouse_sync_losses s + word_of_nat (length noise) \<and>
    mouse_packets_seen (fold mouse_accept_byte noise s) = mouse_packets_seen s \<and>
    mouse_buttons (fold mouse_accept_byte noise s) = mouse_buttons s \<and>
    mouse_packet_size (fold mouse_accept_byte noise s) = mouse_packet_size s"
  using assms by (induction noise arbitrary: s) (simp_all add: mouse_in_sync_def mouse_accept_byte_def)

lemma accept_packet:
  assumes "mouse_in_sync s" "packet_of_size (mouse_packet_size s) p"
  shows "mouse_in_sync (fold mouse_accept_byte p s) \<and>
    mouse_sync_losses (fold mouse_accept_byte p s) = mouse_sync_losses s \<and>
    mouse_packets_seen (fold mouse_accept_byte p s) = mouse_packets_seen s + 1 \<and>
    mouse_buttons (fold mouse_accept_byte p s) = hd p AND 0x07 \<and>
    mouse_packet_size (fold mouse_accept_byte p s) = mouse_packet_size s"
proof -
  obtain a b c d where m: "mouse_packet s = [a, b, c, d]"
    using assms(1) by (auto simp: mouse_in_sync_def numeral_eq_Suc length_Suc_conv)
  show ?thesis
  proof (cases "mouse_packet_size s = 3")
    case True
    then have "length p = 3" using assms(2) by (simp add: packet_of_size_def)
    then obtain x y z where "p = [x, y, z]" by (auto simp: numeral_eq_Suc length_Suc_conv)
    then show ?thesis using assms True m
      by (simp add: mouse_in_sync_def packet_of_size_def mouse_accept_byte_def process_packet_counts Let_def word_le_nat_alt)
  next
    case False
    then have s: "mouse_packet_size s = 4" using assms(1) by (simp add: mouse_in_sync_def)
    then have "length p = 4" using assms(2) by (simp add: packet_of_size_def)
    then obtain x y z w where "p = [x, y, z, w]" by (auto simp: numeral_eq_Suc length_Suc_conv)
    then show ?thesis using assms s m
      by (simp add: mouse_in_sync_def packet_of_size_def mouse_accept_byte_def process_packet_counts Let_def word_le_nat_alt)
  qed
qed

lemma accept_packets:
  assumes "mouse_in_sync s" "list_all (packet_of_size (mouse_packet_size s)) ps"
  shows "mouse_in_sync (fold mouse_accept_byte (concat ps) s) \<and>
    mouse_sync_losses (fold mouse_accept_byte (concat ps) s) = mouse_sync_losses s \<and>
    mouse_packets_seen (fold mouse_accept_byte (concat ps) s) = mouse_packets_seen s + word_of_nat (length ps) \<and>
    mouse_buttons (fold mouse_accept_byte (concat ps) s) = (if ps = [] then mouse_buttons s else hd (last ps) AND 0x07)"
  using assms
proof (induction ps arbitrary: s)
  case (Cons p ps)
  then have a: "mouse_in_sync s" "packet_of_size (mouse_packet_size s) p" by simp_all
  show ?case using accept_packet [OF a] Cons.IH [of "fold mouse_accept_byte p s"] Cons.prems by simp
qed simp

section \<open>Interrupts between turns\<close>

text \<open>A sequence of timer, keyboard and mouse interrupts, each accepted while interrupts are enabled.\<close>

datatype irq_line = Irq_Timer | Irq_Keyboard | Irq_Mouse

inductive irq_run ::
  "hardware \<Rightarrow> 'a keyboard_globals_scheme \<Rightarrow> irq_line list \<Rightarrow> 'a keyboard_globals_scheme \<Rightarrow> bool"
  for hw :: hardware where
  start: "irq_run hw s [] s"
| timer: "irq_run hw s is t \<Longrightarrow> interrupts_enabled t \<Longrightarrow> irq_run hw s (is @ [Irq_Timer]) (irq0_handler_c t)"
| keyboard: "irq_run hw s is t \<Longrightarrow> interrupts_enabled t \<Longrightarrow> irq_run hw s (is @ [Irq_Keyboard]) (irq1_handler_c hw t)"
| mouse: "irq_run hw s is t \<Longrightarrow> interrupts_enabled t \<Longrightarrow> irq_run hw s (is @ [Irq_Mouse]) (irq12_handler_c hw t)"

definition rings_ok :: "'a keyboard_globals_scheme \<Rightarrow> bool" where
  "rings_ok s = (scancode_ring_ok s \<and> mouse_ring_ok s)"

text \<open>
  The state with everything cleared that the three handlers may change: the tick counters, the two
  rings with their heads and drop counters, the mouse's interrupt counter and the record of the
  port accesses. What is left is the rest of the kernel, memory and heap included.
\<close>

definition irq_erase :: "'a keyboard_globals_scheme \<Rightarrow> 'a keyboard_globals_scheme" where
  "irq_erase s = s\<lparr>
     scheduler_tasks := (\<lambda>p. (scheduler_tasks s p)\<lparr>total_ticks := 0, slice_ticks := 0\<rparr>),
     scheduler_tick_counter := 0, scheduler_reschedule_pending := False, io_trace := [], timer_ticks := 0,
     mouse_queue_head := 0, mouse_queue_dropped := 0, mouse_queue := [], mouse_irq_events := 0,
     keyboard_scancode_queue := [], keyboard_scancode_head := 0, keyboard_scancode_dropped := 0\<rparr>"

definition same_foreground :: "'a keyboard_globals_scheme \<Rightarrow> 'a keyboard_globals_scheme \<Rightarrow> bool" where
  "same_foreground s t \<longleftrightarrow> irq_erase t = irq_erase s \<and>
     (\<forall>p. p \<noteq> scheduler_current_task_ptr s \<longrightarrow> scheduler_tasks t p = scheduler_tasks s p)"

text \<open>The port accesses of the handlers: acknowledging at the interrupt controllers, reading the input controller.\<close>

fun irq_access :: "io_event \<Rightarrow> bool" where
  "irq_access (Out8 port value) \<longleftrightarrow> (port = 0x20 \<or> port = 0xA0) \<and> value = 0x20"
| "irq_access (In8 port value) \<longleftrightarrow> port = 0x60 \<or> port = 0x64"
| "irq_access _ \<longleftrightarrow> False"

definition irq_traffic :: "'a io_globals_scheme \<Rightarrow> 'a io_globals_scheme \<Rightarrow> bool" where
  "irq_traffic s t \<longleftrightarrow> (\<exists>es. io_trace t = es @ io_trace s \<and> list_all irq_access es)"

lemma irq_erase_kept:
  "keyboard_input_buffer (irq_erase s) = keyboard_input_buffer s" "keyboard_clipboard_buffer (irq_erase s) = keyboard_clipboard_buffer s"
  "keyboard_buffer_index (irq_erase s) = keyboard_buffer_index s" "keyboard_cursor_index (irq_erase s) = keyboard_cursor_index s"
  "keyboard_clipboard_length (irq_erase s) = keyboard_clipboard_length s"
  "scheduler_current_task_ptr (irq_erase s) = scheduler_current_task_ptr s"
  by (simp_all add: irq_erase_def)

lemma same_foregroundD:
  assumes "same_foreground s t"
  shows "keyboard_input_buffer t = keyboard_input_buffer s" "keyboard_clipboard_buffer t = keyboard_clipboard_buffer s"
    "keyboard_buffer_index t = keyboard_buffer_index s" "keyboard_cursor_index t = keyboard_cursor_index s"
    "keyboard_clipboard_length t = keyboard_clipboard_length s" "scheduler_current_task_ptr t = scheduler_current_task_ptr s"
  using assms irq_erase_kept [of s] irq_erase_kept [of t] by (simp_all add: same_foreground_def)

lemma same_foreground_refl: "same_foreground s s"
  by (simp add: same_foreground_def)

lemma same_foreground_trans: "same_foreground s t \<Longrightarrow> same_foreground t u \<Longrightarrow> same_foreground s u"
  using same_foregroundD(6) [of s t] by (simp add: same_foreground_def)

lemma same_foreground_editor: "same_foreground s t \<Longrightarrow> editor_rep e t = editor_rep e s"
  by (cases e) (simp add: same_foregroundD)

lemma irq_erase_upd:
  "irq_erase (s\<lparr>io_trace := es\<rparr>) = irq_erase s" "irq_erase (s\<lparr>timer_ticks := n\<rparr>) = irq_erase s"
  "irq_erase (s\<lparr>scheduler_tick_counter := n\<rparr>) = irq_erase s" "irq_erase (s\<lparr>scheduler_reschedule_pending := b\<rparr>) = irq_erase s"
  "irq_erase (s\<lparr>mouse_queue_head := n\<rparr>) = irq_erase s" "irq_erase (s\<lparr>mouse_queue_dropped := n\<rparr>) = irq_erase s"
  "irq_erase (s\<lparr>mouse_queue := q\<rparr>) = irq_erase s" "irq_erase (s\<lparr>mouse_irq_events := n\<rparr>) = irq_erase s"
  "irq_erase (s\<lparr>keyboard_scancode_queue := q\<rparr>) = irq_erase s" "irq_erase (s\<lparr>keyboard_scancode_head := n\<rparr>) = irq_erase s"
  "irq_erase (s\<lparr>keyboard_scancode_dropped := n\<rparr>) = irq_erase s"
  by (simp_all add: irq_erase_def)

lemma irq_erase_task:
  assumes "\<And>x. (f x)\<lparr>total_ticks := 0, slice_ticks := 0\<rparr> = x\<lparr>total_ticks := 0, slice_ticks := 0\<rparr>"
  shows "irq_erase (upd_task p f s) = irq_erase s"
proof -
  have "(\<lambda>q. (scheduler_tasks (upd_task p f s) q)\<lparr>total_ticks := 0, slice_ticks := 0\<rparr>) =
      (\<lambda>q. (scheduler_tasks s q)\<lparr>total_ticks := 0, slice_ticks := 0\<rparr>)"
    by (rule ext) (simp add: upd_task_def assms)
  then show ?thesis by (simp only: irq_erase_def) (simp add: upd_task_def)
qed

lemma tick_erase:
  "irq_erase (timer_handle_tick s) = irq_erase s"
  "p \<noteq> scheduler_current_task_ptr s \<Longrightarrow> scheduler_tasks (timer_handle_tick s) p = scheduler_tasks s p"
proof -
  show "irq_erase (timer_handle_tick s) = irq_erase s"
    unfolding timer_handle_tick_def scheduler_handle_tick_def Let_def
    by (split if_split)+ (simp add: irq_erase_upd irq_erase_task)
  show "p \<noteq> scheduler_current_task_ptr s \<Longrightarrow> scheduler_tasks (timer_handle_tick s) p = scheduler_tasks s p"
    by (simp add: timer_handle_tick_def scheduler_handle_tick_def upd_task_def Let_def)
qed

lemma irq0_keeps:
  "scancode_ring_ok (irq0_handler_c s) = scancode_ring_ok s" "scancodes_pending (irq0_handler_c s) = scancodes_pending s"
  "mouse_ring_ok (irq0_handler_c s) = mouse_ring_ok s" "mouse_pending (irq0_handler_c s) = mouse_pending s"
  by (simp_all add: irq0_handler_c_def pic_send_eoi_def pic_outb_def outb_def timer_handle_tick_def scheduler_handle_tick_def
      upd_task_def Let_def scancode_ring_ok_def scancodes_pending_def mouse_ring_ok_def mouse_pending_def)

lemma enqueue_scancode_extends:
  assumes "scancode_ring_ok s"
  shows "scancode_ring_ok (keyboard_enqueue_scancode x s) \<and> prefix (scancodes_pending s) (scancodes_pending (keyboard_enqueue_scancode x s))"
  using scancodes.enqueue_contents [of s x] assms by (auto simp: scancode_ring_ok_def scancodes_pending_def)

lemma enqueue_byte_extends:
  assumes "mouse_ring_ok s"
  shows "mouse_ring_ok (mouse_enqueue_byte x s) \<and> prefix (mouse_pending s) (mouse_pending (mouse_enqueue_byte x s))"
  using mouse_bytes.enqueue_contents [of s x] assms by (auto simp: mouse_ring_ok_def mouse_pending_def)

lemma port_access_keeps:
  "scancode_ring_ok (snd (inb hw p s)) = scancode_ring_ok s" "scancodes_pending (snd (inb hw p s)) = scancodes_pending s"
  "mouse_ring_ok (snd (inb hw p s)) = mouse_ring_ok s" "mouse_pending (snd (inb hw p s)) = mouse_pending s"
  "scancode_ring_ok (pic_send_eoi i s) = scancode_ring_ok s" "scancodes_pending (pic_send_eoi i s) = scancodes_pending s"
  "mouse_ring_ok (pic_send_eoi i s) = mouse_ring_ok s" "mouse_pending (pic_send_eoi i s) = mouse_pending s"
  "timer_ticks (snd (inb hw p s)) = timer_ticks s" "timer_ticks (pic_send_eoi i s) = timer_ticks s"
  by (simp_all add: inb_def pic_send_eoi_def pic_outb_def outb_def Let_def scancode_ring_ok_def scancodes_pending_def
      mouse_ring_ok_def mouse_pending_def)

lemma enqueue_apart:
  "mouse_ring_ok (keyboard_enqueue_scancode x s) = mouse_ring_ok s" "mouse_pending (keyboard_enqueue_scancode x s) = mouse_pending s"
  "scancode_ring_ok (mouse_enqueue_byte x s) = scancode_ring_ok s" "scancodes_pending (mouse_enqueue_byte x s) = scancodes_pending s"
  "mouse_ring_ok (s\<lparr>mouse_irq_events := n\<rparr>) = mouse_ring_ok s" "mouse_pending (s\<lparr>mouse_irq_events := n\<rparr>) = mouse_pending s"
  "scancode_ring_ok (s\<lparr>mouse_irq_events := n\<rparr>) = scancode_ring_ok s" "scancodes_pending (s\<lparr>mouse_irq_events := n\<rparr>) = scancodes_pending s"
  "timer_ticks (keyboard_enqueue_scancode x s) = timer_ticks s" "timer_ticks (mouse_enqueue_byte x s) = timer_ticks s"
  "io_trace (keyboard_enqueue_scancode x s) = io_trace s" "io_trace (mouse_enqueue_byte x s) = io_trace s"
  by (simp_all add: keyboard_enqueue_scancode_def mouse_enqueue_byte_def Let_def scancode_ring_ok_def scancodes_pending_def
      mouse_ring_ok_def mouse_pending_def)

lemma same_foreground_upd:
  "same_foreground u (s\<lparr>io_trace := es\<rparr>) = same_foreground u s" "same_foreground u (s\<lparr>mouse_irq_events := n\<rparr>) = same_foreground u s"
  "same_foreground u (snd (inb hw p s)) = same_foreground u s" "same_foreground u (pic_send_eoi i s) = same_foreground u s"
  "same_foreground u (keyboard_enqueue_scancode x s) = same_foreground u s"
  "same_foreground u (mouse_enqueue_byte x s) = same_foreground u s"
  by (simp_all add: same_foreground_def irq_erase_upd inb_def pic_send_eoi_def pic_outb_def outb_def
      keyboard_enqueue_scancode_def mouse_enqueue_byte_def Let_def)

lemma irq_traffic_refl: "irq_traffic s s"
  by (simp add: irq_traffic_def)

lemma irq_traffic_trans: "irq_traffic s t \<Longrightarrow> irq_traffic t u \<Longrightarrow> irq_traffic s u"
  unfolding irq_traffic_def by force

lemma irq_traffic_inb: "port = 0x60 \<or> port = 0x64 \<Longrightarrow> irq_traffic s (snd (inb hw port s))"
  by (force simp: irq_traffic_def inb_def Let_def)

lemma irq_traffic_eoi: "irq_traffic s (pic_send_eoi irq s)"
proof (cases "irq \<ge> 8")
  case True
  then have "io_trace (pic_send_eoi irq s) = [Out8 0x20 0x20, Out8 0xA0 0x20] @ io_trace s"
    by (simp add: pic_send_eoi_def pic_outb_def outb_def)
  then show ?thesis unfolding irq_traffic_def by (intro exI conjI) (assumption, simp)
next
  case False
  then have "io_trace (pic_send_eoi irq s) = [Out8 0x20 0x20] @ io_trace s"
    by (simp add: pic_send_eoi_def pic_outb_def outb_def)
  then show ?thesis unfolding irq_traffic_def by (intro exI conjI) (assumption, simp)
qed

lemma irq_traffic_same: "io_trace t = io_trace u \<Longrightarrow> irq_traffic s t = irq_traffic s u"
  by (simp add: irq_traffic_def)

definition only_enqueued :: "'a keyboard_globals_scheme \<Rightarrow> 'a keyboard_globals_scheme \<Rightarrow> bool" where
  "only_enqueued s t \<longleftrightarrow> prefix (scancodes_pending s) (scancodes_pending t) \<and> prefix (mouse_pending s) (mouse_pending t) \<and>
     same_foreground s t \<and> irq_traffic s t"

lemma only_enqueued_refl: "only_enqueued s s"
  by (simp add: only_enqueued_def same_foreground_refl irq_traffic_refl)

lemma only_enqueued_trans: "only_enqueued s t \<Longrightarrow> only_enqueued t u \<Longrightarrow> only_enqueued s u"
  by (auto simp: only_enqueued_def intro: same_foreground_trans prefix_order.trans irq_traffic_trans)

lemma irq0_enqueues:
  assumes "rings_ok s"
  shows "rings_ok (irq0_handler_c s) \<and> only_enqueued s (irq0_handler_c s) \<and> timer_ticks (irq0_handler_c s) = timer_ticks s + 1"
proof -
  let ?t = "timer_handle_tick s"
  have "io_trace ?t = io_trace s" "timer_ticks ?t = timer_ticks s + 1"
    by (simp_all add: timer_handle_tick_def scheduler_handle_tick_def upd_task_def Let_def)
  then have "irq_traffic s (irq0_handler_c s)" "timer_ticks (irq0_handler_c s) = timer_ticks s + 1"
    using irq_traffic_eoi [of ?t 0] by (simp_all add: irq0_handler_c_def irq_traffic_def port_access_keeps)
  moreover have "same_foreground s (irq0_handler_c s)"
    by (simp add: irq0_handler_c_def same_foreground_upd) (simp add: same_foreground_def tick_erase)
  ultimately show ?thesis using assms by (simp add: rings_ok_def only_enqueued_def irq0_keeps)
qed

lemma irq1_enqueues:
  assumes "rings_ok s"
  shows "rings_ok (irq1_handler_c hw s) \<and> only_enqueued s (irq1_handler_c hw s) \<and> timer_ticks (irq1_handler_c hw s) = timer_ticks s"
proof -
  let ?v = "snd (inb hw 0x64 s)"
  let ?u = "snd (inb hw 0x60 ?v)"
  let ?e = "keyboard_enqueue_scancode (fst (inb hw 0x60 ?v)) ?u"
  have e: "irq1_handler_c hw s = pic_send_eoi 1 (if fst (inb hw 0x64 s) AND 0x01 \<noteq> 0 then ?e else ?v)"
    by (simp add: irq1_handler_c_def keyboard_has_pending_scancode_def keyboard_read_scancode_def keyboard_inb_def split_beta)
  have "irq_traffic s ?v" "irq_traffic ?v ?u" by (simp_all add: irq_traffic_inb)
  then have "irq_traffic s ?v" "irq_traffic s ?e"
    using irq_traffic_trans irq_traffic_same [of ?e ?u s] by (simp_all add: enqueue_apart) blast
  then have tr: "irq_traffic s (irq1_handler_c hw s)"
    unfolding e by (simp add: irq_traffic_trans [OF _ irq_traffic_eoi])
  have "scancode_ring_ok ?u" using assms by (simp add: rings_ok_def port_access_keeps)
  from enqueue_scancode_extends [OF this] show ?thesis using assms tr
    by (auto simp: e rings_ok_def only_enqueued_def port_access_keeps enqueue_apart same_foreground_upd same_foreground_refl)
qed

lemma irq12_enqueues:
  assumes "rings_ok s"
  shows "rings_ok (irq12_handler_c hw s) \<and> only_enqueued s (irq12_handler_c hw s) \<and> timer_ticks (irq12_handler_c hw s) = timer_ticks s"
proof -
  let ?v = "snd (inb hw 0x64 s)"
  let ?w = "?v\<lparr>mouse_irq_events := mouse_irq_events ?v + 1\<rparr>"
  let ?u = "snd (inb hw 0x60 ?w)"
  let ?e = "mouse_enqueue_byte (fst (inb hw 0x60 ?w)) ?u"
  have e: "irq12_handler_c hw s = pic_send_eoi 12
      (if fst (inb hw 0x64 s) AND MOUSE_STATUS_OUTPUT_FULL = 0 \<or> fst (inb hw 0x64 s) AND MOUSE_STATUS_AUX_DATA = 0 then ?v else ?e)"
    by (simp add: irq12_handler_c_def mouse_handle_irq_def mouse_inb_def split_beta Let_def)
  have "irq_traffic s ?v" "irq_traffic ?w ?u" by (simp_all add: irq_traffic_inb)
  moreover have "irq_traffic s ?w" using irq_traffic_inb [of "0x64" s hw] by (simp add: irq_traffic_def)
  ultimately have "irq_traffic s ?v" "irq_traffic s ?e"
    using irq_traffic_trans [of s ?w ?u] irq_traffic_same [of ?e ?u s] by (simp_all add: enqueue_apart)
  then have tr: "irq_traffic s (irq12_handler_c hw s)"
    unfolding e by (simp add: irq_traffic_trans [OF _ irq_traffic_eoi])
  have "mouse_ring_ok ?u" using assms by (simp add: rings_ok_def port_access_keeps enqueue_apart)
  from enqueue_byte_extends [OF this] show ?thesis using assms tr
    by (auto simp: e rings_ok_def only_enqueued_def port_access_keeps enqueue_apart same_foreground_upd same_foreground_refl)
qed

lemma irq_run_enqueues:
  "irq_run hw s is t \<Longrightarrow> rings_ok s \<Longrightarrow>
     rings_ok t \<and> only_enqueued s t \<and> timer_ticks t = timer_ticks s + word_of_nat (count_list is Irq_Timer)"
proof (induction rule: irq_run.induct)
  case (timer s "is" t)
  then show ?case using irq0_enqueues [of t] only_enqueued_trans [of s t] by (simp add: add.assoc)
next
  case (keyboard s "is" t)
  then show ?case using irq1_enqueues [of t hw] only_enqueued_trans [of s t] by simp
next
  case (mouse s "is" t)
  then show ?case using irq12_enqueues [of t hw] only_enqueued_trans [of s t] by simp
qed (simp add: only_enqueued_refl)

section \<open>Properties\<close>

text \<open>
  C33. The keyboard's ring is a first-in first-out queue of 127 scancodes. Interrupts append in the
  order of arrival; when the ring is full the newest scancodes are lost and counted, none is
  overwritten; and the main loop takes the oldest one.
\<close>

theorem scancode_queue_is_fifo:
  assumes "scancode_ring_ok s"
  shows "scancodes_pending (fold keyboard_enqueue_scancode codes s) = take 127 (scancodes_pending s @ codes) \<and>
    keyboard_scancode_dropped (fold keyboard_enqueue_scancode codes s) =
      keyboard_scancode_dropped s + word_of_nat (length (scancodes_pending s) + length codes - 127) \<and>
    scancode_ring_ok (fold keyboard_enqueue_scancode codes s) \<and>
    (\<forall>c cs. scancodes_pending s = c # cs \<longrightarrow>
       fst (keyboard_take_scancode s) = c \<and> scancodes_pending (snd (keyboard_take_scancode s)) = cs)"
  using scancodes.enqueue_all [of s codes] scancode_take [OF assms] assms
  by (simp add: scancode_ring_ok_def scancodes_pending_def)

theorem scancode_queue_is_fifo_witness:
  "scancode_ring_ok zeroed_kernel \<and>
   scancodes_pending (fold keyboard_enqueue_scancode (replicate 130 0x1E) zeroed_kernel) = replicate 127 0x1E \<and>
   keyboard_scancode_dropped (fold keyboard_enqueue_scancode (replicate 130 0x1E) zeroed_kernel) = 3"
proof -
  have r: "scancode_ring_ok zeroed_kernel" "scancodes_pending zeroed_kernel = []" "keyboard_scancode_dropped zeroed_kernel = 0"
    by (simp_all add: scancode_ring_ok_def ring_ok_def scancodes_pending_def ring_contents_def ring_length_def zeroed_kernel_defs)
  show ?thesis using scancode_queue_is_fifo [OF r(1), of "replicate 130 0x1E"] r by (simp add: take_replicate)
qed

text \<open>
  C36. The loop that drains the mouse's queue ends, whatever is queued. It gives every pending byte to
  the packet decoder exactly once and in the order of arrival, and leaves the queue empty.
\<close>

theorem mouse_drain_in_order:
  assumes "mouse_ring_ok s"
  shows "mouse_drain_pending s =
      Some (fold (\<lambda>value s. mouse_accept_byte value (snd (mouse_take_byte s))) (mouse_pending s) s) \<and>
    mouse_pending (the (mouse_drain_pending s)) = []"
  using mouse_drain_runs [OF assms refl] by (simp add: mouse_feed_def [abs_def])

theorem mouse_drain_in_order_witness:
  "let s = fold mouse_enqueue_byte [0x09, 5] zeroed_kernel
   in mouse_ring_ok s \<and> mouse_drain_pending s =
        Some (mouse_accept_byte 5 (snd (mouse_take_byte (mouse_accept_byte 0x09 (snd (mouse_take_byte s))))))"
proof -
  have "mouse_ring_ok zeroed_kernel" "mouse_pending zeroed_kernel = []"
    by (simp_all add: mouse_ring_ok_def ring_ok_def mouse_pending_def ring_contents_def ring_length_def zeroed_kernel_defs)
  then have "mouse_ring_ok (fold mouse_enqueue_byte [0x09, 5] zeroed_kernel)"
    "mouse_pending (fold mouse_enqueue_byte [0x09, 5] zeroed_kernel) = [0x09, 5]"
    using mouse_bytes.enqueue_all [of zeroed_kernel "[0x09, 5]", folded mouse_ring_ok_def mouse_pending_def] by simp_all
  then show ?thesis using mouse_drain_in_order [of "fold mouse_enqueue_byte [0x09, 5] zeroed_kernel"] by (simp add: Let_def)
qed

text \<open>
  C35. The decoder finds the packets in the mouse's stream. Bytes that cannot start a packet are
  skipped and counted as losses of synchronisation; after them every packet of three bytes, or four
  with a wheel, is seen once, the buttons are those of the last packet, and the decoder is again
  between packets.
\<close>

theorem mouse_packets_decoded:
  assumes "mouse_in_sync s" "list_all (\<lambda>b. b AND 0x08 = 0) noise" "list_all (packet_of_size (mouse_packet_size s)) ps"
  shows "mouse_in_sync (fold mouse_accept_byte (noise @ concat ps) s) \<and>
    mouse_packets_seen (fold mouse_accept_byte (noise @ concat ps) s) = mouse_packets_seen s + word_of_nat (length ps) \<and>
    mouse_sync_losses (fold mouse_accept_byte (noise @ concat ps) s) = mouse_sync_losses s + word_of_nat (length noise) \<and>
    (ps \<noteq> [] \<longrightarrow> mouse_buttons (fold mouse_accept_byte (noise @ concat ps) s) = hd (last ps) AND 0x07)"
  using skip_bytes [OF assms(1,2)] accept_packets [of "fold mouse_accept_byte noise s" ps] assms(3) by simp

theorem mouse_packets_decoded_witness:
  "let s = fold mouse_accept_byte ([0x01] @ concat [[0x09, 5, 6], [0x0A, 1, 2]]) (zeroed_kernel\<lparr>mouse_packet_size := 3\<rparr>)
   in mouse_packets_seen s = 2 \<and> mouse_sync_losses s = 1 \<and> mouse_buttons s = 2"
proof -
  let ?s = "zeroed_kernel\<lparr>mouse_packet_size := 3\<rparr>"
  have "mouse_in_sync ?s" "mouse_packet_size ?s = 3" "mouse_packets_seen ?s = 0" "mouse_sync_losses ?s = 0"
    by (simp_all add: mouse_in_sync_def zeroed_kernel_defs)
  then show ?thesis
    using mouse_packets_decoded [of ?s "[0x01]" "[[0x09, 5, 6], [0x0A, 1, 2]]"]
    by (simp add: packet_of_size_def Let_def del: fold_simps)
qed

text \<open>
  C34. Interrupts between two turns of the main loop only add to the queues and count. After any
  sequence of timer, keyboard and mouse interrupts, in any order and with any answers of the devices,
  both rings are intact, what was pending is still pending and still first; the clock has advanced by
  the number of timer interrupts; the only port accesses are acknowledgements at the two interrupt
  controllers and reads of the input controller; and all other state is as it was: memory, heap,
  screen, edited line, prompt, modifier keys, the packet under assembly, every task but for the
  running one's tick counts. What may change besides the rings, their drop counters and the mouse's interrupt
  counter is the scheduler's tick counter and its request to reschedule.
\<close>

theorem interrupts_only_enqueue:
  assumes "irq_run hw s is t" "rings_ok s"
  shows "rings_ok t \<and> prefix (scancodes_pending s) (scancodes_pending t) \<and> prefix (mouse_pending s) (mouse_pending t) \<and>
    timer_ticks t = timer_ticks s + word_of_nat (count_list is Irq_Timer) \<and> irq_traffic s t \<and>
    irq_erase t = irq_erase s \<and>
    (\<forall>p. p \<noteq> scheduler_current_task_ptr s \<longrightarrow> scheduler_tasks t p = scheduler_tasks s p) \<and>
    (editor_rep e s \<longrightarrow> editor_rep e t)"
  using irq_run_enqueues [OF assms] same_foreground_editor [of s t e]
  by (simp add: only_enqueued_def same_foreground_def del: editor_rep.simps)

theorem interrupts_only_enqueue_witness:
  "let s = cpu_sti zeroed_kernel; t = irq1_handler_c example_hw (irq0_handler_c s)
   in rings_ok s \<and> irq_run example_hw s [Irq_Timer, Irq_Keyboard] t \<and> rings_ok t \<and> irq_erase t = irq_erase s \<and>
     timer_ticks t = 1 \<and> scancodes_pending t = [0x1E]"
proof -
  let ?s = "cpu_sti zeroed_kernel"
  have e: "interrupts_enabled ?s" "interrupts_enabled (irq0_handler_c ?s)"
    by (simp_all add: interrupts_enabled_def cpu_sti_def irq0_handler_c_def pic_send_eoi_def pic_outb_def outb_def
        timer_handle_tick_def scheduler_handle_tick_def zeroed_kernel_defs zero_context_def)
  have ticks: "timer_ticks ?s = 0" by (simp add: cpu_sti_def zeroed_kernel_defs)
  have r: "rings_ok ?s"
    by (simp add: rings_ok_def scancode_ring_ok_def mouse_ring_ok_def ring_ok_def cpu_sti_def zeroed_kernel_defs)
  have i: "irq_run example_hw ?s [Irq_Timer, Irq_Keyboard] (irq1_handler_c example_hw (irq0_handler_c ?s))"
    using irq_run.keyboard [OF irq_run.timer [OF irq_run.start e(1)] e(2)] by simp
  let ?u = "snd (inb example_hw 0x60 (snd (inb example_hw 0x64 (irq0_handler_c ?s))))"
  have "irq1_handler_c example_hw (irq0_handler_c ?s) = pic_send_eoi 1 (keyboard_enqueue_scancode 0x1E ?u)"
    by (simp add: irq1_handler_c_def keyboard_has_pending_scancode_def keyboard_read_scancode_def keyboard_inb_def
        inb_def Let_def example_hw_def)
  moreover have "scancode_ring_ok ?u" "scancodes_pending ?u = []"
    using r by (simp_all add: port_access_keeps irq0_keeps rings_ok_def)
      (simp add: scancodes_pending_def ring_contents_def ring_length_def cpu_sti_def zeroed_kernel_defs)
  ultimately have "scancodes_pending (irq1_handler_c example_hw (irq0_handler_c ?s)) = [0x1E]"
    using scancodes.enqueue_contents [of ?u "0x1E", folded scancode_ring_ok_def scancodes_pending_def]
    by (simp add: port_access_keeps)
  then show ?thesis using interrupts_only_enqueue [OF i r] i r ticks by (simp add: Let_def)
qed

end
