(* ===== verification/Shell_Props.thy ===== *)
theory Shell_Props
  imports Frames
begin

unbundle bit_operations_syntax

text \<open>
  Properties of the shell's command lines: the numbers the kernel prints can be typed back, and a
  command line is cut at the blanks.
\<close>

section \<open>Numbers on a command line\<close>

definition ends_token :: "string \<Rightarrow> bool" where
  "ends_token rest = (rest = [] \<or> keyboard_is_space (hd rest))"

definition digit_of :: "char \<Rightarrow> nat" where
  "digit_of c = the (keyboard_hex_value c)"

definition is_digit :: "nat \<Rightarrow> char \<Rightarrow> bool" where
  "is_digit base c = (keyboard_hex_value c = Some (digit_of c) \<and> digit_of c < base \<and> \<not> keyboard_is_space c)"

lemma parse_digits_all:
  assumes "list_all (is_digit base) ds" "ends_token rest" "seen \<or> ds \<noteq> []"
  shows "keyboard_parse_digits base (ds @ rest) acc seen =
    Some (foldl (\<lambda>a c. a * word_of_nat base + word_of_nat (digit_of c)) acc ds, rest)"
  using assms
proof (induction ds arbitrary: acc seen)
  case Nil
  then show ?case by (cases rest) (auto simp: ends_token_def)
next
  case (Cons d ds)
  then have "\<not> keyboard_is_space d" "keyboard_hex_value d = Some (digit_of d)" "\<not> base \<le> digit_of d"
    by (simp_all add: is_digit_def)
  then show ?case using Cons by simp
qed

lemma skip_spaces_all: "list_all keyboard_is_space sp \<Longrightarrow> keyboard_skip_spaces (sp @ t) = keyboard_skip_spaces t"
  by (induction sp) simp_all

lemma append_char_fits:
  "length line + length cs < capacity \<Longrightarrow> fold (keyboard_buffer_append_char capacity) cs line = line @ cs"
  by (induction cs arbitrary: line) (simp_all add: keyboard_buffer_append_char_def)

section \<open>Decimal\<close>

lemma decimal_char: "d < 10 \<Longrightarrow> keyboard_hex_value (char_of (48 + d)) = Some d \<and> digit_of (char_of (48 + d)) = d \<and>
    \<not> keyboard_is_space (char_of (48 + d :: nat))"
  by (auto simp: keyboard_hex_value_def digit_of_def keyboard_is_space_def of_char_of char_of_eq_iff Let_def take_bit_eq_mod)

lemma u32_digits_are_digits: "list_all (is_digit 10) (u32_digits n v)"
proof (induction n arbitrary: v)
  case (Suc n)
  have "unat (v mod 10) < 10" by (simp add: unat_mod)
  then show ?case using Suc decimal_char [of "unat (v mod 10)"] by (simp add: is_digit_def)
qed simp

lemma read_digits:
  "foldl (\<lambda>a c. a * word_of_nat 10 + word_of_nat (digit_of c)) 0 (rev (u32_digits n v)) = (word_of_nat (read_decimal (u32_digits n v)) :: u32)"
proof (induction n arbitrary: v)
  case (Suc n)
  have "unat (v mod 10) < 10" by (simp add: unat_mod)
  then show ?case using Suc decimal_char [of "unat (v mod 10)"] digit_value_char [of "unat (v mod 10)"] by simp
qed simp

lemma u32_digits_length: "length (u32_digits n v) \<le> n"
  by (induction n v rule: u32_digits.induct) simp_all

definition decimal_text :: "u32 \<Rightarrow> string" where
  "decimal_text v = (if v = 0 then ''0'' else rev (u32_digits 10 v))"

lemma append_u32_text: "keyboard_buffer_append_u32 80 v [] = decimal_text v"
  using u32_digits_length [of 10 v] append_char_fits [of "[]" "rev (u32_digits 10 v)" 80]
  by (simp add: keyboard_buffer_append_u32_def decimal_text_def keyboard_buffer_append_char_def)

lemma zero_char: "is_digit 10 CHR ''0''" "digit_of CHR ''0'' = 0"
  by code_simp+

lemma decimal_text_digits: "list_all (is_digit 10) (decimal_text v)" "decimal_text v \<noteq> []"
proof -
  have "u32_digits 10 v \<noteq> []" if "v \<noteq> 0"
  proof
    assume "u32_digits 10 v = []"
    then have "read_decimal (u32_digits 10 v) = 0" by simp
    then show False using that u32_digits_all [of v] by (simp add: unat_eq_zero)
  qed
  moreover have "list_all (is_digit 10) (rev (u32_digits 10 v))"
    using u32_digits_are_digits [of 10 v] by (simp only: list_all_rev)
  ultimately show "list_all (is_digit 10) (decimal_text v)" "decimal_text v \<noteq> []"
    by (auto simp: decimal_text_def zero_char)
qed

lemma no_hex_mark: "is_digit 10 c \<Longrightarrow> c \<noteq> CHR ''x'' \<and> c \<noteq> CHR ''X''" "\<not> keyboard_is_space CHR ''x''" "\<not> keyboard_is_space CHR ''X''"
  by (auto simp: is_digit_def keyboard_hex_value_def keyboard_is_space_def)

lemma parse_decimal:
  assumes "list_all keyboard_is_space sp" "ends_token rest"
  shows "keyboard_parse_u32_token (sp @ decimal_text v @ rest) = Some (v, rest)"
proof -
  obtain d ds where t: "decimal_text v = d # ds" using decimal_text_digits(2) [of v] by (cases "decimal_text v") auto
  have d: "list_all (is_digit 10) (d # ds)" using decimal_text_digits(1) [of v] t by simp
  have "keyboard_skip_spaces (sp @ decimal_text v @ rest) = d # ds @ rest"
    using d by (simp add: skip_spaces_all [OF assms(1)] t is_digit_def)
  moreover have "\<not> (ds @ rest \<noteq> [] \<and> (hd (ds @ rest) = CHR ''x'' \<or> hd (ds @ rest) = CHR ''X''))"
    using d assms(2) no_hex_mark by (cases ds) (auto simp: ends_token_def)
  moreover have "keyboard_parse_digits 10 ((d # ds) @ rest) 0 False =
      Some (foldl (\<lambda>a c. a * word_of_nat 10 + word_of_nat (digit_of c)) 0 (d # ds), rest)"
    using parse_digits_all [OF d assms(2)] by simp
  moreover have "foldl (\<lambda>a c. a * word_of_nat 10 + word_of_nat (digit_of c)) 0 (decimal_text v) = v"
  proof (cases "v = 0")
    case True
    then show ?thesis by (simp add: decimal_text_def zero_char)
  next
    case False
    then show ?thesis using read_digits [of 10 v] u32_digits_all [of v] by (simp add: decimal_text_def)
  qed
  ultimately show ?thesis by (auto simp: keyboard_parse_u32_token_def t)
qed

section \<open>Hexadecimal\<close>

lemma hex_char: "n < 16 \<Longrightarrow> is_digit 16 (hex_digits ! n) \<and> digit_of (hex_digits ! n) = n"
proof -
  have "\<forall>n\<in>set [0..<16]. is_digit 16 (hex_digits ! n) \<and> digit_of (hex_digits ! n) = n" by code_simp
  then show "n < 16 \<Longrightarrow> ?thesis" by simp
qed

lemma nibble_step: "drop_bit 4 (x :: u32) * 16 + (x AND 15) = x"
proof -
  have "drop_bit 4 x = x div 16" by (simp add: drop_bit_eq_div)
  moreover have "x AND 15 = x mod 16" using take_bit_eq_mod [of 4 x] by (simp add: take_bit_eq_mask mask_numeral)
  ultimately show ?thesis by (simp add: div_mult_mod_eq)
qed

definition hex_text :: "u32 \<Rightarrow> string" where
  "hex_text v = map (\<lambda>k. hex_digits ! unat (drop_bit k v AND 0x0F)) [28, 24, 20, 16, 12, 8, 4, 0]"

lemma append_hex32_text: "keyboard_buffer_append_hex32 80 v [] = ''0x'' @ hex_text v"
proof -
  have "keyboard_buffer_append_text 80 ''0x'' [] = ''0x''" by code_simp
  then show ?thesis
    using append_char_fits [of "''0x''" "hex_text v" 80]
    by (simp add: keyboard_buffer_append_hex32_def hex_text_def)
qed

lemma nibble_less: "unat ((x :: u32) AND 15) < 16"
proof -
  have "x AND 15 = x mod 16" using take_bit_eq_mod [of 4 x] by (simp add: take_bit_eq_mask mask_numeral)
  then show ?thesis by (simp add: unat_mod)
qed

lemma hex_text_value:
  "foldl (\<lambda>a c. a * word_of_nat 16 + word_of_nat (digit_of c)) 0 (hex_text v) = v"
proof -
  let ?d = "\<lambda>k. word_of_nat (digit_of (hex_digits ! unat (drop_bit k v AND 15))) :: u32"
  have d: "?d k = drop_bit k v AND 15" for k using hex_char [OF nibble_less] by simp
  have n: "drop_bit l v * word_of_nat 16 + ?d k = drop_bit k v" if "l = k + 4" for k l
    unfolding d using nibble_step [of "drop_bit k v"] by (simp add: that add.commute)
  have "drop_bit 32 v = 0" by (rule bit_word_eqI) (simp add: bit_simps)
  then have "0 * word_of_nat 16 + ?d 28 = drop_bit 28 v" using n [of 32 28] by (simp only:) simp
  moreover have "drop_bit 0 v = v" by simp
  ultimately show ?thesis
    using n [of 28 24] n [of 24 20] n [of 20 16] n [of 16 12] n [of 12 8] n [of 8 4] n [of 4 0]
    by (simp only: hex_text_def list.map foldl_Cons foldl_Nil) simp
qed

lemma parse_hex:
  assumes "list_all keyboard_is_space sp" "ends_token rest"
  shows "keyboard_parse_u32_token (sp @ ''0x'' @ hex_text v @ rest) = Some (v, rest)"
proof -
  have h: "list_all (is_digit 16) (hex_text v)" using hex_char [OF nibble_less] by (simp add: hex_text_def)
  have "keyboard_skip_spaces (sp @ ''0x'' @ hex_text v @ rest) = ''0x'' @ hex_text v @ rest"
    by (simp add: skip_spaces_all [OF assms(1)] keyboard_is_space_def)
  moreover have "hex_text v \<noteq> []" by (simp add: hex_text_def)
  ultimately show ?thesis
    using parse_digits_all [OF h assms(2), of False 0] hex_text_value [of v] by (simp add: keyboard_parse_u32_token_def)
qed

section \<open>Properties\<close>

text \<open>
  C37. Numbers make the round trip through the shell. What the kernel's decimal and hexadecimal
  printers write for a 32-bit value, typed as an argument behind any blanks and before a blank or the
  end of the line, is read back as that value, and reading stops right behind it.
\<close>

theorem numbers_round_trip:
  assumes "list_all keyboard_is_space sp" "rest = [] \<or> keyboard_is_space (hd rest)"
  shows "keyboard_parse_u32_token (sp @ keyboard_buffer_append_u32 80 v [] @ rest) = Some (v, rest) \<and>
    keyboard_parse_u32_token (sp @ keyboard_buffer_append_hex32 80 v [] @ rest) = Some (v, rest)"
  using parse_decimal [OF assms(1), of rest v] parse_hex [OF assms(1), of rest v] assms(2)
  by (simp_all add: ends_token_def append_u32_text append_hex32_text)

theorem numbers_round_trip_witness:
  "keyboard_buffer_append_u32 80 4096 [] = ''4096'' \<and> keyboard_buffer_append_hex32 80 4096 [] = ''0x00001000'' \<and>
   keyboard_parse_u32_token ''  4096 7'' = Some (4096, '' 7'') \<and> keyboard_parse_u32_token ''0x00001000'' = Some (4096, [])"
proof -
  have p: "keyboard_buffer_append_u32 80 4096 [] = ''4096''" "keyboard_buffer_append_hex32 80 4096 [] = ''0x00001000''"
    by code_simp+
  show ?thesis
    using numbers_round_trip [of "''  ''" "'' 7''" 4096] numbers_round_trip [of "[]" "[]" 4096]
    by (simp add: p keyboard_is_space_def)
qed

end
