(* ===== verification/Sound_Props.thy ===== *)
theory Sound_Props
  imports Example_Machine
begin

unbundle bit_operations_syntax

text \<open>
  The PC speaker falls silent (\<^verbatim>\<open>drivers/sound.c\<close>). The delays end when the timer runs, which is all that
  is asked of the machine, and what a tone switches on is switched off before its call returns.
\<close>

section \<open>The machine and the speaker\<close>

text \<open>
  The timer runs: however often a loop has polled, an interrupt arrives after some more turns, and a
  turn sees at most one.
\<close>

definition timer_runs :: "hardware \<Rightarrow> bool" where
  "timer_runs hw \<longleftrightarrow>
     (\<forall>trace. hw_ticks hw trace \<le> 1) \<and> (\<forall>trace. \<exists>k. hw_ticks hw (replicate k Poll @ trace) = 1)"

text \<open>Both the gate of the timer chip and the data bit of the speaker were last written as zero.\<close>

definition speaker_off :: "'a sound_globals_scheme \<Rightarrow> bool" where
  "speaker_off s \<longleftrightarrow> (\<exists>v. last_out8 0x61 (io_trace s) = Some v \<and> v AND 3 = 0)"

definition speaker_usable :: "'a sound_globals_scheme \<Rightarrow> bool" where
  "speaker_usable s \<longleftrightarrow> sound_ready s \<and> interrupts_enabled s"

text \<open>The delay returns and leaves the speaker as it is.\<close>

definition wait_ends :: "hardware \<Rightarrow> u32 \<Rightarrow> u32 \<Rightarrow> 'a sound_globals_scheme \<Rightarrow> bool" where
  "wait_ends hw start n s \<longleftrightarrow>
     (\<exists>t. sound_wait_loop hw start n s = Some t \<and> speaker_usable t \<and> (speaker_off s \<longrightarrow> speaker_off t))"

abbreviation wait_left :: "u32 \<Rightarrow> u32 \<Rightarrow> 'a sound_globals_scheme \<Rightarrow> nat" where
  "wait_left start n s \<equiv> unat n - unat (timer_ticks s - start)"

section \<open>What interrupts and delays keep\<close>

lemma irq0_leaves_speaker [simp]:
  "cpu_registers (irq0_handler_c s) = cpu_registers s"
  "sound_ready (irq0_handler_c s) = sound_ready s"
  "last_out8 0x61 (io_trace (irq0_handler_c s)) = last_out8 0x61 (io_trace s)"
  by (simp_all add: irq0_handler_c_def timer_handle_tick_def scheduler_handle_tick_def upd_task_def
      pic_send_eoi_def pic_outb_def outb_def Let_def)

lemma poll_leaves_speaker [simp]:
  assumes "hw_ticks hw (io_trace s) \<le> 1"
  shows "speaker_usable (poll hw s) = speaker_usable s" "speaker_off (poll hw s) = speaker_off s"
  using assms
  by (cases "hw_ticks hw (io_trace s)"; simp add: poll_def Let_def speaker_usable_def speaker_off_def interrupts_enabled_def)+

lemma poll_tick:
  assumes "speaker_usable s" "hw_ticks hw (io_trace s) = 1"
  shows "timer_ticks (poll hw s) = timer_ticks s + 1"
  using assms by (simp add: poll_def speaker_usable_def)

lemma poll_no_tick:
  assumes "hw_ticks hw (io_trace s) = 0"
  shows "timer_ticks (poll hw s) = timer_ticks s" "io_trace (poll hw s) = Poll # io_trace s"
  using assms by (simp_all add: poll_def Let_def)

section \<open>Delays end\<close>

lemma wait_ends_step:
  assumes "hw_ticks hw (io_trace s) \<le> 1" "speaker_usable s"
    and "timer_ticks s - start < n \<Longrightarrow> wait_ends hw start n (poll hw s)"
  shows "wait_ends hw start n s"
  using assms unfolding wait_ends_def by (subst sound_wait_loop.simps) (auto simp: timer_get_ticks_def)

lemma wait_left_tick:
  assumes "speaker_usable s" "hw_ticks hw (io_trace s) = 1" "timer_ticks s - start < n"
  shows "wait_left start n (poll hw s) < wait_left start n s"
proof -
  have *: "timer_ticks (poll hw s) - start = (timer_ticks s - start) + 1"
    using poll_tick [OF assms(1,2)] by simp
  have **: "unat (timer_ticks s - start) < unat n" using assms(3) by (simp add: word_less_nat_alt)
  then have "unat ((timer_ticks s - start) + 1) = unat (timer_ticks s - start) + 1"
    using u32_less [of n] by (subst unat_add_small) simp_all
  then show ?thesis using ** unfolding * by linarith
qed

lemma sound_wait_loop_ends:
  fixes s :: "'a sound_globals_scheme"
  assumes hw: "timer_runs hw" and s: "speaker_usable s"
  shows "wait_ends hw start n s"
  using s
proof (induction "wait_left start n s" arbitrary: s rule: less_induct)
  case less
  have le: "hw_ticks hw tr \<le> 1" for tr using hw by (simp add: timer_runs_def)
  obtain k where "hw_ticks hw (replicate k Poll @ io_trace s) = 1" using hw by (auto simp: timer_runs_def)
  then show ?case
    using less.hyps less.prems
  proof (induction k arbitrary: s)
    case (0 s)
    show ?case
      by (rule wait_ends_step [OF le 0(3)]) (use 0 le wait_left_tick [OF 0(3)] in simp)
  next
    case (Suc k s)
    note IH = Suc.prems(2)
    consider "hw_ticks hw (io_trace s) = 1" | "hw_ticks hw (io_trace s) = 0" using le [of "io_trace s"] by linarith
    then show ?case
    proof cases
      case 1
      show ?thesis
        by (rule wait_ends_step [OF le Suc.prems(3)]) (use 1 IH Suc.prems(3) le wait_left_tick [OF Suc.prems(3)] in simp)
    next
      case 2
      have "wait_ends hw start n (poll hw s)"
        by (rule Suc.IH) (use Suc.prems le in \<open>simp_all add: poll_no_tick [OF 2] replicate_app_Cons_same\<close>)
      then show ?thesis by (intro wait_ends_step [OF le Suc.prems(3)])
    qed
  qed
qed

lemma sound_wait_ms_ends:
  assumes "timer_runs hw" "speaker_usable s"
  shows "\<exists>t. sound_wait_ms hw d s = Some t \<and> speaker_usable t \<and> (speaker_off s \<longrightarrow> speaker_off t)"
  using sound_wait_loop_ends [OF assms] unfolding wait_ends_def sound_wait_ms_def .

section \<open>Notes end with the speaker off\<close>

lemma sound_stop_off:
  "speaker_off (sound_stop hw s)" "speaker_usable (sound_stop hw s) = speaker_usable s"
proof -
  have "(v AND 0xFC) AND 3 = 0" for v :: u8 by (simp add: and.assoc)
  then show "speaker_off (sound_stop hw s)" "speaker_usable (sound_stop hw s) = speaker_usable s"
    by (simp_all add: sound_stop_def sound_inb_def sound_outb_def inb_def outb_def Let_def speaker_off_def
        speaker_usable_def interrupts_enabled_def)
qed

lemma sound_play_tone_usable: "speaker_usable (sound_play_tone hw f s) = speaker_usable s"
  by (simp add: sound_play_tone_def sound_inb_def sound_outb_def inb_def outb_def Let_def speaker_usable_def
      interrupts_enabled_def)

lemma sound_beep_ends:
  assumes "timer_runs hw" "speaker_usable s"
  shows "\<exists>t. sound_beep hw f d s = Some t \<and> speaker_usable t \<and> speaker_off t"
proof -
  have "speaker_usable (sound_play_tone hw f s)" using assms(2) by (simp add: sound_play_tone_usable)
  from sound_wait_ms_ends [OF assms(1) this, of d] obtain t
    where "sound_wait_ms hw d (sound_play_tone hw f s) = Some t" "speaker_usable t" by blast
  moreover have "sound_ready s" using assms(2) by (simp add: speaker_usable_def)
  ultimately show ?thesis by (simp add: sound_beep_def sound_stop_off)
qed

lemma sound_play_note_ends:
  assumes "timer_runs hw" "speaker_usable s"
  shows "\<exists>t. sound_play_note hw f d g s = Some t \<and> speaker_usable t \<and> speaker_off t"
proof -
  have "speaker_usable (sound_stop hw s)" using assms(2) by (simp add: sound_stop_off)
  from sound_wait_ms_ends [OF assms(1) this, of d] sound_beep_ends [OF assms, of f d]
  have "\<exists>u. (if f = 0 then sound_wait_ms hw d (sound_stop hw s) else sound_beep hw f d s) = Some u \<and>
      speaker_usable u \<and> speaker_off u"
    by (simp add: sound_stop_off)
  then obtain u where u: "(if f = 0 then sound_wait_ms hw d (sound_stop hw s) else sound_beep hw f d s) = Some u"
      "speaker_usable u" "speaker_off u" by blast
  have "sound_play_note hw f d g s = (if g \<noteq> 0 then sound_wait_ms hw g u else Some u)"
    unfolding sound_play_note_def u(1) by simp
  then show ?thesis using sound_wait_ms_ends [OF assms(1) u(2), of g] u by (cases "g = 0") simp_all
qed

lemma play_all_ends:
  assumes "\<forall>f d g s. speaker_usable s \<longrightarrow> (\<exists>t. play f d g s = Some t \<and> speaker_usable t \<and> speaker_off t)"
  shows "speaker_usable s \<Longrightarrow> tune \<noteq> [] \<Longrightarrow>
    \<exists>t. play_all play tune s = Some t \<and> speaker_usable t \<and> speaker_off t"
proof (induction tune arbitrary: s)
  case (Cons x tune)
  obtain f d g where x: "x = (f, d, g)" by (cases x)
  obtain t where "play f d g s = Some t" "speaker_usable t" "speaker_off t" using assms Cons.prems(1) by blast
  then show ?case using Cons.IH [of t] by (cases tune) (simp_all add: x)
qed simp

lemma sound_play_panic_note_ends:
  assumes "timer_runs hw" "speaker_usable s"
  shows "\<exists>t. sound_play_panic_note hw f d g s = Some t \<and> speaker_usable t \<and> speaker_off t"
  using sound_play_note_ends [OF assms, of f d g] assms(2)
  by (auto simp: sound_play_panic_note_def sound_interrupts_enabled_def speaker_usable_def interrupts_enabled_def)

text \<open>
  C39. The speaker falls silent. With the driver started, interrupts enabled and the timer running, a
  beep of any frequency and duration, the melody and the panic alert all return, and the last byte
  written to the speaker's port has both bits that drive the speaker clear.
\<close>

theorem sound_ends_silent:
  assumes "timer_runs hw" "sound_ready s" "interrupts_enabled s"
  shows "(\<exists>t. sound_beep hw frequency_hz duration_ms s = Some t \<and> speaker_off t) \<and>
    (\<exists>t. sound_play_melody hw s = Some t \<and> speaker_off t) \<and>
    (\<exists>t. sound_panic_alert hw s = Some t \<and> speaker_off t)"
proof -
  have s: "speaker_usable s" using assms by (simp add: speaker_usable_def)
  have n: "\<forall>f d g u. speaker_usable u \<longrightarrow>
      (\<exists>t. sound_play_note hw f d g u = Some t \<and> speaker_usable t \<and> speaker_off t)"
    using sound_play_note_ends [OF assms(1)] by blast
  have p: "\<forall>f d g u. speaker_usable u \<longrightarrow>
      (\<exists>t. sound_play_panic_note hw f d g u = Some t \<and> speaker_usable t \<and> speaker_off t)"
    using sound_play_panic_note_ends [OF assms(1)] by blast
  have "\<exists>t. sound_play_melody hw s = Some t \<and> speaker_off t"
    unfolding sound_play_melody_def using play_all_ends [OF n s] assms(2) by (auto simp del: play_all.simps)
  moreover have "\<exists>t. sound_panic_alert hw s = Some t \<and> speaker_off t"
    unfolding sound_panic_alert_def using play_all_ends [OF p s] assms(2) by (auto simp del: play_all.simps)
  ultimately show ?thesis using sound_beep_ends [OF assms(1) s, of frequency_hz duration_ms] by blast
qed

theorem sound_ends_silent_witness:
  "let s = cpu_sti (sound_init example_hw zeroed_kernel)
   in sound_ready s \<and> (\<exists>t. sound_beep example_hw 880 350 s = Some t \<and> speaker_off t)"
proof -
  let ?s = "cpu_sti (sound_init example_hw zeroed_kernel)"
  have "timer_runs example_hw" by (simp add: timer_runs_def example_hw_def)
  moreover have "sound_ready ?s" "interrupts_enabled ?s"
    by (simp_all add: cpu_sti_def sound_init_def sound_stop_def sound_inb_def sound_outb_def inb_def outb_def Let_def
        interrupts_enabled_def)
  ultimately show ?thesis using sound_ends_silent [of example_hw ?s 880 350] by (simp add: Let_def)
qed

end
