(* ===== verification/Boot_Props.thy ===== *)
theory Boot_Props
  imports Paging_Props Frames
begin

unbundle bit_operations_syntax

text \<open>
  The boot of the memory system as a whole (\<^verbatim>\<open>kernel_main\<close> in \<^verbatim>\<open>core/kernel.c\<close>): what the boot loader left
  in memory decides, through the boot information, the heap and the frame allocator, which frames are
  free and whether paging is on. The stages drawn on the screen between the calls touch none of it.
\<close>

section \<open>What the memory system looks at\<close>

text \<open>The variables of the heap and of the boot information that later stages read.\<close>

definition memory_view :: "'a bootinfo_globals_scheme \<Rightarrow> (u32 \<Rightarrow> heap_block) \<times> u32 \<times> u32 \<times> bool \<times> u32 \<times> u32 \<times> bool \<times> u32 \<times> u32" where
  "memory_view s = (heap_mem s, heap_free_list s, heap_first_block s, heap_ready s, heap_start_ptr s, heap_end_ptr s,
     bootinfo_ready s, bootinfo_info_address s, bootinfo_info_size s)"

text \<open>The frames that the memory map and the kernel's own regions leave free.\<close>

definition boot_frames :: "(nat \<times> nat \<times> u32) list \<Rightarrow> u32 \<Rightarrow> 'a pmm_globals_scheme \<Rightarrow> u32 set" where
  "boot_frames rs kernel_end s =
     {f \<in> available_frames rs. unat f < (fold max (map (\<lambda>(a, n). a + n - 1) (available rs)) 0 + 4096) div 4096} -
     reserved_frames kernel_end s"

lemma memory_viewD:
  assumes "memory_view t = memory_view s"
  shows "heap_inv t = heap_inv s" "heap_blocks t = heap_blocks s" "heap_ready t = heap_ready s"
    "heap_start_ptr t = heap_start_ptr s" "heap_end_ptr t = heap_end_ptr s" "heap_end_address t = heap_end_address s"
    "bootinfo_ready t = bootinfo_ready s" "bootinfo_info_address t = bootinfo_info_address s"
    "bootinfo_info_size t = bootinfo_info_size s"
  using assms heap_inv_same [of t s] by (simp_all add: memory_view_def heap_end_address_def)

lemma memory_view_limit:
  assumes "memory_view t = memory_view s"
  shows "paging_identity_limit_bytes t = paging_identity_limit_bytes s" "reserved_frames k t = reserved_frames k s"
  using memory_viewD [OF assms]
  by (simp_all add: paging_identity_limit_bytes_def bootinfo_is_valid_def bootinfo_multiboot_info_address_def
      bootinfo_multiboot_info_size_def reserved_frames_def)

section \<open>Screen and log\<close>

lemma log_more:
  assumes "rest_of t = rest_of s"
  shows "log_globals.more t = log_globals.more s"
  using assms by (cases s; cases t) simp

lemma boot_stage_more [simp]: "rest_of (boot_stage k n up yes no s) = rest_of s"
  by (simp add: boot_stage_def kernel_ui_boot_stage_def Let_def)

lemma boot_start_more:
  "log_globals.more (steps [serial_init e, klog_init, kernel_ui_draw_boot_banner, kernel_ui_boot_stage k n d b] s) =
     log_globals.more s"
proof -
  have "rest_of (kernel_ui_draw_boot_banner u) = rest_of u" "rest_of (kernel_ui_boot_stage k n d b u) = rest_of u" for u :: "'a log_globals_scheme"
    by (simp_all add: kernel_ui_draw_boot_banner_def kernel_ui_boot_stage_def Let_def)
  then have "log_globals.more (kernel_ui_draw_boot_banner u) = log_globals.more u"
      "log_globals.more (kernel_ui_boot_stage k n d b u) = log_globals.more u" for u :: "'a log_globals_scheme"
    using log_more by blast+
  then show ?thesis by (simp add: serial_init_def klog_init_def serial_outb_def Let_def)
qed

lemma memory_more:
  fixes s t :: "'a pmm_globals_scheme"
  assumes "log_globals.more t = log_globals.more s"
  shows "memory_view t = memory_view s" "mem t = mem s" "bootinfo_memory_ranges t = bootinfo_memory_ranges s"
    "boot_table t = boot_table s" "bootinfo_wf t = bootinfo_wf s"
    "bootinfo_highest_usable_address_value t = bootinfo_highest_usable_address_value s"
proof -
  have f: "mem t = mem s" "heap_mem t = heap_mem s" "heap_free_list t = heap_free_list s" "heap_first_block t = heap_first_block s"
    "heap_ready t = heap_ready s" "heap_start_ptr t = heap_start_ptr s" "heap_end_ptr t = heap_end_ptr s"
    "heap_globals.more t = heap_globals.more s"
    using assms by (cases s; cases t; simp)+
  note g = f pmm_fields_more [OF f(8)]
  show "memory_view t = memory_view s" "mem t = mem s" "bootinfo_memory_ranges t = bootinfo_memory_ranges s"
    "bootinfo_highest_usable_address_value t = bootinfo_highest_usable_address_value s"
    by (simp_all add: memory_view_def g)
  show b: "boot_table t = boot_table s" by (simp add: boot_table_def g)
  show "bootinfo_wf t = bootinfo_wf s" by (simp add: bootinfo_wf_def b g)
qed

lemma paging_more:
  assumes "log_globals.more t = log_globals.more s"
  shows "pages_ok t = pages_ok s" "free_set t = free_set s" "paging_ready t = paging_ready s"
    "cpu_cr0 t = cpu_cr0 s" "cpu_cr3 t = cpu_cr3 s" "mem t = mem s"
proof -
  have f: "heap_globals.more t = heap_globals.more s" and m: "mem t = mem s" using assms by (cases s; cases t; simp)+
  have b: "pmm_bitmap t = pmm_bitmap s" "pmm_ready t = pmm_ready s" using f by (cases s; cases t; simp)+
  have g: "pmm_globals.more t = pmm_globals.more s" using pmm_fields_more(12) [OF f] .
  show "mem t = mem s" by (fact m)
  show "paging_ready t = paging_ready s" "cpu_cr0 t = cpu_cr0 s" "cpu_cr3 t = cpu_cr3 s"
    using g by (cases s; cases t; simp)+
  show fs: "free_set t = free_set s"
    by (simp add: free_set_def pmm_frame_is_used_def b m pmm_fields_more [OF f])
  show "pages_ok t = pages_ok s"
    by (simp add: pages_ok_def pmm_inv_def bitmap_pages_def bitmap_bytes_def fs b pmm_fields_more [OF f])
qed

section \<open>Paging\<close>

lemma alloc_frame_view [simp]: "memory_view (snd (pmm_alloc_frame s)) = memory_view s"
  by (simp add: pmm_alloc_frame_def pmm_take_def pmm_mark_frame_used_def memory_view_def Let_def split: option.split)

lemma zero_page_view [simp]: "memory_view (paging_zero_page p s) = memory_view s"
  unfolding paging_zero_page_def by (rule fold_keeps) (simp add: memory_view_def)

lemma fill_table_view [simp]: "memory_view (snd (paging_fill_table n i p a s)) = memory_view s"
  by (induction n arbitrary: i a s) (simp_all add: memory_view_def)

lemma paging_upd_view [simp]:
  "memory_view (s\<lparr>mem := m\<rparr>) = memory_view s"
  "memory_view (s'\<lparr>paging_directory_physical := x\<rparr>) = memory_view s'" "memory_view (s'\<lparr>paging_identity_bytes := x\<rparr>) = memory_view s'"
  "memory_view (s'\<lparr>paging_tables_count := x\<rparr>) = memory_view s'" "memory_view (s'\<lparr>paging_ready := b\<rparr>) = memory_view s'"
  "memory_view (s'\<lparr>cpu_cr0 := x\<rparr>) = memory_view s'" "memory_view (s'\<lparr>cpu_cr3 := x\<rparr>) = memory_view s'"
  by (simp_all add: memory_view_def)

lemma map_tables_view [simp]: "memory_view (snd (paging_map_tables n i a s)) = memory_view s"
  by (induction n arbitrary: i a s) (simp_all add: split_beta Let_def)

lemma paging_init_view [simp]: "memory_view (paging_init s) = memory_view s"
  by (simp add: paging_init_def split_beta Let_def)

lemma identity_limit_nonzero:
  assumes "unat (heap_end_address s) \<le> 0xFF800000"
    "unat (bootinfo_info_address s) + unat (bootinfo_info_size s) \<le> 0xFF800000"
  shows "paging_identity_limit_bytes s \<noteq> 0"
proof -
  have i: "unat (bootinfo_info_address s + bootinfo_info_size s) \<le> 0xFF800000"
    using assms(2) by (simp add: unat_add_small)
  obtain v :: u32 where v: "paging_identity_limit_bytes s = align_up_word v (2 ^ 22)" "0x1000000 \<le> unat v" "unat v \<le> 0xFF800000"
    by (rule that [of "let limit = heap_end_address s;
        limit = (if limit < 0x1000000 then 0x1000000 else limit);
        bootinfo_end = bootinfo_info_address s + bootinfo_info_size s
      in if bootinfo_ready s \<and> bootinfo_end > limit then bootinfo_end else limit"])
      (use assms(1) i in \<open>auto simp: paging_identity_limit_bytes_def Let_def align_up_word_def paging_align_up_u32_def
        bootinfo_is_valid_def bootinfo_multiboot_info_address_def bootinfo_multiboot_info_size_def word_less_nat_alt\<close>)
  have "unat (v + mask 22) = unat v + 0x3FFFFF"
    using v(3) by (subst unat_add_small) (simp_all add: mask_eq_exp_minus_1)
  then have "0 < unat (align_up_word v (2 ^ 22))"
    using v(2) unfolding unat_align_up by (simp add: div_greater_zero_iff)
  then show ?thesis using v(1) by (metis less_irrefl unat_0)
qed

text \<open>The last part of the boot of the memory system.\<close>

lemma boot_paging_stage:
  fixes s :: "'a paging_globals_scheme"
  assumes "pages_ok s" "heap_inv s" "paging_identity_limit_bytes s \<noteq> 0"
    and u_def: "u = steps [boot_stage k n up y no, paging_init, boot_stage k' n' up' y' no'] s"
  defines "limit \<equiv> paging_identity_limit_bytes s"
  shows "memory_view u = memory_view s \<and> (paging_ready u \<longleftrightarrow> unat (limit div 0x400000) < card (free_set s)) \<and>
    (paging_ready u \<longrightarrow> pages_ok u \<and> free_set u \<subseteq> free_set s \<and> heap_end_address s \<le> limit \<and>
       (\<forall>w a. page_walk w (mem u) (cpu_cr3 u) a = (if a < limit then Some a else None)))"
proof -
  define a where "a = boot_stage k n up y no s"
  have a: "log_globals.more a = log_globals.more s" unfolding a_def by (intro log_more) simp
  have u: "log_globals.more u = log_globals.more (paging_init a)"
    unfolding u_def a_def by (simp, intro log_more) simp
  note av = memory_more(1) [OF a]
  have r: "pages_ok a" "heap_ready a" "paging_identity_limit_bytes a = limit" "free_set a = free_set s"
    using assms(1) heap_physD(1) [OF heap_inv_phys [OF assms(2)]] memory_viewD(3) [OF av]
    by (simp_all add: paging_more [OF a] memory_view_limit(1) [OF av] limit_def)
  have v: "memory_view u = memory_view s" using memory_more(1) [OF u] av by simp
  show ?thesis
  proof (cases "unat (limit div 0x400000) < card (free_set s)")
    case True
    note m = init_maps [OF r(1,2), unfolded r(3,4), OF assms(3) [folded limit_def] True]
    show ?thesis
      using v True m(1,4-6) identity_limit(2) [OF assms(3)] by (simp add: paging_more [OF u] limit_def)
  next
    case False
    then have "\<not> paging_ready (paging_init a)" using init_fails [OF r(1,2), unfolded r(3,4)] by simp
    then show ?thesis using v False by (simp add: paging_more [OF u])
  qed
qed

section \<open>Heap and frame allocator\<close>

lemma heap_init_keeps:
  fixes s :: "'a pmm_globals_scheme"
  shows "boot_table (heap_init k s) = boot_table s" "bootinfo_wf (heap_init k s) = bootinfo_wf s"
    "bootinfo_ready (heap_init k s) = bootinfo_ready s" "bootinfo_info_address (heap_init k s) = bootinfo_info_address s"
    "bootinfo_info_size (heap_init k s) = bootinfo_info_size s"
    "bootinfo_highest_usable_address_value (heap_init k s) = bootinfo_highest_usable_address_value s"
proof -
  note f = pmm_fields_more [OF heap_init_fields(1), of k s]
  show b: "boot_table (heap_init k s) = boot_table s" by (simp add: boot_table_def f)
  show "bootinfo_wf (heap_init k s) = bootinfo_wf s" by (simp add: bootinfo_wf_def b f)
  show "bootinfo_ready (heap_init k s) = bootinfo_ready s" "bootinfo_info_address (heap_init k s) = bootinfo_info_address s"
    "bootinfo_info_size (heap_init k s) = bootinfo_info_size s"
    "bootinfo_highest_usable_address_value (heap_init k s) = bootinfo_highest_usable_address_value s"
    by (simp_all add: f)
qed

lemma heap_init_region:
  assumes "unat k \<le> 0xFF000000"
  shows "unat (heap_end_ptr (heap_init k s)) \<le> unat k + 0x10000F"
proof -
  have "unat (heap_align_up k 16) = round16 (unat k)" using assms by (simp add: unat_heap_align_up)
  moreover have "round16 (unat k) \<le> unat k + 15" by (simp add: round16_def)
  ultimately show ?thesis using assms by (simp add: heap_init_fields unat_add_small)
qed

text \<open>The bitmap of any machine fits into the fresh heap.\<close>

lemma bitmap_fits: "h < 4294967296 \<Longrightarrow> round16 (((h + 4096) div 4096 + 7) div 8) \<le> 0xFFFE0"
  by (simp add: round16_def)

lemma boot_frames_stage:
  fixes s :: "'a pmm_globals_scheme"
  assumes boot: "bootinfo_wf s" "bootinfo_ready s" "ranges_low (boot_table s)"
    and low: "0x100000 \<le> unat k" "unat k \<le> 0xFF000000"
      "unat (bootinfo_info_address s) + unat (bootinfo_info_size s) \<le> 0xFF000000"
    and h: "h = unat (bootinfo_highest_usable_address_value s)" "0xFFF \<le> h" "h < 0xFFFFF000 \<or> h = 0xFFFFFFFF"
    and u: "u = steps [boot_stage i n up y no, heap_init k, boot_stage i' n' up' y' no'] s"
  shows "\<exists>t. pmm_init k u = Some t \<and> heap_inv t \<and> pages_ok t \<and> free_set t = boot_frames (boot_table s) k t \<and>
    unat (heap_end_address t) \<le> unat k + 0x10000F \<and>
    heap_start_ptr t = heap_align_up k 16 \<and> heap_end_ptr t = heap_align_up k 16 + 0x100000 \<and>
    bootinfo_info_address t = bootinfo_info_address s \<and> bootinfo_info_size t = bootinfo_info_size s"
proof -
  define a where "a = boot_stage i n up y no s"
  have a: "log_globals.more a = log_globals.more s" unfolding a_def by (intro log_more) simp
  have e: "log_globals.more u = log_globals.more (heap_init k a)" unfolding u a_def by (simp, intro log_more) simp
  note v = memory_viewD [OF memory_more(1) [OF e]] and w = memory_viewD [OF memory_more(1) [OF a]]
  have k: "k \<noteq> 0" using low(1) by auto
  have hp: "heap_inv u" "heap_blocks u = [(round16 (unat k), 0xFFFE0, True)]"
    using heap_init_inv [OF k, of a] low(2) by (simp_all add: v)
  have he: "unat (heap_end_ptr u) \<le> unat k + 0x10000F" using heap_init_region [OF low(2)] by (simp add: v)
  have b: "bootinfo_wf u" "bootinfo_ready u" "boot_table u = boot_table s"
    "bootinfo_info_address u = bootinfo_info_address s" "bootinfo_info_size u = bootinfo_info_size s"
    "h = unat (bootinfo_highest_usable_address u)"
    using boot h(1)
    by (simp_all add: v w memory_more [OF e] memory_more [OF a] heap_init_keeps bootinfo_highest_usable_address_def)
  have r: "reserved_low k u" using low he by (simp add: reserved_low_def b)
  have room: "(round16 (unat k), 0xFFFE0, True) \<in> set (heap_blocks u)"
    "round16 (((h + 4096) div 4096 + 7) div 8) \<le> 0xFFFE0"
    using hp(2) bitmap_fits [of h] h(3) by auto
  obtain t j where t: "pmm_init k u = Some t" "pmm_ready t" "pmm_inv t" "heap_inv t"
    "unat (pmm_total_frames t) = (h + 4096) div 4096"
    "free_set t = {f \<in> available_frames (boot_table s). f < pmm_total_frames t} - reserved_frames k u"
    "heap_start_ptr t = heap_start_ptr u" "heap_end_ptr t = heap_end_ptr u"
    "heap_live t (pmm_bitmap t) = Some j" "(unat (pmm_total_frames t) + 7) div 8 \<le> j"
    "bootinfo_info_address t = bootinfo_info_address s" "bootinfo_info_size t = bootinfo_info_size s"
    using init_frees [OF hp(1) b(1,2) boot(3) [folded b(3)] r h(2,3) b(6) room] unfolding b(3-5)
    by (elim exE conjE) (rule that, assumption+)
  have rf: "reserved_frames k t = reserved_frames k u" using t(7,8,11,12) b by (simp add: reserved_frames_def)
  have "pages_ok t" using pmm_init_pages_ok [OF t(4,3,2,9,10), of k] t(6) rf low(1) by auto
  moreover have "h = fold max (map (\<lambda>(a, n). a + n - 1) (available (boot_table s))) 0"
    using boot(1) h(1) by (simp add: bootinfo_wf_def)
  then have "free_set t = boot_frames (boot_table s) k t"
    unfolding t(6) boot_frames_def rf by (simp add: word_less_nat_alt t(5))
  moreover have "unat (heap_end_address t) \<le> unat k + 0x10000F" using he t(8) by (simp add: heap_end_address_def)
  moreover have "heap_start_ptr t = heap_align_up k 16" "heap_end_ptr t = heap_align_up k 16 + 0x100000"
    using t(7,8) by (simp_all add: v heap_init_fields)
  ultimately show ?thesis using t(1,4,11,12) by blast
qed

end
