(* ===== verification/Spec2Isabelle.thy ===== *)
theory Spec2Isabelle
  imports Terminal_Props Kheap_Props Bootinfo Block_Props Mount_Props Paging_Props Scheduler_Props Queue_Props Shell_Props
    Sound_Props Boot_Props
begin

text \<open>
  A verification development for the termob kernel, a 32 bit x86 kernel in C that boots through
  Multiboot2 and runs a shell on the text screen. Paths below are under \<^verbatim>\<open>src/src/kernel\<close>.

  \<^bold>\<open>The program.\<close> \<^verbatim>\<open>kernel_main\<close> (\<^verbatim>\<open>core/kernel.c\<close>) starts the serial port and the log, reads the boot
  loader's memory map, sets up the heap behind the kernel image, the frame allocator on a bitmap in the
  heap, and identity paging on frames. On top of the heap stand the driver model with its PCI, virtio
  and audio drivers, the registry of block devices, and the threads of the scheduler. Interrupts of the
  timer, the keyboard and the mouse count ticks and fill ring buffers; the main loop drains the
  buffers, runs shell commands, which read disks through the FAT reader, and dispatches the threads.

  \<^bold>\<open>The state.\<close> The static variables of a C file are the fields of one record, and the records extend
  each other in the order of the files: terminal, log, heap, boot information, frame allocator, paging,
  block devices, scheduler, ports, timer, speaker, interrupt table, driver model, PCI, virtio, audio, mouse,
  screen, keyboard. An operation is a function on every extension of the record it needs, so components
  compose without lifting. Memory is one map from addresses to bytes. The headers of the heap, the nodes of
  the device list and the task control blocks are records at their addresses, in maps of their own: that
  writing such a record changes no byte of a payload is part of the model, and what the heap's
  theorems add is that the addresses do not overlap. Machine integers are words of their width, so
  sums wrap where the code's do. A loop that may run forever gives \<^verbatim>\<open>None\<close> when it does, with the
  exception named at the end; a shell command also says whether it halted the machine. Devices are the parameter \<open>hw\<close> of type \<open>hardware\<close>: the value of
  every read is a function of all port accesses so far.

  \<^bold>\<open>The theories.\<close>
  \<^item> \<open>Kernel_Prelude\<close>: machine integers, alignment, little-endian memory, linked lists in memory.
    \<open>Console\<close>: the number printers and sequences of calls. \<open>Ring_Queue\<close> and \<open>Registry\<close>: the interfaces of a ring
    buffer and of a list of registered devices, as locales.
  \<^item> \<open>Terminal\<close> (\<^verbatim>\<open>drivers/terminal.c\<close>), with \<open>Terminal_Spec\<close> and \<open>Terminal_Props\<close>: the screen shows the history
    lines that the view selects, and writing implements a terminal of lines with a cursor.
  \<^item> \<open>Klog\<close> (\<^verbatim>\<open>core/klog.c\<close>, \<^verbatim>\<open>drivers/serial.c\<close>): the log keeps the last characters written.
  \<^item> \<open>Kheap\<close> (\<^verbatim>\<open>core/heap.c\<close>), with \<open>Kheap_Inv\<close>, \<open>Kheap_Alloc\<close>, \<open>Kheap_Free\<close>, \<open>Kheap_Spec\<close>, \<open>Kheap_Contract\<close>,
    \<open>Kheap_Check\<close> and \<open>Kheap_Props\<close>: allocation and release implement first fit and full coalescing on the
    list of blocks, the invariant is what the integrity check decides, and the locale \<open>allocator\<close> gives its
    clients sequences of calls that are safe and do not leak. Where rounding a size wraps, the theorems on
    \<^verbatim>\<open>kmalloc\<close> and \<^verbatim>\<open>kcalloc\<close> say what the caller gets.
  \<^item> \<open>Bootinfo\<close> (\<^verbatim>\<open>core/bootinfo.c\<close>): the parser terminates on well-formed blocks and fills the table.
  \<^item> \<open>Pmm\<close> (\<^verbatim>\<open>core/pmm.c\<close>), \<open>Pmm_Inv\<close>, \<open>Pmm_Props\<close>: frames are counted and handed out once, and the free frames after
    initialisation are the available ones outside the reserved regions.
  \<^item> \<open>Paging\<close> (\<^verbatim>\<open>core/paging.c\<close>), \<open>Paging_Props\<close>: the processor's walk over the tables is the identity.
  \<^item> \<open>Block\<close> (\<^verbatim>\<open>core/block.c\<close>), \<open>Block_Props\<close>; \<open>Fat_Names\<close>, \<open>Fat\<close>, \<open>Fat_Dir\<close>, \<open>Fat_File\<close> (\<^verbatim>\<open>fs/fat.c\<close>), with \<open>Fat_Table\<close>,
    \<open>Fat_Chain\<close>, \<open>Fat_Props\<close> and \<open>Mount_Props\<close>: registration implements a registry on the linked list of nodes; a
    mounted volume is well formed, table entries are read as they were encoded, and reading a file
    delivers its bytes, up to the 256 clusters that the reader remembers. The device reads a set
    of its sectors, and the theorems ask that it contains those they need.
  \<^item> \<open>Scheduler\<close> (\<^verbatim>\<open>core/scheduler.c\<close>, \<^verbatim>\<open>boot/scheduler.asm\<close>), \<open>Scheduler_Inv\<close>, \<open>Scheduler_Props\<close>: one task runs at a time,
    dispatch is round robin, and no ready task is passed over by as many dispatches as there are tasks.
  \<^item> \<open>Ports\<close>, \<open>Timer\<close> (\<^verbatim>\<open>core/pic.c\<close>, \<^verbatim>\<open>core/timer.c\<close>), \<open>Sound\<close> (\<^verbatim>\<open>drivers/sound.c\<close>), \<open>Sound_Props\<close>: sounds end and leave
    the speaker off. \<open>Panic\<close> (\<^verbatim>\<open>core/panic.c\<close>, \<^verbatim>\<open>core/fault.c\<close>, \<^verbatim>\<open>core/idt.c\<close>).
  \<^item> \<open>Driver\<close> (\<^verbatim>\<open>core/driver.c\<close>, \<^verbatim>\<open>core/device.c\<close>, \<^verbatim>\<open>drivers/dummy_pci.c\<close>), \<open>Pci\<close> (\<^verbatim>\<open>core/pci.c\<close>), \<open>Virtio\<close> (\<^verbatim>\<open>drivers/virtio.c\<close>),
    \<open>Audio\<close> (\<^verbatim>\<open>drivers/audio.c\<close>): models only.
  \<^item> \<open>Mouse\<close> (\<^verbatim>\<open>drivers/mouse.c\<close>); \<open>Keyboard_Edit\<close>, \<open>Keyboard_Disk\<close>, \<open>Keyboard_Shell\<close>, \<open>Keyboard\<close> (\<^verbatim>\<open>drivers/keyboard.c\<close>,
    \<^verbatim>\<open>core/irq.c\<close>); with \<open>Editor_Props\<close>, \<open>Shell_Props\<close> and \<open>Queue_Props\<close>: the input line is a text with a cursor,
    numbers survive printing and reading, the rings are queues, the mouse decoder finds the packets, and
    interrupts between turns only append and count, with all other state as it was.
  \<^item> \<open>Kernel_Ui\<close>, \<open>Kernel\<close> (\<^verbatim>\<open>core/kernel.c\<close>): the screen, the two threads, boot, and a turn of the main loop.
    \<open>Frames\<close>: what the terminal leaves alone, and the state before boot. \<open>Example_Machine\<close>: a machine for the
    examples. \<open>Boot_Props\<close> and the end of this theory: the boot of the memory system as a whole.

  \<^bold>\<open>Bounds.\<close> The walk of a cluster chain is bounded by the table of 256 visited clusters of the code; what
  a longer file gives is part of the theorem on reading.
  The waits of the mouse and of the reboot count down the constants of the code. The depth of nested
  probes is one, which is enough: the child of a virtio device is on the virtio bus, whose only driver
  registers no device. Bounds on addresses in the hypotheses keep the 32 bit sums from wrapping;
  where they do wrap, the behaviour is stated in its own lemma.

  \<^bold>\<open>Not modelled.\<close> The entry code \<^verbatim>\<open>boot/boot.asm\<close> and the interrupt stubs of \<^verbatim>\<open>boot/idt.asm\<close>, apart from the load of
  the table: they save registers and call the C functions that are modelled. Interrupts that arrive while a
  turn of the main loop runs, apart from the timer ticks that polling loops wait for: a turn is one
  step, and interrupts come between steps. Reads outside an array, where C leaves the result open: the
  model reads a zero byte. The wait of the serial port for an empty transmit register: every operation logs,
  and the model writes the byte at once, so a port that never gets ready is not covered. The block layer calls a
  driver's read function through a pointer; in the model the pointer is a function from the sector number
  to the bytes or to failure, fixed when the device is registered, so a device whose sectors change under the
  reader is not covered, nor is what a failed read of several sectors leaves in the buffer, which no caller looks
  at. The read function of the virtio driver, with its queue, its wait and its memory, is the definition
  \<open>virtio_blk_block_read\<close>; the function that the driver registers is the field \<open>ki_block_read\<close> of the image and
  stands for the sectors it delivers. Compiler, linker script and build files. No properties are stated of the
  driver model, PCI, virtio, audio and panic screens, whose definitions are models of the code.
\<close>

section \<open>The boot of the memory system\<close>

definition example_image :: kernel_image where
  "example_image = \<lparr>ki_kernel_end = 0x14F800, ki_serial_echo = 0xAE, ki_idt_file = ''idt.c'', ki_code_segment = 8,
     ki_exception_stubs = replicate 32 0x101000, ki_idt_address = 0x140000, ki_irq0_stub = 0x102000,
     ki_irq1_stub = 0x102010, ki_irq12_stub = 0x102020, ki_bootstrap = 0x103000, ki_resume = 0x103010,
     ki_housekeeping_task = 0x104000, ki_telemetry_task = 0x104100, ki_block_read = (\<lambda>p lba count. None)\<rparr>"

text \<open>
  C40. The boot of the memory system, from the block the boot loader left in memory to paging. When
  the block is well formed, its available ranges and the kernel lie low enough for the 32 bit sums, and
  the highest available address leaves a whole frame, the boot returns with a valid heap. Paging is on
  exactly when the frames that the memory map declares available, without those of the kernel, the heap
  and the block itself, are more than the page tables need. Then the processor takes every address
  below the limit to itself and faults on all others, the heap lies below the limit, and only such frames
  are free.
\<close>

theorem kernel_boots_memory:
  fixes s :: "'a keyboard_globals_scheme"
  assumes "length (bootinfo_memory_ranges s) = TERMOB_BOOTINFO_MAX_MEMORY_RANGES" "addr \<noteq> 0"
    and "8 \<le> unat (load32 (mem s) addr)" "unat addr + unat (load32 (mem s) addr) \<le> 0xFF000000"
    and "tags_at (mem s) (unat addr + 8) ts (unat addr + unat (load32 (mem s) addr))"
    and "table = take TERMOB_BOOTINFO_MAX_MEMORY_RANGES (concat (map entry_ranges (concat ts)))" "ranges_low table"
    and "h = fold max (map (\<lambda>(a, n). a + n - 1) (available table)) 0" "0xFFF \<le> h" "h < 0xFFFFF000 \<or> h = 0xFFFFFFFF"
    and "0x100000 \<le> unat (ki_kernel_end img)" "unat (ki_kernel_end img) \<le> 0xFF000000"
  shows "\<exists>u. kernel_boot_memory img TERMOB_MULTIBOOT2_MAGIC addr s = Some u \<and> heap_inv u \<and>
    heap_start_ptr u = heap_align_up (ki_kernel_end img) 16 \<and> heap_end_ptr u = heap_start_ptr u + 0x100000 \<and>
    bootinfo_multiboot_info_address u = addr \<and> bootinfo_multiboot_info_size u = load32 (mem s) addr \<and>
    (let frames = boot_frames table (ki_kernel_end img) u; limit = paging_identity_limit_bytes u
     in (paging_is_enabled u \<longleftrightarrow> unat (limit div 0x400000) < card frames) \<and>
        (paging_is_enabled u \<longrightarrow> pages_ok u \<and> free_set u \<subseteq> frames \<and> heap_end_address u \<le> limit \<and>
           (\<forall>w a. page_walk w (mem u) (cpu_cr3 u) a = (if a < limit then Some a else None))))"
proof -
  let ?k = "ki_kernel_end img" and ?n = "load32 (mem s) addr"
  define s1 where "s1 = steps [serial_init (ki_serial_echo img), klog_init, kernel_ui_draw_boot_banner,
    kernel_ui_boot_stage 0 ''serial'' ''COM1 online'' True] s"
  have m1: "mem s1 = mem s" "bootinfo_memory_ranges s1 = bootinfo_memory_ranges s"
    unfolding s1_def by (rule memory_more(2,3) [OF boot_start_more])+
  obtain s2 where s2: "bootinfo_init TERMOB_MULTIBOOT2_MAGIC addr s1 = Some s2" "bootinfo_wf s2" "boot_table s2 = table"
    "bootinfo_ready s2 \<longleftrightarrow> table \<noteq> []" "bootinfo_info_address s2 = addr" "bootinfo_info_size s2 = ?n"
    using bootinfo_init_spec [of s1 addr ts] assms(1-6) unfolding m1 by auto
  have h: "h = unat (bootinfo_highest_usable_address_value s2)" using s2(2,3) assms(8) by (simp add: bootinfo_wf_def)
  have "table \<noteq> []" using assms(8,9) by (auto simp: available_def)
  then obtain t where t: "pmm_init ?k (steps
         [boot_stage 1 ''multiboot2'' bootinfo_is_valid ''memory map ready'' ''memory map unavailable'',
          heap_init ?k,
          boot_stage 2 ''heap'' heap_is_initialized ''allocator ready'' ''allocator offline''] s2) = Some t"
      "heap_inv t" "pages_ok t" "free_set t = boot_frames table ?k t" "unat (heap_end_address t) \<le> unat ?k + 0x10000F"
      "bootinfo_info_address t = addr" "bootinfo_info_size t = ?n"
      "heap_start_ptr t = heap_align_up ?k 16" "heap_end_ptr t = heap_align_up ?k 16 + 0x100000"
    using boot_frames_stage [OF s2(2) _ _ assms(11,12) _ h assms(9,10) HOL.refl] s2(3-6) assms(4,7) by fastforce
  define u where "u = steps
       [boot_stage 3 ''pmm'' pmm_is_initialized ''frame allocator ready'' ''frame allocator unavailable'',
        paging_init,
        boot_stage 4 ''paging'' paging_is_enabled ''bootstrap mapping active'' ''paging unavailable''] t"
  have "paging_identity_limit_bytes t \<noteq> 0"
    using identity_limit_nonzero [of t] t(5-7) assms(4,12) by simp
  from boot_paging_stage [OF t(3,2) this u_def]
  have v: "memory_view u = memory_view t" and p: "paging_ready u \<longleftrightarrow> unat (paging_identity_limit_bytes t div 0x400000) < card (free_set t)"
    "paging_ready u \<longrightarrow> pages_ok u \<and> free_set u \<subseteq> free_set t \<and> heap_end_address t \<le> paging_identity_limit_bytes t \<and>
       (\<forall>w a. page_walk w (mem u) (cpu_cr3 u) a = (if a < paging_identity_limit_bytes t then Some a else None))"
    by blast+
  have "kernel_boot_memory img TERMOB_MULTIBOOT2_MAGIC addr s = Some u"
    unfolding kernel_boot_memory_def s1_def [symmetric] s2(1) Option.bind.bind_lunit t(1) u_def ..
  moreover have "boot_frames table ?k u = free_set t" unfolding t(4) boot_frames_def memory_view_limit(2) [OF v] ..
  moreover have "paging_identity_limit_bytes u = paging_identity_limit_bytes t" by (rule memory_view_limit(1) [OF v])
  ultimately show ?thesis
    using p t(2,6-9)
    by (simp add: memory_viewD [OF v] paging_is_enabled_def bootinfo_multiboot_info_address_def bootinfo_multiboot_info_size_def)
qed

theorem kernel_boots_memory_witness:
  "\<exists>u. kernel_boot_memory example_image TERMOB_MULTIBOOT2_MAGIC 16 (zeroed_kernel\<lparr>mem := example_info\<rparr>) = Some u \<and>
     paging_is_enabled u \<and> (\<forall>a. page_walk True (mem u) (cpu_cr3 u) a = (if a < 0x1000000 then Some a else None))"
proof -
  let ?e = "\<lparr>me_addr = 0x100000, me_len = 0xF00000, me_type = 1\<rparr>" and ?r = "[(0x100000, 0xF00000, 1)]"
  let ?s = "zeroed_kernel\<lparr>mem := example_info\<rparr>" and ?k = "0x14F800 :: u32"
  have l: "load32 example_info 16 = 64" "load32 example_info 24 = 6" "load32 example_info 28 = 40"
    "load32 example_info 32 = 24" "load32 example_info 64 = 0" "mmap_entry_at example_info 40 = ?e"
    by (simp_all add: load32_def le32_def example_info_def mmap_entry_at_def load64_def push_bit_eq_mult)
  have t: "tags_at (mem ?s) (unat (16 :: u32) + 8) [[?e]] (unat (16 :: u32) + unat (load32 (mem ?s) 16))"
    by (simp add: l Let_def round8_def)
  have r: "?r = take TERMOB_BOOTINFO_MAX_MEMORY_RANGES (concat (map entry_ranges (concat [[?e]])))"
    by (simp add: entry_ranges_def clip_entry_def TERMOB_BOOTINFO_MAX_MEMORY_RANGES_def)
  have n: "length (bootinfo_memory_ranges ?s) = TERMOB_BOOTINFO_MAX_MEMORY_RANGES" by (simp add: zeroed_kernel_defs)
  have h: "0xFFFFFF = fold max (map (\<lambda>(a, n). a + n - 1) (available ?r)) 0" by (simp add: available_def)
  have low: "ranges_low ?r" by (simp add: ranges_low_def available_def)
  obtain u where u: "kernel_boot_memory example_image TERMOB_MULTIBOOT2_MAGIC 16 ?s = Some u"
      "heap_start_ptr u = 0x14F800" "heap_end_ptr u = 0x24F800"
      "bootinfo_multiboot_info_address u = 16" "bootinfo_multiboot_info_size u = 64"
    and p: "paging_is_enabled u \<longleftrightarrow> unat (paging_identity_limit_bytes u div 0x400000) < card (boot_frames ?r ?k u)"
      "paging_is_enabled u \<longrightarrow> (\<forall>w a. page_walk w (mem u) (cpu_cr3 u) a = (if a < paging_identity_limit_bytes u then Some a else None))"
    using kernel_boots_memory [OF n _ _ _ t r low h, of example_image]
    by (auto simp: l example_image_def heap_align_up_def Let_def)
  have lim: "paging_identity_limit_bytes u = 0x1000000"
    by (simp add: paging_identity_limit_bytes_def heap_end_address_def u paging_align_up_u32_def)
  have "{0x250, 0x251, 0x252, 0x253, 0x254} \<subseteq> boot_frames ?r ?k u"
    using u by (auto simp: boot_frames_def available_frames_def available_def frames_inside_def reserved_frames_def
        frames_touching_def page_up_def bootinfo_multiboot_info_address_def bootinfo_multiboot_info_size_def)
  moreover have "finite (boot_frames ?r ?k u)" by simp
  ultimately have "card {0x250, 0x251, 0x252, 0x253, 0x254 :: u32} \<le> card (boot_frames ?r ?k u)" by (intro card_mono)
  then have "paging_is_enabled u" using p(1) lim by simp
  then show ?thesis using u(1) p(2) lim by auto
qed

end
